(* ===== verification/Prelude.thy ===== *)
theory Prelude
  imports
    Main
    "HOL-Library.Word"
    "HOL-Library.Char_ord"
    "HOL-Library.List_Lexorder"
    "HOL-Library.Product_Lexorder"
    "HOL-Library.Sublist"
begin

unbundle bit_operations_syntax

text \<open>
  What every theory of the development shares: machine-integer types, Rust's \<open>Result\<close> with
  the \<open>?\<close> operator and its early returns, the sorted association list that stands for
  \<open>BTreeMap\<close> / \<open>BTreeSet\<close>, and the collections of simplification rules.
\<close>

named_theorems ok_simps "when a computation in Result returns Ok"
named_theorems policy_ok "what an accepted section of the policy guarantees"
named_theorems delta_defs "unfolding of the comparators of the authority delta"
named_theorems bpf_step "one step of the filter machine"

section \<open>Machine integers\<close>

type_synonym u8 = "8 word"
type_synonym u16 = "16 word"
type_synonym u32 = "32 word"
type_synonym u64 = "64 word"
type_synonym usize = nat

text \<open>\<open>usize::checked_add\<close> on a 64-bit target.\<close>

definition checked_add_usize :: "usize \<Rightarrow> usize \<Rightarrow> usize option" where
  "checked_add_usize a b = (if a + b < 2 ^ 64 then Some (a + b) else None)"

definition in_range :: "'a::order \<Rightarrow> 'a \<Rightarrow> 'a \<Rightarrow> bool" where
  "in_range lo hi x \<longleftrightarrow> lo \<le> x \<and> x \<le> hi"

section \<open>Result\<close>

type_synonym ('a, 'e) result = "'e + 'a"

abbreviation Ok :: "'a \<Rightarrow> ('a, 'e) result" where
  "Ok \<equiv> Inr"

abbreviation Err :: "'e \<Rightarrow> ('a, 'e) result" where
  "Err \<equiv> Inl"

text \<open>\<open>m?\<close> followed by the rest of the function.\<close>

definition and_then :: "('a, 'e) result \<Rightarrow> ('a \<Rightarrow> ('b, 'e) result) \<Rightarrow> ('b, 'e) result" where
  "and_then m f = (case m of Inl e \<Rightarrow> Inl e | Inr x \<Rightarrow> f x)"

text \<open>\<open>option.ok_or_else(e)\<close>.\<close>

definition ok_or :: "'e \<Rightarrow> 'a option \<Rightarrow> ('a, 'e) result" where
  "ok_or e x = (case x of None \<Rightarrow> Inl e | Some v \<Rightarrow> Inr v)"

text \<open>\<open>if b { return Err(e); }\<close>.\<close>

definition reject :: "bool \<Rightarrow> 'e \<Rightarrow> (unit, 'e) result" where
  "reject b e = (if b then Inl e else Inr ())"

text \<open>A block of statements that each may return early; the first error wins.\<close>

fun checks :: "(unit, 'e) result list \<Rightarrow> (unit, 'e) result" where
  "checks [] = Inr ()"
| "checks (r # rs) = (case r of Inl e \<Rightarrow> Inl e | Inr _ \<Rightarrow> checks rs)"

declare checks.simps(2) [simp del]

text \<open>\<open>for x in xs { body(x)?; }\<close>.\<close>

definition for_each :: "('a \<Rightarrow> (unit, 'e) result) \<Rightarrow> 'a list \<Rightarrow> (unit, 'e) result" where
  "for_each body xs = checks (map body xs)"

text \<open>
  A loop that carries an accumulator: \<open>for x in xs { acc = body(acc, x)?; }\<close>.
\<close>

fun fold_result :: "('b \<Rightarrow> 'a \<Rightarrow> ('b, 'e) result) \<Rightarrow> 'b \<Rightarrow> 'a list \<Rightarrow> ('b, 'e) result" where
  "fold_result body acc [] = Inr acc"
| "fold_result body acc (x # xs) =
     (case body acc x of Inl e \<Rightarrow> Inl e | Inr acc' \<Rightarrow> fold_result body acc' xs)"

text \<open>
  The pairwise loop \<open>for (i, l) in xs.iter().enumerate() { for r in xs.iter().skip(i + 1) }\<close>.
\<close>

fun for_each_pair :: "('a \<Rightarrow> 'a \<Rightarrow> (unit, 'e) result) \<Rightarrow> 'a list \<Rightarrow> (unit, 'e) result" where
  "for_each_pair body [] = Inr ()"
| "for_each_pair body (x # xs) = checks [for_each (body x) xs, for_each_pair body xs]"

text \<open>
  The loop with \<open>let mut seen = BTreeSet::new()\<close>: \<open>before\<close> and \<open>after\<close> are the checks of the
  body on either side of \<open>if !seen.insert(key) { return Err(dup) }\<close>.
\<close>

fun for_each_unique :: "('a \<Rightarrow> 'k) \<Rightarrow> ('a \<Rightarrow> (unit, 'e) result) \<Rightarrow> ('a \<Rightarrow> 'e) \<Rightarrow>
    ('a \<Rightarrow> (unit, 'e) result) \<Rightarrow> 'k list \<Rightarrow> 'a list \<Rightarrow> (unit, 'e) result" where
  "for_each_unique key before dup after seen [] = Inr ()"
| "for_each_unique key before dup after seen (x # xs) =
     checks [before x, reject (key x \<in> set seen) (dup x), after x,
             for_each_unique key before dup after (key x # seen) xs]"

section \<open>BTreeMap and BTreeSet as sorted association lists\<close>

type_synonym ('k, 'v) btreemap = "('k \<times> 'v) list"
type_synonym 'k btreeset = "'k list"

definition btree_ok :: "('k::linorder, 'v) btreemap \<Rightarrow> bool" where
  "btree_ok m \<longleftrightarrow> sorted_wrt (<) (map fst m)"

definition btree_get :: "('k, 'v) btreemap \<Rightarrow> 'k \<Rightarrow> 'v option" where
  "btree_get m k = map_of m k"

text \<open>\<open>insert\<close> replaces the value of a present key; its result, the old value, is \<open>btree_get\<close>.\<close>

fun btree_insert :: "'k::linorder \<Rightarrow> 'v \<Rightarrow> ('k, 'v) btreemap \<Rightarrow> ('k, 'v) btreemap" where
  "btree_insert k v [] = [(k, v)]"
| "btree_insert k v ((k', v') # m) =
     (if k < k' then (k, v) # (k', v') # m
      else if k = k' then (k, v) # m
      else (k', v') # btree_insert k v m)"

definition btreeset_ok :: "'k::linorder btreeset \<Rightarrow> bool" where
  "btreeset_ok s \<longleftrightarrow> sorted_wrt (<) s"

fun btreeset_insert :: "'k::linorder \<Rightarrow> 'k btreeset \<Rightarrow> 'k btreeset" where
  "btreeset_insert k [] = [k]"
| "btreeset_insert k (x # s) =
     (if k < x then k # x # s else if k = x then x # s else x # btreeset_insert k s)"

section \<open>Lemmas on machine integers\<close>

lemma unat_ucast_u32_u64: "unat (ucast (w :: u32) :: u64) = unat w"
proof -
  have "uint (ucast w :: u64) = uint w" by transfer (simp add: take_bit_take_bit)
  then show ?thesis by (metis nat_uint_eq)
qed

section \<open>Lemmas on Result\<close>

lemma and_then_Ok_iff [ok_simps]:
  "and_then m f = Inr y \<longleftrightarrow> (\<exists>x. m = Inr x \<and> f x = Inr y)"
  by (cases m) (auto simp: and_then_def)

lemma ok_or_Ok_iff [ok_simps]: "ok_or e x = Inr v \<longleftrightarrow> x = Some v"
  by (cases x) (auto simp: ok_or_def)

lemma reject_Ok_iff [ok_simps]: "reject b e = Inr () \<longleftrightarrow> \<not> b"
  by (simp add: reject_def)

lemma checks_Nil_Ok [ok_simps]: "checks [] = Inr () \<longleftrightarrow> True"
  by simp

lemma checks_Cons_Ok [ok_simps]: "checks (r # rs) = Inr () \<longleftrightarrow> r = Inr () \<and> checks rs = Inr ()"
  by (cases r) (auto simp: checks.simps(2))

lemma checks_Ok_iff: "checks rs = Inr () \<longleftrightarrow> (\<forall>r\<in>set rs. r = Inr ())"
  by (induction rs) (auto simp: checks_Cons_Ok)

lemma for_each_Ok_iff [ok_simps]: "for_each body xs = Inr () \<longleftrightarrow> (\<forall>x\<in>set xs. body x = Inr ())"
  by (auto simp: for_each_def checks_Ok_iff)

lemma for_each_pair_Ok_iff [ok_simps]:
  "for_each_pair body xs = Inr () \<longleftrightarrow> sorted_wrt (\<lambda>x y. body x y = Inr ()) xs"
  by (induction xs) (auto simp: checks_Cons_Ok for_each_Ok_iff)

lemma for_each_unique_Ok_iff:
  "for_each_unique key before dup after seen xs = Inr () \<longleftrightarrow>
     (\<forall>x\<in>set xs. before x = Inr () \<and> after x = Inr ()) \<and>
     distinct (map key xs) \<and> key ` set xs \<inter> set seen = {}"
proof (induction xs arbitrary: seen)
  case Nil
  show ?case by simp
next
  case (Cons x xs)
  show ?case
    by (auto simp: checks_Cons_Ok reject_Ok_iff Cons.IH)
qed

lemma for_each_unique_Ok [ok_simps]:
  "for_each_unique key before dup after [] xs = Inr () \<longleftrightarrow>
     (\<forall>x\<in>set xs. before x = Inr () \<and> after x = Inr ()) \<and> distinct (map key xs)"
  by (simp add: for_each_unique_Ok_iff)

lemma fold_result_append:
  "fold_result body acc (xs @ ys) =
     and_then (fold_result body acc xs) (\<lambda>acc'. fold_result body acc' ys)"
  by (induction xs arbitrary: acc) (auto simp: and_then_def split: sum.splits)

text \<open>An invariant of the accumulator that every round keeps.\<close>

lemma fold_result_invariant:
  assumes "fold_result body acc xs = Inr acc'" and "P acc"
    and "\<And>a x a'. P a \<Longrightarrow> x \<in> set xs \<Longrightarrow> body a x = Inr a' \<Longrightarrow> P a'"
  shows "P acc'"
  using assms
proof (induction xs arbitrary: acc)
  case Nil
  then show ?case by simp
next
  case (Cons x xs)
  from Cons.prems(1) obtain a where a: "body acc x = Inr a" and rest: "fold_result body a xs = Inr acc'"
    by (auto split: sum.splits)
  have "P a" using Cons.prems(2) Cons.prems(3) [OF _ _ a] by simp
  moreover have "\<And>b y b'. P b \<Longrightarrow> y \<in> set xs \<Longrightarrow> body b y = Inr b' \<Longrightarrow> P b'"
    using Cons.prems(3) by (meson list.set_intros(2))
  ultimately show ?case using Cons.IH [OF rest] by blast
qed

section \<open>The ordered map\<close>

text \<open>
  The contract of \<open>BTreeMap\<close> that the rest of the program relies on: lookup after insertion,
  and an order invariant that insertion keeps.
\<close>

locale ordered_map =
  fixes empty_map :: "'m"
    and insert_map :: "'k \<Rightarrow> 'v \<Rightarrow> 'm \<Rightarrow> 'm"
    and get_map :: "'m \<Rightarrow> 'k \<Rightarrow> 'v option"
    and invar_map :: "'m \<Rightarrow> bool"
  assumes get_empty: "get_map empty_map k = None"
    and get_insert: "get_map (insert_map k v m) k' = (if k' = k then Some v else get_map m k')"
    and invar_empty: "invar_map empty_map"
    and invar_insert: "invar_map m \<Longrightarrow> invar_map (insert_map k v m)"
begin

text \<open>Inserting a sequence of keyed values, the way the policy parser fills its maps.\<close>

lemma get_after_inserts:
  "get_map (fold (\<lambda>(k, v) m. insert_map k v m) kvs m) k =
     (case map_of (rev kvs) k of Some v \<Rightarrow> Some v | None \<Rightarrow> get_map m k)"
proof (induction kvs arbitrary: m)
  case Nil
  show ?case by simp
next
  case (Cons kv kvs)
  show ?case
    by (cases kv) (auto simp: Cons.IH get_insert map_add_def split: option.splits)
qed

lemma invar_after_inserts:
  "invar_map m \<Longrightarrow> invar_map (fold (\<lambda>(k, v) m. insert_map k v m) kvs m)"
proof (induction kvs arbitrary: m)
  case Nil
  then show ?case by simp
next
  case (Cons kv kvs)
  then show ?case by (cases kv) (simp add: invar_insert)
qed

end

lemma set_fst_btree_insert: "fst ` set (btree_insert k v m) = insert k (fst ` set m)"
  by (induction k v m rule: btree_insert.induct) auto

lemma btree_ok_insert: "btree_ok m \<Longrightarrow> btree_ok (btree_insert k v m)"
proof (induction k v m rule: btree_insert.induct)
  case (1 k v)
  show ?case by (simp add: btree_ok_def)
next
  case (2 k v k' v' m)
  have below: "\<forall>x\<in>fst ` set m. k' < x"
    using "2.prems" by (auto simp: btree_ok_def)
  show ?case
    using "2.prems" "2.IH" below set_fst_btree_insert [of k v m]
    by (auto simp: btree_ok_def)
qed

lemma btree_ok_distinct: "btree_ok m \<Longrightarrow> distinct (map fst m)"
  by (auto simp: btree_ok_def strict_sorted_iff)

lemma btree_get_insert:
  "btree_get (btree_insert k v m) k' = (if k' = k then Some v else btree_get m k')"
  by (induction k v m rule: btree_insert.induct) (auto simp: btree_get_def)

lemma set_btreeset_insert: "set (btreeset_insert k s) = insert k (set s)"
  by (induction k s rule: btreeset_insert.induct) auto

lemma btreeset_ok_insert: "btreeset_ok s \<Longrightarrow> btreeset_ok (btreeset_insert k s)"
proof (induction k s rule: btreeset_insert.induct)
  case (1 k)
  show ?case by (simp add: btreeset_ok_def)
next
  case (2 k x s)
  then show ?case
    by (auto simp: btreeset_ok_def set_btreeset_insert)
qed

interpretation btree: ordered_map "[]" btree_insert btree_get btree_ok
  by unfold_locales
    (simp add: btree_get_def, rule btree_get_insert, simp add: btree_ok_def, rule btree_ok_insert)

lemma btree_get_eq_Some: "btree_ok m \<Longrightarrow> btree_get m k = Some v \<longleftrightarrow> (k, v) \<in> set m"
  by (simp add: btree_get_def btree_ok_distinct)

end
