(* ===== verification/Rust_Str.thy ===== *)
theory Rust_Str
  imports Prelude
begin

text \<open>
  The parts of \<open>core::str\<close> and of the integer parsers that the policy reader uses. A \<open>str\<close> is
  the list of its UTF-8 bytes, one HOL \<open>char\<close> per byte, so that \<open>len\<close> is \<open>length\<close> and the
  order of strings is the bytewise lexicographic one.
\<close>

section \<open>Definitions\<close>

abbreviation newline :: char where
  "newline \<equiv> CHR 0x0A"

abbreviation carriage_return :: char where
  "carriage_return \<equiv> CHR 0x0D"

text \<open>\<open>str::lines\<close>: the final line end is optional and a line end may be preceded by one CR.\<close>

definition strip_cr :: "string \<Rightarrow> string" where
  "strip_cr s = (if s \<noteq> [] \<and> last s = carriage_return then butlast s else s)"

fun lines_from :: "string \<Rightarrow> string \<Rightarrow> string list" where
  "lines_from acc [] = (if acc = [] then [] else [rev acc])"
| "lines_from acc (c # cs) =
     (if c = newline then strip_cr (rev acc) # lines_from [] cs else lines_from (c # acc) cs)"

definition str_lines :: "string \<Rightarrow> string list" where
  "str_lines s = lines_from [] s"

text \<open>\<open>str::split(char)\<close>, \<open>split_once\<close>, \<open>rsplit_once\<close>, \<open>strip_prefix\<close>.\<close>

fun split_on :: "char \<Rightarrow> string \<Rightarrow> string list" where
  "split_on d [] = [[]]"
| "split_on d (c # cs) =
     (if c = d then [] # split_on d cs
      else case split_on d cs of [] \<Rightarrow> [[c]] | seg # segs \<Rightarrow> (c # seg) # segs)"

fun split_once :: "char \<Rightarrow> string \<Rightarrow> (string \<times> string) option" where
  "split_once d [] = None"
| "split_once d (c # cs) =
     (if c = d then Some ([], cs)
      else map_option (\<lambda>(l, r). (c # l, r)) (split_once d cs))"

definition rsplit_once :: "char \<Rightarrow> string \<Rightarrow> (string \<times> string) option" where
  "rsplit_once d s = map_option (\<lambda>(l, r). (rev r, rev l)) (split_once d (rev s))"

definition strip_prefix :: "string \<Rightarrow> string \<Rightarrow> string option" where
  "strip_prefix p s = (if prefix p s then Some (drop (length p) s) else None)"

text \<open>
  The UTF-8 encodings of the code points with the Unicode property White\_Space, which
  \<open>str::trim\<close> removes at both ends.
\<close>

definition white_space :: "string list" where
  "white_space =
     [[CHR 0x09], [CHR 0x0A], [CHR 0x0B], [CHR 0x0C], [CHR 0x0D], [CHR 0x20],
      [CHR 0xC2, CHR 0x85], [CHR 0xC2, CHR 0xA0], [CHR 0xE1, CHR 0x9A, CHR 0x80],
      [CHR 0xE2, CHR 0x80, CHR 0x80], [CHR 0xE2, CHR 0x80, CHR 0x81],
      [CHR 0xE2, CHR 0x80, CHR 0x82], [CHR 0xE2, CHR 0x80, CHR 0x83],
      [CHR 0xE2, CHR 0x80, CHR 0x84], [CHR 0xE2, CHR 0x80, CHR 0x85],
      [CHR 0xE2, CHR 0x80, CHR 0x86], [CHR 0xE2, CHR 0x80, CHR 0x87],
      [CHR 0xE2, CHR 0x80, CHR 0x88], [CHR 0xE2, CHR 0x80, CHR 0x89],
      [CHR 0xE2, CHR 0x80, CHR 0x8A], [CHR 0xE2, CHR 0x80, CHR 0xA8],
      [CHR 0xE2, CHR 0x80, CHR 0xA9], [CHR 0xE2, CHR 0x80, CHR 0xAF],
      [CHR 0xE2, CHR 0x81, CHR 0x9F], [CHR 0xE3, CHR 0x80, CHR 0x80]]"

function trim_left :: "string list \<Rightarrow> string \<Rightarrow> string" where
  "trim_left ws s =
     (case find (\<lambda>w. w \<noteq> [] \<and> prefix w s) ws of
        None \<Rightarrow> s
      | Some w \<Rightarrow> trim_left ws (drop (length w) s))"
  by pat_completeness auto
termination
proof (relation "measure (\<lambda>(ws, s). length s)")
  fix ws s and w :: string
  assume "find (\<lambda>w. w \<noteq> [] \<and> prefix w s) ws = Some w"
  then have "w \<noteq> []" and "prefix w s"
    by (auto simp: find_Some_iff)
  then show "((ws, drop (length w) s), (ws, s)) \<in> measure (\<lambda>(ws, s). length s)"
    by (auto simp: prefix_def)
qed simp

declare trim_left.simps [simp del]

definition trim_start :: "string \<Rightarrow> string" where
  "trim_start s = trim_left white_space s"

definition trim_end :: "string \<Rightarrow> string" where
  "trim_end s = rev (trim_left (map rev white_space) (rev s))"

definition trim :: "string \<Rightarrow> string" where
  "trim s = trim_end (trim_start s)"

text \<open>Byte classes.\<close>

definition char_between :: "char \<Rightarrow> char \<Rightarrow> char \<Rightarrow> bool" where
  "char_between lo hi c \<longleftrightarrow> of_char lo \<le> (of_char c :: nat) \<and> of_char c \<le> (of_char hi :: nat)"

definition is_ascii_digit :: "char \<Rightarrow> bool" where
  "is_ascii_digit c \<longleftrightarrow> char_between CHR ''0'' CHR ''9'' c"

definition is_ascii_lowercase :: "char \<Rightarrow> bool" where
  "is_ascii_lowercase c \<longleftrightarrow> char_between CHR ''a'' CHR ''z'' c"

definition is_ascii_uppercase :: "char \<Rightarrow> bool" where
  "is_ascii_uppercase c \<longleftrightarrow> char_between CHR ''A'' CHR ''Z'' c"

definition is_ascii_alphanumeric :: "char \<Rightarrow> bool" where
  "is_ascii_alphanumeric c \<longleftrightarrow> is_ascii_digit c \<or> is_ascii_lowercase c \<or> is_ascii_uppercase c"

definition is_ascii :: "string \<Rightarrow> bool" where
  "is_ascii s \<longleftrightarrow> list_all (\<lambda>c. (of_char c :: nat) < 128) s"

text \<open>\<open>char::to_digit\<close> for a radix up to 16.\<close>

definition to_digit :: "nat \<Rightarrow> char \<Rightarrow> nat option" where
  "to_digit radix c =
     (let d = (if is_ascii_digit c then Some (of_char c - 48)
               else if char_between CHR ''a'' CHR ''f'' c then Some (of_char c - 87)
               else if char_between CHR ''A'' CHR ''F'' c then Some (of_char c - 55)
               else None)
      in case d of None \<Rightarrow> None | Some n \<Rightarrow> if n < radix then Some n else None)"

text \<open>
  \<open>from_str_radix\<close> of an unsigned type with values below \<open>bound\<close>: an optional plus sign, at
  least one digit, every digit valid, no overflow.
\<close>

fun parse_digits :: "nat \<Rightarrow> nat \<Rightarrow> nat \<Rightarrow> string \<Rightarrow> nat option" where
  "parse_digits radix bound acc [] = Some acc"
| "parse_digits radix bound acc (c # cs) =
     (case to_digit radix c of
        None \<Rightarrow> None
      | Some d \<Rightarrow>
          if acc * radix + d < bound then parse_digits radix bound (acc * radix + d) cs
          else None)"

definition parse_unsigned :: "nat \<Rightarrow> nat \<Rightarrow> string \<Rightarrow> nat option" where
  "parse_unsigned radix bound s =
     (case s of
        [] \<Rightarrow> None
      | c # cs \<Rightarrow>
          if c = CHR ''+'' then (if cs = [] then None else parse_digits radix bound 0 cs)
          else parse_digits radix bound 0 s)"

definition u64_from_str_radix :: "string \<Rightarrow> nat \<Rightarrow> u64 option" where
  "u64_from_str_radix s radix = map_option of_nat (parse_unsigned radix (2 ^ 64) s)"

definition u64_from_str :: "string \<Rightarrow> u64 option" where
  "u64_from_str s = map_option of_nat (parse_unsigned 10 (2 ^ 64) s)"

definition u32_from_str :: "string \<Rightarrow> u32 option" where
  "u32_from_str s = map_option of_nat (parse_unsigned 10 (2 ^ 32) s)"

definition u8_from_str :: "string \<Rightarrow> u8 option" where
  "u8_from_str s = map_option of_nat (parse_unsigned 10 (2 ^ 8) s)"

text \<open>
  \<open>Ipv4Addr::from_str\<close>: four octets of one to three decimal digits without a superfluous
  leading zero, each at most 255, separated by dots.
\<close>

definition parse_octet :: "string \<Rightarrow> u8 option" where
  "parse_octet s =
     (if s = [] \<or> 3 < length s \<or> (1 < length s \<and> hd s = CHR ''0'') then None
      else map_option of_nat (parse_digits 10 256 0 s))"

type_synonym ipv4 = "u8 \<times> u8 \<times> u8 \<times> u8"

definition ipv4_from_str :: "string \<Rightarrow> ipv4 option" where
  "ipv4_from_str s =
     (case map parse_octet (split_on CHR ''.'' s) of
        [Some a, Some b, Some c, Some d] \<Rightarrow> Some (a, b, c, d)
      | _ \<Rightarrow> None)"

text \<open>\<open>Display\<close> of an unsigned integer.\<close>

fun decimal :: "nat \<Rightarrow> string" where
  "decimal n = (if n < 10 then [char_of (48 + n)] else decimal (n div 10) @ [char_of (48 + n mod 10)])"

declare decimal.simps [simp del]

section \<open>Splitting and joining\<close>

lemma split_on_not_Nil [simp]: "split_on d s \<noteq> []"
  by (induction s) (auto split: list.splits)

lemma split_on_no_sep: "seg \<in> set (split_on d s) \<Longrightarrow> d \<notin> set seg"
proof (induction s arbitrary: seg)
  case Nil
  then show ?case by simp
next
  case (Cons c cs)
  obtain x xs where x: "split_on d cs = x # xs"
    using split_on_not_Nil [of d cs] by (cases "split_on d cs") auto
  then show ?case
    using Cons.prems Cons.IH [of x] Cons.IH [of seg] by (auto split: if_splits)
qed

lemma split_once_Some: "split_once d s = Some (l, r) \<longleftrightarrow> s = l @ d # r \<and> d \<notin> set l"
proof (induction s arbitrary: l)
  case Nil
  show ?case by simp
next
  case (Cons c cs)
  show ?case
    by (cases l) (auto simp: Cons.IH)
qed

lemma split_once_None: "split_once d s = None \<longleftrightarrow> d \<notin> set s"
  by (induction s) auto

lemma rsplit_once_Some: "rsplit_once d s = Some (l, r) \<longleftrightarrow> s = l @ d # r \<and> d \<notin> set r"
proof -
  have "rsplit_once d s = Some (l, r) \<longleftrightarrow> split_once d (rev s) = Some (rev r, rev l)"
    by (auto simp: rsplit_once_def)
  also have "\<dots> \<longleftrightarrow> rev s = rev r @ d # rev l \<and> d \<notin> set r"
    by (simp add: split_once_Some)
  also have "rev s = rev r @ d # rev l \<longleftrightarrow> s = l @ d # r"
    by (metis append_Cons append_assoc append_self_conv2 rev.simps(2) rev_append rev_rev_ident)
  finally show ?thesis .
qed

section \<open>Numbers\<close>

lemma to_digit_less: "to_digit radix c = Some d \<Longrightarrow> d < radix"
  by (auto simp: to_digit_def Let_def split: if_splits)

lemma to_digit_decimal: "n < 10 \<Longrightarrow> to_digit 10 (char_of (48 + n)) = Some n"
  by (simp add: to_digit_def is_ascii_digit_def char_between_def)

text \<open>The value of a digit string, most significant digit first.\<close>

fun digits_value :: "nat \<Rightarrow> nat \<Rightarrow> string \<Rightarrow> nat" where
  "digits_value radix acc [] = acc"
| "digits_value radix acc (c # cs) = digits_value radix (acc * radix + the (to_digit radix c)) cs"

lemma digits_value_ge: "0 < radix \<Longrightarrow> acc \<le> digits_value radix acc s"
proof (induction s arbitrary: acc)
  case Nil
  then show ?case by simp
next
  case (Cons c cs)
  have "acc \<le> acc * radix + the (to_digit radix c)"
    using Cons.prems by (cases radix) auto
  also have "\<dots> \<le> digits_value radix (acc * radix + the (to_digit radix c)) cs"
    using Cons by blast
  finally show ?case by simp
qed

text \<open>
  The stepwise overflow checks amount to one: a digit string is accepted exactly when every
  byte is a digit and its value is below the bound.
\<close>

lemma parse_digits_iff:
  assumes "0 < radix" and "acc < bound"
  shows "parse_digits radix bound acc s = Some n \<longleftrightarrow>
    list_all (\<lambda>c. to_digit radix c \<noteq> None) s \<and> digits_value radix acc s = n \<and> n < bound"
  using assms
proof (induction s arbitrary: acc)
  case Nil
  then show ?case by auto
next
  case (Cons c cs)
  show ?case
  proof (cases "to_digit radix c")
    case None
    then show ?thesis by simp
  next
    case (Some d)
    show ?thesis
    proof (cases "acc * radix + d < bound")
      case True
      then show ?thesis using Some Cons.IH [of "acc * radix + d"] Cons.prems by simp
    next
      case False
      then have "bound \<le> digits_value radix (acc * radix + d) cs"
        using digits_value_ge [OF Cons.prems(1), of "acc * radix + d" cs] by linarith
      then show ?thesis using Some False by auto
    qed
  qed
qed

lemma parse_digits_append:
  "parse_digits radix bound acc (s @ t) =
     Option.bind (parse_digits radix bound acc s) (\<lambda>n. parse_digits radix bound n t)"
  by (induction s arbitrary: acc) (auto split: option.splits)

lemma decimal_not_Nil [simp]: "decimal n \<noteq> []"
  by (subst decimal.simps) simp

lemma hd_decimal: "\<exists>m::nat. m < 10 \<and> hd (decimal n) = char_of (48 + m)"
proof (induction n rule: decimal.induct)
  case (1 n)
  show ?case
  proof (cases "n < 10")
    case True
    then show ?thesis by (subst decimal.simps) auto
  next
    case False
    then obtain m :: nat where "m < 10" and "hd (decimal (n div 10)) = char_of (48 + m)"
      using 1 by blast
    then show ?thesis using False by (subst decimal.simps) auto
  qed
qed

lemma parse_digits_decimal: "n < bound \<Longrightarrow> parse_digits 10 bound 0 (decimal n) = Some n"
proof (induction n rule: decimal.induct)
  case (1 n)
  show ?case
  proof (cases "n < 10")
    case True
    then show ?thesis using 1 by (subst decimal.simps) (simp add: to_digit_decimal)
  next
    case False
    then have "parse_digits 10 bound 0 (decimal (n div 10)) = Some (n div 10)"
      using 1 by simp
    moreover have "n div 10 * 10 + n mod 10 = n" by simp
    ultimately show ?thesis using False "1.prems"
      by (subst decimal.simps) (simp add: parse_digits_append to_digit_decimal)
  qed
qed

text \<open>Printing and reading back.\<close>

lemma parse_unsigned_decimal:
  assumes "n < bound"
  shows "parse_unsigned 10 bound (decimal n) = Some n"
proof -
  obtain c cs where s: "decimal n = c # cs"
    using decimal_not_Nil by (meson neq_Nil_conv)
  obtain m :: nat where "m < 10" and "c = char_of (48 + m)"
    using hd_decimal [of n] s by auto
  then have "(of_char c :: nat) \<noteq> of_char CHR ''+''"
    by (simp add: of_char_of)
  then have "c \<noteq> CHR ''+''" by blast
  then show ?thesis
    using parse_digits_decimal [OF assms] s by (simp add: parse_unsigned_def)
qed

lemma parse_unsigned_bound: "0 < radix \<Longrightarrow> parse_unsigned radix bound s = Some n \<Longrightarrow> 0 < bound \<Longrightarrow> n < bound"
  by (auto simp: parse_unsigned_def parse_digits_iff simp del: parse_digits.simps(2)
      split: list.splits if_splits)

lemma u64_from_str_unat:
  assumes "u64_from_str s = Some w"
  shows "parse_unsigned 10 (2 ^ 64) s = Some (unat w)"
proof -
  obtain n where n: "parse_unsigned 10 (2 ^ 64) s = Some n" and w: "w = of_nat n"
    using assms by (auto simp: u64_from_str_def)
  have "n < 2 ^ 64" using parse_unsigned_bound [OF _ n] by simp
  then have "unat w = n" unfolding w by (simp add: unat_of_nat)
  then show ?thesis using n by simp
qed

end
