(* ===== verification/Paths.thy ===== *)
theory Paths
  imports Rust_Str
begin

text \<open>
  \<open>std::path\<close> on Unix. A \<open>PathBuf\<close> is a byte string; \<open>==\<close>, \<open>starts_with\<close> and the order all
  work on its components, so that \<open>//a/./b\<close> and \<open>/a/b\<close> are the same path.
\<close>

section \<open>Definitions\<close>

type_synonym pathbuf = string

datatype component = RootDir | CurDir | ParentDir | Normal string

text \<open>
  \<open>Path::components\<close>: empty segments and inner \<open>.\<close> segments vanish, a leading \<open>.\<close> of a
  relative path is kept.
\<close>

definition segment_components :: "string \<Rightarrow> component list" where
  "segment_components s =
     (if s = [] \<or> s = ''.'' then []
      else if s = ''..'' then [ParentDir]
      else [Normal s])"

definition is_absolute :: "pathbuf \<Rightarrow> bool" where
  "is_absolute p \<longleftrightarrow> prefix ''/'' p"

definition components :: "pathbuf \<Rightarrow> component list" where
  "components p =
     (let segs = split_on CHR ''/'' p;
          body = concat (map segment_components segs)
      in if is_absolute p then RootDir # body
         else if hd segs = ''.'' then CurDir # body
         else body)"

definition path_eq :: "pathbuf \<Rightarrow> pathbuf \<Rightarrow> bool" where
  "path_eq p q \<longleftrightarrow> components p = components q"

definition path_starts_with :: "pathbuf \<Rightarrow> pathbuf \<Rightarrow> bool" where
  "path_starts_with p base \<longleftrightarrow> prefix (components base) (components p)"

text \<open>The recurring test \<open>a.starts_with(b) || b.starts_with(a)\<close>.\<close>

definition overlaps :: "pathbuf \<Rightarrow> pathbuf \<Rightarrow> bool" where
  "overlaps p q \<longleftrightarrow> path_starts_with p q \<or> path_starts_with q p"

text \<open>The derived order of \<open>Component\<close>.\<close>

fun component_key :: "component \<Rightarrow> nat \<times> string" where
  "component_key RootDir = (0, [])"
| "component_key CurDir = (1, [])"
| "component_key ParentDir = (2, [])"
| "component_key (Normal s) = (3, s)"

lemma component_key_inject [simp]: "component_key a = component_key b \<longleftrightarrow> a = b"
  by (cases a; cases b) auto

instantiation component :: linorder
begin

definition less_eq_component :: "component \<Rightarrow> component \<Rightarrow> bool" where
  "a \<le> b \<longleftrightarrow> component_key a \<le> component_key b"

definition less_component :: "component \<Rightarrow> component \<Rightarrow> bool" where
  "a < b \<longleftrightarrow> component_key a < component_key b"

instance
  by standard
    (auto simp: less_eq_component_def less_component_def intro: antisym dest: order_antisym)

end

section \<open>Lemmas\<close>

lemma path_starts_with_refl [simp]: "path_starts_with p p"
  by (simp add: path_starts_with_def)

lemma path_starts_with_trans:
  "path_starts_with p q \<Longrightarrow> path_starts_with q r \<Longrightarrow> path_starts_with p r"
  unfolding path_starts_with_def by (rule prefix_order.trans)

lemma path_starts_with_antisym:
  "path_starts_with p q \<Longrightarrow> path_starts_with q p \<Longrightarrow> path_eq p q"
  by (simp add: path_starts_with_def path_eq_def prefix_order.eq_iff)

lemma overlaps_sym: "overlaps p q \<longleftrightarrow> overlaps q p"
  by (auto simp: overlaps_def)

lemma overlaps_refl [simp]: "overlaps p p"
  by (simp add: overlaps_def)

lemma path_eq_overlaps: "path_eq p q \<Longrightarrow> overlaps p q"
  by (simp add: overlaps_def path_starts_with_def path_eq_def)

text \<open>
  The overlap test is what it should be: two paths overlap exactly when some path lies beneath
  both of them.
\<close>

lemma overlaps_iff_common_descendant:
  "overlaps p q \<longleftrightarrow> (\<exists>r. path_starts_with r p \<and> path_starts_with r q)"
proof
  assume "overlaps p q"
  then show "\<exists>r. path_starts_with r p \<and> path_starts_with r q"
    unfolding overlaps_def using path_starts_with_refl by blast
next
  assume "\<exists>r. path_starts_with r p \<and> path_starts_with r q"
  then show "overlaps p q"
    unfolding overlaps_def path_starts_with_def by (meson prefix_same_cases)
qed

text \<open>Hence disjoint paths stay disjoint below.\<close>

lemma not_overlaps_below:
  "\<not> overlaps p q \<Longrightarrow> path_starts_with p' p \<Longrightarrow> path_starts_with q' q \<Longrightarrow> \<not> overlaps p' q'"
  unfolding overlaps_iff_common_descendant by (meson path_starts_with_trans)

lemma components_root [simp]: "components ''/'' = [RootDir]"
  by (simp add: components_def is_absolute_def segment_components_def)

lemma is_absolute_components: "is_absolute p \<longleftrightarrow> (\<exists>cs. components p = RootDir # cs)"
proof -
  have "RootDir \<notin> set (concat (map segment_components (split_on CHR ''/'' p)))"
    by (auto simp: segment_components_def split: if_splits)
  then have "concat (map segment_components (split_on CHR ''/'' p)) \<noteq> RootDir # cs" for cs
    by (metis list.set_intros(1))
  then show ?thesis
    by (simp add: components_def Let_def)
qed

text \<open>The root is above every absolute path, so it overlaps all of them.\<close>

lemma absolute_starts_with_root: "is_absolute p \<Longrightarrow> path_starts_with p ''/''"
  by (auto simp: is_absolute_components path_starts_with_def)

end
