(* ===== verification/Policy_Model.thy ===== *)
theory Policy_Model
  imports Paths
begin

text \<open>
  The data of \<open>policy.rs\<close>: limits, stdio dispositions, seccomp rules, volume bindings, the
  sandbox policy with all its fields in the order of the struct, policy errors, and the
  normalisation of the legacy single-pair fields.
\<close>

section \<open>Bounds\<close>

definition MAX_ARGS :: usize where "MAX_ARGS = 64"
definition MAX_ARG_BYTES :: usize where "MAX_ARG_BYTES = 4096"
definition MAX_ENV :: usize where "MAX_ENV = 64"
definition MAX_ENV_VALUE_BYTES :: usize where "MAX_ENV_VALUE_BYTES = 8192"
definition MAX_HOSTNAME_BYTES :: usize where "MAX_HOSTNAME_BYTES = 63"
definition MAX_SYSCALLS :: usize where "MAX_SYSCALLS = 128"
definition MAX_SECCOMP_ARG_RULES :: usize where "MAX_SECCOMP_ARG_RULES = 64"
definition MAX_SELECTED_HANDLES :: usize where "MAX_SELECTED_HANDLES = 16"
definition MAX_EXECUTABLE_NEEDED_BINDINGS :: usize where "MAX_EXECUTABLE_NEEDED_BINDINGS = 8"
definition MAX_PERSISTENT_VOLUME_BINDINGS :: usize where "MAX_PERSISTENT_VOLUME_BINDINGS = 8"
definition MAX_LANDLOCK_READ_EXECUTE_PATHS :: usize where "MAX_LANDLOCK_READ_EXECUTE_PATHS = 32"
definition MAX_LANDLOCK_FILE_MUTATE_PATHS :: usize where "MAX_LANDLOCK_FILE_MUTATE_PATHS = 32"
definition MAX_LANDLOCK_PATH_TOPOLOGY_MUTATE_PATHS :: usize where
  "MAX_LANDLOCK_PATH_TOPOLOGY_MUTATE_PATHS = 32"
definition MAX_LANDLOCK_DEVICE_IOCTL_PATHS :: usize where "MAX_LANDLOCK_DEVICE_IOCTL_PATHS = 32"
definition MAX_LANDLOCK_TCP_PORTS :: usize where "MAX_LANDLOCK_TCP_PORTS = 32"
definition MIN_SELECTED_TARGET_FD :: u32 where "MIN_SELECTED_TARGET_FD = 3"
definition MAX_SELECTED_TARGET_FD :: u32 where "MAX_SELECTED_TARGET_FD = 63"
definition MIN_SCRATCH_BYTES :: u64 where "MIN_SCRATCH_BYTES = 4096"
definition MAX_SCRATCH_BYTES :: u64 where "MAX_SCRATCH_BYTES = 1024 * 1024 * 1024"
definition MIN_COW_ROOT_BYTES :: u64 where "MIN_COW_ROOT_BYTES = 4096"
definition MAX_COW_ROOT_BYTES :: u64 where "MAX_COW_ROOT_BYTES = 1024 * 1024 * 1024"
definition MIN_COW_DIFF_BYTES :: u64 where "MIN_COW_DIFF_BYTES = 64"
definition MAX_COW_DIFF_BYTES :: u64 where "MAX_COW_DIFF_BYTES = 16 * 1024 * 1024"
definition MIN_COW_BASE_IDENTITY_BYTES :: u64 where "MIN_COW_BASE_IDENTITY_BYTES = 1"
definition MAX_COW_BASE_IDENTITY_BYTES :: u64 where "MAX_COW_BASE_IDENTITY_BYTES = 1024 * 1024 * 1024"
definition MIN_COW_BASE_IDENTITY_NODES :: u64 where "MIN_COW_BASE_IDENTITY_NODES = 1"
definition MAX_COW_BASE_IDENTITY_NODES :: u64 where "MAX_COW_BASE_IDENTITY_NODES = 100000"
definition MIN_CAPTURE_BYTES :: u64 where "MIN_CAPTURE_BYTES = 1"
definition MAX_CAPTURE_BYTES :: u64 where "MAX_CAPTURE_BYTES = 16 * 1024 * 1024"
definition MAX_STDOUT_TOTAL_BYTES :: u64 where "MAX_STDOUT_TOTAL_BYTES = 1024 * 1024 * 1024"
definition MAX_TIME_OFFSET_SECONDS :: u64 where "MAX_TIME_OFFSET_SECONDS = 365 * 24 * 60 * 60"
definition MIN_WALL_CLOCK_MILLISECONDS :: u64 where "MIN_WALL_CLOCK_MILLISECONDS = 1"
definition MAX_WALL_CLOCK_MILLISECONDS :: u64 where
  "MAX_WALL_CLOCK_MILLISECONDS = 24 * 60 * 60 * 1000"

lemmas policy_bounds =
  MAX_ARGS_def MAX_ARG_BYTES_def MAX_ENV_def MAX_ENV_VALUE_BYTES_def MAX_HOSTNAME_BYTES_def
  MAX_SYSCALLS_def MAX_SECCOMP_ARG_RULES_def MAX_SELECTED_HANDLES_def
  MAX_EXECUTABLE_NEEDED_BINDINGS_def MAX_PERSISTENT_VOLUME_BINDINGS_def
  MAX_LANDLOCK_READ_EXECUTE_PATHS_def MAX_LANDLOCK_FILE_MUTATE_PATHS_def
  MAX_LANDLOCK_PATH_TOPOLOGY_MUTATE_PATHS_def MAX_LANDLOCK_DEVICE_IOCTL_PATHS_def
  MAX_LANDLOCK_TCP_PORTS_def MIN_SELECTED_TARGET_FD_def MAX_SELECTED_TARGET_FD_def
  MIN_SCRATCH_BYTES_def MAX_SCRATCH_BYTES_def MIN_COW_ROOT_BYTES_def MAX_COW_ROOT_BYTES_def
  MIN_COW_DIFF_BYTES_def MAX_COW_DIFF_BYTES_def MIN_COW_BASE_IDENTITY_BYTES_def
  MAX_COW_BASE_IDENTITY_BYTES_def MIN_COW_BASE_IDENTITY_NODES_def
  MAX_COW_BASE_IDENTITY_NODES_def MIN_CAPTURE_BYTES_def MAX_CAPTURE_BYTES_def
  MAX_STDOUT_TOTAL_BYTES_def MAX_TIME_OFFSET_SECONDS_def MIN_WALL_CLOCK_MILLISECONDS_def
  MAX_WALL_CLOCK_MILLISECONDS_def

section \<open>Data\<close>

record resource_limits =
  cpu_seconds :: u64
  address_space_bytes :: u64
  file_size_bytes :: u64
  open_files :: u64

datatype stdio_mode = Inherit | Closed | Redirect | Capture

record stdio_policy =
  stdin :: stdio_mode
  stdout :: stdio_mode
  stderr :: stdio_mode

record seccomp_arg_rule =
  rule_mask :: u64
  rule_value :: u64

record seccomp_arg_range_rule =
  minimum :: u64
  maximum :: u64

record seccomp_policy =
  allowed_syscalls :: "string btreeset"
  argument_rules :: "(string, (u8, seccomp_arg_rule) btreemap) btreemap"
  argument_range_rules :: "(string, (u8, seccomp_arg_range_rule) btreemap) btreemap"
  argument_forbidden_mask_rules :: "(string, (u8, seccomp_arg_rule) btreemap) btreemap"

record executable_needed_binding =
  needed_path :: pathbuf
  needed_sha256 :: "u8 list"

record persistent_volume_binding =
  volume_source :: pathbuf
  volume_target :: pathbuf

record copy_on_write_volume_binding =
  cow_source :: pathbuf
  cow_target :: pathbuf
  cow_bytes :: u64
  diff_bytes :: "u64 option"
  base_identity_bytes :: "u64 option"
  base_identity_nodes :: "u64 option"

record sandbox_policy =
  root_dir :: pathbuf
  cow_root_bytes :: "u64 option"
  cow_diff_bytes :: "u64 option"
  hostname :: string
  executable :: pathbuf
  executable_sha256 :: "u8 list option"
  executable_interpreter :: "pathbuf option"
  executable_interpreter_sha256 :: "u8 list option"
  executable_needed :: "pathbuf option"
  executable_needed_sha256 :: "u8 list option"
  executable_needed_bindings :: "executable_needed_binding list"
  args :: "string list"
  environment :: "(string, string) btreemap"
  working_dir :: pathbuf
  landlock_read_execute :: "pathbuf list"
  landlock_file_mutate :: "pathbuf list"
  landlock_path_topology_mutate :: "pathbuf list"
  landlock_device_ioctl :: "pathbuf list"
  landlock_tcp_bind_ports :: "u16 list"
  landlock_tcp_connect_ports :: "u16 list"
  landlock_scope_abstract_unix_socket :: bool
  landlock_scope_signal :: bool
  loopback_enabled :: bool
  procfs_enabled :: bool
  host_loopback_tcp_port :: "u16 option"
  host_loopback_tcp_target_fd :: "u32 option"
  host_ipv4_tcp_address :: "ipv4 option"
  host_ipv4_tcp_port :: "u16 option"
  host_ipv4_tcp_target_fd :: "u32 option"
  host_ipv4_udp_address :: "ipv4 option"
  host_ipv4_udp_port :: "u16 option"
  host_ipv4_udp_target_fd :: "u32 option"
  host_unix_stream_path :: "pathbuf option"
  host_unix_stream_target_fd :: "u32 option"
  host_unix_stream_peer_uid :: "u32 option"
  host_unix_stream_peer_gid :: "u32 option"
  host_loopback_tcp_listen_port :: "u16 option"
  host_loopback_tcp_listen_target_fd :: "u32 option"
  readonly_volume_source :: "pathbuf option"
  readonly_volume_target :: "pathbuf option"
  readonly_volume_bindings :: "persistent_volume_binding list"
  writable_volume_source :: "pathbuf option"
  writable_volume_target :: "pathbuf option"
  writable_volume_bindings :: "persistent_volume_binding list"
  copy_on_write_volume_bindings :: "copy_on_write_volume_binding list"
  scratch_dir :: "pathbuf option"
  scratch_bytes :: "u64 option"
  stdio :: stdio_policy
  selected_handles :: "(u32, u32) btreemap"
  stdout_redirect :: "pathbuf option"
  stdout_capture_bytes :: "u64 option"
  stdout_total_bytes :: "u64 option"
  time_monotonic_offset_seconds :: "u64 option"
  time_boottime_offset_seconds :: "u64 option"
  wall_clock_milliseconds :: "u64 option"
  limits :: resource_limits
  seccomp :: seccomp_policy

text \<open>
  \<open>PolicyError\<close>: the line, if any, and the message as the template of the \<open>format!\<close> call with
  its arguments in order of appearance.
\<close>

datatype fmt_arg = FNat nat | FStr string | FDebug string | FPath pathbuf

record policy_error =
  err_line :: "nat option"
  message :: string
  message_args :: "fmt_arg list"

definition policy_error_at :: "nat \<Rightarrow> string \<Rightarrow> fmt_arg list \<Rightarrow> policy_error" where
  "policy_error_at line msg as = \<lparr>err_line = Some line, message = msg, message_args = as\<rparr>"

definition policy_error_new :: "string \<Rightarrow> fmt_arg list \<Rightarrow> policy_error" where
  "policy_error_new msg as = \<lparr>err_line = None, message = msg, message_args = as\<rparr>"

section \<open>Normalised bindings\<close>

definition normalized_executable_needed_bindings ::
  "sandbox_policy \<Rightarrow> executable_needed_binding list" where
  "normalized_executable_needed_bindings p =
     (if executable_needed_bindings p \<noteq> [] then executable_needed_bindings p
      else case (executable_needed p, executable_needed_sha256 p) of
             (Some path, Some sha) \<Rightarrow> [\<lparr>needed_path = path, needed_sha256 = sha\<rparr>]
           | _ \<Rightarrow> [])"

definition normalized_readonly_volume_bindings ::
  "sandbox_policy \<Rightarrow> persistent_volume_binding list" where
  "normalized_readonly_volume_bindings p =
     (if readonly_volume_bindings p \<noteq> [] then readonly_volume_bindings p
      else case (readonly_volume_source p, readonly_volume_target p) of
             (Some src, Some tgt) \<Rightarrow> [\<lparr>volume_source = src, volume_target = tgt\<rparr>]
           | _ \<Rightarrow> [])"

definition normalized_writable_volume_bindings ::
  "sandbox_policy \<Rightarrow> persistent_volume_binding list" where
  "normalized_writable_volume_bindings p =
     (if writable_volume_bindings p \<noteq> [] then writable_volume_bindings p
      else case (writable_volume_source p, writable_volume_target p) of
             (Some src, Some tgt) \<Rightarrow> [\<lparr>volume_source = src, volume_target = tgt\<rparr>]
           | _ \<Rightarrow> [])"

section \<open>The type invariant of the maps\<close>

text \<open>
  Every \<open>BTreeMap\<close> and \<open>BTreeSet\<close> of a policy is ordered by its keys. In Rust the types
  guarantee it; here it is an invariant, which the parser establishes.
\<close>

definition rule_maps_ok :: "(string, (u8, 'r) btreemap) btreemap \<Rightarrow> bool" where
  "rule_maps_ok m \<longleftrightarrow> btree_ok m \<and> (\<forall>(s, rules)\<in>set m. btree_ok rules)"

definition seccomp_maps_ok :: "seccomp_policy \<Rightarrow> bool" where
  "seccomp_maps_ok s \<longleftrightarrow>
     btreeset_ok (allowed_syscalls s) \<and> rule_maps_ok (argument_rules s) \<and>
     rule_maps_ok (argument_range_rules s) \<and> rule_maps_ok (argument_forbidden_mask_rules s)"

definition policy_maps_ok :: "sandbox_policy \<Rightarrow> bool" where
  "policy_maps_ok p \<longleftrightarrow>
     btree_ok (environment p) \<and> btree_ok (selected_handles p) \<and> seccomp_maps_ok (seccomp p)"

lemma rule_maps_okD:
  assumes "rule_maps_ok m" and "btree_get m s = Some rules"
  shows "btree_ok rules"
proof -
  have "(s, rules) \<in> set m"
    using assms by (simp add: rule_maps_ok_def btree_get_eq_Some)
  then show ?thesis using assms(1) by (auto simp: rule_maps_ok_def)
qed

lemma rule_maps_ok_insert:
  assumes "rule_maps_ok m" and "btree_ok rules"
  shows "rule_maps_ok (btree_insert s rules m)"
proof -
  have "set (btree_insert s rules m) \<subseteq> insert (s, rules) (set m)"
    by (induction s rules m rule: btree_insert.induct) auto
  then show ?thesis
    using assms by (auto simp: rule_maps_ok_def btree_ok_insert)
qed

end
