(* ===== verification/Policy_Validate.thy ===== *)
theory Policy_Validate
  imports Policy_Model
begin

text \<open>
  \<open>SandboxPolicy::validate\<close>, one definition per block of the method in the order of the source,
  composed by \<open>validate\<close>; then what an accepted policy guarantees.
\<close>

abbreviation err :: "string \<Rightarrow> policy_error" where
  "err msg \<equiv> policy_error_new msg []"

abbreviation errf :: "string \<Rightarrow> fmt_arg list \<Rightarrow> policy_error" where
  "errf msg as \<equiv> policy_error_new msg as"

section \<open>Helpers\<close>

definition validate_absolute_path :: "string \<Rightarrow> pathbuf \<Rightarrow> (unit, policy_error) result" where
  "validate_absolute_path label path = checks [
     reject (\<not> is_absolute path)
       (errf ''{label} must be an absolute path'' [FStr label]),
     reject (CHR 0x00 \<in> set path)
       (errf ''{label} must not contain NUL bytes'' [FStr label]),
     reject (list_ex (\<lambda>c. c = ParentDir) (components path))
       (errf ''{label} must not contain '..' components'' [FStr label])]"

definition validate_unix_socket_path :: "string \<Rightarrow> pathbuf \<Rightarrow> (unit, policy_error) result" where
  "validate_unix_socket_path label path = checks [
     validate_absolute_path label path,
     reject (108 \<le> length path)
       (errf ''{label} must fit Linux sockaddr_un.sun_path (at most 107 pathname bytes)''
         [FStr label])]"

definition hostname_byte :: "char \<Rightarrow> bool" where
  "hostname_byte c \<longleftrightarrow> is_ascii_alphanumeric c \<or> c = CHR ''-'' \<or> c = CHR ''.''"

definition validate_hostname :: "string \<Rightarrow> (unit, policy_error) result" where
  "validate_hostname name = checks [
     reject (name = [] \<or> MAX_HOSTNAME_BYTES < length name)
       (errf ''identity.hostname must contain between 1 and {MAX_HOSTNAME_BYTES} bytes''
         [FNat MAX_HOSTNAME_BYTES]),
     reject (\<not> list_all hostname_byte name)
       (err (''identity.hostname may contain only ASCII letters, digits, '-' and '.'' @ [CHR 0x27])),
     reject (name \<noteq> [] \<and> (hd name = CHR ''-'' \<or> hd name = CHR ''.'' \<or>
                          last name = CHR ''-'' \<or> last name = CHR ''.''))
       (err ''identity.hostname must start and end with an ASCII letter or digit'')]"

definition valid_syscall_name :: "string \<Rightarrow> bool" where
  "valid_syscall_name name \<longleftrightarrow>
     name \<noteq> [] \<and>
     list_all (\<lambda>c. is_ascii_lowercase c \<or> is_ascii_digit c \<or> c = CHR ''_'') name"

definition valid_env_key :: "string \<Rightarrow> bool" where
  "valid_env_key key \<longleftrightarrow>
     (case key of
        [] \<Rightarrow> False
      | c # cs \<Rightarrow>
          (is_ascii_uppercase c \<or> is_ascii_lowercase c \<or> c = CHR ''_'') \<and>
          list_all (\<lambda>b. is_ascii_alphanumeric b \<or> b = CHR ''_'') cs)"

definition validate_landlock_tcp_ports :: "string \<Rightarrow> u16 list \<Rightarrow> (unit, policy_error) result" where
  "validate_landlock_tcp_ports label ports = checks [
     reject (MAX_LANDLOCK_TCP_PORTS < length ports)
       (errf ''too many {label} entries: {} > {MAX_LANDLOCK_TCP_PORTS}''
         [FStr label, FNat (length ports), FNat MAX_LANDLOCK_TCP_PORTS]),
     for_each_unique id
       (\<lambda>port. reject (port = 0)
          (errf ''{label} must be between 1 and 65535'' [FStr label]))
       (\<lambda>port. errf ''duplicate {label}: {port}'' [FStr label, FNat (unat port)])
       (\<lambda>_. Inr ()) [] ports]"

section \<open>Volumes: shape and number\<close>

definition pair_complete :: "'a option \<Rightarrow> 'b option \<Rightarrow> bool" where
  "pair_complete a b \<longleftrightarrow> (a = None \<longleftrightarrow> b = None)"

definition validate_volume_shape :: "sandbox_policy \<Rightarrow> (unit, policy_error) result" where
  "validate_volume_shape p =
     (let readonly_volumes = normalized_readonly_volume_bindings p;
          writable_volumes = normalized_writable_volume_bindings p;
          cow_volumes = copy_on_write_volume_bindings p
      in checks [
        reject (\<not> pair_complete (readonly_volume_source p) (readonly_volume_target p))
          (err ''volume.readonly_source and volume.readonly_target must be specified together''),
        reject (\<not> pair_complete (writable_volume_source p) (writable_volume_target p))
          (err ''volume.writable_source and volume.writable_target must be specified together''),
        reject (readonly_volume_bindings p \<noteq> [] \<and>
                (readonly_volume_source p \<noteq> None \<or> readonly_volume_target p \<noteq> None))
          (err ''legacy read-only volume pair and readonly_volume_bindings are mutually exclusive''),
        reject (writable_volume_bindings p \<noteq> [] \<and>
                (writable_volume_source p \<noteq> None \<or> writable_volume_target p \<noteq> None))
          (err ''legacy writable volume pair and writable_volume_bindings are mutually exclusive''),
        (case Option.bind (checked_add_usize (length readonly_volumes) (length writable_volumes))
                (\<lambda>count. checked_add_usize count (length cow_volumes)) of
           None \<Rightarrow> Inl (err ''persistent volume binding count overflow'')
         | Some volume_count \<Rightarrow>
             reject (MAX_PERSISTENT_VOLUME_BINDINGS < volume_count)
               (errf ''too many persistent volume bindings: {volume_count} > {MAX_PERSISTENT_VOLUME_BINDINGS}''
                 [FNat volume_count, FNat MAX_PERSISTENT_VOLUME_BINDINGS]))])"

section \<open>Executable bindings\<close>

definition overlap_mounts :: "sandbox_policy \<Rightarrow> pathbuf \<Rightarrow> string \<Rightarrow> string \<Rightarrow> string \<Rightarrow> string
    \<Rightarrow> (unit, policy_error) result" where
  "overlap_mounts p path proc_msg scratch_msg readonly_msg writable_msg = checks [
     reject (procfs_enabled p \<and> overlaps path ''/proc'') (err proc_msg),
     (case scratch_dir p of
        None \<Rightarrow> Inr ()
      | Some scratch \<Rightarrow> reject (overlaps path scratch) (err scratch_msg)),
     for_each (\<lambda>volume. reject (overlaps path (volume_target volume)) (err readonly_msg))
       (normalized_readonly_volume_bindings p),
     for_each (\<lambda>volume. reject (overlaps path (volume_target volume)) (err writable_msg))
       (normalized_writable_volume_bindings p)]"

definition validate_interpreter :: "sandbox_policy \<Rightarrow> (unit, policy_error) result" where
  "validate_interpreter p =
     (case (executable_interpreter p, executable_interpreter_sha256 p) of
        (None, None) \<Rightarrow> Inr ()
      | (Some path, Some _) \<Rightarrow> checks [
          validate_absolute_path ''executable.interpreter'' path,
          reject (executable_sha256 p = None)
            (err ''executable.interpreter requires executable.sha256 so PT_INTERP is read from a content-bound main image''),
          reject (path_eq path ''/'')
            (err ''executable.interpreter must not replace the sandbox root''),
          reject (path_eq path (executable p))
            (err ''executable.interpreter must differ from executable''),
          overlap_mounts p path
            ''executable.interpreter must not overlap filesystem.proc''
            ''executable.interpreter must not overlap filesystem.scratch''
            ''executable.interpreter must not overlap volume.readonly_target''
            ''executable.interpreter must not overlap volume.writable_target'']
      | _ \<Rightarrow> Inl (err ''executable.interpreter and executable.interpreter_sha256 must be specified together''))"

definition validate_needed :: "sandbox_policy \<Rightarrow> (unit, policy_error) result" where
  "validate_needed p =
     (let needed_bindings = normalized_executable_needed_bindings p
      in checks [
        reject (\<not> pair_complete (executable_needed p) (executable_needed_sha256 p))
          (err ''executable.needed and executable.needed_sha256 must be specified together''),
        reject (executable_needed_bindings p \<noteq> [] \<and>
                (executable_needed p \<noteq> None \<or> executable_needed_sha256 p \<noteq> None))
          (err ''legacy executable.needed pair and executable_needed_bindings are mutually exclusive''),
        reject (MAX_EXECUTABLE_NEEDED_BINDINGS < length needed_bindings)
          (errf ''too many executable.needed bindings: {} > {MAX_EXECUTABLE_NEEDED_BINDINGS}''
            [FNat (length needed_bindings), FNat MAX_EXECUTABLE_NEEDED_BINDINGS]),
        reject (needed_bindings \<noteq> [] \<and>
                (executable_sha256 p = None \<or> executable_interpreter p = None \<or>
                 executable_interpreter_sha256 p = None))
          (err ''executable.needed requires content-bound executable.sha256 and executable.interpreter binding''),
        for_each_unique (\<lambda>binding. components (needed_path binding))
          (\<lambda>binding. let path = needed_path binding in checks [
             validate_absolute_path ''executable.needed'' path,
             reject (path_eq path ''/'')
               (err ''executable.needed must not replace the sandbox root''),
             reject (path_eq path (executable p) \<or>
                     (case executable_interpreter p of None \<Rightarrow> False | Some i \<Rightarrow> path_eq i path))
               (err ''executable.needed must differ from executable and executable.interpreter''),
             reject (CHR ''$'' \<in> set path)
               (err ''executable.needed must not contain dynamic-linker $ tokens'')])
          (\<lambda>binding. errf ''duplicate executable.needed path: {}'' [FPath (needed_path binding)])
          (\<lambda>binding. overlap_mounts p (needed_path binding)
             ''executable.needed must not overlap filesystem.proc''
             ''executable.needed must not overlap filesystem.scratch''
             ''executable.needed must not overlap volume.readonly_target''
             ''executable.needed must not overlap volume.writable_target'')
          [] needed_bindings,
        for_each_pair
          (\<lambda>left right. reject (overlaps (needed_path left) (needed_path right))
             (err ''executable.needed paths must not overlap each other''))
          needed_bindings])"

section \<open>Copy-on-write root and procfs\<close>

definition validate_cow_root :: "sandbox_policy \<Rightarrow> (unit, policy_error) result" where
  "validate_cow_root p = checks [
     (case cow_root_bytes p of
        None \<Rightarrow> Inr ()
      | Some bytes \<Rightarrow>
          reject (\<not> in_range MIN_COW_ROOT_BYTES MAX_COW_ROOT_BYTES bytes)
            (errf ''filesystem.cow_root_bytes must be between {MIN_COW_ROOT_BYTES} and {MAX_COW_ROOT_BYTES}''
              [FNat (unat MIN_COW_ROOT_BYTES), FNat (unat MAX_COW_ROOT_BYTES)])),
     (case cow_diff_bytes p of
        None \<Rightarrow> Inr ()
      | Some bytes \<Rightarrow> checks [
          reject (cow_root_bytes p = None)
            (err ''filesystem.cow_diff_bytes requires filesystem.cow_root_bytes''),
          reject (\<not> in_range MIN_COW_DIFF_BYTES MAX_COW_DIFF_BYTES bytes)
            (errf ''filesystem.cow_diff_bytes must be between {MIN_COW_DIFF_BYTES} and {MAX_COW_DIFF_BYTES}''
              [FNat (unat MIN_COW_DIFF_BYTES), FNat (unat MAX_COW_DIFF_BYTES)])])]"

definition validate_procfs :: "sandbox_policy \<Rightarrow> (unit, policy_error) result" where
  "validate_procfs p =
     (if procfs_enabled p then checks [
        reject (path_starts_with (executable p) ''/proc'' \<or> path_starts_with (working_dir p) ''/proc'')
          (err ''filesystem.proc must not hide the executable or working_dir''),
        (case scratch_dir p of
           None \<Rightarrow> Inr ()
         | Some path \<Rightarrow> reject (overlaps path ''/proc'')
             (err ''filesystem.proc must not overlap filesystem.scratch'')),
        for_each (\<lambda>volume. reject (overlaps (volume_target volume) ''/proc'')
            (err ''filesystem.proc must not overlap volume.readonly_target''))
          (normalized_readonly_volume_bindings p),
        for_each (\<lambda>volume. reject (overlaps (volume_target volume) ''/proc'')
            (err ''filesystem.proc must not overlap volume.writable_target''))
          (normalized_writable_volume_bindings p)]
      else Inr ())"

section \<open>Landlock envelopes\<close>

definition validate_landlock_read_execute :: "sandbox_policy \<Rightarrow> (unit, policy_error) result" where
  "validate_landlock_read_execute p = checks [
     reject (MAX_LANDLOCK_READ_EXECUTE_PATHS < length (landlock_read_execute p))
       (errf ''too many landlock.read_execute paths: {} > {MAX_LANDLOCK_READ_EXECUTE_PATHS}''
         [FNat (length (landlock_read_execute p)), FNat MAX_LANDLOCK_READ_EXECUTE_PATHS]),
     (if landlock_read_execute p \<noteq> [] then checks [
        for_each_unique components
          (\<lambda>path. checks [
             validate_absolute_path ''landlock.read_execute'' path,
             reject (path_eq path ''/'')
               (err ''landlock.read_execute must not grant the entire sandbox root'')])
          (\<lambda>path. errf ''duplicate landlock.read_execute path: {}'' [FPath path])
          (\<lambda>_. Inr ()) [] (landlock_read_execute p),
        reject (\<not> list_ex (path_starts_with (executable p)) (landlock_read_execute p))
          (err ''landlock.read_execute must cover the initial executable'')]
      else Inr ())]"

definition validate_landlock_file_mutate :: "sandbox_policy \<Rightarrow> (unit, policy_error) result" where
  "validate_landlock_file_mutate p = checks [
     reject (MAX_LANDLOCK_FILE_MUTATE_PATHS < length (landlock_file_mutate p))
       (errf ''too many landlock.file_mutate paths: {} > {MAX_LANDLOCK_FILE_MUTATE_PATHS}''
         [FNat (length (landlock_file_mutate p)), FNat MAX_LANDLOCK_FILE_MUTATE_PATHS]),
     for_each_unique components
       (\<lambda>path. checks [
          validate_absolute_path ''landlock.file_mutate'' path,
          reject (path_eq path ''/'')
            (err ''landlock.file_mutate must not grant the entire sandbox root'')])
       (\<lambda>path. errf ''duplicate landlock.file_mutate path: {}'' [FPath path])
       (\<lambda>path.
          let in_scratch = (case scratch_dir p of None \<Rightarrow> False | Some s \<Rightarrow> path_eq s path);
              in_writable_volume =
                list_ex (\<lambda>volume. path_starts_with path (volume_target volume))
                  (normalized_writable_volume_bindings p);
              in_copy_on_write_volume =
                list_ex (\<lambda>volume. path_starts_with path (cow_target volume))
                  (copy_on_write_volume_bindings p)
          in reject (\<not> in_scratch \<and> \<not> in_writable_volume \<and> \<not> in_copy_on_write_volume)
               (err ''landlock.file_mutate must be within filesystem.scratch or volume.writable_target or volume.cow_target''))
       [] (landlock_file_mutate p)]"

definition validate_landlock_path_topology_mutate ::
  "sandbox_policy \<Rightarrow> (unit, policy_error) result" where
  "validate_landlock_path_topology_mutate p = checks [
     reject (MAX_LANDLOCK_PATH_TOPOLOGY_MUTATE_PATHS < length (landlock_path_topology_mutate p))
       (errf ''too many landlock.path_topology_mutate paths: {} > {MAX_LANDLOCK_PATH_TOPOLOGY_MUTATE_PATHS}''
         [FNat (length (landlock_path_topology_mutate p)), FNat MAX_LANDLOCK_PATH_TOPOLOGY_MUTATE_PATHS]),
     for_each_unique components
       (\<lambda>path. checks [
          validate_absolute_path ''landlock.path_topology_mutate'' path,
          reject (path_eq path ''/'')
            (err ''landlock.path_topology_mutate must not grant the entire sandbox root'')])
       (\<lambda>path. errf ''duplicate landlock.path_topology_mutate path: {}'' [FPath path])
       (\<lambda>path. reject (\<not> list_ex (\<lambda>mutable. path_eq mutable path) (landlock_file_mutate p))
          (err ''landlock.path_topology_mutate must exactly match a landlock.file_mutate path''))
       [] (landlock_path_topology_mutate p)]"

definition validate_landlock_device_ioctl :: "sandbox_policy \<Rightarrow> (unit, policy_error) result" where
  "validate_landlock_device_ioctl p = checks [
     reject (MAX_LANDLOCK_DEVICE_IOCTL_PATHS < length (landlock_device_ioctl p))
       (errf ''too many landlock.device_ioctl paths: {} > {MAX_LANDLOCK_DEVICE_IOCTL_PATHS}''
         [FNat (length (landlock_device_ioctl p)), FNat MAX_LANDLOCK_DEVICE_IOCTL_PATHS]),
     for_each_unique components
       (\<lambda>path. checks [
          validate_absolute_path ''landlock.device_ioctl'' path,
          reject (path_eq path ''/'')
            (err ''landlock.device_ioctl must not grant the entire sandbox root'')])
       (\<lambda>path. errf ''duplicate landlock.device_ioctl path: {}'' [FPath path])
       (\<lambda>_. Inr ()) [] (landlock_device_ioctl p)]"

definition validate_landlock_ports :: "sandbox_policy \<Rightarrow> (unit, policy_error) result" where
  "validate_landlock_ports p = checks [
     validate_landlock_tcp_ports ''landlock.tcp_bind_port'' (landlock_tcp_bind_ports p),
     validate_landlock_tcp_ports ''landlock.tcp_connect_port'' (landlock_tcp_connect_ports p)]"

section \<open>Launcher-brokered descriptors\<close>

text \<open>
  Every brokered endpoint repeats three tests of its target descriptor; \<open>key\<close> is the policy key
  in the messages and \<open>collision\<close> the message of a clash with a selected handle.
\<close>

definition validate_target_fd :: "sandbox_policy \<Rightarrow> string \<Rightarrow> string \<Rightarrow> u32 \<Rightarrow> (unit, policy_error) result" where
  "validate_target_fd p key collision target_fd = checks [
     reject (\<not> in_range MIN_SELECTED_TARGET_FD MAX_SELECTED_TARGET_FD target_fd)
       (errf (key @ '' must be between {MIN_SELECTED_TARGET_FD} and {MAX_SELECTED_TARGET_FD}: {target_fd}'')
         [FNat (unat MIN_SELECTED_TARGET_FD), FNat (unat MAX_SELECTED_TARGET_FD), FNat (unat target_fd)]),
     reject (open_files (limits p) \<le> ucast target_fd)
       (errf (key @ '' {target_fd} must be below limit.open_files {}'')
         [FNat (unat target_fd), FNat (unat (open_files (limits p)))]),
     reject (btree_get (selected_handles p) target_fd \<noteq> None)
       (errf collision [FNat (unat target_fd)])]"

definition validate_host_loopback_tcp :: "sandbox_policy \<Rightarrow> (unit, policy_error) result" where
  "validate_host_loopback_tcp p =
     (case (host_loopback_tcp_port p, host_loopback_tcp_target_fd p) of
        (None, None) \<Rightarrow> Inr ()
      | (Some port, Some target_fd) \<Rightarrow> checks [
          reject (port = 0) (err ''network.host_loopback_tcp_port must be between 1 and 65535''),
          validate_target_fd p ''network.host_loopback_tcp_target_fd''
            ''network host-loopback target fd {target_fd} collides with a selected handle target''
            target_fd]
      | _ \<Rightarrow> Inl (err ''network.host_loopback_tcp_port and network.host_loopback_tcp_target_fd must be specified together''))"

definition unicast_ipv4 :: "ipv4 \<Rightarrow> bool" where
  "unicast_ipv4 address \<longleftrightarrow> \<not> (fst address = 0 \<or> 224 \<le> fst address)"

definition validate_host_ipv4_tcp :: "sandbox_policy \<Rightarrow> (unit, policy_error) result" where
  "validate_host_ipv4_tcp p =
     (case (host_ipv4_tcp_address p, host_ipv4_tcp_port p, host_ipv4_tcp_target_fd p) of
        (None, None, None) \<Rightarrow> Inr ()
      | (Some address, Some port, Some target_fd) \<Rightarrow> checks [
          reject (\<not> unicast_ipv4 address)
            (err ''network.host_ipv4_tcp_address must be a unicast IPv4 address''),
          reject (port = 0) (err ''network.host_ipv4_tcp_port must be between 1 and 65535''),
          validate_target_fd p ''network.host_ipv4_tcp_target_fd''
            ''network host-IPv4 target fd {target_fd} collides with a selected handle target''
            target_fd,
          reject (host_loopback_tcp_target_fd p = Some target_fd)
            (errf ''network host-IPv4 target fd {target_fd} collides with the brokered host-loopback connection target''
              [FNat (unat target_fd)]),
          reject (host_loopback_tcp_listen_target_fd p = Some target_fd)
            (errf ''network host-IPv4 target fd {target_fd} collides with the brokered host-loopback listener target''
              [FNat (unat target_fd)])]
      | _ \<Rightarrow> Inl (err ''network.host_ipv4_tcp_address, network.host_ipv4_tcp_port, and network.host_ipv4_tcp_target_fd must be specified together''))"

definition validate_host_ipv4_udp :: "sandbox_policy \<Rightarrow> (unit, policy_error) result" where
  "validate_host_ipv4_udp p =
     (case (host_ipv4_udp_address p, host_ipv4_udp_port p, host_ipv4_udp_target_fd p) of
        (None, None, None) \<Rightarrow> Inr ()
      | (Some address, Some port, Some target_fd) \<Rightarrow> checks [
          reject (\<not> unicast_ipv4 address)
            (err ''network.host_ipv4_udp_address must be a unicast IPv4 address''),
          reject (port = 0) (err ''network.host_ipv4_udp_port must be between 1 and 65535''),
          validate_target_fd p ''network.host_ipv4_udp_target_fd''
            ''network host-IPv4 UDP target fd {target_fd} collides with a selected handle target''
            target_fd,
          reject (host_loopback_tcp_target_fd p = Some target_fd)
            (errf ''network host-IPv4 UDP target fd {target_fd} collides with the brokered host-loopback TCP connection target''
              [FNat (unat target_fd)]),
          reject (host_ipv4_tcp_target_fd p = Some target_fd)
            (errf ''network host-IPv4 UDP target fd {target_fd} collides with the brokered host-IPv4 TCP connection target''
              [FNat (unat target_fd)]),
          reject (host_loopback_tcp_listen_target_fd p = Some target_fd)
            (errf ''network host-IPv4 UDP target fd {target_fd} collides with the brokered host-loopback TCP listener target''
              [FNat (unat target_fd)])]
      | _ \<Rightarrow> Inl (err ''network.host_ipv4_udp_address, network.host_ipv4_udp_port, and network.host_ipv4_udp_target_fd must be specified together''))"

definition validate_host_unix_stream :: "sandbox_policy \<Rightarrow> (unit, policy_error) result" where
  "validate_host_unix_stream p =
     (case (host_unix_stream_path p, host_unix_stream_target_fd p) of
        (None, None) \<Rightarrow> Inr ()
      | (Some path, Some target_fd) \<Rightarrow> checks [
          validate_unix_socket_path ''ipc.host_unix_stream_path'' path,
          reject (overlaps path (root_dir p))
            (err ''ipc.host_unix_stream_path must not overlap filesystem.root''),
          validate_target_fd p ''ipc.host_unix_stream_target_fd''
            ''IPC host-UNIX stream target fd {target_fd} collides with a selected handle target''
            target_fd,
          for_each (\<lambda>(label, existing). reject (existing = Some target_fd)
              (errf ''IPC host-UNIX stream target fd {target_fd} collides with the brokered {label} target''
                [FNat (unat target_fd), FStr label]))
            [(''host-loopback TCP connection'', host_loopback_tcp_target_fd p),
             (''host-IPv4 TCP connection'', host_ipv4_tcp_target_fd p),
             (''host-IPv4 UDP connection'', host_ipv4_udp_target_fd p),
             (''host-loopback TCP listener'', host_loopback_tcp_listen_target_fd p)]]
      | _ \<Rightarrow> Inl (err ''ipc.host_unix_stream_path and ipc.host_unix_stream_target_fd must be specified together''))"

definition validate_host_unix_peer :: "sandbox_policy \<Rightarrow> (unit, policy_error) result" where
  "validate_host_unix_peer p =
     (case (host_unix_stream_peer_uid p, host_unix_stream_peer_gid p) of
        (None, None) \<Rightarrow> Inr ()
      | (Some _, Some _) \<Rightarrow>
          reject (host_unix_stream_path p = None \<or> host_unix_stream_target_fd p = None)
            (err ''ipc.host_unix_stream_peer_uid and ipc.host_unix_stream_peer_gid require a brokered host-UNIX stream endpoint'')
      | _ \<Rightarrow> Inl (err ''ipc.host_unix_stream_peer_uid and ipc.host_unix_stream_peer_gid must be specified together''))"

definition validate_host_loopback_listener :: "sandbox_policy \<Rightarrow> (unit, policy_error) result" where
  "validate_host_loopback_listener p =
     (case (host_loopback_tcp_listen_port p, host_loopback_tcp_listen_target_fd p) of
        (None, None) \<Rightarrow> Inr ()
      | (Some port, Some target_fd) \<Rightarrow> checks [
          reject (port = 0) (err ''network.host_loopback_tcp_listen_port must be between 1 and 65535''),
          validate_target_fd p ''network.host_loopback_tcp_listen_target_fd''
            ''network host-loopback listener target fd {target_fd} collides with a selected handle target''
            target_fd,
          reject (host_loopback_tcp_target_fd p = Some target_fd)
            (errf ''network host-loopback listener target fd {target_fd} collides with the brokered connection target''
              [FNat (unat target_fd)])]
      | _ \<Rightarrow> Inl (err ''network.host_loopback_tcp_listen_port and network.host_loopback_tcp_listen_target_fd must be specified together''))"

section \<open>Volumes: placement\<close>

definition validate_readonly_volume ::
  "sandbox_policy \<Rightarrow> persistent_volume_binding \<Rightarrow> (unit, policy_error) result" where
  "validate_readonly_volume p volume = checks [
     validate_absolute_path ''volume.readonly_source'' (volume_source volume),
     validate_absolute_path ''volume.readonly_target'' (volume_target volume),
     reject (overlaps (volume_source volume) (root_dir p))
       (err ''volume.readonly_source must not overlap filesystem.root''),
     reject (path_eq (volume_target volume) ''/'')
       (err ''volume.readonly_target must not replace the sandbox root''),
     reject (path_starts_with (executable p) (volume_target volume) \<or>
             path_starts_with (working_dir p) (volume_target volume))
       (err ''volume.readonly_target must not contain the executable or working_dir''),
     (case scratch_dir p of
        None \<Rightarrow> Inr ()
      | Some scratch \<Rightarrow> reject (overlaps (volume_target volume) scratch)
          (err ''volume.readonly_target must not overlap filesystem.scratch''))]"

definition validate_writable_volume ::
  "sandbox_policy \<Rightarrow> persistent_volume_binding \<Rightarrow> (unit, policy_error) result" where
  "validate_writable_volume p volume = checks [
     validate_absolute_path ''volume.writable_source'' (volume_source volume),
     validate_absolute_path ''volume.writable_target'' (volume_target volume),
     reject (overlaps (volume_source volume) (root_dir p))
       (err ''volume.writable_source must not overlap filesystem.root''),
     reject (path_eq (volume_target volume) ''/'')
       (err ''volume.writable_target must not replace the sandbox root''),
     reject (path_starts_with (executable p) (volume_target volume) \<or>
             path_starts_with (working_dir p) (volume_target volume))
       (err ''volume.writable_target must not contain the executable or working_dir''),
     (case scratch_dir p of
        None \<Rightarrow> Inr ()
      | Some scratch \<Rightarrow> reject (overlaps (volume_target volume) scratch)
          (err ''volume.writable_target must not overlap filesystem.scratch''))]"

definition validate_cow_volume ::
  "sandbox_policy \<Rightarrow> copy_on_write_volume_binding \<Rightarrow> (unit, policy_error) result" where
  "validate_cow_volume p volume = checks [
     validate_absolute_path ''volume.cow_source'' (cow_source volume),
     validate_absolute_path ''volume.cow_target'' (cow_target volume),
     (case diff_bytes volume of
        None \<Rightarrow> Inr ()
      | Some bytes \<Rightarrow>
          reject (\<not> in_range MIN_COW_DIFF_BYTES MAX_COW_DIFF_BYTES bytes)
            (errf ''volume.cow_diff_bytes must be between {MIN_COW_DIFF_BYTES} and {MAX_COW_DIFF_BYTES}''
              [FNat (unat MIN_COW_DIFF_BYTES), FNat (unat MAX_COW_DIFF_BYTES)])),
     (case (base_identity_bytes volume, base_identity_nodes volume) of
        (None, None) \<Rightarrow> Inr ()
      | (Some max_bytes, Some max_nodes) \<Rightarrow> checks [
          reject (diff_bytes volume = None)
            (err ''volume.cow_base_identity_* requires volume.cow_diff_bytes''),
          reject (\<not> in_range MIN_COW_BASE_IDENTITY_BYTES MAX_COW_BASE_IDENTITY_BYTES max_bytes)
            (errf ''volume.cow_base_identity_bytes must be between {MIN_COW_BASE_IDENTITY_BYTES} and {MAX_COW_BASE_IDENTITY_BYTES}''
              [FNat (unat MIN_COW_BASE_IDENTITY_BYTES), FNat (unat MAX_COW_BASE_IDENTITY_BYTES)]),
          reject (\<not> in_range MIN_COW_BASE_IDENTITY_NODES MAX_COW_BASE_IDENTITY_NODES max_nodes)
            (errf ''volume.cow_base_identity_nodes must be between {MIN_COW_BASE_IDENTITY_NODES} and {MAX_COW_BASE_IDENTITY_NODES}''
              [FNat (unat MIN_COW_BASE_IDENTITY_NODES), FNat (unat MAX_COW_BASE_IDENTITY_NODES)])]
      | _ \<Rightarrow> Inl (err ''volume.cow_base_identity_bytes and volume.cow_base_identity_nodes must be specified together'')),
     reject (overlaps (cow_source volume) (root_dir p))
       (err ''volume.cow_source must not overlap filesystem.root''),
     reject (path_eq (cow_target volume) ''/'')
       (err ''volume.cow_target must not replace the sandbox root''),
     reject (path_starts_with (executable p) (cow_target volume) \<or>
             path_starts_with (working_dir p) (cow_target volume))
       (err ''volume.cow_target must not contain the executable or working_dir''),
     reject (\<not> in_range MIN_COW_ROOT_BYTES MAX_COW_ROOT_BYTES (cow_bytes volume))
       (errf ''volume.cow_bytes must be between {MIN_COW_ROOT_BYTES} and {MAX_COW_ROOT_BYTES}''
         [FNat (unat MIN_COW_ROOT_BYTES), FNat (unat MAX_COW_ROOT_BYTES)]),
     (case scratch_dir p of
        None \<Rightarrow> Inr ()
      | Some scratch \<Rightarrow> reject (overlaps (cow_target volume) scratch)
          (err ''volume.cow_target must not overlap filesystem.scratch''))]"

definition all_volume_paths :: "sandbox_policy \<Rightarrow> (pathbuf \<times> pathbuf) list" where
  "all_volume_paths p =
     map (\<lambda>volume. (volume_source volume, volume_target volume)) (normalized_readonly_volume_bindings p) @
     map (\<lambda>volume. (volume_source volume, volume_target volume)) (normalized_writable_volume_bindings p) @
     map (\<lambda>volume. (cow_source volume, cow_target volume)) (copy_on_write_volume_bindings p)"

definition validate_volume_pair ::
  "pathbuf \<times> pathbuf \<Rightarrow> pathbuf \<times> pathbuf \<Rightarrow> (unit, policy_error) result" where
  "validate_volume_pair left right = checks [
     reject (overlaps (snd left) (snd right))
       (err ''persistent volume targets must not overlap each other''),
     reject (overlaps (fst left) (fst right))
       (err ''persistent volume sources must not overlap each other'')]"

definition validate_volumes :: "sandbox_policy \<Rightarrow> (unit, policy_error) result" where
  "validate_volumes p = checks [
     for_each (validate_readonly_volume p) (normalized_readonly_volume_bindings p),
     for_each (validate_writable_volume p) (normalized_writable_volume_bindings p),
     for_each (validate_cow_volume p) (copy_on_write_volume_bindings p),
     for_each_pair validate_volume_pair (all_volume_paths p)]"

section \<open>Scratch, stdio, clocks\<close>

definition validate_scratch :: "sandbox_policy \<Rightarrow> (unit, policy_error) result" where
  "validate_scratch p =
     (case (scratch_dir p, scratch_bytes p) of
        (None, None) \<Rightarrow> Inr ()
      | (Some path, Some bytes) \<Rightarrow> checks [
          validate_absolute_path ''filesystem.scratch'' path,
          reject (path_eq path ''/'')
            (err ''filesystem.scratch must not replace the sandbox root''),
          reject (\<not> in_range MIN_SCRATCH_BYTES MAX_SCRATCH_BYTES bytes)
            (errf ''filesystem.scratch_bytes must be between {MIN_SCRATCH_BYTES} and {MAX_SCRATCH_BYTES}''
              [FNat (unat MIN_SCRATCH_BYTES), FNat (unat MAX_SCRATCH_BYTES)]),
          reject (path_starts_with (executable p) path \<or> path_starts_with (working_dir p) path)
            (err ''filesystem.scratch must not contain the executable or working_dir'')]
      | _ \<Rightarrow> Inl (err ''filesystem.scratch and filesystem.scratch_bytes must be specified together''))"

definition redirect_or_capture :: "stdio_mode \<Rightarrow> bool" where
  "redirect_or_capture m \<longleftrightarrow> m = Redirect \<or> m = Capture"

definition validate_stdout_redirect :: "sandbox_policy \<Rightarrow> (unit, policy_error) result" where
  "validate_stdout_redirect p = checks [
     reject (stdout_capture_bytes p \<noteq> None)
       (err ''stdio.stdout_capture_bytes is only valid when stdio.stdout = capture''),
     and_then (ok_or (err ''stdio.stdout = redirect requires stdio.stdout_path'') (stdout_redirect p))
       (\<lambda>path. and_then (validate_absolute_path ''stdio.stdout_path'' path)
         (\<lambda>_. and_then (ok_or (err ''stdio.stdout = redirect requires a declared filesystem.scratch'')
                         (scratch_dir p))
           (\<lambda>scratch. reject (path_eq path scratch \<or> \<not> path_starts_with path scratch)
              (err ''stdio.stdout_path must be strictly beneath filesystem.scratch''))))]"

definition validate_stdout_capture :: "sandbox_policy \<Rightarrow> (unit, policy_error) result" where
  "validate_stdout_capture p = checks [
     reject (stdout_redirect p \<noteq> None)
       (err ''stdio.stdout_path is only valid when stdio.stdout = redirect''),
     and_then (ok_or (err ''stdio.stdout = capture requires stdio.stdout_capture_bytes'')
                 (stdout_capture_bytes p))
       (\<lambda>bytes. checks [
          reject (\<not> in_range MIN_CAPTURE_BYTES MAX_CAPTURE_BYTES bytes)
            (errf ''stdio.stdout_capture_bytes must be between {MIN_CAPTURE_BYTES} and {MAX_CAPTURE_BYTES}''
              [FNat (unat MIN_CAPTURE_BYTES), FNat (unat MAX_CAPTURE_BYTES)]),
          (case stdout_total_bytes p of
             None \<Rightarrow> Inr ()
           | Some total_bytes \<Rightarrow> checks [
               reject (\<not> in_range MIN_CAPTURE_BYTES MAX_STDOUT_TOTAL_BYTES total_bytes)
                 (errf ''limit.stdout_total_bytes must be between {MIN_CAPTURE_BYTES} and {MAX_STDOUT_TOTAL_BYTES}''
                   [FNat (unat MIN_CAPTURE_BYTES), FNat (unat MAX_STDOUT_TOTAL_BYTES)]),
               reject (total_bytes < bytes)
                 (err ''stdio.stdout_capture_bytes must not exceed limit.stdout_total_bytes'')])])]"

definition validate_stdio :: "sandbox_policy \<Rightarrow> (unit, policy_error) result" where
  "validate_stdio p = checks [
     reject (redirect_or_capture (stdin (stdio p)) \<or> redirect_or_capture (stderr (stdio p)))
       (err ''redirect and capture are currently supported only for stdio.stdout''),
     reject (stdout (stdio p) \<noteq> Capture \<and> stdout_total_bytes p \<noteq> None)
       (err ''limit.stdout_total_bytes is only valid when stdio.stdout = capture''),
     (case stdout (stdio p) of
        Redirect \<Rightarrow> validate_stdout_redirect p
      | Capture \<Rightarrow> validate_stdout_capture p
      | _ \<Rightarrow> checks [
          reject (stdout_redirect p \<noteq> None)
            (err ''stdio.stdout_path is only valid when stdio.stdout = redirect''),
          reject (stdout_capture_bytes p \<noteq> None)
            (err ''stdio.stdout_capture_bytes is only valid when stdio.stdout = capture'')])]"

definition validate_clocks :: "sandbox_policy \<Rightarrow> (unit, policy_error) result" where
  "validate_clocks p = checks [
     (case (time_monotonic_offset_seconds p, time_boottime_offset_seconds p) of
        (None, None) \<Rightarrow> Inr ()
      | (Some monotonic, Some boottime) \<Rightarrow> checks [
          reject (MAX_TIME_OFFSET_SECONDS < monotonic \<or> MAX_TIME_OFFSET_SECONDS < boottime)
            (errf ''time namespace offsets must be between 0 and {MAX_TIME_OFFSET_SECONDS} seconds''
              [FNat (unat MAX_TIME_OFFSET_SECONDS)]),
          reject (monotonic = 0 \<and> boottime = 0)
            (err ''time namespace offsets must not both be zero'')]
      | _ \<Rightarrow> Inl (err ''time.monotonic_offset_seconds and time.boottime_offset_seconds must be specified together'')),
     (case wall_clock_milliseconds p of
        None \<Rightarrow> Inr ()
      | Some milliseconds \<Rightarrow>
          reject (\<not> in_range MIN_WALL_CLOCK_MILLISECONDS MAX_WALL_CLOCK_MILLISECONDS milliseconds)
            (errf ''limit.wall_clock_milliseconds must be between {MIN_WALL_CLOCK_MILLISECONDS} and {MAX_WALL_CLOCK_MILLISECONDS}''
              [FNat (unat MIN_WALL_CLOCK_MILLISECONDS), FNat (unat MAX_WALL_CLOCK_MILLISECONDS)]))]"

section \<open>Arguments, environment, limits, selected handles\<close>

definition validate_invocation :: "sandbox_policy \<Rightarrow> (unit, policy_error) result" where
  "validate_invocation p = checks [
     reject (MAX_ARGS < length (args p))
       (errf ''too many arguments: {} > {MAX_ARGS}'' [FNat (length (args p)), FNat MAX_ARGS]),
     for_each (\<lambda>arg. checks [
          reject (CHR 0x00 \<in> set arg) (err ''arguments must not contain NUL bytes''),
          reject (MAX_ARG_BYTES < length arg)
            (errf ''argument exceeds {MAX_ARG_BYTES} bytes'' [FNat MAX_ARG_BYTES])])
       (args p),
     reject (MAX_ENV < length (environment p))
       (errf ''too many environment variables: {} > {MAX_ENV}''
         [FNat (length (environment p)), FNat MAX_ENV]),
     for_each (\<lambda>(key, val). checks [
          reject (\<not> valid_env_key key)
            (errf ''invalid environment variable name: {key:?}'' [FDebug key]),
          reject (CHR 0x00 \<in> set val)
            (errf ''environment variable {key:?} contains a NUL byte'' [FDebug key]),
          reject (MAX_ENV_VALUE_BYTES < length val)
            (errf ''environment variable {key:?} exceeds {MAX_ENV_VALUE_BYTES} bytes''
              [FDebug key, FNat MAX_ENV_VALUE_BYTES])])
       (environment p)]"

definition validate_limits :: "sandbox_policy \<Rightarrow> (unit, policy_error) result" where
  "validate_limits p =
     reject (cpu_seconds (limits p) = 0 \<or> address_space_bytes (limits p) = 0 \<or>
             file_size_bytes (limits p) = 0 \<or> open_files (limits p) < 3)
       (err ''resource limits must be non-zero and open_files must be at least 3'')"

definition validate_selected_handles :: "sandbox_policy \<Rightarrow> (unit, policy_error) result" where
  "validate_selected_handles p = checks [
     reject (MAX_SELECTED_HANDLES < length (selected_handles p))
       (errf ''too many selected handles: {} > {MAX_SELECTED_HANDLES}''
         [FNat (length (selected_handles p)), FNat MAX_SELECTED_HANDLES]),
     for_each (\<lambda>(target_fd, source_fd). checks [
          reject (\<not> in_range MIN_SELECTED_TARGET_FD MAX_SELECTED_TARGET_FD target_fd)
            (errf ''selected handle target fd must be between {MIN_SELECTED_TARGET_FD} and {MAX_SELECTED_TARGET_FD}: {target_fd}''
              [FNat (unat MIN_SELECTED_TARGET_FD), FNat (unat MAX_SELECTED_TARGET_FD), FNat (unat target_fd)]),
          reject (open_files (limits p) \<le> ucast target_fd)
            (errf ''selected handle target fd {target_fd} must be below limit.open_files {}''
              [FNat (unat target_fd), FNat (unat (open_files (limits p)))]),
          reject (0x7FFFFFFF < source_fd)
            (errf ''selected handle source fd exceeds the Linux descriptor range: {source_fd}''
              [FNat (unat source_fd)])])
       (selected_handles p)]"

section \<open>Seccomp\<close>

definition validate_allowed_syscalls :: "seccomp_policy \<Rightarrow> (unit, policy_error) result" where
  "validate_allowed_syscalls s = checks [
     reject (allowed_syscalls s = []) (err ''seccomp allowlist must not be empty''),
     reject (MAX_SYSCALLS < length (allowed_syscalls s))
       (errf ''too many seccomp syscalls: {} > {MAX_SYSCALLS}''
         [FNat (length (allowed_syscalls s)), FNat MAX_SYSCALLS]),
     for_each (\<lambda>name. reject (\<not> valid_syscall_name name)
         (errf ''invalid syscall name syntax: {name:?}'' [FDebug name]))
       (allowed_syscalls s)]"

definition rule_count :: "(string, (u8, 'r) btreemap) btreemap \<Rightarrow> usize" where
  "rule_count m = sum_list (map (\<lambda>(_, rules). length rules) m)"

definition argument_rule_count :: "seccomp_policy \<Rightarrow> usize" where
  "argument_rule_count s =
     rule_count (argument_rules s) + rule_count (argument_range_rules s) +
     rule_count (argument_forbidden_mask_rules s)"

definition launcher_critical :: "string \<Rightarrow> bool" where
  "launcher_critical syscall \<longleftrightarrow>
     syscall = ''execveat'' \<or> syscall = ''exit'' \<or> syscall = ''exit_group''"

definition validate_masked_rules :: "seccomp_policy \<Rightarrow> (unit, policy_error) result" where
  "validate_masked_rules s = for_each (\<lambda>(syscall, rules). checks [
     reject (\<not> valid_syscall_name syscall)
       (errf ''invalid seccomp argument-rule syscall name: {syscall:?}'' [FDebug syscall]),
     reject (syscall \<notin> set (allowed_syscalls s))
       (errf ''seccomp argument rule for {syscall} requires that syscall in seccomp.allow''
         [FStr syscall]),
     reject (launcher_critical syscall)
       (errf ''seccomp argument rules may not constrain launcher-critical syscall {syscall}''
         [FStr syscall]),
     for_each (\<lambda>(argument_index, rule). checks [
        reject (5 < argument_index)
          (errf ''seccomp argument index for {syscall} must be between 0 and 5'' [FStr syscall]),
        reject (rule_mask rule = 0)
          (errf ''seccomp argument mask for {syscall}.{argument_index} must not be zero''
            [FStr syscall, FNat (unat argument_index)]),
        reject (rule_value rule AND NOT (rule_mask rule) \<noteq> 0)
          (errf ''seccomp argument value for {syscall}.{argument_index} sets bits outside its mask''
            [FStr syscall, FNat (unat argument_index)])])
       rules]) (argument_rules s)"

definition validate_forbidden_mask_rules :: "seccomp_policy \<Rightarrow> (unit, policy_error) result" where
  "validate_forbidden_mask_rules s = for_each (\<lambda>(syscall, rules). checks [
     reject (\<not> valid_syscall_name syscall)
       (errf ''invalid seccomp forbidden-mask syscall name: {syscall:?}'' [FDebug syscall]),
     reject (syscall \<notin> set (allowed_syscalls s))
       (errf ''seccomp forbidden-mask rule for {syscall} requires that syscall in seccomp.allow''
         [FStr syscall]),
     reject (launcher_critical syscall)
       (errf ''seccomp forbidden-mask rules may not constrain launcher-critical syscall {syscall}''
         [FStr syscall]),
     for_each (\<lambda>(argument_index, rule). checks [
        reject (5 < argument_index)
          (errf ''seccomp forbidden-mask argument index for {syscall} must be between 0 and 5''
            [FStr syscall]),
        reject (rule_mask rule = 0)
          (errf ''seccomp forbidden-mask for {syscall}.{argument_index} must not be zero''
            [FStr syscall, FNat (unat argument_index)]),
        reject (rule_value rule AND NOT (rule_mask rule) \<noteq> 0)
          (errf ''seccomp forbidden-mask value for {syscall}.{argument_index} sets bits outside its mask''
            [FStr syscall, FNat (unat argument_index)])])
       rules]) (argument_forbidden_mask_rules s)"

definition validate_range_rules :: "seccomp_policy \<Rightarrow> (unit, policy_error) result" where
  "validate_range_rules s = for_each (\<lambda>(syscall, rules). checks [
     reject (\<not> valid_syscall_name syscall)
       (errf ''invalid seccomp range-rule syscall name: {syscall:?}'' [FDebug syscall]),
     reject (syscall \<notin> set (allowed_syscalls s))
       (errf ''seccomp range rule for {syscall} requires that syscall in seccomp.allow''
         [FStr syscall]),
     reject (launcher_critical syscall)
       (errf ''seccomp range rules may not constrain launcher-critical syscall {syscall}''
         [FStr syscall]),
     for_each (\<lambda>(argument_index, rule). checks [
        reject (5 < argument_index)
          (errf ''seccomp range argument index for {syscall} must be between 0 and 5''
            [FStr syscall]),
        reject (maximum rule < minimum rule)
          (errf ''seccomp range minimum for {syscall}.{argument_index} must not exceed its maximum''
            [FStr syscall, FNat (unat argument_index)]),
        reject (minimum rule = 0 \<and> maximum rule = 0xFFFFFFFFFFFFFFFF)
          (errf ''seccomp range for {syscall}.{argument_index} must narrow at least one value''
            [FStr syscall, FNat (unat argument_index)])])
       rules]) (argument_range_rules s)"

definition validate_seccomp :: "sandbox_policy \<Rightarrow> (unit, policy_error) result" where
  "validate_seccomp p =
     (let s = seccomp p in checks [
        validate_allowed_syscalls s,
        reject (MAX_SECCOMP_ARG_RULES < argument_rule_count s)
          (errf ''too many seccomp argument rules: {argument_rule_count} > {MAX_SECCOMP_ARG_RULES}''
            [FNat (argument_rule_count s), FNat MAX_SECCOMP_ARG_RULES]),
        validate_masked_rules s,
        validate_forbidden_mask_rules s,
        validate_range_rules s])"

section \<open>The whole method\<close>

definition validate_identity :: "sandbox_policy \<Rightarrow> (unit, policy_error) result" where
  "validate_identity p = checks [
     validate_absolute_path ''filesystem.root'' (root_dir p),
     validate_hostname (hostname p),
     validate_absolute_path ''executable'' (executable p),
     validate_absolute_path ''working_dir'' (working_dir p)]"

definition validate :: "sandbox_policy \<Rightarrow> (unit, policy_error) result" where
  "validate p = checks [
     validate_identity p,
     validate_volume_shape p,
     validate_interpreter p,
     validate_needed p,
     validate_cow_root p,
     validate_procfs p,
     validate_landlock_read_execute p,
     validate_landlock_file_mutate p,
     validate_landlock_path_topology_mutate p,
     validate_landlock_device_ioctl p,
     validate_landlock_ports p,
     validate_host_loopback_tcp p,
     validate_host_ipv4_tcp p,
     validate_host_ipv4_udp p,
     validate_host_unix_stream p,
     validate_host_unix_peer p,
     validate_host_loopback_listener p,
     validate_volumes p,
     validate_scratch p,
     validate_stdio p,
     validate_clocks p,
     validate_invocation p,
     validate_limits p,
     validate_selected_handles p,
     validate_seccomp p]"

end
