(* ===== verification/Policy_Example.thy ===== *)
theory Policy_Example
  imports Policy_Guarantees
begin

text \<open>
  One policy that uses every part of the model, for the witnesses: three kinds of volumes, a
  content-bound dependency chain, scratch with captured stdout, all five brokers, selected
  handles, Landlock envelopes and seccomp rules of the three kinds.
\<close>

definition example_seccomp :: seccomp_policy where
  "example_seccomp = \<lparr>
     allowed_syscalls = [''exit_group'', ''ioctl'', ''mmap'', ''read'', ''write''],
     argument_rules = [(''ioctl'', [(1, \<lparr>rule_mask = 0xFFFFFFFF, rule_value = 0x5401\<rparr>)])],
     argument_range_rules = [(''read'', [(2, \<lparr>minimum = 1, maximum = 0x100000000\<rparr>)])],
     argument_forbidden_mask_rules = [(''mmap'', [(2, \<lparr>rule_mask = 6, rule_value = 6\<rparr>)])]\<rparr>"

definition example_policy :: sandbox_policy where
  "example_policy = \<lparr>
     root_dir = ''/sandbox/root'',
     cow_root_bytes = Some 65536,
     cow_diff_bytes = Some 4096,
     hostname = ''security-lab'',
     executable = ''/bin/tool'',
     executable_sha256 = Some (replicate 32 7),
     executable_interpreter = Some ''/lib/ld.so'',
     executable_interpreter_sha256 = Some (replicate 32 8),
     executable_needed = None,
     executable_needed_sha256 = None,
     executable_needed_bindings =
       [\<lparr>needed_path = ''/lib/a.so'', needed_sha256 = replicate 32 1\<rparr>,
        \<lparr>needed_path = ''/lib/b.so'', needed_sha256 = replicate 32 2\<rparr>],
     args = [''hello''],
     environment = [(''LANG'', ''C'')],
     working_dir = ''/work'',
     landlock_read_execute = [''/bin'', ''/lib''],
     landlock_file_mutate = [''/scratch'', ''/out/logs''],
     landlock_path_topology_mutate = [''/out/logs''],
     landlock_device_ioctl = [''/dev/tty''],
     landlock_tcp_bind_ports = [8080],
     landlock_tcp_connect_ports = [443, 80],
     landlock_scope_abstract_unix_socket = True,
     landlock_scope_signal = True,
     loopback_enabled = True,
     procfs_enabled = True,
     host_loopback_tcp_port = Some 5432,
     host_loopback_tcp_target_fd = Some 10,
     host_ipv4_tcp_address = Some (10, 0, 0, 1),
     host_ipv4_tcp_port = Some 443,
     host_ipv4_tcp_target_fd = Some 11,
     host_ipv4_udp_address = Some (10, 0, 0, 2),
     host_ipv4_udp_port = Some 53,
     host_ipv4_udp_target_fd = Some 12,
     host_unix_stream_path = Some ''/run/service.sock'',
     host_unix_stream_target_fd = Some 13,
     host_unix_stream_peer_uid = Some 1000,
     host_unix_stream_peer_gid = Some 1000,
     host_loopback_tcp_listen_port = Some 8080,
     host_loopback_tcp_listen_target_fd = Some 14,
     readonly_volume_source = Some ''/srv/data'',
     readonly_volume_target = Some ''/data'',
     readonly_volume_bindings = [],
     writable_volume_source = Some ''/srv/out'',
     writable_volume_target = Some ''/out'',
     writable_volume_bindings = [],
     copy_on_write_volume_bindings =
       [\<lparr>cow_source = ''/srv/cache'', cow_target = ''/cache'', cow_bytes = 8192,
         diff_bytes = Some 1024, base_identity_bytes = Some 4096,
         base_identity_nodes = Some 100\<rparr>],
     scratch_dir = Some ''/scratch'',
     scratch_bytes = Some 16777216,
     stdio = \<lparr>stdin = Closed, stdout = Capture, stderr = Inherit\<rparr>,
     selected_handles = [(3, 7), (4, 9)],
     stdout_redirect = None,
     stdout_capture_bytes = Some 1024,
     stdout_total_bytes = Some 4096,
     time_monotonic_offset_seconds = Some 60,
     time_boottime_offset_seconds = Some 0,
     wall_clock_milliseconds = Some 1000,
     limits = \<lparr>cpu_seconds = 1, address_space_bytes = 268435456, file_size_bytes = 1048576,
               open_files = 32\<rparr>,
     seccomp = example_seccomp\<rparr>"

lemma example_policy_fields:
  shows "root_dir example_policy = ''/sandbox/root''"
    "cow_root_bytes example_policy = Some 65536"
    "cow_diff_bytes example_policy = Some 4096"
    "hostname example_policy = ''security-lab''"
    "executable example_policy = ''/bin/tool''"
    "executable_sha256 example_policy = Some (replicate 32 7)"
    "executable_interpreter example_policy = Some ''/lib/ld.so''"
    "executable_interpreter_sha256 example_policy = Some (replicate 32 8)"
    "executable_needed example_policy = None"
    "executable_needed_sha256 example_policy = None"
    "executable_needed_bindings example_policy = [\<lparr>needed_path = ''/lib/a.so'', needed_sha256 = replicate 32 1\<rparr>, \<lparr>needed_path = ''/lib/b.so'', needed_sha256 = replicate 32 2\<rparr>]"
    "args example_policy = [''hello'']"
    "environment example_policy = [(''LANG'', ''C'')]"
    "working_dir example_policy = ''/work''"
    "landlock_read_execute example_policy = [''/bin'', ''/lib'']"
    "landlock_file_mutate example_policy = [''/scratch'', ''/out/logs'']"
    "landlock_path_topology_mutate example_policy = [''/out/logs'']"
    "landlock_device_ioctl example_policy = [''/dev/tty'']"
    "landlock_tcp_bind_ports example_policy = [8080]"
    "landlock_tcp_connect_ports example_policy = [443, 80]"
    "landlock_scope_abstract_unix_socket example_policy = True"
    "landlock_scope_signal example_policy = True"
    "loopback_enabled example_policy = True"
    "procfs_enabled example_policy = True"
    "host_loopback_tcp_port example_policy = Some 5432"
    "host_loopback_tcp_target_fd example_policy = Some 10"
    "host_ipv4_tcp_address example_policy = Some (10, 0, 0, 1)"
    "host_ipv4_tcp_port example_policy = Some 443"
    "host_ipv4_tcp_target_fd example_policy = Some 11"
    "host_ipv4_udp_address example_policy = Some (10, 0, 0, 2)"
    "host_ipv4_udp_port example_policy = Some 53"
    "host_ipv4_udp_target_fd example_policy = Some 12"
    "host_unix_stream_path example_policy = Some ''/run/service.sock''"
    "host_unix_stream_target_fd example_policy = Some 13"
    "host_unix_stream_peer_uid example_policy = Some 1000"
    "host_unix_stream_peer_gid example_policy = Some 1000"
    "host_loopback_tcp_listen_port example_policy = Some 8080"
    "host_loopback_tcp_listen_target_fd example_policy = Some 14"
    "readonly_volume_source example_policy = Some ''/srv/data''"
    "readonly_volume_target example_policy = Some ''/data''"
    "readonly_volume_bindings example_policy = []"
    "writable_volume_source example_policy = Some ''/srv/out''"
    "writable_volume_target example_policy = Some ''/out''"
    "writable_volume_bindings example_policy = []"
    "copy_on_write_volume_bindings example_policy = [\<lparr>cow_source = ''/srv/cache'', cow_target = ''/cache'', cow_bytes = 8192, diff_bytes = Some 1024, base_identity_bytes = Some 4096, base_identity_nodes = Some 100\<rparr>]"
    "scratch_dir example_policy = Some ''/scratch''"
    "scratch_bytes example_policy = Some 16777216"
    "stdio example_policy = \<lparr>stdin = Closed, stdout = Capture, stderr = Inherit\<rparr>"
    "selected_handles example_policy = [(3, 7), (4, 9)]"
    "stdout_redirect example_policy = None"
    "stdout_capture_bytes example_policy = Some 1024"
    "stdout_total_bytes example_policy = Some 4096"
    "time_monotonic_offset_seconds example_policy = Some 60"
    "time_boottime_offset_seconds example_policy = Some 0"
    "wall_clock_milliseconds example_policy = Some 1000"
    "limits example_policy = \<lparr>cpu_seconds = 1, address_space_bytes = 268435456, file_size_bytes = 1048576, open_files = 32\<rparr>"
    "seccomp example_policy = example_seccomp"
  by (simp_all add: example_policy_def)

lemma example_policy_components:
  shows "components ''/bin'' = [RootDir, Normal ''bin'']"
    "components ''/bin/tool'' = [RootDir, Normal ''bin'', Normal ''tool'']"
    "components ''/cache'' = [RootDir, Normal ''cache'']"
    "components ''/data'' = [RootDir, Normal ''data'']"
    "components ''/dev/tty'' = [RootDir, Normal ''dev'', Normal ''tty'']"
    "components ''/lib'' = [RootDir, Normal ''lib'']"
    "components ''/lib/a.so'' = [RootDir, Normal ''lib'', Normal ''a.so'']"
    "components ''/lib/b.so'' = [RootDir, Normal ''lib'', Normal ''b.so'']"
    "components ''/lib/ld.so'' = [RootDir, Normal ''lib'', Normal ''ld.so'']"
    "components ''/out'' = [RootDir, Normal ''out'']"
    "components ''/out/logs'' = [RootDir, Normal ''out'', Normal ''logs'']"
    "components ''/proc'' = [RootDir, Normal ''proc'']"
    "components ''/run/service.sock'' = [RootDir, Normal ''run'', Normal ''service.sock'']"
    "components ''/sandbox/root'' = [RootDir, Normal ''sandbox'', Normal ''root'']"
    "components ''/scratch'' = [RootDir, Normal ''scratch'']"
    "components ''/srv/cache'' = [RootDir, Normal ''srv'', Normal ''cache'']"
    "components ''/srv/data'' = [RootDir, Normal ''srv'', Normal ''data'']"
    "components ''/srv/out'' = [RootDir, Normal ''srv'', Normal ''out'']"
    "components ''/work'' = [RootDir, Normal ''work'']"
  by (simp_all add: components_def is_absolute_def segment_components_def)

lemma example_policy_normalized:
  "normalized_readonly_volume_bindings example_policy =
     [\<lparr>volume_source = ''/srv/data'', volume_target = ''/data''\<rparr>]"
  "normalized_writable_volume_bindings example_policy =
     [\<lparr>volume_source = ''/srv/out'', volume_target = ''/out''\<rparr>]"
  "normalized_executable_needed_bindings example_policy =
     [\<lparr>needed_path = ''/lib/a.so'', needed_sha256 = replicate 32 1\<rparr>,
      \<lparr>needed_path = ''/lib/b.so'', needed_sha256 = replicate 32 2\<rparr>]"
  by (simp_all add: normalized_readonly_volume_bindings_def normalized_writable_volume_bindings_def
      normalized_executable_needed_bindings_def example_policy_fields)

lemmas example_policy_eval =
  example_policy_fields example_policy_normalized example_policy_components
  policy_bounds ok_simps in_range_def overlaps_def path_starts_with_def path_eq_def
  pair_complete_def overlap_mounts_def checked_add_usize_def unicast_ipv4_def btree_get_def
  redirect_or_capture_def is_absolute_def validate_hostname_def validate_landlock_tcp_ports_def
  validate_readonly_volume_def validate_writable_volume_def validate_cow_volume_def
  all_volume_paths_def validate_volume_pair_def validate_stdout_capture_def
  validate_unix_socket_path_def example_seccomp_def validate_allowed_syscalls_def
  argument_rule_count_def rule_count_def validate_masked_rules_def
  validate_forbidden_mask_rules_def validate_range_rules_def

lemmas byte_class_defs =
  hostname_byte_def is_ascii_alphanumeric_def is_ascii_digit_def is_ascii_lowercase_def
  is_ascii_uppercase_def char_between_def valid_syscall_name_def valid_env_key_def
  launcher_critical_def

lemma example_identity: "validate_identity example_policy = Inr ()"
  by (simp add: validate_identity_def example_policy_eval byte_class_defs)

lemma example_volume_shape: "validate_volume_shape example_policy = Inr ()"
  by (simp add: validate_volume_shape_def example_policy_eval)

lemma example_interpreter: "validate_interpreter example_policy = Inr ()"
  by (simp add: validate_interpreter_def example_policy_eval)

lemma example_needed: "validate_needed example_policy = Inr ()"
  by (simp add: validate_needed_def example_policy_eval)

lemma example_cow_root: "validate_cow_root example_policy = Inr ()"
  by (simp add: validate_cow_root_def example_policy_eval)

lemma example_procfs: "validate_procfs example_policy = Inr ()"
  by (simp add: validate_procfs_def example_policy_eval)

lemma example_landlock_read_execute: "validate_landlock_read_execute example_policy = Inr ()"
  by (simp add: validate_landlock_read_execute_def example_policy_eval)

lemma example_landlock_file_mutate: "validate_landlock_file_mutate example_policy = Inr ()"
  by (simp add: validate_landlock_file_mutate_def example_policy_eval)

lemma example_landlock_path_topology_mutate: "validate_landlock_path_topology_mutate example_policy = Inr ()"
  by (simp add: validate_landlock_path_topology_mutate_def example_policy_eval)

lemma example_landlock_device_ioctl: "validate_landlock_device_ioctl example_policy = Inr ()"
  by (simp add: validate_landlock_device_ioctl_def example_policy_eval)

lemma example_landlock_ports: "validate_landlock_ports example_policy = Inr ()"
  by (simp add: validate_landlock_ports_def example_policy_eval)

lemma example_host_loopback_tcp: "validate_host_loopback_tcp example_policy = Inr ()"
  by (simp add: validate_host_loopback_tcp_def example_policy_eval)

lemma example_host_ipv4_tcp: "validate_host_ipv4_tcp example_policy = Inr ()"
  by (simp add: validate_host_ipv4_tcp_def example_policy_eval)

lemma example_host_ipv4_udp: "validate_host_ipv4_udp example_policy = Inr ()"
  by (simp add: validate_host_ipv4_udp_def example_policy_eval)

lemma example_host_unix_stream: "validate_host_unix_stream example_policy = Inr ()"
  by (simp add: validate_host_unix_stream_def example_policy_eval)

lemma example_host_unix_peer: "validate_host_unix_peer example_policy = Inr ()"
  by (simp add: validate_host_unix_peer_def example_policy_eval)

lemma example_host_loopback_listener: "validate_host_loopback_listener example_policy = Inr ()"
  by (simp add: validate_host_loopback_listener_def example_policy_eval)

lemma example_volumes: "validate_volumes example_policy = Inr ()"
  by (simp add: validate_volumes_def example_policy_eval)

lemma example_scratch: "validate_scratch example_policy = Inr ()"
  by (simp add: validate_scratch_def example_policy_eval)

lemma example_stdio: "validate_stdio example_policy = Inr ()"
  by (simp add: validate_stdio_def example_policy_eval)

lemma example_clocks: "validate_clocks example_policy = Inr ()"
  by (simp add: validate_clocks_def example_policy_eval)

lemma example_invocation: "validate_invocation example_policy = Inr ()"
  by (simp add: validate_invocation_def example_policy_eval byte_class_defs)

lemma example_limits: "validate_limits example_policy = Inr ()"
  by (simp add: validate_limits_def example_policy_eval)

lemma example_selected_handles: "validate_selected_handles example_policy = Inr ()"
  by (simp add: validate_selected_handles_def example_policy_eval)

lemma example_seccomp: "validate_seccomp example_policy = Inr ()"
  by (simp add: validate_seccomp_def example_policy_eval byte_class_defs)

lemmas example_sections =
example_identity example_volume_shape example_interpreter example_needed example_cow_root example_procfs example_landlock_read_execute example_landlock_file_mutate example_landlock_path_topology_mutate example_landlock_device_ioctl example_landlock_ports example_host_loopback_tcp example_host_ipv4_tcp example_host_ipv4_udp example_host_unix_stream example_host_unix_peer example_host_loopback_listener example_volumes example_scratch example_stdio example_clocks example_invocation example_limits example_selected_handles example_seccomp

lemma example_policy_valid: "validate example_policy = Inr ()"
  by (simp only: validate_def checks_Cons_Ok example_sections checks.simps(1) simp_thms)

lemma example_policy_maps: "policy_maps_ok example_policy"
  by (simp add: policy_maps_ok_def example_policy_fields seccomp_maps_ok_def example_seccomp_def
      btree_ok_def btreeset_ok_def rule_maps_ok_def)

end
