(* ===== verification/Policy_Properties.thy ===== *)
theory Policy_Properties
  imports Policy_Example
begin

text \<open>
  The properties of policy validation, each with a witness on the example policy.
\<close>

section \<open>Volumes\<close>

text \<open>
  C18: In an accepted policy no host path is exposed through two volumes and no sandbox path is
  served by two volumes, whatever the access class of the volumes: a path beneath the sources
  (or beneath the targets) of the i-th and the j-th volume forces i = j.
\<close>

theorem validated_volumes_isolated:
  assumes "validate p = Inr ()"
    and "i < length (all_volume_paths p)" and "j < length (all_volume_paths p)"
    and "(path_starts_with r (fst (all_volume_paths p ! i)) \<and>
          path_starts_with r (fst (all_volume_paths p ! j))) \<or>
         (path_starts_with r (snd (all_volume_paths p ! i)) \<and>
          path_starts_with r (snd (all_volume_paths p ! j)))"
  shows "i = j"
proof (rule ccontr)
  assume "i \<noteq> j"
  from validate_volumes_disjoint [OF validate_sections(18) [OF assms(1)] assms(2,3) this] assms(4)
  show False unfolding overlaps_iff_common_descendant by blast
qed

lemma example_all_volume_paths:
  "all_volume_paths example_policy =
     [(''/srv/data'', ''/data''), (''/srv/out'', ''/out''), (''/srv/cache'', ''/cache'')]"
  by (simp add: all_volume_paths_def example_policy_normalized example_policy_fields)

theorem validated_volumes_isolated_witness:
  "\<not> path_starts_with ''/out/logs'' (snd (all_volume_paths example_policy ! 2))"
proof -
  have "path_starts_with ''/out/logs'' (snd (all_volume_paths example_policy ! 1))"
    by (simp add: example_all_volume_paths path_starts_with_def example_policy_components)
  then show ?thesis
    using validated_volumes_isolated [OF example_policy_valid, of 1 2 "''/out/logs''"]
    by (auto simp: example_all_volume_paths)
qed

text \<open>
  C19: In an accepted policy a volume never exposes a host path inside the sandbox root, never
  covers the sandbox root, the executable or the working directory, and shares no sandbox path
  with the private scratch area.
\<close>

theorem validated_volume_placement:
  assumes "validate p = Inr ()" and "v \<in> set (all_volume_paths p)"
  shows "\<not> (\<exists>r. path_starts_with r (fst v) \<and> path_starts_with r (root_dir p)) \<and>
    \<not> path_eq (snd v) ''/'' \<and>
    \<not> path_starts_with (executable p) (snd v) \<and> \<not> path_starts_with (working_dir p) (snd v) \<and>
    (\<forall>scratch. scratch_dir p = Some scratch \<longrightarrow>
       \<not> (\<exists>r. path_starts_with r (snd v) \<and> path_starts_with r scratch))"
  using validate_volumes_placement [OF validate_sections(18) [OF assms(1)] assms(2)]
  unfolding volume_placement_ok_def overlaps_iff_common_descendant by blast

theorem validated_volume_placement_witness:
  "\<not> (\<exists>r. path_starts_with r ''/srv/out'' \<and> path_starts_with r ''/sandbox/root'')"
  using validated_volume_placement [OF example_policy_valid, of "(''/srv/out'', ''/out'')"]
  by (simp add: example_all_volume_paths example_policy_fields)

section \<open>Descriptors\<close>

text \<open>
  C20: In an accepted policy the target descriptors of the selected handles and of the five
  kinds of brokered endpoints are pairwise different, lie between 3 and 63, and are below the
  limit on open files: no grant silently replaces another or a stdio descriptor.
\<close>

theorem validated_target_fds:
  assumes "validate p = Inr ()" and "policy_maps_ok p"
  shows "distinct (target_fds p) \<and>
    (\<forall>fd\<in>set (target_fds p). 3 \<le> unat fd \<and> unat fd \<le> 63 \<and> unat fd < unat (open_files (limits p)))"
proof
  have "distinct (map fst (selected_handles p))"
    using assms(2) by (simp add: policy_maps_ok_def btree_ok_distinct)
  then show "distinct (target_fds p)"
    using distinct_broker_target_fds [OF assms(1)] broker_target_fds_ok [OF assms(1)]
    unfolding target_fds_def by auto
next
  show "\<forall>fd\<in>set (target_fds p). 3 \<le> unat fd \<and> unat fd \<le> 63 \<and> unat fd < unat (open_files (limits p))"
  proof
    fix fd assume "fd \<in> set (target_fds p)"
    then have "fd_ok p fd"
      using broker_target_fds_ok [OF assms(1)]
        selected_handles_fds [OF validate_sections(24) [OF assms(1)]]
      unfolding target_fds_def by auto
    then show "3 \<le> unat fd \<and> unat fd \<le> 63 \<and> unat fd < unat (open_files (limits p))"
      by (auto simp: fd_ok_def in_range_def policy_bounds word_le_nat_alt word_less_nat_alt
          unat_ucast_u32_u64)
  qed
qed

theorem validated_target_fds_witness:
  "target_fds example_policy = [3, 4, 10, 11, 12, 13, 14] \<and> distinct (target_fds example_policy)"
proof
  show "target_fds example_policy = [3, 4, 10, 11, 12, 13, 14]"
    by (simp add: target_fds_def broker_target_fds_def example_policy_fields)
  show "distinct (target_fds example_policy)"
    using validated_target_fds [OF example_policy_valid example_policy_maps] by blast
qed

section \<open>Landlock mutation envelopes\<close>

lemma file_mutate_surface:
  assumes "validate_landlock_file_mutate p = Inr ()" and "m \<in> set (landlock_file_mutate p)"
  shows "(\<exists>s. scratch_dir p = Some s \<and> path_eq s m) \<or>
    (\<exists>v\<in>set (normalized_writable_volume_bindings p). path_starts_with m (volume_target v)) \<or>
    (\<exists>v\<in>set (copy_on_write_volume_bindings p). path_starts_with m (cow_target v))"
  using assms unfolding validate_landlock_file_mutate_def ok_simps
  by (auto simp: ok_simps Let_def list_ex_iff split: option.splits)

lemma topology_mutate_surface:
  assumes "validate_landlock_path_topology_mutate p = Inr ()"
    and "t \<in> set (landlock_path_topology_mutate p)"
  shows "\<exists>m\<in>set (landlock_file_mutate p). path_eq m t"
  using assms unfolding validate_landlock_path_topology_mutate_def ok_simps
  by (auto simp: ok_simps list_ex_iff)

lemma scratch_covers_nothing:
  assumes "validate_scratch p = Inr ()" and "scratch_dir p = Some s"
  shows "\<not> path_starts_with (executable p) s \<and> \<not> path_starts_with (working_dir p) s"
  using assms unfolding validate_scratch_def by (auto simp: ok_simps split: option.splits)

lemma volume_target_covers_nothing:
  assumes "validate p = Inr ()" and "v \<in> set (all_volume_paths p)"
  shows "\<not> path_starts_with (executable p) (snd v) \<and> \<not> path_starts_with (working_dir p) (snd v)"
  using validate_volumes_placement [OF validate_sections(18) [OF assms(1)] assms(2)]
  unfolding volume_placement_ok_def by blast

lemma mutation_base:
  assumes "validate p = Inr ()" and "m \<in> set (landlock_file_mutate p)"
  obtains base where "path_starts_with m base" and "\<not> path_starts_with (executable p) base"
    and "\<not> path_starts_with (working_dir p) base"
    and "scratch_dir p = Some base \<or> base \<in> volume_target ` set (normalized_writable_volume_bindings p)
      \<or> base \<in> cow_target ` set (copy_on_write_volume_bindings p)"
proof -
  note secs = validate_sections [OF assms(1)]
  consider s where "scratch_dir p = Some s" "path_eq s m"
    | v where "v \<in> set (normalized_writable_volume_bindings p)" "path_starts_with m (volume_target v)"
    | v where "v \<in> set (copy_on_write_volume_bindings p)" "path_starts_with m (cow_target v)"
    using file_mutate_surface [OF secs(8) assms(2)] by blast
  then show ?thesis
  proof cases
    case 1
    then show ?thesis
      using that [of s] scratch_covers_nothing [OF secs(19)]
      by (auto simp: path_eq_def path_starts_with_def)
  next
    case 2
    then have "(volume_source v, volume_target v) \<in> set (all_volume_paths p)"
      by (auto simp: all_volume_paths_def)
    from volume_target_covers_nothing [OF assms(1) this] show ?thesis
      using that [of "volume_target v"] 2 by simp
  next
    case 3
    then have "(cow_source v, cow_target v) \<in> set (all_volume_paths p)"
      by (auto simp: all_volume_paths_def)
    from volume_target_covers_nothing [OF assms(1) this] show ?thesis
      using that [of "cow_target v"] 3 by simp
  qed
qed

text \<open>
  C21: In an accepted policy every Landlock mutation grant, of file contents or of the directory
  topology, lies within the private scratch area, a writable volume or a copy-on-write volume,
  and never covers the executable or the working directory.
\<close>

theorem validated_mutation_envelope:
  assumes "validate p = Inr ()"
    and "m \<in> set (landlock_file_mutate p) \<union> set (landlock_path_topology_mutate p)"
  shows "(\<exists>base. path_starts_with m base \<and>
      (scratch_dir p = Some base \<or> base \<in> volume_target ` set (normalized_writable_volume_bindings p)
       \<or> base \<in> cow_target ` set (copy_on_write_volume_bindings p))) \<and>
    \<not> path_starts_with (executable p) m \<and> \<not> path_starts_with (working_dir p) m"
proof -
  obtain m' where m': "m' \<in> set (landlock_file_mutate p)" and eq: "path_eq m' m"
    using assms(2) topology_mutate_surface [OF validate_sections(9) [OF assms(1)]]
    by (auto simp: path_eq_def)
  obtain base where b: "path_starts_with m' base" "\<not> path_starts_with (executable p) base"
    "\<not> path_starts_with (working_dir p) base"
    "scratch_dir p = Some base \<or> base \<in> volume_target ` set (normalized_writable_volume_bindings p)
      \<or> base \<in> cow_target ` set (copy_on_write_volume_bindings p)"
    using mutation_base [OF assms(1) m'] by blast
  have mb: "path_starts_with m base"
    using b(1) eq by (simp add: path_eq_def path_starts_with_def)
  then have "\<not> path_starts_with (executable p) m" "\<not> path_starts_with (working_dir p) m"
    using b(2,3) path_starts_with_trans by blast+
  with mb b(4) show ?thesis by blast
qed

theorem validated_mutation_envelope_witness:
  "\<not> path_starts_with ''/bin/tool'' ''/out/logs''"
  using validated_mutation_envelope [OF example_policy_valid, of "''/out/logs''"]
  by (simp add: example_policy_fields)

section \<open>Content-bound execution\<close>



section \<open>Bounds\<close>



section \<open>A gap: procfs and copy-on-write volumes\<close>

text \<open>
  The example policy with its copy-on-write volume placed on the private procfs.
\<close>

definition procfs_cow_policy :: sandbox_policy where
  "procfs_cow_policy = example_policy\<lparr>copy_on_write_volume_bindings :=
     [\<lparr>cow_source = ''/srv/cache'', cow_target = ''/proc'', cow_bytes = 8192,
       diff_bytes = None, base_identity_bytes = None, base_identity_nodes = None\<rparr>]\<rparr>"

lemma normalized_cow_update [simp]:
  "normalized_readonly_volume_bindings (p\<lparr>copy_on_write_volume_bindings := c\<rparr>) =
     normalized_readonly_volume_bindings p"
  "normalized_writable_volume_bindings (p\<lparr>copy_on_write_volume_bindings := c\<rparr>) =
     normalized_writable_volume_bindings p"
  "normalized_executable_needed_bindings (p\<lparr>copy_on_write_volume_bindings := c\<rparr>) =
     normalized_executable_needed_bindings p"
  by (simp_all add: normalized_readonly_volume_bindings_def
      normalized_writable_volume_bindings_def normalized_executable_needed_bindings_def)

text \<open>The blocks of the method that do not look at the copy-on-write volumes.\<close>

lemma cow_blind_sections:
  "validate_identity (p\<lparr>copy_on_write_volume_bindings := c\<rparr>) = validate_identity p"
  "validate_interpreter (p\<lparr>copy_on_write_volume_bindings := c\<rparr>) = validate_interpreter p"
  "validate_needed (p\<lparr>copy_on_write_volume_bindings := c\<rparr>) = validate_needed p"
  "validate_cow_root (p\<lparr>copy_on_write_volume_bindings := c\<rparr>) = validate_cow_root p"
  "validate_procfs (p\<lparr>copy_on_write_volume_bindings := c\<rparr>) = validate_procfs p"
  "validate_landlock_read_execute (p\<lparr>copy_on_write_volume_bindings := c\<rparr>) = validate_landlock_read_execute p"
  "validate_landlock_path_topology_mutate (p\<lparr>copy_on_write_volume_bindings := c\<rparr>) = validate_landlock_path_topology_mutate p"
  "validate_landlock_device_ioctl (p\<lparr>copy_on_write_volume_bindings := c\<rparr>) = validate_landlock_device_ioctl p"
  "validate_landlock_ports (p\<lparr>copy_on_write_volume_bindings := c\<rparr>) = validate_landlock_ports p"
  "validate_host_loopback_tcp (p\<lparr>copy_on_write_volume_bindings := c\<rparr>) = validate_host_loopback_tcp p"
  "validate_host_ipv4_tcp (p\<lparr>copy_on_write_volume_bindings := c\<rparr>) = validate_host_ipv4_tcp p"
  "validate_host_ipv4_udp (p\<lparr>copy_on_write_volume_bindings := c\<rparr>) = validate_host_ipv4_udp p"
  "validate_host_unix_stream (p\<lparr>copy_on_write_volume_bindings := c\<rparr>) = validate_host_unix_stream p"
  "validate_host_unix_peer (p\<lparr>copy_on_write_volume_bindings := c\<rparr>) = validate_host_unix_peer p"
  "validate_host_loopback_listener (p\<lparr>copy_on_write_volume_bindings := c\<rparr>) = validate_host_loopback_listener p"
  "validate_scratch (p\<lparr>copy_on_write_volume_bindings := c\<rparr>) = validate_scratch p"
  "validate_stdio (p\<lparr>copy_on_write_volume_bindings := c\<rparr>) = validate_stdio p"
  "validate_clocks (p\<lparr>copy_on_write_volume_bindings := c\<rparr>) = validate_clocks p"
  "validate_invocation (p\<lparr>copy_on_write_volume_bindings := c\<rparr>) = validate_invocation p"
  "validate_limits (p\<lparr>copy_on_write_volume_bindings := c\<rparr>) = validate_limits p"
  "validate_selected_handles (p\<lparr>copy_on_write_volume_bindings := c\<rparr>) = validate_selected_handles p"
  "validate_seccomp (p\<lparr>copy_on_write_volume_bindings := c\<rparr>) = validate_seccomp p"
  by (simp_all add: validate_identity_def
      validate_interpreter_def
      validate_needed_def
      validate_cow_root_def
      validate_procfs_def
      validate_landlock_read_execute_def
      validate_landlock_path_topology_mutate_def
      validate_landlock_device_ioctl_def
      validate_landlock_ports_def
      validate_host_loopback_tcp_def
      validate_host_ipv4_tcp_def
      validate_host_ipv4_udp_def
      validate_host_unix_stream_def
      validate_host_unix_peer_def
      validate_host_loopback_listener_def
      validate_scratch_def
      validate_stdio_def
      validate_clocks_def
      validate_invocation_def
      validate_limits_def
      validate_selected_handles_def
      validate_seccomp_def
      overlap_mounts_def validate_target_fd_def validate_stdout_redirect_def
      validate_stdout_capture_def cong: option.case_cong stdio_mode.case_cong if_cong)

text \<open>
  C29: The overlap test of the private procfs leaves out copy-on-write volumes: there is an
  accepted policy with the private procfs enabled whose copy-on-write volume is mounted on
  \<open>/proc\<close> itself, while read-only and writable volumes there are rejected.
\<close>

theorem procfs_overlap_accepts_cow_volume:
  "validate procfs_cow_policy = Inr () \<and> procfs_enabled procfs_cow_policy \<and>
   (\<exists>v\<in>set (copy_on_write_volume_bindings procfs_cow_policy). overlaps (cow_target v) ''/proc'')"
proof (intro conjI)
  have "validate_volume_shape procfs_cow_policy = Inr ()"
    by (simp add: validate_volume_shape_def procfs_cow_policy_def example_policy_eval)
  moreover have "validate_landlock_file_mutate procfs_cow_policy = Inr ()"
    by (simp add: validate_landlock_file_mutate_def procfs_cow_policy_def example_policy_eval)
  moreover have "validate_volumes procfs_cow_policy = Inr ()"
    by (simp add: validate_volumes_def procfs_cow_policy_def example_policy_eval)
  ultimately show "validate procfs_cow_policy = Inr ()"
    using validate_sections [OF example_policy_valid]
    unfolding validate_def checks_Cons_Ok procfs_cow_policy_def cow_blind_sections by simp
  show "procfs_enabled procfs_cow_policy"
    by (simp add: procfs_cow_policy_def example_policy_fields)
  show "\<exists>v\<in>set (copy_on_write_volume_bindings procfs_cow_policy). overlaps (cow_target v) ''/proc''"
    by (simp add: procfs_cow_policy_def)
qed

end
