(* ===== verification/Authority_Delta.thy ===== *)
theory Authority_Delta
  imports Policy_Example
begin

text \<open>
  \<open>authority_delta.rs\<close>: the static comparison of a baseline policy with a candidate, one
  definition per comparator of the source. Rust's \<open>==\<close> and order on paths work on components;
  where a comparator is applied to a path, the model applies it to its components.
\<close>

section \<open>Classes and changes\<close>

datatype delta_class = Unchanged | Widened | Reduced | Incomparable

record change =
  change_field :: string
  change_class :: delta_class

record authority_delta =
  delta_status :: delta_class
  delta_changes :: "change list"

fun exit_code_of :: "delta_class \<Rightarrow> int" where
  "exit_code_of Unchanged = 0"
| "exit_code_of Reduced = 0"
| "exit_code_of Widened = 5"
| "exit_code_of Incomparable = 6"

definition exit_code :: "authority_delta \<Rightarrow> int" where
  "exit_code d = exit_code_of (delta_status d)"

definition push_change :: "string \<Rightarrow> delta_class \<Rightarrow> change list \<Rightarrow> change list" where
  "push_change field class changes =
     (if class \<noteq> Unchanged then changes @ [\<lparr>change_field = field, change_class = class\<rparr>]
      else changes)"

section \<open>Classification of one dimension\<close>

definition classify_allowance :: "u64 \<Rightarrow> u64 \<Rightarrow> delta_class" where
  "classify_allowance baseline candidate =
     (if baseline < candidate then Widened
      else if candidate < baseline then Reduced
      else Unchanged)"

fun subset_relation :: "bool \<Rightarrow> bool \<Rightarrow> bool \<Rightarrow> delta_class" where
  "subset_relation True True added_is_widening = Unchanged"
| "subset_relation True False added_is_widening = (if added_is_widening then Widened else Reduced)"
| "subset_relation False True added_is_widening = (if added_is_widening then Reduced else Widened)"
| "subset_relation False False added_is_widening = Incomparable"

definition combine_classes :: "delta_class \<Rightarrow> delta_class \<Rightarrow> delta_class" where
  "combine_classes left right =
     (if left = Unchanged then right
      else if right = Unchanged then left
      else if left = right then left
      else Incomparable)"

definition map_is_subset :: "('k, 'v) btreemap \<Rightarrow> ('k, 'v) btreemap \<Rightarrow> bool" where
  "map_is_subset baseline candidate \<longleftrightarrow>
     list_all (\<lambda>(key, val). btree_get candidate key = Some val) baseline"

definition optional_map_is_subset ::
  "(u8, 'v) btreemap option \<Rightarrow> (u8, 'v) btreemap option \<Rightarrow> bool" where
  "optional_map_is_subset baseline candidate \<longleftrightarrow>
     (case baseline of
        None \<Rightarrow> True
      | Some base \<Rightarrow>
          list_all (\<lambda>(key, val). Option.bind candidate (\<lambda>m. btree_get m key) = Some val) base)"

definition triple :: "'a option \<Rightarrow> 'b option \<Rightarrow> 'c option \<Rightarrow> ('a \<times> 'b \<times> 'c) option" where
  "triple first second third =
     (case (first, second, third) of
        (Some a, Some b, Some c) \<Rightarrow> Some (a, b, c)
      | _ \<Rightarrow> None)"

text \<open>\<open>Option::zip\<close>.\<close>

definition option_zip :: "'a option \<Rightarrow> 'b option \<Rightarrow> ('a \<times> 'b) option" where
  "option_zip a b = (case (a, b) of (Some x, Some y) \<Rightarrow> Some (x, y) | _ \<Rightarrow> None)"

definition exact_class :: "'a \<Rightarrow> 'a \<Rightarrow> delta_class" where
  "exact_class baseline candidate = (if baseline \<noteq> candidate then Incomparable else Unchanged)"

fun optional_restriction_class :: "'a option \<Rightarrow> 'a option \<Rightarrow> delta_class" where
  "optional_restriction_class None None = Unchanged"
| "optional_restriction_class None (Some _) = Reduced"
| "optional_restriction_class (Some _) None = Widened"
| "optional_restriction_class (Some base) (Some new) = (if base = new then Unchanged else Incomparable)"

fun optional_capability_class :: "'a option \<Rightarrow> 'a option \<Rightarrow> delta_class" where
  "optional_capability_class None None = Unchanged"
| "optional_capability_class None (Some _) = Widened"
| "optional_capability_class (Some _) None = Reduced"
| "optional_capability_class (Some base) (Some new) = (if base = new then Unchanged else Incomparable)"

definition exact_set_restriction_class :: "'a list \<Rightarrow> 'a list \<Rightarrow> delta_class" where
  "exact_set_restriction_class baseline candidate =
     (if baseline = [] \<and> candidate = [] then Unchanged
      else if baseline = [] then Reduced
      else if candidate = [] then Widened
      else if baseline = candidate then Unchanged
      else Incomparable)"

fun optional_ceiling_class :: "u64 option \<Rightarrow> u64 option \<Rightarrow> delta_class" where
  "optional_ceiling_class None None = Unchanged"
| "optional_ceiling_class None (Some _) = Reduced"
| "optional_ceiling_class (Some _) None = Widened"
| "optional_ceiling_class (Some base) (Some new) = classify_allowance base new"

text \<open>The copy-on-write root and its diff export: presence widens, then the byte ceiling decides.\<close>

fun optional_allowance_class :: "u64 option \<Rightarrow> u64 option \<Rightarrow> delta_class" where
  "optional_allowance_class None None = Unchanged"
| "optional_allowance_class None (Some _) = Widened"
| "optional_allowance_class (Some _) None = Reduced"
| "optional_allowance_class (Some base) (Some new) = classify_allowance base new"

definition positive_bool_class :: "bool \<Rightarrow> bool \<Rightarrow> delta_class" where
  "positive_bool_class baseline candidate =
     (if \<not> baseline \<and> candidate then Widened
      else if baseline \<and> \<not> candidate then Reduced
      else Unchanged)"

definition restrictive_bool_class :: "bool \<Rightarrow> bool \<Rightarrow> delta_class" where
  "restrictive_bool_class baseline candidate =
     (if \<not> baseline \<and> candidate then Reduced
      else if baseline \<and> \<not> candidate then Widened
      else Unchanged)"

definition stdio_class :: "stdio_mode \<Rightarrow> stdio_mode \<Rightarrow> delta_class" where
  "stdio_class baseline candidate =
     (if baseline = candidate then Unchanged
      else if baseline = Closed then Widened
      else if candidate = Closed then Reduced
      else Incomparable)"

text \<open>\<open>BTreeSet\<close> built from a list; only its elements matter here.\<close>

definition positive_allowlist_class :: "'a list \<Rightarrow> 'a list \<Rightarrow> delta_class" where
  "positive_allowlist_class baseline candidate =
     subset_relation (set baseline \<subseteq> set candidate) (set candidate \<subseteq> set baseline) True"

definition restriction_allowlist_class :: "'a list \<Rightarrow> 'a list \<Rightarrow> delta_class" where
  "restriction_allowlist_class baseline candidate =
     (if set baseline = set candidate then Unchanged
      else if baseline = [] then Reduced
      else if candidate = [] then Widened
      else subset_relation (set baseline \<subseteq> set candidate) (set candidate \<subseteq> set baseline) True)"

definition capability_set_class :: "'a list \<Rightarrow> 'a list \<Rightarrow> delta_class" where
  "capability_set_class baseline candidate =
     (if set baseline = set candidate then Unchanged
      else if set baseline \<subseteq> set candidate then Widened
      else if set candidate \<subseteq> set baseline then Reduced
      else Incomparable)"

text \<open>\<open>this\<close> holds every key of \<open>other\<close> with a value at least as large.\<close>

definition covers :: "('v \<Rightarrow> 'v \<Rightarrow> bool) \<Rightarrow> ('k, 'v) btreemap \<Rightarrow> ('k, 'v) btreemap \<Rightarrow> bool" where
  "covers le this other \<longleftrightarrow>
     list_all (\<lambda>(key, val). case btree_get this key of None \<Rightarrow> False | Some v \<Rightarrow> le val v) other"

fun cover_class :: "bool \<Rightarrow> bool \<Rightarrow> delta_class" where
  "cover_class True True = Unchanged"
| "cover_class True False = Widened"
| "cover_class False True = Reduced"
| "cover_class False False = Incomparable"

definition bounded_map_class ::
  "('v \<Rightarrow> 'v \<Rightarrow> bool) \<Rightarrow> ('k, 'v) btreemap \<Rightarrow> ('k, 'v) btreemap \<Rightarrow> delta_class" where
  "bounded_map_class le baseline candidate =
     cover_class (covers le candidate baseline) (covers le baseline candidate)"

definition collect_btree :: "('k::linorder \<times> 'v) list \<Rightarrow> ('k, 'v) btreemap" where
  "collect_btree kvs = fold (\<lambda>(k, v) m. btree_insert k v m) kvs []"

section \<open>Comparators of policies\<close>

definition compare_exact_incomparable :: "string \<Rightarrow> 'a \<Rightarrow> 'a \<Rightarrow> change list \<Rightarrow> change list" where
  "compare_exact_incomparable field baseline candidate changes =
     (if baseline \<noteq> candidate then push_change field Incomparable changes else changes)"

definition compare_optional_restriction ::
  "string \<Rightarrow> 'a option \<Rightarrow> 'a option \<Rightarrow> change list \<Rightarrow> change list" where
  "compare_optional_restriction field baseline candidate changes =
     push_change field (optional_restriction_class baseline candidate) changes"

definition compare_exact_set_restriction ::
  "string \<Rightarrow> 'a list \<Rightarrow> 'a list \<Rightarrow> change list \<Rightarrow> change list" where
  "compare_exact_set_restriction field baseline candidate changes =
     push_change field (exact_set_restriction_class baseline candidate) changes"

definition compare_optional_ceiling ::
  "string \<Rightarrow> u64 option \<Rightarrow> u64 option \<Rightarrow> change list \<Rightarrow> change list" where
  "compare_optional_ceiling field baseline candidate changes =
     push_change field (optional_ceiling_class baseline candidate) changes"

definition compare_optional_capability ::
  "string \<Rightarrow> 'a option \<Rightarrow> 'a option \<Rightarrow> change list \<Rightarrow> change list" where
  "compare_optional_capability field baseline candidate changes =
     push_change field (optional_capability_class baseline candidate) changes"

definition compare_capability_set ::
  "string \<Rightarrow> 'a list \<Rightarrow> 'a list \<Rightarrow> change list \<Rightarrow> change list" where
  "compare_capability_set field baseline candidate changes =
     push_change field (capability_set_class baseline candidate) changes"

definition compare_positive_allowlist ::
  "string \<Rightarrow> 'a list \<Rightarrow> 'a list \<Rightarrow> change list \<Rightarrow> change list" where
  "compare_positive_allowlist field baseline candidate changes =
     push_change field (positive_allowlist_class baseline candidate) changes"

definition compare_restriction_allowlist ::
  "string \<Rightarrow> 'a list \<Rightarrow> 'a list \<Rightarrow> change list \<Rightarrow> change list" where
  "compare_restriction_allowlist field baseline candidate changes =
     push_change field (restriction_allowlist_class baseline candidate) changes"

definition compare_positive_bool :: "string \<Rightarrow> bool \<Rightarrow> bool \<Rightarrow> change list \<Rightarrow> change list" where
  "compare_positive_bool field baseline candidate changes =
     push_change field (positive_bool_class baseline candidate) changes"

definition compare_restrictive_bool :: "string \<Rightarrow> bool \<Rightarrow> bool \<Rightarrow> change list \<Rightarrow> change list" where
  "compare_restrictive_bool field baseline candidate changes =
     push_change field (restrictive_bool_class baseline candidate) changes"

definition compare_stdio :: "string \<Rightarrow> stdio_mode \<Rightarrow> stdio_mode \<Rightarrow> change list \<Rightarrow> change list" where
  "compare_stdio field baseline candidate changes =
     push_change field (stdio_class baseline candidate) changes"

definition compare_copy_on_write_root ::
  "sandbox_policy \<Rightarrow> sandbox_policy \<Rightarrow> change list \<Rightarrow> change list" where
  "compare_copy_on_write_root baseline candidate changes =
     (case (cow_root_bytes baseline, cow_root_bytes candidate) of
        (None, None) \<Rightarrow> changes
      | (None, Some _) \<Rightarrow> push_change ''filesystem.copy_on_write_root'' Widened changes
      | (Some _, None) \<Rightarrow> push_change ''filesystem.copy_on_write_root'' Reduced changes
      | (Some base, Some new) \<Rightarrow>
          push_change ''filesystem.copy_on_write_root_bytes'' (classify_allowance base new) changes)"

definition compare_copy_on_write_diff ::
  "sandbox_policy \<Rightarrow> sandbox_policy \<Rightarrow> change list \<Rightarrow> change list" where
  "compare_copy_on_write_diff baseline candidate changes =
     (case (cow_diff_bytes baseline, cow_diff_bytes candidate) of
        (None, None) \<Rightarrow> changes
      | (None, Some _) \<Rightarrow> push_change ''filesystem.copy_on_write_diff_export'' Widened changes
      | (Some _, None) \<Rightarrow> push_change ''filesystem.copy_on_write_diff_export'' Reduced changes
      | (Some base, Some new) \<Rightarrow>
          push_change ''filesystem.copy_on_write_diff_bytes'' (classify_allowance base new) changes)"

definition compare_scratch ::
  "sandbox_policy \<Rightarrow> sandbox_policy \<Rightarrow> change list \<Rightarrow> change list" where
  "compare_scratch baseline candidate changes =
     (case ((scratch_dir baseline, scratch_bytes baseline), (scratch_dir candidate, scratch_bytes candidate)) of
        ((None, None), (None, None)) \<Rightarrow> changes
      | ((None, None), (Some _, Some _)) \<Rightarrow>
          push_change ''filesystem.private_scratch'' Widened changes
      | ((Some _, Some _), (None, None)) \<Rightarrow>
          push_change ''filesystem.private_scratch'' Reduced changes
      | ((Some base_path, Some base_bytes), (Some new_path, Some new_bytes)) \<Rightarrow>
          (if \<not> path_eq base_path new_path
           then push_change ''filesystem.private_scratch'' Incomparable changes
           else push_change ''filesystem.private_scratch_bytes''
                  (classify_allowance base_bytes new_bytes) changes)
      | _ \<Rightarrow> push_change ''filesystem.private_scratch'' Incomparable changes)"

definition selected_handles_class :: "(u32, u32) btreemap \<Rightarrow> (u32, u32) btreemap \<Rightarrow> delta_class" where
  "selected_handles_class baseline candidate =
     subset_relation (map_is_subset baseline candidate) (map_is_subset candidate baseline) True"

definition compare_selected_handles ::
  "(u32, u32) btreemap \<Rightarrow> (u32, u32) btreemap \<Rightarrow> change list \<Rightarrow> change list" where
  "compare_selected_handles baseline candidate changes =
     push_change ''descriptors.selected_handles'' (selected_handles_class baseline candidate) changes"

definition cow_key :: "copy_on_write_volume_binding \<Rightarrow> component list \<times> component list" where
  "cow_key b = (components (cow_source b), components (cow_target b))"

definition cow_volume_map ::
  "sandbox_policy \<Rightarrow> (component list \<times> component list, u64) btreemap" where
  "cow_volume_map p =
     collect_btree (map (\<lambda>b. (cow_key b, cow_bytes b)) (copy_on_write_volume_bindings p))"

definition compare_bounded_cow_volume_set ::
  "sandbox_policy \<Rightarrow> sandbox_policy \<Rightarrow> change list \<Rightarrow> change list" where
  "compare_bounded_cow_volume_set baseline candidate changes =
     push_change ''filesystem.copy_on_write_volume''
       (bounded_map_class (\<le>) (cow_volume_map baseline) (cow_volume_map candidate)) changes"

definition cow_diff_map ::
  "sandbox_policy \<Rightarrow> (component list \<times> component list, u64) btreemap" where
  "cow_diff_map p =
     collect_btree (List.map_filter (\<lambda>b. map_option (\<lambda>bytes. (cow_key b, bytes)) (diff_bytes b))
       (copy_on_write_volume_bindings p))"

definition compare_bounded_cow_volume_diff_export ::
  "sandbox_policy \<Rightarrow> sandbox_policy \<Rightarrow> change list \<Rightarrow> change list" where
  "compare_bounded_cow_volume_diff_export baseline candidate changes =
     push_change ''filesystem.copy_on_write_volume_diff_export''
       (bounded_map_class (\<le>) (cow_diff_map baseline) (cow_diff_map candidate)) changes"

definition cow_identity_map ::
  "sandbox_policy \<Rightarrow> (component list \<times> component list, u64 \<times> u64) btreemap" where
  "cow_identity_map p =
     collect_btree (List.map_filter
       (\<lambda>b. map_option (\<lambda>lims. (cow_key b, lims))
          (option_zip (base_identity_bytes b) (base_identity_nodes b)))
       (copy_on_write_volume_bindings p))"

definition limits_le :: "u64 \<times> u64 \<Rightarrow> u64 \<times> u64 \<Rightarrow> bool" where
  "limits_le a b \<longleftrightarrow> fst a \<le> fst b \<and> snd a \<le> snd b"

definition compare_bounded_cow_volume_base_identity_export ::
  "sandbox_policy \<Rightarrow> sandbox_policy \<Rightarrow> change list \<Rightarrow> change list" where
  "compare_bounded_cow_volume_base_identity_export baseline candidate changes =
     push_change ''filesystem.copy_on_write_volume_base_identity_export''
       (bounded_map_class limits_le (cow_identity_map baseline) (cow_identity_map candidate)) changes"

definition compare_rule_map ::
  "(u8, 'v) btreemap option \<Rightarrow> (u8, 'v) btreemap option \<Rightarrow> delta_class" where
  "compare_rule_map baseline candidate =
     subset_relation (optional_map_is_subset baseline candidate)
       (optional_map_is_subset candidate baseline) False"

definition syscall_intersection :: "string btreeset \<Rightarrow> string btreeset \<Rightarrow> string list" where
  "syscall_intersection baseline candidate = filter (\<lambda>s. s \<in> set candidate) baseline"

definition rules_class :: "string list \<Rightarrow> (string, (u8, 'v) btreemap) btreemap \<Rightarrow>
    (string, (u8, 'v) btreemap) btreemap \<Rightarrow> delta_class" where
  "rules_class syscalls baseline candidate =
     foldl (\<lambda>class syscall. combine_classes class
              (compare_rule_map (btree_get baseline syscall) (btree_get candidate syscall)))
       Unchanged syscalls"

definition compare_seccomp ::
  "sandbox_policy \<Rightarrow> sandbox_policy \<Rightarrow> change list \<Rightarrow> change list" where
  "compare_seccomp baseline candidate changes =
     (let b = seccomp baseline; c = seccomp candidate;
          common = syscall_intersection (allowed_syscalls b) (allowed_syscalls c);
          changes = push_change ''seccomp.allow''
            (subset_relation (set (allowed_syscalls b) \<subseteq> set (allowed_syscalls c))
               (set (allowed_syscalls c) \<subseteq> set (allowed_syscalls b)) True) changes;
          changes = push_change ''seccomp.masked_arguments''
            (rules_class common (argument_rules b) (argument_rules c)) changes;
          changes = push_change ''seccomp.argument_ranges''
            (rules_class common (argument_range_rules b) (argument_range_rules c)) changes;
          changes = push_change ''seccomp.forbidden_masks''
            (rules_class common (argument_forbidden_mask_rules b) (argument_forbidden_mask_rules c))
            changes
      in changes)"

section \<open>The comparison\<close>

definition interpreter_binding :: "sandbox_policy \<Rightarrow> (component list \<times> u8 list) option" where
  "interpreter_binding p =
     option_zip (map_option components (executable_interpreter p)) (executable_interpreter_sha256 p)"

definition needed_keys :: "sandbox_policy \<Rightarrow> (component list \<times> u8 list) list" where
  "needed_keys p =
     sort (map (\<lambda>b. (components (needed_path b), needed_sha256 b))
       (normalized_executable_needed_bindings p))"

definition volume_key :: "persistent_volume_binding \<Rightarrow> component list \<times> component list" where
  "volume_key b = (components (volume_source b), components (volume_target b))"

definition compare_execution ::
  "sandbox_policy \<Rightarrow> sandbox_policy \<Rightarrow> change list \<Rightarrow> change list" where
  "compare_execution b c changes =
     (let changes = compare_exact_incomparable ''filesystem.root''
            (components (root_dir b)) (components (root_dir c)) changes;
          changes = compare_exact_incomparable ''identity.hostname'' (hostname b) (hostname c) changes;
          changes = compare_exact_incomparable ''execution.executable''
            (components (executable b)) (components (executable c)) changes;
          changes = compare_optional_restriction ''execution.executable_sha256''
            (executable_sha256 b) (executable_sha256 c) changes;
          changes = compare_optional_restriction ''execution.executable_interpreter_binding''
            (interpreter_binding b) (interpreter_binding c) changes;
          changes = compare_exact_set_restriction ''execution.executable_needed_binding''
            (needed_keys b) (needed_keys c) changes;
          changes = compare_exact_incomparable ''execution.arguments'' (args b) (args c) changes;
          changes = compare_exact_incomparable ''execution.environment''
            (environment b) (environment c) changes
      in compare_exact_incomparable ''execution.working_dir''
            (components (working_dir b)) (components (working_dir c)) changes)"

definition compare_filesystem ::
  "sandbox_policy \<Rightarrow> sandbox_policy \<Rightarrow> change list \<Rightarrow> change list" where
  "compare_filesystem b c changes =
     (let changes = compare_exact_incomparable ''filesystem.private_procfs''
            (procfs_enabled b) (procfs_enabled c) changes;
          changes = compare_copy_on_write_root b c changes;
          changes = compare_copy_on_write_diff b c changes;
          changes = compare_scratch b c changes;
          changes = compare_capability_set ''filesystem.read_only_volume''
            (map volume_key (normalized_readonly_volume_bindings b))
            (map volume_key (normalized_readonly_volume_bindings c)) changes;
          changes = compare_capability_set ''filesystem.writable_volume''
            (map volume_key (normalized_writable_volume_bindings b))
            (map volume_key (normalized_writable_volume_bindings c)) changes;
          changes = compare_bounded_cow_volume_set b c changes;
          changes = compare_bounded_cow_volume_diff_export b c changes
      in compare_bounded_cow_volume_base_identity_export b c changes)"

definition loopback_tcp :: "sandbox_policy \<Rightarrow> (u16 \<times> u32) option" where
  "loopback_tcp p = option_zip (host_loopback_tcp_port p) (host_loopback_tcp_target_fd p)"

definition ipv4_tcp :: "sandbox_policy \<Rightarrow> (ipv4 \<times> u16 \<times> u32) option" where
  "ipv4_tcp p = triple (host_ipv4_tcp_address p) (host_ipv4_tcp_port p) (host_ipv4_tcp_target_fd p)"

definition ipv4_udp :: "sandbox_policy \<Rightarrow> (ipv4 \<times> u16 \<times> u32) option" where
  "ipv4_udp p = triple (host_ipv4_udp_address p) (host_ipv4_udp_port p) (host_ipv4_udp_target_fd p)"

definition loopback_listener :: "sandbox_policy \<Rightarrow> (u16 \<times> u32) option" where
  "loopback_listener p =
     option_zip (host_loopback_tcp_listen_port p) (host_loopback_tcp_listen_target_fd p)"

definition unix_stream :: "sandbox_policy \<Rightarrow> (component list \<times> u32) option" where
  "unix_stream p =
     option_zip (map_option components (host_unix_stream_path p)) (host_unix_stream_target_fd p)"

definition unix_peer :: "sandbox_policy \<Rightarrow> (u32 \<times> u32) option" where
  "unix_peer p = option_zip (host_unix_stream_peer_uid p) (host_unix_stream_peer_gid p)"

definition compare_network ::
  "sandbox_policy \<Rightarrow> sandbox_policy \<Rightarrow> change list \<Rightarrow> change list" where
  "compare_network b c changes =
     (let changes = compare_positive_bool ''network.isolated_loopback_enabled''
            (loopback_enabled b) (loopback_enabled c) changes;
          changes = compare_optional_capability ''network.host_loopback_tcp''
            (loopback_tcp b) (loopback_tcp c) changes;
          changes = compare_optional_capability ''network.host_ipv4_tcp''
            (ipv4_tcp b) (ipv4_tcp c) changes;
          changes = compare_optional_capability ''network.host_ipv4_udp''
            (ipv4_udp b) (ipv4_udp c) changes;
          changes = compare_optional_capability ''network.host_loopback_tcp_listener''
            (loopback_listener b) (loopback_listener c) changes;
          changes = compare_optional_capability ''host_ipc.unix_stream''
            (unix_stream b) (unix_stream c) changes
      in compare_optional_restriction ''host_ipc.unix_stream_peer_credentials''
            (unix_peer b) (unix_peer c) changes)"

definition compare_stdout_redirect ::
  "sandbox_policy \<Rightarrow> sandbox_policy \<Rightarrow> change list \<Rightarrow> change list" where
  "compare_stdout_redirect b c changes =
     (if stdout (stdio b) = Redirect \<and> stdout (stdio c) = Redirect
      then compare_exact_incomparable ''descriptors.stdout_redirect_path''
             (map_option components (stdout_redirect b)) (map_option components (stdout_redirect c))
             changes
      else changes)"

definition compare_stdout_capture ::
  "sandbox_policy \<Rightarrow> sandbox_policy \<Rightarrow> change list \<Rightarrow> change list" where
  "compare_stdout_capture b c changes =
     (if stdout (stdio b) = Capture \<and> stdout (stdio c) = Capture
      then (case (stdout_capture_bytes b, stdout_capture_bytes c) of
              (Some base, Some new) \<Rightarrow>
                push_change ''controls.stdout_capture_bytes'' (classify_allowance base new) changes
            | _ \<Rightarrow> changes)
      else changes)"

definition compare_descriptors ::
  "sandbox_policy \<Rightarrow> sandbox_policy \<Rightarrow> change list \<Rightarrow> change list" where
  "compare_descriptors b c changes =
     (let changes = compare_stdio ''descriptors.stdin'' (stdin (stdio b)) (stdin (stdio c)) changes;
          changes = compare_stdio ''descriptors.stdout'' (stdout (stdio b)) (stdout (stdio c)) changes;
          changes = compare_stdio ''descriptors.stderr'' (stderr (stdio b)) (stderr (stdio c)) changes;
          changes = compare_selected_handles (selected_handles b) (selected_handles c) changes;
          changes = compare_stdout_redirect b c changes
      in compare_stdout_capture b c changes)"

definition compare_landlock ::
  "sandbox_policy \<Rightarrow> sandbox_policy \<Rightarrow> change list \<Rightarrow> change list" where
  "compare_landlock b c changes =
     (let changes = compare_restriction_allowlist ''landlock.read_execute''
            (map components (landlock_read_execute b)) (map components (landlock_read_execute c)) changes;
          changes = compare_restriction_allowlist ''landlock.file_mutate''
            (map components (landlock_file_mutate b)) (map components (landlock_file_mutate c)) changes;
          changes = compare_positive_allowlist ''landlock.path_topology_mutate''
            (map components (landlock_path_topology_mutate b))
            (map components (landlock_path_topology_mutate c)) changes;
          changes = compare_restriction_allowlist ''landlock.device_ioctl''
            (map components (landlock_device_ioctl b)) (map components (landlock_device_ioctl c)) changes;
          changes = compare_restriction_allowlist ''landlock.tcp_bind_ports''
            (landlock_tcp_bind_ports b) (landlock_tcp_bind_ports c) changes;
          changes = compare_restriction_allowlist ''landlock.tcp_connect_ports''
            (landlock_tcp_connect_ports b) (landlock_tcp_connect_ports c) changes;
          changes = compare_restrictive_bool ''landlock.scope_abstract_unix_socket''
            (landlock_scope_abstract_unix_socket b) (landlock_scope_abstract_unix_socket c) changes
      in compare_restrictive_bool ''landlock.scope_signal''
            (landlock_scope_signal b) (landlock_scope_signal c) changes)"

definition time_offsets :: "sandbox_policy \<Rightarrow> (u64 \<times> u64) option" where
  "time_offsets p = option_zip (time_monotonic_offset_seconds p) (time_boottime_offset_seconds p)"

definition compare_controls ::
  "sandbox_policy \<Rightarrow> sandbox_policy \<Rightarrow> change list \<Rightarrow> change list" where
  "compare_controls b c changes =
     (let changes = push_change ''controls.cpu_seconds''
            (classify_allowance (cpu_seconds (limits b)) (cpu_seconds (limits c))) changes;
          changes = push_change ''controls.address_space_bytes''
            (classify_allowance (address_space_bytes (limits b)) (address_space_bytes (limits c))) changes;
          changes = push_change ''controls.file_size_bytes''
            (classify_allowance (file_size_bytes (limits b)) (file_size_bytes (limits c))) changes;
          changes = push_change ''controls.open_files''
            (classify_allowance (open_files (limits b)) (open_files (limits c))) changes;
          changes = compare_optional_ceiling ''controls.wall_clock_milliseconds''
            (wall_clock_milliseconds b) (wall_clock_milliseconds c) changes;
          changes = compare_optional_ceiling ''controls.stdout_total_bytes''
            (stdout_total_bytes b) (stdout_total_bytes c) changes
      in compare_exact_incomparable ''controls.time_namespace_offsets''
            (time_offsets b) (time_offsets c) changes)"

definition saw :: "delta_class \<Rightarrow> change list \<Rightarrow> bool" where
  "saw class changes \<longleftrightarrow> list_ex (\<lambda>change. change_class change = class) changes"

definition status_of :: "change list \<Rightarrow> delta_class" where
  "status_of changes =
     (if saw Incomparable changes \<or> saw Widened changes \<and> saw Reduced changes then Incomparable
      else if saw Widened changes then Widened
      else if saw Reduced changes then Reduced
      else Unchanged)"

definition compare :: "sandbox_policy \<Rightarrow> sandbox_policy \<Rightarrow> authority_delta" where
  "compare baseline candidate =
     (let changes = [];
          changes = compare_execution baseline candidate changes;
          changes = compare_filesystem baseline candidate changes;
          changes = compare_network baseline candidate changes;
          changes = compare_descriptors baseline candidate changes;
          changes = compare_landlock baseline candidate changes;
          changes = compare_controls baseline candidate changes;
          changes = compare_seccomp baseline candidate changes
      in \<lparr>delta_status = status_of changes, delta_changes = changes\<rparr>)"

end
