(* ===== verification/Delta_Algebra.thy ===== *)
theory Delta_Algebra
  imports Authority_Delta
begin

text \<open>
  The algebra behind the authority delta. A comparator reports a list of classes for a pair of
  values; the laws a regression gate needs are that a value does not differ from itself, that
  swapping the arguments swaps widening and reduction, and that not widening is transitive.
  Every comparator of \<open>authority_delta.rs\<close> is an instance, and the laws are closed under the
  way \<open>compare\<close> composes them.
\<close>

fun dual_class :: "delta_class \<Rightarrow> delta_class" where
  "dual_class Unchanged = Unchanged"
| "dual_class Widened = Reduced"
| "dual_class Reduced = Widened"
| "dual_class Incomparable = Incomparable"

definition non_widening :: "delta_class \<Rightarrow> bool" where
  "non_widening k \<longleftrightarrow> k = Unchanged \<or> k = Reduced"

lemma non_widening_simps [simp]:
  "non_widening Unchanged" "non_widening Reduced"
  "\<not> non_widening Widened" "\<not> non_widening Incomparable"
  by (simp_all add: non_widening_def)

lemma dual_class_eq_iff [simp]:
  "dual_class k = Unchanged \<longleftrightarrow> k = Unchanged"
  "dual_class k = Widened \<longleftrightarrow> k = Reduced"
  "dual_class k = Reduced \<longleftrightarrow> k = Widened"
  "dual_class k = Incomparable \<longleftrightarrow> k = Incomparable"
  "Reduced = dual_class k \<longleftrightarrow> k = Widened"
  by (cases k; simp)+

section \<open>The contract of a comparator\<close>

locale symmetric_report =
  fixes report :: "'p \<Rightarrow> 'p \<Rightarrow> delta_class list"
    and admissible :: "'p \<Rightarrow> bool"
  assumes report_self: "admissible p \<Longrightarrow> list_all (\<lambda>k. k = Unchanged) (report p p)"
    and report_dual: "admissible p \<Longrightarrow> admissible q \<Longrightarrow> report q p = map dual_class (report p q)"
begin

lemma self_non_widening: "admissible p \<Longrightarrow> list_all non_widening (report p p)"
  using report_self [of p] by (auto simp: list_all_iff)

lemma swapped_classes:
  assumes "admissible p" and "admissible q"
  shows "k \<in> set (report q p) \<longleftrightarrow> dual_class k \<in> set (report p q)"
proof -
  have "dual_class ` set (report p q) = set (report q p)"
    using report_dual [OF assms] by simp
  moreover have "dual_class (dual_class l) = l" for l by (cases l) auto
  ultimately show ?thesis by (metis image_iff)
qed

end

locale comparator = symmetric_report +
  assumes report_trans: "admissible p \<Longrightarrow> admissible q \<Longrightarrow> admissible r \<Longrightarrow>
    list_all non_widening (report p q) \<Longrightarrow> list_all non_widening (report q r) \<Longrightarrow>
    list_all non_widening (report p r)"
begin

text \<open>A comparator applied to a component of a larger value.\<close>

lemma pullback:
  assumes "\<And>x. D x \<Longrightarrow> admissible (f x)"
  shows "comparator (\<lambda>x y. report (f x) (f y)) D"
proof unfold_locales
  show "list_all (\<lambda>k. k = Unchanged) (report (f p) (f p))" if "D p" for p
    using assms that report_self by blast
  show "report (f q) (f p) = map dual_class (report (f p) (f q))" if "D p" "D q" for p q
    using assms that by (intro report_dual)
  show "list_all non_widening (report (f p) (f r))"
    if "D p" "D q" "D r" "list_all non_widening (report (f p) (f q))"
      "list_all non_widening (report (f q) (f r))" for p q r
    using assms that report_trans by blast
qed

text \<open>Two comparators reported one after the other.\<close>

lemma followed_by:
  assumes "comparator other admissible"
  shows "comparator (\<lambda>x y. report x y @ other x y) admissible"
proof -
  have self: "list_all (\<lambda>k. k = Unchanged) (other p p)" if "admissible p" for p
    using assms that unfolding comparator_def symmetric_report_def by blast
  have dual: "other q p = map dual_class (other p q)" if "admissible p" "admissible q" for p q
    using assms that unfolding comparator_def symmetric_report_def by blast
  have trans: "list_all non_widening (other p r)"
    if "admissible p" "admissible q" "admissible r"
      "list_all non_widening (other p q)" "list_all non_widening (other q r)" for p q r
    using assms that unfolding comparator_def comparator_axioms_def by blast
  show ?thesis
  proof unfold_locales
    show "list_all (\<lambda>k. k = Unchanged) (report p p @ other p p)" if "admissible p" for p
      using that self report_self by simp
    show "report q p @ other q p = map dual_class (report p q @ other p q)"
      if "admissible p" "admissible q" for p q
      using dual [OF that] report_dual [OF that] by simp
    show "list_all non_widening (report p r @ other p r)"
      if "admissible p" "admissible q" "admissible r"
        "list_all non_widening (report p q @ other p q)"
        "list_all non_widening (report q r @ other q r)" for p q r
      using that trans [of p q r] report_trans [of p q r] by simp
  qed
qed

end

lemma comparator_append:
  assumes "comparator f D" and "comparator g D"
  shows "comparator (\<lambda>x y. f x y @ g x y) D"
  using assms by (rule comparator.followed_by)

lemma comparator_Cons:
  assumes "comparator (\<lambda>x y. [f x y]) D" and "comparator (\<lambda>x y. g x y # gs x y) D"
  shows "comparator (\<lambda>x y. f x y # g x y # gs x y) D"
  using comparator_append [OF assms] by simp

section \<open>When each class is not a widening\<close>

lemma nw_allowance: "non_widening (classify_allowance a b) \<longleftrightarrow> b \<le> a"
  by (auto simp: classify_allowance_def)

lemma nw_subset_relation:
  "non_widening (subset_relation x y True) \<longleftrightarrow> y"
  "non_widening (subset_relation x y False) \<longleftrightarrow> x"
  by (cases x; cases y; simp)+

lemma nw_combine: "non_widening (combine_classes k l) \<longleftrightarrow> non_widening k \<and> non_widening l"
  by (cases k; cases l; simp add: combine_classes_def)

lemma nw_exact: "non_widening (exact_class a b) \<longleftrightarrow> a = b"
  by (simp add: exact_class_def)

lemma nw_restriction: "non_widening (optional_restriction_class a b) \<longleftrightarrow> a = None \<or> a = b"
  by (cases a; cases b; simp)

lemma nw_capability: "non_widening (optional_capability_class a b) \<longleftrightarrow> b = None \<or> a = b"
  by (cases a; cases b; simp)

lemma nw_exact_set: "non_widening (exact_set_restriction_class a b) \<longleftrightarrow> a = [] \<or> a = b"
  by (auto simp: exact_set_restriction_class_def)

definition ceiling_le :: "u64 option \<Rightarrow> u64 option \<Rightarrow> bool" where
  "ceiling_le new base \<longleftrightarrow> (\<forall>m. base = Some m \<longrightarrow> (\<exists>n\<le>m. new = Some n))"

lemma nw_ceiling: "non_widening (optional_ceiling_class a b) \<longleftrightarrow> ceiling_le b a"
  by (cases a; cases b; simp add: nw_allowance ceiling_le_def)

definition allowance_le :: "u64 option \<Rightarrow> u64 option \<Rightarrow> bool" where
  "allowance_le new base \<longleftrightarrow> (\<forall>n. new = Some n \<longrightarrow> (\<exists>m\<ge>n. base = Some m))"

lemma nw_optional_allowance: "non_widening (optional_allowance_class a b) \<longleftrightarrow> allowance_le b a"
  by (cases a; cases b; simp add: nw_allowance allowance_le_def)

lemma nw_positive_bool: "non_widening (positive_bool_class a b) \<longleftrightarrow> (b \<longrightarrow> a)"
  by (cases a; cases b; simp add: positive_bool_class_def)

lemma nw_restrictive_bool: "non_widening (restrictive_bool_class a b) \<longleftrightarrow> (a \<longrightarrow> b)"
  by (cases a; cases b; simp add: restrictive_bool_class_def)

lemma nw_stdio: "non_widening (stdio_class a b) \<longleftrightarrow> a = b \<or> b = Closed"
  by (auto simp: stdio_class_def)

lemma nw_positive_allowlist: "non_widening (positive_allowlist_class a b) \<longleftrightarrow> set b \<subseteq> set a"
  by (simp add: positive_allowlist_class_def nw_subset_relation)

lemma nw_capability_set: "non_widening (capability_set_class a b) \<longleftrightarrow> set b \<subseteq> set a"
  by (auto simp: capability_set_class_def)

definition allowlist_le :: "'a list \<Rightarrow> 'a list \<Rightarrow> bool" where
  "allowlist_le new base \<longleftrightarrow> base = [] \<or> new \<noteq> [] \<and> set new \<subseteq> set base"

lemma nw_restriction_allowlist:
  "non_widening (restriction_allowlist_class a b) \<longleftrightarrow> allowlist_le b a"
  by (auto simp: restriction_allowlist_class_def allowlist_le_def nw_subset_relation)

definition submap :: "('k, 'v) btreemap \<Rightarrow> ('k, 'v) btreemap \<Rightarrow> bool" where
  "submap m n \<longleftrightarrow> (\<forall>k v. btree_get m k = Some v \<longrightarrow> btree_get n k = Some v)"

lemma btree_get_mem: "btree_get m k = Some v \<Longrightarrow> (k, v) \<in> set m"
  by (simp add: btree_get_def map_of_SomeD)

lemma map_is_subset_iff: "btree_ok m \<Longrightarrow> map_is_subset m n \<longleftrightarrow> submap m n"
  by (auto simp: map_is_subset_def submap_def list_all_iff btree_get_eq_Some [symmetric])

lemma covers_iff:
  "btree_ok n \<Longrightarrow> covers le m n \<longleftrightarrow>
     (\<forall>k v. btree_get n k = Some v \<longrightarrow> (\<exists>w. btree_get m k = Some w \<and> le v w))"
  by (fastforce simp: covers_def list_all_iff btree_get_eq_Some [symmetric] split: option.splits)

lemma nw_bounded_map: "non_widening (bounded_map_class le a b) \<longleftrightarrow> covers le a b"
  by (cases "covers le a b"; cases "covers le b a"; simp add: bounded_map_class_def)

lemma nw_selected_handles: "non_widening (selected_handles_class a b) \<longleftrightarrow> map_is_subset b a"
  by (simp add: selected_handles_class_def nw_subset_relation)

lemmas nw_classes = nw_allowance nw_exact nw_restriction nw_capability nw_exact_set nw_ceiling
  nw_optional_allowance nw_positive_bool nw_restrictive_bool nw_stdio nw_positive_allowlist
  nw_capability_set nw_restriction_allowlist nw_bounded_map nw_selected_handles

section \<open>The comparators are instances\<close>

interpretation allowance: comparator "\<lambda>a b. [classify_allowance a b]" "\<lambda>_. True"
  by unfold_locales (auto simp: nw_allowance, auto simp: classify_allowance_def)

interpretation exact: comparator "\<lambda>a b. [exact_class a b]" "\<lambda>_. True"
  by unfold_locales (auto simp: nw_exact, auto simp: exact_class_def)

lemma optional_class_dual:
  "optional_restriction_class b a = dual_class (optional_restriction_class a b)"
  "optional_capability_class b a = dual_class (optional_capability_class a b)"
  "optional_ceiling_class b' a' = dual_class (optional_ceiling_class a' b')"
  "optional_allowance_class b' a' = dual_class (optional_allowance_class a' b')"
  by (cases a; cases b; auto) (cases a; cases b; auto; fail | cases a'; cases b'; auto simp: classify_allowance_def)+

lemma optional_class_self:
  "optional_restriction_class a a = Unchanged"
  "optional_capability_class a a = Unchanged"
  "optional_ceiling_class a' a' = Unchanged"
  "optional_allowance_class a' a' = Unchanged"
  by (cases a; auto; fail | cases a'; auto simp: classify_allowance_def; fail)+

interpretation restriction: comparator "\<lambda>a b. [optional_restriction_class a b]" "\<lambda>_. True"
  by unfold_locales (simp add: optional_class_self, simp add: optional_class_dual(1) [symmetric],
      auto simp: nw_restriction)

interpretation capability: comparator "\<lambda>a b. [optional_capability_class a b]" "\<lambda>_. True"
  by unfold_locales (simp add: optional_class_self, simp add: optional_class_dual(2) [symmetric],
      auto simp: nw_capability)

interpretation ceiling: comparator "\<lambda>a b. [optional_ceiling_class a b]" "\<lambda>_. True"
  by unfold_locales (simp add: optional_class_self, simp add: optional_class_dual(3) [symmetric],
      fastforce simp: nw_ceiling ceiling_le_def)

interpretation optional_allowance: comparator "\<lambda>a b. [optional_allowance_class a b]" "\<lambda>_. True"
  by unfold_locales (simp add: optional_class_self, simp add: optional_class_dual(4) [symmetric],
      fastforce simp: nw_optional_allowance allowance_le_def)

interpretation exact_set: comparator "\<lambda>a b. [exact_set_restriction_class a b]" "\<lambda>_. True"
proof unfold_locales
  show "list_all (\<lambda>k. k = Unchanged) [exact_set_restriction_class a a]" for a :: "'a list"
    by (simp add: exact_set_restriction_class_def)
  show "[exact_set_restriction_class b a] = map dual_class [exact_set_restriction_class a b]"
    for a b :: "'a list"
    by (auto simp: exact_set_restriction_class_def)
qed (auto simp: nw_exact_set)

interpretation positive_bool: comparator "\<lambda>a b. [positive_bool_class a b]" "\<lambda>_. True"
  by unfold_locales (auto simp: nw_positive_bool, auto simp: positive_bool_class_def)

interpretation restrictive_bool: comparator "\<lambda>a b. [restrictive_bool_class a b]" "\<lambda>_. True"
  by unfold_locales (auto simp: nw_restrictive_bool, auto simp: restrictive_bool_class_def)

interpretation stdio_mode: comparator "\<lambda>a b. [stdio_class a b]" "\<lambda>_. True"
  by unfold_locales (auto simp: nw_stdio, auto simp: stdio_class_def)

lemma subset_relation_dual: "subset_relation y x w = dual_class (subset_relation x y w)"
  by (cases x; cases y; simp)

interpretation positive_allowlist: comparator "\<lambda>a b. [positive_allowlist_class a b]" "\<lambda>_. True"
  by unfold_locales (simp add: positive_allowlist_class_def,
      simp add: positive_allowlist_class_def subset_relation_dual [symmetric],
      auto simp: nw_positive_allowlist)

interpretation restriction_allowlist: comparator "\<lambda>a b. [restriction_allowlist_class a b]" "\<lambda>_. True"
proof unfold_locales
  show "list_all (\<lambda>k. k = Unchanged) [restriction_allowlist_class a a]" for a :: "'a list"
    by (simp add: restriction_allowlist_class_def)
  show "[restriction_allowlist_class b a] = map dual_class [restriction_allowlist_class a b]"
    for a b :: "'a list"
    by (auto simp: restriction_allowlist_class_def subset_relation_dual [symmetric])
qed (auto simp: nw_restriction_allowlist allowlist_le_def)

interpretation capability_set: comparator "\<lambda>a b. [capability_set_class a b]" "\<lambda>_. True"
  by unfold_locales (auto simp: nw_capability_set, auto simp: capability_set_class_def)

lemma cover_class_dual: "cover_class y x = dual_class (cover_class x y)"
  by (cases x; cases y; simp)

lemma bounded_map_comparator:
  assumes "\<And>v. le v v" and "\<And>u v w. le u v \<Longrightarrow> le v w \<Longrightarrow> le u w"
  shows "comparator (\<lambda>a b. [bounded_map_class le a b]) btree_ok"
proof unfold_locales
  show "list_all (\<lambda>k. k = Unchanged) [bounded_map_class le a a]" if "btree_ok a" for a
    using assms(1) that by (simp add: bounded_map_class_def covers_iff)
  show "[bounded_map_class le b a] = map dual_class [bounded_map_class le a b]" for a b
    by (simp add: bounded_map_class_def cover_class_dual [symmetric])
  show "list_all non_widening [bounded_map_class le a c]"
    if "btree_ok a" "btree_ok b" "btree_ok c" "list_all non_widening [bounded_map_class le a b]"
      "list_all non_widening [bounded_map_class le b c]" for a b c
    using that by (simp add: nw_bounded_map covers_iff) (meson assms(2))
qed

interpretation byte_ceilings: comparator "\<lambda>a b. [bounded_map_class ((\<le>) :: u64 \<Rightarrow> u64 \<Rightarrow> bool) a b]" btree_ok
  by (rule bounded_map_comparator) auto

interpretation identity_ceilings: comparator "\<lambda>a b. [bounded_map_class limits_le a b]" btree_ok
  by (rule bounded_map_comparator) (auto simp: limits_le_def)

interpretation handles: comparator "\<lambda>a b. [selected_handles_class a b]" btree_ok
proof unfold_locales
  show "list_all (\<lambda>k. k = Unchanged) [selected_handles_class a a]" if "btree_ok a" for a
    using that by (simp add: selected_handles_class_def map_is_subset_iff submap_def)
  show "[selected_handles_class b a] = map dual_class [selected_handles_class a b]" for a b
    by (simp add: selected_handles_class_def subset_relation_dual [symmetric])
  show "list_all non_widening [selected_handles_class a c]"
    if "btree_ok a" "btree_ok b" "btree_ok c" "list_all non_widening [selected_handles_class a b]"
      "list_all non_widening [selected_handles_class b c]" for a b c
    using that by (simp add: nw_selected_handles map_is_subset_iff submap_def)
qed

end
