(* ===== verification/Delta_Report.thy ===== *)
theory Delta_Report
  imports Delta_Algebra
begin

text \<open>
  The report of \<open>compare\<close>: the class of each dimension in the order of the source, before
  \<open>push_change\<close> drops the unchanged ones. The whole report is a comparator on accepted
  policies, and its laws are the laws of the authority gate.
\<close>

definition accepted :: "sandbox_policy \<Rightarrow> bool" where
  "accepted p \<longleftrightarrow> validate p = Inr () \<and> policy_maps_ok p"

section \<open>The report\<close>

definition changed :: "delta_class list \<Rightarrow> delta_class list" where
  "changed ks = filter (\<lambda>k. k \<noteq> Unchanged) ks"

abbreviation classes :: "change list \<Rightarrow> delta_class list" where
  "classes changes \<equiv> map change_class changes"

fun scratch_class :: "pathbuf option \<times> u64 option \<Rightarrow> pathbuf option \<times> u64 option \<Rightarrow> delta_class" where
  "scratch_class (None, None) (None, None) = Unchanged"
| "scratch_class (None, None) (Some _, Some _) = Widened"
| "scratch_class (Some _, Some _) (None, None) = Reduced"
| "scratch_class (Some p, Some m) (Some q, Some n) =
     (if path_eq p q then classify_allowance m n else Incomparable)"
| "scratch_class _ _ = Incomparable"

abbreviation scratch_of :: "sandbox_policy \<Rightarrow> pathbuf option \<times> u64 option" where
  "scratch_of p \<equiv> (scratch_dir p, scratch_bytes p)"

definition redirect_class :: "sandbox_policy \<Rightarrow> sandbox_policy \<Rightarrow> delta_class" where
  "redirect_class b c =
     (if stdout (stdio b) = Redirect \<and> stdout (stdio c) = Redirect
      then exact_class (map_option components (stdout_redirect b)) (map_option components (stdout_redirect c))
      else Unchanged)"

definition capture_class :: "sandbox_policy \<Rightarrow> sandbox_policy \<Rightarrow> delta_class" where
  "capture_class b c =
     (if stdout (stdio b) = Capture \<and> stdout (stdio c) = Capture
      then (case (stdout_capture_bytes b, stdout_capture_bytes c) of
              (Some m, Some n) \<Rightarrow> classify_allowance m n | _ \<Rightarrow> Unchanged)
      else Unchanged)"

definition execution_report :: "sandbox_policy \<Rightarrow> sandbox_policy \<Rightarrow> delta_class list" where
  "execution_report b c = [
     exact_class (components (root_dir b)) (components (root_dir c)),
     exact_class (hostname b) (hostname c),
     exact_class (components (executable b)) (components (executable c)),
     optional_restriction_class (executable_sha256 b) (executable_sha256 c),
     optional_restriction_class (interpreter_binding b) (interpreter_binding c),
     exact_set_restriction_class (needed_keys b) (needed_keys c),
     exact_class (args b) (args c),
     exact_class (environment b) (environment c),
     exact_class (components (working_dir b)) (components (working_dir c))]"

definition filesystem_report :: "sandbox_policy \<Rightarrow> sandbox_policy \<Rightarrow> delta_class list" where
  "filesystem_report b c = [
     exact_class (procfs_enabled b) (procfs_enabled c),
     optional_allowance_class (cow_root_bytes b) (cow_root_bytes c),
     optional_allowance_class (cow_diff_bytes b) (cow_diff_bytes c),
     scratch_class (scratch_of b) (scratch_of c),
     capability_set_class (map volume_key (normalized_readonly_volume_bindings b))
       (map volume_key (normalized_readonly_volume_bindings c)),
     capability_set_class (map volume_key (normalized_writable_volume_bindings b))
       (map volume_key (normalized_writable_volume_bindings c)),
     bounded_map_class (\<le>) (cow_volume_map b) (cow_volume_map c),
     bounded_map_class (\<le>) (cow_diff_map b) (cow_diff_map c),
     bounded_map_class limits_le (cow_identity_map b) (cow_identity_map c)]"

definition network_report :: "sandbox_policy \<Rightarrow> sandbox_policy \<Rightarrow> delta_class list" where
  "network_report b c = [
     positive_bool_class (loopback_enabled b) (loopback_enabled c),
     optional_capability_class (loopback_tcp b) (loopback_tcp c),
     optional_capability_class (ipv4_tcp b) (ipv4_tcp c),
     optional_capability_class (ipv4_udp b) (ipv4_udp c),
     optional_capability_class (loopback_listener b) (loopback_listener c),
     optional_capability_class (unix_stream b) (unix_stream c),
     optional_restriction_class (unix_peer b) (unix_peer c)]"

definition descriptors_report :: "sandbox_policy \<Rightarrow> sandbox_policy \<Rightarrow> delta_class list" where
  "descriptors_report b c = [
     stdio_class (stdin (stdio b)) (stdin (stdio c)),
     stdio_class (stdout (stdio b)) (stdout (stdio c)),
     stdio_class (stderr (stdio b)) (stderr (stdio c)),
     selected_handles_class (selected_handles b) (selected_handles c),
     redirect_class b c,
     capture_class b c]"

definition landlock_report :: "sandbox_policy \<Rightarrow> sandbox_policy \<Rightarrow> delta_class list" where
  "landlock_report b c = [
     restriction_allowlist_class (map components (landlock_read_execute b))
       (map components (landlock_read_execute c)),
     restriction_allowlist_class (map components (landlock_file_mutate b))
       (map components (landlock_file_mutate c)),
     positive_allowlist_class (map components (landlock_path_topology_mutate b))
       (map components (landlock_path_topology_mutate c)),
     restriction_allowlist_class (map components (landlock_device_ioctl b))
       (map components (landlock_device_ioctl c)),
     restriction_allowlist_class (landlock_tcp_bind_ports b) (landlock_tcp_bind_ports c),
     restriction_allowlist_class (landlock_tcp_connect_ports b) (landlock_tcp_connect_ports c),
     restrictive_bool_class (landlock_scope_abstract_unix_socket b)
       (landlock_scope_abstract_unix_socket c),
     restrictive_bool_class (landlock_scope_signal b) (landlock_scope_signal c)]"

definition controls_report :: "sandbox_policy \<Rightarrow> sandbox_policy \<Rightarrow> delta_class list" where
  "controls_report b c = [
     classify_allowance (cpu_seconds (limits b)) (cpu_seconds (limits c)),
     classify_allowance (address_space_bytes (limits b)) (address_space_bytes (limits c)),
     classify_allowance (file_size_bytes (limits b)) (file_size_bytes (limits c)),
     classify_allowance (open_files (limits b)) (open_files (limits c)),
     optional_ceiling_class (wall_clock_milliseconds b) (wall_clock_milliseconds c),
     optional_ceiling_class (stdout_total_bytes b) (stdout_total_bytes c),
     exact_class (time_offsets b) (time_offsets c)]"

definition seccomp_report :: "sandbox_policy \<Rightarrow> sandbox_policy \<Rightarrow> delta_class list" where
  "seccomp_report b c =
     (let common = syscall_intersection (allowed_syscalls (seccomp b)) (allowed_syscalls (seccomp c)) in [
     positive_allowlist_class (allowed_syscalls (seccomp b)) (allowed_syscalls (seccomp c)),
     rules_class common (argument_rules (seccomp b)) (argument_rules (seccomp c)),
     rules_class common (argument_range_rules (seccomp b)) (argument_range_rules (seccomp c)),
     rules_class common (argument_forbidden_mask_rules (seccomp b))
       (argument_forbidden_mask_rules (seccomp c))])"

definition policy_report :: "sandbox_policy \<Rightarrow> sandbox_policy \<Rightarrow> delta_class list" where
  "policy_report b c =
     execution_report b c @ filesystem_report b c @ network_report b c @ descriptors_report b c @
     landlock_report b c @ controls_report b c @ seccomp_report b c"

lemma changed_append [simp]: "changed (ks @ ls) = changed ks @ changed ls"
  by (simp add: changed_def)

lemma changed_Cons: "changed (k # ks) = changed [k] @ changed ks"
  by (simp add: changed_def)

lemma classes_push [delta_defs]: "classes (push_change f k changes) = classes changes @ changed [k]"
  by (simp add: push_change_def changed_def)

lemma classes_exact [delta_defs]:
  "classes (compare_exact_incomparable f b c changes) = classes changes @ changed [exact_class b c]"
  by (simp add: compare_exact_incomparable_def exact_class_def push_change_def changed_def)

lemma classes_cow_root [delta_defs]:
  "classes (compare_copy_on_write_root b c changes) =
     classes changes @ changed [optional_allowance_class (cow_root_bytes b) (cow_root_bytes c)]"
  by (simp add: compare_copy_on_write_root_def classes_push split: option.split)
    (simp add: changed_def)

lemma classes_cow_diff [delta_defs]:
  "classes (compare_copy_on_write_diff b c changes) =
     classes changes @ changed [optional_allowance_class (cow_diff_bytes b) (cow_diff_bytes c)]"
  by (simp add: compare_copy_on_write_diff_def classes_push split: option.split)
    (simp add: changed_def)

lemma classes_scratch [delta_defs]:
  "classes (compare_scratch b c changes) =
     classes changes @ changed [scratch_class (scratch_of b) (scratch_of c)]"
  by (simp add: compare_scratch_def classes_push split: option.split)
    (auto simp: changed_def classes_push)

lemma classes_redirect [delta_defs]:
  "classes (compare_stdout_redirect b c changes) = classes changes @ changed [redirect_class b c]"
  by (simp add: compare_stdout_redirect_def redirect_class_def classes_exact) (simp add: changed_def)

lemma classes_capture [delta_defs]:
  "classes (compare_stdout_capture b c changes) = classes changes @ changed [capture_class b c]"
  by (simp add: compare_stdout_capture_def capture_class_def classes_push split: option.split)
    (simp add: changed_def)

lemmas comparator_defs [delta_defs] = compare_optional_restriction_def compare_exact_set_restriction_def
  compare_optional_ceiling_def compare_optional_capability_def compare_capability_set_def
  compare_positive_allowlist_def compare_restriction_allowlist_def compare_positive_bool_def
  compare_restrictive_bool_def compare_stdio_def compare_selected_handles_def
  compare_bounded_cow_volume_set_def compare_bounded_cow_volume_diff_export_def
  compare_bounded_cow_volume_base_identity_export_def

text \<open>The recorded changes are the report without its unchanged entries.\<close>

lemma compare_classes:
  "classes (delta_changes (compare b c)) = changed (policy_report b c)"
proof -
  note list = changed_Cons [where ks = "_ # _"]
  have "classes (compare_execution b c ch) = classes ch @ changed (execution_report b c)" for ch
    by (simp add: compare_execution_def execution_report_def Let_def delta_defs list)
  moreover have "classes (compare_filesystem b c ch) = classes ch @ changed (filesystem_report b c)" for ch
    by (simp add: compare_filesystem_def filesystem_report_def Let_def delta_defs list)
  moreover have "classes (compare_network b c ch) = classes ch @ changed (network_report b c)" for ch
    by (simp add: compare_network_def network_report_def Let_def delta_defs list)
  moreover have "classes (compare_descriptors b c ch) = classes ch @ changed (descriptors_report b c)" for ch
    by (simp add: compare_descriptors_def descriptors_report_def Let_def delta_defs list)
  moreover have "classes (compare_landlock b c ch) = classes ch @ changed (landlock_report b c)" for ch
    by (simp add: compare_landlock_def landlock_report_def Let_def delta_defs list)
  moreover have "classes (compare_controls b c ch) = classes ch @ changed (controls_report b c)" for ch
    by (simp add: compare_controls_def controls_report_def Let_def delta_defs list)
  moreover have "classes (compare_seccomp b c ch) = classes ch @ changed (seccomp_report b c)" for ch
    by (simp add: compare_seccomp_def seccomp_report_def positive_allowlist_class_def Let_def
        delta_defs list)
  ultimately show ?thesis
    by (simp add: compare_def policy_report_def Let_def)
qed

lemma saw_compare:
  assumes "k \<noteq> Unchanged"
  shows "saw k (delta_changes (compare b c)) \<longleftrightarrow> k \<in> set (policy_report b c)"
proof -
  have "saw k (delta_changes (compare b c)) \<longleftrightarrow> k \<in> set (classes (delta_changes (compare b c)))"
    by (auto simp: saw_def list_ex_iff)
  then show ?thesis
    unfolding compare_classes using assms by (simp add: changed_def)
qed

lemma compare_status: "delta_status (compare b c) = status_of (delta_changes (compare b c))"
  by (simp add: compare_def Let_def)

lemma exit_code_zero: "exit_code (compare b c) = 0 \<longleftrightarrow> list_all non_widening (policy_report b c)"
proof -
  have "exit_code (compare b c) = 0 \<longleftrightarrow>
      Widened \<notin> set (policy_report b c) \<and> Incomparable \<notin> set (policy_report b c)"
    by (simp add: exit_code_def compare_status status_of_def saw_compare)
  also have "\<dots> \<longleftrightarrow> list_all non_widening (policy_report b c)"
    unfolding list_all_iff non_widening_def by (metis delta_class.exhaust delta_class.distinct)
  finally show ?thesis .
qed

end
