(* ===== verification/Delta_Laws.thy ===== *)
theory Delta_Laws
  imports Delta_Report
begin

text \<open>
  The report of \<open>compare\<close> obeys the laws of a comparator on accepted policies, group by group,
  and what each group means for the authority of the candidate is spelled out.
\<close>

section \<open>What acceptance gives the comparison\<close>

lemma accepted_seccomp_maps: "accepted p \<Longrightarrow> seccomp_maps_ok (seccomp p)"
  by (simp add: accepted_def policy_maps_ok_def)

lemma accepted_handles: "accepted p \<Longrightarrow> btree_ok (selected_handles p)"
  by (simp add: accepted_def policy_maps_ok_def)

lemma accepted_scratch: "accepted p \<Longrightarrow> pair_complete (scratch_dir p) (scratch_bytes p)"
  using validate_sections(19) [of p]
  by (auto simp: accepted_def validate_scratch_def pair_complete_def split: option.splits)

lemma accepted_capture: "accepted p \<Longrightarrow> stdout (stdio p) = Capture \<Longrightarrow> \<exists>n. stdout_capture_bytes p = Some n"
  using validate_sections(20) [of p]
  by (auto simp: accepted_def validate_stdio_def validate_stdout_capture_def ok_simps)

lemma btree_ok_collect [simp]: "btree_ok (collect_btree kvs)"
  unfolding collect_btree_def by (rule btree.invar_after_inserts) (simp add: btree_ok_def)

lemma btree_get_collect:
  assumes "distinct (map fst kvs)"
  shows "btree_get (collect_btree kvs) k = Some v \<longleftrightarrow> (k, v) \<in> set kvs"
proof -
  have "btree_get (collect_btree kvs) k = map_of (rev kvs) k"
    by (simp add: collect_btree_def btree.get_after_inserts btree.get_empty split: option.split)
  moreover have "distinct (map fst (rev kvs))" using assms by (simp add: rev_map [symmetric])
  ultimately show ?thesis by (simp add: map_of_eq_Some_iff)
qed

section \<open>Groups of comparators\<close>

lemma scratch_class_comparator:
  "comparator (\<lambda>a b. [scratch_class a b]) (\<lambda>(d, n). pair_complete d n)"
proof unfold_locales
  fix a :: "pathbuf option \<times> u64 option"
  show "list_all (\<lambda>k. k = Unchanged) [scratch_class a a]" if "case a of (d, n) \<Rightarrow> pair_complete d n"
    using that by (cases "(a, a)" rule: scratch_class.cases)
      (auto simp: pair_complete_def path_eq_def classify_allowance_def)
next
  fix a b :: "pathbuf option \<times> u64 option"
  show "[scratch_class b a] = map dual_class [scratch_class a b]"
    by (cases "(a, b)" rule: scratch_class.cases)
      (auto simp: path_eq_def classify_allowance_def)
next
  fix a b c :: "pathbuf option \<times> u64 option"
  assume "case a of (d, n) \<Rightarrow> pair_complete d n" "case b of (d, n) \<Rightarrow> pair_complete d n"
    "case c of (d, n) \<Rightarrow> pair_complete d n"
    "list_all non_widening [scratch_class a b]" "list_all non_widening [scratch_class b c]"
  then show "list_all non_widening [scratch_class a c]"
    by (cases "(a, b)" rule: scratch_class.cases; cases c)
      (auto simp: path_eq_def nw_allowance pair_complete_def split: if_splits)
qed

lemmas comparator_leaves =
  allowance.pullback [of accepted] exact.pullback [of accepted]
  restriction.pullback [of accepted] capability.pullback [of accepted]
  ceiling.pullback [of accepted] optional_allowance.pullback [of accepted]
  exact_set.pullback [of accepted] positive_bool.pullback [of accepted]
  restrictive_bool.pullback [of accepted] positive_allowlist.pullback [of accepted]
  restriction_allowlist.pullback [of accepted] capability_set.pullback [of accepted]
  byte_ceilings.pullback [of accepted] identity_ceilings.pullback [of accepted]
  comparator.pullback [OF scratch_class_comparator, of accepted]

lemma execution_comparator: "comparator execution_report accepted"
  unfolding execution_report_def by (intro comparator_Cons comparator_leaves TrueI)

lemma filesystem_comparator: "comparator filesystem_report accepted"
  unfolding filesystem_report_def
  by (intro comparator_Cons comparator_leaves TrueI)
    (auto simp: cow_volume_map_def cow_diff_map_def cow_identity_map_def accepted_scratch)

lemma network_comparator: "comparator network_report accepted"
  unfolding network_report_def by (intro comparator_Cons comparator_leaves TrueI)

lemma landlock_comparator: "comparator landlock_report accepted"
  unfolding landlock_report_def by (intro comparator_Cons comparator_leaves TrueI)

lemma controls_comparator: "comparator controls_report accepted"
  unfolding controls_report_def by (intro comparator_Cons comparator_leaves TrueI)

text \<open>
  The redirect path and the capture size are compared only when both sides use the mode. Their
  order is transitive because a candidate that is not wider keeps the mode or closes stdout.
\<close>

lemma nw_redirect:
  "non_widening (redirect_class b c) \<longleftrightarrow>
     (stdout (stdio b) = Redirect \<and> stdout (stdio c) = Redirect \<longrightarrow>
      map_option components (stdout_redirect b) = map_option components (stdout_redirect c))"
  by (auto simp: redirect_class_def nw_exact)

lemma nw_capture:
  assumes "accepted b" and "accepted c"
  shows "non_widening (capture_class b c) \<longleftrightarrow>
    (stdout (stdio b) = Capture \<and> stdout (stdio c) = Capture \<longrightarrow>
     allowance_le (stdout_capture_bytes c) (stdout_capture_bytes b))"
  using accepted_capture [OF assms(1)] accepted_capture [OF assms(2)]
  by (auto simp: capture_class_def nw_allowance allowance_le_def)

lemma descriptors_comparator: "comparator descriptors_report accepted"
proof unfold_locales
  show "list_all (\<lambda>k. k = Unchanged) (descriptors_report p p)" if "accepted p" for p
    using handles.report_self [of "selected_handles p"] accepted_handles [OF that]
    by (simp add: descriptors_report_def stdio_class_def redirect_class_def capture_class_def
        exact_class_def classify_allowance_def split: option.split)
  show "descriptors_report q p = map dual_class (descriptors_report p q)"
    if "accepted p" "accepted q" for p q
    using handles.report_dual [OF accepted_handles accepted_handles, OF that]
    by (auto simp: descriptors_report_def redirect_class_def capture_class_def
        stdio_class_def exact_class_def classify_allowance_def split: option.split)
  show "list_all non_widening (descriptors_report p r)"
    if acc: "accepted p" "accepted q" "accepted r"
      and pq: "list_all non_widening (descriptors_report p q)"
      and qr: "list_all non_widening (descriptors_report q r)" for p q r
  proof -
    have "non_widening (selected_handles_class (selected_handles p) (selected_handles r))"
      using handles.report_trans [OF accepted_handles accepted_handles accepted_handles, OF acc] pq qr
      by (simp add: descriptors_report_def)
    moreover have "non_widening (redirect_class p r)"
      using pq qr by (auto simp: descriptors_report_def nw_stdio nw_redirect)
    moreover have "non_widening (capture_class p r)"
    proof -
      have *: "allowance_le z y \<Longrightarrow> allowance_le y x \<Longrightarrow> allowance_le z x" for x y z
        using optional_allowance.report_trans [of x y z] by (simp add: nw_optional_allowance)
      show ?thesis
        using pq qr by (auto simp: descriptors_report_def nw_stdio nw_capture acc intro: *)
    qed
    ultimately show ?thesis
      using pq qr by (auto simp: descriptors_report_def nw_stdio)
  qed
qed

section \<open>Seccomp\<close>

definition rule_at :: "(string, (u8, 'r) btreemap) btreemap \<Rightarrow> string \<Rightarrow> u8 \<Rightarrow> 'r option" where
  "rule_at m s i = Option.bind (btree_get m s) (\<lambda>rules. btree_get rules i)"

text \<open>Every argument rule of \<open>base\<close> for the syscall is also a rule of \<open>new\<close>.\<close>

definition rules_kept ::
  "(string, (u8, 'r) btreemap) btreemap \<Rightarrow> (string, (u8, 'r) btreemap) btreemap \<Rightarrow> string \<Rightarrow> bool" where
  "rules_kept base new s \<longleftrightarrow> (\<forall>i r. rule_at base s i = Some r \<longrightarrow> rule_at new s i = Some r)"

lemma optional_map_is_subset_iff:
  assumes "rule_maps_ok base"
  shows "optional_map_is_subset (btree_get base s) (btree_get new s) \<longleftrightarrow> rules_kept base new s"
proof (cases "btree_get base s")
  case None
  then show ?thesis by (simp add: optional_map_is_subset_def rules_kept_def rule_at_def)
next
  case (Some rules)
  have "btree_ok rules" using rule_maps_okD [OF assms Some] .
  then have mem: "(i, r) \<in> set rules \<longleftrightarrow> btree_get rules i = Some r" for i r
    by (simp add: btree_get_eq_Some)
  show ?thesis
    using Some by (auto simp: optional_map_is_subset_def rules_kept_def rule_at_def list_all_iff mem)
qed

lemma nw_rules:
  assumes "rule_maps_ok base"
  shows "non_widening (rules_class ss base new) \<longleftrightarrow> (\<forall>s\<in>set ss. rules_kept base new s)"
proof -
  have "non_widening (foldl (\<lambda>k s. combine_classes k (compare_rule_map (btree_get base s) (btree_get new s))) k ss)
      \<longleftrightarrow> non_widening k \<and> (\<forall>s\<in>set ss. rules_kept base new s)" for k
    by (induction ss arbitrary: k)
      (auto simp: nw_combine compare_rule_map_def nw_subset_relation
        optional_map_is_subset_iff [OF assms])
  then show ?thesis by (simp add: rules_class_def)
qed

lemma rules_class_self:
  assumes "rule_maps_ok m"
  shows "rules_class ss m m = Unchanged"
proof -
  have "optional_map_is_subset (btree_get m s) (btree_get m s)" for s
    by (simp add: optional_map_is_subset_iff [OF assms] rules_kept_def)
  then have "compare_rule_map (btree_get m s) (btree_get m s) = Unchanged" for s
    by (simp add: compare_rule_map_def)
  then show ?thesis
    unfolding rules_class_def by (induction ss) (simp_all add: combine_classes_def)
qed

lemma combine_classes_dual:
  "combine_classes (dual_class k) (dual_class l) = dual_class (combine_classes k l)"
  by (cases k; cases l; simp add: combine_classes_def)

lemma rules_class_dual: "rules_class ss n m = dual_class (rules_class ss m n)"
proof -
  have "foldl (\<lambda>k s. combine_classes k (compare_rule_map (btree_get n s) (btree_get m s))) (dual_class k) ss =
      dual_class (foldl (\<lambda>k s. combine_classes k (compare_rule_map (btree_get m s) (btree_get n s))) k ss)" for k
  proof (induction ss arbitrary: k)
    case (Cons s ss)
    have "compare_rule_map (btree_get n s) (btree_get m s) =
        dual_class (compare_rule_map (btree_get m s) (btree_get n s))"
      by (simp add: compare_rule_map_def subset_relation_dual [symmetric])
    then show ?case by (simp add: combine_classes_dual Cons.IH)
  qed simp
  from this [of Unchanged] show ?thesis by (simp add: rules_class_def)
qed

lemma syscall_intersection_commute:
  assumes "btreeset_ok a" and "btreeset_ok b"
  shows "syscall_intersection a b = syscall_intersection b a"
proof (rule sorted_distinct_set_unique)
  show "sorted (syscall_intersection a b)" "distinct (syscall_intersection a b)"
    "sorted (syscall_intersection b a)" "distinct (syscall_intersection b a)"
    using assms by (auto simp: syscall_intersection_def btreeset_ok_def strict_sorted_iff
        intro: sorted_filter distinct_filter sorted_wrt_filter)
  show "set (syscall_intersection a b) = set (syscall_intersection b a)"
    by (auto simp: syscall_intersection_def)
qed

definition seccomp_le :: "seccomp_policy \<Rightarrow> seccomp_policy \<Rightarrow> bool" where
  "seccomp_le new base \<longleftrightarrow>
     set (allowed_syscalls new) \<subseteq> set (allowed_syscalls base) \<and>
     (\<forall>s\<in>set (allowed_syscalls new).
        rules_kept (argument_rules base) (argument_rules new) s \<and>
        rules_kept (argument_range_rules base) (argument_range_rules new) s \<and>
        rules_kept (argument_forbidden_mask_rules base) (argument_forbidden_mask_rules new) s)"

lemma nw_seccomp:
  assumes "accepted b"
  shows "list_all non_widening (seccomp_report b c) \<longleftrightarrow> seccomp_le (seccomp c) (seccomp b)"
proof -
  have maps: "rule_maps_ok (argument_rules (seccomp b))" "rule_maps_ok (argument_range_rules (seccomp b))"
    "rule_maps_ok (argument_forbidden_mask_rules (seccomp b))"
    using accepted_seccomp_maps [OF assms] by (simp_all add: seccomp_maps_ok_def)
  have "set (syscall_intersection (allowed_syscalls (seccomp b)) (allowed_syscalls (seccomp c))) =
      set (allowed_syscalls (seccomp b)) \<inter> set (allowed_syscalls (seccomp c))"
    by (auto simp: syscall_intersection_def)
  then show ?thesis
    by (auto simp: seccomp_report_def seccomp_le_def Let_def nw_positive_allowlist nw_rules maps)
qed

lemma seccomp_comparator: "comparator seccomp_report accepted"
proof unfold_locales
  show "list_all (\<lambda>k. k = Unchanged) (seccomp_report p p)" if "accepted p" for p
    using accepted_seccomp_maps [OF that]
    by (simp add: seccomp_report_def seccomp_maps_ok_def rules_class_self positive_allowlist_class_def Let_def)
  show "seccomp_report q p = map dual_class (seccomp_report p q)" if "accepted p" "accepted q" for p q
  proof -
    have "syscall_intersection (allowed_syscalls (seccomp q)) (allowed_syscalls (seccomp p)) =
        syscall_intersection (allowed_syscalls (seccomp p)) (allowed_syscalls (seccomp q))"
      using that [THEN accepted_seccomp_maps]
      by (intro syscall_intersection_commute) (simp_all add: seccomp_maps_ok_def)
    then show ?thesis
      by (simp add: seccomp_report_def Let_def rules_class_dual [symmetric]
          positive_allowlist_class_def subset_relation_dual [symmetric])
  qed
  show "list_all non_widening (seccomp_report p r)"
    if "accepted p" "accepted q" "accepted r" "list_all non_widening (seccomp_report p q)"
      "list_all non_widening (seccomp_report q r)" for p q r
    using that unfolding nw_seccomp [OF that(1)] nw_seccomp [OF that(2)]
    by (auto simp: seccomp_le_def rules_kept_def)
qed

interpretation policy_delta: comparator policy_report accepted
  unfolding policy_report_def
  by (intro comparator_append execution_comparator filesystem_comparator network_comparator
      descriptors_comparator landlock_comparator controls_comparator seccomp_comparator)

end
