(* ===== verification/Delta_Properties.thy ===== *)
theory Delta_Properties
  imports Delta_Laws
begin

text \<open>
  The properties of the authority delta: its laws as a regression gate, and an explicit
  specification of the order on policies that exit status 0 decides.
\<close>

section \<open>A second accepted policy\<close>

text \<open>
  The example policy with a smaller seccomp profile: \<open>mmap\<close> is gone and \<open>write\<close> may only
  write to standard output.
\<close>

definition reduced_seccomp :: seccomp_policy where
  "reduced_seccomp = \<lparr>
     allowed_syscalls = [''exit_group'', ''ioctl'', ''read'', ''write''],
     argument_rules = [(''ioctl'', [(1, \<lparr>rule_mask = 0xFFFFFFFF, rule_value = 0x5401\<rparr>)]),
                       (''write'', [(0, \<lparr>rule_mask = 0xFFFFFFFF, rule_value = 1\<rparr>)])],
     argument_range_rules = [(''read'', [(2, \<lparr>minimum = 1, maximum = 0x100000000\<rparr>)])],
     argument_forbidden_mask_rules = []\<rparr>"

definition reduced_policy :: sandbox_policy where
  "reduced_policy = example_policy\<lparr>seccomp := reduced_seccomp\<rparr>"

lemma normalized_seccomp_update [simp]:
  "normalized_readonly_volume_bindings (p\<lparr>seccomp := s\<rparr>) = normalized_readonly_volume_bindings p"
  "normalized_writable_volume_bindings (p\<lparr>seccomp := s\<rparr>) = normalized_writable_volume_bindings p"
  "normalized_executable_needed_bindings (p\<lparr>seccomp := s\<rparr>) = normalized_executable_needed_bindings p"
  by (simp_all add: normalized_readonly_volume_bindings_def
      normalized_writable_volume_bindings_def normalized_executable_needed_bindings_def)

lemma seccomp_blind_sections:
  "validate_identity (p\<lparr>seccomp := s\<rparr>) = validate_identity p"
  "validate_volume_shape (p\<lparr>seccomp := s\<rparr>) = validate_volume_shape p"
  "validate_interpreter (p\<lparr>seccomp := s\<rparr>) = validate_interpreter p"
  "validate_needed (p\<lparr>seccomp := s\<rparr>) = validate_needed p"
  "validate_cow_root (p\<lparr>seccomp := s\<rparr>) = validate_cow_root p"
  "validate_procfs (p\<lparr>seccomp := s\<rparr>) = validate_procfs p"
  "validate_landlock_read_execute (p\<lparr>seccomp := s\<rparr>) = validate_landlock_read_execute p"
  "validate_landlock_file_mutate (p\<lparr>seccomp := s\<rparr>) = validate_landlock_file_mutate p"
  "validate_landlock_path_topology_mutate (p\<lparr>seccomp := s\<rparr>) = validate_landlock_path_topology_mutate p"
  "validate_landlock_device_ioctl (p\<lparr>seccomp := s\<rparr>) = validate_landlock_device_ioctl p"
  "validate_landlock_ports (p\<lparr>seccomp := s\<rparr>) = validate_landlock_ports p"
  "validate_host_loopback_tcp (p\<lparr>seccomp := s\<rparr>) = validate_host_loopback_tcp p"
  "validate_host_ipv4_tcp (p\<lparr>seccomp := s\<rparr>) = validate_host_ipv4_tcp p"
  "validate_host_ipv4_udp (p\<lparr>seccomp := s\<rparr>) = validate_host_ipv4_udp p"
  "validate_host_unix_stream (p\<lparr>seccomp := s\<rparr>) = validate_host_unix_stream p"
  "validate_host_unix_peer (p\<lparr>seccomp := s\<rparr>) = validate_host_unix_peer p"
  "validate_host_loopback_listener (p\<lparr>seccomp := s\<rparr>) = validate_host_loopback_listener p"
  "validate_scratch (p\<lparr>seccomp := s\<rparr>) = validate_scratch p"
  "validate_stdio (p\<lparr>seccomp := s\<rparr>) = validate_stdio p"
  "validate_clocks (p\<lparr>seccomp := s\<rparr>) = validate_clocks p"
  "validate_invocation (p\<lparr>seccomp := s\<rparr>) = validate_invocation p"
  "validate_limits (p\<lparr>seccomp := s\<rparr>) = validate_limits p"
  "validate_selected_handles (p\<lparr>seccomp := s\<rparr>) = validate_selected_handles p"
  by (simp_all add: validate_identity_def validate_volume_shape_def validate_interpreter_def
      validate_needed_def validate_cow_root_def validate_procfs_def
      validate_landlock_read_execute_def validate_landlock_file_mutate_def
      validate_landlock_path_topology_mutate_def validate_landlock_device_ioctl_def
      validate_landlock_ports_def validate_host_loopback_tcp_def validate_host_ipv4_tcp_def
      validate_host_ipv4_udp_def validate_host_unix_stream_def validate_host_unix_peer_def
      validate_host_loopback_listener_def validate_scratch_def validate_stdio_def
      validate_clocks_def validate_invocation_def validate_limits_def
      validate_selected_handles_def overlap_mounts_def validate_target_fd_def
      validate_stdout_redirect_def validate_stdout_capture_def
      cong: option.case_cong stdio_mode.case_cong if_cong)

lemma seccomp_blind_volumes: "validate_volumes (p\<lparr>seccomp := s\<rparr>) = validate_volumes p"
proof -
  have "validate_readonly_volume (p\<lparr>seccomp := s\<rparr>) = validate_readonly_volume p"
    by (rule ext) (simp add: validate_readonly_volume_def cong: option.case_cong)
  moreover have "validate_writable_volume (p\<lparr>seccomp := s\<rparr>) = validate_writable_volume p"
    by (rule ext) (simp add: validate_writable_volume_def cong: option.case_cong)
  moreover have "validate_cow_volume (p\<lparr>seccomp := s\<rparr>) = validate_cow_volume p"
    by (rule ext) (simp add: validate_cow_volume_def cong: option.case_cong)
  ultimately show ?thesis by (simp add: validate_volumes_def all_volume_paths_def)
qed

lemma reduced_policy_seccomp: "validate_seccomp reduced_policy = Inr ()"
  by (simp add: validate_seccomp_def reduced_policy_def reduced_seccomp_def example_policy_eval
      byte_class_defs)

lemma accepted_reduced: "accepted reduced_policy"
proof -
  have "validate reduced_policy = Inr ()"
    using validate_sections [OF example_policy_valid] reduced_policy_seccomp
    unfolding validate_def checks_Cons_Ok reduced_policy_def seccomp_blind_sections
      seccomp_blind_volumes by simp
  moreover have "policy_maps_ok reduced_policy"
    by (simp add: policy_maps_ok_def reduced_policy_def reduced_seccomp_def example_policy_fields
        seccomp_maps_ok_def btree_ok_def btreeset_ok_def rule_maps_ok_def)
  ultimately show ?thesis by (simp add: accepted_def)
qed

lemma accepted_example: "accepted example_policy"
  by (simp add: accepted_def example_policy_valid example_policy_maps)

section \<open>The laws of the gate\<close>

text \<open>
  A policy has no authority delta to itself: comparing an accepted policy with itself
  records no change, reports \<open>unchanged\<close> and so exits with status 0.
\<close>

theorem compare_self_unchanged:
  assumes "accepted p"
  shows "compare p p = \<lparr>delta_status = Unchanged, delta_changes = []\<rparr>"
proof -
  have "changed (policy_report p p) = []"
    using policy_delta.report_self [OF assms] by (auto simp: changed_def list_all_iff filter_empty_conv)
  then have "delta_changes (compare p p) = []"
    using compare_classes [of p p] by simp
  moreover from this have "delta_status (compare p p) = Unchanged"
    by (simp add: compare_status status_of_def saw_def)
  ultimately show ?thesis by simp
qed

theorem compare_self_unchanged_witness:
  "accepted example_policy \<and>
   compare example_policy example_policy = \<lparr>delta_status = Unchanged, delta_changes = []\<rparr>"
  using compare_self_unchanged [OF accepted_example] accepted_example by simp

text \<open>
  Swapping baseline and candidate swaps widening and reduction and keeps \<open>unchanged\<close> and
  \<open>incomparable\<close>: the two directions of a comparison of accepted policies never contradict
  each other.
\<close>

theorem compare_swap_dual:
  assumes "accepted p" and "accepted q"
  shows "delta_status (compare q p) = dual_class (delta_status (compare p q))"
proof -
  have "saw k (delta_changes (compare q p)) \<longleftrightarrow> saw (dual_class k) (delta_changes (compare p q))"
    if "k \<noteq> Unchanged" for k
    using policy_delta.swapped_classes [OF assms] that by (simp add: saw_compare)
  then show ?thesis
    by (auto simp: compare_status status_of_def)
qed

lemma seccomp_only_report:
  assumes "accepted p" and "k \<noteq> Unchanged"
  shows "k \<in> set (policy_report p (p\<lparr>seccomp := s\<rparr>)) \<longleftrightarrow> k \<in> set (seccomp_report p (p\<lparr>seccomp := s\<rparr>))"
proof -
  let ?q = "p\<lparr>seccomp := s\<rparr>"
  have same: "execution_report p ?q = execution_report p p" "filesystem_report p ?q = filesystem_report p p"
    "network_report p ?q = network_report p p" "descriptors_report p ?q = descriptors_report p p"
    "landlock_report p ?q = landlock_report p p" "controls_report p ?q = controls_report p p"
    by (simp_all add: execution_report_def filesystem_report_def network_report_def
        descriptors_report_def landlock_report_def controls_report_def interpreter_binding_def
        needed_keys_def cow_volume_map_def cow_diff_map_def cow_identity_map_def loopback_tcp_def
        ipv4_tcp_def ipv4_udp_def loopback_listener_def unix_stream_def unix_peer_def
        redirect_class_def capture_class_def time_offsets_def)
  have "list_all (\<lambda>k. k = Unchanged) (policy_report p p)"
    by (rule policy_delta.report_self [OF assms(1)])
  then show ?thesis
    unfolding policy_report_def same using assms(2) by (auto simp: list_all_iff)
qed

lemma reduced_seccomp_report:
  "seccomp_report example_policy reduced_policy = [Reduced, Reduced, Unchanged, Unchanged]"
  by (simp add: seccomp_report_def reduced_policy_def example_policy_fields example_seccomp_def
      reduced_seccomp_def syscall_intersection_def rules_class_def combine_classes_def
      compare_rule_map_def optional_map_is_subset_def btree_get_def positive_allowlist_class_def)

lemma reduced_class: "delta_status (compare example_policy reduced_policy) = Reduced"
proof -
  have "k \<in> set (policy_report example_policy reduced_policy) \<longleftrightarrow> k = Reduced" if "k \<noteq> Unchanged" for k
    using seccomp_only_report [OF accepted_example that, of reduced_seccomp] reduced_seccomp_report that
    by (auto simp: reduced_policy_def)
  then show ?thesis
    by (simp add: compare_status status_of_def saw_compare)
qed

theorem compare_swap_dual_witness:
  "accepted example_policy \<and> accepted reduced_policy \<and>
   delta_status (compare example_policy reduced_policy) = Reduced \<and>
   delta_status (compare reduced_policy example_policy) = Widened"
  using compare_swap_dual [OF accepted_example accepted_reduced] accepted_example accepted_reduced
  by (simp add: reduced_class)

text \<open>
  The gate composes: when each of two successive policy changes passes it (exit status 0),
  the change from the first to the last policy passes it as well, so a chain of approved
  changes can never add up to a widening.
\<close>

theorem compare_gate_transitive:
  assumes "accepted p" and "accepted q" and "accepted r"
    and "exit_code (compare p q) = 0" and "exit_code (compare q r) = 0"
  shows "exit_code (compare p r) = 0"
  using policy_delta.report_trans [OF assms(1-3)] assms(4,5) by (simp add: exit_code_zero)

theorem compare_gate_transitive_witness:
  "exit_code (compare example_policy reduced_policy) = 0 \<and>
   exit_code (compare reduced_policy reduced_policy) = 0 \<and>
   exit_code (compare example_policy reduced_policy) = 0"
proof -
  have step: "exit_code (compare example_policy reduced_policy) = 0"
    by (simp add: exit_code_def reduced_class)
  have stay: "exit_code (compare reduced_policy reduced_policy) = 0"
    using policy_delta.self_non_widening [OF accepted_reduced] by (simp add: exit_code_zero)
  show ?thesis
    using compare_gate_transitive [OF accepted_example accepted_reduced accepted_reduced step stay]
      step stay by simp
qed

section \<open>What exit status 0 means\<close>

text \<open>The order on policies the gate decides, dimension by dimension.\<close>

definition execution_le :: "sandbox_policy \<Rightarrow> sandbox_policy \<Rightarrow> bool" where
  "execution_le new base \<longleftrightarrow>
     path_eq (root_dir base) (root_dir new) \<and> hostname base = hostname new \<and>
     path_eq (executable base) (executable new) \<and> args base = args new \<and>
     environment base = environment new \<and> path_eq (working_dir base) (working_dir new) \<and>
     (executable_sha256 base = None \<or> executable_sha256 base = executable_sha256 new) \<and>
     (interpreter_binding base = None \<or> interpreter_binding base = interpreter_binding new) \<and>
     (needed_keys base = [] \<or> needed_keys base = needed_keys new)"

text \<open>A copy-on-write volume of the candidate is one of the baseline with ceilings no larger.\<close>

definition cow_volume_le :: "copy_on_write_volume_binding \<Rightarrow> copy_on_write_volume_binding \<Rightarrow> bool" where
  "cow_volume_le x y \<longleftrightarrow>
     cow_key x = cow_key y \<and> cow_bytes x \<le> cow_bytes y \<and>
     allowance_le (diff_bytes x) (diff_bytes y) \<and>
     (\<forall>l. option_zip (base_identity_bytes x) (base_identity_nodes x) = Some l \<longrightarrow>
        (\<exists>m. option_zip (base_identity_bytes y) (base_identity_nodes y) = Some m \<and> limits_le l m))"

definition scratch_le :: "sandbox_policy \<Rightarrow> sandbox_policy \<Rightarrow> bool" where
  "scratch_le new base \<longleftrightarrow>
     (\<forall>d n. scratch_of new = (Some d, Some n) \<longrightarrow>
        (\<exists>e m. scratch_of base = (Some e, Some m) \<and> path_eq e d \<and> n \<le> m))"

definition filesystem_le :: "sandbox_policy \<Rightarrow> sandbox_policy \<Rightarrow> bool" where
  "filesystem_le new base \<longleftrightarrow>
     procfs_enabled base = procfs_enabled new \<and>
     allowance_le (cow_root_bytes new) (cow_root_bytes base) \<and>
     allowance_le (cow_diff_bytes new) (cow_diff_bytes base) \<and> scratch_le new base \<and>
     volume_key ` set (normalized_readonly_volume_bindings new)
       \<subseteq> volume_key ` set (normalized_readonly_volume_bindings base) \<and>
     volume_key ` set (normalized_writable_volume_bindings new)
       \<subseteq> volume_key ` set (normalized_writable_volume_bindings base) \<and>
     (\<forall>x\<in>set (copy_on_write_volume_bindings new).
        \<exists>y\<in>set (copy_on_write_volume_bindings base). cow_volume_le x y)"

definition network_le :: "sandbox_policy \<Rightarrow> sandbox_policy \<Rightarrow> bool" where
  "network_le new base \<longleftrightarrow>
     (loopback_enabled new \<longrightarrow> loopback_enabled base) \<and>
     (loopback_tcp new = None \<or> loopback_tcp base = loopback_tcp new) \<and>
     (ipv4_tcp new = None \<or> ipv4_tcp base = ipv4_tcp new) \<and>
     (ipv4_udp new = None \<or> ipv4_udp base = ipv4_udp new) \<and>
     (loopback_listener new = None \<or> loopback_listener base = loopback_listener new) \<and>
     (unix_stream new = None \<or> unix_stream base = unix_stream new) \<and>
     (unix_peer base = None \<or> unix_peer base = unix_peer new)"

definition descriptors_le :: "sandbox_policy \<Rightarrow> sandbox_policy \<Rightarrow> bool" where
  "descriptors_le new base \<longleftrightarrow>
     (\<forall>stream\<in>{stdin, stdout, stderr}. stream (stdio new) = Closed \<or> stream (stdio base) = stream (stdio new)) \<and>
     submap (selected_handles new) (selected_handles base) \<and>
     (stdout (stdio new) = Redirect \<longrightarrow>
        map_option components (stdout_redirect base) = map_option components (stdout_redirect new)) \<and>
     (stdout (stdio new) = Capture \<longrightarrow>
        allowance_le (stdout_capture_bytes new) (stdout_capture_bytes base))"

definition landlock_le :: "sandbox_policy \<Rightarrow> sandbox_policy \<Rightarrow> bool" where
  "landlock_le new base \<longleftrightarrow>
     allowlist_le (map components (landlock_read_execute new)) (map components (landlock_read_execute base)) \<and>
     allowlist_le (map components (landlock_file_mutate new)) (map components (landlock_file_mutate base)) \<and>
     components ` set (landlock_path_topology_mutate new)
       \<subseteq> components ` set (landlock_path_topology_mutate base) \<and>
     allowlist_le (map components (landlock_device_ioctl new)) (map components (landlock_device_ioctl base)) \<and>
     allowlist_le (landlock_tcp_bind_ports new) (landlock_tcp_bind_ports base) \<and>
     allowlist_le (landlock_tcp_connect_ports new) (landlock_tcp_connect_ports base) \<and>
     (landlock_scope_abstract_unix_socket base \<longrightarrow> landlock_scope_abstract_unix_socket new) \<and>
     (landlock_scope_signal base \<longrightarrow> landlock_scope_signal new)"

definition controls_le :: "sandbox_policy \<Rightarrow> sandbox_policy \<Rightarrow> bool" where
  "controls_le new base \<longleftrightarrow>
     cpu_seconds (limits new) \<le> cpu_seconds (limits base) \<and>
     address_space_bytes (limits new) \<le> address_space_bytes (limits base) \<and>
     file_size_bytes (limits new) \<le> file_size_bytes (limits base) \<and>
     open_files (limits new) \<le> open_files (limits base) \<and>
     ceiling_le (wall_clock_milliseconds new) (wall_clock_milliseconds base) \<and>
     ceiling_le (stdout_total_bytes new) (stdout_total_bytes base) \<and>
     time_offsets base = time_offsets new"

definition authority_le :: "sandbox_policy \<Rightarrow> sandbox_policy \<Rightarrow> bool" where
  "authority_le new base \<longleftrightarrow>
     execution_le new base \<and> filesystem_le new base \<and> network_le new base \<and>
     descriptors_le new base \<and> landlock_le new base \<and> controls_le new base \<and>
     seccomp_le (seccomp new) (seccomp base)"

lemma nw_scratch:
  assumes "accepted b" and "accepted c"
  shows "non_widening (scratch_class (scratch_of b) (scratch_of c)) \<longleftrightarrow> scratch_le c b"
  using accepted_scratch [OF assms(1)] accepted_scratch [OF assms(2)]
  by (cases "(scratch_of b, scratch_of c)" rule: scratch_class.cases)
    (auto simp: scratch_le_def pair_complete_def nw_allowance)

text \<open>Copy-on-write volumes of an accepted policy have different keys.\<close>

lemma cow_keys_distinct:
  assumes "accepted p"
  shows "distinct (map cow_key (copy_on_write_volume_bindings p))"
proof -
  let ?pre = "map (\<lambda>v. (volume_source v, volume_target v)) (normalized_readonly_volume_bindings p) @
    map (\<lambda>v. (volume_source v, volume_target v)) (normalized_writable_volume_bindings p)"
  let ?cow = "copy_on_write_volume_bindings p"
  have all: "all_volume_paths p = ?pre @ map (\<lambda>v. (cow_source v, cow_target v)) ?cow"
    by (simp add: all_volume_paths_def)
  have volumes: "validate_volumes p = Inr ()"
    using assms validate_sections(18) by (simp add: accepted_def)
  have "cow_key (?cow ! i) \<noteq> cow_key (?cow ! j)"
    if "i < length ?cow" "j < length ?cow" "i \<noteq> j" for i j
  proof -
    have "\<not> overlaps (cow_source (?cow ! i)) (cow_source (?cow ! j))"
      using validate_volumes_disjoint(1) [OF volumes, of "length ?pre + i" "length ?pre + j"] that
      by (simp add: all nth_append)
    then show ?thesis
      using path_eq_overlaps by (auto simp: cow_key_def path_eq_def)
  qed
  then show ?thesis by (simp add: distinct_conv_nth)
qed

lemma covers_collect:
  assumes "distinct (map fst kvs)" and "distinct (map fst lvs)"
  shows "covers le (collect_btree kvs) (collect_btree lvs) \<longleftrightarrow>
    (\<forall>(k, v)\<in>set lvs. \<exists>w. (k, w) \<in> set kvs \<and> le v w)"
  by (auto simp: covers_iff btree_get_collect [OF assms(1)] btree_get_collect [OF assms(2)])

lemma distinct_map_filter_keys:
  assumes "distinct (map cow_key bs)"
  shows "distinct (map fst (List.map_filter (\<lambda>b. map_option (\<lambda>v. (cow_key b, v)) (g b)) bs))"
proof -
  have "map fst (List.map_filter (\<lambda>b. map_option (\<lambda>v. (cow_key b, v)) (g b)) bs) =
      map cow_key (filter (\<lambda>b. g b \<noteq> None) bs)"
    by (induction bs) (auto simp: List.map_filter_def)
  then show ?thesis using assms by (simp add: distinct_map_filter)
qed

lemma set_map_filter_keys:
  "set (List.map_filter (\<lambda>b. map_option (\<lambda>v. (cow_key b, v)) (g b)) bs) =
     {(cow_key b, v) | b v. b \<in> set bs \<and> g b = Some v}"
  by (induction bs) (auto simp: List.map_filter_def)

lemma covers_exports:
  assumes "distinct (map cow_key bs)" and "distinct (map cow_key cs)"
  shows "covers le
      (collect_btree (List.map_filter (\<lambda>b. map_option (\<lambda>v. (cow_key b, v)) (g b)) bs))
      (collect_btree (List.map_filter (\<lambda>b. map_option (\<lambda>v. (cow_key b, v)) (g b)) cs)) \<longleftrightarrow>
    (\<forall>x\<in>set cs. \<forall>n. g x = Some n \<longrightarrow>
       (\<exists>y\<in>set bs. cow_key x = cow_key y \<and> (\<exists>m. g y = Some m \<and> le n m)))"
  unfolding covers_collect [OF distinct_map_filter_keys distinct_map_filter_keys, OF assms]
    set_map_filter_keys
  by fastforce

lemma nw_cow_volumes:
  assumes "accepted b" and "accepted c"
  shows "covers (\<le>) (cow_volume_map b) (cow_volume_map c) \<and>
      covers (\<le>) (cow_diff_map b) (cow_diff_map c) \<and>
      covers limits_le (cow_identity_map b) (cow_identity_map c) \<longleftrightarrow>
    (\<forall>x\<in>set (copy_on_write_volume_bindings c).
       \<exists>y\<in>set (copy_on_write_volume_bindings b). cow_volume_le x y)"
    (is "?covers \<longleftrightarrow> ?le")
proof -
  note db = cow_keys_distinct [OF assms(1)] and dc = cow_keys_distinct [OF assms(2)]
  have bytes: "covers (\<le>) (cow_volume_map b) (cow_volume_map c) \<longleftrightarrow>
    (\<forall>x\<in>set (copy_on_write_volume_bindings c). \<exists>y\<in>set (copy_on_write_volume_bindings b).
       cow_key x = cow_key y \<and> cow_bytes x \<le> cow_bytes y)"
    unfolding cow_volume_map_def using db dc
    by (subst covers_collect) (simp_all add: comp_def image_iff, blast)
  have diff: "covers (\<le>) (cow_diff_map b) (cow_diff_map c) \<longleftrightarrow>
    (\<forall>x\<in>set (copy_on_write_volume_bindings c). \<forall>n. diff_bytes x = Some n \<longrightarrow>
       (\<exists>y\<in>set (copy_on_write_volume_bindings b). cow_key x = cow_key y \<and>
          (\<exists>m. diff_bytes y = Some m \<and> n \<le> m)))"
    unfolding cow_diff_map_def by (rule covers_exports [OF db dc])
  have identity: "covers limits_le (cow_identity_map b) (cow_identity_map c) \<longleftrightarrow>
    (\<forall>x\<in>set (copy_on_write_volume_bindings c).
       \<forall>l. option_zip (base_identity_bytes x) (base_identity_nodes x) = Some l \<longrightarrow>
       (\<exists>y\<in>set (copy_on_write_volume_bindings b). cow_key x = cow_key y \<and>
          (\<exists>m. option_zip (base_identity_bytes y) (base_identity_nodes y) = Some m \<and> limits_le l m)))"
    unfolding cow_identity_map_def by (rule covers_exports [OF db dc])
  have inj: "y = z" if "y \<in> set (copy_on_write_volume_bindings b)"
    "z \<in> set (copy_on_write_volume_bindings b)" "cow_key y = cow_key z" for y z
    using db that by (auto simp: distinct_map inj_on_def)
  show ?thesis
  proof
    assume ?covers
    show ?le
    proof
      fix x assume x: "x \<in> set (copy_on_write_volume_bindings c)"
      then obtain y where y: "y \<in> set (copy_on_write_volume_bindings b)" "cow_key x = cow_key y"
        "cow_bytes x \<le> cow_bytes y" using \<open>?covers\<close> bytes by blast
      have "allowance_le (diff_bytes x) (diff_bytes y)"
        unfolding allowance_le_def using \<open>?covers\<close> diff x y inj by metis
      moreover have "\<forall>l. option_zip (base_identity_bytes x) (base_identity_nodes x) = Some l \<longrightarrow>
          (\<exists>m. option_zip (base_identity_bytes y) (base_identity_nodes y) = Some m \<and> limits_le l m)"
        using \<open>?covers\<close> identity x y inj by metis
      ultimately show "\<exists>y\<in>set (copy_on_write_volume_bindings b). cow_volume_le x y"
        using y unfolding cow_volume_le_def by blast
    qed
  next
    assume ?le
    then show ?covers
      unfolding bytes diff identity cow_volume_le_def allowance_le_def by meson
  qed
qed

text \<open>
  C3: Exit status 0 decides the authority order exactly: for accepted policies the gate passes
  if and only if no dimension of the candidate exceeds the baseline. The candidate then runs the
  same invocation, keeps every content binding, mounts no further volume, opens no further
  endpoint or handle, keeps every Landlock restriction, stays within every ceiling, and allows
  only syscalls of the baseline with at least its argument rules.
\<close>

theorem compare_gate_exact:
  assumes "accepted b" and "accepted c"
  shows "exit_code (compare b c) = 0 \<longleftrightarrow> authority_le c b"
proof -
  have "list_all non_widening (execution_report b c) \<longleftrightarrow> execution_le c b"
    by (auto simp: execution_report_def execution_le_def nw_classes path_eq_def)
  moreover have "list_all non_widening (filesystem_report b c) \<longleftrightarrow> filesystem_le c b"
    unfolding filesystem_le_def nw_cow_volumes [OF assms, symmetric]
    by (simp add: filesystem_report_def nw_classes nw_scratch [OF assms])
  moreover have "list_all non_widening (network_report b c) \<longleftrightarrow> network_le c b"
    by (simp add: network_report_def network_le_def nw_classes)
  moreover have "list_all non_widening (descriptors_report b c) \<longleftrightarrow> descriptors_le c b"
    using accepted_handles [OF assms(2)]
    by (auto simp: descriptors_report_def descriptors_le_def nw_classes nw_redirect
        nw_capture [OF assms] map_is_subset_iff)
  moreover have "list_all non_widening (landlock_report b c) \<longleftrightarrow> landlock_le c b"
    by (simp add: landlock_report_def landlock_le_def nw_classes)
  moreover have "list_all non_widening (controls_report b c) \<longleftrightarrow> controls_le c b"
    by (simp add: controls_report_def controls_le_def nw_classes)
  ultimately show ?thesis
    by (simp add: exit_code_zero policy_report_def authority_le_def nw_seccomp [OF assms(1)])
qed

theorem compare_gate_exact_witness:
  "accepted example_policy \<and> accepted reduced_policy \<and>
   exit_code (compare example_policy reduced_policy) = 0 \<and> authority_le reduced_policy example_policy"
proof -
  have "exit_code (compare example_policy reduced_policy) = 0"
    by (simp add: exit_code_def reduced_class)
  then show ?thesis
    using compare_gate_exact [OF accepted_example accepted_reduced] accepted_example accepted_reduced
    by simp
qed

end
