(* ===== verification/Seccomp.thy ===== *)
theory Seccomp
  imports Policy_Guarantees
begin

unbundle bit_operations_syntax

text \<open>
  The seccomp compiler of \<open>platform/linux.rs\<close>: \<open>compile_seccomp\<close> and its emitters, over the
  instruction record of classic BPF. The constants of the \<open>libc\<close> crate are a parameter of the
  compiler; the kernel's filter machine is a locale with the documented effect of the six
  opcodes the compiler emits.
\<close>

section \<open>Instructions and constants\<close>

record sock_filter =
  code :: u16
  jt :: u8
  jf :: u8
  k :: u32

definition AUDIT_ARCH_X86_64 :: u32 where "AUDIT_ARCH_X86_64 = 0xC000003E"
definition SECCOMP_RET_KILL_PROCESS :: u32 where "SECCOMP_RET_KILL_PROCESS = 0x80000000"
definition SECCOMP_RET_ERRNO :: u32 where "SECCOMP_RET_ERRNO = 0x00050000"
definition SECCOMP_RET_ALLOW :: u32 where "SECCOMP_RET_ALLOW = 0x7FFF0000"
definition BPF_LD_W_ABS :: u16 where "BPF_LD_W_ABS = 0x20"
definition BPF_ALU_AND_K :: u16 where "BPF_ALU_AND_K = 0x54"
definition BPF_JMP_JEQ_K :: u16 where "BPF_JMP_JEQ_K = 0x15"
definition BPF_JMP_JGT_K :: u16 where "BPF_JMP_JGT_K = 0x25"
definition BPF_JMP_JGE_K :: u16 where "BPF_JMP_JGE_K = 0x35"
definition BPF_RET_K :: u16 where "BPF_RET_K = 0x06"
definition SECCOMP_DATA_ARGS_OFFSET :: u32 where "SECCOMP_DATA_ARGS_OFFSET = 16"
definition EXECVEAT_AT_EMPTY_PATH :: u32 where "EXECVEAT_AT_EMPTY_PATH = 0x1000"

definition stmt :: "u16 \<Rightarrow> u32 \<Rightarrow> sock_filter" where
  "stmt c v = \<lparr>code = c, jt = 0, jf = 0, k = v\<rparr>"

definition jump :: "u16 \<Rightarrow> u32 \<Rightarrow> u8 \<Rightarrow> u8 \<Rightarrow> sock_filter" where
  "jump c v t f = \<lparr>code = c, jt = t, jf = f, k = v\<rparr>"

text \<open>
  What the compiler takes from the \<open>libc\<close> crate: the errno \<open>EPERM\<close> and the number \<open>SYS_name\<close>
  of each syscall it names.
\<close>

record libc =
  EPERM :: int
  SYS :: "string \<Rightarrow> int"

definition syscall_names :: "string list" where
  "syscall_names = [''read'', ''write'', ''close'', ''fstat'', ''lseek'', ''mmap'', ''mprotect'',
     ''munmap'', ''brk'', ''rt_sigaction'', ''rt_sigprocmask'', ''rt_sigreturn'', ''ioctl'',
     ''socket'', ''connect'', ''accept'', ''bind'', ''listen'', ''recvmsg'', ''sendmsg'', ''msgget'',
     ''pread64'', ''access'', ''mremap'', ''madvise'', ''getpid'', ''getppid'', ''fork'', ''pause'',
     ''sched_yield'', ''nanosleep'', ''getuid'', ''getgid'', ''geteuid'', ''getegid'', ''getgroups'',
     ''capget'', ''fcntl'', ''getcwd'', ''readlink'', ''sigaltstack'', ''arch_prctl'', ''gettid'',
     ''futex'', ''sched_getaffinity'', ''set_tid_address'', ''exit'', ''tgkill'', ''openat'',
     ''fchmod'', ''rename'', ''mkdir'', ''rmdir'', ''unlink'', ''symlink'', ''truncate'',
     ''newfstatat'', ''set_robust_list'', ''prlimit64'', ''getrandom'', ''execve'', ''execveat'',
     ''exit_group'', ''statx'', ''rseq'', ''prctl'', ''clock_gettime'', ''uname'', ''readlinkat'',
     ''pidfd_open'', ''pidfd_send_signal'']"

definition syscall_number :: "libc \<Rightarrow> string \<Rightarrow> int option" where
  "syscall_number lc name = (if name \<in> set syscall_names then Some (SYS lc name) else None)"

text \<open>\<open>SandboxError\<close>, and the panic of \<open>unreachable!\<close>.\<close>

datatype sandbox_error =
    InvalidPolicy policy_error
  | UnsupportedPlatform string "fmt_arg list"
  | SetupFailed string "fmt_arg list"
  | Panic string

abbreviation invalid_policy :: "string \<Rightarrow> fmt_arg list \<Rightarrow> sandbox_error" where
  "invalid_policy msg as \<equiv> InvalidPolicy (policy_error_new msg as)"

section \<open>Emitters\<close>

text \<open>\<open>x as u32\<close> and \<open>(x >> 32) as u32\<close>.\<close>

definition low_word :: "u64 \<Rightarrow> u32" where
  "low_word w = ucast w"

definition high_word :: "u64 \<Rightarrow> u32" where
  "high_word w = ucast (drop_bit 32 w)"

definition argument_offset :: "u8 \<Rightarrow> u32" where
  "argument_offset i = SECCOMP_DATA_ARGS_OFFSET + ucast i * 8"

definition ret_eperm :: "libc \<Rightarrow> u32" where
  "ret_eperm lc = SECCOMP_RET_ERRNO OR word_of_int (EPERM lc)"

definition append_bootstrap_execveat_allow ::
  "libc \<Rightarrow> sock_filter list \<Rightarrow> int \<Rightarrow> sock_filter list" where
  "append_bootstrap_execveat_allow lc prog bootstrap_exec_fd =
     (let fd_offset = SECCOMP_DATA_ARGS_OFFSET;
          flags_offset = SECCOMP_DATA_ARGS_OFFSET + 4 * 8;
          prog = prog @ [jump BPF_JMP_JEQ_K (word_of_int (SYS lc ''execveat'')) 0 10]
      in prog @ [
        stmt BPF_LD_W_ABS fd_offset,
        jump BPF_JMP_JEQ_K (word_of_int bootstrap_exec_fd) 0 7,
        stmt BPF_LD_W_ABS (fd_offset + 4),
        jump BPF_JMP_JEQ_K 0 0 5,
        stmt BPF_LD_W_ABS flags_offset,
        jump BPF_JMP_JEQ_K EXECVEAT_AT_EMPTY_PATH 0 3,
        stmt BPF_LD_W_ABS (flags_offset + 4),
        jump BPF_JMP_JEQ_K 0 0 1,
        stmt BPF_RET_K SECCOMP_RET_ALLOW,
        stmt BPF_LD_W_ABS 0])"

definition append_seccomp_argument_word_check ::
  "libc \<Rightarrow> sock_filter list \<Rightarrow> u32 \<Rightarrow> u32 \<Rightarrow> u32 \<Rightarrow> sock_filter list" where
  "append_seccomp_argument_word_check lc prog offset m v =
     (if m = 0 then prog
      else let prog = prog @ [stmt BPF_LD_W_ABS offset];
               prog = (if m \<noteq> 0xFFFFFFFF then prog @ [stmt BPF_ALU_AND_K m] else prog)
           in prog @ [jump BPF_JMP_JEQ_K v 1 0, stmt BPF_RET_K (ret_eperm lc)])"

definition append_seccomp_argument_checks ::
  "libc \<Rightarrow> sock_filter list \<Rightarrow> u8 \<Rightarrow> u64 \<Rightarrow> u64 \<Rightarrow> sock_filter list" where
  "append_seccomp_argument_checks lc prog i m v =
     (let prog = append_seccomp_argument_word_check lc prog (argument_offset i)
            (low_word m) (low_word v)
      in append_seccomp_argument_word_check lc prog (argument_offset i + 4)
            (high_word m) (high_word v))"

definition append_seccomp_argument_forbidden_mask_checks ::
  "libc \<Rightarrow> sock_filter list \<Rightarrow> u8 \<Rightarrow> u64 \<Rightarrow> u64 \<Rightarrow> (sock_filter list, sandbox_error) result" where
  "append_seccomp_argument_forbidden_mask_checks lc prog i m v =
     (let low_mask = low_word m; low_value = low_word v;
          high_mask = high_word m; high_value = high_word v
      in if low_mask \<noteq> 0 \<and> high_mask \<noteq> 0 then
        (let prog = prog @ [stmt BPF_LD_W_ABS (argument_offset i)];
             prog = (if low_mask \<noteq> 0xFFFFFFFF then prog @ [stmt BPF_ALU_AND_K low_mask] else prog);
             high_block_len = (if high_mask = 0xFFFFFFFF then 3 else 4);
             prog = prog @ [jump BPF_JMP_JEQ_K low_value 0 high_block_len,
                                stmt BPF_LD_W_ABS (argument_offset i + 4)];
             prog = (if high_mask \<noteq> 0xFFFFFFFF then prog @ [stmt BPF_ALU_AND_K high_mask] else prog)
         in Ok (prog @ [jump BPF_JMP_JEQ_K high_value 0 1, stmt BPF_RET_K (ret_eperm lc)]))
      else if low_mask \<noteq> 0 then
        (let prog = prog @ [stmt BPF_LD_W_ABS (argument_offset i)];
             prog = (if low_mask \<noteq> 0xFFFFFFFF then prog @ [stmt BPF_ALU_AND_K low_mask] else prog)
         in Ok (prog @ [jump BPF_JMP_JEQ_K low_value 0 1, stmt BPF_RET_K (ret_eperm lc)]))
      else if high_mask \<noteq> 0 then
        (let prog = prog @ [stmt BPF_LD_W_ABS (argument_offset i + 4)];
             prog = (if high_mask \<noteq> 0xFFFFFFFF then prog @ [stmt BPF_ALU_AND_K high_mask] else prog)
         in Ok (prog @ [jump BPF_JMP_JEQ_K high_value 0 1, stmt BPF_RET_K (ret_eperm lc)]))
      else Err (Panic ''zero forbidden mask rejected by policy validation''))"

definition append_seccomp_argument_range_checks ::
  "libc \<Rightarrow> sock_filter list \<Rightarrow> u8 \<Rightarrow> u64 \<Rightarrow> u64 \<Rightarrow> sock_filter list" where
  "append_seccomp_argument_range_checks lc prog i mn mx =
     prog @ [
       stmt BPF_LD_W_ABS (argument_offset i + 4),
       jump BPF_JMP_JGE_K (high_word mn) 1 0,
       stmt BPF_RET_K (ret_eperm lc),
       jump BPF_JMP_JEQ_K (high_word mn) 0 3,
       stmt BPF_LD_W_ABS (argument_offset i),
       jump BPF_JMP_JGE_K (low_word mn) 1 0,
       stmt BPF_RET_K (ret_eperm lc),
       stmt BPF_LD_W_ABS (argument_offset i + 4),
       jump BPF_JMP_JGT_K (high_word mx) 0 1,
       stmt BPF_RET_K (ret_eperm lc),
       jump BPF_JMP_JEQ_K (high_word mx) 0 3,
       stmt BPF_LD_W_ABS (argument_offset i),
       jump BPF_JMP_JGT_K (low_word mx) 0 1,
       stmt BPF_RET_K (ret_eperm lc)]"

section \<open>The compiler\<close>

record compiled_seccomp =
  filter_program :: "sock_filter list"
  error_exit_syscall :: int

definition error_exit :: "libc \<Rightarrow> seccomp_policy \<Rightarrow> (int, sandbox_error) result" where
  "error_exit lc s =
     (if ''exit'' \<in> set (allowed_syscalls s) then Ok (SYS lc ''exit'')
      else if ''exit_group'' \<in> set (allowed_syscalls s) then Ok (SYS lc ''exit_group'')
      else Err (invalid_policy ''seccomp allowlist must include exit or exit_group so launch failures can terminate after filter installation'' []))"

definition resolve_syscalls :: "libc \<Rightarrow> string list \<Rightarrow> ((u32 \<times> string) list, sandbox_error) result" where
  "resolve_syscalls lc names =
     fold_result (\<lambda>acc name. and_then
         (ok_or (invalid_policy ''unsupported Linux x86_64 syscall name: {name}'' [FStr name])
            (syscall_number lc name))
         (\<lambda>number. Ok (acc @ [(word_of_int number, name)])))
       [] names"

text \<open>\<open>for pair in syscalls.windows(2)\<close>.\<close>

fun check_distinct_numbers :: "(u32 \<times> string) list \<Rightarrow> (unit, sandbox_error) result" where
  "check_distinct_numbers (x # y # rest) = checks [
     reject (fst x = fst y)
       (invalid_policy ''multiple syscall names resolve to Linux x86_64 number {}'' [FNat (unat (fst x))]),
     check_distinct_numbers (y # rest)]"
| "check_distinct_numbers _ = Ok ()"

definition rules_of :: "(string, (u8, 'r) btreemap) btreemap \<Rightarrow> string \<Rightarrow> (u8 \<times> 'r) list" where
  "rules_of m name = (case btree_get m name of None \<Rightarrow> [] | Some rules \<Rightarrow> rules)"

definition argument_check_block ::
  "libc \<Rightarrow> seccomp_policy \<Rightarrow> string \<Rightarrow> (sock_filter list, sandbox_error) result" where
  "argument_check_block lc s name =
     (let chks = fold (\<lambda>(i, rule) chks.
              append_seccomp_argument_checks lc chks i (rule_mask rule) (rule_value rule))
            (rules_of (argument_rules s) name) [];
          chks = fold (\<lambda>(i, rule) chks.
              append_seccomp_argument_range_checks lc chks i (minimum rule) (maximum rule))
            (rules_of (argument_range_rules s) name) chks
      in and_then (fold_result (\<lambda>chks (i, rule).
              append_seccomp_argument_forbidden_mask_checks lc chks i (rule_mask rule) (rule_value rule))
            chks (rules_of (argument_forbidden_mask_rules s) name))
         (\<lambda>chks. let chks = chks @ [stmt BPF_RET_K SECCOMP_RET_ALLOW] in
            if length chks > 255
            then Err (invalid_policy ''seccomp argument-check block for {name} is too large'' [FStr name])
            else Ok chks))"

definition append_syscall ::
  "libc \<Rightarrow> seccomp_policy \<Rightarrow> sock_filter list \<Rightarrow> u32 \<times> string \<Rightarrow> (sock_filter list, sandbox_error) result" where
  "append_syscall lc s prog syscall =
     and_then (argument_check_block lc s (snd syscall))
       (\<lambda>chks. Ok (prog @ [jump BPF_JMP_JEQ_K (fst syscall) 0 (of_nat (length chks))] @ chks))"

definition compile_seccomp ::
  "libc \<Rightarrow> sandbox_policy \<Rightarrow> int \<Rightarrow> (compiled_seccomp, sandbox_error) result" where
  "compile_seccomp lc policy bootstrap_exec_fd =
     (let s = seccomp policy in
      and_then (error_exit lc s) (\<lambda>exit_syscall.
      and_then (resolve_syscalls lc (allowed_syscalls s)) (\<lambda>resolved.
      let syscalls = sort_key fst resolved in
      and_then (check_distinct_numbers syscalls) (\<lambda>_.
      let prog = [
            stmt BPF_LD_W_ABS 4,
            jump BPF_JMP_JEQ_K AUDIT_ARCH_X86_64 1 0,
            stmt BPF_RET_K SECCOMP_RET_KILL_PROCESS,
            stmt BPF_LD_W_ABS 0];
          prog = (if ''execveat'' \<notin> set (allowed_syscalls s)
                    then append_bootstrap_execveat_allow lc prog bootstrap_exec_fd
                    else prog) in
      and_then (fold_result (append_syscall lc s) prog syscalls) (\<lambda>prog.
      let prog = prog @ [stmt BPF_RET_K (ret_eperm lc)] in
      if length prog > 65535 then Err (invalid_policy ''seccomp program is too large'' [])
      else Ok \<lparr>filter_program = prog, error_exit_syscall = exit_syscall\<rparr>)))))"

section \<open>Halves of a 64-bit word\<close>

lemma unat_low: "unat (low_word w) = unat w mod 2 ^ 32"
proof -
  have "unat (ucast w :: u32) = take_bit 32 (unat w)"
    by transfer (simp add: nat_take_bit_eq [symmetric])
  then show ?thesis by (simp add: low_word_def take_bit_eq_mod)
qed

lemma unat_high: "unat (high_word w) = unat w div 2 ^ 32"
proof -
  have "unat (ucast (drop_bit 32 w) :: u32) = take_bit 32 (unat (drop_bit 32 w))"
    by transfer (simp add: nat_take_bit_eq [symmetric])
  moreover have "unat (drop_bit 32 w) = unat w div 2 ^ 32"
    using unat_drop_bit_eq [of 32 w] drop_bit_eq_div [of 32 "unat w"] by (rule trans)
  moreover have "unat w div 2 ^ 32 < 2 ^ 32"
    using unsigned_less [of w, where ?'a = nat] by (simp add: less_mult_imp_div_less)
  ultimately show ?thesis
    unfolding high_word_def by (simp only: take_bit_eq_mod mod_less)
qed

lemma word_eq_halves: "x = y \<longleftrightarrow> low_word x = low_word y \<and> high_word x = high_word y"
proof -
  have "unat x = unat y" if "low_word x = low_word y" "high_word x = high_word y"
    using that unat_low [of x] unat_low [of y] unat_high [of x] unat_high [of y]
    by (metis div_mult_mod_eq)
  then show ?thesis using word_unat_eq_iff [of x y] by auto
qed

lemma nat_le_halves:
  assumes "0 < b"
  shows "(m :: nat) \<le> n \<longleftrightarrow> m div b < n div b \<or> m div b = n div b \<and> m mod b \<le> n mod b"
proof -
  have "m = b * (m div b) + m mod b" "n = b * (n div b) + n mod b" by simp_all
  then show ?thesis
    by (metis add_le_cancel_left div_le_mono linorder_not_le nle_le order_le_less)
qed

lemma word_le_halves:
  "x \<le> y \<longleftrightarrow> high_word x < high_word y \<or> high_word x = high_word y \<and> low_word x \<le> low_word y"
  unfolding word_le_nat_alt word_less_nat_alt word_unat_eq_iff unat_low unat_high
  by (rule nat_le_halves) simp

lemma low_word_and: "low_word (x AND y) = low_word x AND low_word y"
  by (rule bit_eqI) (auto simp: low_word_def bit_simps)

lemma high_word_and: "high_word (x AND y) = high_word x AND high_word y"
  by (rule bit_eqI) (auto simp: high_word_def bit_simps)

end
