(* ===== verification/Seccomp_Machine.thy ===== *)
theory Seccomp_Machine
  imports Seccomp
begin

unbundle bit_operations_syntax

text \<open>
  The filter machine of the kernel as an interface, a reference interpreter that implements it,
  and what the emitted blocks do on any machine that obeys the interface. Jumps of classic BPF
  only go forward, so the state of the machine is the rest of the program and the accumulator.
\<close>

section \<open>The machine\<close>

text \<open>
  \<open>struct seccomp_data\<close>: the syscall number, the architecture, the instruction pointer and the
  six arguments, read as 32-bit words in little-endian order.
\<close>

record seccomp_data =
  data_nr :: u32
  data_arch :: u32
  instruction_pointer :: u64
  data_args :: "nat \<Rightarrow> u64"

definition data_word :: "seccomp_data \<Rightarrow> u32 \<Rightarrow> u32" where
  "data_word d off =
     (let n = unat off in
      if n = 0 then data_nr d
      else if n = 4 then data_arch d
      else if n = 8 then low_word (instruction_pointer d)
      else if n = 12 then high_word (instruction_pointer d)
      else if n mod 8 = 0 then low_word (data_args d ((n - 16) div 8))
      else high_word (data_args d ((n - 16) div 8)))"

definition load_ok :: "u32 \<Rightarrow> bool" where
  "load_ok off \<longleftrightarrow> unat off < 64 \<and> unat off mod 4 = 0"

locale bpf_machine =
  fixes run :: "sock_filter list \<Rightarrow> seccomp_data \<Rightarrow> u32 \<Rightarrow> u32 option"
  assumes run_ld [bpf_step]: "load_ok off \<Longrightarrow>
      run (stmt BPF_LD_W_ABS off # rest) d a = run rest d (data_word d off)"
    and run_and [bpf_step]: "run (stmt BPF_ALU_AND_K m # rest) d a = run rest d (a AND m)"
    and run_jeq [bpf_step]: "run (jump BPF_JMP_JEQ_K v t f # rest) d a =
      run (drop (unat (if a = v then t else f)) rest) d a"
    and run_jgt [bpf_step]: "run (jump BPF_JMP_JGT_K v t f # rest) d a =
      run (drop (unat (if v < a then t else f)) rest) d a"
    and run_jge [bpf_step]: "run (jump BPF_JMP_JGE_K v t f # rest) d a =
      run (drop (unat (if v \<le> a then t else f)) rest) d a"
    and run_ret [bpf_step]: "run (stmt BPF_RET_K v # rest) d a = Some v"

function bpf_run :: "sock_filter list \<Rightarrow> seccomp_data \<Rightarrow> u32 \<Rightarrow> u32 option" where
  "bpf_run [] d a = None"
| "bpf_run (i # rest) d a =
     (if code i = BPF_LD_W_ABS then
        (if load_ok (k i) then bpf_run rest d (data_word d (k i)) else None)
      else if code i = BPF_ALU_AND_K then bpf_run rest d (a AND k i)
      else if code i = BPF_JMP_JEQ_K then bpf_run (drop (unat (if a = k i then jt i else jf i)) rest) d a
      else if code i = BPF_JMP_JGT_K then bpf_run (drop (unat (if k i < a then jt i else jf i)) rest) d a
      else if code i = BPF_JMP_JGE_K then bpf_run (drop (unat (if k i \<le> a then jt i else jf i)) rest) d a
      else if code i = BPF_RET_K then Some (k i)
      else None)"
  by pat_completeness auto
termination by (relation "measure (\<lambda>(prog, _, _). length prog)") auto

lemmas opcode_defs = BPF_LD_W_ABS_def BPF_ALU_AND_K_def BPF_JMP_JEQ_K_def BPF_JMP_JGT_K_def
  BPF_JMP_JGE_K_def BPF_RET_K_def

interpretation reference: bpf_machine bpf_run
  by unfold_locales (simp_all add: stmt_def jump_def opcode_defs)

section \<open>Argument words\<close>

lemma argument_index_cases:
  fixes i :: u8
  assumes "i \<le> 5"
  shows "i = 0 \<or> i = 1 \<or> i = 2 \<or> i = 3 \<or> i = 4 \<or> i = 5"
proof -
  have "unat i \<le> 5" using assms by (simp add: word_le_nat_alt)
  then have "unat i \<in> {0, 1, 2, 3, 4, 5}" by auto
  then show ?thesis by (auto simp: word_unat_eq_iff)
qed

lemma argument_loads [bpf_step]:
  fixes i :: u8
  assumes "i \<le> 5"
  shows "load_ok (argument_offset i)" "load_ok (argument_offset i + 4)"
    "data_word d (argument_offset i) = low_word (data_args d (unat i))"
    "data_word d (argument_offset i + 4) = high_word (data_args d (unat i))"
  using argument_index_cases [OF assms]
  by (auto simp: argument_offset_def SECCOMP_DATA_ARGS_OFFSET_def load_ok_def data_word_def)

section \<open>Guard blocks\<close>

text \<open>
  A block that lets the run pass when a condition on the syscall data holds, and ends it with
  the verdict \<open>v\<close> otherwise.
\<close>

definition guard_block :: "(sock_filter list \<Rightarrow> seccomp_data \<Rightarrow> u32 \<Rightarrow> u32 option) \<Rightarrow> u32 \<Rightarrow>
    sock_filter list \<Rightarrow> (seccomp_data \<Rightarrow> bool) \<Rightarrow> bool" where
  "guard_block run v block P \<longleftrightarrow>
     (\<forall>rest d a. if P d then \<exists>a'. run (block @ rest) d a = run rest d a'
                 else run (block @ rest) d a = Some v)"

lemma guard_block_Nil: "guard_block run v [] (\<lambda>d. True)"
  by (auto simp: guard_block_def)

lemma guard_block_append:
  assumes "guard_block run v xs P" and "guard_block run v ys Q"
  shows "guard_block run v (xs @ ys) (\<lambda>d. P d \<and> Q d)"
  unfolding guard_block_def
proof (intro allI)
  fix rest d a
  show "if P d \<and> Q d then \<exists>a'. run ((xs @ ys) @ rest) d a = run rest d a'
        else run ((xs @ ys) @ rest) d a = Some v"
  proof (cases "P d")
    case True
    then obtain a' where "run (xs @ ys @ rest) d a = run (ys @ rest) d a'"
      using assms(1) unfolding guard_block_def by meson
    then show ?thesis using assms(2) True unfolding guard_block_def by (metis append_assoc)
  next
    case False
    then show ?thesis using assms(1) unfolding guard_block_def by (metis append_assoc)
  qed
qed

lemma guard_block_concat:
  assumes "\<And>x. x \<in> set xs \<Longrightarrow> guard_block run v (emit x) (P x)"
  shows "guard_block run v (concat (map emit xs)) (\<lambda>d. \<forall>x\<in>set xs. P x d)"
  using assms
proof (induction xs)
  case Nil
  show ?case using guard_block_Nil by simp
next
  case (Cons x xs)
  have "guard_block run v (emit x @ concat (map emit xs)) (\<lambda>d. P x d \<and> (\<forall>x\<in>set xs. P x d))"
    using Cons by (intro guard_block_append) auto
  then show ?case by simp
qed

section \<open>The emitters append guard blocks\<close>

lemma append_checks_eq:
  "append_seccomp_argument_checks lc prog i m v = prog @ append_seccomp_argument_checks lc [] i m v"
  by (simp add: append_seccomp_argument_checks_def append_seccomp_argument_word_check_def Let_def)

lemma append_range_eq:
  "append_seccomp_argument_range_checks lc prog i mn mx =
     prog @ append_seccomp_argument_range_checks lc [] i mn mx"
  by (simp add: append_seccomp_argument_range_checks_def)

definition forbidden_block :: "libc \<Rightarrow> u8 \<Rightarrow> u64 \<Rightarrow> u64 \<Rightarrow> sock_filter list" where
  "forbidden_block lc i m v =
     (case append_seccomp_argument_forbidden_mask_checks lc [] i m v of Inr block \<Rightarrow> block | Inl _ \<Rightarrow> [])"

lemma high_low_zero: "m = 0 \<longleftrightarrow> low_word m = 0 \<and> high_word m = 0"
  using word_eq_halves [of m 0] by (simp add: low_word_def high_word_def)

lemma append_forbidden_eq:
  assumes "m \<noteq> 0"
  shows "append_seccomp_argument_forbidden_mask_checks lc prog i m v = Inr (prog @ forbidden_block lc i m v)"
  using assms high_low_zero [of m]
  by (auto simp: append_seccomp_argument_forbidden_mask_checks_def forbidden_block_def Let_def)

lemma and_full [simp]: "x AND 0xFFFFFFFF = (x :: u32)"
proof -
  have "(0xFFFFFFFF :: u32) = - 1" by simp
  then show ?thesis by (metis bit.conj_one_right)
qed

lemma masked_halves:
  "x AND m = v \<longleftrightarrow> low_word x AND low_word m = low_word v \<and> high_word x AND high_word m = high_word v"
  using word_eq_halves [of "x AND m" v] by (simp add: low_word_and high_word_and)

lemma masked_value_halves:
  assumes "v AND NOT m = 0"
  shows "low_word m = 0 \<Longrightarrow> low_word v = 0" and "high_word m = 0 \<Longrightarrow> high_word v = 0"
proof -
  have "v = (v AND m) OR (v AND NOT m)"
    by (rule bit_eqI) (auto simp: bit_simps)
  then have "v = v AND m" using assms by simp
  then show "low_word m = 0 \<Longrightarrow> low_word v = 0" and "high_word m = 0 \<Longrightarrow> high_word v = 0"
    by (metis low_word_and and_zero_eq, metis high_word_and and_zero_eq)
qed

context bpf_machine
begin

lemma word_check_guard:
  assumes "load_ok off" and "m = 0 \<Longrightarrow> v = 0"
  shows "guard_block run (ret_eperm lc) (append_seccomp_argument_word_check lc [] off m v)
    (\<lambda>d. data_word d off AND m = v)"
  using assms
  by (auto simp: guard_block_def append_seccomp_argument_word_check_def Let_def bpf_step)

lemma masked_guard:
  assumes "i \<le> 5" and "v AND NOT m = 0"
  shows "guard_block run (ret_eperm lc) (append_seccomp_argument_checks lc [] i m v)
    (\<lambda>d. data_args d (unat i) AND m = v)"
proof -
  have eq: "append_seccomp_argument_checks lc [] i m v =
      append_seccomp_argument_word_check lc [] (argument_offset i) (low_word m) (low_word v) @
      append_seccomp_argument_word_check lc [] (argument_offset i + 4) (high_word m) (high_word v)"
    by (simp add: append_seccomp_argument_checks_def append_seccomp_argument_word_check_def Let_def)
  show ?thesis
    unfolding eq masked_halves
    using guard_block_append [OF word_check_guard word_check_guard,
        of "argument_offset i" "low_word m" "low_word v" "argument_offset i + 4" "high_word m" "high_word v" lc]
      argument_loads [OF assms(1)] masked_value_halves [OF assms(2)]
    by simp
qed

lemma range_guard:
  assumes "i \<le> 5"
  shows "guard_block run (ret_eperm lc) (append_seccomp_argument_range_checks lc [] i mn mx)
    (\<lambda>d. mn \<le> data_args d (unat i) \<and> data_args d (unat i) \<le> mx)"
  using argument_loads [OF assms]
  by (auto simp: guard_block_def append_seccomp_argument_range_checks_def word_le_halves bpf_step)

lemma forbidden_guard:
  assumes "i \<le> 5" and "m \<noteq> 0" and "v AND NOT m = 0"
  shows "guard_block run (ret_eperm lc) (forbidden_block lc i m v)
    (\<lambda>d. data_args d (unat i) AND m \<noteq> v)"
  using argument_loads [OF assms(1)] assms(2) high_low_zero [of m] masked_value_halves [OF assms(3)]
  by (auto simp: guard_block_def forbidden_block_def masked_halves Let_def bpf_step
      append_seccomp_argument_forbidden_mask_checks_def)

end

end
