(* ===== verification/Seccomp_Correct.thy ===== *)
theory Seccomp_Correct
  imports Seccomp_Machine
begin

unbundle bit_operations_syntax

text \<open>
  What a compiled seccomp program decides, on every machine that obeys the interface: the
  verdict stated directly over the policy, and the lemmas that follow the compiler's loops.
\<close>

section \<open>The verdict of a policy\<close>

definition rules_satisfied :: "seccomp_policy \<Rightarrow> string \<Rightarrow> seccomp_data \<Rightarrow> bool" where
  "rules_satisfied s name d \<longleftrightarrow>
     (\<forall>(i, r)\<in>set (rules_of (argument_rules s) name).
        data_args d (unat i) AND rule_mask r = rule_value r) \<and>
     (\<forall>(i, r)\<in>set (rules_of (argument_range_rules s) name).
        minimum r \<le> data_args d (unat i) \<and> data_args d (unat i) \<le> maximum r) \<and>
     (\<forall>(i, r)\<in>set (rules_of (argument_forbidden_mask_rules s) name).
        data_args d (unat i) AND rule_mask r \<noteq> rule_value r)"

text \<open>The one \<open>execveat\<close> that starts the target: the bootstrap descriptor with an empty path.\<close>

definition bootstrap_exec :: "libc \<Rightarrow> seccomp_policy \<Rightarrow> int \<Rightarrow> seccomp_data \<Rightarrow> bool" where
  "bootstrap_exec lc s fd d \<longleftrightarrow>
     ''execveat'' \<notin> set (allowed_syscalls s) \<and> data_nr d = word_of_int (SYS lc ''execveat'') \<and>
     data_args d 0 = ucast (word_of_int fd :: u32) \<and> data_args d 4 = 0x1000"

definition policy_allows :: "libc \<Rightarrow> seccomp_policy \<Rightarrow> seccomp_data \<Rightarrow> bool" where
  "policy_allows lc s d \<longleftrightarrow>
     (\<exists>name\<in>set (allowed_syscalls s).
        word_of_int (SYS lc name) = data_nr d \<and> rules_satisfied s name d)"

definition filter_verdict :: "libc \<Rightarrow> seccomp_policy \<Rightarrow> int \<Rightarrow> seccomp_data \<Rightarrow> u32" where
  "filter_verdict lc s fd d =
     (if data_arch d \<noteq> AUDIT_ARCH_X86_64 then SECCOMP_RET_KILL_PROCESS
      else if bootstrap_exec lc s fd d \<or> policy_allows lc s d then SECCOMP_RET_ALLOW
      else ret_eperm lc)"

section \<open>The argument checks of one syscall\<close>

lemma rules_of_mem: "r \<in> set (rules_of m name) \<Longrightarrow> \<exists>rules. (name, rules) \<in> set m \<and> r \<in> set rules"
  by (cases "map_of m name") (auto simp: rules_of_def btree_get_def dest: map_of_SomeD)

lemma rules_of_ok:
  assumes "seccomp_rules_ok s"
  shows "r \<in> set (rules_of (argument_rules s) name) \<Longrightarrow> mask_rule_ok r"
    and "q \<in> set (rules_of (argument_range_rules s) name) \<Longrightarrow> range_rule_ok q"
    and "r \<in> set (rules_of (argument_forbidden_mask_rules s) name) \<Longrightarrow> mask_rule_ok r"
  using assms rules_of_mem unfolding seccomp_rules_ok_def by fast+

definition masked_block :: "libc \<Rightarrow> u8 \<times> seccomp_arg_rule \<Rightarrow> sock_filter list" where
  "masked_block lc r = append_seccomp_argument_checks lc [] (fst r) (rule_mask (snd r)) (rule_value (snd r))"

definition range_block :: "libc \<Rightarrow> u8 \<times> seccomp_arg_range_rule \<Rightarrow> sock_filter list" where
  "range_block lc r = append_seccomp_argument_range_checks lc [] (fst r) (minimum (snd r)) (maximum (snd r))"

definition forbidden_rule_block :: "libc \<Rightarrow> u8 \<times> seccomp_arg_rule \<Rightarrow> sock_filter list" where
  "forbidden_rule_block lc r = forbidden_block lc (fst r) (rule_mask (snd r)) (rule_value (snd r))"

definition guards_of :: "libc \<Rightarrow> seccomp_policy \<Rightarrow> string \<Rightarrow> sock_filter list" where
  "guards_of lc s name =
     concat (map (masked_block lc) (rules_of (argument_rules s) name)) @
     concat (map (range_block lc) (rules_of (argument_range_rules s) name)) @
     concat (map (forbidden_rule_block lc) (rules_of (argument_forbidden_mask_rules s) name))"

lemma fold_masked:
  "fold (\<lambda>(i, rule) chks. append_seccomp_argument_checks lc chks i (rule_mask rule) (rule_value rule)) rs chks =
     chks @ concat (map (masked_block lc) rs)"
proof (induction rs arbitrary: chks)
  case (Cons r rs)
  then show ?case
    by (cases r) (simp add: masked_block_def append_checks_eq [of lc chks])
qed simp

lemma fold_range:
  "fold (\<lambda>(i, rule) chks. append_seccomp_argument_range_checks lc chks i (minimum rule) (maximum rule)) rs chks =
     chks @ concat (map (range_block lc) rs)"
proof (induction rs arbitrary: chks)
  case (Cons r rs)
  then show ?case
    by (cases r) (simp add: range_block_def append_range_eq [of lc chks])
qed simp

lemma fold_forbidden:
  assumes "\<forall>r\<in>set rs. mask_rule_ok r"
  shows "fold_result (\<lambda>chks (i, rule).
       append_seccomp_argument_forbidden_mask_checks lc chks i (rule_mask rule) (rule_value rule)) chks rs =
     Inr (chks @ concat (map (forbidden_rule_block lc) rs))"
  using assms
proof (induction rs arbitrary: chks)
  case (Cons r rs)
  then show ?case
    by (cases r) (simp add: forbidden_rule_block_def append_forbidden_eq mask_rule_ok_def)
qed simp

lemma argument_check_block_eq:
  assumes "seccomp_rules_ok s"
  shows "argument_check_block lc s name =
    (if length (guards_of lc s name) \<ge> 255
     then Err (invalid_policy ''seccomp argument-check block for {name} is too large'' [FStr name])
     else Ok (guards_of lc s name @ [stmt BPF_RET_K SECCOMP_RET_ALLOW]))"
proof -
  have "\<forall>r\<in>set (rules_of (argument_forbidden_mask_rules s) name). mask_rule_ok r"
    using rules_of_ok(3) [OF assms] by blast
  then show ?thesis
    by (simp add: argument_check_block_def Let_def fold_masked fold_range fold_forbidden and_then_def
        guards_of_def)
qed

context bpf_machine
begin

lemma guards_of_guard:
  assumes "seccomp_rules_ok s"
  shows "guard_block run (ret_eperm lc) (guards_of lc s name) (rules_satisfied s name)"
proof -
  have masked: "guard_block run (ret_eperm lc) (masked_block lc r)
      (\<lambda>d. data_args d (unat (fst r)) AND rule_mask (snd r) = rule_value (snd r))"
    if "r \<in> set (rules_of (argument_rules s) name)" for r
    using rules_of_ok(1) [OF assms that] unfolding masked_block_def mask_rule_ok_def
    by (intro masked_guard) auto
  have range: "guard_block run (ret_eperm lc) (range_block lc r)
      (\<lambda>d. minimum (snd r) \<le> data_args d (unat (fst r)) \<and> data_args d (unat (fst r)) \<le> maximum (snd r))"
    if "r \<in> set (rules_of (argument_range_rules s) name)" for r
    using rules_of_ok(2) [OF assms that] unfolding range_block_def range_rule_ok_def
    by (intro range_guard) auto
  have forbidden: "guard_block run (ret_eperm lc) (forbidden_rule_block lc r)
      (\<lambda>d. data_args d (unat (fst r)) AND rule_mask (snd r) \<noteq> rule_value (snd r))"
    if "r \<in> set (rules_of (argument_forbidden_mask_rules s) name)" for r
    using rules_of_ok(3) [OF assms that] unfolding forbidden_rule_block_def mask_rule_ok_def
    by (intro forbidden_guard) auto
  show ?thesis
    unfolding guards_of_def rules_satisfied_def split_beta
    by (intro guard_block_append guard_block_concat masked range forbidden)
qed

text \<open>The block of one syscall, entered with the syscall number in the accumulator.\<close>

lemma syscall_block:
  assumes "seccomp_rules_ok s" and "argument_check_block lc s name = Inr chks"
  shows "run ((jump BPF_JMP_JEQ_K number 0 (of_nat (length chks)) # chks) @ rest) d a =
    (if a = number then Some (if rules_satisfied s name d then SECCOMP_RET_ALLOW else ret_eperm lc)
     else run rest d a)"
proof -
  have chks: "chks = guards_of lc s name @ [stmt BPF_RET_K SECCOMP_RET_ALLOW]"
    and len: "length chks \<le> 255"
    using assms(2) unfolding argument_check_block_eq [OF assms(1)] by (auto split: if_splits)
  have "unat (of_nat (length chks) :: u8) = length chks"
    using len by (simp add: unat_of_nat take_bit_eq_mod)
  then have skip: "drop (unat (of_nat (length chks) :: u8)) (chks @ rest) = rest" by simp
  have enter: "run (chks @ rest) d b =
      Some (if rules_satisfied s name d then SECCOMP_RET_ALLOW else ret_eperm lc)" for b
    using guards_of_guard [OF assms(1), of lc name]
    unfolding guard_block_def chks append_assoc append_Cons append_Nil
    by (metis (full_types) run_ret)
  show ?thesis
    by (cases "a = number") (simp_all add: run_jeq skip enter del: drop_append)
qed

definition syscall_verdict :: "libc \<Rightarrow> seccomp_policy \<Rightarrow> (u32 \<times> string) list \<Rightarrow> seccomp_data \<Rightarrow> u32 \<Rightarrow> u32 option" where
  "syscall_verdict lc s syscalls d a =
     map_option (\<lambda>(n, name). if rules_satisfied s name d then SECCOMP_RET_ALLOW else ret_eperm lc)
       (List.find (\<lambda>(n, name). n = a) syscalls)"

lemma syscall_blocks:
  assumes "seccomp_rules_ok s" and "fold_result (append_syscall lc s) prog syscalls = Inr prog'"
  shows "\<exists>body. prog' = prog @ body \<and>
    (\<forall>rest d a. run (body @ rest) d a =
       (case syscall_verdict lc s syscalls d a of Some v \<Rightarrow> Some v | None \<Rightarrow> run rest d a))"
  using assms(2)
proof (induction syscalls arbitrary: prog)
  case Nil
  then show ?case by (simp add: syscall_verdict_def)
next
  case (Cons sys syscalls)
  obtain n name where sys: "sys = (n, name)" by (cases sys)
  obtain prog1 where step: "append_syscall lc s prog sys = Inr prog1"
    and rest: "fold_result (append_syscall lc s) prog1 syscalls = Inr prog'"
    using Cons.prems by (auto split: sum.splits)
  obtain chks where chks: "argument_check_block lc s name = Inr chks"
    and prog1: "prog1 = prog @ jump BPF_JMP_JEQ_K n 0 (of_nat (length chks)) # chks"
    using step by (auto simp: sys append_syscall_def and_then_Ok_iff)
  obtain body where body: "prog' = prog @ (jump BPF_JMP_JEQ_K n 0 (of_nat (length chks)) # chks) @ body"
    and run_body: "\<And>rest d a. run (body @ rest) d a =
       (case syscall_verdict lc s syscalls d a of Some v \<Rightarrow> Some v | None \<Rightarrow> run rest d a)"
    using Cons.IH [OF rest] by (auto simp: prog1)
  have "run (((jump BPF_JMP_JEQ_K n 0 (of_nat (length chks)) # chks) @ body) @ rest) d a =
      (case syscall_verdict lc s (sys # syscalls) d a of Some v \<Rightarrow> Some v | None \<Rightarrow> run rest d a)" for rest d a
    using syscall_block [OF assms(1) chks, of n "body @ rest" d a] run_body [of rest d a]
    by (auto simp: syscall_verdict_def sys)
  then show ?case using body by blast
qed

text \<open>The bootstrap block, entered with the syscall number in the accumulator.\<close>

lemma bootstrap_block:
  "run (append_bootstrap_execveat_allow lc [] fd @ rest) d (data_nr d) =
     (if data_nr d = word_of_int (SYS lc ''execveat'') \<and>
         data_args d 0 = ucast (word_of_int fd :: u32) \<and> data_args d 4 = 0x1000
      then Some SECCOMP_RET_ALLOW else run rest d (data_nr d))"
proof -
  have loads: "load_ok 0" "load_ok 16" "load_ok 20" "load_ok 48" "load_ok 52"
    by (simp_all add: load_ok_def)
  have words: "data_word d 0 = data_nr d" "data_word d 16 = low_word (data_args d 0)"
    "data_word d 20 = high_word (data_args d 0)" "data_word d 48 = low_word (data_args d 4)"
    "data_word d 52 = high_word (data_args d 4)"
    by (simp_all add: data_word_def)
  have low: "low_word (ucast (w :: u32)) = w" "high_word (ucast (w :: u32)) = 0" for w
    using unsigned_less [of w, where ?'a = nat]
    by (simp_all add: word_unat_eq_iff unat_low unat_high unat_ucast_u32_u64)
  have halves: "data_args d 0 = ucast (w :: u32) \<longleftrightarrow>
      low_word (data_args d 0) = w \<and> high_word (data_args d 0) = 0" for w
    using word_eq_halves [of "data_args d 0" "ucast w"] by (simp add: low)
  have flags: "data_args d 4 = 0x1000 \<longleftrightarrow>
      low_word (data_args d 4) = 0x1000 \<and> high_word (data_args d 4) = 0"
    using word_eq_halves [of "data_args d 4" "0x1000"] by (simp add: low_word_def high_word_def)
  show ?thesis
    by (simp add: append_bootstrap_execveat_allow_def Let_def SECCOMP_DATA_ARGS_OFFSET_def
        EXECVEAT_AT_EMPTY_PATH_def run_ld run_jeq run_ret loads words halves flags)
qed

end

section \<open>The syscall table\<close>

lemma resolve_syscalls_Ok:
  "resolve_syscalls lc names = Inr resolved \<longleftrightarrow>
     set names \<subseteq> set syscall_names \<and> resolved = map (\<lambda>name. (word_of_int (SYS lc name), name)) names"
proof -
  have "fold_result (\<lambda>acc name. and_then
         (ok_or (invalid_policy ''unsupported Linux x86_64 syscall name: {name}'' [FStr name])
            (syscall_number lc name)) (\<lambda>number. Inr (acc @ [(word_of_int number, name)]))) acc names = Inr resolved
      \<longleftrightarrow> set names \<subseteq> set syscall_names \<and>
          resolved = acc @ map (\<lambda>name. (word_of_int (SYS lc name), name)) names" for acc
    by (induction names arbitrary: acc)
      (auto simp: and_then_def ok_or_def syscall_number_def)
  then show ?thesis by (simp add: resolve_syscalls_def)
qed

lemma check_distinct_numbers_Ok:
  assumes "sorted (map fst xs)"
  shows "check_distinct_numbers xs = Inr () \<longleftrightarrow> distinct (map fst xs)"
  using assms
proof (induction xs rule: check_distinct_numbers.induct)
  case (1 x y rest)
  have "fst x < fst z" if "fst x \<noteq> fst y" "z \<in> set (y # rest)" for z
    using that "1.prems" by (auto simp: order_less_le dest: antisym)
  then show ?case
    using "1.prems" "1.IH" by (fastforce simp: ok_simps)
qed auto

lemma find_unique:
  assumes "distinct (map fst xs)"
  shows "List.find (\<lambda>(n, name). n = a) xs = Some (m, name) \<longleftrightarrow> (m, name) \<in> set xs \<and> m = a"
  using assms by (induction xs) (auto simp: image_iff)

end
