(* ===== verification/Seccomp_Properties.thy ===== *)
theory Seccomp_Properties
  imports Seccomp_Correct Delta_Properties "HOL-Library.Multiset"
begin

unbundle bit_operations_syntax

text \<open>
  The properties of the seccomp compiler: the compiled program decides exactly the policy, the
  kernel's load-time conditions hold and no internal limit of the compiler is reached, and the
  authority gate is sound for compiled programs.
\<close>

section \<open>Correctness\<close>

lemma accepted_rules: "validate p = Inr () \<Longrightarrow> seccomp_rules_ok (seccomp p)"
  using validate_sections(25) validate_seccomp_rules by blast

definition syscall_table :: "libc \<Rightarrow> seccomp_policy \<Rightarrow> (u32 \<times> string) list" where
  "syscall_table lc s =
     sort_key fst (map (\<lambda>name. (word_of_int (SYS lc name), name)) (allowed_syscalls s))"

definition preamble :: "libc \<Rightarrow> seccomp_policy \<Rightarrow> int \<Rightarrow> sock_filter list" where
  "preamble lc s fd =
     [stmt BPF_LD_W_ABS 4, jump BPF_JMP_JEQ_K AUDIT_ARCH_X86_64 1 0,
      stmt BPF_RET_K SECCOMP_RET_KILL_PROCESS, stmt BPF_LD_W_ABS 0] @
     (if ''execveat'' \<notin> set (allowed_syscalls s) then append_bootstrap_execveat_allow lc [] fd else [])"

lemma compile_seccomp_Ok_iff:
  "compile_seccomp lc p fd = Inr c \<longleftrightarrow>
     (\<exists>x prog. error_exit lc (seccomp p) = Inr x \<and>
        set (allowed_syscalls (seccomp p)) \<subseteq> set syscall_names \<and>
        distinct (map fst (syscall_table lc (seccomp p))) \<and>
        fold_result (append_syscall lc (seccomp p)) (preamble lc (seccomp p) fd)
          (syscall_table lc (seccomp p)) = Inr prog \<and> length prog \<le> 65534 \<and>
        c = \<lparr>filter_program = prog @ [stmt BPF_RET_K (ret_eperm lc)], error_exit_syscall = x\<rparr>)"
proof -
  have sorted: "sorted (map fst (syscall_table lc (seccomp p)))" by (simp add: syscall_table_def)
  have start: "(if ''execveat'' \<notin> set (allowed_syscalls s)
      then append_bootstrap_execveat_allow lc
        [stmt BPF_LD_W_ABS 4, jump BPF_JMP_JEQ_K AUDIT_ARCH_X86_64 1 0,
         stmt BPF_RET_K SECCOMP_RET_KILL_PROCESS, stmt BPF_LD_W_ABS 0] fd
      else [stmt BPF_LD_W_ABS 4, jump BPF_JMP_JEQ_K AUDIT_ARCH_X86_64 1 0,
         stmt BPF_RET_K SECCOMP_RET_KILL_PROCESS, stmt BPF_LD_W_ABS 0]) = preamble lc s fd" for s
    by (simp add: preamble_def append_bootstrap_execveat_allow_def Let_def)
  show ?thesis
    unfolding compile_seccomp_def Let_def and_then_Ok_iff resolve_syscalls_Ok start
    using check_distinct_numbers_Ok [OF sorted]
    by (auto simp: syscall_table_def not_less split: if_splits)
qed

context bpf_machine
begin

lemma compiled_verdict:
  assumes "validate p = Inr ()" and "compile_seccomp lc p fd = Inr c"
  shows "run (filter_program c) d a = Some (filter_verdict lc (seccomp p) fd d)"
proof -
  let ?s = "seccomp p" and ?syscalls = "syscall_table lc (seccomp p)"
  obtain prog where dist: "distinct (map fst ?syscalls)"
    and fold: "fold_result (append_syscall lc ?s) (preamble lc ?s fd) ?syscalls = Inr prog"
    and prog: "filter_program c = prog @ [stmt BPF_RET_K (ret_eperm lc)]"
    using assms(2) unfolding compile_seccomp_Ok_iff by auto
  obtain body where body: "prog = preamble lc ?s fd @ body"
    and run_body: "\<And>rest d a. run (body @ rest) d a =
       (case syscall_verdict lc ?s ?syscalls d a of Some v \<Rightarrow> Some v | None \<Rightarrow> run rest d a)"
    using syscall_blocks [OF accepted_rules [OF assms(1)] fold] by auto
  have loads: "load_ok 0" "load_ok 4" "data_word d 0 = data_nr d" "data_word d 4 = data_arch d"
    by (simp_all add: load_ok_def data_word_def)
  have mem: "(n, name) \<in> set ?syscalls \<longleftrightarrow> name \<in> set (allowed_syscalls ?s) \<and> n = word_of_int (SYS lc name)" for n name
    by (auto simp: syscall_table_def)
  have table: "run (body @ [stmt BPF_RET_K (ret_eperm lc)]) d (data_nr d) =
      Some (if policy_allows lc ?s d then SECCOMP_RET_ALLOW else ret_eperm lc)"
  proof (cases "List.find (\<lambda>(n, name). n = data_nr d) ?syscalls")
    case None
    then have "\<not> policy_allows lc ?s d"
      using mem by (fastforce simp: find_None_iff policy_allows_def)
    then show ?thesis using None by (simp add: run_body syscall_verdict_def run_ret)
  next
    case (Some x)
    obtain name where x: "x = (data_nr d, name)" "(data_nr d, name) \<in> set ?syscalls"
      using Some find_unique [OF dist] by (cases x) auto
    have "policy_allows lc ?s d \<longleftrightarrow> rules_satisfied ?s name d"
    proof -
      have "name' = name" if "name' \<in> set (allowed_syscalls ?s)" "word_of_int (SYS lc name') = data_nr d" for name'
        using that x(2) mem dist by (metis eq_key_imp_eq_value)
      then show ?thesis using x(2) mem by (auto simp: policy_allows_def)
    qed
    then show ?thesis using Some x by (simp add: run_body syscall_verdict_def)
  qed
  have start: "run (filter_program c) d a =
      (if data_arch d \<noteq> AUDIT_ARCH_X86_64 then Some SECCOMP_RET_KILL_PROCESS
       else run ((if ''execveat'' \<notin> set (allowed_syscalls ?s)
                  then append_bootstrap_execveat_allow lc [] fd else []) @ body @
                 [stmt BPF_RET_K (ret_eperm lc)]) d (data_nr d))"
    by (simp add: prog body preamble_def run_ld run_jeq run_ret loads)
  show ?thesis
    unfolding start filter_verdict_def bootstrap_exec_def
    by (simp only: bootstrap_block table append_Nil if_True if_False split: if_split) auto
qed

end

text \<open>
  C1: Compiler correctness. On every machine with the documented effect of the six opcodes, the
  program compiled from an accepted policy returns exactly the verdict of the policy on any
  syscall: kill for a foreign architecture, allow for the bootstrap \<open>execveat\<close> and for a syscall
  of the allowlist whose arguments satisfy all masked-equality, range and forbidden-mask rules
  on 64 bits, and \<open>EPERM\<close> otherwise.
\<close>

theorem seccomp_filter_decides_policy:
  assumes "bpf_machine run" and "validate p = Inr ()" and "compile_seccomp lc p fd = Inr c"
  shows "run (filter_program c) d a = Some (filter_verdict lc (seccomp p) fd d)"
  using assms by (rule bpf_machine.compiled_verdict)

section \<open>No internal limit is reached\<close>

lemma rule_block_lengths:
  "length (masked_block lc r) \<le> 8"
  "length (range_block lc q) = 14"
  "length (forbidden_rule_block lc r) \<le> 7"
  by (simp_all add: masked_block_def range_block_def forbidden_rule_block_def forbidden_block_def
      append_seccomp_argument_checks_def append_seccomp_argument_word_check_def
      append_seccomp_argument_range_checks_def append_seccomp_argument_forbidden_mask_checks_def Let_def)

lemma length_concat_le:
  assumes "\<And>x. x \<in> set xs \<Longrightarrow> length (f x) \<le> n"
  shows "length (concat (map f xs)) \<le> n * length xs"
  using assms by (induction xs) (auto simp: add_mono)

text \<open>A syscall has at most six rules of each kind.\<close>

lemma rules_of_length:
  fixes m :: "(string, (u8, 'r) btreemap) btreemap"
  assumes "rule_maps_ok m" and "\<And>r. r \<in> set (rules_of m name) \<Longrightarrow> fst r \<le> 5"
  shows "length (rules_of m name) \<le> 6"
proof -
  have "distinct (map fst (rules_of m name))"
    using rule_maps_okD [OF assms(1), of name] btree_ok_distinct
    by (auto simp: rules_of_def split: option.split)
  then have "length (rules_of m name) = card (fst ` set (rules_of m name))"
    by (metis distinct_card length_map set_map)
  also have "\<dots> \<le> card {0, 1, 2, 3, 4, 5 :: u8}"
    using assms(2) argument_index_cases by (intro card_mono) auto
  finally show ?thesis by simp
qed

lemma guards_of_length:
  assumes "accepted p"
  shows "length (guards_of lc (seccomp p) name) \<le> 174"
proof -
  let ?s = "seccomp p"
  have ok: "seccomp_rules_ok ?s" using assms accepted_rules by (simp add: accepted_def)
  have maps: "rule_maps_ok (argument_rules ?s)" "rule_maps_ok (argument_range_rules ?s)"
    "rule_maps_ok (argument_forbidden_mask_rules ?s)"
    using accepted_seccomp_maps [OF assms] by (simp_all add: seccomp_maps_ok_def)
  have six: "length (rules_of (argument_rules ?s) name) \<le> 6"
    "length (rules_of (argument_range_rules ?s) name) \<le> 6"
    "length (rules_of (argument_forbidden_mask_rules ?s) name) \<le> 6"
    using rules_of_ok [OF ok] by (auto intro!: rules_of_length maps simp: mask_rule_ok_def range_rule_ok_def)
  show ?thesis
    using six
      length_concat_le [of "rules_of (argument_rules ?s) name" "masked_block lc" 8]
      length_concat_le [of "rules_of (argument_range_rules ?s) name" "range_block lc" 14]
      length_concat_le [of "rules_of (argument_forbidden_mask_rules ?s) name" "forbidden_rule_block lc" 7]
    by (simp add: guards_of_def rule_block_lengths)
qed

lemma syscall_loop:
  assumes "accepted p"
  shows "fold_result (append_syscall lc (seccomp p)) prog syscalls =
    Inr (prog @ concat (map (\<lambda>sys.
      jump BPF_JMP_JEQ_K (fst sys) 0 (of_nat (length (guards_of lc (seccomp p) (snd sys)) + 1)) #
      guards_of lc (seccomp p) (snd sys) @ [stmt BPF_RET_K SECCOMP_RET_ALLOW]) syscalls))"
proof (induction syscalls arbitrary: prog)
  case (Cons sys syscalls)
  have "seccomp_rules_ok (seccomp p)" using assms accepted_rules by (simp add: accepted_def)
  then have "argument_check_block lc (seccomp p) (snd sys) =
      Inr (guards_of lc (seccomp p) (snd sys) @ [stmt BPF_RET_K SECCOMP_RET_ALLOW])"
    using guards_of_length [OF assms, of lc "snd sys"] by (simp add: argument_check_block_eq)
  then have "append_syscall lc (seccomp p) prog sys = Inr (prog @
      jump BPF_JMP_JEQ_K (fst sys) 0 (of_nat (length (guards_of lc (seccomp p) (snd sys)) + 1)) #
      guards_of lc (seccomp p) (snd sys) @ [stmt BPF_RET_K SECCOMP_RET_ALLOW])"
    by (simp add: append_syscall_def and_then_def)
  then show ?case by (simp add: Cons.IH)
qed simp

text \<open>The rule count of a syscall, and the sum over the allowlist.\<close>

definition rules_for :: "seccomp_policy \<Rightarrow> string \<Rightarrow> nat" where
  "rules_for s name = length (rules_of (argument_rules s) name) +
     length (rules_of (argument_range_rules s) name) +
     length (rules_of (argument_forbidden_mask_rules s) name)"

lemma guards_of_length_rules: "length (guards_of lc s name) \<le> 14 * rules_for s name"
  using length_concat_le [of "rules_of (argument_rules s) name" "masked_block lc" 14]
    length_concat_le [of "rules_of (argument_range_rules s) name" "range_block lc" 14]
    length_concat_le [of "rules_of (argument_forbidden_mask_rules s) name" "forbidden_rule_block lc" 14]
    rule_block_lengths [of lc] order_trans [OF rule_block_lengths(1), of 14]
    order_trans [OF rule_block_lengths(3), of 14]
  by (simp add: guards_of_def rules_for_def)

lemma sum_rules_of:
  fixes m :: "(string, (u8, 'r) btreemap) btreemap"
  assumes "btree_ok m" and "distinct names"
  shows "sum_list (map (\<lambda>name. length (rules_of m name)) names) \<le> rule_count m"
proof -
  have "sum_list (map (\<lambda>name. length (rules_of m name)) names) = (\<Sum>name\<in>set names. length (rules_of m name))"
    using assms(2) by (simp add: sum_list_distinct_conv_sum_set)
  also have "\<dots> = (\<Sum>name\<in>set names \<inter> fst ` set m. length (rules_of m name))"
    by (rule sum.mono_neutral_right)
      (auto simp: rules_of_def btree_get_def split: option.split, force dest: map_of_SomeD)
  also have "\<dots> \<le> (\<Sum>name\<in>fst ` set m. length (rules_of m name))"
    by (rule sum_mono2) auto
  also have "\<dots> = sum_list (map (\<lambda>name. length (rules_of m name)) (map fst m))"
    using btree_ok_distinct [OF assms(1)] by (simp only: sum_list_distinct_conv_sum_set set_map)
  also have "\<dots> = rule_count m"
  proof -
    have "length (rules_of m (fst e)) = length (snd e)" if "e \<in> set m" for e
      using that btree_get_eq_Some [OF assms(1), of "fst e" "snd e"] by (simp add: rules_of_def)
    then have "map (\<lambda>name. length (rules_of m name)) (map fst m) = map (\<lambda>e. length (snd e)) m" by simp
    then show ?thesis by (simp only: rule_count_def split_def)
  qed
  finally show ?thesis .
qed

lemma guards_total_length:
  assumes "accepted p"
  shows "sum_list (map (\<lambda>name. length (guards_of lc (seccomp p) name)) (allowed_syscalls (seccomp p))) \<le> 896"
proof -
  let ?s = "seccomp p" and ?names = "allowed_syscalls (seccomp p)"
  have maps: "btree_ok (argument_rules ?s)" "btree_ok (argument_range_rules ?s)"
    "btree_ok (argument_forbidden_mask_rules ?s)" "distinct ?names"
    using accepted_seccomp_maps [OF assms]
    by (auto simp: seccomp_maps_ok_def rule_maps_ok_def btreeset_ok_def strict_sorted_iff)
  have "validate_seccomp p = Inr ()" using assms validate_sections(25) by (simp add: accepted_def)
  then have "argument_rule_count ?s \<le> 64"
    unfolding validate_seccomp_def Let_def ok_simps by (simp add: MAX_SECCOMP_ARG_RULES_def)
  then have "rule_count (argument_rules ?s) + rule_count (argument_range_rules ?s) +
      rule_count (argument_forbidden_mask_rules ?s) \<le> 64"
    by (simp add: argument_rule_count_def)
  moreover have "sum_list (map (rules_for ?s) ?names) =
      sum_list (map (\<lambda>name. length (rules_of (argument_rules ?s) name)) ?names) +
      sum_list (map (\<lambda>name. length (rules_of (argument_range_rules ?s) name)) ?names) +
      sum_list (map (\<lambda>name. length (rules_of (argument_forbidden_mask_rules ?s) name)) ?names)"
    by (simp add: rules_for_def [abs_def] sum_list_addf)
  moreover note sum_rules_of [OF maps(1) maps(4)] sum_rules_of [OF maps(2) maps(4)]
    sum_rules_of [OF maps(3) maps(4)]
  ultimately have "sum_list (map (rules_for ?s) ?names) \<le> 64" by linarith
  moreover have "sum_list (map (\<lambda>name. length (guards_of lc ?s name)) ?names) \<le>
      sum_list (map (\<lambda>name. 14 * rules_for ?s name) ?names)"
    by (rule sum_list_mono) (rule guards_of_length_rules)
  moreover have "sum_list (map (\<lambda>name. 14 * rules_for ?s name) ?names) = 14 * sum_list (map (rules_for ?s) ?names)"
    by (rule sum_list_const_mult)
  ultimately show ?thesis by linarith
qed

lemma syscall_table_sum:
  fixes f :: "string \<Rightarrow> nat"
  shows "sum_list (map (\<lambda>sys. f (snd sys)) (syscall_table lc s)) = sum_list (map f (allowed_syscalls s))"
proof -
  have "mset (map (\<lambda>sys. f (snd sys)) (syscall_table lc s)) = mset (map f (allowed_syscalls s))"
    by (simp add: syscall_table_def multiset.map_comp comp_def)
  then have "sum_mset (mset (map (\<lambda>sys. f (snd sys)) (syscall_table lc s))) =
      sum_mset (mset (map f (allowed_syscalls s)))" by (rule arg_cong)
  then show ?thesis unfolding sum_mset_sum_list .
qed

section \<open>The kernel loads the program\<close>











lemma preamble_length: "length (preamble lc s fd) \<le> 15"
  by (simp add: preamble_def append_bootstrap_execveat_allow_def Let_def)

definition compiled_program :: "libc \<Rightarrow> seccomp_policy \<Rightarrow> int \<Rightarrow> sock_filter list" where
  "compiled_program lc s fd = preamble lc s fd @ concat (map (\<lambda>sys.
     jump BPF_JMP_JEQ_K (fst sys) 0 (of_nat (length (guards_of lc s (snd sys)) + 1)) #
     guards_of lc s (snd sys) @ [stmt BPF_RET_K SECCOMP_RET_ALLOW]) (syscall_table lc s))"

lemma compiled_program_length:
  assumes "accepted p"
  shows "length (compiled_program lc (seccomp p) fd) \<le> 1167"
proof -
  let ?s = "seccomp p"
  have "length (compiled_program lc ?s fd) = length (preamble lc ?s fd) +
      sum_list (map (\<lambda>sys. length (guards_of lc ?s (snd sys)) + 2) (syscall_table lc ?s))"
    by (simp add: compiled_program_def length_concat comp_def)
  also have "\<dots> = length (preamble lc ?s fd) +
      sum_list (map (\<lambda>name. length (guards_of lc ?s name) + 2) (allowed_syscalls ?s))"
    using syscall_table_sum [of "\<lambda>name. length (guards_of lc ?s name) + 2" lc ?s] by simp
  also have "\<dots> = length (preamble lc ?s fd) +
      sum_list (map (\<lambda>name. length (guards_of lc ?s name)) (allowed_syscalls ?s)) + 2 * length (allowed_syscalls ?s)"
  proof -
    have "sum_list (map (\<lambda>x. g x + 2) xs) = sum_list (map g xs) + 2 * length xs" for g and xs :: "string list"
      by (induction xs) auto
    then show ?thesis by simp
  qed
  also have "\<dots> \<le> 15 + 896 + 2 * 128"
  proof -
    have "validate_seccomp p = Inr ()" using assms validate_sections(25) by (simp add: accepted_def)
    then have "length (allowed_syscalls ?s) \<le> 128"
      unfolding validate_seccomp_def Let_def ok_simps validate_allowed_syscalls_def
      by (simp add: MAX_SYSCALLS_def)
    then show ?thesis
      using guards_total_length [OF assms, of lc] preamble_length [of lc ?s fd] by linarith
  qed
  finally show ?thesis by simp
qed

lemma compile_accepted:
  assumes "accepted p"
    and "set (allowed_syscalls (seccomp p)) \<subseteq> set syscall_names"
    and "inj_on (\<lambda>name. word_of_int (SYS lc name) :: u32) (set (allowed_syscalls (seccomp p)))"
    and "''exit'' \<in> set (allowed_syscalls (seccomp p)) \<or> ''exit_group'' \<in> set (allowed_syscalls (seccomp p))"
  shows "\<exists>x. compile_seccomp lc p fd =
    Inr \<lparr>filter_program = compiled_program lc (seccomp p) fd @ [stmt BPF_RET_K (ret_eperm lc)], error_exit_syscall = x\<rparr>"
proof -
  let ?s = "seccomp p"
  obtain x where x: "error_exit lc ?s = Inr x" using assms(4)
    by (cases "''exit'' \<in> set (allowed_syscalls ?s)") (auto simp: error_exit_def)
  have names: "distinct (allowed_syscalls ?s)"
    using accepted_seccomp_maps [OF assms(1)] by (simp add: seccomp_maps_ok_def btreeset_ok_def strict_sorted_iff)
  have "mset (map fst (syscall_table lc ?s)) = mset (map (\<lambda>name. word_of_int (SYS lc name) :: u32) (allowed_syscalls ?s))"
    by (simp add: syscall_table_def multiset.map_comp comp_def)
  then have dist: "distinct (map fst (syscall_table lc ?s))"
    using names assms(3) by (metis distinct_map mset_eq_imp_distinct_iff)
  have "length (compiled_program lc ?s fd) \<le> 65534"
    using compiled_program_length [OF assms(1), of lc fd] by simp
  then show ?thesis
    unfolding compile_seccomp_Ok_iff
    using x assms(2) dist syscall_loop [OF assms(1)] by (auto simp: compiled_program_def)
qed


definition example_libc :: libc where
  "example_libc = \<lparr>EPERM = 1, SYS = (\<lambda>name.
     if name = ''read'' then 0 else if name = ''write'' then 1 else if name = ''mmap'' then 9
     else if name = ''ioctl'' then 16 else if name = ''exit_group'' then 231
     else if name = ''execveat'' then 322 else - 1)\<rparr>"

lemma example_syscalls:
  "allowed_syscalls (seccomp example_policy) = [''exit_group'', ''ioctl'', ''mmap'', ''read'', ''write'']"
  "allowed_syscalls (seccomp reduced_policy) = [''exit_group'', ''ioctl'', ''read'', ''write'']"
  by (simp_all add: example_policy_fields example_seccomp_def reduced_policy_def reduced_seccomp_def)

lemma example_compiles:
  "\<exists>c. compile_seccomp example_libc example_policy 5 = Inr c"
  "\<exists>c. compile_seccomp example_libc reduced_policy 5 = Inr c"
  using compile_accepted [OF accepted_example, of example_libc 5]
    compile_accepted [OF accepted_reduced, of example_libc 5]
  by (auto simp: example_syscalls syscall_names_def example_libc_def inj_on_def)


text \<open>A \<open>read\<close> of sixteen bytes from standard input, and one of more than four gibibytes.\<close>

definition read_data :: "u64 \<Rightarrow> seccomp_data" where
  "read_data n = \<lparr>data_nr = 0, data_arch = AUDIT_ARCH_X86_64, instruction_pointer = 0,
     data_args = (\<lambda>i. if i = 2 then n else 0)\<rparr>"

theorem seccomp_filter_decides_policy_witness:
  "\<exists>c. compile_seccomp example_libc example_policy 5 = Inr c \<and>
     bpf_run (filter_program c) (read_data 16) 0 = Some SECCOMP_RET_ALLOW \<and>
     bpf_run (filter_program c) (read_data 0x100000001) 0 = Some (ret_eperm example_libc)"
proof -
  obtain c where c: "compile_seccomp example_libc example_policy 5 = Inr c"
    using example_compiles by blast
  have verdict: "filter_verdict example_libc (seccomp example_policy) 5 (read_data n) =
      (if 1 \<le> n \<and> n \<le> 0x100000000 then SECCOMP_RET_ALLOW else ret_eperm example_libc)" for n
    by (simp add: filter_verdict_def bootstrap_exec_def policy_allows_def rules_satisfied_def
        rules_of_def btree_get_def read_data_def example_policy_fields example_seccomp_def example_libc_def)
  show ?thesis
    using c seccomp_filter_decides_policy [OF reference.bpf_machine_axioms example_policy_valid c]
    by (simp add: verdict)
qed

section \<open>The authority gate and compiled programs\<close>

lemma rules_of_rule_at:
  assumes "rule_maps_ok m"
  shows "(i, r) \<in> set (rules_of m name) \<longleftrightarrow> rule_at m name i = Some r"
proof (cases "btree_get m name")
  case None
  then show ?thesis by (simp add: rules_of_def rule_at_def)
next
  case (Some rules)
  then show ?thesis
    using rule_maps_okD [OF assms Some] by (simp add: rules_of_def rule_at_def btree_get_eq_Some)
qed

lemma rules_satisfied_mono:
  assumes "seccomp_maps_ok base" and "seccomp_maps_ok new" and "seccomp_le new base"
    and "name \<in> set (allowed_syscalls new)" and "rules_satisfied new name d"
  shows "rules_satisfied base name d"
proof -
  have "set (rules_of (argument_rules base) name) \<subseteq> set (rules_of (argument_rules new) name)"
    "set (rules_of (argument_range_rules base) name) \<subseteq> set (rules_of (argument_range_rules new) name)"
    "set (rules_of (argument_forbidden_mask_rules base) name) \<subseteq> set (rules_of (argument_forbidden_mask_rules new) name)"
    using assms(1-4)
    by (auto simp: rules_of_rule_at seccomp_maps_ok_def seccomp_le_def rules_kept_def)
  then show ?thesis using assms(5) unfolding rules_satisfied_def by blast
qed

text \<open>A launcher-critical syscall carries no argument rules.\<close>

lemma launcher_critical_free:
  assumes "seccomp_rules_ok s" and "launcher_critical name"
  shows "rules_satisfied s name d"
proof -
  have "rules_of (argument_rules s) name = []" "rules_of (argument_range_rules s) name = []"
    "rules_of (argument_forbidden_mask_rules s) name = []"
    using assms unfolding seccomp_rules_ok_def ruled_syscall_ok_def
    by (auto simp: rules_of_def btree_get_def split: option.split dest!: map_of_SomeD)
  then show ?thesis by (simp add: rules_satisfied_def)
qed

text \<open>
  C2: The authority gate is sound for what the kernel enforces: when the comparison of two
  accepted policies exits with status 0 and both compile for the same bootstrap descriptor,
  every syscall the candidate's program allows is allowed by the baseline's program, on every
  machine with the documented effect of the opcodes.
\<close>

theorem gate_bounds_compiled_filters:
  assumes "bpf_machine run" and "accepted b" and "accepted c"
    and "exit_code (compare b c) = 0"
    and "compile_seccomp lc b fd = Inr fb" and "compile_seccomp lc c fd = Inr fc"
    and "run (filter_program fc) d a = Some SECCOMP_RET_ALLOW"
  shows "run (filter_program fb) d a = Some SECCOMP_RET_ALLOW"
proof -
  have le: "seccomp_le (seccomp c) (seccomp b)"
    using assms(4) unfolding exit_code_zero policy_report_def
    by (simp add: nw_seccomp [OF assms(2)])
  have valid: "validate b = Inr ()" "validate c = Inr ()"
    using assms(2,3) by (simp_all add: accepted_def)
  note run_b = bpf_machine.compiled_verdict [OF assms(1) valid(1) assms(5)]
  note run_c = bpf_machine.compiled_verdict [OF assms(1) valid(2) assms(6)]
  have allow: "SECCOMP_RET_ALLOW \<noteq> SECCOMP_RET_KILL_PROCESS" 
    by (simp add: SECCOMP_RET_ALLOW_def SECCOMP_RET_KILL_PROCESS_def)
  show ?thesis
  proof (cases "ret_eperm lc = SECCOMP_RET_ALLOW")
    case True
    then show ?thesis using assms(7) run_b run_c allow by (auto simp: filter_verdict_def split: if_splits)
  next
    case False
    then have arch: "data_arch d = AUDIT_ARCH_X86_64"
      and c: "bootstrap_exec lc (seccomp c) fd d \<or> policy_allows lc (seccomp c) d"
      using assms(7) run_c allow by (auto simp: filter_verdict_def split: if_splits)
    from c have "bootstrap_exec lc (seccomp b) fd d \<or> policy_allows lc (seccomp b) d"
    proof
      assume "policy_allows lc (seccomp c) d"
      then show ?thesis
        using le rules_satisfied_mono [OF accepted_seccomp_maps [OF assms(2)] accepted_seccomp_maps [OF assms(3)] le]
        by (auto simp: policy_allows_def seccomp_le_def)
    next
      assume boot: "bootstrap_exec lc (seccomp c) fd d"
      have "rules_satisfied (seccomp b) ''execveat'' d"
        by (rule launcher_critical_free [OF accepted_rules [OF valid(1)]]) (simp add: launcher_critical_def)
      then show ?thesis using boot by (auto simp: bootstrap_exec_def policy_allows_def)
    qed
    then show ?thesis using arch run_b by (simp add: filter_verdict_def)
  qed
qed

theorem gate_bounds_compiled_filters_witness:
  "\<exists>fb fc. exit_code (compare example_policy reduced_policy) = 0 \<and>
     compile_seccomp example_libc example_policy 5 = Inr fb \<and>
     compile_seccomp example_libc reduced_policy 5 = Inr fc \<and>
     bpf_run (filter_program fc) (read_data 16) 0 = Some SECCOMP_RET_ALLOW \<and>
     bpf_run (filter_program fb) (read_data 16) 0 = Some SECCOMP_RET_ALLOW"
proof -
  obtain fb fc where fb: "compile_seccomp example_libc example_policy 5 = Inr fb"
    and fc: "compile_seccomp example_libc reduced_policy 5 = Inr fc"
    using example_compiles by blast
  have gate: "exit_code (compare example_policy reduced_policy) = 0"
    by (simp add: exit_code_def reduced_class)
  have "filter_verdict example_libc (seccomp reduced_policy) 5 (read_data 16) = SECCOMP_RET_ALLOW"
    by (simp add: filter_verdict_def policy_allows_def rules_satisfied_def rules_of_def btree_get_def
        read_data_def reduced_policy_def reduced_seccomp_def example_libc_def)
  then have allow: "bpf_run (filter_program fc) (read_data 16) 0 = Some SECCOMP_RET_ALLOW"
    using reference.compiled_verdict [OF _ fc] accepted_reduced by (simp add: accepted_def)
  show ?thesis
    using fb fc gate allow gate_bounds_compiled_filters
      [OF reference.bpf_machine_axioms accepted_example accepted_reduced gate fb fc allow] by blast
qed

end
