(* ===== verification/Policy_Parse.thy ===== *)
theory Policy_Parse
  imports Policy_Guarantees
begin

unbundle bit_operations_syntax

text \<open>
  \<open>SandboxPolicy::from_str\<close> of \<open>policy.rs\<close>: the line loop, the handler of every key, the
  pairing of repeated keys into bindings, and the construction of the policy, which ends with
  \<open>validate\<close>. The local variables of the function are the fields of a builder record; a
  \<open>match\<close> arm with a literal key is an entry of a table, the arms with a guard are definitions
  of their own.
\<close>

section \<open>Values\<close>

abbreviation at_line :: "nat \<Rightarrow> string \<Rightarrow> fmt_arg list \<Rightarrow> ('a, policy_error) result" where
  "at_line line msg as \<equiv> Err (policy_error_at line msg as)"

definition set_once :: "'a option \<Rightarrow> 'a \<Rightarrow> nat \<Rightarrow> string \<Rightarrow> ('a option, policy_error) result" where
  "set_once target v line key =
     (if target \<noteq> None then at_line line ''duplicate key: {key}'' [FStr key] else Ok (Some v))"

definition required :: "'a option \<Rightarrow> string \<Rightarrow> ('a, policy_error) result" where
  "required v key = ok_or (policy_error_new ''missing required key: {key}'' [FStr key]) v"

definition text_value :: "string \<Rightarrow> nat \<Rightarrow> string \<Rightarrow> (string, policy_error) result" where
  "text_value v line key = Ok v"

definition parse_u64 :: "string \<Rightarrow> nat \<Rightarrow> string \<Rightarrow> (u64, policy_error) result" where
  "parse_u64 v line key =
     ok_or (policy_error_at line ''{key} must be an unsigned integer'' [FStr key]) (u64_from_str v)"

definition parse_u32 :: "string \<Rightarrow> nat \<Rightarrow> string \<Rightarrow> (u32, policy_error) result" where
  "parse_u32 v line key =
     ok_or (policy_error_at line ''{key} must be an unsigned integer'' [FStr key]) (u32_from_str v)"

definition parse_u64_literal :: "string \<Rightarrow> nat \<Rightarrow> string \<Rightarrow> (u64, policy_error) result" where
  "parse_u64_literal v line key =
     (case strip_prefix ''0x'' v of
        Some hex \<Rightarrow>
          if hex = [] then at_line line ''{key} contains an empty hexadecimal integer'' [FStr key]
          else ok_or (policy_error_at line ''{key} contains an invalid integer'' [FStr key])
                 (u64_from_str_radix hex 16)
      | None \<Rightarrow>
          ok_or (policy_error_at line ''{key} contains an invalid integer'' [FStr key])
            (u64_from_str v))"

definition parse_seccomp_arg_rule :: "string \<Rightarrow> nat \<Rightarrow> string \<Rightarrow> (seccomp_arg_rule, policy_error) result" where
  "parse_seccomp_arg_rule v line key =
     and_then (ok_or (policy_error_at line ''{key} must be formatted as <mask>:<value>'' [FStr key])
                (split_once CHR '':'' v))
       (\<lambda>(m, expected).
          and_then (parse_u64_literal (trim m) line key) (\<lambda>m'.
          and_then (parse_u64_literal (trim expected) line key) (\<lambda>v'.
          Ok \<lparr>rule_mask = m', rule_value = v'\<rparr>)))"

definition parse_seccomp_arg_range_rule ::
  "string \<Rightarrow> nat \<Rightarrow> string \<Rightarrow> (seccomp_arg_range_rule, policy_error) result" where
  "parse_seccomp_arg_range_rule v line key =
     and_then (ok_or (policy_error_at line ''{key} must be formatted as <min>:<max>'' [FStr key])
                (split_once CHR '':'' v))
       (\<lambda>(lo, hi).
          and_then (parse_u64_literal (trim lo) line key) (\<lambda>mn.
          and_then (parse_u64_literal (trim hi) line key) (\<lambda>mx.
          Ok \<lparr>minimum = mn, maximum = mx\<rparr>)))"

definition parse_enabled_disabled :: "string \<Rightarrow> nat \<Rightarrow> string \<Rightarrow> (bool, policy_error) result" where
  "parse_enabled_disabled v line key =
     (if v = ''enabled'' then Ok True
      else if v = ''disabled'' then Ok False
      else at_line line ''{key} must be enabled or disabled'' [FStr key])"

definition parse_ipv4_address :: "string \<Rightarrow> nat \<Rightarrow> string \<Rightarrow> (ipv4, policy_error) result" where
  "parse_ipv4_address v line key =
     and_then (ok_or (policy_error_at line ''{key} must be a numeric IPv4 address'' [FStr key])
                (ipv4_from_str v))
       (\<lambda>address. if fst address = 0 \<or> 224 \<le> fst address
          then at_line line ''{key} must be a unicast IPv4 address'' [FStr key]
          else Ok address)"

definition parse_tcp_port :: "string \<Rightarrow> nat \<Rightarrow> string \<Rightarrow> (u16, policy_error) result" where
  "parse_tcp_port v line key =
     and_then (parse_u64 v line key)
       (\<lambda>port. if \<not> in_range 1 0xFFFF port
          then at_line line ''{key} must be between 1 and 65535'' [FStr key]
          else Ok (ucast port))"

definition nibble :: "char \<Rightarrow> u8 option" where
  "nibble c =
     (if char_between CHR ''0'' CHR ''9'' c then Some (of_char c - 48)
      else if char_between CHR ''a'' CHR ''f'' c then Some (of_char c - 97 + 10)
      else if char_between CHR ''A'' CHR ''F'' c then Some (of_char c - 65 + 10)
      else None)"

definition hex_byte :: "nat \<Rightarrow> string \<Rightarrow> char \<Rightarrow> char \<Rightarrow> (u8, policy_error) result" where
  "hex_byte line key hi lo =
     and_then (ok_or (policy_error_at line ''{key} must contain only hexadecimal characters'' [FStr key]) (nibble hi))
       (\<lambda>high. and_then (ok_or (policy_error_at line ''{key} must contain only hexadecimal characters'' [FStr key]) (nibble lo))
          (\<lambda>low. Ok (push_bit 4 high OR low)))"

definition parse_sha256 :: "string \<Rightarrow> nat \<Rightarrow> string \<Rightarrow> (u8 list, policy_error) result" where
  "parse_sha256 v line key =
     (if length v \<noteq> 64 \<or> \<not> is_ascii v
      then at_line line ''{key} must be exactly 64 hexadecimal characters'' [FStr key]
      else fold_result (\<lambda>digest index.
             and_then (hex_byte line key (v ! (index * 2)) (v ! (index * 2 + 1)))
               (\<lambda>byte. Ok (digest[index := byte])))
           (replicate 32 0) [0..<32])"

definition parse_stdio_mode :: "string \<Rightarrow> nat \<Rightarrow> string \<Rightarrow> (stdio_mode, policy_error) result" where
  "parse_stdio_mode v line key =
     (if v = ''inherit'' then Ok Inherit
      else if v = ''closed'' then Ok Closed
      else if v = ''redirect'' then Ok Redirect
      else if v = ''capture'' then Ok Capture
      else at_line line ''{key} must be inherit, closed, redirect, or capture'' [FStr key])"

section \<open>The local variables\<close>

record builder =
  b_root_dir :: "string option"
  b_cow_root_bytes :: "u64 option"
  b_cow_diff_bytes :: "u64 option"
  b_hostname :: "string option"
  b_executable :: "string option"
  b_executable_sha256 :: "u8 list option"
  b_executable_interpreter :: "string option"
  b_executable_interpreter_sha256 :: "u8 list option"
  b_executable_needed :: "string list"
  b_executable_needed_sha256 :: "u8 list list"
  b_args :: "string list"
  b_environment :: "(string, string) btreemap"
  b_working_dir :: "string option"
  b_landlock_read_execute :: "string list"
  b_landlock_file_mutate :: "string list"
  b_landlock_path_topology_mutate :: "string list"
  b_landlock_device_ioctl :: "string list"
  b_landlock_tcp_bind_ports :: "u16 list"
  b_landlock_tcp_connect_ports :: "u16 list"
  b_landlock_scope_abstract_unix_socket :: "bool option"
  b_landlock_scope_signal :: "bool option"
  b_loopback_enabled :: "bool option"
  b_procfs_enabled :: "bool option"
  b_host_loopback_tcp_port :: "u16 option"
  b_host_loopback_tcp_target_fd :: "u32 option"
  b_host_ipv4_tcp_address :: "ipv4 option"
  b_host_ipv4_tcp_port :: "u16 option"
  b_host_ipv4_tcp_target_fd :: "u32 option"
  b_host_ipv4_udp_address :: "ipv4 option"
  b_host_ipv4_udp_port :: "u16 option"
  b_host_ipv4_udp_target_fd :: "u32 option"
  b_host_unix_stream_path :: "string option"
  b_host_unix_stream_target_fd :: "u32 option"
  b_host_unix_stream_peer_uid :: "u32 option"
  b_host_unix_stream_peer_gid :: "u32 option"
  b_host_loopback_tcp_listen_port :: "u16 option"
  b_host_loopback_tcp_listen_target_fd :: "u32 option"
  b_readonly_volume_source :: "string list"
  b_readonly_volume_target :: "string list"
  b_writable_volume_source :: "string list"
  b_writable_volume_target :: "string list"
  b_cow_volume_source :: "string list"
  b_cow_volume_target :: "string list"
  b_cow_volume_bytes :: "u64 list"
  b_cow_volume_diff_bytes :: "u64 list"
  b_cow_volume_base_identity_bytes :: "u64 list"
  b_cow_volume_base_identity_nodes :: "u64 list"
  b_scratch_dir :: "string option"
  b_scratch_bytes :: "u64 option"
  b_stdin :: "stdio_mode option"
  b_stdout :: "stdio_mode option"
  b_stderr :: "stdio_mode option"
  b_selected_handles :: "(u32, u32) btreemap"
  b_stdout_redirect :: "string option"
  b_stdout_capture_bytes :: "u64 option"
  b_stdout_total_bytes :: "u64 option"
  b_time_monotonic_offset_seconds :: "u64 option"
  b_time_boottime_offset_seconds :: "u64 option"
  b_wall_clock_milliseconds :: "u64 option"
  b_cpu_seconds :: "u64 option"
  b_address_space_bytes :: "u64 option"
  b_file_size_bytes :: "u64 option"
  b_open_files :: "u64 option"
  b_seccomp_allow :: "string btreeset option"
  b_seccomp_argument_rules :: "(string, (u8, seccomp_arg_rule) btreemap) btreemap"
  b_seccomp_argument_range_rules :: "(string, (u8, seccomp_arg_range_rule) btreemap) btreemap"
  b_seccomp_argument_forbidden_mask_rules :: "(string, (u8, seccomp_arg_rule) btreemap) btreemap"

definition empty_builder :: builder where
  "empty_builder = \<lparr>
     b_root_dir = None,
     b_cow_root_bytes = None,
     b_cow_diff_bytes = None,
     b_hostname = None,
     b_executable = None,
     b_executable_sha256 = None,
     b_executable_interpreter = None,
     b_executable_interpreter_sha256 = None,
     b_executable_needed = [],
     b_executable_needed_sha256 = [],
     b_args = [],
     b_environment = [],
     b_working_dir = None,
     b_landlock_read_execute = [],
     b_landlock_file_mutate = [],
     b_landlock_path_topology_mutate = [],
     b_landlock_device_ioctl = [],
     b_landlock_tcp_bind_ports = [],
     b_landlock_tcp_connect_ports = [],
     b_landlock_scope_abstract_unix_socket = None,
     b_landlock_scope_signal = None,
     b_loopback_enabled = None,
     b_procfs_enabled = None,
     b_host_loopback_tcp_port = None,
     b_host_loopback_tcp_target_fd = None,
     b_host_ipv4_tcp_address = None,
     b_host_ipv4_tcp_port = None,
     b_host_ipv4_tcp_target_fd = None,
     b_host_ipv4_udp_address = None,
     b_host_ipv4_udp_port = None,
     b_host_ipv4_udp_target_fd = None,
     b_host_unix_stream_path = None,
     b_host_unix_stream_target_fd = None,
     b_host_unix_stream_peer_uid = None,
     b_host_unix_stream_peer_gid = None,
     b_host_loopback_tcp_listen_port = None,
     b_host_loopback_tcp_listen_target_fd = None,
     b_readonly_volume_source = [],
     b_readonly_volume_target = [],
     b_writable_volume_source = [],
     b_writable_volume_target = [],
     b_cow_volume_source = [],
     b_cow_volume_target = [],
     b_cow_volume_bytes = [],
     b_cow_volume_diff_bytes = [],
     b_cow_volume_base_identity_bytes = [],
     b_cow_volume_base_identity_nodes = [],
     b_scratch_dir = None,
     b_scratch_bytes = None,
     b_stdin = None,
     b_stdout = None,
     b_stderr = None,
     b_selected_handles = [],
     b_stdout_redirect = None,
     b_stdout_capture_bytes = None,
     b_stdout_total_bytes = None,
     b_time_monotonic_offset_seconds = None,
     b_time_boottime_offset_seconds = None,
     b_wall_clock_milliseconds = None,
     b_cpu_seconds = None,
     b_address_space_bytes = None,
     b_file_size_bytes = None,
     b_open_files = None,
     b_seccomp_allow = None,
     b_seccomp_argument_rules = [],
     b_seccomp_argument_range_rules = [],
     b_seccomp_argument_forbidden_mask_rules = []\<rparr>"

section \<open>Keys with a literal name\<close>

type_synonym key_handler = "nat \<Rightarrow> string \<Rightarrow> string \<Rightarrow> builder \<Rightarrow> (builder, policy_error) result"

text \<open>\<open>set_once(&mut variable, parse(value)?, line_no, key)?\<close>.\<close>

definition store_once :: "(builder \<Rightarrow> 'a option) \<Rightarrow> (('a option \<Rightarrow> 'a option) \<Rightarrow> builder \<Rightarrow> builder) \<Rightarrow>
    (string \<Rightarrow> nat \<Rightarrow> string \<Rightarrow> ('a, policy_error) result) \<Rightarrow> key_handler" where
  "store_once get upd parse line key v b =
     and_then (parse v line key)
       (\<lambda>x. and_then (set_once (get b) x line key) (\<lambda>y. Ok (upd (\<lambda>_. y) b)))"

text \<open>\<open>variable.push(parse(value)?)\<close>.\<close>

definition push_value :: "(('a list \<Rightarrow> 'a list) \<Rightarrow> builder \<Rightarrow> builder) \<Rightarrow>
    (string \<Rightarrow> nat \<Rightarrow> string \<Rightarrow> ('a, policy_error) result) \<Rightarrow> key_handler" where
  "push_value upd parse line key v b =
     and_then (parse v line key) (\<lambda>x. Ok (upd (\<lambda>xs. xs @ [x]) b))"

definition filesystem_keys :: "(string \<times> key_handler) list" where
  "filesystem_keys = [
     (''filesystem.root'', store_once b_root_dir b_root_dir_update text_value),
     (''filesystem.cow_root_bytes'', store_once b_cow_root_bytes b_cow_root_bytes_update parse_u64),
     (''filesystem.cow_diff_bytes'', store_once b_cow_diff_bytes b_cow_diff_bytes_update parse_u64),
     (''identity.hostname'', store_once b_hostname b_hostname_update text_value)]"

definition landlock_keys :: "(string \<times> key_handler) list" where
  "landlock_keys = [
     (''landlock.tcp_bind_port'', push_value b_landlock_tcp_bind_ports_update parse_tcp_port),
     (''landlock.tcp_connect_port'', push_value b_landlock_tcp_connect_ports_update parse_tcp_port),
     (''landlock.scope_abstract_unix_socket'', store_once b_landlock_scope_abstract_unix_socket b_landlock_scope_abstract_unix_socket_update parse_enabled_disabled),
     (''landlock.scope_signal'', store_once b_landlock_scope_signal b_landlock_scope_signal_update parse_enabled_disabled)]"

definition network_keys :: "(string \<times> key_handler) list" where
  "network_keys = [
     (''network.loopback'', store_once b_loopback_enabled b_loopback_enabled_update parse_enabled_disabled),
     (''filesystem.proc'', store_once b_procfs_enabled b_procfs_enabled_update parse_enabled_disabled),
     (''network.host_loopback_tcp_port'', store_once b_host_loopback_tcp_port b_host_loopback_tcp_port_update parse_tcp_port),
     (''network.host_loopback_tcp_target_fd'', store_once b_host_loopback_tcp_target_fd b_host_loopback_tcp_target_fd_update parse_u32),
     (''network.host_ipv4_tcp_address'', store_once b_host_ipv4_tcp_address b_host_ipv4_tcp_address_update parse_ipv4_address),
     (''network.host_ipv4_tcp_port'', store_once b_host_ipv4_tcp_port b_host_ipv4_tcp_port_update parse_tcp_port),
     (''network.host_ipv4_tcp_target_fd'', store_once b_host_ipv4_tcp_target_fd b_host_ipv4_tcp_target_fd_update parse_u32),
     (''network.host_ipv4_udp_address'', store_once b_host_ipv4_udp_address b_host_ipv4_udp_address_update parse_ipv4_address),
     (''network.host_ipv4_udp_port'', store_once b_host_ipv4_udp_port b_host_ipv4_udp_port_update parse_tcp_port),
     (''network.host_ipv4_udp_target_fd'', store_once b_host_ipv4_udp_target_fd b_host_ipv4_udp_target_fd_update parse_u32),
     (''ipc.host_unix_stream_path'', store_once b_host_unix_stream_path b_host_unix_stream_path_update text_value),
     (''ipc.host_unix_stream_target_fd'', store_once b_host_unix_stream_target_fd b_host_unix_stream_target_fd_update parse_u32),
     (''ipc.host_unix_stream_peer_uid'', store_once b_host_unix_stream_peer_uid b_host_unix_stream_peer_uid_update parse_u32),
     (''ipc.host_unix_stream_peer_gid'', store_once b_host_unix_stream_peer_gid b_host_unix_stream_peer_gid_update parse_u32),
     (''network.host_loopback_tcp_listen_port'', store_once b_host_loopback_tcp_listen_port b_host_loopback_tcp_listen_port_update parse_tcp_port),
     (''network.host_loopback_tcp_listen_target_fd'', store_once b_host_loopback_tcp_listen_target_fd b_host_loopback_tcp_listen_target_fd_update parse_u32)]"

definition volume_keys :: "(string \<times> key_handler) list" where
  "volume_keys = [
     (''volume.readonly_source'', push_value b_readonly_volume_source_update text_value),
     (''volume.readonly_target'', push_value b_readonly_volume_target_update text_value),
     (''volume.writable_source'', push_value b_writable_volume_source_update text_value),
     (''volume.writable_target'', push_value b_writable_volume_target_update text_value),
     (''volume.cow_source'', push_value b_cow_volume_source_update text_value),
     (''volume.cow_target'', push_value b_cow_volume_target_update text_value),
     (''volume.cow_bytes'', push_value b_cow_volume_bytes_update parse_u64),
     (''volume.cow_diff_bytes'', push_value b_cow_volume_diff_bytes_update parse_u64),
     (''volume.cow_base_identity_bytes'', push_value b_cow_volume_base_identity_bytes_update parse_u64),
     (''volume.cow_base_identity_nodes'', push_value b_cow_volume_base_identity_nodes_update parse_u64),
     (''filesystem.scratch'', store_once b_scratch_dir b_scratch_dir_update text_value),
     (''filesystem.scratch_bytes'', store_once b_scratch_bytes b_scratch_bytes_update parse_u64)]"

definition execution_keys :: "(string \<times> key_handler) list" where
  "execution_keys = [
     (''executable'', store_once b_executable b_executable_update text_value),
     (''executable.sha256'', store_once b_executable_sha256 b_executable_sha256_update parse_sha256),
     (''executable.interpreter'', store_once b_executable_interpreter b_executable_interpreter_update text_value),
     (''executable.interpreter_sha256'', store_once b_executable_interpreter_sha256 b_executable_interpreter_sha256_update parse_sha256),
     (''executable.needed'', push_value b_executable_needed_update text_value),
     (''executable.needed_sha256'', push_value b_executable_needed_sha256_update parse_sha256),
     (''arg'', push_value b_args_update text_value),
     (''working_dir'', store_once b_working_dir b_working_dir_update text_value),
     (''landlock.read_execute'', push_value b_landlock_read_execute_update text_value),
     (''landlock.file_mutate'', push_value b_landlock_file_mutate_update text_value),
     (''landlock.path_topology_mutate'', push_value b_landlock_path_topology_mutate_update text_value),
     (''landlock.device_ioctl'', push_value b_landlock_device_ioctl_update text_value)]"

definition stdio_keys :: "(string \<times> key_handler) list" where
  "stdio_keys = [
     (''stdio.stdin'', store_once b_stdin b_stdin_update parse_stdio_mode),
     (''stdio.stdout'', store_once b_stdout b_stdout_update parse_stdio_mode),
     (''stdio.stderr'', store_once b_stderr b_stderr_update parse_stdio_mode),
     (''stdio.stdout_path'', store_once b_stdout_redirect b_stdout_redirect_update text_value),
     (''stdio.stdout_capture_bytes'', store_once b_stdout_capture_bytes b_stdout_capture_bytes_update parse_u64),
     (''limit.stdout_total_bytes'', store_once b_stdout_total_bytes b_stdout_total_bytes_update parse_u64),
     (''time.monotonic_offset_seconds'', store_once b_time_monotonic_offset_seconds b_time_monotonic_offset_seconds_update parse_u64),
     (''time.boottime_offset_seconds'', store_once b_time_boottime_offset_seconds b_time_boottime_offset_seconds_update parse_u64),
     (''limit.wall_clock_milliseconds'', store_once b_wall_clock_milliseconds b_wall_clock_milliseconds_update parse_u64),
     (''limit.cpu_seconds'', store_once b_cpu_seconds b_cpu_seconds_update parse_u64),
     (''limit.address_space_bytes'', store_once b_address_space_bytes b_address_space_bytes_update parse_u64),
     (''limit.file_size_bytes'', store_once b_file_size_bytes b_file_size_bytes_update parse_u64),
     (''limit.open_files'', store_once b_open_files b_open_files_update parse_u64)]"

definition literal_keys :: "(string \<times> key_handler) list" where
  "literal_keys = filesystem_keys @ landlock_keys @ network_keys @ volume_keys @ execution_keys @ stdio_keys"

section \<open>Keys with a guard\<close>

definition handle_key :: key_handler where
  "handle_key line key v b =
     and_then (ok_or (policy_error_at line ''selected handle key must be handle.<target_fd>'' [])
                (u32_from_str (drop (length ''handle.'') key)))
       (\<lambda>target_fd. and_then
          (ok_or (policy_error_at line ''selected handle source fd must be an unsigned integer'' []) (u32_from_str v))
          (\<lambda>source_fd.
             if btree_get (b_selected_handles b) target_fd \<noteq> None
             then at_line line ''duplicate selected handle target fd: {target_fd}'' [FNat (unat target_fd)]
             else Ok (b\<lparr>b_selected_handles := btree_insert target_fd source_fd (b_selected_handles b)\<rparr>)))"

definition seccomp_allow_key :: key_handler where
  "seccomp_allow_key line key v b =
     (if b_seccomp_allow b \<noteq> None then at_line line ''duplicate seccomp.allow'' []
      else and_then (fold_result (\<lambda>names name.
              if name = [] then at_line line ''seccomp.allow contains an empty syscall name'' []
              else if name \<in> set names
              then at_line line ''duplicate syscall in seccomp.allow: {name}'' [FStr name]
              else Ok (btreeset_insert name names))
             [] (map trim (split_on CHR '','' v)))
           (\<lambda>names. Ok (b\<lparr>b_seccomp_allow := Some names\<rparr>)))"

text \<open>
  The three rule keys differ in their messages, the parser of the rule and the map it goes to.
\<close>

definition rule_key :: "string \<Rightarrow> string \<Rightarrow> string \<Rightarrow> string \<Rightarrow> string \<Rightarrow>
    (string \<Rightarrow> nat \<Rightarrow> string \<Rightarrow> ('r, policy_error) result) \<Rightarrow>
    (builder \<Rightarrow> (string, (u8, 'r) btreemap) btreemap) \<Rightarrow>
    (((string, (u8, 'r) btreemap) btreemap \<Rightarrow> (string, (u8, 'r) btreemap) btreemap) \<Rightarrow> builder \<Rightarrow> builder) \<Rightarrow>
    key_handler" where
  "rule_key pre shape_msg name_msg index_msg duplicate_msg parse get upd line key v b =
     and_then (ok_or (policy_error_at line shape_msg []) (rsplit_once CHR ''.'' (drop (length pre) key)))
       (\<lambda>(syscall, index_text).
          if \<not> valid_syscall_name syscall then at_line line name_msg [FDebug syscall]
          else and_then (ok_or (policy_error_at line index_msg []) (u8_from_str index_text)) (\<lambda>argument_index.
            if 5 < argument_index then at_line line index_msg []
            else and_then (parse v line key) (\<lambda>rule.
              let syscall_rules = (case btree_get (get b) syscall of None \<Rightarrow> [] | Some rules \<Rightarrow> rules) in
              if btree_get syscall_rules argument_index \<noteq> None
              then at_line line duplicate_msg [FStr syscall, FNat (unat argument_index)]
              else Ok (upd (btree_insert syscall (btree_insert argument_index rule syscall_rules)) b))))"

definition deny_mask_key :: key_handler where
  "deny_mask_key = rule_key ''seccomp.deny_mask.''
     ''seccomp forbidden-mask key must be seccomp.deny_mask.<syscall>.<0..5>''
     ''invalid seccomp forbidden-mask syscall name: {syscall:?}''
     ''seccomp forbidden-mask argument index must be between 0 and 5''
     ''duplicate seccomp forbidden-mask rule: {syscall}.{argument_index}''
     parse_seccomp_arg_rule b_seccomp_argument_forbidden_mask_rules b_seccomp_argument_forbidden_mask_rules_update"

definition range_key :: key_handler where
  "range_key = rule_key ''seccomp.range.''
     ''seccomp range key must be seccomp.range.<syscall>.<0..5>''
     ''invalid seccomp range-rule syscall name: {syscall:?}''
     ''seccomp range argument index must be between 0 and 5''
     ''duplicate seccomp range rule: {syscall}.{argument_index}''
     parse_seccomp_arg_range_rule b_seccomp_argument_range_rules b_seccomp_argument_range_rules_update"

definition argument_key :: key_handler where
  "argument_key = rule_key ''seccomp.arg.''
     ''seccomp argument key must be seccomp.arg.<syscall>.<0..5>''
     ''invalid seccomp argument-rule syscall name: {syscall:?}''
     ''seccomp argument index must be between 0 and 5''
     ''duplicate seccomp argument rule: {syscall}.{argument_index}''
     parse_seccomp_arg_rule b_seccomp_argument_rules b_seccomp_argument_rules_update"

definition env_key :: key_handler where
  "env_key line key v b =
     (case strip_prefix ''env.'' key of
        None \<Rightarrow> at_line line ''unknown policy key: {key}'' [FStr key]
      | Some name \<Rightarrow>
          if \<not> valid_env_key name
          then at_line line ''invalid environment variable name: {env_key:?}'' [FDebug name]
          else if btree_get (b_environment b) name \<noteq> None
          then at_line line ''duplicate environment variable: {env_key}'' [FStr name]
          else Ok (b\<lparr>b_environment := btree_insert name v (b_environment b)\<rparr>))"

definition handle_entry :: key_handler where
  "handle_entry line key v b =
     (case map_of literal_keys key of
        Some handler \<Rightarrow> handler line key v b
      | None \<Rightarrow>
          if prefix ''handle.'' key then handle_key line key v b
          else if key = ''seccomp.allow'' then seccomp_allow_key line key v b
          else if prefix ''seccomp.deny_mask.'' key then deny_mask_key line key v b
          else if prefix ''seccomp.range.'' key then range_key line key v b
          else if prefix ''seccomp.arg.'' key then argument_key line key v b
          else env_key line key v b)"

section \<open>The line loop\<close>

definition handle_line :: "builder \<Rightarrow> nat \<times> string \<Rightarrow> (builder, policy_error) result" where
  "handle_line b numbered =
     (let line_no = fst numbered + 1; line = trim (snd numbered) in
      if line = [] \<or> prefix ''#'' line then Ok b
      else and_then (ok_or (policy_error_at line_no ''expected key = value'' []) (split_once CHR ''='' line))
        (\<lambda>(raw_key, raw_value). handle_entry line_no (trim raw_key) (trim raw_value) b))"

definition read_lines :: "string \<Rightarrow> (builder, policy_error) result" where
  "read_lines input =
     fold_result handle_line empty_builder (zip [0..<length (str_lines input)] (str_lines input))"

section \<open>Bindings\<close>

definition check_needed :: "builder \<Rightarrow> (unit, policy_error) result" where
  "check_needed b = checks [
     reject (length (b_executable_needed b) \<noteq> length (b_executable_needed_sha256 b))
       (policy_error_new ''executable.needed and executable.needed_sha256 must have the same number of entries'' []),
     reject (MAX_EXECUTABLE_NEEDED_BINDINGS < length (b_executable_needed b))
       (policy_error_new ''too many executable.needed bindings: {} > {MAX_EXECUTABLE_NEEDED_BINDINGS}''
          [FNat (length (b_executable_needed b)), FNat MAX_EXECUTABLE_NEEDED_BINDINGS])]"

definition parsed_needed_bindings :: "builder \<Rightarrow> executable_needed_binding list" where
  "parsed_needed_bindings b =
     map (\<lambda>(path, sha). \<lparr>needed_path = path, needed_sha256 = sha\<rparr>)
       (zip (b_executable_needed b) (b_executable_needed_sha256 b))"

text \<open>A single binding goes to the two legacy fields, several to the list.\<close>

definition legacy_needed ::
  "executable_needed_binding list \<Rightarrow> pathbuf option \<times> u8 list option \<times> executable_needed_binding list" where
  "legacy_needed bindings =
     (case bindings of
        [binding] \<Rightarrow> (Some (needed_path binding), Some (needed_sha256 binding), [])
      | _ \<Rightarrow> (None, None, bindings))"

definition check_volumes :: "builder \<Rightarrow> (unit, policy_error) result" where
  "check_volumes b = checks [
     reject (length (b_readonly_volume_source b) \<noteq> length (b_readonly_volume_target b))
       (policy_error_new ''volume.readonly_source and volume.readonly_target must have the same number of entries'' []),
     reject (length (b_writable_volume_source b) \<noteq> length (b_writable_volume_target b))
       (policy_error_new ''volume.writable_source and volume.writable_target must have the same number of entries'' []),
     reject (length (b_cow_volume_source b) \<noteq> length (b_cow_volume_target b) \<or>
             length (b_cow_volume_source b) \<noteq> length (b_cow_volume_bytes b))
       (policy_error_new ''volume.cow_source, volume.cow_target, and volume.cow_bytes must have the same number of entries'' []),
     reject (b_cow_volume_diff_bytes b \<noteq> [] \<and>
             length (b_cow_volume_diff_bytes b) \<noteq> length (b_cow_volume_source b))
       (policy_error_new ''volume.cow_diff_bytes must be omitted entirely or have one entry for every copy-on-write volume'' []),
     reject (length (b_cow_volume_base_identity_bytes b) \<noteq> length (b_cow_volume_base_identity_nodes b))
       (policy_error_new ''volume.cow_base_identity_bytes and volume.cow_base_identity_nodes must have the same number of entries'' []),
     reject (b_cow_volume_base_identity_bytes b \<noteq> [] \<and>
             length (b_cow_volume_base_identity_bytes b) \<noteq> length (b_cow_volume_source b))
       (policy_error_new ''volume.cow_base_identity_* must be omitted entirely or have one entry for every copy-on-write volume'' []),
     reject (b_cow_volume_base_identity_bytes b \<noteq> [] \<and> b_cow_volume_diff_bytes b = [])
       (policy_error_new ''volume.cow_base_identity_* requires volume.cow_diff_bytes'' []),
     and_then (ok_or (policy_error_new ''persistent volume binding count overflow'' [])
         (Option.bind (checked_add_usize (length (b_readonly_volume_source b)) (length (b_writable_volume_source b)))
           (\<lambda>n. checked_add_usize n (length (b_cow_volume_source b)))))
       (\<lambda>volume_count. reject (MAX_PERSISTENT_VOLUME_BINDINGS < volume_count)
          (policy_error_new ''too many persistent volume bindings: {volume_count} > {MAX_PERSISTENT_VOLUME_BINDINGS}''
             [FNat volume_count, FNat MAX_PERSISTENT_VOLUME_BINDINGS]))]"

definition parsed_volumes :: "string list \<Rightarrow> string list \<Rightarrow> persistent_volume_binding list" where
  "parsed_volumes sources targets =
     map (\<lambda>(src, tgt). \<lparr>volume_source = src, volume_target = tgt\<rparr>) (zip sources targets)"

definition legacy_volume ::
  "persistent_volume_binding list \<Rightarrow> pathbuf option \<times> pathbuf option \<times> persistent_volume_binding list" where
  "legacy_volume bindings =
     (case bindings of
        [binding] \<Rightarrow> (Some (volume_source binding), Some (volume_target binding), [])
      | _ \<Rightarrow> (None, None, bindings))"

definition cow_diff_limits :: "builder \<Rightarrow> u64 option list" where
  "cow_diff_limits b =
     (if b_cow_volume_diff_bytes b = [] then replicate (length (b_cow_volume_source b)) None
      else map Some (b_cow_volume_diff_bytes b))"

definition cow_identity_limits :: "builder \<Rightarrow> (u64 option \<times> u64 option) list" where
  "cow_identity_limits b =
     (if b_cow_volume_base_identity_bytes b = [] then replicate (length (b_cow_volume_source b)) (None, None)
      else map (\<lambda>(bytes, nodes). (Some bytes, Some nodes))
             (zip (b_cow_volume_base_identity_bytes b) (b_cow_volume_base_identity_nodes b)))"

definition parsed_cow_volumes :: "builder \<Rightarrow> copy_on_write_volume_binding list" where
  "parsed_cow_volumes b =
     map (\<lambda>((((src, tgt), bytes), diff), (identity_bytes, identity_nodes)).
            \<lparr>cow_source = src, cow_target = tgt, cow_bytes = bytes, diff_bytes = diff,
             base_identity_bytes = identity_bytes, base_identity_nodes = identity_nodes\<rparr>)
       (zip (zip (zip (zip (b_cow_volume_source b) (b_cow_volume_target b)) (b_cow_volume_bytes b))
          (cow_diff_limits b)) (cow_identity_limits b))"

section \<open>The policy\<close>

definition unwrap_or_false :: "bool option \<Rightarrow> bool" where
  "unwrap_or_false x = (case x of None \<Rightarrow> False | Some v \<Rightarrow> v)"

definition build_policy :: "builder \<Rightarrow> (sandbox_policy, policy_error) result" where
  "build_policy b =
     (case legacy_needed (parsed_needed_bindings b) of (needed, needed_sha, needed_list) \<Rightarrow>
      case legacy_volume (parsed_volumes (b_readonly_volume_source b) (b_readonly_volume_target b))
      of (ro_source, ro_target, ro_list) \<Rightarrow>
      case legacy_volume (parsed_volumes (b_writable_volume_source b) (b_writable_volume_target b))
      of (rw_source, rw_target, rw_list) \<Rightarrow>
      and_then (required (b_root_dir b) ''filesystem.root'') (\<lambda>root.
      and_then (required (b_hostname b) ''identity.hostname'') (\<lambda>host.
      and_then (required (b_executable b) ''executable'') (\<lambda>exe.
      and_then (required (b_working_dir b) ''working_dir'') (\<lambda>wd.
      and_then (required (b_stdin b) ''stdio.stdin'') (\<lambda>sin.
      and_then (required (b_stdout b) ''stdio.stdout'') (\<lambda>sout.
      and_then (required (b_stderr b) ''stdio.stderr'') (\<lambda>serr.
      and_then (required (b_cpu_seconds b) ''limit.cpu_seconds'') (\<lambda>cpu.
      and_then (required (b_address_space_bytes b) ''limit.address_space_bytes'') (\<lambda>asb.
      and_then (required (b_file_size_bytes b) ''limit.file_size_bytes'') (\<lambda>fsb.
      and_then (required (b_open_files b) ''limit.open_files'') (\<lambda>nofile.
      and_then (required (b_seccomp_allow b) ''seccomp.allow'') (\<lambda>allow.
      Ok \<lparr>
        root_dir = root,
        cow_root_bytes = b_cow_root_bytes b,
        cow_diff_bytes = b_cow_diff_bytes b,
        hostname = host,
        executable = exe,
        executable_sha256 = b_executable_sha256 b,
        executable_interpreter = b_executable_interpreter b,
        executable_interpreter_sha256 = b_executable_interpreter_sha256 b,
        executable_needed = needed,
        executable_needed_sha256 = needed_sha,
        executable_needed_bindings = needed_list,
        args = b_args b,
        environment = b_environment b,
        working_dir = wd,
        landlock_read_execute = b_landlock_read_execute b,
        landlock_file_mutate = b_landlock_file_mutate b,
        landlock_path_topology_mutate = b_landlock_path_topology_mutate b,
        landlock_device_ioctl = b_landlock_device_ioctl b,
        landlock_tcp_bind_ports = b_landlock_tcp_bind_ports b,
        landlock_tcp_connect_ports = b_landlock_tcp_connect_ports b,
        landlock_scope_abstract_unix_socket = unwrap_or_false (b_landlock_scope_abstract_unix_socket b),
        landlock_scope_signal = unwrap_or_false (b_landlock_scope_signal b),
        loopback_enabled = unwrap_or_false (b_loopback_enabled b),
        procfs_enabled = unwrap_or_false (b_procfs_enabled b),
        host_loopback_tcp_port = b_host_loopback_tcp_port b,
        host_loopback_tcp_target_fd = b_host_loopback_tcp_target_fd b,
        host_ipv4_tcp_address = b_host_ipv4_tcp_address b,
        host_ipv4_tcp_port = b_host_ipv4_tcp_port b,
        host_ipv4_tcp_target_fd = b_host_ipv4_tcp_target_fd b,
        host_ipv4_udp_address = b_host_ipv4_udp_address b,
        host_ipv4_udp_port = b_host_ipv4_udp_port b,
        host_ipv4_udp_target_fd = b_host_ipv4_udp_target_fd b,
        host_unix_stream_path = b_host_unix_stream_path b,
        host_unix_stream_target_fd = b_host_unix_stream_target_fd b,
        host_unix_stream_peer_uid = b_host_unix_stream_peer_uid b,
        host_unix_stream_peer_gid = b_host_unix_stream_peer_gid b,
        host_loopback_tcp_listen_port = b_host_loopback_tcp_listen_port b,
        host_loopback_tcp_listen_target_fd = b_host_loopback_tcp_listen_target_fd b,
        readonly_volume_source = ro_source,
        readonly_volume_target = ro_target,
        readonly_volume_bindings = ro_list,
        writable_volume_source = rw_source,
        writable_volume_target = rw_target,
        writable_volume_bindings = rw_list,
        copy_on_write_volume_bindings = parsed_cow_volumes b,
        scratch_dir = b_scratch_dir b,
        scratch_bytes = b_scratch_bytes b,
        stdio = \<lparr>stdin = sin, stdout = sout, stderr = serr\<rparr>,
        selected_handles = b_selected_handles b,
        stdout_redirect = b_stdout_redirect b,
        stdout_capture_bytes = b_stdout_capture_bytes b,
        stdout_total_bytes = b_stdout_total_bytes b,
        time_monotonic_offset_seconds = b_time_monotonic_offset_seconds b,
        time_boottime_offset_seconds = b_time_boottime_offset_seconds b,
        wall_clock_milliseconds = b_wall_clock_milliseconds b,
        limits = \<lparr>cpu_seconds = cpu, address_space_bytes = asb, file_size_bytes = fsb, open_files = nofile\<rparr>,
        seccomp = \<lparr>allowed_syscalls = allow, argument_rules = b_seccomp_argument_rules b, argument_range_rules = b_seccomp_argument_range_rules b, argument_forbidden_mask_rules = b_seccomp_argument_forbidden_mask_rules b\<rparr>\<rparr>)))))))))))))"

definition from_str :: "string \<Rightarrow> (sandbox_policy, policy_error) result" where
  "from_str input =
     and_then (read_lines input) (\<lambda>b.
     and_then (check_needed b) (\<lambda>_.
     and_then (check_volumes b) (\<lambda>_.
     and_then (build_policy b) (\<lambda>policy.
     and_then (validate policy) (\<lambda>_. Ok policy)))))"

end
