(* ===== verification/Parse_Lemmas.thy ===== *)
theory Parse_Lemmas
  imports Policy_Parse Policy_Example
begin

text \<open>
  The line loop of the parser seen as a fold over the entries of the text: comments, blank lines
  and line numbers matter only for error messages.
\<close>

section \<open>Results of the handlers\<close>

lemma set_once_Ok [ok_simps]: "set_once target v line key = Inr y \<longleftrightarrow> target = None \<and> y = Some v"
  by (auto simp: set_once_def)

lemma store_once_Ok [ok_simps]:
  "store_once get upd parse line key v b = Inr b' \<longleftrightarrow>
     (\<exists>x. parse v line key = Inr x \<and> get b = None \<and> b' = upd (\<lambda>_. Some x) b)"
  by (auto simp: store_once_def ok_simps)

lemma push_value_Ok [ok_simps]:
  "push_value upd parse line key v b = Inr b' \<longleftrightarrow>
     (\<exists>x. parse v line key = Inr x \<and> b' = upd (\<lambda>xs. xs @ [x]) b)"
  by (auto simp: push_value_def ok_simps)

lemmas key_tables = literal_keys_def filesystem_keys_def landlock_keys_def network_keys_def
  volume_keys_def execution_keys_def stdio_keys_def

text \<open>The arms of the \<open>match\<close> on the key.\<close>

lemma handle_entry_cases:
  assumes "handle_entry line key v b = Inr b'"
  obtains (literal) h where "(key, h) \<in> set literal_keys" "h line key v b = Inr b'"
  | (handle) "prefix ''handle.'' key" "handle_key line key v b = Inr b'"
  | (allow) "key = ''seccomp.allow''" "seccomp_allow_key line key v b = Inr b'"
  | (deny) "prefix ''seccomp.deny_mask.'' key" "deny_mask_key line key v b = Inr b'"
  | (range) "prefix ''seccomp.range.'' key" "range_key line key v b = Inr b'"
  | (argument) "prefix ''seccomp.arg.'' key" "argument_key line key v b = Inr b'"
  | (env) "env_key line key v b = Inr b'"
  using assms unfolding handle_entry_def
  by (auto split: option.splits if_splits dest: map_of_SomeD)

section \<open>Line numbers matter only for errors\<close>

definition line_blind :: "(string \<Rightarrow> nat \<Rightarrow> string \<Rightarrow> ('a, policy_error) result) \<Rightarrow> bool" where
  "line_blind parse \<longleftrightarrow> (\<forall>v l l' key x. parse v l key = Inr x \<longrightarrow> parse v l' key = Inr x)"

lemma parse_u64_literal_Ok:
  "parse_u64_literal v l key = Inr x \<longleftrightarrow>
     (case strip_prefix ''0x'' v of
        Some hex \<Rightarrow> hex \<noteq> [] \<and> u64_from_str_radix hex 16 = Some x
      | None \<Rightarrow> u64_from_str v = Some x)"
  by (auto simp: parse_u64_literal_def ok_simps split: option.split)

lemma hex_byte_Ok:
  "hex_byte l key hi lo = Inr x \<longleftrightarrow>
     (\<exists>high low. nibble hi = Some high \<and> nibble lo = Some low \<and> x = push_bit 4 high OR low)"
  by (auto simp: hex_byte_def ok_simps)

lemma fold_result_Cons_Ok:
  "fold_result f acc (x # xs) = Inr r \<longleftrightarrow> (\<exists>a. f acc x = Inr a \<and> fold_result f a xs = Inr r)"
  by (auto split: sum.splits)

lemma fold_result_cong_Ok:
  assumes "\<And>a x a'. f a x = Inr a' \<Longrightarrow> g a x = Inr a'"
  shows "fold_result f acc xs = Inr r \<Longrightarrow> fold_result g acc xs = Inr r"
proof (induction xs arbitrary: acc)
  case (Cons x xs)
  then obtain a where "f acc x = Inr a" "fold_result f a xs = Inr r"
    by (auto split: sum.splits)
  then show ?case using assms [of acc x a] Cons.IH by simp
qed simp

lemma line_blind_parsers:
  "line_blind text_value" "line_blind parse_u64" "line_blind parse_u32" "line_blind parse_tcp_port"
  "line_blind parse_enabled_disabled" "line_blind parse_ipv4_address" "line_blind parse_stdio_mode"
  by (auto simp: line_blind_def text_value_def parse_u64_def parse_u32_def parse_tcp_port_def
      parse_enabled_disabled_def parse_ipv4_address_def parse_stdio_mode_def ok_simps split: if_splits)

lemma line_blind_sha256: "line_blind parse_sha256"
  unfolding line_blind_def parse_sha256_def
  by (auto split: if_splits elim!: fold_result_cong_Ok [rotated] simp: ok_simps hex_byte_Ok)

lemma line_blind_rules: "line_blind parse_seccomp_arg_rule" "line_blind parse_seccomp_arg_range_rule"
  by (auto simp: line_blind_def parse_seccomp_arg_rule_def parse_seccomp_arg_range_rule_def ok_simps
      parse_u64_literal_Ok)

definition blind_handler :: "key_handler \<Rightarrow> bool" where
  "blind_handler h \<longleftrightarrow> (\<forall>l l' key v b b'. h l key v b = Inr b' \<longrightarrow> h l' key v b = Inr b')"

lemma blindD: "blind_handler h \<Longrightarrow> h l key v b = Inr b' \<Longrightarrow> h l' key v b = Inr b'"
  unfolding blind_handler_def by blast

lemma blind_store_once: "line_blind parse \<Longrightarrow> blind_handler (store_once get upd parse)"
  unfolding blind_handler_def ok_simps line_blind_def by blast

lemma blind_push_value: "line_blind parse \<Longrightarrow> blind_handler (push_value upd parse)"
  unfolding blind_handler_def ok_simps line_blind_def by blast

lemma rule_key_Ok [ok_simps]:
  "rule_key pre m1 m2 m3 m4 parse get upd line key v b = Inr b' \<longleftrightarrow>
     (\<exists>syscall index_text i rule rules.
        rsplit_once CHR ''.'' (drop (length pre) key) = Some (syscall, index_text) \<and>
        valid_syscall_name syscall \<and> u8_from_str index_text = Some i \<and> i \<le> 5 \<and>
        parse v line key = Inr rule \<and>
        rules = (case btree_get (get b) syscall of None \<Rightarrow> [] | Some rules \<Rightarrow> rules) \<and>
        btree_get rules i = None \<and>
        b' = upd (btree_insert syscall (btree_insert i rule rules)) b)"
proof (cases "rsplit_once CHR ''.'' (drop (length pre) key)")
  case None
  then show ?thesis by (simp add: rule_key_def and_then_def ok_or_def)
next
  case (Some si)
  obtain syscall index_text where si: "si = (syscall, index_text)" by (cases si)
  show ?thesis
    unfolding rule_key_def Some si
    by (auto simp: and_then_Ok_iff ok_or_Ok_iff Let_def not_less split: if_splits)
qed

lemma blind_rule_key:
  assumes "line_blind parse"
  shows "blind_handler (rule_key pre m1 m2 m3 m4 parse get upd)"
  using assms unfolding blind_handler_def line_blind_def rule_key_Ok by blast

text \<open>The names of \<open>seccomp.allow\<close> without the error messages.\<close>

definition allow_names :: "string \<Rightarrow> (string btreeset, unit) result" where
  "allow_names v =
     fold_result (\<lambda>names name. if name = [] \<or> name \<in> set names then Inl () else Inr (btreeset_insert name names))
       [] (map trim (split_on CHR '','' v))"

lemma seccomp_allow_key_Ok [ok_simps]:
  "seccomp_allow_key line key v b = Inr b' \<longleftrightarrow>
     b_seccomp_allow b = None \<and> (\<exists>names. allow_names v = Inr names \<and> b' = b\<lparr>b_seccomp_allow := Some names\<rparr>)"
proof -
  have "fold_result (\<lambda>names name.
              if name = [] then at_line line ''seccomp.allow contains an empty syscall name'' []
              else if name \<in> set names
              then at_line line ''duplicate syscall in seccomp.allow: {name}'' [FStr name]
              else Inr (btreeset_insert name names)) acc xs = Inr r \<longleftrightarrow>
      fold_result (\<lambda>names name. if name = [] \<or> name \<in> set names then Inl () else Inr (btreeset_insert name names))
        acc xs = Inr r" for acc xs and r :: "string btreeset"
    by (induction xs arbitrary: acc) auto
  then show ?thesis
    by (auto simp: seccomp_allow_key_def allow_names_def and_then_Ok_iff)
qed

lemma blind_literal: "list_all (\<lambda>(k, h). blind_handler h) literal_keys"
  by (simp add: key_tables blind_store_once blind_push_value line_blind_parsers line_blind_sha256)

lemma blind_guarded:
  "blind_handler handle_key" "blind_handler seccomp_allow_key" "blind_handler deny_mask_key"
  "blind_handler range_key" "blind_handler argument_key" "blind_handler env_key"
  unfolding deny_mask_key_def range_key_def argument_key_def
proof -
  show "blind_handler handle_key"
    by (auto simp: blind_handler_def handle_key_def ok_simps split: if_splits)
  show "blind_handler env_key"
    by (auto simp: blind_handler_def env_key_def split: if_splits option.splits)
  show "blind_handler seccomp_allow_key"
    by (simp add: blind_handler_def seccomp_allow_key_Ok)
qed (intro blind_rule_key line_blind_rules)+

definition guarded_handler :: "string \<Rightarrow> key_handler" where
  "guarded_handler key =
     (if prefix ''handle.'' key then handle_key
      else if key = ''seccomp.allow'' then seccomp_allow_key
      else if prefix ''seccomp.deny_mask.'' key then deny_mask_key
      else if prefix ''seccomp.range.'' key then range_key
      else if prefix ''seccomp.arg.'' key then argument_key
      else env_key)"

lemma handle_entry_dispatch:
  "handle_entry line key v b =
     (case map_of literal_keys key of Some h \<Rightarrow> h line key v b | None \<Rightarrow> guarded_handler key line key v b)"
  unfolding handle_entry_def guarded_handler_def
  by (rule option.case_cong [OF refl]) (simp_all only: if_distribR)

lemma blind_guarded_handler: "blind_handler (guarded_handler key)"
  unfolding guarded_handler_def by (simp only: blind_guarded split: if_split) simp

lemma blind_handle_entry: "blind_handler handle_entry"
proof -
  have literal: "blind_handler h" if "map_of literal_keys key = Some h" for key h
    using blind_literal map_of_SomeD [OF that] by (auto simp: list_all_iff)
  show ?thesis
    unfolding blind_handler_def
  proof (intro allI impI)
    fix l l' key v b b'
    assume ok: "handle_entry l key v b = Inr b'"
    show "handle_entry l' key v b = Inr b'"
    proof (cases "map_of literal_keys key")
      case (Some h)
      have "h l key v b = Inr b'" using ok by (simp only: handle_entry_dispatch Some option.case)
      then have "h l' key v b = Inr b'" by (rule blindD [OF literal [OF Some]])
      then show ?thesis by (simp only: handle_entry_dispatch Some option.case)
    next
      case None
      have "guarded_handler key l key v b = Inr b'"
        using ok by (simp only: handle_entry_dispatch None option.case)
      then have "guarded_handler key l' key v b = Inr b'" by (rule blindD [OF blind_guarded_handler])
      then show ?thesis by (simp only: handle_entry_dispatch None option.case)
    qed
  qed
qed

section \<open>Entries\<close>

text \<open>A line that is neither blank nor a comment.\<close>

definition meaningful :: "string \<Rightarrow> bool" where
  "meaningful raw \<longleftrightarrow> trim raw \<noteq> [] \<and> \<not> prefix ''#'' (trim raw)"

definition line_entry :: "string \<Rightarrow> (string \<times> string) list" where
  "line_entry raw =
     (if meaningful raw
      then (case split_once CHR ''='' (trim raw) of None \<Rightarrow> [] | Some (k, v) \<Rightarrow> [(trim k, trim v)])
      else [])"

definition entries :: "string \<Rightarrow> (string \<times> string) list" where
  "entries input = concat (map line_entry (str_lines input))"

definition lines_well_formed :: "string \<Rightarrow> bool" where
  "lines_well_formed input \<longleftrightarrow>
     (\<forall>raw\<in>set (str_lines input). meaningful raw \<longrightarrow> CHR ''='' \<in> set (trim raw))"

definition entry_step :: "builder \<Rightarrow> string \<times> string \<Rightarrow> (builder, policy_error) result" where
  "entry_step b e = handle_entry 0 (fst e) (snd e) b"

lemma handle_entry_line: "handle_entry l k v b = Inr b' \<longleftrightarrow> handle_entry 0 k v b = Inr b'"
  using blind_handle_entry unfolding blind_handler_def by blast

lemma handle_line_Ok:
  "handle_line b (n, raw) = Inr b' \<longleftrightarrow>
     (meaningful raw \<longrightarrow> CHR ''='' \<in> set (trim raw)) \<and> fold_result entry_step b (line_entry raw) = Inr b'"
proof (cases "meaningful raw")
  case False
  then show ?thesis by (auto simp: handle_line_def meaningful_def line_entry_def)
next
  case True
  then have start: "trim raw \<noteq> []" "\<not> prefix ''#'' (trim raw)" by (simp_all add: meaningful_def)
  show ?thesis
  proof (cases "split_once CHR ''='' (trim raw)")
    case None
    then show ?thesis using True start split_once_None [of "CHR ''=''" "trim raw"]
      by (simp add: handle_line_def and_then_def ok_or_def)
  next
    case (Some kv)
    obtain k v where kv: "kv = (k, v)" by (cases kv)
    have "CHR ''='' \<in> set (trim raw)"
      using Some split_once_None [of "CHR ''=''" "trim raw"] by auto
    then show ?thesis
      using Some kv True start
      by (auto simp: handle_line_def line_entry_def ok_simps entry_step_def
          handle_entry_line [of "Suc n"] split: sum.split)
  qed
qed

lemma read_lines_Ok:
  "read_lines input = Inr b \<longleftrightarrow>
     lines_well_formed input \<and> fold_result entry_step empty_builder (entries input) = Inr b"
proof -
  have "fold_result handle_line b0 (zip ns ls) = Inr b \<longleftrightarrow>
      (\<forall>raw\<in>set ls. meaningful raw \<longrightarrow> CHR ''='' \<in> set (trim raw)) \<and>
      fold_result entry_step b0 (concat (map line_entry ls)) = Inr b"
    if "length ns = length ls" for ns ls b0
    using that
  proof (induction ns ls arbitrary: b0 rule: list_induct2)
    case (Cons n ns raw ls)
    show ?case
      by (auto simp: fold_result_Cons_Ok fold_result_append and_then_Ok_iff handle_line_Ok Cons.IH
          simp del: fold_result.simps(2))
  qed simp
  from this [of "[0..<length (str_lines input)]" "str_lines input"] show ?thesis
    by (simp add: read_lines_def lines_well_formed_def entries_def)
qed

end
