(* ===== verification/Parse_Invariants.thy ===== *)
theory Parse_Invariants
  imports Parse_Lemmas
begin

text \<open>
  What the entries of a policy text do to the builder: the order invariant of its maps, the
  presence of single-valued keys, and the lists collected from repeated keys.
\<close>

section \<open>Invariants of the handlers\<close>

definition keeps :: "(builder \<Rightarrow> bool) \<Rightarrow> key_handler \<Rightarrow> bool" where
  "keeps P h \<longleftrightarrow> (\<forall>l key v b b'. P b \<longrightarrow> h l key v b = Inr b' \<longrightarrow> P b')"

lemma keeps_store_once:
  "(\<And>y b. P (upd (\<lambda>_. y) b) \<longleftrightarrow> P b) \<Longrightarrow> keeps P (store_once get upd parse)"
  unfolding keeps_def store_once_Ok by blast

lemma keeps_push_value:
  "(\<And>f b. P (upd f b) \<longleftrightarrow> P b) \<Longrightarrow> keeps P (push_value upd parse)"
  unfolding keeps_def push_value_Ok by blast

lemma keeps_handle_entry:
  assumes "list_all (\<lambda>(k, h). keeps P h) literal_keys" and "\<And>key. keeps P (guarded_handler key)"
  shows "keeps P handle_entry"
  unfolding keeps_def
proof (intro allI impI)
  fix l key v b b'
  assume P: "P b" and ok: "handle_entry l key v b = Inr b'"
  show "P b'"
  proof (cases "map_of literal_keys key")
    case (Some h)
    then have "keeps P h" using assms(1) map_of_SomeD [OF Some] by (auto simp: list_all_iff)
    moreover have "h l key v b = Inr b'" using ok by (simp only: handle_entry_dispatch Some option.case)
    ultimately show ?thesis using P unfolding keeps_def by blast
  next
    case None
    have "guarded_handler key l key v b = Inr b'"
      using ok by (simp only: handle_entry_dispatch None option.case)
    then show ?thesis using P assms(2) unfolding keeps_def by blast
  qed
qed

lemma entries_keep:
  assumes "keeps P handle_entry" and "fold_result entry_step b es = Inr b'" and "P b"
  shows "P b'"
  using assms(2,3)
  by (rule fold_result_invariant) (use assms(1) in \<open>auto simp: keeps_def entry_step_def\<close>)

section \<open>The maps are ordered\<close>

definition builder_maps_ok :: "builder \<Rightarrow> bool" where
  "builder_maps_ok b \<longleftrightarrow>
     btree_ok (b_environment b) \<and> btree_ok (b_selected_handles b) \<and>
     (\<forall>names. b_seccomp_allow b = Some names \<longrightarrow> btreeset_ok names) \<and>
     rule_maps_ok (b_seccomp_argument_rules b) \<and> rule_maps_ok (b_seccomp_argument_range_rules b) \<and>
     rule_maps_ok (b_seccomp_argument_forbidden_mask_rules b)"

lemma rule_maps_ok_update:
  assumes "rule_maps_ok m"
  shows "rule_maps_ok (btree_insert s (btree_insert i r (case btree_get m s of None \<Rightarrow> [] | Some rules \<Rightarrow> rules)) m)"
proof -
  have "btree_ok (case btree_get m s of None \<Rightarrow> [] | Some rules \<Rightarrow> rules)"
    using rule_maps_okD [OF assms, of s] by (auto simp: btree_ok_def split: option.split)
  then show ?thesis by (intro rule_maps_ok_insert assms btree_ok_insert)
qed

lemma allow_names_ok: "allow_names v = Inr names \<Longrightarrow> btreeset_ok names"
  unfolding allow_names_def
  by (erule fold_result_invariant) (auto simp: btreeset_ok_def [of "[]"] btreeset_ok_insert split: if_splits)

lemma guarded_maps_ok: "keeps builder_maps_ok (guarded_handler key)"
proof -
  have "keeps builder_maps_ok handle_key"
    by (auto simp: keeps_def builder_maps_ok_def handle_key_def ok_simps btree_ok_insert split: if_splits)
  moreover have "keeps builder_maps_ok seccomp_allow_key"
    by (auto simp: keeps_def builder_maps_ok_def ok_simps dest: allow_names_ok)
  moreover have "keeps builder_maps_ok deny_mask_key" "keeps builder_maps_ok range_key" "keeps builder_maps_ok argument_key"
    by (auto simp: keeps_def builder_maps_ok_def deny_mask_key_def range_key_def argument_key_def ok_simps
        rule_maps_ok_update)
  moreover have "keeps builder_maps_ok env_key"
    by (auto simp: keeps_def builder_maps_ok_def env_key_def btree_ok_insert split: if_splits option.splits)
  ultimately show ?thesis by (simp add: guarded_handler_def)
qed

lemma literal_maps_ok: "list_all (\<lambda>(k, h). keeps builder_maps_ok h) literal_keys"
  by (simp add: key_tables keeps_store_once keeps_push_value builder_maps_ok_def)

lemma read_lines_maps_ok: "read_lines input = Inr b \<Longrightarrow> builder_maps_ok b"
  unfolding read_lines_Ok
  by (elim conjE, erule entries_keep [OF keeps_handle_entry [OF literal_maps_ok guarded_maps_ok]])
    (simp add: builder_maps_ok_def empty_builder_def btree_ok_def rule_maps_ok_def)

section \<open>Single-valued keys\<close>

text \<open>The keys that may be set once, with the test that the variable is set.\<close>

definition once_keys :: "(string \<times> (builder \<Rightarrow> bool)) list" where
  "once_keys = [
     (''filesystem.root'', \<lambda>b. b_root_dir b \<noteq> None),
     (''filesystem.cow_root_bytes'', \<lambda>b. b_cow_root_bytes b \<noteq> None),
     (''filesystem.cow_diff_bytes'', \<lambda>b. b_cow_diff_bytes b \<noteq> None),
     (''identity.hostname'', \<lambda>b. b_hostname b \<noteq> None),
     (''landlock.scope_abstract_unix_socket'', \<lambda>b. b_landlock_scope_abstract_unix_socket b \<noteq> None),
     (''landlock.scope_signal'', \<lambda>b. b_landlock_scope_signal b \<noteq> None),
     (''network.loopback'', \<lambda>b. b_loopback_enabled b \<noteq> None),
     (''filesystem.proc'', \<lambda>b. b_procfs_enabled b \<noteq> None),
     (''network.host_loopback_tcp_port'', \<lambda>b. b_host_loopback_tcp_port b \<noteq> None),
     (''network.host_loopback_tcp_target_fd'', \<lambda>b. b_host_loopback_tcp_target_fd b \<noteq> None),
     (''network.host_ipv4_tcp_address'', \<lambda>b. b_host_ipv4_tcp_address b \<noteq> None),
     (''network.host_ipv4_tcp_port'', \<lambda>b. b_host_ipv4_tcp_port b \<noteq> None),
     (''network.host_ipv4_tcp_target_fd'', \<lambda>b. b_host_ipv4_tcp_target_fd b \<noteq> None),
     (''network.host_ipv4_udp_address'', \<lambda>b. b_host_ipv4_udp_address b \<noteq> None),
     (''network.host_ipv4_udp_port'', \<lambda>b. b_host_ipv4_udp_port b \<noteq> None),
     (''network.host_ipv4_udp_target_fd'', \<lambda>b. b_host_ipv4_udp_target_fd b \<noteq> None),
     (''ipc.host_unix_stream_path'', \<lambda>b. b_host_unix_stream_path b \<noteq> None),
     (''ipc.host_unix_stream_target_fd'', \<lambda>b. b_host_unix_stream_target_fd b \<noteq> None),
     (''ipc.host_unix_stream_peer_uid'', \<lambda>b. b_host_unix_stream_peer_uid b \<noteq> None),
     (''ipc.host_unix_stream_peer_gid'', \<lambda>b. b_host_unix_stream_peer_gid b \<noteq> None),
     (''network.host_loopback_tcp_listen_port'', \<lambda>b. b_host_loopback_tcp_listen_port b \<noteq> None),
     (''network.host_loopback_tcp_listen_target_fd'', \<lambda>b. b_host_loopback_tcp_listen_target_fd b \<noteq> None),
     (''filesystem.scratch'', \<lambda>b. b_scratch_dir b \<noteq> None),
     (''filesystem.scratch_bytes'', \<lambda>b. b_scratch_bytes b \<noteq> None),
     (''executable'', \<lambda>b. b_executable b \<noteq> None),
     (''executable.sha256'', \<lambda>b. b_executable_sha256 b \<noteq> None),
     (''executable.interpreter'', \<lambda>b. b_executable_interpreter b \<noteq> None),
     (''executable.interpreter_sha256'', \<lambda>b. b_executable_interpreter_sha256 b \<noteq> None),
     (''working_dir'', \<lambda>b. b_working_dir b \<noteq> None),
     (''stdio.stdin'', \<lambda>b. b_stdin b \<noteq> None),
     (''stdio.stdout'', \<lambda>b. b_stdout b \<noteq> None),
     (''stdio.stderr'', \<lambda>b. b_stderr b \<noteq> None),
     (''stdio.stdout_path'', \<lambda>b. b_stdout_redirect b \<noteq> None),
     (''stdio.stdout_capture_bytes'', \<lambda>b. b_stdout_capture_bytes b \<noteq> None),
     (''limit.stdout_total_bytes'', \<lambda>b. b_stdout_total_bytes b \<noteq> None),
     (''time.monotonic_offset_seconds'', \<lambda>b. b_time_monotonic_offset_seconds b \<noteq> None),
     (''time.boottime_offset_seconds'', \<lambda>b. b_time_boottime_offset_seconds b \<noteq> None),
     (''limit.wall_clock_milliseconds'', \<lambda>b. b_wall_clock_milliseconds b \<noteq> None),
     (''limit.cpu_seconds'', \<lambda>b. b_cpu_seconds b \<noteq> None),
     (''limit.address_space_bytes'', \<lambda>b. b_address_space_bytes b \<noteq> None),
     (''limit.file_size_bytes'', \<lambda>b. b_file_size_bytes b \<noteq> None),
     (''limit.open_files'', \<lambda>b. b_open_files b \<noteq> None),
     (''seccomp.allow'', \<lambda>b. b_seccomp_allow b \<noteq> None)]"

text \<open>No handler clears a variable.\<close>

definition no_less :: "builder \<Rightarrow> builder \<Rightarrow> bool" where
  "no_less b b' \<longleftrightarrow> list_all (\<lambda>(k, f). f b \<longrightarrow> f b') once_keys"

definition grows :: "key_handler \<Rightarrow> bool" where
  "grows h \<longleftrightarrow> (\<forall>l key v b b'. h l key v b = Inr b' \<longrightarrow> no_less b b')"

lemma grows_store_once:
  "(\<And>x b. no_less b (upd (\<lambda>_. Some x) b)) \<Longrightarrow> grows (store_once get upd parse)"
  unfolding grows_def store_once_Ok by blast

lemma grows_push_value: "(\<And>f b. no_less b (upd f b)) \<Longrightarrow> grows (push_value upd parse)"
  unfolding grows_def push_value_Ok by blast

lemma address_grows:
  "grows (store_once b_host_ipv4_tcp_address b_host_ipv4_tcp_address_update parse_ipv4_address)"
  "grows (store_once b_host_ipv4_udp_address b_host_ipv4_udp_address_update parse_ipv4_address)"
  by (rule grows_store_once, simp add: no_less_def once_keys_def del: not_None_eq)+

lemma literal_grows: "list_all (\<lambda>(k, h). grows h) literal_keys"
  by (simp add: key_tables address_grows grows_store_once grows_push_value no_less_def once_keys_def)

lemma no_less_maps:
  "no_less b (b\<lparr>b_selected_handles := h\<rparr>)" "no_less b (b\<lparr>b_environment := e\<rparr>)"
  "no_less b (b\<lparr>b_seccomp_allow := Some names\<rparr>)"
  "no_less b (b_seccomp_argument_rules_update f b)" "no_less b (b_seccomp_argument_range_rules_update g b)"
  "no_less b (b_seccomp_argument_forbidden_mask_rules_update f b)"
  by (simp_all add: no_less_def once_keys_def)

lemma guarded_grows: "grows (guarded_handler key)"
proof -
  have "grows handle_key"
    by (auto simp: grows_def handle_key_def ok_simps no_less_maps split: if_splits)
  moreover have "grows seccomp_allow_key"
    by (auto simp: grows_def ok_simps no_less_maps)
  moreover have "grows deny_mask_key" "grows range_key" "grows argument_key"
    by (auto simp: grows_def deny_mask_key_def range_key_def argument_key_def rule_key_Ok no_less_maps)
  moreover have "grows env_key"
    by (auto simp: grows_def env_key_def no_less_maps split: if_splits option.splits)
  ultimately show ?thesis by (simp add: guarded_handler_def)
qed

lemma grows_handle_entry:
  assumes "handle_entry l key v b = Inr b'"
  shows "no_less b b'"
proof (cases "map_of literal_keys key")
  case (Some h)
  then have "grows h" using literal_grows map_of_SomeD [OF Some] by (auto simp: list_all_iff)
  moreover have "h l key v b = Inr b'" using assms by (simp only: handle_entry_dispatch Some option.case)
  ultimately show ?thesis unfolding grows_def by blast
next
  case None
  have "guarded_handler key l key v b = Inr b'"
    using assms by (simp only: handle_entry_dispatch None option.case)
  then show ?thesis using guarded_grows unfolding grows_def by blast
qed

text \<open>A handled single-valued key was not set before and is set after.\<close>

definition sets_once :: "(builder \<Rightarrow> bool) \<Rightarrow> key_handler \<Rightarrow> bool" where
  "sets_once f h \<longleftrightarrow> (\<forall>l key v b b'. h l key v b = Inr b' \<longrightarrow> \<not> f b \<and> f b')"

lemma sets_once_store:
  "(\<And>x b. f b = (get b \<noteq> None) \<and> f (upd (\<lambda>_. Some x) b)) \<Longrightarrow> sets_once f (store_once get upd parse)"
  unfolding sets_once_def store_once_Ok by blast

lemma sets_once_allow: "sets_once (\<lambda>b. b_seccomp_allow b \<noteq> None) seccomp_allow_key"
  by (auto simp: sets_once_def seccomp_allow_key_Ok)

lemma literal_sets_once:
  "list_all (\<lambda>(k, h). list_all (\<lambda>(k', f). k = k' \<longrightarrow> sets_once f h) once_keys) literal_keys"
  by (simp add: key_tables once_keys_def sets_once_store del: not_None_eq)

lemma once_keys_literal: "list_all (\<lambda>(k, f). k = ''seccomp.allow'' \<or> k \<in> set (map fst literal_keys)) once_keys"
  by (simp add: once_keys_def key_tables)

lemma once_key_step:
  assumes "(key, f) \<in> set once_keys" and "handle_entry l key v b = Inr b'"
  shows "\<not> f b \<and> f b'"
proof (cases "map_of literal_keys key")
  case (Some h)
  have "sets_once f h"
    using literal_sets_once map_of_SomeD [OF Some] assms(1) by (fastforce simp: list_all_iff)
  moreover have "h l key v b = Inr b'" using assms(2) by (simp only: handle_entry_dispatch Some option.case)
  ultimately show ?thesis unfolding sets_once_def by blast
next
  case None
  then have key: "key = ''seccomp.allow''"
    using once_keys_literal assms(1) by (fastforce simp: list_all_iff map_of_eq_None_iff)
  have "f = (\<lambda>b. b_seccomp_allow b \<noteq> None)"
    using assms(1) by (simp add: key once_keys_def)
  moreover have "seccomp_allow_key l key v b = Inr b'"
  proof -
    have "guarded_handler key = seccomp_allow_key" by (simp add: guarded_handler_def key)
    then show ?thesis using assms(2) by (simp only: handle_entry_dispatch None option.case)
  qed
  ultimately show ?thesis using sets_once_allow unfolding sets_once_def by blast
qed

lemma once_key_count:
  assumes "(key, f) \<in> set once_keys" and "fold_result entry_step b es = Inr b'"
  shows "count_list (map fst es) key \<le> (if f b then 0 else 1)"
  using assms(2)
proof (induction es arbitrary: b)
  case (Cons e es)
  obtain b1 where step: "handle_entry 0 (fst e) (snd e) b = Inr b1"
    and rest: "fold_result entry_step b1 es = Inr b'"
    using Cons.prems unfolding fold_result_Cons_Ok by (auto simp: entry_step_def)
  have grow: "f b \<longrightarrow> f b1"
    using grows_handle_entry [OF step] assms(1) by (auto simp: no_less_def list_all_iff)
  have now: "\<not> f b \<and> f b1" if "fst e = key"
    using once_key_step [OF assms(1)] step that by blast
  show ?case using Cons.IH [OF rest] grow now by (auto split: if_splits)
qed simp

section \<open>Repeated keys\<close>

text \<open>The keys that collect text values, with their variables.\<close>

definition list_keys :: "(string \<times> (builder \<Rightarrow> string list)) list" where
  "list_keys = [
     (''volume.readonly_source'', b_readonly_volume_source),
     (''volume.readonly_target'', b_readonly_volume_target),
     (''volume.writable_source'', b_writable_volume_source),
     (''volume.writable_target'', b_writable_volume_target),
     (''volume.cow_source'', b_cow_volume_source),
     (''volume.cow_target'', b_cow_volume_target),
     (''executable.needed'', b_executable_needed),
     (''arg'', b_args),
     (''landlock.read_execute'', b_landlock_read_execute),
     (''landlock.file_mutate'', b_landlock_file_mutate),
     (''landlock.path_topology_mutate'', b_landlock_path_topology_mutate),
     (''landlock.device_ioctl'', b_landlock_device_ioctl)]"

definition collects :: "string \<Rightarrow> key_handler \<Rightarrow> bool" where
  "collects key h \<longleftrightarrow> (\<forall>l v b b'. h l key v b = Inr b' \<longrightarrow>
     list_all (\<lambda>(k, g). g b' = g b @ (if key = k then [v] else [])) list_keys)"

lemma collects_store_once:
  "(\<And>y b. list_all (\<lambda>(k, g). key \<noteq> k \<and> g (upd (\<lambda>_. y) b) = g b) list_keys) \<Longrightarrow>
     collects key (store_once get upd parse)"
  unfolding collects_def store_once_Ok by (fastforce simp: list_all_iff)

lemma collects_push_other:
  "(\<And>f b. list_all (\<lambda>(k, g). key \<noteq> k \<and> g (upd f b) = g b) list_keys) \<Longrightarrow>
     collects key (push_value upd parse)"
  unfolding collects_def push_value_Ok by (fastforce simp: list_all_iff)

lemma collects_push_text:
  "(\<And>f b. list_all (\<lambda>(k, g). g (upd f b) = (if key = k then f (g b) else g b)) list_keys) \<Longrightarrow>
     collects key (push_value upd text_value)"
  unfolding collects_def push_value_Ok text_value_def by (fastforce simp: list_all_iff)

lemma literal_collects: "list_all (\<lambda>(k, h). collects k h) literal_keys"
  by (simp add: key_tables collects_store_once collects_push_other collects_push_text list_keys_def)

lemma list_keys_literal: "fst ` set list_keys \<subseteq> fst ` set literal_keys"
  by (simp add: key_tables list_keys_def)

definition same_lists :: "builder \<Rightarrow> builder \<Rightarrow> bool" where
  "same_lists b b' \<longleftrightarrow> list_all (\<lambda>(k, g). g b' = g b) list_keys"

definition leaves_lists :: "key_handler \<Rightarrow> bool" where
  "leaves_lists h \<longleftrightarrow> (\<forall>l key v b b'. h l key v b = Inr b' \<longrightarrow> same_lists b b')"

lemma same_lists_maps:
  "same_lists b (b\<lparr>b_selected_handles := h\<rparr>)" "same_lists b (b\<lparr>b_environment := e\<rparr>)"
  "same_lists b (b\<lparr>b_seccomp_allow := Some names\<rparr>)"
  "same_lists b (b_seccomp_argument_rules_update f b)" "same_lists b (b_seccomp_argument_range_rules_update g b)"
  "same_lists b (b_seccomp_argument_forbidden_mask_rules_update f b)"
  by (simp_all add: same_lists_def list_keys_def)

lemma guarded_leaves_lists: "leaves_lists (guarded_handler key)"
proof -
  have "leaves_lists handle_key"
    by (auto simp: leaves_lists_def handle_key_def ok_simps same_lists_maps split: if_splits)
  moreover have "leaves_lists seccomp_allow_key"
    by (auto simp: leaves_lists_def ok_simps same_lists_maps)
  moreover have "leaves_lists deny_mask_key" "leaves_lists range_key" "leaves_lists argument_key"
    by (auto simp: leaves_lists_def deny_mask_key_def range_key_def argument_key_def rule_key_Ok same_lists_maps)
  moreover have "leaves_lists env_key"
    by (auto simp: leaves_lists_def env_key_def same_lists_maps split: if_splits option.splits)
  ultimately show ?thesis by (simp add: guarded_handler_def)
qed

lemma guarded_collects:
  assumes "key \<notin> fst ` set list_keys" and "guarded_handler key l key v b = Inr b'"
  shows "list_all (\<lambda>(k, g). g b' = g b @ (if key = k then [v] else [])) list_keys"
proof -
  have same: "list_all (\<lambda>(k, g). g b' = g b) list_keys"
    using assms(2) guarded_leaves_lists unfolding leaves_lists_def same_lists_def by blast
  have "g b' = g b @ (if key = k then [v] else [])" if "(k, g) \<in> set list_keys" for k g
  proof -
    have "key \<noteq> k" using that assms(1) by (metis fst_conv image_eqI)
    moreover have "g b' = g b" using same that by (auto simp: list_all_iff)
    ultimately show ?thesis by simp
  qed
  then show ?thesis by (auto simp: list_all_iff)
qed

lemma handle_entry_collects:
  assumes "(k, g) \<in> set list_keys" and "handle_entry l key v b = Inr b'"
  shows "g b' = g b @ (if key = k then [v] else [])"
proof -
  have "list_all (\<lambda>(k, g). g b' = g b @ (if key = k then [v] else [])) list_keys"
  proof (cases "map_of literal_keys key")
    case (Some h)
    then have "collects key h" using literal_collects map_of_SomeD [OF Some] by (auto simp: list_all_iff)
    moreover have "h l key v b = Inr b'" using assms(2) by (simp only: handle_entry_dispatch Some option.case)
    ultimately show ?thesis unfolding collects_def by blast
  next
    case None
    then have "key \<notin> fst ` set list_keys"
      using list_keys_literal by (auto simp: map_of_eq_None_iff)
    moreover have "guarded_handler key l key v b = Inr b'"
      using assms(2) by (simp only: handle_entry_dispatch None option.case)
    ultimately show ?thesis by (rule guarded_collects)
  qed
  then show ?thesis using assms(1) by (auto simp: list_all_iff)
qed

definition values_of :: "(string \<times> string) list \<Rightarrow> string \<Rightarrow> string list" where
  "values_of es k = map snd (filter (\<lambda>e. fst e = k) es)"

lemma entries_collect:
  assumes "(k, g) \<in> set list_keys" and "fold_result entry_step b es = Inr b'"
  shows "g b' = g b @ values_of es k"
  using assms(2)
proof (induction es arbitrary: b)
  case (Cons e es)
  obtain b1 where step: "handle_entry 0 (fst e) (snd e) b = Inr b1"
    and rest: "fold_result entry_step b1 es = Inr b'"
    using Cons.prems unfolding fold_result_Cons_Ok by (auto simp: entry_step_def)
  show ?case
    using Cons.IH [OF rest] handle_entry_collects [OF assms(1) step] by (simp add: values_of_def)
qed (simp add: values_of_def)

lemma read_lines_collect:
  assumes "read_lines input = Inr b" and "(k, g) \<in> set list_keys"
  shows "g b = values_of (entries input) k"
proof -
  have "list_all (\<lambda>(k, g). g empty_builder = []) list_keys"
    by (simp add: list_keys_def empty_builder_def)
  then show ?thesis
    using assms entries_collect [OF assms(2)] unfolding read_lines_Ok by (fastforce simp: list_all_iff)
qed

end
