(* ===== verification/Parse_Example.thy ===== *)
theory Parse_Example
  imports Parse_Invariants Delta_Report
begin

text \<open>
  Rendering of entries as a policy text, and one rendered text with the policy it parses to.
\<close>

section \<open>Rendering entries\<close>

text \<open>A printable character that no white space of Unicode begins or ends with.\<close>

definition plain :: "char \<Rightarrow> bool" where
  "plain c \<longleftrightarrow> 32 < (of_char c :: nat) \<and> (of_char c :: nat) < 128"

definition plain_ends :: "string \<Rightarrow> bool" where
  "plain_ends s \<longleftrightarrow> s \<noteq> [] \<and> plain (hd s) \<and> plain (last s)"

lemma white_space_not_plain:
  "w \<in> set white_space \<Longrightarrow> w \<noteq> [] \<and> \<not> plain (hd w) \<and> \<not> plain (last w)"
  by (auto simp: white_space_def plain_def)

lemma trim_left_plain:
  assumes "s \<noteq> []" and "plain (hd s)" and "\<And>w. w \<in> set ws \<Longrightarrow> w \<noteq> [] \<and> \<not> plain (hd w)"
  shows "trim_left ws s = s"
proof -
  have "find (\<lambda>w. w \<noteq> [] \<and> prefix w s) ws = None"
    using assms by (fastforce simp: find_None_iff prefix_def)
  then show ?thesis by (subst trim_left.simps) simp
qed

lemma trim_plain: "plain_ends s \<Longrightarrow> trim s = s"
proof -
  assume s: "plain_ends s"
  have "trim_start s = s"
    unfolding trim_start_def using s white_space_not_plain by (intro trim_left_plain) (auto simp: plain_ends_def)
  moreover have "trim_left (map rev white_space) (rev s) = rev s"
    using s white_space_not_plain by (intro trim_left_plain) (auto simp: plain_ends_def hd_rev)
  ultimately show ?thesis by (simp add: trim_def trim_end_def)
qed

lemma find_space: "find (\<lambda>w. w \<noteq> [] \<and> prefix w (CHR 0x20 # s)) white_space = Some [CHR 0x20]"
  "find (\<lambda>w. w \<noteq> [] \<and> prefix w (CHR 0x20 # s)) (map rev white_space) = Some [CHR 0x20]"
  by (simp_all add: white_space_def)

lemma trim_left_space:
  "trim_left white_space (CHR 0x20 # s) = trim_left white_space s"
  "trim_left (map rev white_space) (CHR 0x20 # s) = trim_left (map rev white_space) s"
  by (subst trim_left.simps, simp add: find_space)+

lemma trim_spaced:
  assumes "plain_ends s"
  shows "trim (CHR 0x20 # s) = s" and "trim (s @ [CHR 0x20]) = s"
proof -
  have "trim_start (CHR 0x20 # s) = trim_start s" by (simp add: trim_start_def trim_left_space)
  then show "trim (CHR 0x20 # s) = s" using trim_plain [OF assms] by (simp add: trim_def)
  have "trim_start (s @ [CHR 0x20]) = s @ [CHR 0x20]"
    unfolding trim_start_def using assms white_space_not_plain
    by (intro trim_left_plain) (auto simp: plain_ends_def)
  moreover have "trim_end (s @ [CHR 0x20]) = trim_end s" by (simp add: trim_end_def trim_left_space)
  moreover have "trim_end s = s"
    using trim_plain [OF assms] assms white_space_not_plain trim_left_plain [of s white_space]
    by (simp add: trim_def trim_start_def plain_ends_def)
  ultimately show "trim (s @ [CHR 0x20]) = s" by (simp add: trim_def)
qed

definition render_entry :: "string \<times> string \<Rightarrow> string" where
  "render_entry e = fst e @ '' = '' @ snd e"

definition render :: "(string \<times> string) list \<Rightarrow> string" where
  "render es = concat (map (\<lambda>e. render_entry e @ [newline]) es)"

definition renderable :: "string \<times> string \<Rightarrow> bool" where
  "renderable e \<longleftrightarrow>
     plain_ends (fst e) \<and> plain_ends (snd e) \<and> hd (fst e) \<noteq> CHR ''#'' \<and>
     CHR ''='' \<notin> set (fst e) \<and> newline \<notin> set (fst e) \<and> newline \<notin> set (snd e)"

lemma lines_from_line:
  assumes "newline \<notin> set l"
  shows "lines_from acc (l @ newline # rest) = strip_cr (rev acc @ l) # lines_from [] rest"
  using assms by (induction l arbitrary: acc) auto

lemma str_lines_render:
  assumes "\<And>l. l \<in> set ls \<Longrightarrow> newline \<notin> set l \<and> l \<noteq> [] \<and> last l \<noteq> carriage_return"
  shows "str_lines (concat (map (\<lambda>l. l @ [newline]) ls)) = ls"
  using assms
proof (induction ls)
  case Nil
  then show ?case by (simp add: str_lines_def)
next
  case (Cons l ls)
  then show ?case
    using lines_from_line [of l "[]"] by (simp add: str_lines_def strip_cr_def)
qed

lemma line_entry_render:
  assumes "renderable e"
  shows "line_entry (render_entry e) = [e]" and "meaningful (render_entry e)"
    and "CHR ''='' \<in> set (trim (render_entry e))"
proof -
  obtain k v where e: "e = (k, v)" by (cases e)
  have k: "plain_ends k" and v: "plain_ends v" and hash: "hd k \<noteq> CHR ''#''" and eq: "CHR ''='' \<notin> set k"
    using assms by (simp_all add: renderable_def e)
  have ends: "plain_ends (render_entry e)"
    using k v by (cases v rule: rev_cases) (auto simp: render_entry_def e plain_ends_def hd_append last_append)
  have trimmed: "trim (render_entry e) = (k @ [CHR 0x20]) @ CHR ''='' # CHR 0x20 # v"
    using trim_plain [OF ends] by (simp add: render_entry_def e)
  show meaningful: "meaningful (render_entry e)"
    using k hash by (cases k) (auto simp: meaningful_def trimmed plain_ends_def)
  show "CHR ''='' \<in> set (trim (render_entry e))" by (simp add: trimmed)
  have "split_once CHR ''='' (trim (render_entry e)) = Some (k @ [CHR 0x20], CHR 0x20 # v)"
    using eq by (simp only: trimmed split_once_Some) simp
  then show "line_entry (render_entry e) = [e]"
    using meaningful by (simp add: line_entry_def e trim_spaced [OF k] trim_spaced [OF v])
qed

lemma entries_render:
  assumes "list_all renderable es"
  shows "entries (render es) = es" and "lines_well_formed (render es)"
proof -
  have "newline \<notin> set (render_entry e) \<and> render_entry e \<noteq> [] \<and> last (render_entry e) \<noteq> carriage_return"
    if "e \<in> set es" for e
    using assms that by (auto simp: list_all_iff renderable_def render_entry_def plain_ends_def plain_def)
  then have "str_lines (concat (map (\<lambda>l. l @ [newline]) (map render_entry es))) = map render_entry es"
    by (intro str_lines_render) auto
  then have lines: "str_lines (render es) = map render_entry es"
    by (simp add: render_def comp_def)
  have "concat (map line_entry (map render_entry es)) = es"
    using assms by (induction es) (auto simp: line_entry_render)
  then show "entries (render es) = es" by (simp add: entries_def lines)
  show "lines_well_formed (render es)"
    using assms by (auto simp: lines_well_formed_def lines list_all_iff line_entry_render)
qed

section \<open>A policy text\<close>

definition minimal_entries :: "(string \<times> string) list" where
  "minimal_entries = [
     (''filesystem.root'', ''/srv/root''),
     (''identity.hostname'', ''lab''),
     (''executable'', ''/bin/tool''),
     (''working_dir'', ''/''),
     (''arg'', ''-v''),
     (''arg'', ''--all''),
     (''volume.readonly_source'', ''/srv/data''),
     (''volume.readonly_target'', ''/data''),
     (''stdio.stdin'', ''closed''),
     (''stdio.stdout'', ''inherit''),
     (''stdio.stderr'', ''inherit''),
     (''limit.cpu_seconds'', ''1''),
     (''limit.address_space_bytes'', ''4096''),
     (''limit.file_size_bytes'', ''1''),
     (''limit.open_files'', ''16''),
     (''handle.3'', ''7''),
     (''env.LANG'', ''C''),
     (''seccomp.allow'', ''read,exit_group''),
     (''seccomp.arg.read.0'', ''0xff:0x1'')]"

definition minimal_text :: string where
  "minimal_text = render minimal_entries"

lemma minimal_renderable: "list_all renderable minimal_entries"
  by (simp add: minimal_entries_def renderable_def plain_ends_def plain_def)

definition minimal_builder :: builder where
  "minimal_builder = empty_builder\<lparr>
     b_root_dir := Some ''/srv/root'', b_hostname := Some ''lab'', b_executable := Some ''/bin/tool'',
     b_working_dir := Some ''/'', b_args := [''-v'', ''--all''],
     b_readonly_volume_source := [''/srv/data''], b_readonly_volume_target := [''/data''],
     b_stdin := Some Closed, b_stdout := Some Inherit, b_stderr := Some Inherit,
     b_cpu_seconds := Some 1, b_address_space_bytes := Some 4096, b_file_size_bytes := Some 1,
     b_open_files := Some 16, b_selected_handles := [(3, 7)], b_environment := [(''LANG'', ''C'')],
     b_seccomp_allow := Some [''exit_group'', ''read''],
     b_seccomp_argument_rules := [(''read'', [(0, \<lparr>rule_mask = 0xFF, rule_value = 1\<rparr>)])]\<rparr>"

lemma minimal_lookups:
  "map_of literal_keys ''filesystem.root'' = Some (store_once b_root_dir b_root_dir_update text_value)"
  "map_of literal_keys ''identity.hostname'' = Some (store_once b_hostname b_hostname_update text_value)"
  "map_of literal_keys ''executable'' = Some (store_once b_executable b_executable_update text_value)"
  "map_of literal_keys ''working_dir'' = Some (store_once b_working_dir b_working_dir_update text_value)"
  "map_of literal_keys ''arg'' = Some (push_value b_args_update text_value)"
  "map_of literal_keys ''volume.readonly_source'' = Some (push_value b_readonly_volume_source_update text_value)"
  "map_of literal_keys ''volume.readonly_target'' = Some (push_value b_readonly_volume_target_update text_value)"
  "map_of literal_keys ''stdio.stdin'' = Some (store_once b_stdin b_stdin_update parse_stdio_mode)"
  "map_of literal_keys ''stdio.stdout'' = Some (store_once b_stdout b_stdout_update parse_stdio_mode)"
  "map_of literal_keys ''stdio.stderr'' = Some (store_once b_stderr b_stderr_update parse_stdio_mode)"
  "map_of literal_keys ''limit.cpu_seconds'' = Some (store_once b_cpu_seconds b_cpu_seconds_update parse_u64)"
  "map_of literal_keys ''limit.address_space_bytes'' = Some (store_once b_address_space_bytes b_address_space_bytes_update parse_u64)"
  "map_of literal_keys ''limit.file_size_bytes'' = Some (store_once b_file_size_bytes b_file_size_bytes_update parse_u64)"
  "map_of literal_keys ''limit.open_files'' = Some (store_once b_open_files b_open_files_update parse_u64)"
  "map_of literal_keys ''handle.3'' = None"
  "map_of literal_keys ''env.LANG'' = None"
  "map_of literal_keys ''seccomp.allow'' = None"
  "map_of literal_keys ''seccomp.arg.read.0'' = None"
  by (simp_all add: key_tables)

lemmas parse_eval = text_value_def parse_u64_def parse_stdio_mode_def u64_from_str_def u32_from_str_def
  u8_from_str_def parse_unsigned_def to_digit_def is_ascii_digit_def char_between_def

lemma minimal_read: "fold_result entry_step empty_builder minimal_entries = Inr minimal_builder"
proof -
  have handlers: "guarded_handler ''handle.3'' = handle_key" "guarded_handler ''env.LANG'' = env_key"
    "guarded_handler ''seccomp.allow'' = seccomp_allow_key"
    "guarded_handler ''seccomp.arg.read.0'' = argument_key"
    by (simp_all add: guarded_handler_def)
  have trims: "trim ''read'' = ''read''" "trim ''exit_group'' = ''exit_group''" "trim ''0xff'' = ''0xff''"
    "trim ''0x1'' = ''0x1''"
    by (simp_all add: trim_plain plain_ends_def plain_def)
  have handle: "handle_key 0 ''handle.3'' ''7'' b = Inr (b\<lparr>b_selected_handles := [(3, 7)]\<rparr>)"
    if "b_selected_handles b = []" for b
    by (simp add: that handle_key_def parse_eval and_then_def ok_or_def btree_get_def)
  have allow: "seccomp_allow_key 0 ''seccomp.allow'' ''read,exit_group'' b =
      Inr (b\<lparr>b_seccomp_allow := Some [''exit_group'', ''read'']\<rparr>)" if "b_seccomp_allow b = None" for b
    by (simp add: that seccomp_allow_key_def and_then_def trims)
  have env: "env_key 0 ''env.LANG'' ''C'' b = Inr (b\<lparr>b_environment := [(''LANG'', ''C'')]\<rparr>)"
    if "b_environment b = []" for b
    by (simp add: that env_key_def strip_prefix_def valid_env_key_def parse_eval byte_class_defs btree_get_def)
  have arg: "argument_key 0 ''seccomp.arg.read.0'' ''0xff:0x1'' b =
      Inr (b\<lparr>b_seccomp_argument_rules := [(''read'', [(0, \<lparr>rule_mask = 0xFF, rule_value = 1\<rparr>)])]\<rparr>)"
    if "b_seccomp_argument_rules b = []" for b
    by (simp add: that argument_key_def rule_key_def and_then_def ok_or_def rsplit_once_def
        valid_syscall_name_def byte_class_defs parse_eval parse_seccomp_arg_rule_def trims
        parse_u64_literal_def strip_prefix_def u64_from_str_radix_def btree_get_def)
  show ?thesis
    by (simp add: minimal_entries_def entry_step_def handle_entry_dispatch minimal_lookups handlers
        handle allow env arg store_once_def push_value_def set_once_def and_then_def ok_or_def
        parse_eval empty_builder_def minimal_builder_def)
qed

definition minimal_seccomp :: seccomp_policy where
  "minimal_seccomp = \<lparr>
     allowed_syscalls = [''exit_group'', ''read''],
     argument_rules = [(''read'', [(0, \<lparr>rule_mask = 0xFF, rule_value = 1\<rparr>)])],
     argument_range_rules = [], argument_forbidden_mask_rules = []\<rparr>"

definition minimal_policy :: sandbox_policy where
  "minimal_policy = \<lparr>
     root_dir = ''/srv/root'',
     cow_root_bytes = None,
     cow_diff_bytes = None,
     hostname = ''lab'',
     executable = ''/bin/tool'',
     executable_sha256 = None,
     executable_interpreter = None,
     executable_interpreter_sha256 = None,
     executable_needed = None,
     executable_needed_sha256 = None,
     executable_needed_bindings = [],
     args = [''-v'', ''--all''],
     environment = [(''LANG'', ''C'')],
     working_dir = ''/'',
     landlock_read_execute = [],
     landlock_file_mutate = [],
     landlock_path_topology_mutate = [],
     landlock_device_ioctl = [],
     landlock_tcp_bind_ports = [],
     landlock_tcp_connect_ports = [],
     landlock_scope_abstract_unix_socket = False,
     landlock_scope_signal = False,
     loopback_enabled = False,
     procfs_enabled = False,
     host_loopback_tcp_port = None,
     host_loopback_tcp_target_fd = None,
     host_ipv4_tcp_address = None,
     host_ipv4_tcp_port = None,
     host_ipv4_tcp_target_fd = None,
     host_ipv4_udp_address = None,
     host_ipv4_udp_port = None,
     host_ipv4_udp_target_fd = None,
     host_unix_stream_path = None,
     host_unix_stream_target_fd = None,
     host_unix_stream_peer_uid = None,
     host_unix_stream_peer_gid = None,
     host_loopback_tcp_listen_port = None,
     host_loopback_tcp_listen_target_fd = None,
     readonly_volume_source = Some ''/srv/data'',
     readonly_volume_target = Some ''/data'',
     readonly_volume_bindings = [],
     writable_volume_source = None,
     writable_volume_target = None,
     writable_volume_bindings = [],
     copy_on_write_volume_bindings = [],
     scratch_dir = None,
     scratch_bytes = None,
     stdio = \<lparr>stdin = Closed, stdout = Inherit, stderr = Inherit\<rparr>,
     selected_handles = [(3, 7)],
     stdout_redirect = None,
     stdout_capture_bytes = None,
     stdout_total_bytes = None,
     time_monotonic_offset_seconds = None,
     time_boottime_offset_seconds = None,
     wall_clock_milliseconds = None,
     limits = \<lparr>cpu_seconds = 1, address_space_bytes = 4096, file_size_bytes = 1, open_files = 16\<rparr>,
     seccomp = minimal_seccomp\<rparr>"

lemma minimal_policy_fields:
  "root_dir minimal_policy = ''/srv/root''"
  "cow_root_bytes minimal_policy = None"
  "cow_diff_bytes minimal_policy = None"
  "hostname minimal_policy = ''lab''"
  "executable minimal_policy = ''/bin/tool''"
  "executable_sha256 minimal_policy = None"
  "executable_interpreter minimal_policy = None"
  "executable_interpreter_sha256 minimal_policy = None"
  "executable_needed minimal_policy = None"
  "executable_needed_sha256 minimal_policy = None"
  "executable_needed_bindings minimal_policy = []"
  "args minimal_policy = [''-v'', ''--all'']"
  "environment minimal_policy = [(''LANG'', ''C'')]"
  "working_dir minimal_policy = ''/''"
  "landlock_read_execute minimal_policy = []"
  "landlock_file_mutate minimal_policy = []"
  "landlock_path_topology_mutate minimal_policy = []"
  "landlock_device_ioctl minimal_policy = []"
  "landlock_tcp_bind_ports minimal_policy = []"
  "landlock_tcp_connect_ports minimal_policy = []"
  "landlock_scope_abstract_unix_socket minimal_policy = False"
  "landlock_scope_signal minimal_policy = False"
  "loopback_enabled minimal_policy = False"
  "procfs_enabled minimal_policy = False"
  "host_loopback_tcp_port minimal_policy = None"
  "host_loopback_tcp_target_fd minimal_policy = None"
  "host_ipv4_tcp_address minimal_policy = None"
  "host_ipv4_tcp_port minimal_policy = None"
  "host_ipv4_tcp_target_fd minimal_policy = None"
  "host_ipv4_udp_address minimal_policy = None"
  "host_ipv4_udp_port minimal_policy = None"
  "host_ipv4_udp_target_fd minimal_policy = None"
  "host_unix_stream_path minimal_policy = None"
  "host_unix_stream_target_fd minimal_policy = None"
  "host_unix_stream_peer_uid minimal_policy = None"
  "host_unix_stream_peer_gid minimal_policy = None"
  "host_loopback_tcp_listen_port minimal_policy = None"
  "host_loopback_tcp_listen_target_fd minimal_policy = None"
  "readonly_volume_source minimal_policy = Some ''/srv/data''"
  "readonly_volume_target minimal_policy = Some ''/data''"
  "readonly_volume_bindings minimal_policy = []"
  "writable_volume_source minimal_policy = None"
  "writable_volume_target minimal_policy = None"
  "writable_volume_bindings minimal_policy = []"
  "copy_on_write_volume_bindings minimal_policy = []"
  "scratch_dir minimal_policy = None"
  "scratch_bytes minimal_policy = None"
  "stdio minimal_policy = \<lparr>stdin = Closed, stdout = Inherit, stderr = Inherit\<rparr>"
  "selected_handles minimal_policy = [(3, 7)]"
  "stdout_redirect minimal_policy = None"
  "stdout_capture_bytes minimal_policy = None"
  "stdout_total_bytes minimal_policy = None"
  "time_monotonic_offset_seconds minimal_policy = None"
  "time_boottime_offset_seconds minimal_policy = None"
  "wall_clock_milliseconds minimal_policy = None"
  "limits minimal_policy = \<lparr>cpu_seconds = 1, address_space_bytes = 4096, file_size_bytes = 1, open_files = 16\<rparr>"
  "seccomp minimal_policy = minimal_seccomp"
  by (simp_all add: minimal_policy_def)

lemma minimal_policy_normalized:
  "normalized_readonly_volume_bindings minimal_policy =
     [\<lparr>volume_source = ''/srv/data'', volume_target = ''/data''\<rparr>]"
  "normalized_writable_volume_bindings minimal_policy = []"
  "normalized_executable_needed_bindings minimal_policy = []"
  by (simp_all add: normalized_readonly_volume_bindings_def normalized_writable_volume_bindings_def
      normalized_executable_needed_bindings_def minimal_policy_fields)

lemma minimal_policy_root: "components ''/srv/root'' = [RootDir, Normal ''srv'', Normal ''root'']"
  by (simp add: components_def is_absolute_def segment_components_def)

lemmas minimal_policy_eval = minimal_policy_fields minimal_policy_normalized minimal_policy_root
  minimal_seccomp_def example_policy_eval

lemma minimal_identity: "validate_identity minimal_policy = Inr ()"
  by (simp add: validate_identity_def minimal_policy_eval byte_class_defs)

lemma minimal_volume_shape: "validate_volume_shape minimal_policy = Inr ()"
  by (simp add: validate_volume_shape_def minimal_policy_eval byte_class_defs)

lemma minimal_interpreter: "validate_interpreter minimal_policy = Inr ()"
  by (simp add: validate_interpreter_def minimal_policy_eval byte_class_defs)

lemma minimal_needed: "validate_needed minimal_policy = Inr ()"
  by (simp add: validate_needed_def minimal_policy_eval byte_class_defs)

lemma minimal_cow_root: "validate_cow_root minimal_policy = Inr ()"
  by (simp add: validate_cow_root_def minimal_policy_eval byte_class_defs)

lemma minimal_procfs: "validate_procfs minimal_policy = Inr ()"
  by (simp add: validate_procfs_def minimal_policy_eval byte_class_defs)

lemma minimal_landlock_read_execute: "validate_landlock_read_execute minimal_policy = Inr ()"
  by (simp add: validate_landlock_read_execute_def minimal_policy_eval byte_class_defs)

lemma minimal_landlock_file_mutate: "validate_landlock_file_mutate minimal_policy = Inr ()"
  by (simp add: validate_landlock_file_mutate_def minimal_policy_eval byte_class_defs)

lemma minimal_landlock_path_topology_mutate: "validate_landlock_path_topology_mutate minimal_policy = Inr ()"
  by (simp add: validate_landlock_path_topology_mutate_def minimal_policy_eval byte_class_defs)

lemma minimal_landlock_device_ioctl: "validate_landlock_device_ioctl minimal_policy = Inr ()"
  by (simp add: validate_landlock_device_ioctl_def minimal_policy_eval byte_class_defs)

lemma minimal_landlock_ports: "validate_landlock_ports minimal_policy = Inr ()"
  by (simp add: validate_landlock_ports_def minimal_policy_eval byte_class_defs)

lemma minimal_host_loopback_tcp: "validate_host_loopback_tcp minimal_policy = Inr ()"
  by (simp add: validate_host_loopback_tcp_def minimal_policy_eval byte_class_defs)

lemma minimal_host_ipv4_tcp: "validate_host_ipv4_tcp minimal_policy = Inr ()"
  by (simp add: validate_host_ipv4_tcp_def minimal_policy_eval byte_class_defs)

lemma minimal_host_ipv4_udp: "validate_host_ipv4_udp minimal_policy = Inr ()"
  by (simp add: validate_host_ipv4_udp_def minimal_policy_eval byte_class_defs)

lemma minimal_host_unix_stream: "validate_host_unix_stream minimal_policy = Inr ()"
  by (simp add: validate_host_unix_stream_def minimal_policy_eval byte_class_defs)

lemma minimal_host_unix_peer: "validate_host_unix_peer minimal_policy = Inr ()"
  by (simp add: validate_host_unix_peer_def minimal_policy_eval byte_class_defs)

lemma minimal_host_loopback_listener: "validate_host_loopback_listener minimal_policy = Inr ()"
  by (simp add: validate_host_loopback_listener_def minimal_policy_eval byte_class_defs)

lemma minimal_volumes: "validate_volumes minimal_policy = Inr ()"
  by (simp add: validate_volumes_def minimal_policy_eval byte_class_defs)

lemma minimal_scratch: "validate_scratch minimal_policy = Inr ()"
  by (simp add: validate_scratch_def minimal_policy_eval byte_class_defs)

lemma minimal_stdio: "validate_stdio minimal_policy = Inr ()"
  by (simp add: validate_stdio_def minimal_policy_eval byte_class_defs)

lemma minimal_clocks: "validate_clocks minimal_policy = Inr ()"
  by (simp add: validate_clocks_def minimal_policy_eval byte_class_defs)

lemma minimal_invocation: "validate_invocation minimal_policy = Inr ()"
  by (simp add: validate_invocation_def minimal_policy_eval byte_class_defs)

lemma minimal_limits: "validate_limits minimal_policy = Inr ()"
  by (simp add: validate_limits_def minimal_policy_eval byte_class_defs)

lemma minimal_selected_handles: "validate_selected_handles minimal_policy = Inr ()"
  by (simp add: validate_selected_handles_def minimal_policy_eval byte_class_defs)

lemma minimal_seccomp: "validate_seccomp minimal_policy = Inr ()"
  by (simp add: validate_seccomp_def minimal_policy_eval byte_class_defs)

lemma minimal_policy_valid: "validate minimal_policy = Inr ()"
  by (simp only: validate_def checks_Cons_Ok checks.simps(1) simp_thms
      minimal_identity minimal_volume_shape minimal_interpreter minimal_needed minimal_cow_root minimal_procfs minimal_landlock_read_execute minimal_landlock_file_mutate minimal_landlock_path_topology_mutate minimal_landlock_device_ioctl minimal_landlock_ports minimal_host_loopback_tcp minimal_host_ipv4_tcp minimal_host_ipv4_udp minimal_host_unix_stream minimal_host_unix_peer minimal_host_loopback_listener minimal_volumes minimal_scratch minimal_stdio minimal_clocks minimal_invocation minimal_limits minimal_selected_handles minimal_seccomp)

lemma minimal_built: "build_policy minimal_builder = Inr minimal_policy"
  by (simp add: build_policy_def minimal_builder_def empty_builder_def minimal_policy_def minimal_seccomp_def
      legacy_needed_def parsed_needed_bindings_def legacy_volume_def parsed_volumes_def parsed_cow_volumes_def
      required_def ok_or_def and_then_def unwrap_or_false_def)

lemma minimal_parsed: "from_str minimal_text = Inr minimal_policy"
proof -
  have "read_lines minimal_text = Inr minimal_builder"
    unfolding read_lines_Ok minimal_text_def
    using entries_render [OF minimal_renderable] minimal_read by simp
  moreover have "check_needed minimal_builder = Inr ()" "check_volumes minimal_builder = Inr ()"
    by (simp_all add: check_needed_def check_volumes_def ok_simps minimal_builder_def empty_builder_def
        checked_add_usize_def policy_bounds)
  ultimately show ?thesis
    by (simp add: from_str_def and_then_def minimal_built minimal_policy_valid)
qed

end
