(* ===== verification/Parse_Properties.thy ===== *)
theory Parse_Properties
  imports Parse_Example
begin

unbundle bit_operations_syntax

text \<open>The properties of the policy parser.\<close>

section \<open>What a parsed policy guarantees\<close>

lemma from_str_OkE:
  assumes "from_str input = Inr p"
  obtains b where "read_lines input = Inr b" "check_needed b = Inr ()" "check_volumes b = Inr ()"
    "build_policy b = Inr p" "validate p = Inr ()"
  using assms by (auto simp: from_str_def ok_simps)

lemma build_policy_fields:
  assumes "build_policy b = Inr p"
  shows "environment p = b_environment b" "selected_handles p = b_selected_handles b"
    "b_seccomp_allow b = Some (allowed_syscalls (seccomp p))"
    "argument_rules (seccomp p) = b_seccomp_argument_rules b"
    "argument_range_rules (seccomp p) = b_seccomp_argument_range_rules b"
    "argument_forbidden_mask_rules (seccomp p) = b_seccomp_argument_forbidden_mask_rules b"
    "args p = b_args b" "landlock_read_execute p = b_landlock_read_execute b"
    "landlock_file_mutate p = b_landlock_file_mutate b"
    "landlock_path_topology_mutate p = b_landlock_path_topology_mutate b"
    "landlock_device_ioctl p = b_landlock_device_ioctl b"
    "copy_on_write_volume_bindings p = parsed_cow_volumes b"
  using assms by (auto simp: build_policy_def ok_simps required_def split: prod.splits)




text \<open>
  C25: Every policy that the parser returns is accepted: it satisfies \<open>validate\<close>, and all its
  maps and sets are ordered by their keys, so every guarantee of an accepted policy holds for
  what was read from a file.
\<close>

theorem from_str_accepted:
  assumes "from_str input = Inr p"
  shows "accepted p"
proof -
  obtain b where b: "read_lines input = Inr b" "build_policy b = Inr p" "validate p = Inr ()"
    using assms by (rule from_str_OkE)
  have "builder_maps_ok b" using b(1) by (rule read_lines_maps_ok)
  then have "policy_maps_ok p"
    using build_policy_fields [OF b(2)]
    by (simp add: builder_maps_ok_def policy_maps_ok_def seccomp_maps_ok_def)
  then show ?thesis using b(3) by (simp add: accepted_def)
qed

theorem from_str_accepted_witness:
  "from_str minimal_text = Inr minimal_policy \<and> accepted minimal_policy"
  using from_str_accepted [OF minimal_parsed] minimal_parsed by simp

section \<open>Strictness\<close>

definition known_key :: "string \<Rightarrow> bool" where
  "known_key key \<longleftrightarrow>
     key \<in> fst ` set literal_keys \<or> prefix ''handle.'' key \<or> key = ''seccomp.allow'' \<or>
     prefix ''seccomp.deny_mask.'' key \<or> prefix ''seccomp.range.'' key \<or>
     prefix ''seccomp.arg.'' key \<or> prefix ''env.'' key"

lemma handle_entry_known:
  assumes "handle_entry l key v b = Inr b'"
  shows "known_key key"
proof (cases "map_of literal_keys key")
  case (Some h)
  then show ?thesis by (auto simp: known_key_def dest: map_of_SomeD intro: rev_image_eqI)
next
  case None
  have "guarded_handler key l key v b = Inr b'"
    using assms by (simp only: handle_entry_dispatch None option.case)
  then show ?thesis
    unfolding guarded_handler_def known_key_def env_key_def strip_prefix_def
    by (auto split: if_splits)
qed

lemma entries_known:
  assumes "fold_result entry_step b es = Inr b'"
  shows "\<forall>e\<in>set es. known_key (fst e)"
  using assms
proof (induction es arbitrary: b)
  case (Cons e es)
  obtain b1 where "handle_entry 0 (fst e) (snd e) b = Inr b1" "fold_result entry_step b1 es = Inr b'"
    using Cons.prems unfolding fold_result_Cons_Ok by (auto simp: entry_step_def)
  then show ?case using Cons.IH handle_entry_known by auto
qed simp

text \<open>
  C26: The parser is strict. When a text parses, every line that is neither blank nor a comment
  is an assignment to a known key, and each of the single-valued keys, among them every limit,
  identity, broker endpoint and the syscall allowlist, is assigned at most once: no later line
  silently overrides an earlier one.
\<close>

theorem from_str_strict:
  assumes "from_str input = Inr p"
  shows "lines_well_formed input \<and> (\<forall>e\<in>set (entries input). known_key (fst e)) \<and>
    (\<forall>key\<in>fst ` set once_keys. count_list (map fst (entries input)) key \<le> 1)"
proof -
  obtain b where "read_lines input = Inr b" using assms by (rule from_str_OkE)
  then have wf: "lines_well_formed input"
    and run: "fold_result entry_step empty_builder (entries input) = Inr b"
    unfolding read_lines_Ok by blast+
  have "count_list (map fst (entries input)) key \<le> 1" if "(key, f) \<in> set once_keys" for key f
    using once_key_count [OF that run] by (auto split: if_splits)
  then show ?thesis using wf entries_known [OF run] by auto
qed

theorem from_str_strict_witness:
  "from_str minimal_text = Inr minimal_policy \<and>
   count_list (map fst (entries minimal_text)) ''limit.open_files'' \<le> 1"
proof -
  have "''limit.open_files'' \<in> fst ` set once_keys" by (simp add: once_keys_def)
  then show ?thesis using from_str_strict [OF minimal_parsed] minimal_parsed by blast
qed

section \<open>What is kept of the text\<close>



text \<open>
  Layout does not matter: two texts with the same sequence of assignments parse to the same
  policy, whatever their blank lines, comments, indentation and spacing.
\<close>

theorem from_str_layout:
  assumes "from_str input = Inr p" and "entries other = entries input" and "lines_well_formed other"
  shows "from_str other = Inr p"
proof -
  obtain b where "read_lines input = Inr b" using assms(1) by (rule from_str_OkE)
  then have "read_lines other = read_lines input"
    using assms(2,3) by (metis read_lines_Ok)
  then show ?thesis using assms(1) by (simp add: from_str_def)
qed

definition commented_text :: string where
  "commented_text = ''# policy'' @ [newline, newline] @ minimal_text"

theorem from_str_layout_witness: "from_str commented_text = Inr minimal_policy"
proof -
  have lines: "str_lines commented_text = ''# policy'' # [] # str_lines minimal_text"
    by (simp add: commented_text_def str_lines_def strip_cr_def)
  have "trim ''# policy'' = ''# policy''"
    by (rule trim_plain) (simp add: plain_ends_def plain_def)
  moreover have "trim [] = []"
  proof -
    have "trim_left ws [] = []" for ws
      by (subst trim_left.simps) (simp add: find_None_iff [THEN iffD2])
    then show ?thesis by (simp add: trim_def trim_start_def trim_end_def)
  qed
  ultimately have blank: "\<not> meaningful ''# policy''" "\<not> meaningful []"
    by (simp_all add: meaningful_def)
  have "entries commented_text = entries minimal_text"
    by (simp add: entries_def lines line_entry_def blank)
  moreover have "lines_well_formed commented_text"
    using entries_render(2) [OF minimal_renderable]
    by (simp add: lines_well_formed_def lines blank minimal_text_def)
  ultimately show ?thesis using from_str_layout [OF minimal_parsed] by blast
qed

text \<open>
  Rendering and reading are inverse on entries: a text rendered as one \<open>key = value\<close> line
  per entry is read as exactly the sequence of its entries.
\<close>

theorem read_rendered_entries:
  assumes "list_all renderable es"
  shows "read_lines (render es) = Inr b \<longleftrightarrow>
    fold_result (\<lambda>b e. handle_entry 0 (fst e) (snd e) b) empty_builder es = Inr b"
  using entries_render [OF assms] by (simp add: read_lines_Ok entry_step_def [abs_def])

theorem read_rendered_entries_witness: "read_lines (render minimal_entries) = Inr minimal_builder"
  using read_rendered_entries [OF minimal_renderable] minimal_read
  by (simp add: entry_step_def [abs_def])

end
