(* ===== verification/Parse_Values.thy ===== *)
theory Parse_Values
  imports Parse_Lemmas
begin

unbundle bit_operations_syntax

text \<open>
  The values that the authority manifest prints and the policy parser reads: SHA-256 digests as
  64 lower-case hexadecimal characters, seccomp masks and bounds as \<open>0x\<close> and 16 digits
  (\<open>sha256_hex\<close> and \<open>push_hex_u64\<close> of \<open>authority_manifest.rs\<close>), and unsigned decimals. The
  properties are the round trips between the printers and the parsers of \<open>policy.rs\<close>.
\<close>

section \<open>Printers\<close>

definition HEX :: string where
  "HEX = ''0123456789abcdef''"

definition sha256_hex :: "u8 list \<Rightarrow> string" where
  "sha256_hex digest =
     concat (map (\<lambda>byte. [HEX ! unat (drop_bit 4 byte), HEX ! unat (byte AND 0x0F)]) digest)"

text \<open>The format \<open>{value:0kx}\<close> for a value below \<open>16 ^ k\<close>.\<close>

fun hex_fixed :: "nat \<Rightarrow> nat \<Rightarrow> string" where
  "hex_fixed 0 n = []"
| "hex_fixed (Suc k) n = hex_fixed k (n div 16) @ [HEX ! (n mod 16)]"

definition hex_u64 :: "u64 \<Rightarrow> string" where
  "hex_u64 w = ''0x'' @ hex_fixed 16 (unat w)"

definition push_hex_u64 :: "string \<Rightarrow> u64 \<Rightarrow> string" where
  "push_hex_u64 output w = output @ [CHR 0x22] @ hex_u64 w @ [CHR 0x22]"

section \<open>Hexadecimal digits\<close>

text \<open>Facts on all digits, characters or bytes are checked by running through them.\<close>

lemma HEX_table:
  "list_all (\<lambda>n. nibble (HEX ! n) = Some (of_nat n) \<and> to_digit 16 (HEX ! n) = Some n \<and>
     of_char (HEX ! n) < (128::nat)) [0..<16]"
  by code_simp

lemma nibble_HEX: "n < 16 \<Longrightarrow> nibble (HEX ! n) = Some (of_nat n)"
  using HEX_table by (auto simp: list_all_iff)

lemma to_digit_HEX: "n < 16 \<Longrightarrow> to_digit 16 (HEX ! n) = Some n"
  using HEX_table by (auto simp: list_all_iff)

lemma HEX_ascii: "n < 16 \<Longrightarrow> of_char (HEX ! n) < (128::nat)"
  using HEX_table by (auto simp: list_all_iff)

text \<open>A character with a value is the digit of that value, up to the case of the letter.\<close>

definition ascii_lower :: "char \<Rightarrow> char" where
  "ascii_lower c = (if is_ascii_uppercase c then char_of (of_char c + 32 :: nat) else c)"

definition digits_and_letters :: string where
  "digits_and_letters = ''0123456789'' @ ''ABCDEFGHIJKLMNOPQRSTUVWXYZ'' @ ''abcdef''"

lemma nibble_table:
  "list_all (\<lambda>c. case nibble c of
       Some x \<Rightarrow> unat x < 16 \<and> ascii_lower c = HEX ! unat x
     | None \<Rightarrow> ascii_lower c \<notin> set HEX) digits_and_letters"
  by (simp add: digits_and_letters_def nibble_def char_between_def ascii_lower_def
      is_ascii_uppercase_def HEX_def char_of_eq_iff)

lemma digits_and_letters_codes:
  "map char_of ([48..<58] @ [65..<91] @ [97..<103 :: nat]) = digits_and_letters"
  by (simp add: digits_and_letters_def char_of_eq_iff)

lemma not_digit_or_letter:
  assumes "c \<notin> set digits_and_letters"
  shows "of_char c \<notin> set ([48..<58] @ [65..<91] @ [97..<103 :: nat])"
proof
  assume "of_char c \<in> set ([48..<58] @ [65..<91] @ [97..<103 :: nat])"
  then have "char_of (of_char c :: nat) \<in> set digits_and_letters"
    unfolding digits_and_letters_codes [symmetric] set_map by (rule imageI)
  then show False using assms by simp
qed

lemma nibble_char:
  "case nibble c of
     Some x \<Rightarrow> unat x < 16 \<and> ascii_lower c = HEX ! unat x
   | None \<Rightarrow> ascii_lower c \<notin> set HEX"
proof (cases "c \<in> set digits_and_letters")
  case True
  then show ?thesis using nibble_table unfolding list_all_iff by (rule bspec [rotated])
next
  case False
  then have "nibble c = None" "ascii_lower c = c"
    using not_digit_or_letter [OF False] unfolding set_append set_upt
    by (auto simp: nibble_def ascii_lower_def is_ascii_uppercase_def char_between_def)
  moreover have "set HEX \<subseteq> set digits_and_letters" by (simp add: HEX_def digits_and_letters_def)
  ultimately show ?thesis using False by auto
qed

lemma nibble_ascii: "nibble c \<noteq> None \<Longrightarrow> of_char c < (128::nat)"
  by (auto simp: nibble_def char_between_def split: if_splits)

lemma HEX_distinct: "distinct HEX" "length HEX = 16"
  by (simp_all add: HEX_def)

lemma nibble_Some_iff: "nibble c = Some x \<longleftrightarrow> unat x < 16 \<and> ascii_lower c = HEX ! unat x"
proof
  assume "nibble c = Some x"
  then show "unat x < 16 \<and> ascii_lower c = HEX ! unat x" using nibble_char [of c] by simp
next
  assume x: "unat x < 16 \<and> ascii_lower c = HEX ! unat x"
  then have "ascii_lower c \<in> set HEX" by (simp add: HEX_distinct)
  then obtain y where y: "nibble c = Some y" "unat y < 16" "ascii_lower c = HEX ! unat y"
    using nibble_char [of c] by (auto split: option.splits)
  then have "unat x = unat y" using x HEX_distinct by (metis nth_eq_iff_index_eq)
  then show "nibble c = Some x" using y(1) by (simp add: word_unat_eq_iff)
qed

lemma halves_table:
  "list_all (\<lambda>n. let b = (of_nat n :: u8) in unat (drop_bit 4 b) < 16 \<and> unat (b AND 0x0F) < 16 \<and>
     push_bit 4 (drop_bit 4 b) OR (b AND 0x0F) = b) [0..<256]"
  by code_simp

lemma nibble_halves:
  fixes b :: u8
  shows "unat (drop_bit 4 b) < 16" "unat (b AND 0x0F) < 16"
    and "push_bit 4 (drop_bit 4 b) OR (b AND 0x0F) = b"
proof -
  have "unat b \<in> set [0..<256]" using unsigned_less [of b, where ?'a = nat] by simp
  then have "let c = (of_nat (unat b) :: u8) in unat (drop_bit 4 c) < 16 \<and> unat (c AND 0x0F) < 16 \<and>
     push_bit 4 (drop_bit 4 c) OR (c AND 0x0F) = c"
    using halves_table unfolding list_all_iff by blast
  then show "unat (drop_bit 4 b) < 16" "unat (b AND 0x0F) < 16"
    and "push_bit 4 (drop_bit 4 b) OR (b AND 0x0F) = b"
    by simp_all
qed

lemma join_halves_table:
  "list_all (\<lambda>m. list_all (\<lambda>n. let b = (push_bit 4 (of_nat m) OR of_nat n :: u8) in
     unat (drop_bit 4 b) = m \<and> unat (b AND 0x0F) = n) [0..<16]) [0..<16]"
  by code_simp

lemma join_halves:
  fixes high low :: u8
  assumes "unat high < 16" and "unat low < 16"
  shows "drop_bit 4 (push_bit 4 high OR low) = high" "(push_bit 4 high OR low) AND 0x0F = low"
proof -
  have "unat high \<in> set [0..<16]" "unat low \<in> set [0..<16]" using assms by simp_all
  then have "let b = (push_bit 4 (of_nat (unat high)) OR of_nat (unat low) :: u8) in
     unat (drop_bit 4 b) = unat high \<and> unat (b AND 0x0F) = unat low"
    using join_halves_table unfolding list_all_iff by blast
  then show "drop_bit 4 (push_bit 4 high OR low) = high" "(push_bit 4 high OR low) AND 0x0F = low"
    by (simp_all add: word_unat_eq_iff)
qed

section \<open>Digests\<close>

lemma fold_update_Ok:
  assumes "n \<le> length d0"
  shows "fold_result (\<lambda>d i. and_then (f i) (\<lambda>x. Ok (d[i := x]))) d0 [0..<n] = Inr d \<longleftrightarrow>
    length d = length d0 \<and> (\<forall>i<n. f i = Inr (d ! i)) \<and> drop n d = drop n d0"
  using assms
proof (induction n arbitrary: d)
  case 0
  then show ?case by auto
next
  case (Suc n)
  have step: "fold_result (\<lambda>d i. and_then (f i) (\<lambda>x. Ok (d[i := x]))) d0 [0..<Suc n] = Inr d \<longleftrightarrow>
      (\<exists>e. (length e = length d0 \<and> (\<forall>i<n. f i = Inr (e ! i)) \<and> drop n e = drop n d0) \<and>
        (\<exists>x. f n = Inr x \<and> d = e[n := x]))"
    using Suc.IH Suc.prems by (simp add: fold_result_append and_then_Ok_iff fold_result_Cons_Ok
        del: fold_result.simps(2)) blast
  show ?case
  proof
    assume "fold_result (\<lambda>d i. and_then (f i) (\<lambda>x. Ok (d[i := x]))) d0 [0..<Suc n] = Inr d"
    then obtain e x where e: "length e = length d0" "\<forall>i<n. f i = Inr (e ! i)" "drop n e = drop n d0"
      and x: "f n = Inr x" and d: "d = e[n := x]"
      unfolding step by blast
    have "drop (Suc n) e = drop (Suc n) d0" using e(3) by (metis drop_Suc tl_drop)
    then show "length d = length d0 \<and> (\<forall>i<Suc n. f i = Inr (d ! i)) \<and> drop (Suc n) d = drop (Suc n) d0"
      using e(1,2) x Suc.prems by (auto simp: d less_Suc_eq)
  next
    assume d: "length d = length d0 \<and> (\<forall>i<Suc n. f i = Inr (d ! i)) \<and> drop (Suc n) d = drop (Suc n) d0"
    have "drop n (d[n := d0 ! n]) = drop n d0"
      using d Suc.prems by (simp add: Cons_nth_drop_Suc [symmetric])
    then show "fold_result (\<lambda>d i. and_then (f i) (\<lambda>x. Ok (d[i := x]))) d0 [0..<Suc n] = Inr d"
      unfolding step using d Suc.prems
      by (intro exI [of _ "d[n := d0 ! n]"] conjI exI [of _ "d ! n"]) auto
  qed
qed

lemma length_sha256_hex [simp]: "length (sha256_hex d) = 2 * length d"
  by (induction d) (simp_all add: sha256_hex_def)

lemma nth_sha256_hex:
  "i < length d \<Longrightarrow> sha256_hex d ! (i * 2) = HEX ! unat (drop_bit 4 (d ! i)) \<and>
     sha256_hex d ! (i * 2 + 1) = HEX ! unat (d ! i AND 0x0F)"
proof (induction d arbitrary: i)
  case Nil
  then show ?case by simp
next
  case (Cons b d)
  then show ?case by (cases i) (simp_all add: sha256_hex_def)
qed

lemma hex_byte_halves:
  "hex_byte l key hi lo = Inr b \<longleftrightarrow>
     ascii_lower hi = HEX ! unat (drop_bit 4 b) \<and> ascii_lower lo = HEX ! unat (b AND 0x0F)"
proof -
  have "(\<exists>high low. (unat high < 16 \<and> ascii_lower hi = HEX ! unat high) \<and>
      (unat low < 16 \<and> ascii_lower lo = HEX ! unat low) \<and> b = push_bit 4 high OR low) \<longleftrightarrow>
     ascii_lower hi = HEX ! unat (drop_bit 4 b) \<and> ascii_lower lo = HEX ! unat (b AND 0x0F)"
    using nibble_halves [of b] by (metis join_halves)
  then show ?thesis unfolding hex_byte_Ok nibble_Some_iff .
qed

lemma index_pairs: "(\<forall>j<2 * n. P j) \<longleftrightarrow> (\<forall>i<n. P (i * 2) \<and> P (i * 2 + 1))" for n :: nat
proof
  assume pairs: "\<forall>i<n. P (i * 2) \<and> P (i * 2 + 1)"
  show "\<forall>j<2 * n. P j"
  proof (intro allI impI)
    fix j assume "j < 2 * n"
    then have "j div 2 < n" by auto
    then have "P (j div 2 * 2) \<and> P (j div 2 * 2 + 1)" using pairs by blast
    moreover have "j = j div 2 * 2 \<or> j = j div 2 * 2 + 1" by presburger
    ultimately show "P j" by metis
  qed
qed auto

text \<open>
  C28: A digest is read exactly from its text: \<open>parse_sha256\<close> returns the digest whose 64
  lower-case hexadecimal characters \<open>sha256_hex\<close> prints for the manifest, whatever the letter
  case of the text, and rejects every other text.
\<close>

theorem parse_sha256_exact:
  "parse_sha256 v line key = Inr d \<longleftrightarrow> length d = 32 \<and> map ascii_lower v = sha256_hex d"
proof -
  let ?bytes = "\<lambda>i. hex_byte line key (v ! (i * 2)) (v ! (i * 2 + 1))"
  have "length v = 64 \<Longrightarrow> length d = 32 \<Longrightarrow>
      (\<forall>i<32. ?bytes i = Inr (d ! i)) \<longleftrightarrow> map ascii_lower v = sha256_hex d"
    using index_pairs [of 32 "\<lambda>j. ascii_lower (v ! j) = sha256_hex d ! j"] nth_sha256_hex [of _ d]
    by (auto simp: list_eq_iff_nth_eq hex_byte_halves)
  moreover have "is_ascii v" if "length v = 64" "\<forall>i<32. ?bytes i = Inr (d ! i)"
    unfolding is_ascii_def list_all_length that(1)
    using that(2) index_pairs [of 32 "\<lambda>j. of_char (v ! j) < (128::nat)"]
    by (simp add: hex_byte_Ok) (metis nibble_ascii option.distinct(1))
  moreover have "length v = length (sha256_hex d)" if "map ascii_lower v = sha256_hex d"
    using that by (metis length_map)
  ultimately show ?thesis
    unfolding parse_sha256_def using fold_update_Ok [of 32 "replicate 32 0" ?bytes d] by auto
qed

section \<open>Unsigned integers\<close>

lemma parse_hex_fixed:
  "n < 16 ^ k \<Longrightarrow> n < bound \<Longrightarrow> parse_digits 16 bound 0 (hex_fixed k n) = Some n"
proof (induction k arbitrary: n)
  case 0
  then show ?case by simp
next
  case (Suc k)
  then have "parse_digits 16 bound 0 (hex_fixed k (n div 16)) = Some (n div 16)"
    by (simp add: Suc.IH less_mult_imp_div_less)
  then show ?case using Suc.prems by (simp add: parse_digits_append to_digit_HEX)
qed

lemma parse_unsigned_hex_fixed:
  assumes "n < 16 ^ Suc k" and "n < bound"
  shows "parse_unsigned 16 bound (hex_fixed (Suc k) n) = Some n"
proof -
  obtain c cs where s: "hex_fixed (Suc k) n = c # cs" by (cases "hex_fixed (Suc k) n") auto
  have digits: "parse_digits 16 bound 0 (c # cs) = Some n"
    using parse_hex_fixed [OF assms] s by simp
  have "to_digit 16 CHR ''+'' = None"
    by (simp add: to_digit_def is_ascii_digit_def char_between_def)
  then have "c \<noteq> CHR ''+''" using digits by (auto split: option.splits)
  then show ?thesis unfolding s using digits by (simp add: parse_unsigned_def)
qed

text \<open>
  The integers that the manifest and the policy text carry are read back: \<open>parse_u64_literal\<close>
  returns the mask or bound from the text between the quotes that \<open>push_hex_u64\<close> appends and
  from the decimal text, and \<open>parse_u64\<close> returns the number from its decimal text.
\<close>

theorem integer_texts_read_back:
  "(\<exists>text. push_hex_u64 out w = out @ [CHR 0x22] @ text @ [CHR 0x22] \<and>
      parse_u64_literal text line key = Inr w) \<and>
   parse_u64_literal (decimal (unat w)) line key = Inr w \<and>
   parse_u64 (decimal (unat w)) line key = Inr w"
proof (intro conjI)
  have bound: "unat w < 2 ^ 64" using unsigned_less [of w, where ?'a = nat] by simp
  have "u64_from_str_radix (hex_fixed 16 (unat w)) 16 = Some w"
    using parse_unsigned_hex_fixed [of "unat w" 15 "2 ^ 64"] bound
    by (simp add: u64_from_str_radix_def del: hex_fixed.simps)
  then show "\<exists>text. push_hex_u64 out w = out @ [CHR 0x22] @ text @ [CHR 0x22] \<and>
      parse_u64_literal text line key = Inr w"
    by (intro exI [of _ "hex_u64 w"])
      (auto simp: push_hex_u64_def hex_u64_def parse_u64_literal_Ok strip_prefix_def
        u64_from_str_radix_def parse_unsigned_def)
  have dec: "u64_from_str (decimal (unat w)) = Some w"
    using parse_unsigned_decimal [OF bound] by (simp add: u64_from_str_def)
  then show "parse_u64 (decimal (unat w)) line key = Inr w"
    by (simp add: parse_u64_def ok_or_def)
  have "u64_from_str (''0x'' @ rest) = None" for rest
    by (simp add: u64_from_str_def parse_unsigned_def to_digit_def is_ascii_digit_def char_between_def)
  then have "strip_prefix ''0x'' (decimal (unat w)) = None"
    using dec by (auto simp: strip_prefix_def prefix_def)
  then show "parse_u64_literal (decimal (unat w)) line key = Inr w"
    using dec by (simp add: parse_u64_literal_Ok)
qed

end
