(* ===== verification/Bytes.thy ===== *)
theory Bytes
  imports Policy_Model
begin

unbundle bit_operations_syntax

text \<open>
  Byte slices as the snapshot code uses them: literals, little-endian integers of a fixed width,
  the first component and the components of a path, and the budgeted sinks into which the
  canonical records are written.
\<close>

type_synonym bytes = "u8 list"

definition b_lit :: "string \<Rightarrow> bytes" where
  "b_lit s = map of_char s"

text \<open>\<open>to_le_bytes\<close> of an integer of \<open>k\<close> bytes, and \<open>from_le_bytes\<close>.\<close>

fun le_bytes :: "nat \<Rightarrow> nat \<Rightarrow> bytes" where
  "le_bytes 0 n = []"
| "le_bytes (Suc k) n = of_nat n # le_bytes k (n div 256)"

fun from_le :: "bytes \<Rightarrow> nat" where
  "from_le [] = 0"
| "from_le (b # bs) = unat b + 256 * from_le bs"

text \<open>\<open>slice.split(|byte| *byte == d)\<close>.\<close>

fun split_bytes :: "u8 \<Rightarrow> bytes \<Rightarrow> bytes list" where
  "split_bytes d [] = [[]]"
| "split_bytes d (b # bs) =
     (if b = d then [] # split_bytes d bs
      else case split_bytes d bs of [] \<Rightarrow> [[b]] | seg # segs \<Rightarrow> (b # seg) # segs)"

section \<open>Recursion through Result\<close>

lemma and_then_cong [fundef_cong]:
  "m = m' \<Longrightarrow> (\<And>x. m' = Inr x \<Longrightarrow> f x = g x) \<Longrightarrow> and_then m f = and_then m' g"
  by (auto simp: and_then_def split: sum.splits)

lemma fold_result_cong [fundef_cong]:
  "acc = acc' \<Longrightarrow> xs = ys \<Longrightarrow> (\<And>a x. x \<in> set ys \<Longrightarrow> f a x = g a x) \<Longrightarrow>
    fold_result f acc xs = fold_result g acc' ys"
proof (induction xs arbitrary: acc acc' ys)
  case Nil
  then show ?case by simp
next
  case (Cons x xs)
  then have "f acc x = g acc' x" by auto
  moreover have "fold_result f a xs = fold_result g a xs" for a
    using Cons.prems(2,3) by (intro Cons.IH) auto
  ultimately show ?case using Cons.prems(2) by (auto split: sum.splits)
qed

lemma and_then_assoc: "and_then (and_then m f) g = and_then m (\<lambda>x. and_then (f x) g)"
  by (auto simp: and_then_def split: sum.splits)

lemma fold_result_and_then: "fold_result f s (x # xs) = and_then (f s x) (\<lambda>s. fold_result f s xs)"
  by (auto simp: and_then_def split: sum.splits)

lemma and_then_Ok_right: "and_then m Inr = m"
  by (auto simp: and_then_def split: sum.splits)

lemma map_err_Ok [ok_simps]: "map_sum f id m = Inr x \<longleftrightarrow> m = Inr x"
  by (cases m) simp_all

section \<open>Little-endian integers\<close>

lemma length_le_bytes [simp]: "length (le_bytes k n) = k"
  by (induction k arbitrary: n) simp_all

lemma from_le_bytes: "from_le (le_bytes k n) = n mod 256 ^ k"
proof (induction k arbitrary: n)
  case 0
  then show ?case by simp
next
  case (Suc k)
  have "unat (of_nat n :: u8) = n mod 256" by (simp add: unat_of_nat take_bit_eq_mod)
  then show ?case using Suc [of "n div 256"] by (simp add: mod_mult2_eq)
qed

lemma from_le_less: "from_le bs < 256 ^ length bs"
proof (induction bs)
  case Nil
  then show ?case by simp
next
  case (Cons b bs)
  have "unat b < 256" using unsigned_less [of b, where ?'a = nat] by simp
  then show ?case using Cons by simp
qed

lemma le_bytes_from_le: "le_bytes (length bs) (from_le bs) = bs"
proof (induction bs)
  case Nil
  then show ?case by simp
next
  case (Cons b bs)
  have "unat b < 256" using unsigned_less [of b, where ?'a = nat] by simp
  then have "(unat b + 256 * from_le bs) div 256 = from_le bs" by simp
  moreover have "(of_nat (unat b + 256 * from_le bs) :: u8) = b"
    using \<open>unat b < 256\<close>
    by (simp add: word_unat_eq_iff unat_of_nat take_bit_eq_mod del: of_nat_add of_nat_mult)
  ultimately show ?case using Cons by simp
qed

lemma le_bytes_inject:
  "m < 256 ^ k \<Longrightarrow> n < 256 ^ k \<Longrightarrow> le_bytes k m = le_bytes k n \<longleftrightarrow> m = n"
  by (metis from_le_bytes mod_less)

lemma split_bytes_not_Nil [simp]: "split_bytes d bs \<noteq> []"
  by (induction bs) (auto split: list.splits)

section \<open>Budgeted sinks\<close>

text \<open>
  A sink has taken the bytes \<open>written\<close> and refuses a \<open>push\<close> that would go beyond its \<open>room\<close>;
  \<open>put\<close> is its state after a push that fits. The archive writer and the two hashers of the
  canonical form are such sinks.
\<close>

locale byte_sink =
  fixes good :: "'s \<Rightarrow> bool" and written :: "'s \<Rightarrow> bytes" and room :: "'s \<Rightarrow> nat"
    and put :: "bytes \<Rightarrow> 's \<Rightarrow> 's" and push :: "bytes \<Rightarrow> 's \<Rightarrow> ('s, 'e) result"
  assumes push_Ok: "good s \<Longrightarrow> push bs s = Inr s' \<longleftrightarrow> length (written s) + length bs \<le> room s \<and> s' = put bs s"
    and good_put: "good s \<Longrightarrow> length (written s) + length bs \<le> room s \<Longrightarrow> good (put bs s)"
    and written_put: "written (put bs s) = written s @ bs"
    and room_put: "room (put bs s) = room s"
    and put_put: "put cs (put bs s) = put (bs @ cs) s"
    and put_Nil: "put [] s = s"
begin

lemma pushes_Ok:
  assumes "good s"
  shows "bss \<noteq> [] \<Longrightarrow> fold_result (\<lambda>s bs. push bs s) s bss = Inr s' \<longleftrightarrow>
    length (written s) + length (concat bss) \<le> room s \<and> s' = put (concat bss) s"
  using assms
proof (induction bss arbitrary: s)
  case Nil
  then show ?case by simp
next
  case (Cons bs bss)
  show ?case
  proof (cases "length (written s) + length bs \<le> room s")
    case True
    then have step: "push bs s = Inr (put bs s)" using push_Ok [OF Cons.prems(2)] by simp
    show ?thesis
    proof (cases "bss = []")
      case True
      then show ?thesis using \<open>length (written s) + length bs \<le> room s\<close> step by auto
    next
      case False
      then show ?thesis
        using Cons.IH [OF False good_put [OF Cons.prems(2) True]] step
        by (simp add: written_put room_put put_put add.assoc)
    qed
  next
    case False
    then have "push bs s \<noteq> Inr x" for x using push_Ok [OF Cons.prems(2)] by simp
    then obtain e where "push bs s = Inl e" by (cases "push bs s") auto
    then show ?thesis using False by simp
  qed
qed

end

end
