(* ===== verification/Snapshot_Identity.thy ===== *)
theory Snapshot_Identity
  imports Bytes Paths
begin

unbundle bit_operations_syntax

text \<open>
  \<open>snapshot_identity.rs\<close>: the canonical SHA-256 identity of a snapshot tree. The hasher is the
  list of bytes it has absorbed, its digest is the parameter \<open>sha256\<close>; the answers of the
  kernel to the calls of the tree walk are the fields of a record \<open>host\<close>, keyed by the path
  relative to the snapshot root, so every theorem holds for whatever the kernel answers.
\<close>

section \<open>Limits, identities, errors\<close>

definition MAX_IDENTITY_BYTES :: nat where "MAX_IDENTITY_BYTES = 1024 * 1024 * 1024"
definition MAX_IDENTITY_NODES :: nat where "MAX_IDENTITY_NODES = 100000"
definition MAX_RELATIVE_PATH_BYTES :: nat where "MAX_RELATIVE_PATH_BYTES = 4096"
definition MAX_SYMLINK_TARGET_BYTES :: nat where "MAX_SYMLINK_TARGET_BYTES = 4095"
definition MAX_TREE_DEPTH :: nat where "MAX_TREE_DEPTH = 64"

definition CANONICAL_MAGIC :: bytes where
  "CANONICAL_MAGIC = b_lit ''security-lab-snapshot-sha256-v1'' @ [0]"

record snapshot_identity_limits =
  max_bytes :: nat
  max_nodes :: nat

record snapshot_identity =
  sha256_digest :: bytes
  identity_bytes :: nat
  identity_nodes :: nat

type_synonym errno = int

datatype snapshot_identity_error =
    Identity_InvalidInput string "fmt_arg list"
  | Identity_BudgetExceeded string nat nat
  | Identity_Io string errno

definition validate_identity_limits :: "snapshot_identity_limits \<Rightarrow> (unit, snapshot_identity_error) result" where
  "validate_identity_limits lims = checks [
     reject (max_bytes lims = 0 \<or> max_bytes lims > MAX_IDENTITY_BYTES)
       (Identity_InvalidInput ''max_bytes must be between 1 and {MAX_IDENTITY_BYTES}'' [FNat MAX_IDENTITY_BYTES]),
     reject (max_nodes lims = 0 \<or> max_nodes lims > MAX_IDENTITY_NODES)
       (Identity_InvalidInput ''max_nodes must be between 1 and {MAX_IDENTITY_NODES}'' [FNat MAX_IDENTITY_NODES])]"

section \<open>The canonical hasher\<close>

record canonical_hasher =
  hashed :: bytes
  hasher_limits :: snapshot_identity_limits
  encoded_bytes :: nat
  nodes :: nat

definition hasher_update :: "bytes \<Rightarrow> canonical_hasher \<Rightarrow> (canonical_hasher, snapshot_identity_error) result" where
  "hasher_update bs self =
     and_then (ok_or (Identity_InvalidInput ''byte accounting overflow'' [])
         (checked_add_usize (encoded_bytes self) (length bs)))
       (\<lambda>attempted.
          if attempted > max_bytes (hasher_limits self)
          then Err (Identity_BudgetExceeded ''byte'' (max_bytes (hasher_limits self)) attempted)
          else Ok (self\<lparr>hashed := hashed self @ bs, encoded_bytes := attempted\<rparr>))"

definition hasher_new :: "snapshot_identity_limits \<Rightarrow> (canonical_hasher, snapshot_identity_error) result" where
  "hasher_new lims =
     hasher_update CANONICAL_MAGIC
       \<lparr>hashed = [], hasher_limits = lims, encoded_bytes = 0, nodes = 0\<rparr>"

definition consume_node :: "canonical_hasher \<Rightarrow> (canonical_hasher, snapshot_identity_error) result" where
  "consume_node self =
     and_then (ok_or (Identity_InvalidInput ''node accounting overflow'' []) (checked_add_usize (nodes self) 1))
       (\<lambda>attempted.
          if attempted > max_nodes (hasher_limits self)
          then Err (Identity_BudgetExceeded ''node'' (max_nodes (hasher_limits self)) attempted)
          else Ok (self\<lparr>nodes := attempted\<rparr>))"

definition hasher_record_prefix ::
  "u8 \<Rightarrow> bytes \<Rightarrow> canonical_hasher \<Rightarrow> (canonical_hasher, snapshot_identity_error) result" where
  "hasher_record_prefix tag path self =
     (if length path \<ge> 2 ^ 32 then Err (Identity_InvalidInput ''snapshot path length overflow'' [])
      else and_then (hasher_update [tag] self) (\<lambda>self.
           and_then (hasher_update (le_bytes 4 (length path)) self) (\<lambda>self.
           hasher_update path self)))"

definition hasher_record_directory ::
  "bytes \<Rightarrow> u32 \<Rightarrow> canonical_hasher \<Rightarrow> (canonical_hasher, snapshot_identity_error) result" where
  "hasher_record_directory path mode self =
     and_then (hasher_record_prefix (of_char CHR ''D'') path self)
       (\<lambda>self. hasher_update (le_bytes 4 (unat mode)) self)"

definition hasher_begin_file ::
  "bytes \<Rightarrow> u32 \<Rightarrow> nat \<Rightarrow> canonical_hasher \<Rightarrow> (canonical_hasher, snapshot_identity_error) result" where
  "hasher_begin_file path mode len self =
     and_then (hasher_record_prefix (of_char CHR ''F'') path self) (\<lambda>self.
     and_then (hasher_update (le_bytes 4 (unat mode)) self) (\<lambda>self.
     hasher_update (le_bytes 8 len) self))"

definition hasher_record_symlink ::
  "bytes \<Rightarrow> bytes \<Rightarrow> canonical_hasher \<Rightarrow> (canonical_hasher, snapshot_identity_error) result" where
  "hasher_record_symlink path target self =
     (if length target \<ge> 2 ^ 32 then Err (Identity_InvalidInput ''symlink target length overflow'' [])
      else and_then (hasher_record_prefix (of_char CHR ''L'') path self) (\<lambda>self.
           and_then (hasher_update (le_bytes 4 (length target)) self) (\<lambda>self.
           hasher_update target self)))"

definition hasher_finish :: "(bytes \<Rightarrow> bytes) \<Rightarrow> canonical_hasher \<Rightarrow> snapshot_identity" where
  "hasher_finish sha256 self =
     \<lparr>sha256_digest = sha256 (hashed self), identity_bytes = encoded_bytes self, identity_nodes = nodes self\<rparr>"

section \<open>The kernel's answers\<close>

text \<open>
  One field per call of the walk; the argument is the path relative to the snapshot root.
  \<open>sys_getdents64\<close> and \<open>sys_read\<close> list the answers to successive calls, an exhausted list
  stands for the answer 0. The constants of libc are fields as well.
\<close>

record host =
  EINTR :: errno
  S_IFMT :: u32
  S_IFDIR :: u32
  S_IFREG :: u32
  S_IFLNK :: u32
  sys_canonicalize :: "pathbuf \<Rightarrow> (pathbuf, errno) result"
  sys_open_root :: "pathbuf \<Rightarrow> (unit, errno) result"
  sys_open_directory :: "bytes \<Rightarrow> (unit, errno) result"
  sys_open_file :: "bytes \<Rightarrow> (unit, errno) result"
  sys_fstatat :: "bytes \<Rightarrow> (u32, errno) result"
  sys_fstat :: "bytes \<Rightarrow> (u32 \<times> int, errno) result"
  sys_lseek :: "bytes \<Rightarrow> (unit, errno) result"
  sys_getdents64 :: "bytes \<Rightarrow> (bytes, errno) result list"
  sys_read :: "bytes \<Rightarrow> (bytes, errno) result list"
  sys_readlinkat :: "bytes \<Rightarrow> (bytes, errno) result"

abbreviation map_err :: "('e \<Rightarrow> 'f) \<Rightarrow> ('a, 'e) result \<Rightarrow> ('a, 'f) result" where
  "map_err \<equiv> \<lambda>f. map_sum f id"

section \<open>Directory enumeration\<close>

text \<open>
  The parsing of one buffer of directory entries, which the identity walk and the archive
  writer share up to the budget they charge for each name and the kind of error they report.
\<close>

function parse_dirents ::
  "(string \<Rightarrow> 'e) \<Rightarrow> ('s \<Rightarrow> ('s, 'e) result) \<Rightarrow> bytes \<Rightarrow> nat \<Rightarrow> 's \<times> bytes list \<Rightarrow> ('s \<times> bytes list, 'e) result" where
  "parse_dirents invalid reserve buf offset (st, names) =
     (if length buf \<le> offset then Ok (st, names)
      else if length buf - offset < 19
      then Err (invalid ''snapshot directory enumeration returned a truncated dirent'')
      else let reclen = unat (buf ! (offset + 16)) + 256 * unat (buf ! (offset + 17)) in
        if reclen < 20 \<or> offset + reclen > length buf
        then Err (invalid ''snapshot directory enumeration returned an invalid record length'')
        else let name_region = take (reclen - 19) (drop (offset + 19) buf) in
          if 0 \<notin> set name_region
          then Err (invalid ''snapshot directory enumeration returned an unterminated name'')
          else let name = takeWhile (\<lambda>b. b \<noteq> 0) name_region in
            if name = b_lit ''.'' \<or> name = b_lit ''..''
            then parse_dirents invalid reserve buf (offset + reclen) (st, names)
            else and_then (reserve st) (\<lambda>st.
              parse_dirents invalid reserve buf (offset + reclen) (st, names @ [name])))"
  by pat_completeness auto
termination
  by (relation "measure (\<lambda>(invalid, reserve, buf, offset, acc). length buf - offset)") auto

declare parse_dirents.simps [simp del]

fun enumerate_loop ::
  "errno \<Rightarrow> (errno \<Rightarrow> 'e) \<Rightarrow> (bytes \<Rightarrow> 's \<times> bytes list \<Rightarrow> ('s \<times> bytes list, 'e) result)
    \<Rightarrow> (bytes, errno) result list \<Rightarrow> 's \<times> bytes list \<Rightarrow> ('s \<times> bytes list, 'e) result" where
  "enumerate_loop eintr io body [] acc = Ok acc"
| "enumerate_loop eintr io body (Inl e # rest) acc =
     (if e = eintr then enumerate_loop eintr io body rest acc else Err (io e))"
| "enumerate_loop eintr io body (Inr buf # rest) acc =
     (if buf = [] then Ok acc
      else and_then (body buf acc) (\<lambda>acc. enumerate_loop eintr io body rest acc))"

definition read_directory_names ::
  "host \<Rightarrow> bytes \<Rightarrow> canonical_hasher \<Rightarrow> (canonical_hasher \<times> bytes list, snapshot_identity_error) result" where
  "read_directory_names h relative identity =
     and_then (map_err (Identity_Io ''rewind snapshot directory enumeration'') (sys_lseek h relative)) (\<lambda>_.
     and_then (enumerate_loop (EINTR h) (Identity_Io ''enumerate snapshot directory'')
         (\<lambda>buf. parse_dirents (\<lambda>m. Identity_InvalidInput m []) consume_node buf 0)
         (sys_getdents64 h relative) (identity, []))
       (\<lambda>(identity, names). Ok (identity, sort names)))"

section \<open>Paths of the walk\<close>

definition join_relative :: "bytes \<Rightarrow> bytes \<Rightarrow> bytes option" where
  "join_relative parent name =
     (let len = length parent + (if parent = [] then 0 else 1) + length name in
      if len > MAX_RELATIVE_PATH_BYTES then None
      else Some (parent @ (if parent = [] then [] else b_lit ''/'') @ name))"

definition identity_join :: "bytes \<Rightarrow> bytes \<Rightarrow> (bytes, snapshot_identity_error) result" where
  "identity_join parent name =
     ok_or (Identity_InvalidInput ''snapshot path exceeds the 4096-byte relative path ceiling'' [])
       (join_relative parent name)"

definition absolute_snapshot_path :: "bytes \<Rightarrow> bytes" where
  "absolute_snapshot_path relative = b_lit ''/'' @ relative"

section \<open>Reading a file\<close>

text \<open>
  The copy loop of at most 8192 bytes a round. An answer longer than the request stands for the
  first bytes of it, as \<open>read\<close> returns no more than it was asked for; \<open>push\<close> is the
  budgeted sink, the result keeps the answers that are left for the final one-byte read.
\<close>

fun copy_loop ::
  "errno \<Rightarrow> (errno \<Rightarrow> 'e) \<Rightarrow> 'e \<Rightarrow> (bytes \<Rightarrow> 's \<Rightarrow> ('s, 'e) result) \<Rightarrow> nat \<Rightarrow> 's
    \<Rightarrow> (bytes, errno) result list \<Rightarrow> ('s \<times> (bytes, errno) result list, 'e) result" where
  "copy_loop eintr io shrank push remaining st [] =
     (if remaining = 0 then Ok (st, []) else Err shrank)"
| "copy_loop eintr io shrank push remaining st (r # rest) =
     (if remaining = 0 then Ok (st, r # rest)
      else case r of
          Inl e \<Rightarrow>
            if e = eintr then copy_loop eintr io shrank push remaining st rest
            else Err (io e)
        | Inr bs \<Rightarrow>
            let chunk = take (min remaining 8192) bs in
            if chunk = [] then Err shrank
            else and_then (push chunk st)
              (\<lambda>st. copy_loop eintr io shrank push (remaining - length chunk) st rest))"

fun extra_read :: "errno \<Rightarrow> (errno \<Rightarrow> 'e) \<Rightarrow> 'e \<Rightarrow> (bytes, errno) result list \<Rightarrow> (unit, 'e) result" where
  "extra_read eintr io grew [] = Ok ()"
| "extra_read eintr io grew (Inl e # rest) =
     (if e = eintr then extra_read eintr io grew rest else Err (io e))"
| "extra_read eintr io grew (Inr bs # rest) = (if bs = [] then Ok () else Err grew)"

definition hash_regular_file ::
  "host \<Rightarrow> bytes \<Rightarrow> bytes \<Rightarrow> canonical_hasher \<Rightarrow> (canonical_hasher, snapshot_identity_error) result" where
  "hash_regular_file h relative path identity =
     and_then (map_err (Identity_Io ''open snapshot regular file'') (sys_open_file h relative)) (\<lambda>_.
     and_then (map_err (Identity_Io ''stat opened snapshot regular file'') (sys_fstat h relative)) (\<lambda>(mode, size).
     if mode AND S_IFMT h \<noteq> S_IFREG h \<or> size < 0
     then Err (Identity_InvalidInput ''snapshot regular file changed type or has invalid size during identity scan'' [])
     else let len = nat size in
       and_then (hasher_begin_file path (mode AND 0xFFF) len identity) (\<lambda>identity.
       and_then (copy_loop (EINTR h) (Identity_Io ''read snapshot regular file'')
           (Identity_InvalidInput ''snapshot regular file shrank during identity scan'' [])
           hasher_update len identity (sys_read h relative)) (\<lambda>(identity, rest).
       and_then (extra_read (EINTR h) (Identity_Io ''verify snapshot regular file length'')
           (Identity_InvalidInput ''snapshot regular file grew during identity scan'' []) rest) (\<lambda>_.
       Ok identity)))))"

definition hash_symlink ::
  "host \<Rightarrow> bytes \<Rightarrow> bytes \<Rightarrow> canonical_hasher \<Rightarrow> (canonical_hasher, snapshot_identity_error) result" where
  "hash_symlink h relative path identity =
     and_then (map_err (Identity_Io ''read snapshot symlink'') (sys_readlinkat h relative)) (\<lambda>answer.
     let target = take (MAX_SYMLINK_TARGET_BYTES + 1) answer in
     if length target = MAX_SYMLINK_TARGET_BYTES + 1
     then Err (Identity_InvalidInput ''snapshot symlink target exceeds 4095 bytes'' [])
     else hasher_record_symlink path target identity)"

section \<open>The tree walk\<close>

function hash_directory ::
  "host \<Rightarrow> bytes \<Rightarrow> nat \<Rightarrow> canonical_hasher \<Rightarrow> (canonical_hasher, snapshot_identity_error) result" where
  "hash_directory h relative depth identity =
     (if depth > MAX_TREE_DEPTH
      then Err (Identity_InvalidInput ''snapshot exceeds the 64-level identity depth ceiling'' [])
      else and_then (read_directory_names h relative identity) (\<lambda>(identity, names).
        fold_result (\<lambda>identity name.
            and_then (identity_join relative name) (\<lambda>child_relative.
            let path = absolute_snapshot_path child_relative in
            and_then (map_err (Identity_Io ''stat snapshot entry'') (sys_fstatat h child_relative)) (\<lambda>st_mode.
            if st_mode AND S_IFMT h = S_IFDIR h then
              and_then (map_err (Identity_Io ''open snapshot child directory'') (sys_open_directory h child_relative)) (\<lambda>_.
              and_then (map_err (Identity_Io ''stat opened snapshot directory'') (sys_fstat h child_relative)) (\<lambda>(current, _).
              if current AND S_IFMT h \<noteq> S_IFDIR h
              then Err (Identity_InvalidInput ''snapshot directory changed type during identity scan'' [])
              else and_then (hasher_record_directory path (current AND 0xFFF) identity)
                (\<lambda>identity. hash_directory h child_relative (depth + 1) identity)))
            else if st_mode AND S_IFMT h = S_IFREG h then hash_regular_file h child_relative path identity
            else if st_mode AND S_IFMT h = S_IFLNK h then hash_symlink h child_relative path identity
            else Err (Identity_InvalidInput ''snapshot contains unsupported node kind at {}'' [FStr (map (\<lambda>b. char_of (unat b)) path)])))) identity names))"
  by pat_completeness auto
termination
  by (relation "measure (\<lambda>(h, relative, depth, identity). 65 - depth)") (auto simp: MAX_TREE_DEPTH_def)

declare hash_directory.simps [simp del]

definition hash_root :: "(bytes \<Rightarrow> bytes) \<Rightarrow> host \<Rightarrow> string \<Rightarrow> string \<Rightarrow> snapshot_identity_limits
    \<Rightarrow> (snapshot_identity, snapshot_identity_error) result" where
  "hash_root sha256 h stat_phase not_directory lims =
     and_then (map_err (Identity_Io stat_phase) (sys_fstat h [])) (\<lambda>(root_mode, _).
     if root_mode AND S_IFMT h \<noteq> S_IFDIR h then Err (Identity_InvalidInput not_directory [])
     else and_then (hasher_new lims) (\<lambda>identity.
          and_then (consume_node identity) (\<lambda>identity.
          and_then (hasher_record_directory (b_lit ''/'') (root_mode AND 0xFFF) identity) (\<lambda>identity.
          and_then (hash_directory h [] 0 identity) (\<lambda>identity.
          Ok (hasher_finish sha256 identity))))))"

definition snapshot_sha256 :: "(bytes \<Rightarrow> bytes) \<Rightarrow> host \<Rightarrow> pathbuf \<Rightarrow> snapshot_identity_limits
    \<Rightarrow> (snapshot_identity, snapshot_identity_error) result" where
  "snapshot_sha256 sha256 h root lims =
     and_then (validate_identity_limits lims) (\<lambda>_.
     if \<not> is_absolute root
     then Err (Identity_InvalidInput ''snapshot root must be an absolute host path'' [])
     else and_then (map_err (Identity_Io ''canonicalize snapshot root'') (sys_canonicalize h root)) (\<lambda>canonical.
       if CHR 0x00 \<in> set canonical
       then Err (Identity_InvalidInput ''open snapshot root path contains an embedded NUL'' [])
       else and_then (map_err (Identity_Io ''open snapshot root'') (sys_open_root h canonical)) (\<lambda>_.
            hash_root sha256 h ''stat snapshot root'' ''snapshot root is not a directory'' lims)))"

definition snapshot_sha256_fd :: "(bytes \<Rightarrow> bytes) \<Rightarrow> host \<Rightarrow> snapshot_identity_limits
    \<Rightarrow> (snapshot_identity, snapshot_identity_error) result" where
  "snapshot_sha256_fd sha256 h lims =
     and_then (validate_identity_limits lims) (\<lambda>_.
     and_then (map_err (Identity_Io ''reopen pinned snapshot root'') (sys_open_directory h [])) (\<lambda>_.
     hash_root sha256 h ''stat pinned snapshot root'' ''pinned snapshot root is not a directory'' lims))"

section \<open>The hasher as a sink\<close>

definition hasher_good :: "canonical_hasher \<Rightarrow> bool" where
  "hasher_good s \<longleftrightarrow> encoded_bytes s = length (hashed s) \<and> max_bytes (hasher_limits s) < 2 ^ 64"

definition hasher_put :: "bytes \<Rightarrow> canonical_hasher \<Rightarrow> canonical_hasher" where
  "hasher_put bs s = s\<lparr>hashed := hashed s @ bs, encoded_bytes := encoded_bytes s + length bs\<rparr>"

interpretation hasher: byte_sink hasher_good hashed "\<lambda>s. max_bytes (hasher_limits s)" hasher_put hasher_update
  by unfold_locales
    (auto simp: hasher_good_def hasher_put_def hasher_update_def checked_add_usize_def ok_simps
      and_then_def ok_or_def split: if_splits)

end
