(* ===== verification/Snapshot_Auth.thy ===== *)
theory Snapshot_Auth
  imports Snapshot_Identity
begin

text \<open>
  \<open>snapshot_signature.rs\<close> and \<open>snapshot_auth.rs\<close>: Ed25519 signatures and HMAC tags over the
  canonical identity of a snapshot. The cryptographic libraries are the fields of a record; the
  two message layouts and the order of the steps are the code's.
\<close>

record crypto =
  vk_from_bytes :: "bytes \<Rightarrow> bool"
  sk_public_key :: "bytes \<Rightarrow> bytes"
  sk_sign :: "bytes \<Rightarrow> bytes \<Rightarrow> bytes"
  vk_verify_strict :: "bytes \<Rightarrow> bytes \<Rightarrow> bytes \<Rightarrow> bool"
  hmac_sha256 :: "bytes \<Rightarrow> bytes \<Rightarrow> bytes"

section \<open>Signatures\<close>

definition SNAPSHOT_ED25519_DOMAIN :: bytes where
  "SNAPSHOT_ED25519_DOMAIN = b_lit ''security-lab-snapshot-ed25519-v1'' @ [0]"

record snapshot_ed25519_signature =
  signed_snapshot :: snapshot_identity
  signed_public_key :: bytes
  signed_signature :: bytes

datatype snapshot_ed25519_error =
    Ed25519_Identity snapshot_identity_error
  | InvalidPublicKey
  | VerificationFailed

definition signature_message :: "snapshot_identity \<Rightarrow> bytes" where
  "signature_message snapshot =
     SNAPSHOT_ED25519_DOMAIN @ sha256_digest snapshot @ le_bytes 8 (identity_bytes snapshot) @
     le_bytes 8 (identity_nodes snapshot)"

definition verify_snapshot_identity_ed25519 ::
  "crypto \<Rightarrow> snapshot_identity \<Rightarrow> bytes \<Rightarrow> bytes \<Rightarrow> (unit, snapshot_ed25519_error) result" where
  "verify_snapshot_identity_ed25519 cr snapshot public_key expected_signature =
     (if \<not> vk_from_bytes cr public_key then Err InvalidPublicKey
      else if vk_verify_strict cr public_key (signature_message snapshot) expected_signature then Ok ()
      else Err VerificationFailed)"

definition sign_snapshot_ed25519 ::
  "crypto \<Rightarrow> (bytes \<Rightarrow> bytes) \<Rightarrow> host \<Rightarrow> pathbuf \<Rightarrow> bytes \<Rightarrow> snapshot_identity_limits
    \<Rightarrow> (snapshot_ed25519_signature, snapshot_ed25519_error) result" where
  "sign_snapshot_ed25519 cr sha256 h root signing_key lims =
     and_then (map_err Ed25519_Identity (snapshot_sha256 sha256 h root lims)) (\<lambda>snapshot.
     Ok \<lparr>signed_snapshot = snapshot, signed_public_key = sk_public_key cr signing_key,
        signed_signature = sk_sign cr signing_key (signature_message snapshot)\<rparr>)"

definition verify_snapshot_ed25519 ::
  "crypto \<Rightarrow> (bytes \<Rightarrow> bytes) \<Rightarrow> host \<Rightarrow> pathbuf \<Rightarrow> bytes \<Rightarrow> bytes \<Rightarrow> snapshot_identity_limits
    \<Rightarrow> (snapshot_identity, snapshot_ed25519_error) result" where
  "verify_snapshot_ed25519 cr sha256 h root public_key expected_signature lims =
     and_then (map_err Ed25519_Identity (snapshot_sha256 sha256 h root lims)) (\<lambda>snapshot.
     and_then (verify_snapshot_identity_ed25519 cr snapshot public_key expected_signature) (\<lambda>_.
     Ok snapshot))"

section \<open>Tags\<close>

definition SNAPSHOT_HMAC_DOMAIN :: bytes where
  "SNAPSHOT_HMAC_DOMAIN = b_lit ''security-lab-snapshot-hmac-sha256-v1'' @ [0]"

record snapshot_hmac =
  tagged_snapshot :: snapshot_identity
  hmac_tag :: bytes

datatype snapshot_hmac_error = Hmac_Identity snapshot_identity_error | AuthenticationFailed

definition mac_for_identity :: "crypto \<Rightarrow> bytes \<Rightarrow> snapshot_identity \<Rightarrow> bytes" where
  "mac_for_identity cr key snapshot =
     hmac_sha256 cr key (SNAPSHOT_HMAC_DOMAIN @ sha256_digest snapshot @
       le_bytes 8 (identity_bytes snapshot) @ le_bytes 8 (identity_nodes snapshot))"

definition tag_identity :: "crypto \<Rightarrow> bytes \<Rightarrow> snapshot_identity \<Rightarrow> bytes" where
  "tag_identity cr key snapshot = mac_for_identity cr key snapshot"

definition snapshot_hmac_sha256 ::
  "crypto \<Rightarrow> (bytes \<Rightarrow> bytes) \<Rightarrow> host \<Rightarrow> pathbuf \<Rightarrow> bytes \<Rightarrow> snapshot_identity_limits
    \<Rightarrow> (snapshot_hmac, snapshot_hmac_error) result" where
  "snapshot_hmac_sha256 cr sha256 h root key lims =
     and_then (map_err Hmac_Identity (snapshot_sha256 sha256 h root lims)) (\<lambda>snapshot.
     Ok \<lparr>tagged_snapshot = snapshot, hmac_tag = tag_identity cr key snapshot\<rparr>)"

definition verify_snapshot_hmac_sha256 ::
  "crypto \<Rightarrow> (bytes \<Rightarrow> bytes) \<Rightarrow> host \<Rightarrow> pathbuf \<Rightarrow> bytes \<Rightarrow> bytes \<Rightarrow> snapshot_identity_limits
    \<Rightarrow> (snapshot_identity, snapshot_hmac_error) result" where
  "verify_snapshot_hmac_sha256 cr sha256 h root key expected_tag lims =
     and_then (map_err Hmac_Identity (snapshot_sha256 sha256 h root lims)) (\<lambda>snapshot.
     if mac_for_identity cr key snapshot = expected_tag then Ok snapshot
     else Err AuthenticationFailed)"

section \<open>The messages determine the identity\<close>

definition identity_sized :: "snapshot_identity \<Rightarrow> bool" where
  "identity_sized i \<longleftrightarrow> length (sha256_digest i) = 32 \<and> identity_bytes i < 2 ^ 64 \<and> identity_nodes i < 2 ^ 64"

lemma identity_fields_inject:
  assumes "identity_sized i" and "identity_sized j"
    and "sha256_digest i @ le_bytes 8 (identity_bytes i) @ le_bytes 8 (identity_nodes i) =
      sha256_digest j @ le_bytes 8 (identity_bytes j) @ le_bytes 8 (identity_nodes j)"
  shows "i = j"
proof -
  have "256 ^ 8 = (2 ^ 64 :: nat)" by simp
  then show ?thesis
    using assms le_bytes_inject [of "identity_bytes i" 8 "identity_bytes j"]
      le_bytes_inject [of "identity_nodes i" 8 "identity_nodes j"]
    by (simp add: identity_sized_def)
qed

end
