(* ===== verification/Snapshot_Archive.thy ===== *)
theory Snapshot_Archive
  imports Snapshot_Auth
begin

unbundle bit_operations_syntax

text \<open>
  \<open>snapshot_archive.rs\<close>: the archive writer, the identity builder, the archive parser with all
  its checks, and the capture of a live tree into an archive.
\<close>

section \<open>Limits and errors\<close>

definition MAX_ARCHIVE_BYTES :: nat where "MAX_ARCHIVE_BYTES = 1024 * 1024 * 1024"
definition MAX_ARCHIVE_NODES :: nat where "MAX_ARCHIVE_NODES = 100000"

definition ARCHIVE_MAGIC :: bytes where
  "ARCHIVE_MAGIC = b_lit ''security-lab-snapshot-archive-v1'' @ [0]"

definition DIRECTORY_TAG :: u8 where "DIRECTORY_TAG = of_char CHR ''D''"
definition FILE_TAG :: u8 where "FILE_TAG = of_char CHR ''F''"
definition SYMLINK_TAG :: u8 where "SYMLINK_TAG = of_char CHR ''L''"

record snapshot_archive_limits =
  max_archive_bytes :: nat
  max_identity_bytes :: nat
  max_archive_nodes :: nat

record snapshot_archive =
  archive_bytes :: bytes
  archive_identity :: snapshot_identity

datatype snapshot_archive_error =
    Archive_InvalidInput string "fmt_arg list"
  | Archive_BudgetExceeded string nat nat
  | Archive_Identity snapshot_identity_error
  | Archive_Signature snapshot_ed25519_error
  | Archive_UnsupportedPlatform string
  | Archive_Io string errno
  | Archive_CleanupFailed string string

abbreviation archive_invalid :: "string \<Rightarrow> snapshot_archive_error" where
  "archive_invalid m \<equiv> Archive_InvalidInput m []"

definition validate_archive_limits :: "snapshot_archive_limits \<Rightarrow> (unit, snapshot_archive_error) result" where
  "validate_archive_limits lims = checks [
     reject (max_archive_bytes lims = 0 \<or> max_archive_bytes lims > MAX_ARCHIVE_BYTES)
       (Archive_InvalidInput ''max_archive_bytes must be between 1 and {MAX_ARCHIVE_BYTES}'' [FNat MAX_ARCHIVE_BYTES]),
     reject (max_identity_bytes lims = 0 \<or> max_identity_bytes lims > MAX_IDENTITY_BYTES)
       (Archive_InvalidInput ''max_identity_bytes must be between 1 and {MAX_IDENTITY_BYTES}'' [FNat MAX_IDENTITY_BYTES]),
     reject (max_archive_nodes lims = 0 \<or> max_archive_nodes lims > MAX_ARCHIVE_NODES)
       (Archive_InvalidInput ''max_nodes must be between 1 and {MAX_ARCHIVE_NODES}'' [FNat MAX_ARCHIVE_NODES])]"

section \<open>The archive writer\<close>

record archive_writer =
  writer_bytes :: bytes
  writer_limits :: snapshot_archive_limits
  writer_nodes :: nat

definition writer_append :: "bytes \<Rightarrow> archive_writer \<Rightarrow> (archive_writer, snapshot_archive_error) result" where
  "writer_append bs self =
     and_then (ok_or (archive_invalid ''archive byte accounting overflow'')
         (checked_add_usize (length (writer_bytes self)) (length bs)))
       (\<lambda>attempted.
          if attempted > max_archive_bytes (writer_limits self)
          then Err (Archive_BudgetExceeded ''archive byte'' (max_archive_bytes (writer_limits self)) attempted)
          else Ok (self\<lparr>writer_bytes := writer_bytes self @ bs\<rparr>))"

definition writer_new :: "snapshot_archive_limits \<Rightarrow> (archive_writer, snapshot_archive_error) result" where
  "writer_new lims =
     and_then (writer_append ARCHIVE_MAGIC \<lparr>writer_bytes = [], writer_limits = lims, writer_nodes = 0\<rparr>)
       (\<lambda>self. writer_append (le_bytes 8 0) self)"

definition reserve_node :: "archive_writer \<Rightarrow> (archive_writer, snapshot_archive_error) result" where
  "reserve_node self =
     and_then (ok_or (archive_invalid ''archive node accounting overflow'') (checked_add_usize (writer_nodes self) 1))
       (\<lambda>attempted.
          if attempted > max_archive_nodes (writer_limits self)
          then Err (Archive_BudgetExceeded ''node'' (max_archive_nodes (writer_limits self)) attempted)
          else Ok (self\<lparr>writer_nodes := attempted\<rparr>))"

definition writer_record_prefix ::
  "u8 \<Rightarrow> bytes \<Rightarrow> archive_writer \<Rightarrow> (archive_writer, snapshot_archive_error) result" where
  "writer_record_prefix tag path self =
     (if length path \<ge> 2 ^ 32 then Err (archive_invalid ''archive path length overflow'')
      else and_then (writer_append [tag] self) (\<lambda>self.
           and_then (writer_append (le_bytes 4 (length path)) self) (\<lambda>self.
           writer_append path self)))"

definition writer_record_directory ::
  "bytes \<Rightarrow> u32 \<Rightarrow> archive_writer \<Rightarrow> (archive_writer, snapshot_archive_error) result" where
  "writer_record_directory path mode self =
     and_then (writer_record_prefix DIRECTORY_TAG path self)
       (\<lambda>self. writer_append (le_bytes 4 (unat mode)) self)"

definition writer_begin_file ::
  "bytes \<Rightarrow> u32 \<Rightarrow> nat \<Rightarrow> archive_writer \<Rightarrow> (archive_writer, snapshot_archive_error) result" where
  "writer_begin_file path mode len self =
     and_then (writer_record_prefix FILE_TAG path self) (\<lambda>self.
     and_then (writer_append (le_bytes 4 (unat mode)) self) (\<lambda>self.
     writer_append (le_bytes 8 len) self))"

definition writer_record_symlink ::
  "bytes \<Rightarrow> bytes \<Rightarrow> archive_writer \<Rightarrow> (archive_writer, snapshot_archive_error) result" where
  "writer_record_symlink path target self =
     (if length target \<ge> 2 ^ 32 then Err (archive_invalid ''symlink target length overflow'')
      else and_then (writer_record_prefix SYMLINK_TAG path self) (\<lambda>self.
           and_then (writer_append (le_bytes 4 (length target)) self) (\<lambda>self.
           writer_append target self)))"

section \<open>The identity builder\<close>

record identity_builder =
  ib_hashed :: bytes
  ib_max_bytes :: nat
  ib_max_nodes :: nat
  ib_encoded_bytes :: nat
  ib_nodes :: nat

definition builder_update :: "bytes \<Rightarrow> identity_builder \<Rightarrow> (identity_builder, snapshot_identity_error) result" where
  "builder_update bs self =
     and_then (ok_or (Identity_InvalidInput ''byte accounting overflow'' [])
         (checked_add_usize (ib_encoded_bytes self) (length bs)))
       (\<lambda>attempted.
          if attempted > ib_max_bytes self
          then Err (Identity_BudgetExceeded ''byte'' (ib_max_bytes self) attempted)
          else Ok (self\<lparr>ib_hashed := ib_hashed self @ bs, ib_encoded_bytes := attempted\<rparr>))"

definition builder_new :: "snapshot_archive_limits \<Rightarrow> (identity_builder, snapshot_identity_error) result" where
  "builder_new lims =
     builder_update CANONICAL_MAGIC
       \<lparr>ib_hashed = [], ib_max_bytes = max_identity_bytes lims, ib_max_nodes = max_archive_nodes lims,
        ib_encoded_bytes = 0, ib_nodes = 0\<rparr>"

definition builder_consume_node :: "identity_builder \<Rightarrow> (identity_builder, snapshot_identity_error) result" where
  "builder_consume_node self =
     and_then (ok_or (Identity_InvalidInput ''node accounting overflow'' []) (checked_add_usize (ib_nodes self) 1))
       (\<lambda>attempted.
          if attempted > ib_max_nodes self
          then Err (Identity_BudgetExceeded ''node'' (ib_max_nodes self) attempted)
          else Ok (self\<lparr>ib_nodes := attempted\<rparr>))"

definition builder_record_prefix ::
  "u8 \<Rightarrow> bytes \<Rightarrow> identity_builder \<Rightarrow> (identity_builder, snapshot_identity_error) result" where
  "builder_record_prefix tag path self =
     (if length path \<ge> 2 ^ 32 then Err (Identity_InvalidInput ''snapshot path length overflow'' [])
      else and_then (builder_update [tag] self) (\<lambda>self.
           and_then (builder_update (le_bytes 4 (length path)) self) (\<lambda>self.
           builder_update path self)))"

definition builder_record_directory ::
  "bytes \<Rightarrow> u32 \<Rightarrow> identity_builder \<Rightarrow> (identity_builder, snapshot_identity_error) result" where
  "builder_record_directory path mode self =
     and_then (builder_record_prefix DIRECTORY_TAG path self)
       (\<lambda>self. builder_update (le_bytes 4 (unat mode)) self)"

definition builder_begin_file ::
  "bytes \<Rightarrow> u32 \<Rightarrow> nat \<Rightarrow> identity_builder \<Rightarrow> (identity_builder, snapshot_identity_error) result" where
  "builder_begin_file path mode len self =
     and_then (builder_record_prefix FILE_TAG path self) (\<lambda>self.
     and_then (builder_update (le_bytes 4 (unat mode)) self) (\<lambda>self.
     builder_update (le_bytes 8 len) self))"

definition builder_record_symlink ::
  "bytes \<Rightarrow> bytes \<Rightarrow> identity_builder \<Rightarrow> (identity_builder, snapshot_identity_error) result" where
  "builder_record_symlink path target self =
     (if length target \<ge> 2 ^ 32 then Err (Identity_InvalidInput ''symlink target length overflow'' [])
      else and_then (builder_record_prefix SYMLINK_TAG path self) (\<lambda>self.
           and_then (builder_update (le_bytes 4 (length target)) self) (\<lambda>self.
           builder_update target self)))"

definition builder_finish :: "(bytes \<Rightarrow> bytes) \<Rightarrow> identity_builder \<Rightarrow> snapshot_identity" where
  "builder_finish sha256 self =
     \<lparr>sha256_digest = sha256 (ib_hashed self), identity_bytes = ib_encoded_bytes self, identity_nodes = ib_nodes self\<rparr>"

section \<open>The parser\<close>

datatype parsed_entry =
    Directory (entry_path: bytes) (entry_mode: u32)
  | File (entry_path: bytes) (entry_mode: u32) (entry_contents: bytes)
  | Symlink (entry_path: bytes) (entry_target: bytes)

record parsed_archive =
  parsed_entries :: "parsed_entry list"
  parsed_identity :: snapshot_identity

text \<open>The mutable offset is the second component of what a read returns.\<close>

definition take_slice :: "bytes \<Rightarrow> nat \<Rightarrow> nat \<Rightarrow> string \<Rightarrow> (bytes \<times> nat, snapshot_archive_error) result" where
  "take_slice archive offset len label =
     and_then (ok_or (Archive_InvalidInput ''{label} offset overflow'' [FStr label]) (checked_add_usize offset len))
       (\<lambda>end_offset.
          if end_offset > length archive
          then Err (Archive_InvalidInput ''archive is truncated while reading {label}'' [FStr label])
          else Ok (take len (drop offset archive), end_offset))"

definition read_u32 :: "bytes \<Rightarrow> nat \<Rightarrow> string \<Rightarrow> (u32 \<times> nat, snapshot_archive_error) result" where
  "read_u32 archive offset label =
     and_then (take_slice archive offset 4 label) (\<lambda>(bs, offset). Ok (of_nat (from_le bs), offset))"

definition read_u64 :: "bytes \<Rightarrow> nat \<Rightarrow> string \<Rightarrow> (u64 \<times> nat, snapshot_archive_error) result" where
  "read_u64 archive offset label =
     and_then (take_slice archive offset 8 label) (\<lambda>(bs, offset). Ok (of_nat (from_le bs), offset))"

definition slash :: u8 where "slash = of_char CHR ''/''"

definition validate_archive_path :: "bytes \<Rightarrow> (bytes, snapshot_archive_error) result" where
  "validate_archive_path path =
     (if path = [] \<or> hd path \<noteq> slash \<or> 0 \<in> set path
      then Err (archive_invalid ''archive paths must be absolute and NUL-free'')
      else let relative = tl path in
        if relative = [] then Ok relative
        else if length relative > MAX_RELATIVE_PATH_BYTES \<or> last relative = slash
        then Err (archive_invalid ''archive path exceeds 4096 relative bytes or has a trailing slash'')
        else and_then (for_each (\<lambda>component.
              reject (component = [] \<or> component = b_lit ''.'' \<or> component = b_lit ''..'')
                (archive_invalid ''archive path contains an empty, dot, or dot-dot component''))
            (split_bytes slash relative)) (\<lambda>_. Ok relative))"

definition parent_relative :: "bytes \<Rightarrow> bytes" where
  "parent_relative relative =
     (if slash \<in> set relative then rev (tl (dropWhile (\<lambda>b. b \<noteq> slash) (rev relative))) else [])"

definition validate_mode :: "u32 \<Rightarrow> (unit, snapshot_archive_error) result" where
  "validate_mode mode =
     reject (mode AND NOT 0xFFF \<noteq> 0) (archive_invalid ''Unix mode contains bits outside 0o7777'')"

record parse_state =
  ps_offset :: nat
  ps_entries :: "parsed_entry list"
  ps_directories :: "bytes btreeset"
  ps_previous :: bytes
  ps_identity :: identity_builder

definition check_position ::
  "nat \<Rightarrow> u8 \<Rightarrow> bytes \<Rightarrow> bytes \<Rightarrow> parse_state \<Rightarrow> (unit, snapshot_archive_error) result" where
  "check_position index tag path relative st =
     (if index = 0 then
        reject (tag \<noteq> DIRECTORY_TAG \<or> path \<noteq> b_lit ''/'')
          (Archive_InvalidInput ''first archive record must be the root directory {}'' [FStr ''/''])
      else checks [
        reject (relative = []) (Archive_InvalidInput ''only the first archive record may address {}'' [FStr ''/'']),
        reject (path \<le> ps_previous st)
          (archive_invalid ''archive records must use strictly increasing raw path order''),
        reject (parent_relative relative \<notin> set (ps_directories st))
          (archive_invalid ''archive record parent must be an earlier directory record'')])"

definition parse_directory_body ::
  "bytes \<Rightarrow> bytes \<Rightarrow> bytes \<Rightarrow> nat \<Rightarrow> identity_builder \<Rightarrow> parse_state \<Rightarrow> (parse_state, snapshot_archive_error) result" where
  "parse_directory_body archive path relative offset identity st =
     and_then (read_u32 archive offset ''directory mode'') (\<lambda>(mode, offset).
     and_then (validate_mode mode) (\<lambda>_.
     and_then (map_err Archive_Identity (builder_record_directory path mode identity)) (\<lambda>identity.
     Ok (st\<lparr>ps_offset := offset, ps_identity := identity,
         ps_directories := btreeset_insert relative (ps_directories st),
         ps_entries := ps_entries st @ [Directory path mode]\<rparr>))))"

definition parse_file_body ::
  "bytes \<Rightarrow> bytes \<Rightarrow> nat \<Rightarrow> identity_builder \<Rightarrow> parse_state \<Rightarrow> (parse_state, snapshot_archive_error) result" where
  "parse_file_body archive path offset identity st =
     and_then (read_u32 archive offset ''file mode'') (\<lambda>(mode, offset).
     and_then (validate_mode mode) (\<lambda>_.
     and_then (read_u64 archive offset ''file length'') (\<lambda>(len, offset).
     and_then (take_slice archive offset (unat len) ''file bytes'') (\<lambda>(bs, offset).
     and_then (map_err Archive_Identity (builder_begin_file path mode (length bs) identity)) (\<lambda>identity.
     and_then (map_err Archive_Identity (builder_update bs identity)) (\<lambda>identity.
     Ok (st\<lparr>ps_offset := offset, ps_identity := identity,
         ps_entries := ps_entries st @ [File path mode bs]\<rparr>)))))))"

definition parse_symlink_body ::
  "bytes \<Rightarrow> bytes \<Rightarrow> nat \<Rightarrow> identity_builder \<Rightarrow> parse_state \<Rightarrow> (parse_state, snapshot_archive_error) result" where
  "parse_symlink_body archive path offset identity st =
     and_then (read_u32 archive offset ''symlink target length'') (\<lambda>(target_len, offset).
     if target_len = 0 \<or> unat target_len > MAX_SYMLINK_TARGET_BYTES
     then Err (archive_invalid ''symlink target must be 1..=4095 bytes'')
     else and_then (take_slice archive offset (unat target_len) ''symlink target'') (\<lambda>(target, offset).
       if 0 \<in> set target then Err (archive_invalid ''symlink target contains an embedded NUL'')
       else and_then (map_err Archive_Identity (builder_record_symlink path target identity)) (\<lambda>identity.
         Ok (st\<lparr>ps_offset := offset, ps_identity := identity,
             ps_entries := ps_entries st @ [Symlink path target]\<rparr>))))"

definition parse_record :: "bytes \<Rightarrow> parse_state \<Rightarrow> nat \<Rightarrow> (parse_state, snapshot_archive_error) result" where
  "parse_record archive st index =
     and_then (take_slice archive (ps_offset st) 1 ''record tag'') (\<lambda>(tag_bytes, offset).
     let tag = hd tag_bytes in
     and_then (read_u32 archive offset ''record path length'') (\<lambda>(path_len, offset).
     and_then (take_slice archive offset (unat path_len) ''record path'') (\<lambda>(path, offset).
     and_then (validate_archive_path path) (\<lambda>relative.
     and_then (check_position index tag path relative st) (\<lambda>_.
     and_then (map_err Archive_Identity (builder_consume_node (ps_identity st))) (\<lambda>identity.
     and_then
       (if tag = DIRECTORY_TAG then parse_directory_body archive path relative offset identity st
        else if tag = FILE_TAG then parse_file_body archive path offset identity st
        else if tag = SYMLINK_TAG then parse_symlink_body archive path offset identity st
        else Err (Archive_InvalidInput ''unknown archive record tag {tag}'' [FNat (unat tag)]))
       (\<lambda>st. Ok (st\<lparr>ps_previous := path\<rparr>))))))))"

definition parse_archive ::
  "(bytes \<Rightarrow> bytes) \<Rightarrow> bytes \<Rightarrow> snapshot_archive_limits \<Rightarrow> (parsed_archive, snapshot_archive_error) result" where
  "parse_archive sha256 archive lims =
     (if length archive > max_archive_bytes lims
      then Err (Archive_BudgetExceeded ''archive byte'' (max_archive_bytes lims) (length archive))
      else if length archive < length ARCHIVE_MAGIC + 8 \<or> \<not> prefix ARCHIVE_MAGIC archive
      then Err (archive_invalid ''archive header magic is missing or truncated'')
      else and_then (read_u64 archive (length ARCHIVE_MAGIC) ''archive node count'') (\<lambda>(declared_nodes, offset).
        if declared_nodes = 0 then Err (archive_invalid ''archive must contain a root directory record'')
        else if unat declared_nodes > max_archive_nodes lims
        then Err (Archive_BudgetExceeded ''node'' (max_archive_nodes lims) (unat declared_nodes))
        else and_then (map_err Archive_Identity (builder_new lims)) (\<lambda>identity.
          and_then (fold_result (parse_record archive)
              \<lparr>ps_offset = offset, ps_entries = [], ps_directories = [], ps_previous = [], ps_identity = identity\<rparr>
              [0..<unat declared_nodes]) (\<lambda>st.
          if ps_offset st \<noteq> length archive
          then Err (archive_invalid ''archive contains trailing bytes after declared records'')
          else let identity = builder_finish sha256 (ps_identity st) in
            if identity_nodes identity \<noteq> unat declared_nodes
            then Err (archive_invalid ''archive node accounting mismatch'')
            else Ok \<lparr>parsed_entries = ps_entries st, parsed_identity = identity\<rparr>))))"

definition snapshot_archive_identity ::
  "(bytes \<Rightarrow> bytes) \<Rightarrow> bytes \<Rightarrow> snapshot_archive_limits \<Rightarrow> (snapshot_identity, snapshot_archive_error) result" where
  "snapshot_archive_identity sha256 archive lims =
     and_then (validate_archive_limits lims) (\<lambda>_.
     and_then (parse_archive sha256 archive lims) (\<lambda>parsed. Ok (parsed_identity parsed)))"

text \<open>
  \<open>finish\<close> writes the node count over the eight zero bytes after the magic and parses the
  completed archive.
\<close>

definition writer_finish ::
  "(bytes \<Rightarrow> bytes) \<Rightarrow> archive_writer \<Rightarrow> (snapshot_archive, snapshot_archive_error) result" where
  "writer_finish sha256 self =
     (let count_offset = length ARCHIVE_MAGIC;
          bs = take count_offset (writer_bytes self) @ le_bytes 8 (writer_nodes self) @
               drop (count_offset + 8) (writer_bytes self)
      in and_then (parse_archive sha256 bs (writer_limits self)) (\<lambda>parsed.
         Ok \<lparr>archive_bytes = bs, archive_identity = parsed_identity parsed\<rparr>))"

end
