(* ===== verification/Snapshot_Codec.thy ===== *)
theory Snapshot_Codec
  imports Snapshot_Archive
begin

unbundle bit_operations_syntax

text \<open>
  The archive format as a specification, and the parser and the writer against it: an archive is
  accepted exactly when it is the encoding of a canonical list of entries within the limits, and
  its identity is the digest of the canonical magic followed by the very same records.
\<close>

section \<open>The format\<close>

fun entry_tag :: "parsed_entry \<Rightarrow> u8" where
  "entry_tag (Directory path mode) = DIRECTORY_TAG"
| "entry_tag (File path mode bs) = FILE_TAG"
| "entry_tag (Symlink path target) = SYMLINK_TAG"

fun encode_body :: "parsed_entry \<Rightarrow> bytes" where
  "encode_body (Directory path mode) = le_bytes 4 (unat mode)"
| "encode_body (File path mode bs) = le_bytes 4 (unat mode) @ le_bytes 8 (length bs) @ bs"
| "encode_body (Symlink path target) = le_bytes 4 (length target) @ target"

definition encode_entry :: "parsed_entry \<Rightarrow> bytes" where
  "encode_entry e =
     [entry_tag e] @ le_bytes 4 (length (entry_path e)) @ entry_path e @ encode_body e"

definition encode_entries :: "parsed_entry list \<Rightarrow> bytes" where
  "encode_entries es = concat (map encode_entry es)"

definition encode_archive :: "parsed_entry list \<Rightarrow> bytes" where
  "encode_archive es = ARCHIVE_MAGIC @ le_bytes 8 (length es) @ encode_entries es"

definition safe_path :: "bytes \<Rightarrow> bool" where
  "safe_path path \<longleftrightarrow>
     (\<exists>relative. path = slash # relative \<and> 0 \<notin> set relative \<and> length relative \<le> MAX_RELATIVE_PATH_BYTES \<and>
        (relative = [] \<or>
         (\<forall>c\<in>set (split_bytes slash relative). c \<noteq> [] \<and> c \<noteq> b_lit ''.'' \<and> c \<noteq> b_lit ''..'')))"

fun body_ok :: "parsed_entry \<Rightarrow> bool" where
  "body_ok (Directory path mode) \<longleftrightarrow> mode AND NOT 0xFFF = 0"
| "body_ok (File path mode bs) \<longleftrightarrow> mode AND NOT 0xFFF = 0"
| "body_ok (Symlink path target) \<longleftrightarrow>
     target \<noteq> [] \<and> length target \<le> MAX_SYMLINK_TARGET_BYTES \<and> 0 \<notin> set target"

definition entry_ok :: "parsed_entry \<Rightarrow> bool" where
  "entry_ok e \<longleftrightarrow> safe_path (entry_path e) \<and> body_ok e"

abbreviation entry_relative :: "parsed_entry \<Rightarrow> bytes" where
  "entry_relative e \<equiv> tl (entry_path e)"

text \<open>
  The records after the root: strictly increasing paths, each below a directory that has
  appeared before.
\<close>

definition add_directory :: "parsed_entry \<Rightarrow> bytes set \<Rightarrow> bytes set" where
  "add_directory e dirs = (if is_Directory e then insert (entry_relative e) dirs else dirs)"

fun records_ok :: "bytes set \<Rightarrow> bytes \<Rightarrow> parsed_entry list \<Rightarrow> bool" where
  "records_ok dirs prev [] \<longleftrightarrow> True"
| "records_ok dirs prev (e # es) \<longleftrightarrow>
     entry_ok e \<and> entry_relative e \<noteq> [] \<and> prev < entry_path e \<and>
     parent_relative (entry_relative e) \<in> dirs \<and>
     records_ok (add_directory e dirs) (entry_path e) es"

definition canonical_entries :: "parsed_entry list \<Rightarrow> bool" where
  "canonical_entries es \<longleftrightarrow>
     (\<exists>mode rest. es = Directory [slash] mode # rest \<and> mode AND NOT 0xFFF = 0 \<and> records_ok {[]} [slash] rest)"

definition within_limits :: "snapshot_archive_limits \<Rightarrow> parsed_entry list \<Rightarrow> bool" where
  "within_limits lims es \<longleftrightarrow>
     length (encode_archive es) \<le> max_archive_bytes lims \<and> length es \<le> max_archive_nodes lims \<and>
     length CANONICAL_MAGIC + length (encode_entries es) \<le> max_identity_bytes lims"

definition entries_identity :: "(bytes \<Rightarrow> bytes) \<Rightarrow> parsed_entry list \<Rightarrow> snapshot_identity" where
  "entries_identity sha256 es =
     \<lparr>sha256_digest = sha256 (CANONICAL_MAGIC @ encode_entries es),
      identity_bytes = length CANONICAL_MAGIC + length (encode_entries es), identity_nodes = length es\<rparr>"

section \<open>Reading at an offset\<close>

definition rest_at :: "bytes \<Rightarrow> nat \<Rightarrow> bytes \<Rightarrow> bool" where
  "rest_at archive offset rest \<longleftrightarrow> offset \<le> length archive \<and> drop offset archive = rest"

lemma rest_at_append: "rest_at archive offset (bs @ rest) \<Longrightarrow> rest_at archive (offset + length bs) rest"
  using length_drop [of offset archive] drop_drop [of "length bs" offset archive]
  by (auto simp: rest_at_def add.commute)

lemma rest_at_le: "rest_at archive offset (le_bytes k n @ rest) \<Longrightarrow> rest_at archive (offset + k) rest"
  using rest_at_append [of archive offset "le_bytes k n" rest] by simp

lemma take_slice_Ok:
  assumes "length archive < 2 ^ 64" and "rest_at archive offset s"
  shows "take_slice archive offset n label = Inr (bs, offset') \<longleftrightarrow>
    (\<exists>rest. s = bs @ rest \<and> length bs = n \<and> offset' = offset + n \<and> rest_at archive offset' rest)"
proof
  assume "take_slice archive offset n label = Inr (bs, offset')"
  then have ok: "offset + n \<le> length archive" "bs = take n s" "offset' = offset + n"
    using assms by (auto simp: take_slice_def ok_simps checked_add_usize_def rest_at_def split: if_splits)
  then have "s = bs @ drop n s \<and> length bs = n \<and> rest_at archive offset' (drop n s)"
    using assms(2) by (auto simp: rest_at_def add.commute)
  then show "\<exists>rest. s = bs @ rest \<and> length bs = n \<and> offset' = offset + n \<and> rest_at archive offset' rest"
    using ok(3) by blast
next
  assume "\<exists>rest. s = bs @ rest \<and> length bs = n \<and> offset' = offset + n \<and> rest_at archive offset' rest"
  then show "take_slice archive offset n label = Inr (bs, offset')"
    using assms by (auto simp: take_slice_def ok_simps checked_add_usize_def rest_at_def)
qed

lemma take_slice_here:
  assumes "length archive < 2 ^ 64" and "rest_at archive offset (bs @ rest)"
  shows "take_slice archive offset (length bs) label = Inr (bs, offset + length bs)"
  using rest_at_append [OF assms(2)] by (simp add: take_slice_Ok [OF assms])

lemma unat_of_from_le:
  "length bs = 4 \<Longrightarrow> unat (of_nat (from_le bs) :: u32) = from_le bs"
  "length bs = 8 \<Longrightarrow> unat (of_nat (from_le bs) :: u64) = from_le bs"
  using from_le_less [of bs] by (simp_all add: unat_of_nat take_bit_eq_mod)

lemma le_bytes_unat:
  "from_le (le_bytes 4 (unat (w :: u32))) = unat w"
  "from_le (le_bytes 8 (unat (v :: u64))) = unat v"
  using unsigned_less [of w, where ?'a = nat] unsigned_less [of v, where ?'a = nat]
  by (simp_all add: from_le_bytes)

lemma read_u32_Ok:
  assumes "length archive < 2 ^ 64" and "rest_at archive offset s"
  shows "read_u32 archive offset label = Inr (w, offset') \<longleftrightarrow>
    (\<exists>rest. s = le_bytes 4 (unat w) @ rest \<and> offset' = offset + 4 \<and> rest_at archive offset' rest)"
proof -
  have "length bs = 4 \<Longrightarrow> w = of_nat (from_le bs) \<longleftrightarrow> bs = le_bytes 4 (unat w)" for bs
    using le_bytes_from_le [of bs] by (auto simp: unat_of_from_le le_bytes_unat)
  then show ?thesis
    unfolding read_u32_def
    by (simp add: ok_simps take_slice_Ok [OF assms] split: prod.splits) (metis length_le_bytes)
qed

lemma read_u64_Ok:
  assumes "length archive < 2 ^ 64" and "rest_at archive offset s"
  shows "read_u64 archive offset label = Inr (w, offset') \<longleftrightarrow>
    (\<exists>rest. s = le_bytes 8 (unat w) @ rest \<and> offset' = offset + 8 \<and> rest_at archive offset' rest)"
proof -
  have "length bs = 8 \<Longrightarrow> w = of_nat (from_le bs) \<longleftrightarrow> bs = le_bytes 8 (unat w)" for bs
    using le_bytes_from_le [of bs] by (auto simp: unat_of_from_le le_bytes_unat)
  then show ?thesis
    unfolding read_u64_def
    by (simp add: ok_simps take_slice_Ok [OF assms] split: prod.splits) (metis length_le_bytes)
qed

section \<open>Paths and modes\<close>

lemma split_bytes_last:
  "r \<noteq> [] \<Longrightarrow> last r = d \<Longrightarrow> last (split_bytes d r) = [] \<and> 2 \<le> length (split_bytes d r)"
proof (induction r)
  case Nil
  then show ?case by simp
next
  case (Cons b r)
  then show ?case by (cases "r = []") (auto split: list.splits)
qed

lemma validate_archive_path_Ok:
  "validate_archive_path path = Inr relative \<longleftrightarrow> safe_path path \<and> relative = tl path"
proof (cases path)
  case Nil
  then show ?thesis by (simp add: validate_archive_path_def safe_path_def)
next
  case (Cons b r)
  have "r \<noteq> [] \<Longrightarrow> last r = slash \<Longrightarrow> [] \<in> set (split_bytes slash r)"
    using split_bytes_last [of r slash] last_in_set [of "split_bytes slash r"] by auto
  moreover have "slash \<noteq> 0" by (simp add: slash_def)
  ultimately show ?thesis
    unfolding validate_archive_path_def safe_path_def Cons
    by (auto simp: ok_simps Let_def)
qed

lemma validate_mode_Ok: "validate_mode mode = Inr () \<longleftrightarrow> mode AND NOT 0xFFF = 0"
  by (simp add: validate_mode_def ok_simps)

section \<open>The sinks\<close>

definition builder_good :: "identity_builder \<Rightarrow> bool" where
  "builder_good s \<longleftrightarrow> ib_encoded_bytes s = length (ib_hashed s) \<and> ib_max_bytes s < 2 ^ 64"

definition builder_put :: "bytes \<Rightarrow> identity_builder \<Rightarrow> identity_builder" where
  "builder_put bs s = s\<lparr>ib_hashed := ib_hashed s @ bs, ib_encoded_bytes := ib_encoded_bytes s + length bs\<rparr>"

interpretation builder: byte_sink builder_good ib_hashed ib_max_bytes builder_put builder_update
  by unfold_locales
    (auto simp: builder_good_def builder_put_def builder_update_def checked_add_usize_def
      and_then_def ok_or_def split: if_splits)

definition writer_good :: "archive_writer \<Rightarrow> bool" where
  "writer_good s \<longleftrightarrow> max_archive_bytes (writer_limits s) < 2 ^ 64"

definition writer_put :: "bytes \<Rightarrow> archive_writer \<Rightarrow> archive_writer" where
  "writer_put bs s = s\<lparr>writer_bytes := writer_bytes s @ bs\<rparr>"

interpretation writer: byte_sink writer_good writer_bytes "\<lambda>s. max_archive_bytes (writer_limits s)"
  writer_put writer_append
  by unfold_locales
    (auto simp: writer_good_def writer_put_def writer_append_def checked_add_usize_def
      and_then_def ok_or_def split: if_splits)

text \<open>What each record method of a sink writes.\<close>

lemma builder_records:
  "length path < 2 ^ 32 \<Longrightarrow> builder_record_directory path mode s =
     fold_result (\<lambda>s bs. builder_update bs s) s
       [[DIRECTORY_TAG], le_bytes 4 (length path), path, le_bytes 4 (unat mode)]"
  "length path < 2 ^ 32 \<Longrightarrow> and_then (builder_begin_file path mode n s) (builder_update bs) =
     fold_result (\<lambda>s bs. builder_update bs s) s
       [[FILE_TAG], le_bytes 4 (length path), path, le_bytes 4 (unat mode), le_bytes 8 n, bs]"
  "length path < 2 ^ 32 \<Longrightarrow> length target < 2 ^ 32 \<Longrightarrow> builder_record_symlink path target s =
     fold_result (\<lambda>s bs. builder_update bs s) s
       [[SYMLINK_TAG], le_bytes 4 (length path), path, le_bytes 4 (length target), target]"
  by (simp_all add: builder_record_directory_def builder_begin_file_def builder_record_symlink_def
      builder_record_prefix_def and_then_assoc fold_result_and_then and_then_Ok_right
      del: fold_result.simps(2) le_bytes.simps)

section \<open>One record\<close>

abbreviation builder_room :: "parsed_entry \<Rightarrow> identity_builder \<Rightarrow> bool" where
  "builder_room e s \<equiv> length (ib_hashed s) + length (encode_entry e) \<le> ib_max_bytes s"

lemma builder_entry_Ok:
  assumes "builder_good s" and "length path < 2 ^ 32"
  shows "builder_record_directory path mode s = Inr s' \<longleftrightarrow>
      builder_room (Directory path mode) s \<and> s' = builder_put (encode_entry (Directory path mode)) s"
    and "and_then (builder_begin_file path mode (length bs) s) (builder_update bs) = Inr s' \<longleftrightarrow>
      builder_room (File path mode bs) s \<and> s' = builder_put (encode_entry (File path mode bs)) s"
    and "length target < 2 ^ 32 \<Longrightarrow> builder_record_symlink path target s = Inr s' \<longleftrightarrow>
      builder_room (Symlink path target) s \<and> s' = builder_put (encode_entry (Symlink path target)) s"
  using assms(2)
  by (simp_all add: builder_records builder.pushes_Ok [OF assms(1)] encode_entry_def
      del: fold_result.simps(2))

definition after_body :: "parsed_entry \<Rightarrow> nat \<Rightarrow> identity_builder \<Rightarrow> parse_state \<Rightarrow> parse_state" where
  "after_body e offset identity st =
     st\<lparr>ps_offset := offset + length (encode_body e), ps_identity := builder_put (encode_entry e) identity,
        ps_directories := (if is_Directory e then btreeset_insert (entry_relative e) (ps_directories st)
          else ps_directories st),
        ps_entries := ps_entries st @ [e]\<rparr>"

lemma parse_directory_body_Ok:
  assumes "length archive < 2 ^ 64" and "rest_at archive offset s" and "builder_good identity"
    and "length path < 2 ^ 32"
  shows "parse_directory_body archive path (tl path) offset identity st = Inr st' \<longleftrightarrow>
    (\<exists>mode rest. s = encode_body (Directory path mode) @ rest \<and> body_ok (Directory path mode) \<and>
      builder_room (Directory path mode) identity \<and> st' = after_body (Directory path mode) offset identity st)"
  unfolding parse_directory_body_def using assms(2)
  by (auto simp: ok_simps read_u32_Ok [OF assms(1,2)] validate_mode_Ok builder_entry_Ok [OF assms(3,4)]
      after_body_def dest: rest_at_le)

lemma parse_file_body_Ok:
  assumes "length archive < 2 ^ 64" and "rest_at archive offset s" and "builder_good identity"
    and "length path < 2 ^ 32"
  shows "parse_file_body archive path offset identity st = Inr st' \<longleftrightarrow>
    (\<exists>mode bs rest. s = encode_body (File path mode bs) @ rest \<and> body_ok (File path mode bs) \<and>
      builder_room (File path mode bs) identity \<and> st' = after_body (File path mode bs) offset identity st)"
proof
  assume "parse_file_body archive path offset identity st = Inr st'"
  then obtain mode offset1 len offset2 bs offset3 identity1 identity' where
      mode: "read_u32 archive offset ''file mode'' = Inr (mode, offset1)" "mode AND NOT 0xFFF = 0"
    and len: "read_u64 archive offset1 ''file length'' = Inr (len, offset2)"
    and bs: "take_slice archive offset2 (unat len) ''file bytes'' = Inr (bs, offset3)"
    and identity': "builder_begin_file path mode (length bs) identity = Inr identity1"
      "builder_update bs identity1 = Inr identity'"
    and st': "st' = st\<lparr>ps_offset := offset3, ps_identity := identity',
        ps_entries := ps_entries st @ [File path mode bs]\<rparr>"
    unfolding parse_file_body_def by (auto simp: ok_simps validate_mode_Ok)
  obtain rest1 where rest1: "s = le_bytes 4 (unat mode) @ rest1" "offset1 = offset + 4" "rest_at archive offset1 rest1"
    using mode(1) by (auto simp: read_u32_Ok [OF assms(1,2)])
  obtain rest2 where rest2: "rest1 = le_bytes 8 (unat len) @ rest2" "offset2 = offset1 + 8" "rest_at archive offset2 rest2"
    using len by (auto simp: read_u64_Ok [OF assms(1) rest1(3)])
  obtain rest3 where rest3: "rest2 = bs @ rest3" "length bs = unat len" "offset3 = offset2 + unat len"
    using bs by (auto simp: take_slice_Ok [OF assms(1) rest2(3)])
  have "and_then (builder_begin_file path mode (length bs) identity) (builder_update bs) = Inr identity'"
    using identity' by (simp add: and_then_def)
  then have "builder_room (File path mode bs) identity \<and>
      identity' = builder_put (encode_entry (File path mode bs)) identity"
    unfolding builder_entry_Ok(2) [OF assms(3,4)] .
  then show "\<exists>mode bs rest. s = encode_body (File path mode bs) @ rest \<and> body_ok (File path mode bs) \<and>
      builder_room (File path mode bs) identity \<and> st' = after_body (File path mode bs) offset identity st"
    using rest1(1,2) rest2(1,2) rest3 mode(2) st'
    by - (rule exI [of _ mode], rule exI [of _ bs], rule exI [of _ rest3], simp add: after_body_def)
next
  assume "\<exists>mode bs rest. s = encode_body (File path mode bs) @ rest \<and> body_ok (File path mode bs) \<and>
      builder_room (File path mode bs) identity \<and> st' = after_body (File path mode bs) offset identity st"
  then obtain mode bs rest where s: "s = le_bytes 4 (unat mode) @ le_bytes 8 (length bs) @ bs @ rest"
    and mode: "mode AND NOT 0xFFF = 0" and room: "builder_room (File path mode bs) identity"
    and st': "st' = after_body (File path mode bs) offset identity st"
    by auto
  have "length bs \<le> length archive" using assms(2) s by (auto simp: rest_at_def dest: arg_cong [of _ _ length])
  then have len: "unat (of_nat (length bs) :: u64) = length bs"
    using assms(1) by (simp add: unat_of_nat take_bit_eq_mod)
  have at1: "rest_at archive (offset + 4) (le_bytes 8 (length bs) @ bs @ rest)"
    using rest_at_le assms(2) s by blast
  have at2: "rest_at archive (offset + 4 + 8) (bs @ rest)" using at1 by (rule rest_at_le)
  have "read_u32 archive offset ''file mode'' = Inr (mode, offset + 4)"
    using at1 s by (auto simp: read_u32_Ok [OF assms(1,2)])
  moreover have "read_u64 archive (offset + 4) ''file length'' = Inr (of_nat (length bs), offset + 4 + 8)"
    using at2 len by (auto simp: read_u64_Ok [OF assms(1) at1])
  moreover have "take_slice archive (offset + 4 + 8) (length bs) ''file bytes'' =
      Inr (bs, offset + 4 + 8 + length bs)"
    using assms(1) at2 by (rule take_slice_here)
  moreover obtain identity1 where "builder_begin_file path mode (length bs) identity = Inr identity1"
    "builder_update bs identity1 = Inr (builder_put (encode_entry (File path mode bs)) identity)"
    using builder_entry_Ok(2) [OF assms(3,4), THEN iffD2] room unfolding and_then_Ok_iff by blast
  ultimately show "parse_file_body archive path offset identity st = Inr st'"
    using mode [folded validate_mode_Ok] len st'
    by (simp add: parse_file_body_def and_then_def after_body_def add.assoc)
qed

lemma parse_symlink_body_Ok:
  assumes "length archive < 2 ^ 64" and "rest_at archive offset s" and "builder_good identity"
    and "length path < 2 ^ 32"
  shows "parse_symlink_body archive path offset identity st = Inr st' \<longleftrightarrow>
    (\<exists>target rest. s = encode_body (Symlink path target) @ rest \<and> body_ok (Symlink path target) \<and>
      builder_room (Symlink path target) identity \<and> st' = after_body (Symlink path target) offset identity st)"
proof
  assume "parse_symlink_body archive path offset identity st = Inr st'"
  then obtain len offset1 target offset2 identity' where
      len: "read_u32 archive offset ''symlink target length'' = Inr (len, offset1)"
    and range: "len \<noteq> 0" "unat len \<le> MAX_SYMLINK_TARGET_BYTES"
    and target: "take_slice archive offset1 (unat len) ''symlink target'' = Inr (target, offset2)"
    and nul: "0 \<notin> set target"
    and identity': "builder_record_symlink path target identity = Inr identity'"
    and st': "st' = st\<lparr>ps_offset := offset2, ps_identity := identity',
        ps_entries := ps_entries st @ [Symlink path target]\<rparr>"
    by (auto simp: parse_symlink_body_def ok_simps not_less split: if_splits)
  obtain rest where rest: "s = le_bytes 4 (unat len) @ rest" "offset1 = offset + 4" "rest_at archive offset1 rest"
    using len by (auto simp: read_u32_Ok [OF assms(1,2)])
  obtain rest' where rest': "rest = target @ rest'" "length target = unat len" "offset2 = offset1 + unat len"
    using target by (auto simp: take_slice_Ok [OF assms(1) rest(3)])
  have small: "length target < 2 ^ 32" using range(2) rest'(2) by (simp add: MAX_SYMLINK_TARGET_BYTES_def)
  have "target \<noteq> []" using range(1) rest'(2) by (auto simp: unat_eq_0)
  then show "\<exists>target rest. s = encode_body (Symlink path target) @ rest \<and> body_ok (Symlink path target) \<and>
      builder_room (Symlink path target) identity \<and> st' = after_body (Symlink path target) offset identity st"
    using rest rest' range nul identity' builder_entry_Ok(3) [OF assms(3,4) small] st'
    by - (rule exI [of _ target], rule exI [of _ rest'], simp add: after_body_def)
next
  assume "\<exists>target rest. s = encode_body (Symlink path target) @ rest \<and> body_ok (Symlink path target) \<and>
      builder_room (Symlink path target) identity \<and> st' = after_body (Symlink path target) offset identity st"
  then obtain target rest where s: "s = le_bytes 4 (length target) @ target @ rest"
    and ok: "target \<noteq> []" "length target \<le> MAX_SYMLINK_TARGET_BYTES" "0 \<notin> set target"
    and room: "builder_room (Symlink path target) identity"
    and st': "st' = after_body (Symlink path target) offset identity st"
    by auto
  have small: "length target < 2 ^ 32" using ok(2) by (simp add: MAX_SYMLINK_TARGET_BYTES_def)
  then have len: "unat (of_nat (length target) :: u32) = length target"
    by (simp add: unat_of_nat take_bit_eq_mod)
  have at: "rest_at archive (offset + 4) (target @ rest)"
    using rest_at_le assms(2) s by blast
  have "read_u32 archive offset ''symlink target length'' = Inr (of_nat (length target), offset + 4)"
    using at s len by (auto simp: read_u32_Ok [OF assms(1,2)])
  moreover have "take_slice archive (offset + 4) (length target) ''symlink target'' =
      Inr (target, offset + 4 + length target)"
    using assms(1) at by (rule take_slice_here)
  moreover have "builder_record_symlink path target identity =
      Inr (builder_put (encode_entry (Symlink path target)) identity)"
    using builder_entry_Ok(3) [OF assms(3,4) small] room by blast
  moreover have "(of_nat (length target) :: u32) \<noteq> 0" using len ok(1) by (metis length_0_conv unat_0)
  ultimately show "parse_symlink_body archive path offset identity st = Inr st'"
    using ok len st' by (simp add: parse_symlink_body_def and_then_def after_body_def add.assoc)
qed

lemma tags_distinct: "DIRECTORY_TAG \<noteq> FILE_TAG" "DIRECTORY_TAG \<noteq> SYMLINK_TAG" "FILE_TAG \<noteq> SYMLINK_TAG"
  by (simp_all add: DIRECTORY_TAG_def FILE_TAG_def SYMLINK_TAG_def)

lemma parse_body_Ok:
  assumes "length archive < 2 ^ 64" and "rest_at archive offset s" and "builder_good identity"
    and "length path < 2 ^ 32"
  shows "(if tag = DIRECTORY_TAG then parse_directory_body archive path (tl path) offset identity st
      else if tag = FILE_TAG then parse_file_body archive path offset identity st
      else if tag = SYMLINK_TAG then parse_symlink_body archive path offset identity st
      else Err (Archive_InvalidInput ''unknown archive record tag {tag}'' [FNat (unat tag)])) = Inr st' \<longleftrightarrow>
    (\<exists>e rest. entry_tag e = tag \<and> entry_path e = path \<and> s = encode_body e @ rest \<and> body_ok e \<and>
      builder_room e identity \<and> st' = after_body e offset identity st)"
    (is "?lhs \<longleftrightarrow> (\<exists>e rest. ?rhs e rest)")
proof -
  have split: "(\<exists>e rest. ?rhs e rest) \<longleftrightarrow>
      (\<exists>m rest. ?rhs (Directory path m) rest) \<or> (\<exists>m bs rest. ?rhs (File path m bs) rest) \<or>
      (\<exists>t rest. ?rhs (Symlink path t) rest)"
  proof
    assume "\<exists>e rest. ?rhs e rest"
    then obtain e rest where "?rhs e rest" by blast
    then show "(\<exists>m rest. ?rhs (Directory path m) rest) \<or> (\<exists>m bs rest. ?rhs (File path m bs) rest) \<or>
      (\<exists>t rest. ?rhs (Symlink path t) rest)"
      by (cases e; simp only: parsed_entry.sel; blast)
  qed blast
  show ?thesis
    unfolding split using tags_distinct
    by (simp add: parse_directory_body_Ok [OF assms] parse_file_body_Ok [OF assms]
        parse_symlink_body_Ok [OF assms] eq_commute [of _ tag] del: encode_body.simps body_ok.simps)
qed

definition position_ok :: "nat \<Rightarrow> parsed_entry \<Rightarrow> parse_state \<Rightarrow> bool" where
  "position_ok index e st \<longleftrightarrow>
     (if index = 0 then is_Directory e \<and> entry_path e = [slash]
      else entry_relative e \<noteq> [] \<and> ps_previous st < entry_path e \<and>
        parent_relative (entry_relative e) \<in> set (ps_directories st))"

definition after_record :: "parsed_entry \<Rightarrow> parse_state \<Rightarrow> parse_state" where
  "after_record e st =
     st\<lparr>ps_offset := ps_offset st + length (encode_entry e),
        ps_identity := builder_put (encode_entry e) ((ps_identity st)\<lparr>ib_nodes := ib_nodes (ps_identity st) + 1\<rparr>),
        ps_directories := (if is_Directory e then btreeset_insert (entry_relative e) (ps_directories st)
          else ps_directories st),
        ps_entries := ps_entries st @ [e], ps_previous := entry_path e\<rparr>"

lemma is_Directory_tag: "is_Directory e \<longleftrightarrow> entry_tag e = DIRECTORY_TAG"
  using tags_distinct by (cases e) auto

lemma check_position_Ok:
  "check_position index (entry_tag e) (entry_path e) (entry_relative e) st = Inr () \<longleftrightarrow> position_ok index e st"
  by (auto simp: check_position_def position_ok_def ok_simps is_Directory_tag b_lit_def slash_def)

lemma safe_path_short: "safe_path path \<Longrightarrow> length path < 2 ^ 32"
  by (auto simp: safe_path_def MAX_RELATIVE_PATH_BYTES_def)

lemma consume_Ok:
  assumes "ib_max_nodes s < 2 ^ 64"
  shows "builder_consume_node s = Inr s' \<longleftrightarrow> ib_nodes s + 1 \<le> ib_max_nodes s \<and> s' = s\<lparr>ib_nodes := ib_nodes s + 1\<rparr>"
  using assms by (auto simp: builder_consume_node_def ok_simps checked_add_usize_def and_then_def ok_or_def)

lemma parse_record_Ok:
  assumes big: "length archive < 2 ^ 64" and at: "rest_at archive (ps_offset st) s"
    and good: "builder_good (ps_identity st)" and "ib_max_nodes (ps_identity st) < 2 ^ 64"
  shows "parse_record archive st index = Inr st' \<longleftrightarrow>
    (\<exists>e rest. s = encode_entry e @ rest \<and> entry_ok e \<and> position_ok index e st \<and>
      ib_nodes (ps_identity st) + 1 \<le> ib_max_nodes (ps_identity st) \<and> builder_room e (ps_identity st) \<and>
      st' = after_record e st)"
    (is "_ \<longleftrightarrow> (\<exists>e rest. ?rhs e rest)")
proof
  let ?id = "(ps_identity st)\<lparr>ib_nodes := ib_nodes (ps_identity st) + 1\<rparr>"
  have good': "builder_good ?id" using good by (simp add: builder_good_def)
  {
    assume "parse_record archive st index = Inr st'"
    then obtain tag_bytes offset1 plen offset2 path offset3 identity st1 where
        tag: "take_slice archive (ps_offset st) 1 ''record tag'' = Inr (tag_bytes, offset1)"
      and plen: "read_u32 archive offset1 ''record path length'' = Inr (plen, offset2)"
      and path: "take_slice archive offset2 (unat plen) ''record path'' = Inr (path, offset3)"
      and safe: "safe_path path"
      and pos: "check_position index (hd tag_bytes) path (tl path) st = Inr ()"
      and cons: "builder_consume_node (ps_identity st) = Inr identity"
      and body: "(if hd tag_bytes = DIRECTORY_TAG then parse_directory_body archive path (tl path) offset3 identity st
        else if hd tag_bytes = FILE_TAG then parse_file_body archive path offset3 identity st
        else if hd tag_bytes = SYMLINK_TAG then parse_symlink_body archive path offset3 identity st
        else Err (Archive_InvalidInput ''unknown archive record tag {tag}'' [FNat (unat (hd tag_bytes))])) = Inr st1"
      and st': "st' = st1\<lparr>ps_previous := path\<rparr>"
      unfolding parse_record_def Let_def by (auto simp: ok_simps validate_archive_path_Ok)
    obtain rest1 where r1: "s = tag_bytes @ rest1" "length tag_bytes = 1" "offset1 = ps_offset st + 1" "rest_at archive offset1 rest1"
      using tag by (auto simp: take_slice_Ok [OF big at])
    obtain rest2 where r2: "rest1 = le_bytes 4 (unat plen) @ rest2" "offset2 = offset1 + 4" "rest_at archive offset2 rest2"
      using plen by (auto simp: read_u32_Ok [OF big r1(4)])
    obtain rest3 where r3: "rest2 = path @ rest3" "length path = unat plen" "offset3 = offset2 + unat plen" "rest_at archive offset3 rest3"
      using path by (auto simp: take_slice_Ok [OF big r2(3)])
    have id: "identity = ?id" "ib_nodes (ps_identity st) + 1 \<le> ib_max_nodes (ps_identity st)"
      using cons consume_Ok [OF assms(4)] by auto
    obtain e rest where e: "entry_tag e = hd tag_bytes" "entry_path e = path" "rest3 = encode_body e @ rest"
      "body_ok e" "builder_room e ?id" "st1 = after_body e offset3 ?id st"
      using body unfolding id(1) parse_body_Ok [OF big r3(4) good' safe_path_short [OF safe]] by blast
    have "tag_bytes = [entry_tag e]" using r1(2) e(1) by (cases tag_bytes) auto
    then have "s = encode_entry e @ rest" using r1(1) r2(1) r3(1,2) e(2,3) by (simp add: encode_entry_def)
    moreover have "position_ok index e st" using pos e(1,2) check_position_Ok by metis
    moreover have "st' = after_record e st"
      using st' e(2,6) r1(3) r2(2) r3(2,3) by (simp add: after_body_def after_record_def encode_entry_def)
    ultimately show "\<exists>e rest. ?rhs e rest" using safe e(2,4,5) id(2) by (auto simp: entry_ok_def)
  }
  {
    assume "\<exists>e rest. ?rhs e rest"
    then obtain e rest where s: "s = [entry_tag e] @ le_bytes 4 (length (entry_path e)) @ entry_path e @ encode_body e @ rest"
      and ok: "safe_path (entry_path e)" "body_ok e" and pos: "position_ok index e st"
      and nodes: "ib_nodes (ps_identity st) + 1 \<le> ib_max_nodes (ps_identity st)"
      and room: "builder_room e ?id" and st': "st' = after_record e st"
      by (auto simp: entry_ok_def encode_entry_def)
    let ?path = "entry_path e"
    have at0: "rest_at archive (ps_offset st) ([entry_tag e] @ le_bytes 4 (length ?path) @ ?path @ encode_body e @ rest)"
      using at s by simp
    have at1: "rest_at archive (ps_offset st + 1) (le_bytes 4 (length ?path) @ ?path @ encode_body e @ rest)"
      using rest_at_append [OF at0] by simp
    have at2: "rest_at archive (ps_offset st + 1 + 4) (?path @ encode_body e @ rest)" using at1 by (rule rest_at_le)
    have at3: "rest_at archive (ps_offset st + 1 + 4 + length ?path) (encode_body e @ rest)"
      using at2 by (rule rest_at_append)
    have len: "unat (of_nat (length ?path) :: u32) = length ?path"
      using safe_path_short [OF ok(1)] by (simp add: unat_of_nat take_bit_eq_mod)
    have r: "take_slice archive (ps_offset st) 1 ''record tag'' = Inr ([entry_tag e], ps_offset st + 1)"
      using take_slice_here [OF big at0] by simp
    have r': "read_u32 archive (ps_offset st + 1) ''record path length'' = Inr (of_nat (length ?path), ps_offset st + 1 + 4)"
      unfolding read_u32_Ok [OF big at1] len using at2 by blast
    have r'': "take_slice archive (ps_offset st + 1 + 4) (length ?path) ''record path'' =
        Inr (?path, ps_offset st + 1 + 4 + length ?path)"
      using big at2 by (rule take_slice_here)
    have b: "(if entry_tag e = DIRECTORY_TAG then parse_directory_body archive ?path (tl ?path) (ps_offset st + 1 + 4 + length ?path) ?id st
        else if entry_tag e = FILE_TAG then parse_file_body archive ?path (ps_offset st + 1 + 4 + length ?path) ?id st
        else if entry_tag e = SYMLINK_TAG then parse_symlink_body archive ?path (ps_offset st + 1 + 4 + length ?path) ?id st
        else Err (Archive_InvalidInput ''unknown archive record tag {tag}'' [FNat (unat (entry_tag e))])) =
        Inr (after_body e (ps_offset st + 1 + 4 + length ?path) ?id st)"
      unfolding parse_body_Ok [OF big at3 good' safe_path_short [OF ok(1)]] using ok(2) room by blast
    have v: "validate_archive_path ?path = Inr (tl ?path)" using ok(1) by (simp add: validate_archive_path_Ok)
    have p: "check_position index (entry_tag e) ?path (tl ?path) st = Inr ()" using pos check_position_Ok by blast
    have c: "builder_consume_node (ps_identity st) = Inr ?id" using consume_Ok [OF assms(4)] nodes by blast
    have "(after_body e (ps_offset st + 1 + 4 + length ?path) ?id st)\<lparr>ps_previous := ?path\<rparr> = after_record e st"
      by (simp add: after_body_def after_record_def encode_entry_def)
    then show "parse_record archive st index = Inr st'"
      unfolding parse_record_def Let_def and_then_def st'
      by (simp only: r r' len r'' v p c b sum.case prod.case list.sel map_sum.simps id_apply)
  }
qed

section \<open>All records\<close>

lemma after_record_simps [simp]:
  "ps_offset (after_record e st) = ps_offset st + length (encode_entry e)"
  "ps_entries (after_record e st) = ps_entries st @ [e]"
  "ps_previous (after_record e st) = entry_path e"
  "set (ps_directories (after_record e st)) = add_directory e (set (ps_directories st))"
  "ib_max_bytes (ps_identity (after_record e st)) = ib_max_bytes (ps_identity st)"
  "ib_max_nodes (ps_identity (after_record e st)) = ib_max_nodes (ps_identity st)"
  "ib_hashed (ps_identity (after_record e st)) = ib_hashed (ps_identity st) @ encode_entry e"
  "ib_encoded_bytes (ps_identity (after_record e st)) = ib_encoded_bytes (ps_identity st) + length (encode_entry e)"
  "ib_nodes (ps_identity (after_record e st)) = ib_nodes (ps_identity st) + 1"
  by (simp_all add: after_record_def builder_put_def add_directory_def set_btreeset_insert)

lemma encode_entries_simps [simp]:
  "encode_entries [] = []" "encode_entries (e # es) = encode_entry e @ encode_entries es"
  by (simp_all add: encode_entries_def)

lemma after_records_simps:
  "ps_offset (fold after_record es st) = ps_offset st + length (encode_entries es)"
  "ps_entries (fold after_record es st) = ps_entries st @ es"
  "ib_hashed (ps_identity (fold after_record es st)) = ib_hashed (ps_identity st) @ encode_entries es"
  "ib_encoded_bytes (ps_identity (fold after_record es st)) = ib_encoded_bytes (ps_identity st) + length (encode_entries es)"
  "ib_nodes (ps_identity (fold after_record es st)) = ib_nodes (ps_identity st) + length es"
  by (induction es arbitrary: st) simp_all

text \<open>The state between two records, with the unread bytes.\<close>

definition reading :: "bytes \<Rightarrow> parse_state \<Rightarrow> bytes \<Rightarrow> bool" where
  "reading archive st s \<longleftrightarrow> length archive < 2 ^ 64 \<and> rest_at archive (ps_offset st) s \<and>
     builder_good (ps_identity st) \<and> ib_max_nodes (ps_identity st) < 2 ^ 64"

lemma reading_after:
  "reading archive st (encode_entry e @ rest) \<Longrightarrow> builder_room e (ps_identity st) \<Longrightarrow>
    reading archive (after_record e st) rest"
  using rest_at_append [of archive "ps_offset st" "encode_entry e" rest]
  by (auto simp: reading_def builder_good_def)

lemma parse_records_Ok:
  assumes "reading archive st s" and "0 < i"
  shows "fold_result (parse_record archive) st [i..<i + n] = Inr st' \<longleftrightarrow>
    (\<exists>es rest. s = encode_entries es @ rest \<and> length es = n \<and>
      records_ok (set (ps_directories st)) (ps_previous st) es \<and>
      (es \<noteq> [] \<longrightarrow> ib_nodes (ps_identity st) + n \<le> ib_max_nodes (ps_identity st) \<and>
        length (ib_hashed (ps_identity st)) + length (encode_entries es) \<le> ib_max_bytes (ps_identity st)) \<and>
      st' = fold after_record es st)"
  using assms
proof (induction n arbitrary: i st s)
  case 0
  then show ?case by auto
next
  case (Suc n)
  have step: "parse_record archive st i = Inr a \<longleftrightarrow>
      (\<exists>e rest. s = encode_entry e @ rest \<and> entry_ok e \<and> position_ok i e st \<and>
        ib_nodes (ps_identity st) + 1 \<le> ib_max_nodes (ps_identity st) \<and> builder_room e (ps_identity st) \<and>
        a = after_record e st)" for a
    using Suc.prems(1) unfolding reading_def by (intro parse_record_Ok) auto
  have unroll: "[i..<i + Suc n] = i # [Suc i..<Suc i + n]" by (simp add: upt_conv_Cons)
  show ?case
  proof
    assume "fold_result (parse_record archive) st [i..<i + Suc n] = Inr st'"
    then obtain a where a: "parse_record archive st i = Inr a"
      and more: "fold_result (parse_record archive) a [Suc i..<Suc i + n] = Inr st'"
      unfolding unroll by (auto split: sum.splits)
    obtain e rest where e: "s = encode_entry e @ rest" "entry_ok e" "position_ok i e st"
        "ib_nodes (ps_identity st) + 1 \<le> ib_max_nodes (ps_identity st)" "builder_room e (ps_identity st)"
        "a = after_record e st"
      using a unfolding step by blast
    have "reading archive a rest" using reading_after Suc.prems(1) e(1,5,6) by blast
    then obtain es rest' where es: "rest = encode_entries es @ rest'" "length es = n"
        "records_ok (set (ps_directories a)) (ps_previous a) es"
        "es \<noteq> [] \<longrightarrow> ib_nodes (ps_identity a) + n \<le> ib_max_nodes (ps_identity a) \<and>
          length (ib_hashed (ps_identity a)) + length (encode_entries es) \<le> ib_max_bytes (ps_identity a)"
        "st' = fold after_record es a"
      using more Suc.IH [of a rest "Suc i"] by blast
    have "records_ok (set (ps_directories st)) (ps_previous st) (e # es)"
      using e(2,3,6) es(3) Suc.prems(2) by (simp add: position_ok_def)
    moreover have "ib_nodes (ps_identity st) + Suc n \<le> ib_max_nodes (ps_identity st) \<and>
        length (ib_hashed (ps_identity st)) + length (encode_entries (e # es)) \<le> ib_max_bytes (ps_identity st)"
      using e(4,5,6) es(2,4) by (cases "es = []") auto
    ultimately show "\<exists>es rest. s = encode_entries es @ rest \<and> length es = Suc n \<and>
      records_ok (set (ps_directories st)) (ps_previous st) es \<and>
      (es \<noteq> [] \<longrightarrow> ib_nodes (ps_identity st) + Suc n \<le> ib_max_nodes (ps_identity st) \<and>
        length (ib_hashed (ps_identity st)) + length (encode_entries es) \<le> ib_max_bytes (ps_identity st)) \<and>
      st' = fold after_record es st"
      using e(1,6) es(1,2,5) by (intro exI [of _ "e # es"] exI [of _ rest']) simp
  next
    assume "\<exists>es rest. s = encode_entries es @ rest \<and> length es = Suc n \<and>
      records_ok (set (ps_directories st)) (ps_previous st) es \<and>
      (es \<noteq> [] \<longrightarrow> ib_nodes (ps_identity st) + Suc n \<le> ib_max_nodes (ps_identity st) \<and>
        length (ib_hashed (ps_identity st)) + length (encode_entries es) \<le> ib_max_bytes (ps_identity st)) \<and>
      st' = fold after_record es st"
    then obtain e es rest where e: "s = encode_entry e @ encode_entries es @ rest" "length es = n"
        "records_ok (set (ps_directories st)) (ps_previous st) (e # es)"
        "ib_nodes (ps_identity st) + Suc n \<le> ib_max_nodes (ps_identity st)"
        "length (ib_hashed (ps_identity st)) + length (encode_entry e @ encode_entries es) \<le> ib_max_bytes (ps_identity st)"
        "st' = fold after_record es (after_record e st)"
      by (auto simp: length_Suc_conv)
    have room: "builder_room e (ps_identity st)" using e(5) by simp
    have "parse_record archive st i = Inr (after_record e st)"
      unfolding step using e(1,3,4) room Suc.prems(2)
      by (intro exI [of _ e] exI [of _ "encode_entries es @ rest"]) (simp add: position_ok_def)
    moreover have "fold_result (parse_record archive) (after_record e st) [Suc i..<Suc i + n] = Inr st'"
      using Suc.IH [OF reading_after [OF _ room], of "encode_entries es @ rest" "Suc i"] Suc.prems(1) e
      by auto
    ultimately show "fold_result (parse_record archive) st [i..<i + Suc n] = Inr st'"
      unfolding unroll by simp
  qed
qed

end
