(* ===== verification/Snapshot_Format.thy ===== *)
theory Snapshot_Format
  imports Snapshot_Codec
begin

unbundle bit_operations_syntax

text \<open>
  The archive parser against the format: exactness, and what an accepted archive guarantees.
\<close>

section \<open>The whole archive\<close>

definition start_state :: "snapshot_archive_limits \<Rightarrow> parse_state" where
  "start_state lims =
     \<lparr>ps_offset = length ARCHIVE_MAGIC + 8, ps_entries = [], ps_directories = [], ps_previous = [],
      ps_identity = \<lparr>ib_hashed = CANONICAL_MAGIC, ib_max_bytes = max_identity_bytes lims,
        ib_max_nodes = max_archive_nodes lims, ib_encoded_bytes = length CANONICAL_MAGIC, ib_nodes = 0\<rparr>\<rparr>"

lemma limits_small:
  assumes "validate_archive_limits lims = Inr ()"
  shows "max_archive_bytes lims < 2 ^ 64" "max_identity_bytes lims < 2 ^ 64" "max_archive_nodes lims < 2 ^ 64"
  using assms by (auto simp: validate_archive_limits_def ok_simps MAX_ARCHIVE_BYTES_def
      MAX_IDENTITY_BYTES_def MAX_ARCHIVE_NODES_def)

lemma builder_new_Ok:
  assumes "max_identity_bytes lims < 2 ^ 64"
  shows "builder_new lims = Inr s \<longleftrightarrow>
    length CANONICAL_MAGIC \<le> max_identity_bytes lims \<and> s = ps_identity (start_state lims)"
proof -
  have "builder_good \<lparr>ib_hashed = [], ib_max_bytes = max_identity_bytes lims,
      ib_max_nodes = max_archive_nodes lims, ib_encoded_bytes = 0, ib_nodes = 0\<rparr>"
    using assms by (simp add: builder_good_def)
  then show ?thesis
    unfolding builder_new_def by (subst builder.push_Ok) (auto simp: builder_put_def start_state_def)
qed

lemma root_entry:
  "entry_ok e \<and> is_Directory e \<and> entry_path e = [slash] \<longleftrightarrow>
     (\<exists>mode. e = Directory [slash] mode \<and> mode AND NOT 0xFFF = 0)"
  by (cases e) (auto simp: entry_ok_def safe_path_def)

lemma parse_all_Ok:
  assumes "reading archive (start_state lims) s"
  shows "fold_result (parse_record archive) (start_state lims) [0..<Suc n] = Inr st \<longleftrightarrow>
    (\<exists>es rest. s = encode_entries es @ rest \<and> length es = Suc n \<and> canonical_entries es \<and>
      Suc n \<le> max_archive_nodes lims \<and>
      length CANONICAL_MAGIC + length (encode_entries es) \<le> max_identity_bytes lims \<and>
      st = fold after_record es (start_state lims))"
proof -
  let ?st = "start_state lims"
  have first: "parse_record archive ?st 0 = Inr a \<longleftrightarrow>
      (\<exists>mode rest. s = encode_entry (Directory [slash] mode) @ rest \<and> mode AND NOT 0xFFF = 0 \<and>
        1 \<le> max_archive_nodes lims \<and> builder_room (Directory [slash] mode) (ps_identity ?st) \<and>
        a = after_record (Directory [slash] mode) ?st)" for a
  proof -
    have "parse_record archive ?st 0 = Inr a \<longleftrightarrow>
      (\<exists>e rest. (entry_ok e \<and> is_Directory e \<and> entry_path e = [slash]) \<and> s = encode_entry e @ rest \<and>
        1 \<le> max_archive_nodes lims \<and> builder_room e (ps_identity ?st) \<and> a = after_record e ?st)"
      using assms unfolding reading_def
      by (subst parse_record_Ok) (auto simp: position_ok_def start_state_def)
    then show ?thesis unfolding root_entry by blast
  qed
  have rest_Ok: "fold_result (parse_record archive) (after_record (Directory [slash] mode) ?st) [1..<1 + n] = Inr st \<longleftrightarrow>
      (\<exists>es rest'. rest = encode_entries es @ rest' \<and> length es = n \<and> records_ok {[]} [slash] es \<and>
        (es \<noteq> [] \<longrightarrow> Suc n \<le> max_archive_nodes lims \<and> length CANONICAL_MAGIC +
          length (encode_entries (Directory [slash] mode # es)) \<le> max_identity_bytes lims) \<and>
        st = fold after_record (Directory [slash] mode # es) ?st)"
    if "reading archive (after_record (Directory [slash] mode) ?st) rest" for mode rest
    using parse_records_Ok [OF that, of 1 n st]
    by (simp add: start_state_def add_directory_def add.assoc)
  have unroll: "[0..<Suc n] = 0 # [1..<1 + n]" by (simp add: upt_conv_Cons)
  show ?thesis
  proof
    assume "fold_result (parse_record archive) ?st [0..<Suc n] = Inr st"
    then obtain a where a: "parse_record archive ?st 0 = Inr a"
      and more: "fold_result (parse_record archive) a [1..<1 + n] = Inr st"
      unfolding unroll by (auto split: sum.splits)
    obtain mode rest where m: "s = encode_entry (Directory [slash] mode) @ rest" "mode AND NOT 0xFFF = 0"
        "1 \<le> max_archive_nodes lims" "builder_room (Directory [slash] mode) (ps_identity ?st)"
        "a = after_record (Directory [slash] mode) ?st"
      using a unfolding first by blast
    have "reading archive a rest" using reading_after assms m(1,4,5) by blast
    then obtain es rest' where es: "rest = encode_entries es @ rest'" "length es = n" "records_ok {[]} [slash] es"
        "es \<noteq> [] \<longrightarrow> Suc n \<le> max_archive_nodes lims \<and> length CANONICAL_MAGIC +
          length (encode_entries (Directory [slash] mode # es)) \<le> max_identity_bytes lims"
        "st = fold after_record (Directory [slash] mode # es) ?st"
      using more rest_Ok m(5) by blast
    have "Suc n \<le> max_archive_nodes lims \<and>
        length CANONICAL_MAGIC + length (encode_entries (Directory [slash] mode # es)) \<le> max_identity_bytes lims"
      using es(2,4) m(3,4) by (cases "es = []") (auto simp: start_state_def)
    then show "\<exists>es rest. s = encode_entries es @ rest \<and> length es = Suc n \<and> canonical_entries es \<and>
      Suc n \<le> max_archive_nodes lims \<and>
      length CANONICAL_MAGIC + length (encode_entries es) \<le> max_identity_bytes lims \<and>
      st = fold after_record es ?st"
      using m(1,2) es
      by (intro exI [of _ "Directory [slash] mode # es"] exI [of _ rest']) (simp add: canonical_entries_def)
  next
    assume "\<exists>es rest. s = encode_entries es @ rest \<and> length es = Suc n \<and> canonical_entries es \<and>
      Suc n \<le> max_archive_nodes lims \<and>
      length CANONICAL_MAGIC + length (encode_entries es) \<le> max_identity_bytes lims \<and>
      st = fold after_record es ?st"
    then obtain mode es rest where m: "s = encode_entry (Directory [slash] mode) @ encode_entries es @ rest"
        "mode AND NOT 0xFFF = 0" "length es = n" "records_ok {[]} [slash] es" "Suc n \<le> max_archive_nodes lims"
        "length CANONICAL_MAGIC + length (encode_entries (Directory [slash] mode # es)) \<le> max_identity_bytes lims"
        "st = fold after_record (Directory [slash] mode # es) ?st"
      by (auto simp: canonical_entries_def)
    have room: "builder_room (Directory [slash] mode) (ps_identity ?st)" using m(6) by (simp add: start_state_def)
    have "parse_record archive ?st 0 = Inr (after_record (Directory [slash] mode) ?st)"
      unfolding first using m(1,2,5) room by auto
    moreover have "fold_result (parse_record archive) (after_record (Directory [slash] mode) ?st) [1..<1 + n] = Inr st"
      using rest_Ok [OF reading_after [OF _ room]] assms m by blast
    ultimately show "fold_result (parse_record archive) ?st [0..<Suc n] = Inr st"
      unfolding unroll by simp
  qed
qed

lemma rest_at_header: "rest_at (hdr @ rest) (length hdr) rest"
  by (simp add: rest_at_def)

lemma header_read:
  assumes "length archive < 2 ^ 64" and "archive = ARCHIVE_MAGIC @ le_bytes 8 (unat w) @ s"
  shows "read_u64 archive (length ARCHIVE_MAGIC) label = Inr (w, length ARCHIVE_MAGIC + 8)"
    and "rest_at archive (length ARCHIVE_MAGIC + 8) s"
proof -
  have at: "rest_at archive (length ARCHIVE_MAGIC) (le_bytes 8 (unat w) @ s)"
    unfolding assms(2) by (rule rest_at_header)
  then show at': "rest_at archive (length ARCHIVE_MAGIC + 8) s" by (rule rest_at_le)
  show "read_u64 archive (length ARCHIVE_MAGIC) label = Inr (w, length ARCHIVE_MAGIC + 8)"
    unfolding read_u64_Ok [OF assms(1) at] using at' by blast
qed

lemma header_cases:
  assumes "\<not> (length archive < length ARCHIVE_MAGIC + 8 \<or> \<not> prefix ARCHIVE_MAGIC archive)"
  obtains w :: u64 and s where "archive = ARCHIVE_MAGIC @ le_bytes 8 (unat w) @ s"
proof -
  obtain t where t: "archive = ARCHIVE_MAGIC @ t" using assms by (auto simp: prefix_def)
  define w :: u64 where "w = of_nat (from_le (take 8 t))"
  have len: "length (take 8 t) = 8" using assms t by simp
  then have "take 8 t = le_bytes 8 (unat w)"
    unfolding w_def unat_of_from_le(2) [OF len] using le_bytes_from_le [of "take 8 t"] by simp
  then have "archive = ARCHIVE_MAGIC @ le_bytes 8 (unat w) @ drop 8 t"
    using t append_take_drop_id [of 8 t] by simp
  then show thesis by (rule that)
qed

lemma reading_start:
  assumes "validate_archive_limits lims = Inr ()" and "length archive \<le> max_archive_bytes lims"
    and "rest_at archive (length ARCHIVE_MAGIC + 8) s"
  shows "reading archive (start_state lims) s"
  using assms limits_small [OF assms(1)]
  by (simp add: reading_def start_state_def builder_good_def)

lemma final_identity:
  "builder_finish sha256 (ps_identity (fold after_record es (start_state lims))) = entries_identity sha256 es"
  by (simp add: builder_finish_def entries_identity_def after_records_simps) (simp add: start_state_def)

lemma parse_archive_header:
  assumes lims: "validate_archive_limits lims = Inr ()" and "length archive \<le> max_archive_bytes lims"
    and hdr: "archive = ARCHIVE_MAGIC @ le_bytes 8 (unat (w :: u64)) @ s"
  shows "parse_archive sha256 archive lims = Inr p \<longleftrightarrow>
    (\<exists>es. s = encode_entries es \<and> length es = unat w \<and> canonical_entries es \<and>
      length es \<le> max_archive_nodes lims \<and>
      length CANONICAL_MAGIC + length (encode_entries es) \<le> max_identity_bytes lims \<and>
      p = \<lparr>parsed_entries = es, parsed_identity = entries_identity sha256 es\<rparr>)"
    (is "_ \<longleftrightarrow> (\<exists>es. ?rhs es)")
proof -
  note small = limits_small [OF lims]
  have big: "length archive < 2 ^ 64" using assms(2) small(1) by simp
  note header = header_read [OF big hdr]
  have reading: "reading archive (start_state lims) s"
    using lims assms(2) header(2) by (rule reading_start)
  have mem: "\<not> (length archive < length ARCHIVE_MAGIC + 8 \<or> \<not> prefix ARCHIVE_MAGIC archive)"
    unfolding hdr by simp
  have main: "parse_archive sha256 archive lims = Inr p \<longleftrightarrow>
      w \<noteq> 0 \<and> unat w \<le> max_archive_nodes lims \<and> length CANONICAL_MAGIC \<le> max_identity_bytes lims \<and>
      (\<exists>st. fold_result (parse_record archive) (start_state lims) [0..<unat w] = Inr st \<and>
        ps_offset st = length archive \<and> identity_nodes (builder_finish sha256 (ps_identity st)) = unat w \<and>
        p = \<lparr>parsed_entries = ps_entries st, parsed_identity = builder_finish sha256 (ps_identity st)\<rparr>)"
    unfolding parse_archive_def using mem assms(2) header(1)
    by (auto simp: ok_simps builder_new_Ok [OF small(2)] not_less Let_def)
       (auto simp: start_state_def)
  show ?thesis
  proof (cases "w = 0")
    case True
    then show ?thesis using main by (auto simp: canonical_entries_def)
  next
    case False
    then obtain n where n: "unat w = Suc n" by (cases "unat w") (auto simp: unat_eq_0)
    show ?thesis
      unfolding main n parse_all_Ok [OF reading]
    proof (intro iffI conjI)
      assume "w \<noteq> 0 \<and> Suc n \<le> max_archive_nodes lims \<and> length CANONICAL_MAGIC \<le> max_identity_bytes lims \<and>
        (\<exists>st. (\<exists>es rest. s = encode_entries es @ rest \<and> length es = Suc n \<and> canonical_entries es \<and>
            Suc n \<le> max_archive_nodes lims \<and>
            length CANONICAL_MAGIC + length (encode_entries es) \<le> max_identity_bytes lims \<and>
            st = fold after_record es (start_state lims)) \<and>
          ps_offset st = length archive \<and> identity_nodes (builder_finish sha256 (ps_identity st)) = Suc n \<and>
          p = \<lparr>parsed_entries = ps_entries st, parsed_identity = builder_finish sha256 (ps_identity st)\<rparr>)"
      then obtain es rest where es: "s = encode_entries es @ rest" "length es = Suc n" "canonical_entries es"
          "Suc n \<le> max_archive_nodes lims"
          "length CANONICAL_MAGIC + length (encode_entries es) \<le> max_identity_bytes lims"
          "length (encode_entries es) + (length ARCHIVE_MAGIC + 8) = length archive"
          "p = \<lparr>parsed_entries = es, parsed_identity = entries_identity sha256 es\<rparr>"
        by (auto simp: after_records_simps final_identity) (simp add: start_state_def)
      then have "rest = []" using hdr by simp
      then show "\<exists>es. s = encode_entries es \<and> length es = Suc n \<and> canonical_entries es \<and>
        length es \<le> max_archive_nodes lims \<and>
        length CANONICAL_MAGIC + length (encode_entries es) \<le> max_identity_bytes lims \<and>
        p = \<lparr>parsed_entries = es, parsed_identity = entries_identity sha256 es\<rparr>"
        using es by auto
    next
      assume "\<exists>es. s = encode_entries es \<and> length es = Suc n \<and> canonical_entries es \<and>
        length es \<le> max_archive_nodes lims \<and>
        length CANONICAL_MAGIC + length (encode_entries es) \<le> max_identity_bytes lims \<and>
        p = \<lparr>parsed_entries = es, parsed_identity = entries_identity sha256 es\<rparr>"
      then obtain es where es: "s = encode_entries es" "length es = Suc n" "canonical_entries es"
        "length es \<le> max_archive_nodes lims"
        "length CANONICAL_MAGIC + length (encode_entries es) \<le> max_identity_bytes lims"
        "p = \<lparr>parsed_entries = es, parsed_identity = entries_identity sha256 es\<rparr>"
        by blast
      have "ps_offset (fold after_record es (start_state lims)) = length archive"
        "ps_entries (fold after_record es (start_state lims)) = es"
        using hdr es(1) by (simp_all add: after_records_simps start_state_def)
      then show "\<exists>st. (\<exists>es rest. s = encode_entries es @ rest \<and> length es = Suc n \<and> canonical_entries es \<and>
            Suc n \<le> max_archive_nodes lims \<and>
            length CANONICAL_MAGIC + length (encode_entries es) \<le> max_identity_bytes lims \<and>
            st = fold after_record es (start_state lims)) \<and>
          ps_offset st = length archive \<and> identity_nodes (builder_finish sha256 (ps_identity st)) = Suc n \<and>
          p = \<lparr>parsed_entries = ps_entries st, parsed_identity = builder_finish sha256 (ps_identity st)\<rparr>"
        using es
        by (intro exI [of _ "fold after_record es (start_state lims)"] conjI exI [of _ es] exI [of _ "[]"])
          (simp_all add: final_identity entries_identity_def)
      show "w \<noteq> 0" "Suc n \<le> max_archive_nodes lims" "length CANONICAL_MAGIC \<le> max_identity_bytes lims"
        using False es by simp_all
    qed
  qed
qed

lemma parse_archive_iff:
  assumes "validate_archive_limits lims = Inr ()"
  shows "parse_archive sha256 archive lims = Inr p \<longleftrightarrow>
    archive = encode_archive (parsed_entries p) \<and> canonical_entries (parsed_entries p) \<and>
    within_limits lims (parsed_entries p) \<and> parsed_identity p = entries_identity sha256 (parsed_entries p)"
proof (cases "length archive \<le> max_archive_bytes lims \<and>
    \<not> (length archive < length ARCHIVE_MAGIC + 8 \<or> \<not> prefix ARCHIVE_MAGIC archive)")
  case True
  then obtain w :: u64 and s where hdr: "archive = ARCHIVE_MAGIC @ le_bytes 8 (unat w) @ s"
    using header_cases by blast
  have count: "length es = unat w \<longleftrightarrow> le_bytes 8 (length es) = le_bytes 8 (unat w)"
    if "length es \<le> max_archive_nodes lims" for es :: "parsed_entry list"
    using that limits_small(3) [OF assms] unsigned_less [of w, where ?'a = nat]
    by (intro le_bytes_inject [symmetric]) simp_all
  obtain es i where p: "p = \<lparr>parsed_entries = es, parsed_identity = i\<rparr>" by (cases p) auto
  show ?thesis
    unfolding parse_archive_header [OF assms conjunct1 [OF True] hdr] p using True count [of es]
    by (auto simp: hdr encode_archive_def within_limits_def)
next
  case False
  have "parse_archive sha256 archive lims \<noteq> Inr p"
    using False by (auto simp: parse_archive_def)
  moreover have "\<not> (archive = encode_archive (parsed_entries p) \<and> within_limits lims (parsed_entries p))"
    using False by (auto simp: encode_archive_def within_limits_def)
  ultimately show ?thesis by blast
qed

section \<open>Unambiguity\<close>

fun entry_sized :: "parsed_entry \<Rightarrow> bool" where
  "entry_sized (Directory path mode) \<longleftrightarrow> length path < 2 ^ 32"
| "entry_sized (File path mode bs) \<longleftrightarrow> length path < 2 ^ 32 \<and> length bs < 2 ^ 64"
| "entry_sized (Symlink path target) \<longleftrightarrow> length path < 2 ^ 32 \<and> length target < 2 ^ 32"

lemma le_bytes_prefix:
  "le_bytes k m @ r = le_bytes k n @ r' \<Longrightarrow> m < 256 ^ k \<Longrightarrow> n < 256 ^ k \<Longrightarrow> m = n \<and> r = r'"
  using le_bytes_inject [of m k n] by simp

lemma le_bytes_4: "le_bytes 4 (unat (m :: u32)) @ r = le_bytes 4 (unat n) @ r' \<longleftrightarrow> m = n \<and> r = r'"
proof -
  have "unat m < 256 ^ 4" "unat n < 256 ^ 4"
    using unsigned_less [of m, where ?'a = nat] unsigned_less [of n, where ?'a = nat] by simp_all
  then show ?thesis using le_bytes_prefix [of 4 "unat m" r "unat n" r'] word_unat_eq_iff [of m n] by auto
qed

lemma encode_entry_inject:
  assumes "entry_sized e" and "entry_sized e'" and eq: "encode_entry e @ r = encode_entry e' @ r'"
  shows "e = e' \<and> r = r'"
proof -
  have tag: "entry_tag e = entry_tag e'"
    and "le_bytes 4 (length (entry_path e)) @ entry_path e @ encode_body e @ r =
      le_bytes 4 (length (entry_path e')) @ entry_path e' @ encode_body e' @ r'"
    using eq by (simp_all add: encode_entry_def del: le_bytes.simps)
  moreover have "entry_sized x \<Longrightarrow> length (entry_path x) < 256 ^ 4" for x by (cases x) simp_all
  ultimately have len: "length (entry_path e) = length (entry_path e')"
    and "entry_path e @ encode_body e @ r = entry_path e' @ encode_body e' @ r'"
    using le_bytes_prefix assms(1,2) by blast+
  then have path: "entry_path e = entry_path e'" and body: "encode_body e @ r = encode_body e' @ r'"
    by simp_all
  show ?thesis
  proof (cases e)
    case (Directory p m)
    then obtain m' where "e' = Directory p m'" using tag path tags_distinct by (cases e') auto
    then show ?thesis using Directory body by (simp add: le_bytes_4)
  next
    case (File p m bs)
    then obtain m' bs' where e': "e' = File p m' bs'" using tag path tags_distinct by (cases e') auto
    then have "m = m' \<and> le_bytes 8 (length bs) @ bs @ r = le_bytes 8 (length bs') @ bs' @ r'"
      using File body by (simp add: le_bytes_4)
    then show ?thesis using File e' assms(1,2) le_bytes_prefix [of 8 "length bs" "bs @ r"] by auto
  next
    case (Symlink p t)
    then obtain t' where e': "e' = Symlink p t'" using tag path tags_distinct by (cases e') auto
    then show ?thesis using Symlink body assms(1,2) le_bytes_prefix [of 4 "length t" "t @ r"] by auto
  qed
qed

lemma encode_entries_inject:
  "list_all entry_sized es \<Longrightarrow> list_all entry_sized es' \<Longrightarrow> encode_entries es = encode_entries es' \<Longrightarrow> es = es'"
proof (induction es arbitrary: es')
  case Nil
  then show ?case by (cases es') (simp_all add: encode_entry_def)
next
  case (Cons e es)
  show ?case
  proof (cases es')
    case Nil
    then show ?thesis using Cons.prems(3) by (simp add: encode_entry_def)
  next
    case es': (Cons e' es'')
    have "e = e' \<and> encode_entries es = encode_entries es''"
      using encode_entry_inject [of e e' "encode_entries es" "encode_entries es''"] Cons.prems es' by simp
    then show ?thesis using Cons.IH Cons.prems es' by simp
  qed
qed

lemma records_sized: "records_ok dirs prev es \<Longrightarrow> length (encode_entries es) < 2 ^ 64 \<Longrightarrow> list_all entry_sized es"
proof (induction es arbitrary: dirs prev)
  case Nil
  then show ?case by simp
next
  case (Cons e es)
  have "length (entry_path e) < 2 ^ 32" using Cons.prems(1) safe_path_short by (simp add: entry_ok_def)
  moreover have "body_ok e" using Cons.prems(1) by (simp add: entry_ok_def)
  ultimately have "entry_sized e"
    using Cons.prems(2) by (cases e) (auto simp: encode_entry_def MAX_SYMLINK_TARGET_BYTES_def)
  then show ?case using Cons.IH Cons.prems by auto
qed

lemma canonical_sized: "canonical_entries es \<Longrightarrow> length (encode_entries es) < 2 ^ 64 \<Longrightarrow> list_all entry_sized es"
  using records_sized [of "{[]}" "[slash]"] by (fastforce simp: canonical_entries_def)

section \<open>Exactness\<close>

text \<open>
  C30: The parser is exact: an archive is accepted exactly when it is the encoding of a canonical
  list of entries (root first, strictly increasing safe paths, every parent an earlier directory,
  permission bits only, bounded NUL-free link targets) within the limits, the entries are
  returned, and the identity is that of the canonical magic and the same records.
\<close>

theorem parse_archive_exact:
  assumes "validate_archive_limits lims = Inr ()"
  shows "parse_archive sha256 archive lims = Inr p \<longleftrightarrow>
    archive = encode_archive (parsed_entries p) \<and> canonical_entries (parsed_entries p) \<and>
    within_limits lims (parsed_entries p) \<and> parsed_identity p = entries_identity sha256 (parsed_entries p)"
  using assms by (rule parse_archive_iff)

definition records_preimage :: "bytes \<Rightarrow> bytes" where
  "records_preimage archive = CANONICAL_MAGIC @ drop (length ARCHIVE_MAGIC + 8) archive"

text \<open>
  C31: The identity of an archive determines the archive: two accepted archives with the same
  identity are the same bytes, unless their records are an explicit collision of SHA-256.
\<close>

theorem archive_identity_binds:
  assumes "snapshot_archive_identity sha256 a lims = Inr i" and "snapshot_archive_identity sha256 b lims' = Inr i"
  shows "a = b \<or> (records_preimage a \<noteq> records_preimage b \<and> sha256 (records_preimage a) = sha256 (records_preimage b))"
proof -
  have shape: "\<exists>es. archive = encode_archive es \<and> i = entries_identity sha256 es"
    if id: "snapshot_archive_identity sha256 archive lims = Inr i" for archive lims
  proof -
    obtain p where lims: "validate_archive_limits lims = Inr ()" and p: "parse_archive sha256 archive lims = Inr p"
      "parsed_identity p = i"
      using id by (auto simp: snapshot_archive_identity_def and_then_Ok_iff)
    show ?thesis using p unfolding parse_archive_iff [OF lims] by auto
  qed
  obtain es es' where es: "a = encode_archive es" "i = entries_identity sha256 es"
      "b = encode_archive es'" "i = entries_identity sha256 es'"
    using shape [OF assms(1)] shape [OF assms(2)] by blast
  have pre: "records_preimage a = CANONICAL_MAGIC @ encode_entries es" "records_preimage b = CANONICAL_MAGIC @ encode_entries es'"
    by (simp_all add: records_preimage_def es encode_archive_def)
  have "length es = length es'" "sha256 (records_preimage a) = sha256 (records_preimage b)"
    using es(2,4) unfolding pre by (auto simp: entries_identity_def)
  moreover have "a = b" if "length es = length es'" "records_preimage a = records_preimage b"
    using that unfolding pre by (simp add: es encode_archive_def)
  ultimately show ?thesis by blast
qed

section \<open>The tree of an accepted archive\<close>

definition earlier_directory :: "parsed_entry list \<Rightarrow> nat \<Rightarrow> bytes \<Rightarrow> bool" where
  "earlier_directory es i relative \<longleftrightarrow>
     (\<exists>j<i. is_Directory (es ! j) \<and> entry_path (es ! j) = slash # relative)"

lemma records_tree:
  assumes "records_ok dirs prev es"
  shows "sorted_wrt (<) (prev # map entry_path es)"
    and "\<forall>e\<in>set es. entry_ok e"
    and "i < length es \<Longrightarrow> parent_relative (entry_relative (es ! i)) \<in> dirs \<or>
      earlier_directory es i (parent_relative (entry_relative (es ! i)))"
  using assms
proof (induction es arbitrary: dirs prev i)
  case (Cons e es)
  {
    case 1
    then have "sorted_wrt (<) (entry_path e # map entry_path es)" "prev < entry_path e"
      using Cons.IH(1) by auto
    then show ?case by (auto intro: less_trans)
  next
    case 2
    then show ?case using Cons.IH(2) by auto
  next
    case 3
    show ?case
    proof (cases i)
      case 0
      then show ?thesis using 3 by simp
    next
      case (Suc k)
      have "safe_path (entry_path e)" using 3 by (simp add: entry_ok_def)
      then have path: "entry_path e = slash # entry_relative e" by (auto simp: safe_path_def)
      have "parent_relative (entry_relative (es ! k)) \<in> add_directory e dirs \<or>
          earlier_directory es k (parent_relative (entry_relative (es ! k)))"
        using 3 Suc Cons.IH(3) by auto
      moreover have "earlier_directory es k r \<Longrightarrow> earlier_directory (e # es) (Suc k) r" for r
        unfolding earlier_directory_def by force
      moreover have "r \<in> add_directory e dirs \<Longrightarrow> r \<in> dirs \<or> earlier_directory (e # es) (Suc k) r" for r
        using path by (auto simp: add_directory_def earlier_directory_def split: if_splits)
      ultimately show ?thesis unfolding Suc by auto
    qed
  }
qed simp_all

text \<open>
  C32: An accepted archive describes a tree that stays below its root: the first entry is the root
  directory, every path is absolute with no empty, dot or dot-dot component and no NUL, paths
  strictly increase (so no path occurs twice), and the parent of every other entry is an earlier
  directory entry, never a link or a file.
\<close>

theorem accepted_archive_tree:
  assumes "snapshot_archive_identity sha256 archive lims = Inr identity"
  shows "\<exists>es. parse_archive sha256 archive lims = Inr \<lparr>parsed_entries = es, parsed_identity = identity\<rparr> \<and>
    (\<exists>mode. hd es = Directory [slash] mode) \<and> es \<noteq> [] \<and> (\<forall>e\<in>set es. safe_path (entry_path e)) \<and>
    sorted_wrt (<) (map entry_path es) \<and>
    (\<forall>i. 0 < i \<and> i < length es \<longrightarrow> earlier_directory es i (parent_relative (entry_relative (es ! i))))"
proof -
  obtain p where lims: "validate_archive_limits lims = Inr ()" and p: "parse_archive sha256 archive lims = Inr p"
    "parsed_identity p = identity"
    using assms by (auto simp: snapshot_archive_identity_def and_then_Ok_iff)
  obtain es where parsed: "p = \<lparr>parsed_entries = es, parsed_identity = identity\<rparr>" using p(2) by (cases p) auto
  have "canonical_entries es" using p(1) unfolding parse_archive_iff [OF lims] by (simp add: parsed)
  then obtain mode rest where es: "es = Directory [slash] mode # rest" "records_ok {[]} [slash] rest"
    by (auto simp: canonical_entries_def)
  note tree = records_tree [OF es(2)]
  have "earlier_directory es i (parent_relative (entry_relative (es ! i)))" if i: "0 < i" "i < length es" for i
  proof -
    obtain k where k: "i = Suc k" "k < length rest" using i es(1) by (cases i) auto
    have "earlier_directory rest k r \<Longrightarrow> earlier_directory es i r" for r
      unfolding earlier_directory_def es(1) k(1) by force
    moreover have "earlier_directory es i []" unfolding earlier_directory_def es(1) k(1) by force
    ultimately show ?thesis using tree(3) [OF k(2)] by (auto simp: es(1) k(1))
  qed
  moreover have "safe_path [slash]" by (simp add: safe_path_def)
  ultimately show ?thesis
    using p(1) tree(1,2) by (intro exI [of _ es]) (auto simp: parsed es(1) entry_ok_def)
qed

end
