(* ===== verification/Snapshot_Capture.thy ===== *)
theory Snapshot_Capture
  imports Snapshot_Format
begin

unbundle bit_operations_syntax

text \<open>
  The capture of a live tree into an archive (the \<open>linux\<close> module of \<open>snapshot_archive.rs\<close>), over
  the same answers of the kernel as the identity walk.
\<close>

definition read_directory_names_bounded ::
  "host \<Rightarrow> bytes \<Rightarrow> archive_writer \<Rightarrow> (archive_writer \<times> bytes list, snapshot_archive_error) result" where
  "read_directory_names_bounded h relative writer =
     and_then (map_err (Archive_Io ''rewind snapshot directory enumeration'') (sys_lseek h relative)) (\<lambda>_.
     and_then (enumerate_loop (EINTR h) (Archive_Io ''enumerate snapshot directory'')
         (\<lambda>buf. parse_dirents archive_invalid reserve_node buf 0)
         (sys_getdents64 h relative) (writer, []))
       (\<lambda>(writer, names). Ok (writer, sort names)))"

definition archive_join :: "bytes \<Rightarrow> bytes \<Rightarrow> (bytes, snapshot_archive_error) result" where
  "archive_join parent name =
     ok_or (archive_invalid ''snapshot path exceeds the 4096-byte relative path ceiling'')
       (join_relative parent name)"

definition serialize_regular_file ::
  "host \<Rightarrow> bytes \<Rightarrow> bytes \<Rightarrow> archive_writer \<Rightarrow> (archive_writer, snapshot_archive_error) result" where
  "serialize_regular_file h relative path writer =
     and_then (map_err (Archive_Io ''open snapshot regular file'') (sys_open_file h relative)) (\<lambda>_.
     and_then (map_err (Archive_Io ''stat opened snapshot regular file'') (sys_fstat h relative)) (\<lambda>(mode, size).
     if mode AND S_IFMT h \<noteq> S_IFREG h \<or> size < 0
     then Err (archive_invalid ''snapshot regular file changed type or has invalid size during archive capture'')
     else let len = nat size in
       and_then (writer_begin_file path (mode AND 0xFFF) len writer) (\<lambda>writer.
       and_then (copy_loop (EINTR h) (Archive_Io ''read snapshot regular file'')
           (archive_invalid ''snapshot regular file shrank during archive capture'')
           writer_append len writer (sys_read h relative)) (\<lambda>(writer, rest).
       and_then (extra_read (EINTR h) (Archive_Io ''verify snapshot regular file length'')
           (archive_invalid ''snapshot regular file grew during archive capture'') rest) (\<lambda>_.
       Ok writer)))))"

definition serialize_symlink ::
  "host \<Rightarrow> bytes \<Rightarrow> bytes \<Rightarrow> archive_writer \<Rightarrow> (archive_writer, snapshot_archive_error) result" where
  "serialize_symlink h relative path writer =
     and_then (map_err (Archive_Io ''read snapshot symlink'') (sys_readlinkat h relative)) (\<lambda>answer.
     let target = take (MAX_SYMLINK_TARGET_BYTES + 1) answer in
     if length target = 0 \<or> length target = MAX_SYMLINK_TARGET_BYTES + 1
     then Err (archive_invalid ''snapshot symlink target is empty or exceeds 4095 bytes'')
     else writer_record_symlink path target writer)"

function serialize_directory ::
  "host \<Rightarrow> bytes \<Rightarrow> nat \<Rightarrow> archive_writer \<Rightarrow> (archive_writer, snapshot_archive_error) result" where
  "serialize_directory h relative depth writer =
     (if depth > MAX_TREE_DEPTH
      then Err (archive_invalid ''snapshot exceeds the 64-level archive depth ceiling'')
      else and_then (read_directory_names_bounded h relative writer) (\<lambda>(writer, names).
        fold_result (\<lambda>writer name.
            and_then (archive_join relative name) (\<lambda>child_relative.
            let path = absolute_snapshot_path child_relative in
            and_then (map_err (Archive_Io ''stat snapshot entry'') (sys_fstatat h child_relative)) (\<lambda>st_mode.
            if st_mode AND S_IFMT h = S_IFDIR h then
              and_then (map_err (Archive_Io ''open snapshot child directory'') (sys_open_directory h child_relative)) (\<lambda>_.
              and_then (map_err (Archive_Io ''stat opened snapshot directory'') (sys_fstat h child_relative)) (\<lambda>(current, _).
              if current AND S_IFMT h \<noteq> S_IFDIR h
              then Err (archive_invalid ''snapshot directory changed type during archive capture'')
              else and_then (writer_record_directory path (current AND 0xFFF) writer)
                (\<lambda>writer. serialize_directory h child_relative (depth + 1) writer)))
            else if st_mode AND S_IFMT h = S_IFREG h then serialize_regular_file h child_relative path writer
            else if st_mode AND S_IFMT h = S_IFLNK h then serialize_symlink h child_relative path writer
            else Err (Archive_InvalidInput ''snapshot contains unsupported node kind at {}''
              [FStr (map (\<lambda>b. char_of (unat b)) path)])))) writer names))"
  by pat_completeness auto
termination
  by (relation "measure (\<lambda>(h, relative, depth, writer). 65 - depth)") (auto simp: MAX_TREE_DEPTH_def)

declare serialize_directory.simps [simp del]

definition serialize_root ::
  "(bytes \<Rightarrow> bytes) \<Rightarrow> host \<Rightarrow> snapshot_archive_limits \<Rightarrow> (snapshot_archive, snapshot_archive_error) result" where
  "serialize_root sha256 h lims =
     and_then (map_err (Archive_Io ''stat snapshot root'') (sys_fstat h [])) (\<lambda>(root_mode, _).
     if root_mode AND S_IFMT h \<noteq> S_IFDIR h
     then Err (archive_invalid ''snapshot root is not a directory'')
     else and_then (writer_new lims) (\<lambda>writer.
          and_then (reserve_node writer) (\<lambda>writer.
          and_then (writer_record_directory (b_lit ''/'') (root_mode AND 0xFFF) writer) (\<lambda>writer.
          and_then (serialize_directory h [] 0 writer) (\<lambda>writer.
          writer_finish sha256 writer)))))"

definition serialize_snapshot_archive ::
  "(bytes \<Rightarrow> bytes) \<Rightarrow> host \<Rightarrow> pathbuf \<Rightarrow> snapshot_archive_limits \<Rightarrow> (snapshot_archive, snapshot_archive_error) result" where
  "serialize_snapshot_archive sha256 h root lims =
     and_then (validate_archive_limits lims) (\<lambda>_.
     if \<not> is_absolute root then Err (archive_invalid ''snapshot root must be an absolute host path'')
     else and_then (map_err (Archive_Io ''canonicalize snapshot root'') (sys_canonicalize h root)) (\<lambda>canonical.
       if CHR 0x00 \<in> set canonical
       then Err (archive_invalid ''open snapshot root path contains an embedded NUL'')
       else and_then (map_err (Archive_Io ''open snapshot root'') (sys_open_root h canonical)) (\<lambda>_.
            serialize_root sha256 h lims)))"

end
