(* ===== verification/Snapshot_Mirror.thy ===== *)
theory Snapshot_Mirror
  imports Snapshot_Capture
begin

unbundle bit_operations_syntax

text \<open>
  The capture and the identity walk run in step: over the same answers of the kernel, what the
  archive writer appends after its header is what the canonical hasher absorbs after its magic.
\<close>

section \<open>Running in step\<close>

definition in_step :: "archive_writer \<Rightarrow> canonical_hasher \<Rightarrow> bool" where
  "in_step w c \<longleftrightarrow> writer_good w \<and> hasher_good c \<and> writer_nodes w = nodes c \<and>
     writer_nodes w \<le> max_archive_nodes (writer_limits w) \<and>
     max_archive_nodes (writer_limits w) = max_nodes (hasher_limits c) \<and>
     (\<exists>recs. writer_bytes w = ARCHIVE_MAGIC @ le_bytes 8 0 @ recs \<and> hashed c = CANONICAL_MAGIC @ recs)"

definition fits :: "archive_writer \<Rightarrow> canonical_hasher \<Rightarrow> bool" where
  "fits w c \<longleftrightarrow> length (writer_bytes w) + length CANONICAL_MAGIC \<le>
     max_bytes (hasher_limits c) + length ARCHIVE_MAGIC + 8"

definition extends :: "archive_writer \<Rightarrow> archive_writer \<Rightarrow> bool" where
  "extends w w' \<longleftrightarrow> prefix (writer_bytes w) (writer_bytes w') \<and> writer_limits w' = writer_limits w"

text \<open>
  An operation on the writer with a result \<open>x\<close> mirrored by one on the hasher: whenever the first
  succeeds and what it has written in the end fits the hasher's budget, the second succeeds with
  the same result.
\<close>

definition mirrors ::
  "(archive_writer \<Rightarrow> (archive_writer \<times> 'x, snapshot_archive_error) result) \<Rightarrow>
    (canonical_hasher \<Rightarrow> (canonical_hasher \<times> 'x, snapshot_identity_error) result) \<Rightarrow> bool" where
  "mirrors f g \<longleftrightarrow>
     (\<forall>w w' x. f w = Inr (w', x) \<longrightarrow> extends w w' \<and>
        (\<forall>c. in_step w c \<longrightarrow> fits w' c \<longrightarrow>
          (\<exists>c'. g c = Inr (c', x) \<and> in_step w' c' \<and> hasher_limits c' = hasher_limits c)))"

definition with_unit :: "('s \<Rightarrow> ('s, 'e) result) \<Rightarrow> 's \<Rightarrow> ('s \<times> unit, 'e) result" where
  "with_unit f s = and_then (f s) (\<lambda>s. Inr (s, ()))"

abbreviation mirrors_state ::
  "(archive_writer \<Rightarrow> (archive_writer, snapshot_archive_error) result) \<Rightarrow>
    (canonical_hasher \<Rightarrow> (canonical_hasher, snapshot_identity_error) result) \<Rightarrow> bool" where
  "mirrors_state f g \<equiv> mirrors (with_unit f) (with_unit g)"

lemma with_unit_Ok: "with_unit f s = Inr (s', u) \<longleftrightarrow> f s = Inr s'"
  by (simp add: with_unit_def and_then_Ok_iff)

lemma extends_trans: "extends w w' \<Longrightarrow> extends w' w'' \<Longrightarrow> extends w w''"
  by (auto simp: extends_def)

lemma extends_refl: "extends w w" by (simp add: extends_def)

lemma fits_extends: "extends w w' \<Longrightarrow> fits w' c \<Longrightarrow> fits w c"
  by (auto simp: extends_def fits_def dest: prefix_length_le)

lemma mirrors_stateI:
  assumes "\<And>w w'. f w = Inr w' \<Longrightarrow> extends w w'"
    and "\<And>w w' c. f w = Inr w' \<Longrightarrow> in_step w c \<Longrightarrow> fits w' c \<Longrightarrow>
      \<exists>c'. g c = Inr c' \<and> in_step w' c' \<and> hasher_limits c' = hasher_limits c"
  shows "mirrors_state f g"
  using assms by (simp add: mirrors_def with_unit_Ok)

lemma mirrors_stateD:
  assumes "mirrors_state f g" and "f w = Inr w'"
  shows "extends w w'"
    and "in_step w c \<Longrightarrow> fits w' c \<Longrightarrow>
      \<exists>c'. g c = Inr c' \<and> in_step w' c' \<and> hasher_limits c' = hasher_limits c"
  using assms by (auto simp: mirrors_def with_unit_Ok)

lemma mirrors_then:
  assumes "mirrors f g" and "\<And>x. mirrors_state (f' x) (g' x)"
  shows "mirrors_state (\<lambda>w. and_then (f w) (\<lambda>(w, x). f' x w)) (\<lambda>c. and_then (g c) (\<lambda>(c, x). g' x c))"
proof (rule mirrors_stateI)
  fix w w'
  assume "and_then (f w) (\<lambda>(w, x). f' x w) = Inr w'"
  then obtain w1 x where f: "f w = Inr (w1, x)" and f': "f' x w1 = Inr w'" by (auto simp: and_then_Ok_iff)
  have ext: "extends w w1" using assms(1) f by (auto simp: mirrors_def)
  have ext': "extends w1 w'" using mirrors_stateD(1) [OF assms(2) f'] .
  show "extends w w'" using ext ext' by (rule extends_trans)
  fix c
  assume "in_step w c" and fits: "fits w' c"
  then obtain c1 where c1: "g c = Inr (c1, x)" "in_step w1 c1" "hasher_limits c1 = hasher_limits c"
    using assms(1) f fits_extends [OF ext' fits] unfolding mirrors_def by metis
  have "fits w' c1" using fits c1(3) by (simp add: fits_def)
  then show "\<exists>c'. and_then (g c) (\<lambda>(c, x). g' x c) = Inr c' \<and> in_step w' c' \<and> hasher_limits c' = hasher_limits c"
    using mirrors_stateD(2) [OF assms(2) f' c1(2)] c1(1,3) by (auto simp: and_then_Ok_iff)
qed

lemma with_unit_then: "and_then (with_unit f s) (\<lambda>(s, x). f' s) = and_then (f s) f'"
  by (auto simp: with_unit_def and_then_def split: sum.splits)

lemma mirrors_seq:
  assumes "mirrors_state f g" and "mirrors_state f' g'"
  shows "mirrors_state (\<lambda>w. and_then (f w) f') (\<lambda>c. and_then (g c) g')"
  using mirrors_then [OF assms(1), of "\<lambda>_. f'" "\<lambda>_. g'"] assms(2) unfolding with_unit_then .

lemma mirrors_call:
  assumes "\<And>x. m = Inr x \<Longrightarrow> mirrors_state (f x) (g x)"
  shows "mirrors_state (\<lambda>w. and_then (map_err e m) (\<lambda>x. f x w)) (\<lambda>c. and_then (map_err e' m) (\<lambda>x. g x c))"
  using assms by (cases m) (simp_all add: and_then_def mirrors_def with_unit_def)

lemma mirrors_if:
  "(b \<Longrightarrow> mirrors_state f g) \<Longrightarrow> (\<not> b \<Longrightarrow> mirrors_state f' g') \<Longrightarrow>
    mirrors_state (\<lambda>w. if b then f w else f' w) (\<lambda>c. if b then g c else g' c)"
  by (cases b) simp_all

lemma mirrors_Err: "mirrors_state (\<lambda>w. Inl e) (\<lambda>c. Inl e')"
  by (rule mirrors_stateI) auto

lemma mirrors_fold:
  assumes "\<And>x. x \<in> set xs \<Longrightarrow> mirrors_state (\<lambda>w. f w x) (\<lambda>c. g c x)"
  shows "mirrors_state (\<lambda>w. fold_result f w xs) (\<lambda>c. fold_result g c xs)"
  using assms
proof (induction xs)
  case Nil
  show ?case by (rule mirrors_stateI) (auto simp: extends_refl)
next
  case (Cons x xs)
  then show ?case
    unfolding fold_result_and_then by (intro mirrors_seq) simp_all
qed

section \<open>The primitive operations\<close>

lemma in_step_length:
  "in_step w c \<Longrightarrow> length (writer_bytes w) + length CANONICAL_MAGIC = length (hashed c) + length ARCHIVE_MAGIC + 8"
  by (auto simp: in_step_def)

lemma mirrors_push: "mirrors_state (writer_append bs) (hasher_update bs)"
proof (rule mirrors_stateI)
  fix w w'
  assume ok: "writer_append bs w = Inr w'"
  then show "extends w w'"
    by (auto simp: writer_append_def and_then_Ok_iff ok_or_Ok_iff extends_def split: if_splits)
  fix c
  assume step: "in_step w c" and fits: "fits w' c"
  have w': "w' = writer_put bs w" using ok writer.push_Ok step by (auto simp: in_step_def)
  have room: "length (hashed c) + length bs \<le> max_bytes (hasher_limits c)"
    using fits in_step_length [OF step] unfolding w' fits_def writer_put_def by simp
  have good: "hasher_good c" using step by (simp add: in_step_def)
  have "hasher_update bs c = Inr (hasher_put bs c)" using hasher.push_Ok [OF good] room by blast
  moreover have "in_step w' (hasher_put bs c)"
    using step hasher.good_put [OF good room]
    by (auto simp: in_step_def w' writer_put_def hasher_put_def writer_good_def)
  ultimately show "\<exists>c'. hasher_update bs c = Inr c' \<and> in_step w' c' \<and> hasher_limits c' = hasher_limits c"
    by (auto simp: hasher_put_def)
qed

lemma mirrors_node: "mirrors_state reserve_node consume_node"
proof (rule mirrors_stateI)
  fix w w'
  assume ok: "reserve_node w = Inr w'"
  then have n: "checked_add_usize (writer_nodes w) 1 = Some (writer_nodes w + 1)"
      "writer_nodes w + 1 \<le> max_archive_nodes (writer_limits w)" "w' = w\<lparr>writer_nodes := writer_nodes w + 1\<rparr>"
    by (auto simp: reserve_node_def and_then_Ok_iff ok_or_Ok_iff checked_add_usize_def not_less split: if_splits)
  then show "extends w w'" by (simp add: extends_def)
  fix c
  assume step: "in_step w c"
  then have "consume_node c = Inr (c\<lparr>nodes := nodes c + 1\<rparr>)"
    using n(1,2) by (simp add: consume_node_def and_then_def ok_or_def in_step_def)
  then show "\<exists>c'. consume_node c = Inr c' \<and> in_step w' c' \<and> hasher_limits c' = hasher_limits c"
    using step n(2,3) by (auto simp: in_step_def writer_good_def hasher_good_def)
qed

lemma mirrors_prefix: "mirrors_state (writer_record_prefix tag path) (hasher_record_prefix tag path)"
  unfolding writer_record_prefix_def [abs_def] hasher_record_prefix_def [abs_def]
  by (intro mirrors_if mirrors_Err mirrors_seq mirrors_push)

lemma mirrors_directory:
  "mirrors_state (writer_record_directory path mode) (hasher_record_directory path mode)"
  unfolding writer_record_directory_def [abs_def] hasher_record_directory_def [abs_def] DIRECTORY_TAG_def
  by (intro mirrors_seq mirrors_prefix mirrors_push)

lemma mirrors_file: "mirrors_state (writer_begin_file path mode n) (hasher_begin_file path mode n)"
  unfolding writer_begin_file_def [abs_def] hasher_begin_file_def [abs_def] FILE_TAG_def
  by (intro mirrors_seq mirrors_prefix mirrors_push)

lemma mirrors_symlink: "mirrors_state (writer_record_symlink path target) (hasher_record_symlink path target)"
  unfolding writer_record_symlink_def [abs_def] hasher_record_symlink_def [abs_def] SYMLINK_TAG_def
  by (intro mirrors_if mirrors_Err mirrors_seq mirrors_prefix mirrors_push)

section \<open>Loops\<close>

lemma mirrors_pairI:
  assumes "\<And>w w' x. f w = Inr (w', x) \<Longrightarrow> extends w w'"
    and "\<And>w w' x c. f w = Inr (w', x) \<Longrightarrow> in_step w c \<Longrightarrow> fits w' c \<Longrightarrow>
      \<exists>c'. g c = Inr (c', x) \<and> in_step w' c' \<and> hasher_limits c' = hasher_limits c"
  shows "mirrors f g"
  using assms unfolding mirrors_def by blast

lemma mirrors_return: "mirrors (\<lambda>w. Inr (w, x)) (\<lambda>c. Inr (c, x))"
  by (auto simp: mirrors_def extends_refl)

lemma mirrors_fail: "mirrors (\<lambda>w. Inl e) (\<lambda>c. Inl e')"
  by (simp add: mirrors_def)

lemma mirrors_bind:
  assumes "mirrors f g" and "\<And>x. mirrors (f' x) (g' x)"
  shows "mirrors (\<lambda>w. and_then (f w) (\<lambda>(w, x). f' x w)) (\<lambda>c. and_then (g c) (\<lambda>(c, x). g' x c))"
proof (rule mirrors_pairI)
  fix w w' y
  assume "and_then (f w) (\<lambda>(w, x). f' x w) = Inr (w', y)"
  then obtain w1 x where f: "f w = Inr (w1, x)" and f': "f' x w1 = Inr (w', y)" by (auto simp: and_then_Ok_iff)
  have ext: "extends w w1" using assms(1) f by (auto simp: mirrors_def)
  have ext': "extends w1 w'" using assms(2) f' by (fastforce simp: mirrors_def)
  show "extends w w'" using ext ext' by (rule extends_trans)
  fix c
  assume "in_step w c" and fits: "fits w' c"
  then obtain c1 where c1: "g c = Inr (c1, x)" "in_step w1 c1" "hasher_limits c1 = hasher_limits c"
    using assms(1) f fits_extends [OF ext' fits] unfolding mirrors_def by metis
  have "fits w' c1" using fits c1(3) by (simp add: fits_def)
  then obtain c' where "g' x c1 = Inr (c', y)" "in_step w' c'" "hasher_limits c' = hasher_limits c1"
    using assms(2) [of x] f' c1(2) unfolding mirrors_def by metis
  then show "\<exists>c'. and_then (g c) (\<lambda>(c, x). g' x c) = Inr (c', y) \<and> in_step w' c' \<and> hasher_limits c' = hasher_limits c"
    using c1(1,3) by (auto simp: and_then_Ok_iff)
qed

lemma mirrors_after:
  assumes "mirrors_state f g" and "mirrors f' g'"
  shows "mirrors (\<lambda>w. and_then (f w) f') (\<lambda>c. and_then (g c) g')"
  using mirrors_bind [OF assms(1), of "\<lambda>_. f'" "\<lambda>_. g'"] assms(2) unfolding with_unit_then .

lemma mirrors_cond:
  "(b \<Longrightarrow> mirrors f g) \<Longrightarrow> (\<not> b \<Longrightarrow> mirrors f' g') \<Longrightarrow>
    mirrors (\<lambda>w. if b then f w else f' w) (\<lambda>c. if b then g c else g' c)"
  by (cases b) simp_all

lemma mirrors_dirents:
  "mirrors (\<lambda>w. parse_dirents bad reserve_node buf offset (w, names))
     (\<lambda>c. parse_dirents bad' consume_node buf offset (c, names))"
proof (induction "length buf - offset" arbitrary: offset names rule: less_induct)
  case less
  show ?case
    unfolding parse_dirents.simps [of _ _ buf offset] Let_def
    by (intro mirrors_cond mirrors_return mirrors_fail mirrors_after mirrors_node less) auto
qed

lemma mirrors_enumerate:
  "mirrors (\<lambda>w. enumerate_loop eintr io (\<lambda>buf. parse_dirents bad reserve_node buf 0) rs (w, names))
     (\<lambda>c. enumerate_loop eintr io' (\<lambda>buf. parse_dirents bad' consume_node buf 0) rs (c, names))"
proof (induction rs arbitrary: names)
  case Nil
  show ?case by (simp add: mirrors_return)
next
  case (Cons r rs)
  show ?case
  proof (cases r)
    case (Inl e)
    show ?thesis unfolding Inl enumerate_loop.simps by (intro mirrors_cond mirrors_fail Cons)
  next
    case (Inr buf)
    have eta: "enumerate_loop eintr io body rs = (\<lambda>(s, names). enumerate_loop eintr io body rs (s, names))"
      for io :: "errno \<Rightarrow> 'e" and body :: "bytes \<Rightarrow> 's \<times> bytes list \<Rightarrow> ('s \<times> bytes list, 'e) result"
      by auto
    show ?thesis
      unfolding Inr enumerate_loop.simps
      by (subst (1 2) eta) (intro mirrors_cond mirrors_return mirrors_bind mirrors_dirents Cons)
  qed
qed

lemma mirrors_copy:
  "mirrors (\<lambda>w. copy_loop eintr io shrank writer_append n w rs) (\<lambda>c. copy_loop eintr io' shrank' hasher_update n c rs)"
proof (induction rs arbitrary: n)
  case Nil
  show ?case by (cases "n = 0") (simp_all add: mirrors_return mirrors_fail)
next
  case (Cons r rs)
  show ?case
  proof (cases r)
    case (Inl e)
    show ?thesis unfolding Inl copy_loop.simps sum.case
      by (intro mirrors_cond mirrors_return mirrors_fail Cons)
  next
    case (Inr bs)
    show ?thesis unfolding Inr copy_loop.simps sum.case Let_def
      by (intro mirrors_cond mirrors_return mirrors_fail mirrors_after mirrors_push Cons)
  qed
qed

lemma extra_read_Ok: "extra_read eintr io grew rs = Inr () \<longleftrightarrow> extra_read eintr io' grew' rs = Inr ()"
proof (induction rs)
  case Nil
  show ?case by simp
next
  case (Cons r rs)
  then show ?case by (cases r) auto
qed

section \<open>The walks\<close>

lemma mirrors_left_fail: "mirrors_state (\<lambda>w. Inl e) g"
  by (rule mirrors_stateI) auto

lemma mirrors_ok_or:
  assumes "\<And>x. v = Some x \<Longrightarrow> mirrors_state (f x) (g x)"
  shows "mirrors_state (\<lambda>w. and_then (ok_or e v) (\<lambda>x. f x w)) (\<lambda>c. and_then (ok_or e' v) (\<lambda>x. g x c))"
  using assms by (cases v) (simp_all add: and_then_def ok_or_def mirrors_left_fail)

lemma mirrors_prod:
  assumes "\<And>a b. x = (a, b) \<Longrightarrow> mirrors_state (f a b) (g a b)"
  shows "mirrors_state (\<lambda>w. case x of (a, b) \<Rightarrow> f a b w) (\<lambda>c. case x of (a, b) \<Rightarrow> g a b c)"
  using assms by (cases x) simp

lemma mirrors_call_pair:
  assumes "\<And>x. m = Inr x \<Longrightarrow> mirrors (f x) (g x)"
  shows "mirrors (\<lambda>w. and_then (map_err e m) (\<lambda>x. f x w)) (\<lambda>c. and_then (map_err e' m) (\<lambda>x. g x c))"
  using assms by (cases m) (simp_all add: and_then_def mirrors_fail)

lemma mirrors_names: "mirrors (read_directory_names_bounded h relative) (read_directory_names h relative)"
  unfolding read_directory_names_bounded_def [abs_def] read_directory_names_def [abs_def]
  by (intro mirrors_call_pair mirrors_bind mirrors_enumerate mirrors_return)

lemma mirrors_extra:
  "mirrors_state (\<lambda>w. and_then (extra_read eintr io grew rs) (\<lambda>_. Inr w))
     (\<lambda>c. and_then (extra_read eintr io' grew' rs) (\<lambda>_. Inr c))"
proof (rule mirrors_stateI)
  fix w w' :: archive_writer assume "and_then (extra_read eintr io grew rs) (\<lambda>_. Inr w) = Inr w'"
  then have ok: "extra_read eintr io grew rs = Inr ()" "w' = w" by (auto simp: and_then_Ok_iff)
  then show "extends w w'" by (simp add: extends_refl)
  fix c assume "in_step w c"
  moreover have "extra_read eintr io' grew' rs = Inr ()"
    using ok(1) extra_read_Ok [where io = io and grew = grew and io' = io' and grew' = grew'] by blast
  ultimately show "\<exists>c'. and_then (extra_read eintr io' grew' rs) (\<lambda>_. Inr c) = Inr c' \<and> in_step w' c' \<and>
      hasher_limits c' = hasher_limits c"
    using ok(2) by (simp add: and_then_def)
qed

lemma mirrors_regular_file:
  "mirrors_state (serialize_regular_file h relative path) (hash_regular_file h relative path)"
  unfolding serialize_regular_file_def [abs_def] hash_regular_file_def [abs_def] Let_def
  by (intro mirrors_call mirrors_prod mirrors_if mirrors_Err mirrors_seq mirrors_file mirrors_then
      mirrors_copy mirrors_extra)

lemma mirrors_link: "mirrors_state (serialize_symlink h relative path) (hash_symlink h relative path)"
proof -
  have "mirrors_state
      (\<lambda>w. if length t = 0 \<or> length t = MAX_SYMLINK_TARGET_BYTES + 1
         then Err (archive_invalid ''snapshot symlink target is empty or exceeds 4095 bytes'')
         else writer_record_symlink path t w)
      (\<lambda>c. if length t = MAX_SYMLINK_TARGET_BYTES + 1
         then Err (Identity_InvalidInput ''snapshot symlink target exceeds 4095 bytes'' [])
         else hasher_record_symlink path t c)" for t
    using mirrors_symlink [of path t]
    by (cases "length t = 0 \<or> length t = MAX_SYMLINK_TARGET_BYTES + 1") (auto simp: mirrors_left_fail)
  then show ?thesis
    unfolding serialize_symlink_def [abs_def] hash_symlink_def [abs_def] Let_def
    by (intro mirrors_call)
qed

lemma mirrors_walk: "mirrors_state (serialize_directory h relative depth) (hash_directory h relative depth)"
proof (induction "65 - depth" arbitrary: relative depth rule: less_induct)
  case less
  have deeper: "mirrors_state (serialize_directory h child (depth + 1)) (hash_directory h child (depth + 1))"
    if "\<not> MAX_TREE_DEPTH < depth" for child
    by (rule less) (use that in \<open>simp add: MAX_TREE_DEPTH_def\<close>)
  show ?case
    unfolding serialize_directory.simps [of h relative depth, abs_def] hash_directory.simps [of h relative depth, abs_def]
      archive_join_def identity_join_def Let_def
    by (intro mirrors_if mirrors_Err mirrors_then mirrors_names mirrors_fold mirrors_ok_or mirrors_call
        mirrors_prod mirrors_seq mirrors_directory mirrors_regular_file mirrors_link deeper)
qed

section \<open>The two identities of a tree\<close>

lemma writer_new_header:
  assumes "writer_new lims = Inr w" and "max_archive_bytes lims < 2 ^ 64"
  shows "w = \<lparr>writer_bytes = ARCHIVE_MAGIC @ le_bytes 8 0, writer_limits = lims, writer_nodes = 0\<rparr>"
proof -
  let ?w0 = "\<lparr>writer_bytes = [], writer_limits = lims, writer_nodes = 0\<rparr>"
  have good: "writer_good ?w0" using assms(2) by (simp add: writer_good_def)
  have "fold_result (\<lambda>w bs. writer_append bs w) ?w0 [ARCHIVE_MAGIC, le_bytes 8 0] = Inr w"
    using assms(1) unfolding writer_new_def fold_result_and_then by (simp add: and_then_Ok_right del: le_bytes.simps)
  then show ?thesis
    using writer.pushes_Ok [OF good, of "[ARCHIVE_MAGIC, le_bytes 8 0]" w]
    by (simp add: writer_put_def del: fold_result.simps(2) le_bytes.simps)
qed

lemma in_step_start:
  assumes "writer_new lims = Inr w" and "max_archive_bytes lims < 2 ^ 64" and "max_bytes lims' < 2 ^ 64"
    and "max_nodes lims' = max_archive_nodes lims" and "length CANONICAL_MAGIC \<le> max_bytes lims'"
  obtains c where "hasher_new lims' = Inr c" "in_step w c" "hasher_limits c = lims'"
proof -
  let ?c0 = "\<lparr>hashed = [], hasher_limits = lims', encoded_bytes = 0, nodes = 0\<rparr>"
  have good: "hasher_good ?c0" using assms(3) by (simp add: hasher_good_def)
  have c: "hasher_new lims' = Inr (hasher_put CANONICAL_MAGIC ?c0)"
    unfolding hasher_new_def using hasher.push_Ok [OF good] assms(5) by simp
  have "in_step w (hasher_put CANONICAL_MAGIC ?c0)"
    using assms(2,3,4) writer_new_header [OF assms(1,2)]
    by (simp add: in_step_def hasher_put_def writer_good_def hasher_good_def)
  then show thesis using that [OF c] by (simp add: hasher_put_def)
qed

lemma finish_parsed:
  assumes recs: "writer_bytes w = ARCHIVE_MAGIC @ le_bytes 8 0 @ recs"
    and lims: "validate_archive_limits (writer_limits w) = Inr ()" and fin: "writer_finish sha256 w = Inr archive"
  obtains es where "le_bytes 8 (writer_nodes w) = le_bytes 8 (length es)" "recs = encode_entries es"
    "within_limits (writer_limits w) es" "archive_identity archive = entries_identity sha256 es"
    "canonical_entries es" "archive_bytes archive = encode_archive es"
proof -
  have out: "archive_bytes archive = ARCHIVE_MAGIC @ le_bytes 8 (writer_nodes w) @ recs"
    and parsed: "\<exists>p. parse_archive sha256 (archive_bytes archive) (writer_limits w) = Inr p \<and>
      archive_identity archive = parsed_identity p"
    using fin by (auto simp: writer_finish_def recs Let_def and_then_Ok_iff simp del: le_bytes.simps)
  from parsed obtain p where "parse_archive sha256 (archive_bytes archive) (writer_limits w) = Inr p"
      "archive_identity archive = parsed_identity p"
    by blast
  then have p: "archive_bytes archive = encode_archive (parsed_entries p)"
      "within_limits (writer_limits w) (parsed_entries p)"
      "archive_identity archive = entries_identity sha256 (parsed_entries p)"
      "canonical_entries (parsed_entries p)"
    unfolding parse_archive_iff [OF lims] by simp_all
  then show thesis using out by (intro that [of "parsed_entries p"]) (simp_all add: encode_archive_def del: le_bytes.simps)
qed

lemma finish_in_step:
  assumes step: "in_step w c" and lims: "validate_archive_limits (writer_limits w) = Inr ()"
    and fin: "writer_finish sha256 w = Inr archive"
  shows "archive_identity archive = hasher_finish sha256 c"
proof -
  obtain recs where recs: "writer_bytes w = ARCHIVE_MAGIC @ le_bytes 8 0 @ recs" "hashed c = CANONICAL_MAGIC @ recs"
    using step by (auto simp: in_step_def)
  obtain es where es: "le_bytes 8 (writer_nodes w) = le_bytes 8 (length es)" "recs = encode_entries es"
    "within_limits (writer_limits w) es" "archive_identity archive = entries_identity sha256 es"
    using finish_parsed [OF recs(1) lims fin] .
  have "writer_nodes w < 2 ^ 64" "length es < 2 ^ 64"
    using step es(3) limits_small(3) [OF lims] by (auto simp: in_step_def within_limits_def)
  then have "writer_nodes w = length es"
    using es(1) le_bytes_inject [of "writer_nodes w" 8 "length es"] by simp
  then show ?thesis
    using step es(2,4) recs(2) by (simp add: entries_identity_def hasher_finish_def in_step_def hasher_good_def)
qed

lemma capture_identity:
  assumes "serialize_snapshot_archive sha256 h root lims = Inr archive"
    and "validate_identity_limits lims' = Inr ()"
    and "max_nodes lims' = max_archive_nodes lims" and "max_identity_bytes lims \<le> max_bytes lims'"
  shows "snapshot_sha256 sha256 h root lims' = Inr (archive_identity archive)"
proof -
  obtain canonical root_mode size w0 w3 where
      lims: "validate_archive_limits lims = Inr ()" and root: "is_absolute root"
    and canonical: "sys_canonicalize h root = Inr canonical" "CHR 0x00 \<notin> set canonical" "sys_open_root h canonical = Inr ()"
    and stat: "sys_fstat h [] = Inr (root_mode, size)" "root_mode AND S_IFMT h = S_IFDIR h"
    and new: "writer_new lims = Inr w0"
    and walk: "and_then (reserve_node w0) (\<lambda>w. and_then (writer_record_directory (b_lit ''/'') (root_mode AND 0xFFF) w)
        (serialize_directory h [] 0)) = Inr w3"
    and fin: "writer_finish sha256 w3 = Inr archive"
    using assms(1)
    by (auto simp: serialize_snapshot_archive_def serialize_root_def and_then_Ok_iff map_err_Ok split: if_splits)
  have small: "max_bytes lims' < 2 ^ 64"
    using assms(2) by (auto simp: validate_identity_limits_def ok_simps MAX_IDENTITY_BYTES_def)
  have step: "mirrors_state
      (\<lambda>w. and_then (reserve_node w) (\<lambda>w. and_then (writer_record_directory (b_lit ''/'') (root_mode AND 0xFFF) w) (serialize_directory h [] 0)))
      (\<lambda>c. and_then (consume_node c) (\<lambda>c. and_then (hasher_record_directory (b_lit ''/'') (root_mode AND 0xFFF) c) (hash_directory h [] 0)))"
    by (intro mirrors_seq mirrors_node mirrors_directory mirrors_walk)
  have ext: "extends w0 w3" using step walk by (rule mirrors_stateD(1))
  obtain recs where recs: "writer_bytes w3 = ARCHIVE_MAGIC @ le_bytes 8 0 @ recs" "writer_limits w3 = lims"
    using ext writer_new_header [OF new limits_small(1) [OF lims]] by (auto simp: extends_def prefix_def)
  obtain es where es: "recs = encode_entries es" "within_limits lims es"
    using finish_parsed [OF recs(1) _ fin] recs(2) lims by auto
  have fit: "length CANONICAL_MAGIC + length recs \<le> max_bytes lims'"
    using es assms(4) by (simp add: within_limits_def)
  obtain c0 where c0: "hasher_new lims' = Inr c0" "in_step w0 c0" "hasher_limits c0 = lims'"
    using in_step_start [OF new limits_small(1) [OF lims] small assms(3)] fit by auto
  have "fits w3 c0" using fit c0(3) recs(1) by (simp add: fits_def)
  then obtain c3 where c3: "in_step w3 c3"
    "and_then (consume_node c0) (\<lambda>c. and_then (hasher_record_directory (b_lit ''/'') (root_mode AND 0xFFF) c)
       (hash_directory h [] 0)) = Inr c3"
    using mirrors_stateD(2) [OF step walk c0(2)] by blast
  have "archive_identity archive = hasher_finish sha256 c3"
    using finish_in_step [OF c3(1) _ fin] recs(2) lims by simp
  then show ?thesis
    using assms(2) root canonical stat c0(1) c3(2)
    by (auto simp: snapshot_sha256_def hash_root_def and_then_Ok_iff map_err_Ok)
qed

text \<open>
  C33: Capturing a tree and hashing it agree: when the archive of a tree is produced, the walk that
  hashes the live tree over the same answers of the kernel succeeds, under any limits at least as
  large, and returns the identity stored with the archive.
\<close>

theorem capture_identity_agrees:
  assumes "serialize_snapshot_archive sha256 h root lims = Inr archive"
    and "validate_identity_limits lims' = Inr ()"
    and "max_nodes lims' = max_archive_nodes lims" and "max_identity_bytes lims \<le> max_bytes lims'"
  shows "snapshot_sha256 sha256 h root lims' = Inr (archive_identity archive)"
  using assms by (rule capture_identity)

end
