(* ===== verification/Dirents.thy ===== *)
theory Dirents
  imports Snapshot_Identity
begin

text \<open>
  Directory entries as \<open>getdents64\<close> lays them out, and the parser of the enumeration loop on
  them: it reads exactly the names, without the two dot entries, and charges one unit of the
  node budget for each.
\<close>

record linux_dirent64 =
  d_head :: bytes
  d_type :: u8
  d_name :: bytes
  d_pad :: bytes

definition dirent_length :: "linux_dirent64 \<Rightarrow> nat" where
  "dirent_length d = 20 + length (d_name d) + length (d_pad d)"

definition encode_dirent :: "linux_dirent64 \<Rightarrow> bytes" where
  "encode_dirent d = d_head d @ le_bytes 2 (dirent_length d) @ [d_type d] @ d_name d @ [0] @ d_pad d"

definition dirent_ok :: "linux_dirent64 \<Rightarrow> bool" where
  "dirent_ok d \<longleftrightarrow> length (d_head d) = 16 \<and> 0 \<notin> set (d_name d) \<and> dirent_length d < 2 ^ 16"

definition visible_names :: "linux_dirent64 list \<Rightarrow> bytes list" where
  "visible_names ds = filter (\<lambda>n. n \<noteq> b_lit ''.'' \<and> n \<noteq> b_lit ''..'') (map d_name ds)"

lemma length_encode_dirent: "dirent_ok d \<Longrightarrow> length (encode_dirent d) = dirent_length d"
  by (simp add: encode_dirent_def dirent_ok_def dirent_length_def)

lemma encode_dirent_fields:
  assumes "dirent_ok d"
  shows "unat (encode_dirent d ! 16) + 256 * unat (encode_dirent d ! 17) = dirent_length d"
    and "drop 19 (encode_dirent d) = d_name d @ 0 # d_pad d"
proof -
  have bytes: "le_bytes 2 n = [of_nat n, of_nat (n div 256)]" for n
    by (simp add: numeral_2_eq_2)
  have "from_le (le_bytes 2 (dirent_length d)) = dirent_length d"
    using assms by (simp add: from_le_bytes dirent_ok_def)
  then show "unat (encode_dirent d ! 16) + 256 * unat (encode_dirent d ! 17) = dirent_length d"
    using assms by (simp add: encode_dirent_def dirent_ok_def nth_append bytes)
  show "drop 19 (encode_dirent d) = d_name d @ 0 # d_pad d"
    using assms by (simp add: encode_dirent_def dirent_ok_def)
qed

lemma parse_one_dirent:
  assumes "dirent_ok d" and buf: "buf = pre @ encode_dirent d @ rest"
  shows "parse_dirents bad reserve buf (length pre) (s, names) =
    (if d_name d = b_lit ''.'' \<or> d_name d = b_lit ''..''
     then parse_dirents bad reserve buf (length pre + dirent_length d) (s, names)
     else and_then (reserve s) (\<lambda>s.
       parse_dirents bad reserve buf (length pre + dirent_length d) (s, names @ [d_name d])))"
proof -
  note len = length_encode_dirent [OF assms(1)]
  have at: "i < dirent_length d \<Longrightarrow> buf ! (length pre + i) = encode_dirent d ! i" for i
    using len by (simp add: buf nth_append)
  have size: "20 \<le> dirent_length d" "length buf = length pre + dirent_length d + length rest"
    using len by (simp_all add: buf dirent_length_def)
  have reclen: "unat (buf ! (length pre + 16)) + 256 * unat (buf ! (length pre + 17)) = dirent_length d"
    using at [of 16] at [of 17] size(1) encode_dirent_fields(1) [OF assms(1)] by simp
  have "drop (length pre + 19) buf = drop 19 (encode_dirent d) @ rest"
    using size(1) len by (simp add: buf)
  then have region: "take (dirent_length d - 19) (drop (length pre + 19) buf) = d_name d @ 0 # d_pad d"
    unfolding encode_dirent_fields(2) [OF assms(1)] by (simp add: dirent_length_def)
  have name: "takeWhile (\<lambda>b. b \<noteq> 0) (d_name d @ 0 # d_pad d) = d_name d"
    using assms(1) by (simp add: dirent_ok_def takeWhile_append takeWhile_eq_all_conv)
  show ?thesis
    using size
    by (subst parse_dirents.simps) (simp add: Let_def reclen region name)
qed

lemma parse_dirents_encoded:
  assumes "list_all dirent_ok ds"
  shows "parse_dirents bad reserve (pre @ concat (map encode_dirent ds)) (length pre) (s, names) =
    and_then (fold_result (\<lambda>s _. reserve s) s (visible_names ds)) (\<lambda>s. Inr (s, names @ visible_names ds))"
  using assms
proof (induction ds arbitrary: pre s names)
  case Nil
  show ?case by (subst parse_dirents.simps) (simp add: visible_names_def and_then_def)
next
  case (Cons d ds)
  let ?buf = "pre @ encode_dirent d @ concat (map encode_dirent ds)"
  have more: "parse_dirents bad reserve ?buf (length pre + dirent_length d) (s, names) =
      and_then (fold_result (\<lambda>s _. reserve s) s (visible_names ds)) (\<lambda>s. Inr (s, names @ visible_names ds))" for s names
    using Cons.IH [of "pre @ encode_dirent d" s names] Cons.prems length_encode_dirent [of d] by simp
  show ?case
    using parse_one_dirent [of d ?buf pre "concat (map encode_dirent ds)" bad reserve s names] Cons.prems
    by (auto simp: more visible_names_def and_then_def split: sum.splits)
qed

lemma enumerate_encoded:
  assumes "list_all (list_all dirent_ok) dss" and "\<forall>ds\<in>set dss. ds \<noteq> []"
  shows "enumerate_loop eintr io (\<lambda>buf. parse_dirents bad reserve buf 0)
      (map (\<lambda>ds. Inr (concat (map encode_dirent ds))) dss) (s, names) =
    and_then (fold_result (\<lambda>s _. reserve s) s (visible_names (concat dss)))
      (\<lambda>s. Inr (s, names @ visible_names (concat dss)))"
  using assms
proof (induction dss arbitrary: s names)
  case Nil
  show ?case by (simp add: visible_names_def and_then_def)
next
  case (Cons ds dss)
  have "encode_dirent d \<noteq> []" for d by (simp add: encode_dirent_def)
  then have "concat (map encode_dirent ds) \<noteq> []" using Cons.prems(2) by (cases ds) auto
  moreover have "parse_dirents bad reserve (concat (map encode_dirent ds)) 0 (s, names) =
      and_then (fold_result (\<lambda>s _. reserve s) s (visible_names ds)) (\<lambda>s. Inr (s, names @ visible_names ds))"
    using parse_dirents_encoded [of ds bad reserve "[]" s names] Cons.prems(1) by simp
  ultimately show ?case
    using Cons by (auto simp: visible_names_def fold_result_append and_then_def split: sum.splits)
qed

end
