(* ===== verification/Snapshot_Examples.thy ===== *)
theory Snapshot_Examples
  imports Snapshot_Mirror Dirents
begin

unbundle bit_operations_syntax

text \<open>
  Concrete trees: the answers of the kernel for two small snapshot roots.
\<close>

definition plain_dirent :: "string \<Rightarrow> linux_dirent64" where
  "plain_dirent name = \<lparr>d_head = replicate 16 0, d_type = 0, d_name = b_lit name, d_pad = []\<rparr>"

definition tree_host :: "(string \<Rightarrow> (u32 \<times> string list \<times> string) option) \<Rightarrow> host" where
  "tree_host t =
     (let node = (\<lambda>p. t (map (\<lambda>b. char_of (unat b)) p)) in
      \<lparr>EINTR = 4, S_IFMT = 0xF000, S_IFDIR = 0x4000, S_IFREG = 0x8000, S_IFLNK = 0xA000,
       sys_canonicalize = Inr, sys_open_root = (\<lambda>_. Inr ()),
       sys_open_directory = (\<lambda>_. Inr ()), sys_open_file = (\<lambda>_. Inr ()),
       sys_fstatat = (\<lambda>p. case node p of None \<Rightarrow> Inl 2 | Some (mode, _) \<Rightarrow> Inr mode),
       sys_fstat = (\<lambda>p. case node p of None \<Rightarrow> Inl 2 | Some (mode, _, content) \<Rightarrow> Inr (mode, int (length content))),
       sys_lseek = (\<lambda>_. Inr ()),
       sys_getdents64 = (\<lambda>p. case node p of None \<Rightarrow> [] | Some (_, names, _) \<Rightarrow>
         if names = [] then [] else [Inr (concat (map encode_dirent (map plain_dirent names)))]),
       sys_read = (\<lambda>p. case node p of None \<Rightarrow> [] | Some (_, _, content) \<Rightarrow> [Inr (b_lit content)]),
       sys_readlinkat = (\<lambda>p. case node p of None \<Rightarrow> Inl 2 | Some (_, _, content) \<Rightarrow> Inr (b_lit content))\<rparr>)"

text \<open>A directory \<open>a\<close> with an empty file \<open>b\<close>, beside an empty file \<open>a.txt\<close>.\<close>

definition sibling_tree :: "string \<Rightarrow> (u32 \<times> string list \<times> string) option" where
  "sibling_tree = map_of [('''', (0x41ED, [''a.txt'', ''a''], '''')), (''a'', (0x41ED, [''b''], '''')),
     (''a/b'', (0x81A4, [], '''')), (''a.txt'', (0x81A4, [], ''''))]"

text \<open>One file \<open>payload\<close>.\<close>

definition plain_tree :: "string \<Rightarrow> (u32 \<times> string list \<times> string) option" where
  "plain_tree = map_of [('''', (0x41ED, [''payload''], '''')), (''payload'', (0x81A4, [], ''data''))]"

definition example_limits :: snapshot_archive_limits where
  "example_limits = \<lparr>max_archive_bytes = 4096, max_identity_bytes = 4096, max_archive_nodes = 16\<rparr>"

definition example_sha256 :: "bytes \<Rightarrow> bytes" where
  "example_sha256 bs = replicate 32 (of_nat (length bs))"

section \<open>Evaluation\<close>

lemma unat_of_char: "unat (of_char c :: u8) = of_char c"
proof -
  have "(of_char c :: u8) = of_nat (of_char c)" by (simp add: of_nat_of_char)
  then show ?thesis by (simp add: unat_of_nat take_bit_eq_mod del: of_nat_of_char)
qed

lemma char_of_b_lit [simp]: "map (\<lambda>b. char_of (unat b)) (b_lit s) = s"
  by (simp add: b_lit_def comp_def unat_of_char)

lemma zero_in_b_lit: "0 \<in> set (b_lit s) \<longleftrightarrow> CHR 0x00 \<in> set s"
proof -
  have "(of_char c :: u8) = 0 \<longleftrightarrow> c = CHR 0x00" for c
  proof
    assume "(of_char c :: u8) = 0"
    then have "of_char c = (of_char CHR 0x00 :: nat)" using unat_of_char [of c] by simp
    then show "c = CHR 0x00" by (simp only: of_char_eq_iff)
  qed simp
  then show ?thesis unfolding b_lit_def by (auto simp: image_iff)
qed

lemma b_lit_append: "b_lit (s @ t) = b_lit s @ b_lit t"
  by (simp add: b_lit_def)

lemma length_b_lit [simp]: "length (b_lit s) = length s"
  by (simp add: b_lit_def)

lemma b_lit_Nil [simp]: "b_lit '''' = []"
  by (simp add: b_lit_def)

lemma b_lit_eq_iff [simp]: "b_lit s = b_lit t \<longleftrightarrow> s = t"
  by (metis char_of_b_lit)

lemma b_lit_eq_Nil [simp]: "b_lit s = [] \<longleftrightarrow> s = []"
  by (simp add: b_lit_def)

lemma tree_host_constants [simp]:
  "EINTR (tree_host t) = 4" "S_IFMT (tree_host t) = 0xF000" "S_IFDIR (tree_host t) = 0x4000"
  "S_IFREG (tree_host t) = 0x8000" "S_IFLNK (tree_host t) = 0xA000"
  "sys_canonicalize (tree_host t) = Inr" "sys_open_root (tree_host t) r = Inr ()"
  "sys_open_directory (tree_host t) p = Inr ()" "sys_open_file (tree_host t) p = Inr ()"
  "sys_lseek (tree_host t) p = Inr ()"
  by (simp_all add: tree_host_def Let_def)

lemma tree_host_node:
  assumes "t p = Some (mode, names, content)"
  shows "sys_fstatat (tree_host t) (b_lit p) = Inr mode"
    and "sys_fstat (tree_host t) (b_lit p) = Inr (mode, int (length content))"
    and "sys_read (tree_host t) (b_lit p) = [Inr (b_lit content)]"
  using assms by (simp_all add: tree_host_def Let_def)

abbreviation writer_at :: "bytes \<Rightarrow> nat \<Rightarrow> archive_writer" where
  "writer_at bs n \<equiv> \<lparr>writer_bytes = bs, writer_limits = example_limits, writer_nodes = n\<rparr>"

lemma writer_at_append:
  "length bs + length xs \<le> 4096 \<Longrightarrow> writer_append xs (writer_at bs n) = Inr (writer_at (bs @ xs) n)"
  by (simp add: writer_append_def checked_add_usize_def and_then_def ok_or_def example_limits_def)

lemma writer_at_directory:
  "length bs + length (encode_entry (Directory path mode)) \<le> 4096 \<Longrightarrow>
    writer_record_directory path mode (writer_at bs n) = Inr (writer_at (bs @ encode_entry (Directory path mode)) n)"
  by (simp add: writer_record_directory_def writer_record_prefix_def and_then_def writer_at_append encode_entry_def)

lemma writer_at_file:
  assumes "t p = Some (mode, names, content)" and "mode AND 0xF000 = 0x8000"
    and "length bs + length (encode_entry (File path (mode AND 0xFFF) (b_lit content))) \<le> 4096"
  shows "serialize_regular_file (tree_host t) (b_lit p) path (writer_at bs n) =
    Inr (writer_at (bs @ encode_entry (File path (mode AND 0xFFF) (b_lit content))) n)"
proof -
  have "copy_loop 4 io shrank writer_append (length content) (writer_at ys n) [Inr (b_lit content)] =
      Inr (writer_at (ys @ b_lit content) n, if content = [] then [Inr []] else [])"
    if "length ys + length content \<le> 4096" for ys io shrank
    using that by (simp add: Let_def and_then_def writer_at_append)
  then show ?thesis
    using assms
    by (simp add: serialize_regular_file_def tree_host_node [where t = t and p = p] and_then_def Let_def
        writer_begin_file_def writer_record_prefix_def writer_at_append encode_entry_def)
qed

lemma reserve_names:
  "n + length names \<le> max_archive_nodes lims \<Longrightarrow> max_archive_nodes lims < 2 ^ 64 \<Longrightarrow>
    fold_result (\<lambda>w _. reserve_node w) \<lparr>writer_bytes = bs, writer_limits = lims, writer_nodes = n\<rparr> names =
    Inr \<lparr>writer_bytes = bs, writer_limits = lims, writer_nodes = n + length names\<rparr>"
  by (induction names arbitrary: n)
    (simp_all add: reserve_node_def checked_add_usize_def and_then_def ok_or_def)

lemma consume_names:
  "n + length names \<le> max_nodes lims \<Longrightarrow> max_nodes lims < 2 ^ 64 \<Longrightarrow>
    fold_result (\<lambda>c _. consume_node c) \<lparr>hashed = bs, hasher_limits = lims, encoded_bytes = k, nodes = n\<rparr> names =
    Inr \<lparr>hashed = bs, hasher_limits = lims, encoded_bytes = k, nodes = n + length names\<rparr>"
  by (induction names arbitrary: n)
    (simp_all add: consume_node_def checked_add_usize_def and_then_def ok_or_def)

lemma plain_dirent_ok: "CHR 0x00 \<notin> set name \<Longrightarrow> length name < 256 \<Longrightarrow> dirent_ok (plain_dirent name)"
  by (simp add: dirent_ok_def plain_dirent_def dirent_length_def zero_in_b_lit)

lemma tree_enumerate:
  assumes "t p = Some (mode, names, content)" and "list_all (\<lambda>n. CHR 0x00 \<notin> set n \<and> length n < 256) names"
  shows "enumerate_loop eintr io (\<lambda>buf. parse_dirents bad reserve buf 0) (sys_getdents64 (tree_host t) (b_lit p)) (s, []) =
    and_then (fold_result (\<lambda>s _. reserve s) s (visible_names (map plain_dirent names)))
      (\<lambda>s. Inr (s, visible_names (map plain_dirent names)))"
proof (cases "names = []")
  case True
  then show ?thesis using assms(1)
    by (simp add: tree_host_def Let_def visible_names_def and_then_def)
next
  case False
  have "list_all (list_all dirent_ok) [map plain_dirent names]"
    using assms(2) plain_dirent_ok by (auto simp: list_all_iff)
  moreover have "sys_getdents64 (tree_host t) (b_lit p) =
      map (\<lambda>ds. Inr (concat (map encode_dirent ds))) [map plain_dirent names]"
    using assms(1) False by (simp add: tree_host_def Let_def)
  ultimately show ?thesis
    using enumerate_encoded [of "[map plain_dirent names]" eintr io bad reserve s "[]"] False by simp
qed


lemma visible_plain:
  "list_all (\<lambda>n. n \<noteq> ''.'' \<and> n \<noteq> ''..'') names \<Longrightarrow> visible_names (map plain_dirent names) = map b_lit names"
  by (auto simp: visible_names_def plain_dirent_def comp_def filter_id_conv list_all_iff)

lemma writer_at_names:
  assumes "t p = Some (mode, names, content)"
    and "list_all (\<lambda>n. CHR 0x00 \<notin> set n \<and> length n < 256 \<and> n \<noteq> ''.'' \<and> n \<noteq> ''..'') names"
    and "n + length names \<le> 16"
  shows "read_directory_names_bounded (tree_host t) (b_lit p) (writer_at bs n) =
    Inr (writer_at bs (n + length names), sort (map b_lit names))"
proof -
  have "visible_names (map plain_dirent names) = map b_lit names"
    using assms(2) by (intro visible_plain) (auto simp: list_all_iff)
  moreover have "fold_result (\<lambda>w _. reserve_node w) (writer_at bs n) (map b_lit names) =
      Inr (writer_at bs (n + length names))"
    using reserve_names [of n "map b_lit names" example_limits bs] assms(3) by (simp add: example_limits_def)
  ultimately show ?thesis
    using tree_enumerate [of t p mode names content 4 "Archive_Io ''enumerate snapshot directory''" archive_invalid
        reserve_node "writer_at bs n"] assms(1,2)
    by (simp add: read_directory_names_bounded_def and_then_def list_all_iff)
qed


section \<open>The tree with a sibling\<close>

definition sibling_entries :: "parsed_entry list" where
  "sibling_entries = [Directory (b_lit ''/'') 0x1ED, Directory (b_lit ''/a'') 0x1ED,
     File (b_lit ''/a/b'') 0x1A4 [], File (b_lit ''/a.txt'') 0x1A4 []]"

lemma sibling_order: "\<not> b_lit ''a.txt'' \<le> b_lit ''a''"
  by (simp add: b_lit_def)

lemma joins:
  "join_relative [] (b_lit n) = (if length n > 4096 then None else Some (b_lit n))"
  "p \<noteq> [] \<Longrightarrow> join_relative (b_lit p) (b_lit n) = (if length p + 1 + length n > 4096 then None else Some (b_lit (p @ ''/'' @ n)))"
  "absolute_snapshot_path (b_lit n) = b_lit (CHR ''/'' # n)"
  by (simp_all add: join_relative_def MAX_RELATIVE_PATH_BYTES_def absolute_snapshot_path_def b_lit_def)

lemma sibling_nodes:
  "sibling_tree '''' = Some (0x41ED, [''a.txt'', ''a''], '''')" "sibling_tree ''a'' = Some (0x41ED, [''b''], '''')"
  "sibling_tree ''a/b'' = Some (0x81A4, [], '''')" "sibling_tree ''a.txt'' = Some (0x81A4, [], '''')"
  by (simp_all add: sibling_tree_def)

lemma sibling_directory:
  assumes "length bs \<le> 1000" and "n \<le> 8"
  shows "serialize_directory (tree_host sibling_tree) (b_lit ''a'') 1 (writer_at bs n) =
    Inr (writer_at (bs @ encode_entry (File (b_lit ''/a/b'') 0x1A4 [])) (n + 1))"
  using assms writer_at_names [of sibling_tree "''a''" "0x41ED" "[''b'']" "''''" n bs]
    writer_at_file [of sibling_tree "''a/b''" "0x81A4" "[]" "''''" bs "b_lit ''/a/b''" "n + 1"]
    tree_host_node [where t = sibling_tree and p = "''a/b''"]
  by (subst serialize_directory.simps)
    (simp add: MAX_TREE_DEPTH_def and_then_def sibling_nodes archive_join_def joins ok_or_def encode_entry_def)


lemma sibling_root:
  assumes "length bs \<le> 600"
  shows "serialize_directory (tree_host sibling_tree) [] 0 (writer_at bs 1) =
    Inr (writer_at (bs @ encode_entries (tl sibling_entries)) 4)"
proof -
  have names: "read_directory_names_bounded (tree_host sibling_tree) [] (writer_at bs 1) =
      Inr (writer_at bs 3, [b_lit ''a'', b_lit ''a.txt''])"
    using writer_at_names [of sibling_tree "''''" "0x41ED" "[''a.txt'', ''a'']" "''''" 1 bs]
    by (simp add: sibling_nodes sibling_order eval_nat_numeral)
  show ?thesis
    using assms names
      tree_host_node [where t = sibling_tree and p = "''a''"]
      tree_host_node [where t = sibling_tree and p = "''a.txt''"]
      writer_at_directory [of bs "b_lit ''/a''" "0x1ED" 3]
      sibling_directory [of "bs @ encode_entry (Directory (b_lit ''/a'') 0x1ED)" 3]
      writer_at_file [of sibling_tree "''a.txt''" "0x81A4" "[]" "''''"
        "bs @ encode_entry (Directory (b_lit ''/a'') 0x1ED) @ encode_entry (File (b_lit ''/a/b'') 0x1A4 [])"
        "b_lit ''/a.txt''" 4]
    by (subst serialize_directory.simps)
      (simp add: MAX_TREE_DEPTH_def and_then_def sibling_nodes archive_join_def joins ok_or_def
        encode_entry_def sibling_entries_def)
qed

lemma sibling_walk:
  assumes "length bs \<le> 500"
  shows "and_then (reserve_node (writer_at bs 0)) (\<lambda>w. and_then (writer_record_directory (b_lit ''/'') (0x41ED AND 0xFFF) w)
     (serialize_directory (tree_host sibling_tree) [] 0)) = Inr (writer_at (bs @ encode_entries sibling_entries) 4)"
  using assms writer_at_directory [of bs "b_lit ''/''" "0x1ED" 1]
    sibling_root [of "bs @ encode_entry (Directory (b_lit ''/'') 0x1ED)"]
  by (simp add: reserve_node_def checked_add_usize_def and_then_def ok_or_def example_limits_def
      encode_entry_def sibling_entries_def)

lemma example_limits_ok: "validate_archive_limits example_limits = Inr ()"
  by (simp add: validate_archive_limits_def ok_simps example_limits_def MAX_ARCHIVE_BYTES_def
      MAX_IDENTITY_BYTES_def MAX_ARCHIVE_NODES_def)

lemma sibling_not_canonical: "\<not> canonical_entries sibling_entries"
  by (simp add: canonical_entries_def sibling_entries_def less_le_not_le b_lit_def)

lemma sibling_sized: "list_all entry_sized sibling_entries"
  by (simp add: sibling_entries_def)

lemma header_small: "length ARCHIVE_MAGIC = 33" "length CANONICAL_MAGIC = 32"
  by (simp_all add: ARCHIVE_MAGIC_def CANONICAL_MAGIC_def)

lemma sibling_finish_fails:
  "writer_finish sha256 (writer_at (ARCHIVE_MAGIC @ le_bytes 8 0 @ encode_entries sibling_entries) 4) \<noteq> Inr archive"
proof
  assume fin: "writer_finish sha256 (writer_at (ARCHIVE_MAGIC @ le_bytes 8 0 @ encode_entries sibling_entries) 4) = Inr archive"
  obtain es where es: "encode_entries sibling_entries = encode_entries es" "canonical_entries es" "within_limits example_limits es"
    using finish_parsed [OF _ _ fin] example_limits_ok by (auto simp del: le_bytes.simps)
  have "list_all entry_sized es"
    using es(2,3) by (intro canonical_sized) (auto simp: within_limits_def encode_archive_def example_limits_def)
  then have "es = sibling_entries" using encode_entries_inject [OF sibling_sized _ es(1)] by simp
  then show False using es(2) sibling_not_canonical by simp
qed

lemma example_new: "writer_new example_limits = Inr (writer_at (ARCHIVE_MAGIC @ le_bytes 8 0) 0)"
  by (simp add: writer_new_def and_then_def writer_at_append header_small del: le_bytes.simps)

text \<open>
  C36: The capture of a tree with a directory and a sibling whose name continues that of the
  directory with a byte below the slash (here \<open>a/b\<close> and \<open>a.txt\<close>) is refused: the writer emits
  the directory's contents before the sibling, the parser that \<open>finish\<close> runs demands raw path
  order. The identity of the same tree is computed.
\<close>

theorem sibling_capture_rejected:
  "(\<exists>identity. snapshot_sha256 sha256 (tree_host sibling_tree) ''/srv'' \<lparr>max_bytes = 4096, max_nodes = 16\<rparr> = Inr identity) \<and>
   (\<forall>archive. serialize_snapshot_archive sha256 (tree_host sibling_tree) ''/srv'' example_limits \<noteq> Inr archive)"
proof
  let ?h = "tree_host sibling_tree" and ?lims = "\<lparr>max_bytes = 4096, max_nodes = 16\<rparr>"
  let ?w0 = "writer_at (ARCHIVE_MAGIC @ le_bytes 8 0) 0"
  let ?w3 = "writer_at (ARCHIVE_MAGIC @ le_bytes 8 0 @ encode_entries sibling_entries) 4"
  have walk: "and_then (reserve_node ?w0) (\<lambda>w. and_then (writer_record_directory (b_lit ''/'') (0x41ED AND 0xFFF) w)
      (serialize_directory ?h [] 0)) = Inr ?w3"
    using sibling_walk [of "ARCHIVE_MAGIC @ le_bytes 8 0"] by (simp add: header_small del: le_bytes.simps)
  have stat: "sys_fstat ?h [] = Inr (0x41ED, 0)"
    using tree_host_node(2) [where t = sibling_tree and p = "''''"] by (simp add: sibling_nodes)
  show "\<forall>archive. serialize_snapshot_archive sha256 ?h ''/srv'' example_limits \<noteq> Inr archive"
    using walk sibling_finish_fails [of sha256]
    by (auto simp: serialize_snapshot_archive_def serialize_root_def and_then_Ok_iff stat example_new
        simp del: le_bytes.simps)
  obtain c0 where c0: "hasher_new ?lims = Inr c0" "in_step ?w0 c0" "hasher_limits c0 = ?lims"
    by (rule in_step_start [OF example_new, of ?lims]) (simp_all add: example_limits_def header_small)
  have step: "mirrors_state
      (\<lambda>w. and_then (reserve_node w) (\<lambda>w. and_then (writer_record_directory (b_lit ''/'') (0x41ED AND 0xFFF) w) (serialize_directory ?h [] 0)))
      (\<lambda>c. and_then (consume_node c) (\<lambda>c. and_then (hasher_record_directory (b_lit ''/'') (0x41ED AND 0xFFF) c) (hash_directory ?h [] 0)))"
    by (intro mirrors_seq mirrors_node mirrors_directory mirrors_walk)
  have "fits ?w3 c0"
    using c0(3) by (simp add: fits_def header_small sibling_entries_def encode_entry_def)
  then obtain c3 where "and_then (consume_node c0) (\<lambda>c. and_then
      (hasher_record_directory (b_lit ''/'') (0x41ED AND 0xFFF) c) (hash_directory ?h [] 0)) = Inr c3"
    using mirrors_stateD(2) [OF step walk c0(2)] by blast
  moreover have "validate_identity_limits ?lims = Inr ()"
    by (simp add: validate_identity_limits_def ok_simps MAX_IDENTITY_BYTES_def MAX_IDENTITY_NODES_def)
  ultimately show "\<exists>identity. snapshot_sha256 sha256 ?h ''/srv'' ?lims = Inr identity"
    using c0(1)
    by (auto simp: snapshot_sha256_def hash_root_def and_then_def is_absolute_def stat split: sum.splits)
qed

end
