(* ===== verification/Snapshot_Bounds.thy ===== *)
theory Snapshot_Bounds
  imports Snapshot_Auth
begin

unbundle bit_operations_syntax

text \<open>
  The budgets of the identity walk: whatever the kernel answers, an identity that is returned
  accounts for no more bytes and nodes than its limits allow. A small logic of preserved
  predicates carries the bound through the loops and the recursion of the walk.
\<close>

section \<open>Preserved predicates\<close>

definition stays :: "('s \<Rightarrow> bool) \<Rightarrow> ('s \<Rightarrow> ('s, 'e) result) \<Rightarrow> bool" where
  "stays P f \<longleftrightarrow> (\<forall>s s'. P s \<longrightarrow> f s = Inr s' \<longrightarrow> P s')"

definition stays_with :: "('s \<Rightarrow> bool) \<Rightarrow> ('s \<Rightarrow> ('s \<times> 'x, 'e) result) \<Rightarrow> bool" where
  "stays_with P f \<longleftrightarrow> (\<forall>s s' x. P s \<longrightarrow> f s = Inr (s', x) \<longrightarrow> P s')"

named_theorems stays_intros "rules of the logic of preserved predicates"

lemma staysD: "stays P f \<Longrightarrow> f s = Inr s' \<Longrightarrow> P s \<Longrightarrow> P s'"
  by (auto simp: stays_def)

lemma stays_withD: "stays_with P f \<Longrightarrow> f s = Inr (s', x) \<Longrightarrow> P s \<Longrightarrow> P s'"
  by (auto simp: stays_with_def)

lemma stays_fail [stays_intros]: "stays P (\<lambda>s. Inl e)" "stays_with P (\<lambda>s. Inl e)"
  by (simp_all add: stays_def stays_with_def)

lemma stays_return [stays_intros]: "stays P Inr" "stays P (\<lambda>s. Inr s)" "stays_with P (\<lambda>s. Inr (s, x))"
  by (simp_all add: stays_def stays_with_def)

lemma stays_if [stays_intros]:
  "(b \<Longrightarrow> stays P f) \<Longrightarrow> (\<not> b \<Longrightarrow> stays P g) \<Longrightarrow> stays P (\<lambda>s. if b then f s else g s)"
  "(b \<Longrightarrow> stays_with P f') \<Longrightarrow> (\<not> b \<Longrightarrow> stays_with P g') \<Longrightarrow> stays_with P (\<lambda>s. if b then f' s else g' s)"
  by (cases b; simp)+

lemma stays_seq [stays_intros]:
  "stays P f \<Longrightarrow> stays P g \<Longrightarrow> stays P (\<lambda>s. and_then (f s) g)"
  "stays P f \<Longrightarrow> stays_with P g' \<Longrightarrow> stays_with P (\<lambda>s. and_then (f s) g')"
  unfolding stays_def stays_with_def and_then_Ok_iff by blast+

lemma stays_bind [stays_intros]:
  "stays_with P f \<Longrightarrow> (\<And>x. stays P (g x)) \<Longrightarrow> stays P (\<lambda>s. and_then (f s) (\<lambda>(s, x). g x s))"
  "stays_with P f \<Longrightarrow> (\<And>x. stays_with P (g' x)) \<Longrightarrow> stays_with P (\<lambda>s. and_then (f s) (\<lambda>(s, x). g' x s))"
  unfolding stays_def stays_with_def and_then_Ok_iff by (metis (no_types, lifting) case_prod_conv old.prod.exhaust)+

lemma stays_call [stays_intros]:
  "(\<And>x. stays P (f x)) \<Longrightarrow> stays P (\<lambda>s. and_then m (\<lambda>x. f x s))"
  "(\<And>x. stays_with P (f' x)) \<Longrightarrow> stays_with P (\<lambda>s. and_then m (\<lambda>x. f' x s))"
  by (cases m; simp add: and_then_def stays_def stays_with_def)+

lemma stays_case_prod [stays_intros]:
  "(\<And>x y. stays P (f x y)) \<Longrightarrow> stays P (\<lambda>s. case p of (x, y) \<Rightarrow> f x y s)"
  by (cases p) simp

lemma stays_fold [stays_intros]:
  "(\<And>x. x \<in> set xs \<Longrightarrow> stays P (\<lambda>s. f s x)) \<Longrightarrow> stays P (\<lambda>s. fold_result f s xs)"
proof (induction xs)
  case Nil
  show ?case by (simp add: stays_def)
next
  case (Cons x xs)
  then show ?case unfolding fold_result_and_then by (intro stays_intros) simp_all
qed

section \<open>The loops\<close>

lemma stays_dirents:
  assumes "stays P reserve"
  shows "stays_with P (\<lambda>s. parse_dirents bad reserve buf offset (s, names))"
proof (induction "length buf - offset" arbitrary: offset names rule: less_induct)
  case less
  show ?case
    unfolding parse_dirents.simps [of _ _ buf offset] Let_def
    by (intro stays_intros assms less) auto
qed

lemma stays_enumerate:
  assumes "\<And>buf names. stays_with P (\<lambda>s. body buf (s, names))"
  shows "stays_with P (\<lambda>s. enumerate_loop eintr io body rs (s, names))"
proof (induction rs arbitrary: names)
  case Nil
  show ?case by (simp add: stays_return)
next
  case (Cons r rs)
  have eta: "enumerate_loop eintr io body rs = (\<lambda>(s, names). enumerate_loop eintr io body rs (s, names))"
    by auto
  show ?case
  proof (cases r)
    case (Inl e)
    show ?thesis unfolding Inl enumerate_loop.simps by (intro stays_intros Cons)
  next
    case (Inr buf)
    show ?thesis
      unfolding Inr enumerate_loop.simps by (subst eta) (intro stays_intros assms Cons)
  qed
qed

lemma stays_copy:
  assumes "\<And>bs. stays P (push bs)"
  shows "stays_with P (\<lambda>s. copy_loop eintr io shrank push n s rs)"
proof (induction rs arbitrary: n)
  case Nil
  show ?case by (cases "n = 0") (simp_all add: stays_return stays_fail)
next
  case (Cons r rs)
  show ?case
  proof (cases r)
    case (Inl e)
    show ?thesis unfolding Inl copy_loop.simps sum.case by (intro stays_intros Cons)
  next
    case (Inr bs)
    show ?thesis unfolding Inr copy_loop.simps sum.case Let_def by (intro stays_intros assms Cons)
  qed
qed

section \<open>The hasher\<close>

definition within_budget :: "snapshot_identity_limits \<Rightarrow> canonical_hasher \<Rightarrow> bool" where
  "within_budget lims c \<longleftrightarrow> hasher_limits c = lims \<and> encoded_bytes c = length (hashed c) \<and>
     encoded_bytes c \<le> max_bytes lims \<and> nodes c \<le> max_nodes lims"

lemma stays_update [stays_intros]: "stays (within_budget lims) (hasher_update bs)"
  by (auto simp: stays_def within_budget_def hasher_update_def and_then_Ok_iff ok_or_Ok_iff
      checked_add_usize_def split: if_splits)

lemma stays_consume [stays_intros]: "stays (within_budget lims) consume_node"
  by (auto simp: stays_def within_budget_def consume_node_def and_then_Ok_iff split: if_splits)

lemma stays_prefix [stays_intros]: "stays (within_budget lims) (hasher_record_prefix tag path)"
  unfolding hasher_record_prefix_def [abs_def] by (intro stays_intros)

lemma stays_records [stays_intros]:
  "stays (within_budget lims) (hasher_record_directory path mode)"
  "stays (within_budget lims) (hasher_begin_file path mode n)"
  "stays (within_budget lims) (hasher_record_symlink path target)"
  unfolding hasher_record_directory_def [abs_def] hasher_begin_file_def [abs_def] hasher_record_symlink_def [abs_def]
  by (intro stays_intros)+

lemma stays_names [stays_intros]: "stays_with (within_budget lims) (read_directory_names h relative)"
  unfolding read_directory_names_def [abs_def]
  by (intro stays_intros stays_enumerate stays_dirents)

lemma stays_file [stays_intros]: "stays (within_budget lims) (hash_regular_file h relative path)"
  unfolding hash_regular_file_def [abs_def] Let_def
  by (intro stays_intros stays_copy)

lemma stays_symlink [stays_intros]: "stays (within_budget lims) (hash_symlink h relative path)"
  unfolding hash_symlink_def [abs_def] Let_def by (intro stays_intros)

lemma stays_walk [stays_intros]: "stays (within_budget lims) (hash_directory h relative depth)"
proof (induction "65 - depth" arbitrary: relative depth rule: less_induct)
  case less
  show ?case
    unfolding hash_directory.simps [of h relative depth, abs_def] Let_def
    by (intro stays_intros less) (auto simp: MAX_TREE_DEPTH_def)
qed

lemma hash_root_budget:
  assumes "hash_root sha256 h phase not_dir lims = Inr identity"
  obtains c where "within_budget lims c" and "identity = hasher_finish sha256 c"
proof -
  obtain mode c0 c1 c2 c where c0: "hasher_new lims = Inr c0" and "consume_node c0 = Inr c1"
    "hasher_record_directory (b_lit ''/'') (mode AND 0xFFF) c1 = Inr c2" "hash_directory h [] 0 c2 = Inr c"
    and out: "identity = hasher_finish sha256 c"
    using assms by (auto simp: hash_root_def and_then_Ok_iff split: if_splits)
  then have c: "and_then (consume_node c0) (\<lambda>c. and_then (hasher_record_directory (b_lit ''/'') (mode AND 0xFFF) c)
      (hash_directory h [] 0)) = Inr c"
    by (simp add: and_then_def)
  have "stays (within_budget lims) (\<lambda>c. and_then (consume_node c) (\<lambda>c. and_then
      (hasher_record_directory (b_lit ''/'') (mode AND 0xFFF) c) (hash_directory h [] 0)))"
    by (intro stays_intros)
  moreover have "within_budget lims c0"
    using c0 unfolding hasher_new_def by (rule staysD [OF stays_update]) (simp add: within_budget_def)
  ultimately show thesis using that c out by (auto dest: staysD)
qed

lemma snapshot_sha256_budget:
  assumes "snapshot_sha256 sha256 h root lims = Inr identity"
  shows "identity_bytes identity \<le> max_bytes lims" "identity_nodes identity \<le> max_nodes lims"
    "max_bytes lims \<le> MAX_IDENTITY_BYTES" "max_nodes lims \<le> MAX_IDENTITY_NODES"
    "\<exists>preimage. sha256_digest identity = sha256 preimage \<and> identity_bytes identity = length preimage"
proof -
  have lims: "validate_identity_limits lims = Inr ()"
    and "hash_root sha256 h ''stat snapshot root'' ''snapshot root is not a directory'' lims = Inr identity"
    using assms by (auto simp: snapshot_sha256_def and_then_Ok_iff split: if_splits)
  then obtain c where "within_budget lims c" and "identity = hasher_finish sha256 c"
    using hash_root_budget by blast
  then show "identity_bytes identity \<le> max_bytes lims" "identity_nodes identity \<le> max_nodes lims"
    "\<exists>preimage. sha256_digest identity = sha256 preimage \<and> identity_bytes identity = length preimage"
    by (auto simp: within_budget_def hasher_finish_def)
  show "max_bytes lims \<le> MAX_IDENTITY_BYTES" "max_nodes lims \<le> MAX_IDENTITY_NODES"
    using lims by (auto simp: validate_identity_limits_def ok_simps)
qed

lemma snapshot_sha256_sized:
  assumes "snapshot_sha256 sha256 h root lims = Inr identity" and "\<forall>bs. length (sha256 bs) = 32"
  shows "identity_sized identity"
  using snapshot_sha256_budget [OF assms(1)] assms(2)
  by (auto simp: identity_sized_def MAX_IDENTITY_BYTES_def MAX_IDENTITY_NODES_def)

text \<open>
  C34: The identity walk keeps its budgets whatever the kernel answers: an identity that is
  returned counts at most \<open>max_bytes\<close> canonical bytes and \<open>max_nodes\<close> nodes, within the fixed
  ceilings, and its byte count is the length of what was hashed.
\<close>

theorem identity_within_budget:
  assumes "snapshot_sha256 sha256 h root lims = Inr identity"
  shows "identity_bytes identity \<le> max_bytes lims \<and> identity_nodes identity \<le> max_nodes lims \<and>
    max_bytes lims \<le> MAX_IDENTITY_BYTES \<and> max_nodes lims \<le> MAX_IDENTITY_NODES \<and>
    (\<exists>preimage. sha256_digest identity = sha256 preimage \<and> identity_bytes identity = length preimage)"
  using snapshot_sha256_budget [OF assms] by blast

text \<open>
  C35: A snapshot signature verifies against the tree it was made for, and the message it signs
  determines the identity: two trees whose identities give the same signed message have the same
  identity, and a signed message is never the message of an authentication tag.
\<close>

theorem signature_round_trip:
  assumes "\<forall>bs. length (sha256 bs) = 32"
    and "\<forall>key msg. vk_from_bytes cr (sk_public_key cr key) \<and>
      vk_verify_strict cr (sk_public_key cr key) msg (sk_sign cr key msg)"
    and "sign_snapshot_ed25519 cr sha256 h root key lims = Inr token"
  shows "verify_snapshot_ed25519 cr sha256 h root (signed_public_key token) (signed_signature token) lims =
      Inr (signed_snapshot token) \<and>
    (\<forall>h' root' lims' other. snapshot_sha256 sha256 h' root' lims' = Inr other \<longrightarrow>
      signature_message other = signature_message (signed_snapshot token) \<longrightarrow> other = signed_snapshot token) \<and>
    (\<forall>fields. signature_message (signed_snapshot token) \<noteq> SNAPSHOT_HMAC_DOMAIN @ fields)"
proof (intro conjI allI impI)
  have id: "snapshot_sha256 sha256 h root lims = Inr (signed_snapshot token)"
    and out: "signed_public_key token = sk_public_key cr key"
      "signed_signature token = sk_sign cr key (signature_message (signed_snapshot token))"
    using assms(3) by (auto simp: sign_snapshot_ed25519_def and_then_Ok_iff map_err_Ok)
  show "verify_snapshot_ed25519 cr sha256 h root (signed_public_key token) (signed_signature token) lims =
      Inr (signed_snapshot token)"
    using assms(2) by (simp add: verify_snapshot_ed25519_def verify_snapshot_identity_ed25519_def id out and_then_def)
  show "other = signed_snapshot token"
    if "snapshot_sha256 sha256 h' root' lims' = Inr other"
      and "signature_message other = signature_message (signed_snapshot token)" for h' root' lims' other
    using that snapshot_sha256_sized [OF _ assms(1)] id
    by (intro identity_fields_inject) (auto simp: signature_message_def simp del: le_bytes.simps)
  show "signature_message (signed_snapshot token) \<noteq> SNAPSHOT_HMAC_DOMAIN @ fields" for fields
    by (simp add: signature_message_def SNAPSHOT_ED25519_DOMAIN_def SNAPSHOT_HMAC_DOMAIN_def b_lit_def)
qed

end
