(* ===== verification/Snapshot_Properties.thy ===== *)
theory Snapshot_Properties
  imports Snapshot_Examples Snapshot_Bounds
begin

unbundle bit_operations_syntax

text \<open>
  The archive of a tree with one file, evaluated, and the snapshot properties at it.
\<close>

definition plain_entries :: "parsed_entry list" where
  "plain_entries = [Directory (b_lit ''/'') 0x1ED, File (b_lit ''/payload'') 0x1A4 (b_lit ''data'')]"

lemma slash_value: "slash = 47" "b_lit ''.'' = [46]" "b_lit ''..'' = [46, 46]"
  by (simp_all add: slash_def b_lit_def)

lemma payload_path: "safe_path (b_lit ''/payload'')"
  by (simp add: safe_path_def slash_value(1)) (simp add: b_lit_def MAX_RELATIVE_PATH_BYTES_def)

lemma plain_canonical: "canonical_entries plain_entries"
  using payload_path
  by (simp add: plain_entries_def canonical_entries_def entry_ok_def parent_relative_def slash_def)
    (simp add: b_lit_def less_le_not_le)

lemma plain_within: "within_limits example_limits plain_entries"
  by (simp add: plain_entries_def within_limits_def example_limits_def encode_archive_def encode_entry_def header_small)

lemma plain_parsed:
  "parse_archive sha256 (encode_archive plain_entries) example_limits =
    Inr \<lparr>parsed_entries = plain_entries, parsed_identity = entries_identity sha256 plain_entries\<rparr>"
  unfolding parse_archive_iff [OF example_limits_ok] using plain_canonical plain_within by simp

lemma plain_archive_identity:
  "snapshot_archive_identity sha256 (encode_archive plain_entries) example_limits = Inr (entries_identity sha256 plain_entries)"
  by (simp add: snapshot_archive_identity_def and_then_def example_limits_ok plain_parsed)

text \<open>An archive whose records collide with these under the example hash.\<close>

definition collision_entries :: "parsed_entry list" where
  "collision_entries = [Directory (b_lit ''/'') 0x1ED, File (b_lit ''/payload'') 0x1A4 (b_lit ''DATA'')]"

lemma collision_archive_identity:
  "snapshot_archive_identity example_sha256 (encode_archive collision_entries) example_limits =
    Inr (entries_identity example_sha256 plain_entries)"
proof -
  have "canonical_entries collision_entries"
    using plain_canonical
    by (auto simp: canonical_entries_def collision_entries_def plain_entries_def entry_ok_def)
  moreover have "within_limits example_limits collision_entries"
    by (simp add: collision_entries_def within_limits_def example_limits_def encode_archive_def encode_entry_def header_small)
  moreover have "entries_identity example_sha256 plain_entries = entries_identity example_sha256 collision_entries"
    by (simp add: entries_identity_def example_sha256_def plain_entries_def collision_entries_def encode_entry_def)
  ultimately have "parse_archive example_sha256 (encode_archive collision_entries) example_limits =
      Inr \<lparr>parsed_entries = collision_entries, parsed_identity = entries_identity example_sha256 plain_entries\<rparr>"
    unfolding parse_archive_iff [OF example_limits_ok] by simp
  then show ?thesis by (simp add: snapshot_archive_identity_def and_then_def example_limits_ok)
qed

section \<open>The capture of the tree\<close>

lemma plain_nodes:
  "plain_tree '''' = Some (0x41ED, [''payload''], '''')" "plain_tree ''payload'' = Some (0x81A4, [], ''data'')"
  by (simp_all add: plain_tree_def)

lemma plain_walk:
  assumes "length bs \<le> 500"
  shows "and_then (reserve_node (writer_at bs 0)) (\<lambda>w. and_then (writer_record_directory (b_lit ''/'') (0x41ED AND 0xFFF) w)
     (serialize_directory (tree_host plain_tree) [] 0)) = Inr (writer_at (bs @ encode_entries plain_entries) 2)"
proof -
  let ?bs = "bs @ encode_entry (Directory (b_lit ''/'') 0x1ED)"
  have names: "read_directory_names_bounded (tree_host plain_tree) [] (writer_at ?bs 1) =
      Inr (writer_at ?bs 2, [b_lit ''payload''])"
    using writer_at_names [of plain_tree "''''" "0x41ED" "[''payload'']" "''''" 1 ?bs]
    by (simp add: plain_nodes eval_nat_numeral)
  have "serialize_directory (tree_host plain_tree) [] 0 (writer_at ?bs 1) =
      Inr (writer_at (?bs @ encode_entry (File (b_lit ''/payload'') 0x1A4 (b_lit ''data''))) 2)"
    using assms names tree_host_node [where t = plain_tree and p = "''payload''"]
      writer_at_file [of plain_tree "''payload''" "0x81A4" "[]" "''data''" ?bs "b_lit ''/payload''" 2]
    by (subst serialize_directory.simps)
      (simp add: MAX_TREE_DEPTH_def and_then_def plain_nodes archive_join_def joins ok_or_def encode_entry_def)
  then show ?thesis
    using assms writer_at_directory [of bs "b_lit ''/''" "0x1ED" 1]
    by (simp add: reserve_node_def checked_add_usize_def and_then_def ok_or_def example_limits_def
        encode_entry_def plain_entries_def)
qed

lemma plain_capture:
  "serialize_snapshot_archive sha256 (tree_host plain_tree) ''/srv'' example_limits =
    Inr \<lparr>archive_bytes = encode_archive plain_entries, archive_identity = entries_identity sha256 plain_entries\<rparr>"
proof -
  let ?w0 = "writer_at (ARCHIVE_MAGIC @ le_bytes 8 0) 0"
  have walk: "and_then (reserve_node ?w0) (\<lambda>w. and_then (writer_record_directory (b_lit ''/'') (0x41ED AND 0xFFF) w)
      (serialize_directory (tree_host plain_tree) [] 0)) =
      Inr (writer_at (ARCHIVE_MAGIC @ le_bytes 8 0 @ encode_entries plain_entries) 2)"
    using plain_walk [of "ARCHIVE_MAGIC @ le_bytes 8 0"] by (simp add: header_small del: le_bytes.simps)
  have "length plain_entries = 2" by (simp add: plain_entries_def)
  then have fin: "writer_finish sha256 (writer_at (ARCHIVE_MAGIC @ le_bytes 8 0 @ encode_entries plain_entries) 2) =
      Inr \<lparr>archive_bytes = encode_archive plain_entries, archive_identity = entries_identity sha256 plain_entries\<rparr>"
    using plain_parsed [of sha256]
    by (simp add: writer_finish_def Let_def encode_archive_def and_then_def del: le_bytes.simps)
  have stat: "sys_fstat (tree_host plain_tree) [] = Inr (0x41ED, 0)"
    using tree_host_node(2) [where t = plain_tree and p = "''''"] by (simp add: plain_nodes)
  show ?thesis
    using walk fin
    by (auto simp: serialize_snapshot_archive_def serialize_root_def stat example_new example_limits_ok is_absolute_def
        and_then_Ok_iff map_err_Ok simp del: le_bytes.simps)
qed

abbreviation example_identity_limits :: snapshot_identity_limits where
  "example_identity_limits \<equiv> \<lparr>max_bytes = 4096, max_nodes = 16\<rparr>"

lemma example_identity_limits_ok: "validate_identity_limits example_identity_limits = Inr ()"
  by (simp add: validate_identity_limits_def ok_simps MAX_IDENTITY_BYTES_def MAX_IDENTITY_NODES_def)

section \<open>The properties at the tree\<close>

theorem parse_archive_exact_witness:
  "validate_archive_limits example_limits = Inr () \<and>
   parse_archive example_sha256 (encode_archive plain_entries) example_limits =
     Inr \<lparr>parsed_entries = plain_entries, parsed_identity = entries_identity example_sha256 plain_entries\<rparr>"
  using example_limits_ok plain_canonical plain_within
    parse_archive_exact [OF example_limits_ok, of example_sha256 "encode_archive plain_entries"
      "\<lparr>parsed_entries = plain_entries, parsed_identity = entries_identity example_sha256 plain_entries\<rparr>"]
  by simp

theorem archive_identity_binds_witness:
  "let a = encode_archive plain_entries; b = encode_archive collision_entries; i = entries_identity example_sha256 plain_entries
   in snapshot_archive_identity example_sha256 a example_limits = Inr i \<and>
      snapshot_archive_identity example_sha256 b example_limits = Inr i \<and>
      records_preimage a \<noteq> records_preimage b \<and>
      example_sha256 (records_preimage a) = example_sha256 (records_preimage b)"
proof -
  have "encode_archive plain_entries \<noteq> encode_archive collision_entries"
    by (simp add: encode_archive_def plain_entries_def collision_entries_def encode_entry_def)
  then show ?thesis
    using archive_identity_binds [OF plain_archive_identity [of example_sha256] collision_archive_identity]
      plain_archive_identity collision_archive_identity
    by (simp add: Let_def)
qed

theorem accepted_archive_tree_witness:
  "snapshot_archive_identity example_sha256 (encode_archive plain_entries) example_limits =
     Inr (entries_identity example_sha256 plain_entries) \<and>
   sorted_wrt (<) (map entry_path plain_entries)"
proof
  show "sorted_wrt (<) (map entry_path plain_entries)"
    using accepted_archive_tree [OF plain_archive_identity [of example_sha256]] plain_parsed [of example_sha256] by auto
qed (rule plain_archive_identity)

theorem capture_identity_agrees_witness:
  "snapshot_sha256 example_sha256 (tree_host plain_tree) ''/srv'' example_identity_limits =
     Inr (entries_identity example_sha256 plain_entries)"
  using capture_identity_agrees [OF plain_capture example_identity_limits_ok, of example_sha256]
  by (simp add: example_limits_def)

definition example_crypto :: crypto where
  "example_crypto = \<lparr>vk_from_bytes = (\<lambda>_. True), sk_public_key = (\<lambda>key. key), sk_sign = (\<lambda>key msg. key @ msg),
     vk_verify_strict = (\<lambda>key msg sig. sig = key @ msg), hmac_sha256 = (\<lambda>key msg. key @ msg)\<rparr>"

lemma plain_sha256:
  "snapshot_sha256 example_sha256 (tree_host plain_tree) ''/srv'' example_identity_limits =
     Inr (entries_identity example_sha256 plain_entries)"
  using capture_identity [OF plain_capture example_identity_limits_ok, of example_sha256]
  by (simp add: example_limits_def)

theorem identity_within_budget_witness:
  "snapshot_sha256 example_sha256 (tree_host plain_tree) ''/srv'' example_identity_limits =
     Inr (entries_identity example_sha256 plain_entries) \<and>
   identity_bytes (entries_identity example_sha256 plain_entries) \<le> 4096"
  using identity_within_budget [OF plain_sha256] plain_sha256 by simp

theorem signature_round_trip_witness:
  "\<exists>token. sign_snapshot_ed25519 example_crypto example_sha256 (tree_host plain_tree) ''/srv'' [7] example_identity_limits =
      Inr token \<and>
    verify_snapshot_ed25519 example_crypto example_sha256 (tree_host plain_tree) ''/srv'' [7] (signed_signature token)
      example_identity_limits = Inr (entries_identity example_sha256 plain_entries)"
proof -
  define token where "token = \<lparr>signed_snapshot = entries_identity example_sha256 plain_entries, signed_public_key = [7],
    signed_signature = 7 # signature_message (entries_identity example_sha256 plain_entries)\<rparr>"
  have signed: "sign_snapshot_ed25519 example_crypto example_sha256 (tree_host plain_tree) ''/srv'' [7] example_identity_limits =
      Inr token"
    by (simp add: sign_snapshot_ed25519_def plain_sha256 and_then_def example_crypto_def token_def)
  have "\<forall>bs. length (example_sha256 bs) = 32" by (simp add: example_sha256_def)
  moreover have "\<forall>key msg. vk_from_bytes example_crypto (sk_public_key example_crypto key) \<and>
      vk_verify_strict example_crypto (sk_public_key example_crypto key) msg (sk_sign example_crypto key msg)"
    by (simp add: example_crypto_def)
  ultimately show ?thesis using signature_round_trip [OF _ _ signed] signed by (auto simp: token_def)
qed

end
