(* ===== verification/Launch_Machine.thy ===== *)
theory Launch_Machine
  imports Seccomp Bytes
begin

unbundle bit_operations_syntax

text \<open>
  The machine the launcher's child processes run on: the system calls of
  \<open>platform/linux.rs\<close> and \<open>platform/linux_pid_lifecycle.rs\<close> with their arguments, the answers of
  the kernel, the shared records and a small monad. A program either returns, or exits (as after
  \<open>child_fail\<close>), or never returns (\<open>None\<close>). Constants of the C library are symbolic.
\<close>

type_synonym fd = int

datatype sys_errno =
    EPERM | EACCES | ENOSYS | ENODEV | EOPNOTSUPP | EINTR | EINVAL | EBADF | ESRCH | ECHILD
  | ESTALE | EIO | EISDIR | ENOTDIR | Errno int

datatype file_kind = S_IFDIR | S_IFREG | S_IFCHR | S_IFBLK | S_IFOTHER

record file_stat =
  st_dev :: nat
  st_ino :: nat
  st_kind :: file_kind
  st_exec_bits :: nat
  st_size :: int

record open_how =
  how_flags :: "string list"
  how_mode :: nat
  how_resolve :: u64

datatype landlock_rule = Path_Beneath u64 fd | Net_Port u64 u64

record landlock_ruleset_attr =
  handled_access_fs :: u64
  handled_access_net :: u64
  scoped :: u64

record pollfd_revents =
  POLLIN :: bool
  POLLERR :: bool
  POLLNVAL :: bool

datatype sockaddr = Inet "u8 list" u16 | Unix bytes

text \<open>The calls that only the host makes, before the fork.\<close>

datatype host_call =
    Read fd nat
  | Memfd_create string "string list"
  | Fchmod fd nat
  | Add_seals fd "string list"
  | Get_seals fd
  | Connect fd sockaddr
  | Peer_credentials fd
  | Bind_address fd sockaddr
  | Listen fd nat
  | Landlock_abi
  | Eventfd
  | Pipe
datatype call =
    Close fd
  | Unshare "string list"
  | Openat fd string "string list" nat
  | Write fd bytes
  | Sethostname bytes
  | Socket string
  | Ioctl fd u32 string int
  | Mount string string string "string list" string
  | Openat2 fd string open_how
  | Fstat fd
  | Open_tree fd string "string list"
  | Mount_setattr fd "string list" u64
  | Move_mount fd fd
  | Fsopen string
  | Fsconfig_string fd string string
  | Fsconfig_create fd
  | Fsmount fd u64
  | Mkdirat fd string nat
  | Dupfd_cloexec fd fd
  | Fchdir fd
  | Chroot string
  | Close_range nat nat nat
  | Fork
  | Kill int string
  | Wait4 int bool
  | Pread fd nat nat
  | Dup2 fd fd
  | Dup3 fd fd
  | Setrlimit string u64
  | Prctl "string list"
  | Capbset_drop nat
  | Capset u32 "(u32 \<times> u32 \<times> u32) list"
  | Landlock_create_ruleset landlock_ruleset_attr nat
  | Landlock_add_rule fd landlock_rule
  | Landlock_restrict_self fd
  | Set_seccomp "sock_filter list"
  | Execveat fd "string list" "string list" nat
  | Pidfd_open int
  | Timerfd_create
  | Timerfd_settime fd nat nat
  | Poll "fd list"
  | Getrusage_children
  | Export_upper fd
  | Host host_call
  | Exit_call int int

datatype answer =
    Failed sys_errno
  | Returned nat
  | Stat file_stat
  | Data bytes
  | Flags int
  | Waited int int
  | Polled "pollfd_revents list"
  | Usage int int int int int
  | Seals "string list"
  | Credentials nat u32 u32
  | Pipe_ends nat nat

datatype event = Call call answer | Mark u64

definition failed :: "answer \<Rightarrow> bool" where
  "failed a \<longleftrightarrow> (case a of Failed _ \<Rightarrow> True | _ \<Rightarrow> False)"

text \<open>The return value of a call that has not failed, and the structure a call fills in.\<close>

fun ret_of :: "answer \<Rightarrow> nat" where
  "ret_of (Returned n) = n"
| "ret_of (Data bs) = length bs"
| "ret_of (Waited pid status) = nat pid"
| "ret_of (Polled rs) = length rs"
| "ret_of _ = 0"

abbreviation zeroed_stat :: file_stat where
  "zeroed_stat \<equiv> \<lparr>st_dev = 0, st_ino = 0, st_kind = S_IFOTHER, st_exec_bits = 0, st_size = 0\<rparr>"

fun stat_of :: "answer \<Rightarrow> file_stat" where
  "stat_of (Stat st) = st"
| "stat_of _ = zeroed_stat"

section \<open>The shared records\<close>

record launch_error_record =
  le_errno :: sys_errno
  le_phase :: u32
  enforcement_bits :: u64

record target_lifecycle_record =
  lc_status :: int
  reaped_descendants :: u32
  timed_out :: u32
  cancelled :: u32
  output_limit_exceeded :: u32
  user_cpu_micros :: u64
  system_cpu_micros :: u64
  max_child_rss_kib :: u64
  ready :: u32

record machine =
  trace :: "event list"
  errno_location :: sys_errno
  launch_error :: launch_error_record
  lifecycle :: target_lifecycle_record

record os =
  answers :: "event list \<Rightarrow> call \<Rightarrow> answer"
  exit_syscall :: int
  SYS_exit :: int
  AT_FDCWD :: fd

section \<open>Programs\<close>

datatype 'a flow = Return 'a | Exit int

type_synonym 'a prog = "machine \<Rightarrow> (machine \<times> 'a flow) option"

definition ret :: "'a \<Rightarrow> 'a prog" where
  "ret x = (\<lambda>s. Some (s, Return x))"

definition bind :: "'a prog \<Rightarrow> ('a \<Rightarrow> 'b prog) \<Rightarrow> 'b prog" where
  "bind m f = (\<lambda>s. Option.bind (m s) (\<lambda>(s, r). case r of Return x \<Rightarrow> f x s | Exit c \<Rightarrow> Some (s, Exit c)))"

abbreviation seq :: "unit prog \<Rightarrow> 'b prog \<Rightarrow> 'b prog" where
  "seq m n \<equiv> bind m (\<lambda>_. n)"

primrec each :: "('x \<Rightarrow> unit prog) \<Rightarrow> 'x list \<Rightarrow> unit prog" where
  "each f [] = ret ()"
| "each f (x # xs) = seq (f x) (each f xs)"

definition only_if :: "bool \<Rightarrow> unit prog \<Rightarrow> unit prog" where
  "only_if b m = (if b then m else ret ())"

definition sys :: "os \<Rightarrow> call \<Rightarrow> answer prog" where
  "sys os c = (\<lambda>s. let a = answers os (trace s) c in
     Some (s\<lparr>trace := trace s @ [Call c a],
             errno_location := (case a of Failed e \<Rightarrow> e | _ \<Rightarrow> errno_location s)\<rparr>, Return a))"

text \<open>A call whose failure the caller inspects.\<close>

definition try_call :: "os \<Rightarrow> call \<Rightarrow> (answer, sys_errno) result prog" where
  "try_call os c = bind (sys os c) (\<lambda>a. ret (case a of Failed e \<Rightarrow> Err e | _ \<Rightarrow> Ok a))"

definition last_errno :: "sys_errno prog" where
  "last_errno = (\<lambda>s. Some (s, Return (errno_location s)))"

definition mark_enforcement :: "u64 \<Rightarrow> unit prog" where
  "mark_enforcement b = (\<lambda>s. Some (s\<lparr>trace := trace s @ [Mark b],
     launch_error := (launch_error s)\<lparr>enforcement_bits := enforcement_bits (launch_error s) OR b\<rparr>\<rparr>, Return ()))"

definition publish_error :: "u32 \<Rightarrow> sys_errno \<Rightarrow> unit prog" where
  "publish_error phase e = (\<lambda>s. Some (s\<lparr>launch_error := (launch_error s)\<lparr>le_errno := e, le_phase := phase\<rparr>\<rparr>, Return ()))"

definition exit_with :: "os \<Rightarrow> int \<Rightarrow> int \<Rightarrow> 'a prog" where
  "exit_with os number c = bind (sys os (Exit_call number c)) (\<lambda>_ s. Some (s, Exit c))"

definition child_fail_errno :: "os \<Rightarrow> u32 \<Rightarrow> sys_errno \<Rightarrow> 'a prog" where
  "child_fail_errno os phase e = seq (publish_error phase e) (exit_with os (exit_syscall os) 127)"

definition child_fail :: "os \<Rightarrow> u32 \<Rightarrow> 'a prog" where
  "child_fail os phase = bind last_errno (child_fail_errno os phase)"

text \<open>The pattern \<open>if libc::syscall(...) == -1 { child_fail(...) }\<close>.\<close>

definition call_or_fail :: "os \<Rightarrow> u32 \<Rightarrow> call \<Rightarrow> answer prog" where
  "call_or_fail os phase c = bind (sys os c) (\<lambda>a. if failed a then child_fail os phase else ret a)"

definition do_call :: "os \<Rightarrow> u32 \<Rightarrow> call \<Rightarrow> unit prog" where
  "do_call os phase c = bind (call_or_fail os phase c) (\<lambda>_. ret ())"

definition open_fd :: "os \<Rightarrow> u32 \<Rightarrow> call \<Rightarrow> fd prog" where
  "open_fd os phase c = bind (call_or_fail os phase c) (\<lambda>a. ret (int (ret_of a)))"

lemma bind_cong [fundef_cong]: "m = m' \<Longrightarrow> (\<And>x. f x = f' x) \<Longrightarrow> bind m f = bind m' f'"
proof -
  assume "m = m'" and "\<And>x. f x = f' x"
  then have "f = f'" by blast
  then show ?thesis using \<open>m = m'\<close> by simp
qed

lemma bind_mono [partial_function_mono]:
  assumes "mono_option (\<lambda>F. B F s)" and "\<And>x s. mono_option (\<lambda>F. C F x s)"
  shows "mono_option (\<lambda>F. bind (B F) (C F) s)"
proof -
  have "mono_option (\<lambda>F. case r of Return x \<Rightarrow> C F x s | Exit c \<Rightarrow> Some (s, Exit c))" for r s
    using assms(2) by (cases r) (simp_all add: option.const_mono)
  then show ?thesis
    unfolding bind_def case_prod_beta by (intro Partial_Function.bind_mono assms(1))
qed

end
