(* ===== verification/Launch_Logic.thy ===== *)
theory Launch_Logic
  imports Launch_Machine "HOL-Library.Sublist"
begin

unbundle bit_operations_syntax

text \<open>
  A logic for programs of the launch machine. A plan is a list of milestones: calls that have
  succeeded and marks that have been set. A program follows a plan when its run passes the
  milestones in order: all of them when it returns, an initial part of them when it exits.
\<close>

section \<open>Plans\<close>

datatype milestone = Did "call \<Rightarrow> bool" | Marked u64

fun hits :: "milestone \<Rightarrow> event \<Rightarrow> bool" where
  "hits (Did P) (Call c a) \<longleftrightarrow> P c \<and> \<not> failed a"
| "hits (Marked b) (Mark b') \<longleftrightarrow> b = b'"
| "hits _ _ \<longleftrightarrow> False"

definition passes :: "milestone list \<Rightarrow> event list \<Rightarrow> bool" where
  "passes plan es \<longleftrightarrow> (\<exists>sub. subseq sub es \<and> list_all2 hits plan sub)"

fun marks :: "event list \<Rightarrow> u64 list" where
  "marks [] = []"
| "marks (Mark b # es) = b # marks es"
| "marks (Call c a # es) = marks es"

fun plan_marks :: "milestone list \<Rightarrow> u64 list" where
  "plan_marks [] = []"
| "plan_marks (Marked b # plan) = b # plan_marks plan"
| "plan_marks (Did P # plan) = plan_marks plan"

abbreviation is_exec :: "event \<Rightarrow> bool" where
  "is_exec e \<equiv> (\<exists>f argv envp flags a. e = Call (Execveat f argv envp flags) a)"

abbreviation bits_of :: "machine \<Rightarrow> u64" where
  "bits_of s \<equiv> enforcement_bits (launch_error s)"

abbreviation phase_of :: "machine \<Rightarrow> u32" where
  "phase_of s \<equiv> le_phase (launch_error s)"

definition set_marks :: "u64 list \<Rightarrow> u64 \<Rightarrow> u64" where
  "set_marks bs w = fold (\<lambda>b w. w OR b) bs w"

lemma passes_Nil [simp]: "passes [] es"
  by (auto simp: passes_def intro: exI [of _ "[]"])

lemma passes_append: "passes p es \<Longrightarrow> passes q fs \<Longrightarrow> passes (p @ q) (es @ fs)"
  unfolding passes_def by (meson list_all2_appendI list_emb_append_mono)

lemma passes_subseq: "passes p es \<Longrightarrow> subseq es fs \<Longrightarrow> passes p fs"
  unfolding passes_def by (meson subseq_order.trans)

lemma marks_append [simp]: "marks (es @ fs) = marks es @ marks fs"
  by (induction es rule: marks.induct) auto

lemma plan_marks_append [simp]: "plan_marks (p @ q) = plan_marks p @ plan_marks q"
  by (induction p rule: plan_marks.induct) auto

lemma set_marks_append: "set_marks (bs @ cs) w = set_marks cs (set_marks bs w)"
  by (simp add: set_marks_def)

lemma set_marks_Nil [simp]: "set_marks [] w = w"
  by (simp add: set_marks_def)

section \<open>Following a plan\<close>

definition grown :: "machine \<Rightarrow> machine \<Rightarrow> event list \<Rightarrow> bool" where
  "grown s s' es \<longleftrightarrow> trace s' = trace s @ es \<and> (\<forall>e\<in>set es. \<not> is_exec e) \<and> bits_of s' = set_marks (marks es) (bits_of s)"

definition no_error :: "machine \<Rightarrow> machine \<Rightarrow> bool" where
  "no_error s s' \<longleftrightarrow> le_errno (launch_error s') = le_errno (launch_error s) \<and> phase_of s' = phase_of s"

definition exit_ok :: "int \<Rightarrow> machine \<Rightarrow> bool" where
  "exit_ok c s' \<longleftrightarrow> (c = 127 \<longrightarrow> phase_of s' \<noteq> 0) \<and> c \<in> {0, 101, 127}"

fun run_ok :: "milestone list \<Rightarrow> ('a \<Rightarrow> bool) \<Rightarrow> machine \<Rightarrow> machine \<Rightarrow> 'a flow \<Rightarrow> bool" where
  "run_ok plan Q s s' (Return x) \<longleftrightarrow>
     (\<exists>es. grown s s' es \<and> passes plan es \<and> marks es = plan_marks plan) \<and> Q x \<and> no_error s s'"
| "run_ok plan Q s s' (Exit c) \<longleftrightarrow>
     (\<exists>es q. grown s s' es \<and> prefix q plan \<and> passes q es \<and> marks es = plan_marks q) \<and> exit_ok c s'"

declare run_ok.simps [simp del]

definition follows :: "milestone list \<Rightarrow> 'a prog \<Rightarrow> ('a \<Rightarrow> bool) \<Rightarrow> bool" where
  "follows plan m Q \<longleftrightarrow> (\<forall>s s' r. m s = Some (s', r) \<longrightarrow> run_ok plan Q s s' r)"

abbreviation idle :: "'a prog \<Rightarrow> bool" where
  "idle m \<equiv> follows [] m (\<lambda>_. True)"

named_theorems idle_intros "programs that pass no milestone"

lemma followsI:
  "(\<And>s s' r. m s = Some (s', r) \<Longrightarrow> run_ok plan Q s s' r) \<Longrightarrow> follows plan m Q"
  by (simp add: follows_def)

lemma followsD: "follows plan m Q \<Longrightarrow> m s = Some (s', r) \<Longrightarrow> run_ok plan Q s s' r"
  by (simp add: follows_def)

lemma run_ok_Exit_mono: "run_ok plan Q s s' (Exit c) \<Longrightarrow> prefix plan plan' \<Longrightarrow> run_ok plan' Q' s s' (Exit c)"
  unfolding run_ok.simps by (meson prefix_order.trans)

lemma grown_trans: "grown s s' es \<Longrightarrow> grown s' s'' fs \<Longrightarrow> grown s s'' (es @ fs)"
  by (auto simp: grown_def set_marks_append)

lemma grown_one: "\<not> is_exec (Call c a) \<Longrightarrow> trace s' = trace s @ [Call c a] \<Longrightarrow> bits_of s' = bits_of s \<Longrightarrow> grown s s' [Call c a]"
  by (simp add: grown_def)

lemma run_ok_trans:
  assumes one: "run_ok p P s s' (Return x)" and two: "run_ok q Q s' s'' r"
  shows "run_ok (p @ q) Q s s'' r"
proof -
  from one obtain es where es: "grown s s' es" "passes p es" "marks es = plan_marks p" "no_error s s'" by (auto simp: run_ok.simps)
  show ?thesis
  proof (cases r)
    case (Return y)
    then obtain fs where "grown s' s'' fs" "passes q fs" "marks fs = plan_marks q" "Q y" "no_error s' s''"
      using two by (auto simp: run_ok.simps)
    then have "grown s s'' (es @ fs)" "passes (p @ q) (es @ fs)" "marks (es @ fs) = plan_marks (p @ q)"
        "Q y" "no_error s s''"
      using es grown_trans passes_append by (auto simp: no_error_def)
    then show ?thesis unfolding Return run_ok.simps by blast
  next
    case (Exit c)
    then obtain fs q' where fs: "grown s' s'' fs" "prefix q' q" "passes q' fs" "marks fs = plan_marks q'" "exit_ok c s''"
      using two by (auto simp: run_ok.simps)
    then have "grown s s'' (es @ fs)" "prefix (p @ q') (p @ q)" "passes (p @ q') (es @ fs)"
        "marks (es @ fs) = plan_marks (p @ q')"
      using es grown_trans passes_append by auto
    then show ?thesis unfolding Exit run_ok.simps using fs(5) by blast
  qed
qed

lemma grown_refl: "grown s s []"
  by (simp add: grown_def)

lemma no_error_refl: "no_error s s"
  by (simp add: no_error_def)

lemma run_ok_idle:
  "grown s s' es \<Longrightarrow> marks es = [] \<Longrightarrow> no_error s s' \<Longrightarrow> Q x \<Longrightarrow> run_ok [] Q s s' (Return x)"
  unfolding run_ok.simps using passes_Nil by fastforce

lemma run_ok_exit:
  "grown s s' es \<Longrightarrow> marks es = [] \<Longrightarrow> exit_ok c s' \<Longrightarrow> run_ok p Q s s' (Exit c)"
  unfolding run_ok.simps by (intro conjI exI [of _ es] exI [of _ "[]"]) simp_all

lemma follows_ret: "Q x \<Longrightarrow> follows [] (ret x) Q"
  by (rule followsI) (auto simp: ret_def intro: run_ok_idle [OF grown_refl] no_error_refl)

lemma bind_Some:
  "bind m f s = Some (s', r) \<Longrightarrow>
    (\<exists>c. m s = Some (s', Exit c) \<and> r = Exit c) \<or> (\<exists>s1 x. m s = Some (s1, Return x) \<and> f x s1 = Some (s', r))"
proof -
  assume "bind m f s = Some (s', r)"
  then obtain s1 q where "m s = Some (s1, q)" "(case q of Return x \<Rightarrow> f x s1 | Exit c \<Rightarrow> Some (s1, Exit c)) = Some (s', r)"
    by (auto simp: bind_def bind_eq_Some_conv)
  then show ?thesis by (cases q) auto
qed

lemma follows_bind:
  assumes "follows p m P" and "\<And>x. P x \<Longrightarrow> follows q (f x) Q"
  shows "follows (p @ q) (bind m f) Q"
proof (rule followsI)
  fix s s' r
  assume "bind m f s = Some (s', r)"
  then consider c where "m s = Some (s', Exit c)" "r = Exit c"
    | s1 x where "m s = Some (s1, Return x)" "f x s1 = Some (s', r)"
    using bind_Some by blast
  then show "run_ok (p @ q) Q s s' r"
  proof cases
    case 1
    show ?thesis unfolding 1(2) by (rule run_ok_Exit_mono [OF followsD [OF assms(1) 1(1)]]) simp
  next
    case 2
    have one: "run_ok p P s s1 (Return x)" using followsD [OF assms(1) 2(1)] .
    then have "P x" by (simp add: run_ok.simps)
    then show ?thesis using followsD [OF assms(2) 2(2)] one by (auto intro: run_ok_trans)
  qed
qed

lemma follows_weaken:
  assumes "follows p m P" and "\<And>x. P x \<Longrightarrow> Q x"
  shows "follows p m Q"
proof (rule followsI)
  fix s s' r
  assume "m s = Some (s', r)"
  then have "run_ok p P s s' r" by (rule followsD [OF assms(1)])
  then show "run_ok p Q s s' r" using assms(2) by (cases r) (auto simp: run_ok.simps)
qed

lemma follows_never:
  assumes "follows [] m (\<lambda>_. False)"
  shows "follows p m Q"
proof (rule followsI)
  fix s s' r
  assume "m s = Some (s', r)"
  then have "run_ok [] (\<lambda>_. False) s s' r" by (rule followsD [OF assms])
  then show "run_ok p Q s s' r" by (cases r) (auto simp: run_ok.simps(1) intro: run_ok_Exit_mono)
qed

section \<open>Primitive programs\<close>

lemma idle_sys [idle_intros]:
  assumes "\<forall>f argv envp flags. c \<noteq> Execveat f argv envp flags"
  shows "idle (sys os c)"
proof (rule followsI)
  fix s s' r
  assume "sys os c s = Some (s', r)"
  then have r: "r = Return (answers os (trace s) c)" and "grown s s' [Call c (answers os (trace s) c)]" "no_error s s'"
    using assms by (auto simp: sys_def Let_def grown_def no_error_def)
  then show "run_ok [] (\<lambda>_. True) s s' r" 
    unfolding r by (intro run_ok_idle [of s s' "[Call c (answers os (trace s) c)]"]) simp_all
qed

lemma idle_errno [idle_intros]: "idle last_errno"
  by (rule followsI) (auto simp: last_errno_def intro: run_ok_idle [OF grown_refl] no_error_refl)

lemma exit_with_Some:
  "exit_with os n c s = Some (s', r) \<Longrightarrow> r = Exit c \<and> launch_error s' = launch_error s \<and>
     trace s' = trace s @ [Call (Exit_call n c) (answers os (trace s) (Exit_call n c))]"
  by (auto simp: exit_with_def bind_def sys_def Let_def)

lemma follows_exit_0: "follows p (exit_with os n 0) (Q :: 'a \<Rightarrow> bool)"
proof (rule followsI)
  fix s s' and r :: "'a flow"
  assume "exit_with os n 0 s = Some (s', r)"
  then show "run_ok p Q s s' r"
    using exit_with_Some [of os n 0 s s' r] by (auto intro!: run_ok_exit [OF grown_one] simp: exit_ok_def)
qed

lemma never_publish:
  assumes "phase \<noteq> 0"
  shows "follows p (seq (publish_error phase e) (exit_with os n 127)) (Q :: 'a \<Rightarrow> bool)"
proof (rule followsI)
  fix s s' :: machine and r :: "'a flow"
  let ?s = "s\<lparr>launch_error := (launch_error s)\<lparr>le_errno := e, le_phase := phase\<rparr>\<rparr>"
  assume "seq (publish_error phase e) (exit_with os n 127) s = Some (s', r)"
  then have "exit_with os n 127 ?s = Some (s', r)" by (simp add: publish_error_def bind_def)
  then show "run_ok p Q s s' r"
    using exit_with_Some [of os n 127 ?s s' r] assms
    by (auto intro!: run_ok_exit [OF grown_one] simp: exit_ok_def)
qed

lemma follows_child_fail_errno: "phase \<noteq> 0 \<Longrightarrow> follows p (child_fail_errno os phase e) Q"
  unfolding child_fail_errno_def by (rule never_publish)

lemma follows_child_fail: "phase \<noteq> 0 \<Longrightarrow> follows p (child_fail os phase) Q"
  unfolding child_fail_def
  using follows_bind [OF idle_errno follows_child_fail_errno] by fastforce

lemma passes_one: "hits m e \<Longrightarrow> passes [m] [e]"
  unfolding passes_def by (intro exI [of _ "[e]"]) simp

lemma follows_mark: "follows [Marked b] (mark_enforcement b) (\<lambda>_. True)"
proof (rule followsI)
  fix s s' r
  assume "mark_enforcement b s = Some (s', r)"
  then have "r = Return ()" "grown s s' [Mark b]" "no_error s s'"
    by (auto simp: mark_enforcement_def grown_def set_marks_def no_error_def)
  moreover have "passes [Marked b] [Mark b]" by (rule passes_one) simp
  ultimately show "run_ok [Marked b] (\<lambda>_. True) s s' r" by (fastforce simp: run_ok.simps)
qed

lemma follows_answer:
  assumes exec: "\<forall>f argv envp flags. c \<noteq> Execveat f argv envp flags" and "phase \<noteq> 0" and "P c"
  shows "follows [Did P] (call_or_fail os phase c) (\<lambda>_. True)"
proof (rule followsI)
  fix s s' r
  assume run: "call_or_fail os phase c s = Some (s', r)"
  let ?a = "answers os (trace s) c"
  show "run_ok [Did P] (\<lambda>_. True) s s' r"
  proof (cases "failed ?a")
    case True
    have "follows ([] @ [Did P]) (bind (sys os c) (\<lambda>_. child_fail os phase)) (\<lambda>_. True)"
      by (intro follows_bind [OF idle_sys [OF exec]] follows_child_fail assms(2))
    moreover have "bind (sys os c) (\<lambda>_. child_fail os phase) s = Some (s', r)"
      using True run by (simp add: call_or_fail_def bind_def sys_def Let_def)
    ultimately show ?thesis using followsD by fastforce
  next
    case False
    then have "r = Return ?a" "grown s s' [Call c ?a]" "no_error s s'"
      using run exec by (auto simp: call_or_fail_def bind_def sys_def ret_def Let_def grown_def no_error_def)
    moreover have "passes [Did P] [Call c ?a]" using False assms(3) by (intro passes_one) simp
    ultimately show ?thesis by (fastforce simp: run_ok.simps)
  qed
qed

section \<open>Derived rules\<close>

lemma follows_then:
  assumes "follows p m (\<lambda>_. True)" and "\<And>x. follows q (f x) Q"
  shows "follows (p @ q) (bind m f) Q"
  using follows_bind [OF assms(1)] assms(2) by blast

lemma follows_idle:
  assumes "idle m" and "\<And>x. follows q (f x) Q"
  shows "follows q (bind m f) Q"
  using follows_then [OF assms] by simp

lemma follows_idle_with:
  assumes "follows [] m P" and "\<And>x. P x \<Longrightarrow> follows q (f x) Q"
  shows "follows q (bind m f) Q"
  using follows_bind [OF assms] by simp

lemma idle_answer [idle_intros]:
  assumes "\<forall>f argv envp flags. c \<noteq> Execveat f argv envp flags" and "phase \<noteq> 0"
  shows "idle (call_or_fail os phase c)"
  unfolding call_or_fail_def
proof (rule follows_idle [OF idle_sys [OF assms(1)]])
  show "idle (if failed a then child_fail os phase else ret a)" for a
    using follows_child_fail [OF assms(2)] follows_ret by (cases "failed a") (simp_all add: follows_ret)
qed

lemma follows_call:
  assumes "\<forall>f argv envp flags. c \<noteq> Execveat f argv envp flags" and "phase \<noteq> 0" and "P c"
  shows "follows [Did P] (do_call os phase c) (\<lambda>_. True)"
  unfolding do_call_def
  using follows_bind [OF follows_answer [of c phase P os, OF assms] follows_ret, of "\<lambda>_. True"] by simp

lemma idle_call [idle_intros]:
  assumes "\<forall>f argv envp flags. c \<noteq> Execveat f argv envp flags" and "phase \<noteq> 0"
  shows "idle (do_call os phase c)"
  unfolding do_call_def by (rule follows_idle [OF idle_answer [OF assms]]) (rule follows_ret, simp)

lemma follows_open:
  assumes "\<forall>f argv envp flags. c \<noteq> Execveat f argv envp flags" and "phase \<noteq> 0" and "P c"
  shows "follows [Did P] (open_fd os phase c) (\<lambda>fd. fd \<ge> 0)"
proof -
  have "follows ([Did P] @ []) (open_fd os phase c) (\<lambda>fd. fd \<ge> 0)"
    unfolding open_fd_def
    by (rule follows_bind [OF follows_answer [of c phase P os, OF assms]]) (rule follows_ret, simp)
  then show ?thesis by simp
qed

lemma nonneg_open:
  assumes "\<forall>f argv envp flags. c \<noteq> Execveat f argv envp flags" and "phase \<noteq> 0"
  shows "follows [] (open_fd os phase c) (\<lambda>fd. fd \<ge> 0)"
  unfolding open_fd_def by (rule follows_idle [OF idle_answer [OF assms]]) (rule follows_ret, simp)

lemma idle_open [idle_intros]:
  "\<forall>f argv envp flags. c \<noteq> Execveat f argv envp flags \<Longrightarrow> phase \<noteq> 0 \<Longrightarrow> idle (open_fd os phase c)"
  by (rule follows_weaken [OF nonneg_open]) simp_all

lemma idle_try [idle_intros]:
  "\<forall>f argv envp flags. c \<noteq> Execveat f argv envp flags \<Longrightarrow> idle (try_call os c)"
  unfolding try_call_def by (rule follows_idle [OF idle_sys]) (simp_all add: follows_ret)

lemma idle_ret [idle_intros]: "idle (ret x)"
  by (rule follows_ret) simp

lemma idle_fail [idle_intros]:
  "phase \<noteq> 0 \<Longrightarrow> idle (child_fail os phase)" "phase \<noteq> 0 \<Longrightarrow> idle (child_fail_errno os phase e)"
  by (simp_all add: follows_child_fail follows_child_fail_errno)

lemma idle_bind [idle_intros]: "idle m \<Longrightarrow> (\<And>x. idle (f x)) \<Longrightarrow> idle (bind m f)"
  by (rule follows_idle)

lemma idle_each [idle_intros]: "(\<And>x. idle (f x)) \<Longrightarrow> idle (each f xs)"
  by (induction xs) (auto intro: idle_intros)

lemma idle_if [idle_intros]: "(b \<Longrightarrow> idle m) \<Longrightarrow> (\<not> b \<Longrightarrow> idle n) \<Longrightarrow> idle (if b then m else n)"
  by simp

lemma idle_only_if [idle_intros]: "(b \<Longrightarrow> idle m) \<Longrightarrow> idle (only_if b m)"
  by (simp add: only_if_def idle_ret)

lemma idle_sum [idle_intros]:
  "(\<And>e. idle (f e)) \<Longrightarrow> (\<And>x. idle (g x)) \<Longrightarrow> idle (case r of Inl e \<Rightarrow> f e | Inr x \<Rightarrow> g x)"
  by (cases r) simp_all

lemma idle_option [idle_intros]:
  "idle m \<Longrightarrow> (\<And>x. idle (g x)) \<Longrightarrow> idle (case r of None \<Rightarrow> m | Some x \<Rightarrow> g x)"
  by (cases r) simp_all

lemma idle_prod [idle_intros]: "(\<And>x y. idle (f x y)) \<Longrightarrow> idle (case p of (x, y) \<Rightarrow> f x y)"
  by (cases p) simp

text \<open>One milestone in front of a plan.\<close>

lemma follows_did:
  assumes "\<forall>f argv envp flags. c \<noteq> Execveat f argv envp flags" and "phase \<noteq> 0" and "P c" and "follows plan n Q"
  shows "follows (Did P # plan) (seq (do_call os phase c) n) Q"
  using follows_then [OF follows_call [of c phase P os, OF assms(1,2,3)], of plan "\<lambda>_. n"] assms(4) by simp

lemma follows_marked:
  "follows plan n Q \<Longrightarrow> follows (Marked b # plan) (seq (mark_enforcement b) n) Q"
  using follows_then [OF follows_mark, of plan "\<lambda>_. n" Q b] by simp

text \<open>The same rules for programs that name their state, as partial functions do.\<close>

lemma idle_state_sum [idle_intros]:
  "(\<And>e. idle (\<lambda>s. f e s)) \<Longrightarrow> (\<And>x. idle (\<lambda>s. g x s)) \<Longrightarrow> idle (\<lambda>s. case r of Inl e \<Rightarrow> f e s | Inr x \<Rightarrow> g x s)"
  by (cases r) simp_all

lemma idle_state_option [idle_intros]:
  "idle (\<lambda>s. m s) \<Longrightarrow> (\<And>x. idle (\<lambda>s. g x s)) \<Longrightarrow> idle (\<lambda>s. case r of None \<Rightarrow> m s | Some x \<Rightarrow> g x s)"
  by (cases r) simp_all

lemma idle_state_if [idle_intros]:
  "(b \<Longrightarrow> idle (\<lambda>s. m s)) \<Longrightarrow> (\<not> b \<Longrightarrow> idle (\<lambda>s. n s)) \<Longrightarrow> idle (\<lambda>s. if b then m s else n s)"
  by (cases b) simp_all

abbreviation run_good :: "machine \<Rightarrow> machine \<times> 'a flow \<Rightarrow> bool" where
  "run_good s y \<equiv> run_ok [] (\<lambda>_. True) s (fst y) (snd y)"

lemma idleD: "m s = Some y \<Longrightarrow> idle m \<Longrightarrow> run_good s y"
  by (cases y) (simp add: followsD)

lemma idleI: "(\<And>s y. m s = Some y \<Longrightarrow> run_good s y) \<Longrightarrow> idle m"
  by (rule followsI) fastforce

end
