(* ===== verification/Launch_Constants.thy ===== *)
theory Launch_Constants
  imports Launch_Machine
begin

unbundle bit_operations_syntax

text \<open>
  The numeric constants of \<open>platform/linux.rs\<close> that the child's setup uses: launch phases,
  enforcement bits, Landlock rights, resolution and mount flags.
\<close>

definition PHASE_NAMESPACE :: u32 where "PHASE_NAMESPACE = 1"
definition PHASE_SETGROUPS :: u32 where "PHASE_SETGROUPS = 2"
definition PHASE_UID_MAP :: u32 where "PHASE_UID_MAP = 3"
definition PHASE_GID_MAP :: u32 where "PHASE_GID_MAP = 4"
definition PHASE_MOUNT_PRIVATE :: u32 where "PHASE_MOUNT_PRIVATE = 5"
definition PHASE_STDIO :: u32 where "PHASE_STDIO = 6"
definition PHASE_ROOT_CLONE :: u32 where "PHASE_ROOT_CLONE = 7"
definition PHASE_ROOT_READONLY :: u32 where "PHASE_ROOT_READONLY = 8"
definition PHASE_ROOT_ATTACH :: u32 where "PHASE_ROOT_ATTACH = 9"
definition PHASE_ROOT_FCHDIR :: u32 where "PHASE_ROOT_FCHDIR = 10"
definition PHASE_SCRATCH_MOUNT :: u32 where "PHASE_SCRATCH_MOUNT = 11"
definition PHASE_CWD_PIN :: u32 where "PHASE_CWD_PIN = 12"
definition PHASE_CHROOT :: u32 where "PHASE_CHROOT = 13"
definition PHASE_CWD_FCHDIR :: u32 where "PHASE_CWD_FCHDIR = 14"
definition PHASE_FD_SANITIZE :: u32 where "PHASE_FD_SANITIZE = 15"
definition PHASE_RLIMIT_CPU :: u32 where "PHASE_RLIMIT_CPU = 16"
definition PHASE_RLIMIT_AS :: u32 where "PHASE_RLIMIT_AS = 17"
definition PHASE_RLIMIT_FSIZE :: u32 where "PHASE_RLIMIT_FSIZE = 18"
definition PHASE_RLIMIT_NOFILE :: u32 where "PHASE_RLIMIT_NOFILE = 19"
definition PHASE_CAP_BOUNDING :: u32 where "PHASE_CAP_BOUNDING = 20"
definition PHASE_CAP_AMBIENT :: u32 where "PHASE_CAP_AMBIENT = 21"
definition PHASE_CAP_CURRENT :: u32 where "PHASE_CAP_CURRENT = 22"
definition PHASE_NO_NEW_PRIVS :: u32 where "PHASE_NO_NEW_PRIVS = 23"
definition PHASE_SECCOMP :: u32 where "PHASE_SECCOMP = 24"
definition PHASE_EXECVEAT :: u32 where "PHASE_EXECVEAT = 25"
definition PHASE_ROOT_REVALIDATE :: u32 where "PHASE_ROOT_REVALIDATE = 26"
definition PHASE_STDIO_REDIRECT :: u32 where "PHASE_STDIO_REDIRECT = 27"
definition PHASE_STDOUT_CAPTURE :: u32 where "PHASE_STDOUT_CAPTURE = 28"
definition PHASE_PID_INIT_FORK :: u32 where "PHASE_PID_INIT_FORK = 29"
definition PHASE_TARGET_FORK :: u32 where "PHASE_TARGET_FORK = 30"
definition PHASE_PROCESS_TREE_KILL :: u32 where "PHASE_PROCESS_TREE_KILL = 31"
definition PHASE_PROCESS_TREE_REAP :: u32 where "PHASE_PROCESS_TREE_REAP = 32"
definition PHASE_PID_INIT_WAIT :: u32 where "PHASE_PID_INIT_WAIT = 33"
definition PHASE_DEADLINE_PIDFD :: u32 where "PHASE_DEADLINE_PIDFD = 34"
definition PHASE_DEADLINE_TIMERFD :: u32 where "PHASE_DEADLINE_TIMERFD = 35"
definition PHASE_DEADLINE_TIMER_ARM :: u32 where "PHASE_DEADLINE_TIMER_ARM = 36"
definition PHASE_DEADLINE_POLL :: u32 where "PHASE_DEADLINE_POLL = 37"
definition PHASE_HOSTNAME :: u32 where "PHASE_HOSTNAME = 38"
definition PHASE_SELECTED_HANDLES :: u32 where "PHASE_SELECTED_HANDLES = 39"
definition PHASE_CANCELLATION_PIDFD :: u32 where "PHASE_CANCELLATION_PIDFD = 40"
definition PHASE_CANCELLATION_POLL :: u32 where "PHASE_CANCELLATION_POLL = 41"
definition PHASE_VOLUME_SOURCE_REVALIDATE :: u32 where "PHASE_VOLUME_SOURCE_REVALIDATE = 42"
definition PHASE_VOLUME_CLONE :: u32 where "PHASE_VOLUME_CLONE = 43"
definition PHASE_VOLUME_READONLY :: u32 where "PHASE_VOLUME_READONLY = 44"
definition PHASE_VOLUME_TARGET_PIN :: u32 where "PHASE_VOLUME_TARGET_PIN = 45"
definition PHASE_VOLUME_ATTACH :: u32 where "PHASE_VOLUME_ATTACH = 46"
definition PHASE_NETWORK_LOOPBACK :: u32 where "PHASE_NETWORK_LOOPBACK = 47"
definition PHASE_LANDLOCK_RULESET :: u32 where "PHASE_LANDLOCK_RULESET = 48"
definition PHASE_LANDLOCK_PATH :: u32 where "PHASE_LANDLOCK_PATH = 49"
definition PHASE_LANDLOCK_RULE :: u32 where "PHASE_LANDLOCK_RULE = 50"
definition PHASE_LANDLOCK_RESTRICT :: u32 where "PHASE_LANDLOCK_RESTRICT = 51"
definition PHASE_LANDLOCK_NET_RULE :: u32 where "PHASE_LANDLOCK_NET_RULE = 52"
definition PHASE_PROCESS_TREE_USAGE :: u32 where "PHASE_PROCESS_TREE_USAGE = 53"
definition PHASE_OUTPUT_LIMIT_PIDFD :: u32 where "PHASE_OUTPUT_LIMIT_PIDFD = 54"
definition PHASE_OUTPUT_LIMIT_POLL :: u32 where "PHASE_OUTPUT_LIMIT_POLL = 55"
definition PHASE_TIME_OFFSETS :: u32 where "PHASE_TIME_OFFSETS = 56"
definition PHASE_PROCFS_MOUNT :: u32 where "PHASE_PROCFS_MOUNT = 57"
definition PHASE_PROCFS_PID1_HARDEN :: u32 where "PHASE_PROCFS_PID1_HARDEN = 58"
definition PHASE_COW_TMPFS_CREATE :: u32 where "PHASE_COW_TMPFS_CREATE = 59"
definition PHASE_COW_TMPFS_MOUNT :: u32 where "PHASE_COW_TMPFS_MOUNT = 60"
definition PHASE_COW_UPPER_WORK :: u32 where "PHASE_COW_UPPER_WORK = 61"
definition PHASE_COW_OVERLAY_CREATE :: u32 where "PHASE_COW_OVERLAY_CREATE = 62"
definition PHASE_COW_OVERLAY_MOUNT :: u32 where "PHASE_COW_OVERLAY_MOUNT = 63"
definition PHASE_COW_ROOT_ATTACH :: u32 where "PHASE_COW_ROOT_ATTACH = 64"
definition PHASE_COW_DIFF_EXPORT :: u32 where "PHASE_COW_DIFF_EXPORT = 65"
definition PHASE_INTERPRETER_TMPFS_CREATE :: u32 where "PHASE_INTERPRETER_TMPFS_CREATE = 66"
definition PHASE_INTERPRETER_TMPFS_MOUNT :: u32 where "PHASE_INTERPRETER_TMPFS_MOUNT = 67"
definition PHASE_INTERPRETER_COPY :: u32 where "PHASE_INTERPRETER_COPY = 68"
definition PHASE_INTERPRETER_CLONE :: u32 where "PHASE_INTERPRETER_CLONE = 69"
definition PHASE_INTERPRETER_TARGET_PIN :: u32 where "PHASE_INTERPRETER_TARGET_PIN = 70"
definition PHASE_INTERPRETER_READONLY :: u32 where "PHASE_INTERPRETER_READONLY = 71"
definition PHASE_INTERPRETER_ATTACH :: u32 where "PHASE_INTERPRETER_ATTACH = 72"
definition PHASE_NEEDED_TMPFS_CREATE :: u32 where "PHASE_NEEDED_TMPFS_CREATE = 73"
definition PHASE_NEEDED_TMPFS_MOUNT :: u32 where "PHASE_NEEDED_TMPFS_MOUNT = 74"
definition PHASE_NEEDED_COPY :: u32 where "PHASE_NEEDED_COPY = 75"
definition PHASE_NEEDED_CLONE :: u32 where "PHASE_NEEDED_CLONE = 76"
definition PHASE_NEEDED_TARGET_PIN :: u32 where "PHASE_NEEDED_TARGET_PIN = 77"
definition PHASE_NEEDED_READONLY :: u32 where "PHASE_NEEDED_READONLY = 78"
definition PHASE_NEEDED_ATTACH :: u32 where "PHASE_NEEDED_ATTACH = 79"
definition PHASE_COW_VOLUME_TMPFS_CREATE :: u32 where "PHASE_COW_VOLUME_TMPFS_CREATE = 80"
definition PHASE_COW_VOLUME_TMPFS_MOUNT :: u32 where "PHASE_COW_VOLUME_TMPFS_MOUNT = 81"
definition PHASE_COW_VOLUME_UPPER_WORK :: u32 where "PHASE_COW_VOLUME_UPPER_WORK = 82"
definition PHASE_COW_VOLUME_OVERLAY_CREATE :: u32 where "PHASE_COW_VOLUME_OVERLAY_CREATE = 83"
definition PHASE_COW_VOLUME_OVERLAY_MOUNT :: u32 where "PHASE_COW_VOLUME_OVERLAY_MOUNT = 84"
definition PHASE_COW_VOLUME_ATTACH :: u32 where "PHASE_COW_VOLUME_ATTACH = 85"

definition ENFORCEMENT_BASE_NAMESPACES :: u64 where "ENFORCEMENT_BASE_NAMESPACES = 0x1"
definition ENFORCEMENT_TIME_NAMESPACE :: u64 where "ENFORCEMENT_TIME_NAMESPACE = 0x2"
definition ENFORCEMENT_HOSTNAME :: u64 where "ENFORCEMENT_HOSTNAME = 0x4"
definition ENFORCEMENT_PRIVATE_MOUNTS :: u64 where "ENFORCEMENT_PRIVATE_MOUNTS = 0x8"
definition ENFORCEMENT_READONLY_ROOT :: u64 where "ENFORCEMENT_READONLY_ROOT = 0x10"
definition ENFORCEMENT_CHROOT :: u64 where "ENFORCEMENT_CHROOT = 0x20"
definition ENFORCEMENT_FD_SANITIZATION :: u64 where "ENFORCEMENT_FD_SANITIZATION = 0x40"
definition ENFORCEMENT_RLIMITS :: u64 where "ENFORCEMENT_RLIMITS = 0x80"
definition ENFORCEMENT_CAPABILITIES :: u64 where "ENFORCEMENT_CAPABILITIES = 0x100"
definition ENFORCEMENT_NO_NEW_PRIVS :: u64 where "ENFORCEMENT_NO_NEW_PRIVS = 0x200"
definition ENFORCEMENT_LANDLOCK :: u64 where "ENFORCEMENT_LANDLOCK = 0x400"
definition ENFORCEMENT_SECCOMP :: u64 where "ENFORCEMENT_SECCOMP = 0x800"
definition ENFORCEMENT_PRIVATE_PROCFS :: u64 where "ENFORCEMENT_PRIVATE_PROCFS = 0x1000"
definition ENFORCEMENT_COW_ROOT :: u64 where "ENFORCEMENT_COW_ROOT = 0x2000"

definition LANDLOCK_ACCESS_NET_BIND_TCP :: u64 where "LANDLOCK_ACCESS_NET_BIND_TCP = 0x1"
definition LANDLOCK_ACCESS_NET_CONNECT_TCP :: u64 where "LANDLOCK_ACCESS_NET_CONNECT_TCP = 0x2"
definition LANDLOCK_ACCESS_FS_EXECUTE :: u64 where "LANDLOCK_ACCESS_FS_EXECUTE = 0x1"
definition LANDLOCK_ACCESS_FS_WRITE_FILE :: u64 where "LANDLOCK_ACCESS_FS_WRITE_FILE = 0x2"
definition LANDLOCK_ACCESS_FS_READ_FILE :: u64 where "LANDLOCK_ACCESS_FS_READ_FILE = 0x4"
definition LANDLOCK_ACCESS_FS_READ_DIR :: u64 where "LANDLOCK_ACCESS_FS_READ_DIR = 0x8"
definition LANDLOCK_ACCESS_FS_REMOVE_DIR :: u64 where "LANDLOCK_ACCESS_FS_REMOVE_DIR = 0x10"
definition LANDLOCK_ACCESS_FS_REMOVE_FILE :: u64 where "LANDLOCK_ACCESS_FS_REMOVE_FILE = 0x20"
definition LANDLOCK_ACCESS_FS_MAKE_DIR :: u64 where "LANDLOCK_ACCESS_FS_MAKE_DIR = 0x80"
definition LANDLOCK_ACCESS_FS_MAKE_REG :: u64 where "LANDLOCK_ACCESS_FS_MAKE_REG = 0x100"
definition LANDLOCK_ACCESS_FS_MAKE_SYM :: u64 where "LANDLOCK_ACCESS_FS_MAKE_SYM = 0x1000"
definition LANDLOCK_ACCESS_FS_REFER :: u64 where "LANDLOCK_ACCESS_FS_REFER = 0x2000"
definition LANDLOCK_ACCESS_FS_TRUNCATE :: u64 where "LANDLOCK_ACCESS_FS_TRUNCATE = 0x4000"
definition LANDLOCK_ACCESS_FS_IOCTL_DEV :: u64 where "LANDLOCK_ACCESS_FS_IOCTL_DEV = 0x8000"
definition LANDLOCK_SCOPE_ABSTRACT_UNIX_SOCKET :: u64 where "LANDLOCK_SCOPE_ABSTRACT_UNIX_SOCKET = 0x1"
definition LANDLOCK_SCOPE_SIGNAL :: u64 where "LANDLOCK_SCOPE_SIGNAL = 0x2"

definition RESOLVE_NO_XDEV :: u64 where "RESOLVE_NO_XDEV = 0x1"
definition RESOLVE_NO_MAGICLINKS :: u64 where "RESOLVE_NO_MAGICLINKS = 0x2"
definition RESOLVE_NO_SYMLINKS :: u64 where "RESOLVE_NO_SYMLINKS = 0x4"
definition RESOLVE_BENEATH :: u64 where "RESOLVE_BENEATH = 0x8"
definition MOUNT_ATTR_RDONLY :: u64 where "MOUNT_ATTR_RDONLY = 0x1"
definition MOUNT_ATTR_NOSUID :: u64 where "MOUNT_ATTR_NOSUID = 0x2"
definition MOUNT_ATTR_NODEV :: u64 where "MOUNT_ATTR_NODEV = 0x4"
definition MOUNT_ATTR_NOEXEC :: u64 where "MOUNT_ATTR_NOEXEC = 0x8"

definition FIRST_NON_STDIO_FD :: int where "FIRST_NON_STDIO_FD = 3"
definition LINUX_CAPABILITY_VERSION_3 :: u32 where "LINUX_CAPABILITY_VERSION_3 = 0x20080522"
definition SIOCGIFFLAGS :: u32 where "SIOCGIFFLAGS = 0x8913"
definition SIOCSIFFLAGS :: u32 where "SIOCSIFFLAGS = 0x8914"

definition ENFORCEMENT_KNOWN :: u64 where
  "ENFORCEMENT_KNOWN =
     ENFORCEMENT_BASE_NAMESPACES OR ENFORCEMENT_TIME_NAMESPACE OR ENFORCEMENT_HOSTNAME OR
     ENFORCEMENT_PRIVATE_MOUNTS OR ENFORCEMENT_READONLY_ROOT OR ENFORCEMENT_CHROOT OR
     ENFORCEMENT_FD_SANITIZATION OR ENFORCEMENT_RLIMITS OR ENFORCEMENT_CAPABILITIES OR
     ENFORCEMENT_NO_NEW_PRIVS OR ENFORCEMENT_LANDLOCK OR ENFORCEMENT_SECCOMP OR
     ENFORCEMENT_PRIVATE_PROCFS OR ENFORCEMENT_COW_ROOT"

definition LANDLOCK_READ_EXECUTE_RIGHTS :: u64 where
  "LANDLOCK_READ_EXECUTE_RIGHTS =
     LANDLOCK_ACCESS_FS_EXECUTE OR LANDLOCK_ACCESS_FS_READ_FILE OR LANDLOCK_ACCESS_FS_READ_DIR"

definition LANDLOCK_FILE_MUTATE_RIGHTS :: u64 where
  "LANDLOCK_FILE_MUTATE_RIGHTS =
     LANDLOCK_ACCESS_FS_WRITE_FILE OR LANDLOCK_ACCESS_FS_REMOVE_FILE OR LANDLOCK_ACCESS_FS_MAKE_REG OR
     LANDLOCK_ACCESS_FS_TRUNCATE"

definition LANDLOCK_PATH_TOPOLOGY_MUTATE_RIGHTS :: u64 where
  "LANDLOCK_PATH_TOPOLOGY_MUTATE_RIGHTS =
     LANDLOCK_ACCESS_FS_REMOVE_DIR OR LANDLOCK_ACCESS_FS_MAKE_DIR OR LANDLOCK_ACCESS_FS_MAKE_SYM OR
     LANDLOCK_ACCESS_FS_REFER"


lemmas phase_values =
  PHASE_NAMESPACE_def PHASE_SETGROUPS_def PHASE_UID_MAP_def PHASE_GID_MAP_def
  PHASE_MOUNT_PRIVATE_def PHASE_STDIO_def PHASE_ROOT_CLONE_def PHASE_ROOT_READONLY_def
  PHASE_ROOT_ATTACH_def PHASE_ROOT_FCHDIR_def PHASE_SCRATCH_MOUNT_def PHASE_CWD_PIN_def
  PHASE_CHROOT_def PHASE_CWD_FCHDIR_def PHASE_FD_SANITIZE_def PHASE_RLIMIT_CPU_def
  PHASE_RLIMIT_AS_def PHASE_RLIMIT_FSIZE_def PHASE_RLIMIT_NOFILE_def PHASE_CAP_BOUNDING_def
  PHASE_CAP_AMBIENT_def PHASE_CAP_CURRENT_def PHASE_NO_NEW_PRIVS_def PHASE_SECCOMP_def
  PHASE_EXECVEAT_def PHASE_ROOT_REVALIDATE_def PHASE_STDIO_REDIRECT_def PHASE_STDOUT_CAPTURE_def
  PHASE_PID_INIT_FORK_def PHASE_TARGET_FORK_def PHASE_PROCESS_TREE_KILL_def PHASE_PROCESS_TREE_REAP_def
  PHASE_PID_INIT_WAIT_def PHASE_DEADLINE_PIDFD_def PHASE_DEADLINE_TIMERFD_def PHASE_DEADLINE_TIMER_ARM_def
  PHASE_DEADLINE_POLL_def PHASE_HOSTNAME_def PHASE_SELECTED_HANDLES_def PHASE_CANCELLATION_PIDFD_def
  PHASE_CANCELLATION_POLL_def PHASE_VOLUME_SOURCE_REVALIDATE_def PHASE_VOLUME_CLONE_def PHASE_VOLUME_READONLY_def
  PHASE_VOLUME_TARGET_PIN_def PHASE_VOLUME_ATTACH_def PHASE_NETWORK_LOOPBACK_def PHASE_LANDLOCK_RULESET_def
  PHASE_LANDLOCK_PATH_def PHASE_LANDLOCK_RULE_def PHASE_LANDLOCK_RESTRICT_def PHASE_LANDLOCK_NET_RULE_def
  PHASE_PROCESS_TREE_USAGE_def PHASE_OUTPUT_LIMIT_PIDFD_def PHASE_OUTPUT_LIMIT_POLL_def PHASE_TIME_OFFSETS_def
  PHASE_PROCFS_MOUNT_def PHASE_PROCFS_PID1_HARDEN_def PHASE_COW_TMPFS_CREATE_def PHASE_COW_TMPFS_MOUNT_def
  PHASE_COW_UPPER_WORK_def PHASE_COW_OVERLAY_CREATE_def PHASE_COW_OVERLAY_MOUNT_def PHASE_COW_ROOT_ATTACH_def
  PHASE_COW_DIFF_EXPORT_def PHASE_INTERPRETER_TMPFS_CREATE_def PHASE_INTERPRETER_TMPFS_MOUNT_def PHASE_INTERPRETER_COPY_def
  PHASE_INTERPRETER_CLONE_def PHASE_INTERPRETER_TARGET_PIN_def PHASE_INTERPRETER_READONLY_def PHASE_INTERPRETER_ATTACH_def
  PHASE_NEEDED_TMPFS_CREATE_def PHASE_NEEDED_TMPFS_MOUNT_def PHASE_NEEDED_COPY_def PHASE_NEEDED_CLONE_def
  PHASE_NEEDED_TARGET_PIN_def PHASE_NEEDED_READONLY_def PHASE_NEEDED_ATTACH_def PHASE_COW_VOLUME_TMPFS_CREATE_def
  PHASE_COW_VOLUME_TMPFS_MOUNT_def PHASE_COW_VOLUME_UPPER_WORK_def PHASE_COW_VOLUME_OVERLAY_CREATE_def PHASE_COW_VOLUME_OVERLAY_MOUNT_def
  PHASE_COW_VOLUME_ATTACH_def

lemmas enforcement_values =
  ENFORCEMENT_BASE_NAMESPACES_def ENFORCEMENT_TIME_NAMESPACE_def ENFORCEMENT_HOSTNAME_def ENFORCEMENT_PRIVATE_MOUNTS_def
  ENFORCEMENT_READONLY_ROOT_def ENFORCEMENT_CHROOT_def ENFORCEMENT_FD_SANITIZATION_def ENFORCEMENT_RLIMITS_def
  ENFORCEMENT_CAPABILITIES_def ENFORCEMENT_NO_NEW_PRIVS_def ENFORCEMENT_LANDLOCK_def ENFORCEMENT_SECCOMP_def
  ENFORCEMENT_PRIVATE_PROCFS_def ENFORCEMENT_COW_ROOT_def ENFORCEMENT_KNOWN_def

lemmas landlock_values =
  LANDLOCK_ACCESS_NET_BIND_TCP_def LANDLOCK_ACCESS_NET_CONNECT_TCP_def LANDLOCK_ACCESS_FS_EXECUTE_def LANDLOCK_ACCESS_FS_WRITE_FILE_def
  LANDLOCK_ACCESS_FS_READ_FILE_def LANDLOCK_ACCESS_FS_READ_DIR_def LANDLOCK_ACCESS_FS_REMOVE_DIR_def LANDLOCK_ACCESS_FS_REMOVE_FILE_def
  LANDLOCK_ACCESS_FS_MAKE_DIR_def LANDLOCK_ACCESS_FS_MAKE_REG_def LANDLOCK_ACCESS_FS_MAKE_SYM_def LANDLOCK_ACCESS_FS_REFER_def
  LANDLOCK_ACCESS_FS_TRUNCATE_def LANDLOCK_ACCESS_FS_IOCTL_DEV_def LANDLOCK_SCOPE_ABSTRACT_UNIX_SOCKET_def LANDLOCK_SCOPE_SIGNAL_def
  LANDLOCK_READ_EXECUTE_RIGHTS_def LANDLOCK_FILE_MUTATE_RIGHTS_def LANDLOCK_PATH_TOPOLOGY_MUTATE_RIGHTS_def

end
