(* ===== verification/Launch_Mounts.thy ===== *)
theory Launch_Mounts
  imports Launch_Constants
begin

unbundle bit_operations_syntax

text \<open>
  The filesystem part of the child's setup in \<open>platform/linux.rs\<close>: the files under \<open>/proc\<close>, the
  loopback device, the final root, volumes, sealed images, the redirect file and the private procfs.
\<close>

section \<open>Small helpers\<close>

definition close_setup_fd :: "os \<Rightarrow> fd \<Rightarrow> unit prog" where
  "close_setup_fd os fd = only_if (fd \<ge> 0) (bind (sys os (Close fd)) (\<lambda>_. ret ()))"

function proc_fd_digits :: "nat \<Rightarrow> string" where
  "proc_fd_digits value =
     (let digit = char_of (48 + value mod 10) in
      if value div 10 = 0 then [digit] else digit # proc_fd_digits (value div 10))"
  by pat_completeness auto
termination
  by (relation "measure id") auto

declare proc_fd_digits.simps [simp del]

definition proc_fd_path :: "fd \<Rightarrow> string" where
  "proc_fd_path fd = ''/proc/self/fd/'' @ rev (proc_fd_digits (nat (fd mod 2 ^ 32)))"

definition fsconfig_string_or_fail :: "os \<Rightarrow> fd \<Rightarrow> string \<Rightarrow> string \<Rightarrow> u32 \<Rightarrow> unit prog" where
  "fsconfig_string_or_fail os fsfd key v phase = do_call os phase (Fsconfig_string fsfd key v)"

definition revalidate_fd_identity_or_fail :: "os \<Rightarrow> fd \<Rightarrow> fd \<Rightarrow> u32 \<Rightarrow> unit prog" where
  "revalidate_fd_identity_or_fail os pinned_fd current_fd phase =
     bind (call_or_fail os phase (Fstat pinned_fd)) (\<lambda>pinned.
     bind (call_or_fail os phase (Fstat current_fd)) (\<lambda>current.
     if st_dev (stat_of pinned) \<noteq> st_dev (stat_of current) \<or> st_ino (stat_of pinned) \<noteq> st_ino (stat_of current)
     then child_fail_errno os phase ESTALE
     else ret ()))"

definition revalidate_root_identity_or_fail :: "os \<Rightarrow> fd \<Rightarrow> fd \<Rightarrow> unit prog" where
  "revalidate_root_identity_or_fail os pinned_root_fd current_root_fd =
     revalidate_fd_identity_or_fail os pinned_root_fd current_root_fd PHASE_ROOT_REVALIDATE"

definition move_fd_above_stdio_or_fail :: "os \<Rightarrow> fd \<Rightarrow> u32 \<Rightarrow> fd prog" where
  "move_fd_above_stdio_or_fail os fd phase =
     (if fd \<ge> FIRST_NON_STDIO_FD then ret fd
      else bind (open_fd os phase (Dupfd_cloexec fd FIRST_NON_STDIO_FD)) (\<lambda>moved.
           seq (do_call os phase (Close fd)) (ret moved)))"

section \<open>Files under /proc and the loopback device\<close>

function write_proc_loop :: "os \<Rightarrow> fd \<Rightarrow> u32 \<Rightarrow> bytes \<Rightarrow> unit prog" where
  "write_proc_loop os fd phase data =
     (if data = [] then ret ()
      else bind (try_call os (Write fd data)) (\<lambda>r.
        case r of
          Inl e \<Rightarrow> bind (sys os (Close fd)) (\<lambda>_. child_fail_errno os phase e)
        | Inr a \<Rightarrow>
            if ret_of a = 0 then bind (sys os (Close fd)) (\<lambda>_. child_fail_errno os phase EIO)
            else write_proc_loop os fd phase (drop (ret_of a) data)))"
  by pat_completeness auto
termination
  by (relation "measure (\<lambda>(os, fd, phase, data). length data)") auto

declare write_proc_loop.simps [simp del]

definition write_proc_file_or_fail :: "os \<Rightarrow> string \<Rightarrow> bytes \<Rightarrow> u32 \<Rightarrow> unit prog" where
  "write_proc_file_or_fail os path data phase =
     bind (open_fd os phase (Openat (AT_FDCWD os) path [''O_WRONLY'', ''O_CLOEXEC''] 0)) (\<lambda>fd.
     seq (write_proc_loop os fd phase data)
     (do_call os phase (Close fd)))"

fun flags_of :: "answer \<Rightarrow> int" where
  "flags_of (Flags f) = f"
| "flags_of a = 0"

definition loopback_ioctl :: "os \<Rightarrow> fd \<Rightarrow> u32 \<Rightarrow> int \<Rightarrow> answer prog" where
  "loopback_ioctl os socket_fd request flags =
     bind (try_call os (Ioctl socket_fd request ''lo'' flags)) (\<lambda>r.
       case r of
         Inl e \<Rightarrow> bind (sys os (Close socket_fd)) (\<lambda>_. child_fail_errno os PHASE_NETWORK_LOOPBACK e)
       | Inr a \<Rightarrow> ret a)"

definition enable_loopback_or_fail :: "os \<Rightarrow> unit prog" where
  "enable_loopback_or_fail os =
     bind (open_fd os PHASE_NETWORK_LOOPBACK (Socket ''AF_INET SOCK_DGRAM SOCK_CLOEXEC'')) (\<lambda>socket_fd.
     bind (loopback_ioctl os socket_fd SIOCGIFFLAGS 0) (\<lambda>a.
     bind (loopback_ioctl os socket_fd SIOCSIFFLAGS (flags_of a OR 1)) (\<lambda>_.
     do_call os PHASE_NETWORK_LOOPBACK (Close socket_fd))))"

section \<open>The final root\<close>

definition open_tree_recursive :: "string list" where
  "open_tree_recursive = [''OPEN_TREE_CLONE'', ''OPEN_TREE_CLOEXEC'', ''AT_RECURSIVE'']"

definition directory_path_flags :: "string list" where
  "directory_path_flags = [''O_PATH'', ''O_DIRECTORY'', ''O_CLOEXEC'']"

definition create_private_tmpfs :: "os \<Rightarrow> string \<Rightarrow> u64 \<Rightarrow> u32 \<Rightarrow> u32 \<Rightarrow> fd prog" where
  "create_private_tmpfs os bound attrs create_phase mount_phase =
     bind (open_fd os create_phase (Fsopen ''tmpfs'')) (\<lambda>fsfd.
     seq (fsconfig_string_or_fail os fsfd ''size'' bound create_phase)
     (seq (fsconfig_string_or_fail os fsfd ''mode'' ''0700'' create_phase)
     (seq (do_call os create_phase (Fsconfig_create fsfd))
     (bind (open_fd os mount_phase (Fsmount fsfd attrs)) (\<lambda>mount_fd.
     seq (close_setup_fd os fsfd) (ret mount_fd))))))"

definition open_upper_work :: "os \<Rightarrow> fd \<Rightarrow> u32 \<Rightarrow> (fd \<times> fd) prog" where
  "open_upper_work os state_mount_fd phase =
     seq (do_call os phase (Mkdirat state_mount_fd ''upper'' 448))
     (seq (do_call os phase (Mkdirat state_mount_fd ''work'' 448))
     (bind (open_fd os phase (Openat state_mount_fd ''upper'' directory_path_flags 0)) (\<lambda>upper_fd.
     bind (open_fd os phase (Openat state_mount_fd ''work'' directory_path_flags 0)) (\<lambda>work_fd.
     ret (upper_fd, work_fd)))))"

definition create_overlay :: "os \<Rightarrow> fd \<Rightarrow> fd \<Rightarrow> fd \<Rightarrow> u32 \<Rightarrow> u32 \<Rightarrow> (fd \<times> fd) prog" where
  "create_overlay os lower_tree_fd upper work_fd create_phase mount_phase =
     bind (open_fd os create_phase (Fsopen ''overlay'')) (\<lambda>overlay_fsfd.
     seq (each (\<lambda>(key, v). fsconfig_string_or_fail os overlay_fsfd key v create_phase)
       [(''lowerdir'', proc_fd_path lower_tree_fd), (''upperdir'', proc_fd_path upper),
        (''workdir'', proc_fd_path work_fd), (''metacopy'', ''off''), (''redirect_dir'', ''nofollow'')])
     (seq (do_call os create_phase (Fsconfig_create overlay_fsfd))
     (bind (open_fd os mount_phase (Fsmount overlay_fsfd 0)) (\<lambda>overlay_fd.
     ret (overlay_fd, overlay_fsfd)))))"

definition construct_final_root_or_fail :: "os \<Rightarrow> string option \<Rightarrow> bool \<Rightarrow> fd \<Rightarrow> (fd \<times> fd) prog" where
  "construct_final_root_or_fail os cow_root_size cow_diff_requested current_root_fd =
     bind (open_fd os PHASE_ROOT_CLONE (Open_tree current_root_fd ''.'' open_tree_recursive)) (\<lambda>lower_tree_fd.
     seq (do_call os PHASE_ROOT_READONLY
       (Mount_setattr lower_tree_fd [''AT_EMPTY_PATH'', ''AT_RECURSIVE''] MOUNT_ATTR_RDONLY))
     (case cow_root_size of
        None \<Rightarrow>
          seq (do_call os PHASE_ROOT_ATTACH (Move_mount lower_tree_fd current_root_fd))
          (seq (mark_enforcement ENFORCEMENT_READONLY_ROOT)
          (ret (lower_tree_fd, -1)))
      | Some cow_size \<Rightarrow>
          bind (create_private_tmpfs os cow_size (MOUNT_ATTR_NOSUID OR MOUNT_ATTR_NODEV OR MOUNT_ATTR_NOEXEC)
            PHASE_COW_TMPFS_CREATE PHASE_COW_TMPFS_MOUNT) (\<lambda>state_mount_fd.
          bind (open_upper_work os state_mount_fd PHASE_COW_UPPER_WORK) (\<lambda>(upper, work_fd).
          bind (create_overlay os lower_tree_fd upper work_fd PHASE_COW_OVERLAY_CREATE PHASE_COW_OVERLAY_MOUNT)
            (\<lambda>(overlay_fd, overlay_fsfd).
          seq (close_setup_fd os overlay_fsfd)
          (seq (do_call os PHASE_COW_ROOT_ATTACH (Move_mount overlay_fd current_root_fd))
          (seq (close_setup_fd os work_fd)
          (seq (only_if (\<not> cow_diff_requested) (close_setup_fd os upper))
          (seq (close_setup_fd os state_mount_fd)
          (seq (close_setup_fd os lower_tree_fd)
          (seq (mark_enforcement ENFORCEMENT_COW_ROOT)
          (ret (overlay_fd, if cow_diff_requested then upper else -1)))))))))))))"

section \<open>Volumes\<close>

datatype volume_access = ReadOnly | Writable | CopyOnWrite

record prepared_volume =
  pv_source_fd :: fd
  pv_source_path :: string
  pv_target_relative :: string
  pv_access :: volume_access
  pv_cow_size :: "string option"
  pv_cow_diff_index :: "nat option"
  pv_base_identity :: "bytes option"
  pv_base_identity_limits :: "(nat \<times> nat) option"

text \<open>A panic ends the child.\<close>

definition panic :: "'a prog" where
  "panic = (\<lambda>s. Some (s, Exit 101))"

definition beneath_root :: u64 where
  "beneath_root = RESOLVE_BENEATH OR RESOLVE_NO_XDEV OR RESOLVE_NO_MAGICLINKS OR RESOLVE_NO_SYMLINKS"

definition construct_cow_volume_overlay_or_fail :: "os \<Rightarrow> fd \<Rightarrow> string \<Rightarrow> (fd \<times> fd) prog" where
  "construct_cow_volume_overlay_or_fail os lower_tree_fd cow_size =
     bind (create_private_tmpfs os cow_size (MOUNT_ATTR_NOSUID OR MOUNT_ATTR_NODEV OR MOUNT_ATTR_NOEXEC)
       PHASE_COW_VOLUME_TMPFS_CREATE PHASE_COW_VOLUME_TMPFS_MOUNT) (\<lambda>state_mount_fd.
     bind (open_upper_work os state_mount_fd PHASE_COW_VOLUME_UPPER_WORK) (\<lambda>(upper, work_fd).
     bind (create_overlay os lower_tree_fd upper work_fd PHASE_COW_VOLUME_OVERLAY_CREATE PHASE_COW_VOLUME_OVERLAY_MOUNT)
       (\<lambda>(overlay_fd, overlay_fsfd).
     seq (each (close_setup_fd os) [overlay_fsfd, work_fd, state_mount_fd])
     (ret (overlay_fd, upper)))))"

definition install_volume_or_fail :: "os \<Rightarrow> prepared_volume \<Rightarrow> fd \<Rightarrow> bool \<Rightarrow> fd option prog" where
  "install_volume_or_fail os volume root_tree_fd retain_cow_upper =
     bind (open_fd os PHASE_VOLUME_SOURCE_REVALIDATE (Openat2 (AT_FDCWD os) (pv_source_path volume)
       \<lparr>how_flags = directory_path_flags, how_mode = 0, how_resolve = RESOLVE_NO_MAGICLINKS OR RESOLVE_NO_SYMLINKS\<rparr>))
       (\<lambda>current_source_fd.
     seq (revalidate_fd_identity_or_fail os (pv_source_fd volume) current_source_fd PHASE_VOLUME_SOURCE_REVALIDATE)
     (bind (open_fd os PHASE_VOLUME_CLONE (Open_tree current_source_fd ''.'' open_tree_recursive)) (\<lambda>volume_tree_fd.
     seq (only_if (pv_access volume = ReadOnly \<or> pv_access volume = CopyOnWrite)
       (do_call os PHASE_VOLUME_READONLY
         (Mount_setattr volume_tree_fd [''AT_EMPTY_PATH'', ''AT_RECURSIVE''] MOUNT_ATTR_RDONLY)))
     (bind (open_fd os PHASE_VOLUME_TARGET_PIN (Openat2 root_tree_fd (pv_target_relative volume)
       \<lparr>how_flags = directory_path_flags, how_mode = 0, how_resolve = beneath_root\<rparr>)) (\<lambda>target_fd.
     bind (if pv_access volume = CopyOnWrite
           then case pv_cow_size volume of
                  None \<Rightarrow> panic
                | Some cow_size \<Rightarrow> construct_cow_volume_overlay_or_fail os volume_tree_fd cow_size
           else ret (volume_tree_fd, -1)) (\<lambda>(attach_fd, cow_upper_fd).
     let attach_phase = (if pv_access volume = CopyOnWrite then PHASE_COW_VOLUME_ATTACH else PHASE_VOLUME_ATTACH) in
     seq (do_call os attach_phase (Move_mount attach_fd target_fd))
     (seq (only_if (attach_fd \<noteq> volume_tree_fd) (close_setup_fd os attach_fd))
     (bind (if cow_upper_fd \<ge> FIRST_NON_STDIO_FD
            then if retain_cow_upper then ret (Some cow_upper_fd)
                 else seq (close_setup_fd os cow_upper_fd) (ret None)
            else ret None) (\<lambda>retained_cow_upper.
     seq (each (\<lambda>fd. do_call os attach_phase (Close fd)) [target_fd, volume_tree_fd, current_source_fd])
     (ret retained_cow_upper))))))))))"

section \<open>Sealed images\<close>

record sealed_mount_phases =
  smp_tmpfs_create :: u32
  smp_tmpfs_mount :: u32
  smp_copy :: u32
  smp_clone :: u32
  smp_target_pin :: u32
  smp_readonly :: u32
  smp_attach :: u32

definition INTERPRETER_MOUNT_PHASES :: sealed_mount_phases where
  "INTERPRETER_MOUNT_PHASES =
     \<lparr>smp_tmpfs_create = PHASE_INTERPRETER_TMPFS_CREATE, smp_tmpfs_mount = PHASE_INTERPRETER_TMPFS_MOUNT,
      smp_copy = PHASE_INTERPRETER_COPY, smp_clone = PHASE_INTERPRETER_CLONE,
      smp_target_pin = PHASE_INTERPRETER_TARGET_PIN, smp_readonly = PHASE_INTERPRETER_READONLY,
      smp_attach = PHASE_INTERPRETER_ATTACH\<rparr>"

definition NEEDED_MOUNT_PHASES :: sealed_mount_phases where
  "NEEDED_MOUNT_PHASES =
     \<lparr>smp_tmpfs_create = PHASE_NEEDED_TMPFS_CREATE, smp_tmpfs_mount = PHASE_NEEDED_TMPFS_MOUNT,
      smp_copy = PHASE_NEEDED_COPY, smp_clone = PHASE_NEEDED_CLONE,
      smp_target_pin = PHASE_NEEDED_TARGET_PIN, smp_readonly = PHASE_NEEDED_READONLY,
      smp_attach = PHASE_NEEDED_ATTACH\<rparr>"

record prepared_sealed_mount =
  sm_image_fd :: fd
  sm_target_relative :: string

partial_function (option) pread_retry ::
  "os \<Rightarrow> fd \<Rightarrow> nat \<Rightarrow> nat \<Rightarrow> machine \<Rightarrow> (machine \<times> (answer, sys_errno) result flow) option" where
  "pread_retry os fd wanted offset s =
     bind (try_call os (Pread fd wanted offset)) (\<lambda>r s.
       if r = Err EINTR then pread_retry os fd wanted offset s else ret r s) s"

fun data_of :: "answer \<Rightarrow> bytes" where
  "data_of (Data bs) = bs"
| "data_of a = replicate (ret_of a) 0"

partial_function (option) write_image_loop ::
  "os \<Rightarrow> fd \<Rightarrow> u32 \<Rightarrow> bytes \<Rightarrow> machine \<Rightarrow> (machine \<times> unit flow) option" where
  "write_image_loop os destination_fd copy_phase data s =
     (if data = [] then ret () s
      else bind (try_call os (Write destination_fd data)) (\<lambda>r s.
        case r of
          Inl e \<Rightarrow>
            if e = EINTR then write_image_loop os destination_fd copy_phase data s
            else child_fail os copy_phase s
        | Inr a \<Rightarrow>
            if ret_of a = 0 then child_fail_errno os copy_phase EIO s
            else write_image_loop os destination_fd copy_phase (drop (ret_of a) data) s) s)"

function copy_image_loop :: "os \<Rightarrow> fd \<Rightarrow> fd \<Rightarrow> u32 \<Rightarrow> nat \<Rightarrow> nat \<Rightarrow> unit prog" where
  "copy_image_loop os source_fd destination_fd copy_phase total_bytes offset =
     (if offset < total_bytes
      then bind (pread_retry os source_fd (min (16 * 1024) (total_bytes - offset)) offset) (\<lambda>r.
        case r of
          Inl e \<Rightarrow> child_fail os copy_phase
        | Inr a \<Rightarrow>
            if ret_of a = 0 then child_fail_errno os copy_phase EIO
            else seq (write_image_loop os destination_fd copy_phase (data_of a))
              (copy_image_loop os source_fd destination_fd copy_phase total_bytes (offset + ret_of a)))
      else ret ())"
  by pat_completeness auto
termination
  by (relation "measure (\<lambda>(os, source_fd, destination_fd, copy_phase, total_bytes, offset). total_bytes - offset)") auto

declare copy_image_loop.simps [simp del]

definition copy_sealed_image_or_fail :: "os \<Rightarrow> fd \<Rightarrow> fd \<Rightarrow> u32 \<Rightarrow> unit prog" where
  "copy_sealed_image_or_fail os source_fd destination_fd copy_phase =
     bind (try_call os (Fstat source_fd)) (\<lambda>r.
       case r of
         Inl e \<Rightarrow> child_fail os copy_phase
       | Inr a \<Rightarrow>
           if st_size (stat_of a) \<le> 0 then child_fail os copy_phase
           else copy_image_loop os source_fd destination_fd copy_phase (nat (st_size (stat_of a))) 0)"

definition install_sealed_image_or_fail :: "os \<Rightarrow> prepared_sealed_mount \<Rightarrow> sealed_mount_phases \<Rightarrow> fd \<Rightarrow> unit prog" where
  "install_sealed_image_or_fail os sealed phases root_tree_fd =
     bind (create_private_tmpfs os ''68157440'' (MOUNT_ATTR_NOSUID OR MOUNT_ATTR_NODEV)
       (smp_tmpfs_create phases) (smp_tmpfs_mount phases)) (\<lambda>state_mount_fd.
     bind (open_fd os (smp_copy phases)
       (Openat state_mount_fd ''image'' [''O_CREAT'', ''O_EXCL'', ''O_WRONLY'', ''O_CLOEXEC''] 448)) (\<lambda>image_fd.
     seq (copy_sealed_image_or_fail os (sm_image_fd sealed) image_fd (smp_copy phases))
     (seq (do_call os (smp_copy phases) (Close image_fd))
     (bind (open_fd os (smp_clone phases) (Open_tree state_mount_fd ''image'' [''OPEN_TREE_CLONE'', ''OPEN_TREE_CLOEXEC'']))
       (\<lambda>image_tree_fd.
     bind (open_fd os (smp_target_pin phases) (Openat2 root_tree_fd (sm_target_relative sealed)
       \<lparr>how_flags = [''O_PATH'', ''O_CLOEXEC''], how_mode = 0, how_resolve = beneath_root\<rparr>)) (\<lambda>target_fd.
     bind (call_or_fail os (smp_target_pin phases) (Fstat target_fd)) (\<lambda>target_stat.
     seq (if st_kind (stat_of target_stat) \<noteq> S_IFREG then child_fail os (smp_target_pin phases) else ret ())
     (seq (do_call os (smp_readonly phases) (Mount_setattr image_tree_fd [''AT_EMPTY_PATH'']
       (MOUNT_ATTR_RDONLY OR MOUNT_ATTR_NOSUID OR MOUNT_ATTR_NODEV)))
     (seq (do_call os (smp_attach phases) (Move_mount image_tree_fd target_fd))
     (each (close_setup_fd os) [target_fd, image_tree_fd, state_mount_fd]))))))))))"

section \<open>Redirect and procfs\<close>

definition open_stdout_redirect_or_fail :: "os \<Rightarrow> fd \<Rightarrow> string \<Rightarrow> fd prog" where
  "open_stdout_redirect_or_fail os root_tree_fd path =
     bind (open_fd os PHASE_STDIO_REDIRECT (Openat2 root_tree_fd path
       \<lparr>how_flags = [''O_WRONLY'', ''O_CREAT'', ''O_TRUNC'', ''O_CLOEXEC''], how_mode = 384,
        how_resolve = RESOLVE_BENEATH OR RESOLVE_NO_MAGICLINKS OR RESOLVE_NO_SYMLINKS\<rparr>)) (\<lambda>fd.
     move_fd_above_stdio_or_fail os fd PHASE_STDIO_REDIRECT)"

definition mount_private_procfs_or_fail :: "os \<Rightarrow> unit prog" where
  "mount_private_procfs_or_fail os =
     seq (do_call os PHASE_PROCFS_MOUNT
       (Mount ''proc'' ''/proc'' ''proc'' [''MS_NOSUID'', ''MS_NODEV'', ''MS_NOEXEC''] ''''))
     (seq (do_call os PHASE_PROCFS_PID1_HARDEN (Prctl [''PR_SET_DUMPABLE'', ''0'']))
     (mark_enforcement ENFORCEMENT_PRIVATE_PROCFS))"

end
