(* ===== verification/Launch_Landlock.thy ===== *)
theory Launch_Landlock
  imports Launch_Mounts
begin

unbundle bit_operations_syntax

text \<open>
  The Landlock part of the child's setup in \<open>platform/linux.rs\<close>: the ruleset with its path and
  port rules, and the restriction of the process.
\<close>

record prepared_landlock =
  ll_read_execute :: "string list"
  ll_file_mutate :: "string list"
  ll_path_topology_mutate :: "string list"
  ll_device_ioctl :: "string list"
  ll_tcp_bind_ports :: "u16 list"
  ll_tcp_connect_ports :: "u16 list"
  ll_scope_abstract_unix_socket :: bool
  ll_scope_signal :: bool

definition landlock_requested :: "prepared_landlock \<Rightarrow> bool" where
  "landlock_requested ll \<longleftrightarrow>
     \<not> (ll_read_execute ll = [] \<and> ll_file_mutate ll = [] \<and> ll_path_topology_mutate ll = [] \<and>
        ll_device_ioctl ll = [] \<and> ll_tcp_bind_ports ll = [] \<and> ll_tcp_connect_ports ll = [] \<and>
        \<not> ll_scope_abstract_unix_socket ll \<and> \<not> ll_scope_signal ll)"

definition landlock_ruleset :: "prepared_landlock \<Rightarrow> landlock_ruleset_attr" where
  "landlock_ruleset ll =
     \<lparr>handled_access_fs =
        (if ll_read_execute ll \<noteq> [] then LANDLOCK_READ_EXECUTE_RIGHTS else 0) OR
        (if ll_file_mutate ll \<noteq> [] then LANDLOCK_FILE_MUTATE_RIGHTS else 0) OR
        (if ll_path_topology_mutate ll \<noteq> [] then LANDLOCK_PATH_TOPOLOGY_MUTATE_RIGHTS else 0) OR
        (if ll_device_ioctl ll \<noteq> [] then LANDLOCK_ACCESS_FS_IOCTL_DEV else 0),
      handled_access_net =
        (if ll_tcp_bind_ports ll \<noteq> [] then LANDLOCK_ACCESS_NET_BIND_TCP else 0) OR
        (if ll_tcp_connect_ports ll \<noteq> [] then LANDLOCK_ACCESS_NET_CONNECT_TCP else 0),
      scoped =
        (if ll_scope_abstract_unix_socket ll then LANDLOCK_SCOPE_ABSTRACT_UNIX_SOCKET else 0) OR
        (if ll_scope_signal ll then LANDLOCK_SCOPE_SIGNAL else 0)\<rparr>"

definition ruleset_size :: "landlock_ruleset_attr \<Rightarrow> nat" where
  "ruleset_size attr =
     (if scoped attr \<noteq> 0 then 24 else if handled_access_net attr \<noteq> 0 then 16 else 8)"

definition create_ruleset_or_fail :: "os \<Rightarrow> prepared_landlock \<Rightarrow> fd \<Rightarrow> fd prog" where
  "create_ruleset_or_fail os ll storage_floor =
     (let ruleset = landlock_ruleset ll in
      bind (open_fd os PHASE_LANDLOCK_RULESET (Landlock_create_ruleset ruleset (ruleset_size ruleset))) (\<lambda>ruleset_fd.
      if ruleset_fd < storage_floor
      then bind (open_fd os PHASE_LANDLOCK_RULESET (Dupfd_cloexec ruleset_fd storage_floor)) (\<lambda>moved.
           seq (do_call os PHASE_LANDLOCK_RULESET (Close ruleset_fd)) (ret moved))
      else ret ruleset_fd))"

definition landlock_path_how :: "string list \<Rightarrow> open_how" where
  "landlock_path_how flags =
     \<lparr>how_flags = flags, how_mode = 0, how_resolve = RESOLVE_BENEATH OR RESOLVE_NO_MAGICLINKS OR RESOLVE_NO_SYMLINKS\<rparr>"

definition topology_rights :: "prepared_landlock \<Rightarrow> string \<Rightarrow> u64" where
  "topology_rights ll path =
     (if path \<in> set (ll_path_topology_mutate ll) then LANDLOCK_PATH_TOPOLOGY_MUTATE_RIGHTS else 0)"

definition add_path_rule :: "os \<Rightarrow> fd \<Rightarrow> u64 \<Rightarrow> fd \<Rightarrow> unit prog" where
  "add_path_rule os ruleset_fd allowed_access path_fd =
     seq (do_call os PHASE_LANDLOCK_RULE (Landlock_add_rule ruleset_fd (Path_Beneath allowed_access path_fd)))
     (do_call os PHASE_LANDLOCK_PATH (Close path_fd))"

definition add_read_execute_rule :: "os \<Rightarrow> prepared_landlock \<Rightarrow> fd \<Rightarrow> fd \<Rightarrow> string \<Rightarrow> unit prog" where
  "add_read_execute_rule os ll root_tree_fd ruleset_fd path =
     bind (open_fd os PHASE_LANDLOCK_PATH (Openat2 root_tree_fd path (landlock_path_how [''O_PATH'', ''O_CLOEXEC''])))
       (\<lambda>path_fd.
     bind (call_or_fail os PHASE_LANDLOCK_PATH (Fstat path_fd)) (\<lambda>a.
     let kind = st_kind (stat_of a) in
     if kind \<noteq> S_IFDIR \<and> kind \<noteq> S_IFREG then child_fail os PHASE_LANDLOCK_PATH
     else let base = (if kind = S_IFDIR then LANDLOCK_READ_EXECUTE_RIGHTS
                      else LANDLOCK_ACCESS_FS_EXECUTE OR LANDLOCK_ACCESS_FS_READ_FILE) in
       if path \<in> set (ll_file_mutate ll)
       then if kind \<noteq> S_IFDIR then child_fail_errno os PHASE_LANDLOCK_PATH ENOTDIR
            else add_path_rule os ruleset_fd (base OR LANDLOCK_FILE_MUTATE_RIGHTS OR topology_rights ll path) path_fd
       else add_path_rule os ruleset_fd base path_fd))"

definition add_file_mutate_rule :: "os \<Rightarrow> prepared_landlock \<Rightarrow> fd \<Rightarrow> fd \<Rightarrow> string \<Rightarrow> unit prog" where
  "add_file_mutate_rule os ll root_tree_fd ruleset_fd path =
     (if path \<in> set (ll_read_execute ll) then ret ()
      else bind (open_fd os PHASE_LANDLOCK_PATH (Openat2 root_tree_fd path (landlock_path_how directory_path_flags)))
        (\<lambda>path_fd. add_path_rule os ruleset_fd (LANDLOCK_FILE_MUTATE_RIGHTS OR topology_rights ll path) path_fd))"

definition add_device_ioctl_rule :: "os \<Rightarrow> fd \<Rightarrow> fd \<Rightarrow> string \<Rightarrow> unit prog" where
  "add_device_ioctl_rule os root_tree_fd ruleset_fd path =
     bind (open_fd os PHASE_LANDLOCK_PATH (Openat2 root_tree_fd path (landlock_path_how [''O_PATH'', ''O_CLOEXEC''])))
       (\<lambda>path_fd.
     bind (call_or_fail os PHASE_LANDLOCK_PATH (Fstat path_fd)) (\<lambda>a.
     if st_kind (stat_of a) \<noteq> S_IFCHR \<and> st_kind (stat_of a) \<noteq> S_IFBLK
     then child_fail_errno os PHASE_LANDLOCK_PATH ENODEV
     else add_path_rule os ruleset_fd LANDLOCK_ACCESS_FS_IOCTL_DEV path_fd))"

definition add_port_rule :: "os \<Rightarrow> fd \<Rightarrow> u64 \<Rightarrow> u16 \<Rightarrow> unit prog" where
  "add_port_rule os ruleset_fd allowed_access port =
     do_call os PHASE_LANDLOCK_NET_RULE (Landlock_add_rule ruleset_fd (Net_Port allowed_access (ucast port)))"

definition add_bind_rule :: "os \<Rightarrow> prepared_landlock \<Rightarrow> fd \<Rightarrow> u16 \<Rightarrow> unit prog" where
  "add_bind_rule os ll ruleset_fd port =
     add_port_rule os ruleset_fd
       (LANDLOCK_ACCESS_NET_BIND_TCP OR
        (if port \<in> set (ll_tcp_connect_ports ll) then LANDLOCK_ACCESS_NET_CONNECT_TCP else 0)) port"

definition add_connect_rule :: "os \<Rightarrow> prepared_landlock \<Rightarrow> fd \<Rightarrow> u16 \<Rightarrow> unit prog" where
  "add_connect_rule os ll ruleset_fd port =
     (if port \<in> set (ll_tcp_bind_ports ll) then ret ()
      else add_port_rule os ruleset_fd LANDLOCK_ACCESS_NET_CONNECT_TCP port)"

definition prepare_landlock_ruleset_or_fail :: "os \<Rightarrow> prepared_landlock \<Rightarrow> fd \<Rightarrow> fd \<Rightarrow> fd prog" where
  "prepare_landlock_ruleset_or_fail os ll root_tree_fd storage_floor =
     (if \<not> landlock_requested ll then ret (-1)
      else bind (create_ruleset_or_fail os ll storage_floor) (\<lambda>ruleset_fd.
        seq (each (add_read_execute_rule os ll root_tree_fd ruleset_fd) (ll_read_execute ll))
        (seq (each (add_file_mutate_rule os ll root_tree_fd ruleset_fd) (ll_file_mutate ll))
        (seq (each (add_device_ioctl_rule os root_tree_fd ruleset_fd) (ll_device_ioctl ll))
        (seq (each (add_bind_rule os ll ruleset_fd) (ll_tcp_bind_ports ll))
        (seq (each (add_connect_rule os ll ruleset_fd) (ll_tcp_connect_ports ll))
        (ret ruleset_fd)))))))"

definition restrict_landlock_or_fail :: "os \<Rightarrow> fd \<Rightarrow> unit prog" where
  "restrict_landlock_or_fail os ruleset_fd =
     (if ruleset_fd < 0 then ret ()
      else seq (do_call os PHASE_LANDLOCK_RESTRICT (Landlock_restrict_self ruleset_fd))
        (do_call os PHASE_LANDLOCK_RESTRICT (Close ruleset_fd)))"

end
