(* ===== verification/Pid_Lifecycle.thy ===== *)
theory Pid_Lifecycle
  imports Launch_Machine
begin

text \<open>
  \<open>platform/linux_pid_lifecycle.rs\<close>: the fork into namespace PID 1, the fork of the direct
  target, and the supervision that PID 1 does: waiting with deadline, cancellation and output
  limit, killing and reaping what is left, and publishing the lifecycle record. Loops that only
  the kernel can end are partial functions.
\<close>

section \<open>Failing and waiting\<close>

definition raw_exit :: "os \<Rightarrow> int \<Rightarrow> 'a prog" where
  "raw_exit os c = exit_with os (SYS_exit os) c"

definition fail_errno :: "os \<Rightarrow> u32 \<Rightarrow> sys_errno \<Rightarrow> 'a prog" where
  "fail_errno os phase e = seq (publish_error phase e) (raw_exit os 127)"

definition fail :: "os \<Rightarrow> u32 \<Rightarrow> 'a prog" where
  "fail os phase = bind last_errno (fail_errno os phase)"

fun waited_of :: "answer \<Rightarrow> int" where
  "waited_of (Waited pid status) = pid"
| "waited_of a = int (ret_of a)"

fun status_of_wait :: "answer \<Rightarrow> int" where
  "status_of_wait (Waited pid status) = status"
| "status_of_wait a = 0"

partial_function (option) wait_specific ::
  "os \<Rightarrow> int \<Rightarrow> machine \<Rightarrow> (machine \<times> (int, sys_errno) result flow) option" where
  "wait_specific os pid s =
     bind (try_call os (Wait4 pid False)) (\<lambda>r s.
       case r of
         Inl e \<Rightarrow> if e = EINTR then wait_specific os pid s else ret (Err e) s
       | Inr a \<Rightarrow> if waited_of a = pid then ret (Ok (status_of_wait a)) s else wait_specific os pid s) s"

partial_function (option) wait_specific_nohang ::
  "os \<Rightarrow> int \<Rightarrow> machine \<Rightarrow> (machine \<times> (int option, sys_errno) result flow) option" where
  "wait_specific_nohang os pid s =
     bind (try_call os (Wait4 pid True)) (\<lambda>r s.
       case r of
         Inl e \<Rightarrow> if e = EINTR then wait_specific_nohang os pid s else ret (Err e) s
       | Inr a \<Rightarrow> if waited_of a = pid then ret (Ok (Some (status_of_wait a))) s
                else if waited_of a = 0 then ret (Ok None) s
                else wait_specific_nohang os pid s) s"

section \<open>Tearing the tree down\<close>

definition u32_saturating_succ :: "u32 \<Rightarrow> u32" where
  "u32_saturating_succ n = (if n = - 1 then n else n + 1)"

definition kill_sweep :: "os \<Rightarrow> u32 \<Rightarrow> unit prog" where
  "kill_sweep os phase_kill =
     bind (try_call os (Kill (-1) ''SIGKILL'')) (\<lambda>r.
       case r of Inl e \<Rightarrow> if e \<noteq> ESRCH then fail_errno os phase_kill e else ret () | Inr _ \<Rightarrow> ret ())"

definition sweep_and_wait :: "os \<Rightarrow> u32 \<Rightarrow> (answer, sys_errno) result prog" where
  "sweep_and_wait os phase_kill = seq (kill_sweep os phase_kill) (try_call os (Wait4 (-1) False))"

partial_function (option) kill_and_reap_loop ::
  "os \<Rightarrow> u32 \<Rightarrow> u32 \<Rightarrow> u32 \<Rightarrow> machine \<Rightarrow> (machine \<times> u32 flow) option" where
  "kill_and_reap_loop os phase_kill phase_reap reaped s =
     bind (sweep_and_wait os phase_kill) (\<lambda>r s.
       case r of
         Inr a \<Rightarrow> kill_and_reap_loop os phase_kill phase_reap
             (if waited_of a > 0 then u32_saturating_succ reaped else reaped) s
       | Inl e \<Rightarrow>
           if e = EINTR then kill_and_reap_loop os phase_kill phase_reap reaped s
           else if e = ECHILD then ret reaped s
           else fail_errno os phase_reap e s) s"

definition kill_and_reap_remaining :: "os \<Rightarrow> u32 \<Rightarrow> u32 \<Rightarrow> u32 prog" where
  "kill_and_reap_remaining os phase_kill phase_reap = kill_and_reap_loop os phase_kill phase_reap 0"

section \<open>Resource usage\<close>

definition u64_saturate :: "nat \<Rightarrow> u64" where
  "u64_saturate n = (if n < 2 ^ 64 then of_nat n else - 1)"

definition timeval_to_micros :: "int \<Rightarrow> int \<Rightarrow> u64" where
  "timeval_to_micros tv_sec tv_usec =
     (let seconds = (if tv_sec > 0 then nat tv_sec else 0);
          micros = (if tv_usec > 0 then nat tv_usec else 0)
      in u64_saturate (unat (u64_saturate (seconds * 1000000)) + min micros 999999))"

definition collect_process_tree_usage :: "os \<Rightarrow> (u64 \<times> u64 \<times> u64, sys_errno) result prog" where
  "collect_process_tree_usage os =
     bind (sys os Getrusage_children) (\<lambda>a.
       case a of
         Failed e \<Rightarrow> ret (Err e)
       | Usage utime_sec utime_usec stime_sec stime_usec maxrss \<Rightarrow>
           ret (Ok (timeval_to_micros utime_sec utime_usec, timeval_to_micros stime_sec stime_usec,
                    if maxrss > 0 then of_int maxrss else 0))
       | _ \<Rightarrow> ret (Ok (0, 0, 0)))"

section \<open>Closing descriptors\<close>

definition next_keep :: "nat \<Rightarrow> fd list \<Rightarrow> nat option" where
  "next_keep cursor keep =
     fold (\<lambda>fd acc.
       if fd < 3 then acc
       else if nat fd < cursor then acc
       else Some (case acc of None \<Rightarrow> nat fd | Some current \<Rightarrow> min current (nat fd))) keep None"

function close_around :: "os \<Rightarrow> fd list \<Rightarrow> nat \<Rightarrow> (unit, sys_errno) result prog" where
  "close_around os keep cursor =
     (case next_keep cursor keep of
        None \<Rightarrow>
          if cursor \<le> 2 ^ 32 - 1
          then bind (try_call os (Close_range cursor (2 ^ 32 - 1) 0)) (\<lambda>r.
                 case r of Inl e \<Rightarrow> ret (Err e) | Inr _ \<Rightarrow> ret (Ok ()))
          else ret (Ok ())
      | Some keep_fd \<Rightarrow>
          if cursor < keep_fd
          then bind (try_call os (Close_range cursor (keep_fd - 1) 0)) (\<lambda>r.
                 case r of Inl e \<Rightarrow> ret (Err e) | Inr _ \<Rightarrow> close_around os keep (keep_fd + 1))
          else close_around os keep (keep_fd + 1))"
  by pat_completeness auto

lemma next_keep_fold:
  "fold (\<lambda>fd acc. if fd < 3 then acc else if nat fd < cursor then acc
      else Some (case acc of None \<Rightarrow> nat fd | Some current \<Rightarrow> min current (nat fd))) keep acc = Some m \<Longrightarrow>
    (\<forall>j. acc = Some j \<longrightarrow> P j) \<Longrightarrow> (\<forall>fd\<in>set keep. 3 \<le> fd \<longrightarrow> cursor \<le> nat fd \<longrightarrow> P (nat fd)) \<Longrightarrow> P m"
  by (induction keep arbitrary: acc) (auto simp: min_def split: if_splits option.splits)

lemma next_keep_ge:
  assumes "next_keep cursor keep = Some m"
  shows "cursor \<le> m \<and> 3 \<le> m \<and> int m \<in> set keep"
  using assms unfolding next_keep_def by (rule next_keep_fold) auto

lemma fewer_keeps:
  assumes "cursor \<le> m" and "int m \<in> set keep"
  shows "length (filter (\<lambda>fd. Suc m \<le> nat fd) keep) < length (filter (\<lambda>fd. cursor \<le> nat fd) keep)"
proof -
  have "length (filter (\<lambda>fd. Suc m \<le> nat fd) (filter (\<lambda>fd. cursor \<le> nat fd) keep)) <
      length (filter (\<lambda>fd. cursor \<le> nat fd) keep)"
    by (rule length_filter_less [of "int m"]) (use assms in auto)
  moreover have "filter (\<lambda>fd. Suc m \<le> nat fd) (filter (\<lambda>fd. cursor \<le> nat fd) keep) = filter (\<lambda>fd. Suc m \<le> nat fd) keep"
    using assms(1) by (induction keep) auto
  ultimately show ?thesis by simp
qed

termination close_around
  by (relation "measure (\<lambda>(os, keep, cursor). length (filter (\<lambda>fd. cursor \<le> nat fd) keep))")
    (auto dest!: next_keep_ge intro: fewer_keeps)

definition close_nonstdio_except :: "os \<Rightarrow> fd \<Rightarrow> fd \<Rightarrow> fd list \<Rightarrow> (unit, sys_errno) result prog" where
  "close_nonstdio_except os keep_a keep_b upper_fds = close_around os ([keep_a, keep_b] @ upper_fds) 3"

section \<open>Waiting for the target\<close>

record target_supervision_phases =
  ph_fork :: u32
  ph_kill :: u32
  ph_reap :: u32
  ph_close :: u32
  ph_pidfd :: u32
  ph_timerfd :: u32
  ph_timer_arm :: u32
  ph_poll :: u32
  ph_cancellation_pidfd :: u32
  ph_cancellation_poll :: u32
  ph_output_limit_pidfd :: u32
  ph_output_limit_poll :: u32
  ph_usage :: u32
  ph_cow_diff_export :: u32

definition terminate_direct_target :: "os \<Rightarrow> int \<Rightarrow> target_supervision_phases \<Rightarrow> int prog" where
  "terminate_direct_target os pid phases =
     seq (bind (try_call os (Kill pid ''SIGKILL'')) (\<lambda>r.
            case r of Inl e \<Rightarrow> if e \<noteq> ESRCH then fail_errno os (ph_kill phases) e else ret () | Inr _ \<Rightarrow> ret ()))
     (bind (wait_specific os pid) (\<lambda>r.
        case r of Inr status \<Rightarrow> ret status | Inl e \<Rightarrow> fail_errno os (ph_reap phases) e))"

definition poll_phase :: "fd \<Rightarrow> fd \<Rightarrow> target_supervision_phases \<Rightarrow> u32" where
  "poll_phase cancellation_fd output_limit_fd phases =
     (if output_limit_fd \<ge> 0 then ph_output_limit_poll phases
      else if cancellation_fd \<ge> 0 then ph_cancellation_poll phases
      else ph_poll phases)"

definition no_events :: pollfd_revents where
  "no_events = \<lparr>POLLIN = False, POLLERR = False, POLLNVAL = False\<rparr>"

fun revents_of :: "answer \<Rightarrow> nat \<Rightarrow> pollfd_revents" where
  "revents_of (Polled rs) i = (if i < length rs then rs ! i else no_events)"
| "revents_of a i = no_events"

definition invalid_events :: "fd list \<Rightarrow> answer \<Rightarrow> bool" where
  "invalid_events fds a \<longleftrightarrow>
     (\<exists>i\<in>set [0..<length fds]. fds ! i \<ge> 0 \<and> (POLLERR (revents_of a i) \<or> POLLNVAL (revents_of a i)))"

text \<open>One round of the supervision loop: \<open>None\<close> when the loop goes on.\<close>

definition supervise_events ::
  "os \<Rightarrow> int \<Rightarrow> fd list \<Rightarrow> u32 \<Rightarrow> target_supervision_phases \<Rightarrow> answer
    \<Rightarrow> (int \<times> bool \<times> bool \<times> bool) option prog" where
  "supervise_events os pid fds phase phases a =
     (if POLLIN (revents_of a 3)
      then bind (terminate_direct_target os pid phases) (\<lambda>status. ret (Some (status, False, False, True)))
      else bind (wait_specific_nohang os pid) (\<lambda>r.
        case r of
          Inl e \<Rightarrow> fail_errno os (ph_reap phases) e
        | Inr (Some status) \<Rightarrow> ret (Some (status, False, False, False))
        | Inr None \<Rightarrow>
            if invalid_events fds a then fail_errno os phase EIO
            else if POLLIN (revents_of a 2)
            then bind (terminate_direct_target os pid phases) (\<lambda>status. ret (Some (status, False, True, False)))
            else if POLLIN (revents_of a 1)
            then bind (terminate_direct_target os pid phases) (\<lambda>status. ret (Some (status, True, False, False)))
            else ret None))"

definition supervise_round ::
  "os \<Rightarrow> int \<Rightarrow> fd list \<Rightarrow> u32 \<Rightarrow> target_supervision_phases \<Rightarrow> (int \<times> bool \<times> bool \<times> bool) option prog" where
  "supervise_round os pid fds phase phases =
     bind (try_call os (Poll fds)) (\<lambda>r.
       case r of
         Inl e \<Rightarrow> if e = EINTR then ret None else fail_errno os phase e
       | Inr a \<Rightarrow> supervise_events os pid fds phase phases a)"

partial_function (option) supervise_loop ::
  "os \<Rightarrow> int \<Rightarrow> fd list \<Rightarrow> u32 \<Rightarrow> target_supervision_phases \<Rightarrow> machine
    \<Rightarrow> (machine \<times> (int \<times> bool \<times> bool \<times> bool) flow) option" where
  "supervise_loop os pid fds phase phases s =
     bind (supervise_round os pid fds phase phases) (\<lambda>r s.
       case r of None \<Rightarrow> supervise_loop os pid fds phase phases s | Some result \<Rightarrow> ret result s) s"

definition arm_timer :: "os \<Rightarrow> nat \<Rightarrow> target_supervision_phases \<Rightarrow> fd prog" where
  "arm_timer os wall_clock phases =
     (if wall_clock = 0 then ret (-1)
      else bind (try_call os Timerfd_create) (\<lambda>r.
        case r of
          Inl e \<Rightarrow> fail os (ph_timerfd phases)
        | Inr a \<Rightarrow>
            bind (try_call os (Timerfd_settime (int (ret_of a)) (wall_clock div 1000)
                ((wall_clock mod 1000) * 1000000))) (\<lambda>r.
              case r of Inl e \<Rightarrow> fail os (ph_timer_arm phases) | Inr _ \<Rightarrow> ret (int (ret_of a)))))"

definition wait_direct_target ::
  "os \<Rightarrow> int \<Rightarrow> nat \<Rightarrow> fd \<Rightarrow> fd \<Rightarrow> target_supervision_phases \<Rightarrow> (int \<times> bool \<times> bool \<times> bool) prog" where
  "wait_direct_target os pid wall_clock cancellation_fd output_limit_fd phases =
     (if wall_clock = 0 \<and> cancellation_fd < 0 \<and> output_limit_fd < 0
      then bind (wait_specific os pid) (\<lambda>r.
        case r of Inr status \<Rightarrow> ret (status, False, False, False) | Inl e \<Rightarrow> fail_errno os (ph_reap phases) e)
      else bind (try_call os (Pidfd_open pid)) (\<lambda>r.
        case r of
          Inl e \<Rightarrow>
            fail os (if output_limit_fd \<ge> 0 then ph_output_limit_pidfd phases
                     else if cancellation_fd \<ge> 0 then ph_cancellation_pidfd phases
                     else ph_pidfd phases)
        | Inr pidfd \<Rightarrow>
            bind (arm_timer os wall_clock phases) (\<lambda>timerfd.
            supervise_loop os pid [int (ret_of pidfd), timerfd, cancellation_fd, output_limit_fd]
              (poll_phase cancellation_fd output_limit_fd phases) phases)))"

section \<open>The two forks\<close>

definition become_pid_namespace_init_or_exit :: "os \<Rightarrow> u32 \<Rightarrow> u32 \<Rightarrow> u32 \<Rightarrow> unit prog" where
  "become_pid_namespace_init_or_exit os phase_fork phase_wait phase_close =
     bind (try_call os Fork) (\<lambda>r.
       case r of
         Inl e \<Rightarrow> fail os phase_fork
       | Inr a \<Rightarrow>
           if ret_of a = 0 then ret ()
           else let pid = int (ret_of a) in
             bind (try_call os (Close_range 3 (2 ^ 32 - 1) 0)) (\<lambda>r.
               case r of
                 Inl e \<Rightarrow>
                   bind (sys os (Kill pid ''SIGKILL'')) (\<lambda>_.
                   bind (wait_specific os pid) (\<lambda>_.
                   fail_errno os phase_close e))
               | Inr _ \<Rightarrow>
                   bind (wait_specific os pid) (\<lambda>r.
                     case r of Inr _ \<Rightarrow> raw_exit os 0 | Inl e \<Rightarrow> fail_errno os phase_wait e)))"

text \<open>A control of the diff export: the descriptor of the upper layer and whether its shared state exists.\<close>

record cow_diff_control =
  upper_fd :: fd
  has_state :: bool

definition close_control_fd :: "os \<Rightarrow> target_supervision_phases \<Rightarrow> fd \<Rightarrow> unit prog" where
  "close_control_fd os phases control =
     only_if (control \<ge> 3) (bind (try_call os (Close control)) (\<lambda>r.
       case r of Inl e \<Rightarrow> fail os (ph_close phases) | Inr _ \<Rightarrow> ret ()))"

definition export_cow_diff :: "os \<Rightarrow> target_supervision_phases \<Rightarrow> cow_diff_control \<Rightarrow> unit prog" where
  "export_cow_diff os phases control =
     (if \<not> has_state control \<or> upper_fd control < 3
      then fail_errno os (ph_cow_diff_export phases) EINVAL
      else bind (try_call os (Export_upper (upper_fd control))) (\<lambda>r.
        case r of
          Inl e \<Rightarrow> fail_errno os (ph_cow_diff_export phases) e
        | Inr _ \<Rightarrow> bind (try_call os (Close (upper_fd control))) (\<lambda>r.
            case r of Inl e \<Rightarrow> fail os (ph_close phases) | Inr _ \<Rightarrow> ret ())))"

definition publish_lifecycle :: "(target_lifecycle_record \<Rightarrow> target_lifecycle_record) \<Rightarrow> unit prog" where
  "publish_lifecycle f = (\<lambda>s. Some (s\<lparr>lifecycle := f (lifecycle s)\<rparr>, Return ()))"

definition u32_from :: "bool \<Rightarrow> u32" where
  "u32_from b = (if b then 1 else 0)"

definition publish_outcome ::
  "os \<Rightarrow> int \<times> bool \<times> bool \<times> bool \<Rightarrow> u32 \<Rightarrow> u64 \<times> u64 \<times> u64 \<Rightarrow> unit prog" where
  "publish_outcome os = (\<lambda>(direct_status, timed, cancel, exceeded) reaped (user_cpu, system_cpu, max_rss).
     seq (publish_lifecycle (\<lambda>r. r\<lparr>lc_status := direct_status, reaped_descendants := reaped,
            timed_out := u32_from timed, cancelled := u32_from cancel,
            output_limit_exceeded := u32_from exceeded, user_cpu_micros := user_cpu,
            system_cpu_micros := system_cpu, max_child_rss_kib := max_rss\<rparr>))
     (seq (publish_lifecycle (\<lambda>r. r\<lparr>ready := 1\<rparr>))
     (raw_exit os 0)))"

definition finish_supervision ::
  "os \<Rightarrow> cow_diff_control list \<Rightarrow> target_supervision_phases \<Rightarrow> int \<times> bool \<times> bool \<times> bool \<Rightarrow> unit prog" where
  "finish_supervision os cow_diffs phases outcome =
     bind (kill_and_reap_remaining os (ph_kill phases) (ph_reap phases)) (\<lambda>reaped.
     bind (collect_process_tree_usage os) (\<lambda>usage.
     case usage of
       Inl e \<Rightarrow> fail_errno os (ph_usage phases) e
     | Inr used \<Rightarrow>
         seq (each (export_cow_diff os phases) cow_diffs)
         (publish_outcome os outcome reaped used)))"

definition supervise_target ::
  "os \<Rightarrow> int \<Rightarrow> nat \<Rightarrow> fd \<Rightarrow> fd \<Rightarrow> cow_diff_control list \<Rightarrow> target_supervision_phases \<Rightarrow> unit prog" where
  "supervise_target os pid wall_clock cancellation_fd output_limit_fd cow_diffs phases =
     bind (close_nonstdio_except os cancellation_fd output_limit_fd (map upper_fd cow_diffs)) (\<lambda>closed.
     case closed of
       Inl e \<Rightarrow>
         bind (sys os (Kill pid ''SIGKILL'')) (\<lambda>_.
         bind (wait_specific os pid) (\<lambda>_.
         bind (kill_and_reap_remaining os (ph_kill phases) (ph_reap phases)) (\<lambda>_.
         fail_errno os (ph_close phases) e)))
     | Inr _ \<Rightarrow>
         bind (wait_direct_target os pid wall_clock cancellation_fd output_limit_fd phases)
           (finish_supervision os cow_diffs phases))"

definition become_direct_target_or_reap ::
  "os \<Rightarrow> nat \<Rightarrow> fd \<Rightarrow> fd \<Rightarrow> cow_diff_control list \<Rightarrow> target_supervision_phases \<Rightarrow> unit prog" where
  "become_direct_target_or_reap os wall_clock cancellation_fd output_limit_fd cow_diffs phases =
     bind (try_call os Fork) (\<lambda>r.
       case r of
         Inl e \<Rightarrow> fail os (ph_fork phases)
       | Inr a \<Rightarrow>
           if ret_of a = 0
           then seq (each (close_control_fd os phases) [cancellation_fd, output_limit_fd])
                  (each (close_control_fd os phases) (map upper_fd cow_diffs))
           else supervise_target os (int (ret_of a)) wall_clock cancellation_fd output_limit_fd
                  cow_diffs phases)"

end
