(* ===== verification/Launch_Exec.thy ===== *)
theory Launch_Exec
  imports Launch_Landlock Pid_Lifecycle
begin

unbundle bit_operations_syntax

text \<open>
  The rest of the child's setup in \<open>platform/linux.rs\<close> and \<open>child_exec\<close> itself: every step from
  the unsharing of the namespaces to \<open>execveat\<close>, in the order of the code.
\<close>

section \<open>Standard streams, handles, limits and capabilities\<close>

definition apply_stdio_mode :: "os \<Rightarrow> fd \<Rightarrow> fd \<Rightarrow> fd \<times> stdio_mode \<Rightarrow> unit prog" where
  "apply_stdio_mode os stdout_redirect_fd stdout_capture_fd = (\<lambda>(fd, mode).
     case mode of
       Closed \<Rightarrow>
         bind (try_call os (Close fd)) (\<lambda>r.
           case r of
             Inl e \<Rightarrow> if e \<noteq> EBADF then child_fail_errno os PHASE_STDIO e else ret ()
           | Inr _ \<Rightarrow> ret ())
     | Inherit \<Rightarrow>
         bind (call_or_fail os PHASE_STDIO (Fstat fd)) (\<lambda>a.
         if st_kind (stat_of a) = S_IFDIR then child_fail_errno os PHASE_STDIO EISDIR else ret ())
     | Redirect \<Rightarrow>
         if fd \<noteq> 1 \<or> stdout_redirect_fd < FIRST_NON_STDIO_FD
         then child_fail_errno os PHASE_STDIO_REDIRECT EINVAL
         else do_call os PHASE_STDIO_REDIRECT (Dup2 stdout_redirect_fd fd)
     | Capture \<Rightarrow>
         if fd \<noteq> 1 \<or> stdout_capture_fd < FIRST_NON_STDIO_FD
         then child_fail_errno os PHASE_STDOUT_CAPTURE EINVAL
         else do_call os PHASE_STDOUT_CAPTURE (Dup2 stdout_capture_fd fd))"

definition apply_stdio_policy_or_fail :: "os \<Rightarrow> stdio_policy \<Rightarrow> fd \<Rightarrow> fd \<Rightarrow> unit prog" where
  "apply_stdio_policy_or_fail os io stdout_redirect_fd stdout_capture_fd =
     seq (each (apply_stdio_mode os stdout_redirect_fd stdout_capture_fd)
       [(0, stdin io), (1, stdout io), (2, stderr io)])
     (seq (only_if (stdout_redirect_fd \<ge> FIRST_NON_STDIO_FD)
       (do_call os PHASE_STDIO_REDIRECT (Close stdout_redirect_fd)))
     (only_if (stdout_capture_fd \<ge> FIRST_NON_STDIO_FD)
       (do_call os PHASE_STDOUT_CAPTURE (Close stdout_capture_fd))))"

record prepared_selected_handle =
  sh_storage_fd :: fd
  sh_target_fd :: fd

definition install_selected_handles_or_fail :: "os \<Rightarrow> prepared_selected_handle list \<Rightarrow> unit prog" where
  "install_selected_handles_or_fail os hs =
     seq (each (\<lambda>h. do_call os PHASE_SELECTED_HANDLES (Dup3 (sh_storage_fd h) (sh_target_fd h))) hs)
     (each (\<lambda>h. do_call os PHASE_SELECTED_HANDLES (Close (sh_storage_fd h))) hs)"

definition set_limit_or_fail :: "os \<Rightarrow> string \<Rightarrow> u64 \<Rightarrow> u32 \<Rightarrow> unit prog" where
  "set_limit_or_fail os resource v phase = do_call os phase (Setrlimit resource v)"

fun drop_bounding :: "os \<Rightarrow> nat list \<Rightarrow> unit prog" where
  "drop_bounding os [] = ret ()"
| "drop_bounding os (capability # rest) =
     bind (try_call os (Capbset_drop capability)) (\<lambda>r.
       case r of
         Inl e \<Rightarrow> if e = EINVAL then ret () else child_fail_errno os PHASE_CAP_BOUNDING e
       | Inr _ \<Rightarrow> drop_bounding os rest)"

definition drop_capabilities_or_fail :: "os \<Rightarrow> unit prog" where
  "drop_capabilities_or_fail os =
     seq (drop_bounding os [0..<65])
     (seq (do_call os PHASE_CAP_AMBIENT (Prctl [''PR_CAP_AMBIENT'', ''PR_CAP_AMBIENT_CLEAR_ALL'']))
     (do_call os PHASE_CAP_CURRENT (Capset LINUX_CAPABILITY_VERSION_3 [(0, 0, 0), (0, 0, 0)])))"

section \<open>What the host has prepared\<close>

record prepared_launch =
  pl_root_fd :: fd
  pl_root_path :: string
  pl_cow_root_size :: "string option"
  pl_cow_diff_requested :: bool
  pl_executable_fd :: fd
  pl_interpreter :: "prepared_sealed_mount option"
  pl_dependencies :: "prepared_sealed_mount list"
  pl_selected_handles :: "prepared_selected_handle list"
  pl_selected_storage_floor :: fd
  pl_landlock :: prepared_landlock
  pl_cancellation_fd :: "fd option"
  pl_volumes :: "prepared_volume list"
  pl_cwd_relative :: string
  pl_scratch_relative :: "string option"
  pl_scratch_options :: "string option"
  pl_stdout_redirect_relative :: "string option"
  pl_argv :: "string list"
  pl_envp :: "string list"
  pl_uid_map :: bytes
  pl_gid_map :: bytes
  pl_hostname :: bytes
  pl_time_monotonic_offset :: "bytes option"
  pl_time_boottime_offset :: "bytes option"
  pl_loopback_enabled :: bool
  pl_procfs_enabled :: bool

record child_control =
  cc_capture_read_fd :: fd
  cc_capture_write_fd :: fd
  cc_output_limit_fd :: fd
  cc_cow_diff_state :: bool
  cc_cow_volume_diff_states :: "bool list"
  cc_wall_clock :: nat

section \<open>The stages of \<open>child_exec\<close>\<close>

definition namespace_flags :: "prepared_launch \<Rightarrow> string list" where
  "namespace_flags prepared =
     [''CLONE_NEWUSER'', ''CLONE_NEWNS'', ''CLONE_NEWPID'', ''CLONE_NEWNET'', ''CLONE_NEWIPC'', ''CLONE_NEWUTS''] @
     (if pl_time_monotonic_offset prepared \<noteq> None then [''CLONE_NEWTIME''] else [])"

definition enter_namespaces :: "os \<Rightarrow> prepared_launch \<Rightarrow> unit prog" where
  "enter_namespaces os prepared =
     seq (do_call os PHASE_NAMESPACE (Unshare (namespace_flags prepared)))
     (seq (mark_enforcement ENFORCEMENT_BASE_NAMESPACES)
     (seq (write_proc_file_or_fail os ''/proc/self/setgroups'' (b_lit ''deny'' @ [10]) PHASE_SETGROUPS)
     (seq (write_proc_file_or_fail os ''/proc/self/uid_map'' (pl_uid_map prepared) PHASE_UID_MAP)
     (write_proc_file_or_fail os ''/proc/self/gid_map'' (pl_gid_map prepared) PHASE_GID_MAP))))"

definition set_time_offsets :: "os \<Rightarrow> prepared_launch \<Rightarrow> unit prog" where
  "set_time_offsets os prepared =
     (case (pl_time_monotonic_offset prepared, pl_time_boottime_offset prepared) of
        (Some monotonic, Some boottime) \<Rightarrow>
          seq (write_proc_file_or_fail os ''/proc/self/timens_offsets'' monotonic PHASE_TIME_OFFSETS)
          (seq (write_proc_file_or_fail os ''/proc/self/timens_offsets'' boottime PHASE_TIME_OFFSETS)
          (mark_enforcement ENFORCEMENT_TIME_NAMESPACE))
      | _ \<Rightarrow> ret ())"

definition isolate_host :: "os \<Rightarrow> prepared_launch \<Rightarrow> unit prog" where
  "isolate_host os prepared =
     seq (do_call os PHASE_HOSTNAME (Sethostname (pl_hostname prepared)))
     (seq (mark_enforcement ENFORCEMENT_HOSTNAME)
     (seq (only_if (pl_loopback_enabled prepared) (enable_loopback_or_fail os))
     (seq (do_call os PHASE_MOUNT_PRIVATE (Mount '''' ''/'' '''' [''MS_REC'', ''MS_PRIVATE''] ''''))
     (mark_enforcement ENFORCEMENT_PRIVATE_MOUNTS))))"

definition enter_final_root :: "os \<Rightarrow> prepared_launch \<Rightarrow> (fd \<times> fd) prog" where
  "enter_final_root os prepared =
     bind (open_fd os PHASE_ROOT_REVALIDATE (Openat2 (AT_FDCWD os) (pl_root_path prepared)
       \<lparr>how_flags = directory_path_flags, how_mode = 0, how_resolve = RESOLVE_NO_MAGICLINKS OR RESOLVE_NO_SYMLINKS\<rparr>))
       (\<lambda>current_root_fd.
     seq (revalidate_root_identity_or_fail os (pl_root_fd prepared) current_root_fd)
     (bind (construct_final_root_or_fail os (pl_cow_root_size prepared) (pl_cow_diff_requested prepared) current_root_fd)
       (\<lambda>(root_tree_fd, cow_upper_fd).
     seq (do_call os PHASE_ROOT_FCHDIR (Fchdir root_tree_fd))
     (ret (root_tree_fd, cow_upper_fd)))))"

text \<open>The volumes in order; the array of retained upper layers is threaded through.\<close>

definition retains_upper :: "child_control \<Rightarrow> prepared_volume \<Rightarrow> bool prog" where
  "retains_upper control volume =
     (case pv_cow_diff_index volume of
        None \<Rightarrow> ret False
      | Some index \<Rightarrow>
          if index < length (cc_cow_volume_diff_states control) then ret (cc_cow_volume_diff_states control ! index)
          else panic)"

fun install_volumes :: "os \<Rightarrow> child_control \<Rightarrow> fd \<Rightarrow> prepared_volume list \<Rightarrow> fd list \<Rightarrow> fd list prog" where
  "install_volumes os control root_tree_fd [] uppers = ret uppers"
| "install_volumes os control root_tree_fd (volume # volumes) uppers =
     bind (retains_upper control volume) (\<lambda>retain_cow_upper.
     bind (install_volume_or_fail os volume root_tree_fd retain_cow_upper) (\<lambda>retained.
     case (retained, pv_cow_diff_index volume) of
       (None, _) \<Rightarrow> install_volumes os control root_tree_fd volumes uppers
     | (Some upper, None) \<Rightarrow> panic
     | (Some upper, Some index) \<Rightarrow>
         if index < length uppers
         then install_volumes os control root_tree_fd volumes (uppers[index := upper])
         else panic))"

definition mount_scratch :: "os \<Rightarrow> prepared_launch \<Rightarrow> unit prog" where
  "mount_scratch os prepared =
     (case (pl_scratch_relative prepared, pl_scratch_options prepared) of
        (Some scratch, Some options) \<Rightarrow>
          do_call os PHASE_SCRATCH_MOUNT
            (Mount ''tmpfs'' scratch ''tmpfs'' [''MS_NOSUID'', ''MS_NODEV'', ''MS_NOEXEC''] options)
      | _ \<Rightarrow> ret ())"

definition install_images :: "os \<Rightarrow> prepared_launch \<Rightarrow> fd \<Rightarrow> unit prog" where
  "install_images os prepared root_tree_fd =
     seq (case pl_interpreter prepared of
            None \<Rightarrow> ret ()
          | Some interpreter \<Rightarrow> install_sealed_image_or_fail os interpreter INTERPRETER_MOUNT_PHASES root_tree_fd)
     (each (\<lambda>dependency. install_sealed_image_or_fail os dependency NEEDED_MOUNT_PHASES root_tree_fd)
       (pl_dependencies prepared))"

definition open_redirect :: "os \<Rightarrow> prepared_launch \<Rightarrow> fd \<Rightarrow> fd prog" where
  "open_redirect os prepared root_tree_fd =
     (case pl_stdout_redirect_relative prepared of
        None \<Rightarrow> ret (-1)
      | Some path \<Rightarrow> open_stdout_redirect_or_fail os root_tree_fd path)"

definition enter_chroot :: "os \<Rightarrow> prepared_launch \<Rightarrow> fd \<Rightarrow> unit prog" where
  "enter_chroot os prepared root_tree_fd =
     bind (open_fd os PHASE_CWD_PIN (Openat2 root_tree_fd (pl_cwd_relative prepared)
       \<lparr>how_flags = directory_path_flags, how_mode = 0, how_resolve = beneath_root\<rparr>)) (\<lambda>cwd_fd.
     seq (do_call os PHASE_CHROOT (Chroot ''.''))
     (seq (mark_enforcement ENFORCEMENT_CHROOT)
     (do_call os PHASE_CWD_FCHDIR (Fchdir cwd_fd))))"

definition sanitize_fds :: "os \<Rightarrow> unit prog" where
  "sanitize_fds os =
     seq (do_call os PHASE_FD_SANITIZE (Close_range 3 (2 ^ 32 - 1) 4))
     (mark_enforcement ENFORCEMENT_FD_SANITIZATION)"

text \<open>The controls of the diff exports: the root first, then the volumes by index.\<close>

definition check_upper :: "os \<Rightarrow> fd \<Rightarrow> unit prog" where
  "check_upper os upper =
     (if upper < FIRST_NON_STDIO_FD then child_fail_errno os PHASE_COW_DIFF_EXPORT EINVAL else ret ())"

fun volume_controls :: "os \<Rightarrow> (bool \<times> fd) list \<Rightarrow> cow_diff_control list prog" where
  "volume_controls os [] = ret []"
| "volume_controls os ((state, upper) # rest) =
     (if \<not> state then volume_controls os rest
      else seq (check_upper os upper)
        (bind (volume_controls os rest) (\<lambda>controls. ret (\<lparr>upper_fd = upper, has_state = True\<rparr> # controls))))"

definition cow_diff_controls :: "os \<Rightarrow> child_control \<Rightarrow> fd \<Rightarrow> fd list \<Rightarrow> cow_diff_control list prog" where
  "cow_diff_controls os control cow_upper_fd uppers =
     bind (if cc_cow_diff_state control
           then seq (check_upper os cow_upper_fd) (ret [\<lparr>upper_fd = cow_upper_fd, has_state = True\<rparr>])
           else ret []) (\<lambda>root.
     bind (volume_controls os (zip (cc_cow_volume_diff_states control) uppers)) (\<lambda>volumes.
     ret (root @ volumes)))"

definition supervision_phases :: target_supervision_phases where
  "supervision_phases =
     \<lparr>ph_fork = PHASE_TARGET_FORK, ph_kill = PHASE_PROCESS_TREE_KILL, ph_reap = PHASE_PROCESS_TREE_REAP,
      ph_close = PHASE_FD_SANITIZE, ph_pidfd = PHASE_DEADLINE_PIDFD, ph_timerfd = PHASE_DEADLINE_TIMERFD,
      ph_timer_arm = PHASE_DEADLINE_TIMER_ARM, ph_poll = PHASE_DEADLINE_POLL,
      ph_cancellation_pidfd = PHASE_CANCELLATION_PIDFD, ph_cancellation_poll = PHASE_CANCELLATION_POLL,
      ph_output_limit_pidfd = PHASE_OUTPUT_LIMIT_PIDFD, ph_output_limit_poll = PHASE_OUTPUT_LIMIT_POLL,
      ph_usage = PHASE_PROCESS_TREE_USAGE, ph_cow_diff_export = PHASE_COW_DIFF_EXPORT\<rparr>"

definition set_limits :: "os \<Rightarrow> resource_limits \<Rightarrow> unit prog" where
  "set_limits os lims =
     seq (set_limit_or_fail os ''RLIMIT_CPU'' (cpu_seconds lims) PHASE_RLIMIT_CPU)
     (seq (set_limit_or_fail os ''RLIMIT_AS'' (address_space_bytes lims) PHASE_RLIMIT_AS)
     (seq (set_limit_or_fail os ''RLIMIT_FSIZE'' (file_size_bytes lims) PHASE_RLIMIT_FSIZE)
     (seq (set_limit_or_fail os ''RLIMIT_NOFILE'' (open_files lims) PHASE_RLIMIT_NOFILE)
     (mark_enforcement ENFORCEMENT_RLIMITS))))"

definition drop_privileges :: "os \<Rightarrow> fd \<Rightarrow> sock_filter list \<Rightarrow> unit prog" where
  "drop_privileges os landlock_ruleset_fd filters =
     seq (drop_capabilities_or_fail os)
     (seq (mark_enforcement ENFORCEMENT_CAPABILITIES)
     (seq (do_call os PHASE_NO_NEW_PRIVS (Prctl [''PR_SET_NO_NEW_PRIVS'', ''1'']))
     (seq (mark_enforcement ENFORCEMENT_NO_NEW_PRIVS)
     (seq (restrict_landlock_or_fail os landlock_ruleset_fd)
     (seq (only_if (landlock_ruleset_fd \<ge> 0) (mark_enforcement ENFORCEMENT_LANDLOCK))
     (seq (do_call os PHASE_SECCOMP (Set_seccomp filters))
     (mark_enforcement ENFORCEMENT_SECCOMP)))))))"

text \<open>What the direct target does after its fork, up to \<open>execveat\<close>.\<close>

definition target_setup ::
  "os \<Rightarrow> prepared_launch \<Rightarrow> stdio_policy \<Rightarrow> resource_limits \<Rightarrow> sock_filter list \<Rightarrow> child_control \<Rightarrow> fd \<Rightarrow> fd \<Rightarrow> unit prog" where
  "target_setup os prepared io lims filters control root_tree_fd stdout_redirect_fd =
     bind (prepare_landlock_ruleset_or_fail os (pl_landlock prepared) root_tree_fd (pl_selected_storage_floor prepared))
       (\<lambda>landlock_ruleset_fd.
     seq (apply_stdio_policy_or_fail os io stdout_redirect_fd (cc_capture_write_fd control))
     (seq (install_selected_handles_or_fail os (pl_selected_handles prepared))
     (seq (set_limits os lims)
     (drop_privileges os landlock_ruleset_fd filters))))"

definition before_exec ::
  "os \<Rightarrow> prepared_launch \<Rightarrow> stdio_policy \<Rightarrow> resource_limits \<Rightarrow> sock_filter list \<Rightarrow> child_control \<Rightarrow> unit prog" where
  "before_exec os prepared io lims filters control =
     seq (only_if (cc_capture_read_fd control \<ge> FIRST_NON_STDIO_FD)
       (do_call os PHASE_STDOUT_CAPTURE (Close (cc_capture_read_fd control))))
     (seq (enter_namespaces os prepared)
     (seq (set_time_offsets os prepared)
     (seq (isolate_host os prepared)
     (bind (enter_final_root os prepared) (\<lambda>(root_tree_fd, cow_upper_fd).
     bind (install_volumes os control root_tree_fd (pl_volumes prepared)
       (replicate MAX_PERSISTENT_VOLUME_BINDINGS (-1))) (\<lambda>uppers.
     seq (mount_scratch os prepared)
     (seq (install_images os prepared root_tree_fd)
     (bind (open_redirect os prepared root_tree_fd) (\<lambda>stdout_redirect_fd.
     seq (enter_chroot os prepared root_tree_fd)
     (seq (sanitize_fds os)
     (seq (become_pid_namespace_init_or_exit os PHASE_PID_INIT_FORK PHASE_PID_INIT_WAIT PHASE_FD_SANITIZE)
     (seq (only_if (pl_procfs_enabled prepared) (mount_private_procfs_or_fail os))
     (bind (cow_diff_controls os control cow_upper_fd uppers) (\<lambda>controls.
     seq (become_direct_target_or_reap os (cc_wall_clock control)
       (case pl_cancellation_fd prepared of None \<Rightarrow> -1 | Some fd \<Rightarrow> fd) (cc_output_limit_fd control)
       controls supervision_phases)
     (target_setup os prepared io lims filters control root_tree_fd stdout_redirect_fd)))))))))))))))"

text \<open>A return of \<open>child_exec\<close> stands for the target program having replaced the child.\<close>

definition child_exec ::
  "os \<Rightarrow> prepared_launch \<Rightarrow> stdio_policy \<Rightarrow> resource_limits \<Rightarrow> sock_filter list \<Rightarrow> child_control \<Rightarrow> unit prog" where
  "child_exec os prepared io lims filters control =
     seq (before_exec os prepared io lims filters control)
     (do_call os PHASE_EXECVEAT
       (Execveat (pl_executable_fd prepared) (pl_argv prepared) (pl_envp prepared) 0x1000))"

end
