(* ===== verification/Launch_Idle.thy ===== *)
theory Launch_Idle
  imports Launch_Logic Launch_Exec
begin

unbundle bit_operations_syntax

text \<open>
  The helpers of the child's setup that pass no milestone of the plan: they add calls to the
  trace, never \<open>execveat\<close>, set no enforcement bit, and exit only with a phase in the record.
\<close>

section \<open>Supervision\<close>

lemma idle_raw_exit [idle_intros]: "idle (raw_exit os 0)"
  unfolding raw_exit_def by (rule follows_exit_0)

lemma idle_fails [idle_intros]:
  "phase \<noteq> 0 \<Longrightarrow> idle (fail_errno os phase e)" "phase \<noteq> 0 \<Longrightarrow> idle (fail os phase)"
proof -
  show fe: "phase \<noteq> 0 \<Longrightarrow> idle (fail_errno os phase e)" for e :: sys_errno
    unfolding fail_errno_def raw_exit_def by (rule never_publish)
  show "phase \<noteq> 0 \<Longrightarrow> idle (fail os phase)"
    unfolding fail_def by (intro idle_intros fe)
qed

lemma idle_wait_specific [idle_intros]: "idle (wait_specific os pid)"
proof (rule idleI)
  show "wait_specific os pid s = Some y \<Longrightarrow> run_good s y" for s y
    by (rule wait_specific.raw_induct [where P = "\<lambda>os pid s y. run_good s y"])
      (erule idleD, intro idle_intros idleI, auto)
qed

lemma idle_wait_specific_nohang [idle_intros]: "idle (wait_specific_nohang os pid)"
proof (rule idleI)
  show "wait_specific_nohang os pid s = Some y \<Longrightarrow> run_good s y" for s y
    by (rule wait_specific_nohang.raw_induct [where P = "\<lambda>os pid s y. run_good s y"])
      (erule idleD, intro idle_intros idleI, auto)
qed

lemma idle_sweep [idle_intros]: "phase \<noteq> 0 \<Longrightarrow> idle (sweep_and_wait os phase)"
  unfolding sweep_and_wait_def kill_sweep_def by (intro idle_intros) simp_all

lemma idle_reap_loop [idle_intros]:
  assumes "phase_kill \<noteq> 0" and "phase_reap \<noteq> 0"
  shows "idle (kill_and_reap_loop os phase_kill phase_reap reaped)"
proof (rule idleI)
  have "kill_and_reap_loop os phase_kill phase_reap reaped s = Some y \<Longrightarrow>
      phase_kill \<noteq> 0 \<longrightarrow> phase_reap \<noteq> 0 \<longrightarrow> run_good s y" for s y
    by (rule kill_and_reap_loop.raw_induct
        [where P = "\<lambda>os phase_kill phase_reap reaped s y. phase_kill \<noteq> 0 \<longrightarrow> phase_reap \<noteq> 0 \<longrightarrow> run_good s y"])
      (intro impI, erule idleD, intro idle_intros idleI, auto)
  then show "kill_and_reap_loop os phase_kill phase_reap reaped s = Some y \<Longrightarrow> run_good s y" for s y
    using assms by blast
qed

lemma idle_kill_and_reap [idle_intros]:
  "phase_kill \<noteq> 0 \<Longrightarrow> phase_reap \<noteq> 0 \<Longrightarrow> idle (kill_and_reap_remaining os phase_kill phase_reap)"
  unfolding kill_and_reap_remaining_def by (intro idle_intros)

lemma idle_usage [idle_intros]: "idle (collect_process_tree_usage os)"
proof -
  have "idle (case a of Failed e \<Rightarrow> ret (Err e)
      | Usage utime_sec utime_usec stime_sec stime_usec maxrss \<Rightarrow>
          ret (Ok (timeval_to_micros utime_sec utime_usec, timeval_to_micros stime_sec stime_usec,
                   if maxrss > 0 then of_int maxrss else 0))
      | _ \<Rightarrow> ret (Ok (0, 0, 0)))" for a
    by (cases a) (simp_all add: idle_ret)
  then show ?thesis unfolding collect_process_tree_usage_def by (intro idle_intros) simp_all
qed

lemma idle_close_around [idle_intros]: "idle (close_around os keep cursor)"
proof (induction os keep cursor rule: close_around.induct)
  case (1 os keep cursor)
  show ?case
    by (subst close_around.simps, cases "next_keep cursor keep"; simp only: option.case; intro idle_intros)
      (use 1 in \<open>auto\<close>)
qed

lemma idle_close_nonstdio [idle_intros]: "idle (close_nonstdio_except os a b uppers)"
  unfolding close_nonstdio_except_def by (intro idle_intros)

definition phases_ok :: "target_supervision_phases \<Rightarrow> bool" where
  "phases_ok ph \<longleftrightarrow> 0 \<notin> {ph_fork ph, ph_kill ph, ph_reap ph, ph_close ph, ph_pidfd ph, ph_timerfd ph,
     ph_timer_arm ph, ph_poll ph, ph_cancellation_pidfd ph, ph_cancellation_poll ph, ph_output_limit_pidfd ph,
     ph_output_limit_poll ph, ph_usage ph, ph_cow_diff_export ph}"

lemma phases_okD [simp]:
  assumes "phases_ok ph"
  shows "ph_fork ph \<noteq> 0" "ph_kill ph \<noteq> 0" "ph_reap ph \<noteq> 0" "ph_close ph \<noteq> 0" "ph_pidfd ph \<noteq> 0"
    "ph_timerfd ph \<noteq> 0" "ph_timer_arm ph \<noteq> 0" "ph_cancellation_pidfd ph \<noteq> 0"
    "ph_output_limit_pidfd ph \<noteq> 0" "ph_usage ph \<noteq> 0" "ph_cow_diff_export ph \<noteq> 0" "poll_phase c l ph \<noteq> 0"
  using assms by (simp_all add: phases_ok_def poll_phase_def)

lemma idle_terminate [idle_intros]: "phases_ok ph \<Longrightarrow> idle (terminate_direct_target os pid ph)"
  unfolding terminate_direct_target_def by (intro idle_intros) simp_all

lemma idle_supervise_events [idle_intros]:
  "phases_ok ph \<Longrightarrow> phase \<noteq> 0 \<Longrightarrow> idle (supervise_events os pid fds phase ph a)"
  unfolding supervise_events_def by (intro idle_intros) simp_all

lemma idle_supervise_round [idle_intros]:
  "phases_ok ph \<Longrightarrow> phase \<noteq> 0 \<Longrightarrow> idle (supervise_round os pid fds phase ph)"
  unfolding supervise_round_def by (intro idle_intros) simp_all

lemma idle_supervise_loop [idle_intros]:
  assumes "phases_ok ph" and "phase \<noteq> 0"
  shows "idle (supervise_loop os pid fds phase ph)"
proof (rule idleI)
  have "supervise_loop os pid fds phase ph s = Some y \<Longrightarrow> phases_ok ph \<longrightarrow> phase \<noteq> 0 \<longrightarrow> run_good s y" for s y
    by (rule supervise_loop.raw_induct
        [where P = "\<lambda>os pid fds phase ph s y. phases_ok ph \<longrightarrow> phase \<noteq> 0 \<longrightarrow> run_good s y"])
      (intro impI, erule idleD, intro idle_intros idleI, auto)
  then show "supervise_loop os pid fds phase ph s = Some y \<Longrightarrow> run_good s y" for s y
    using assms by blast
qed

lemma idle_arm_timer [idle_intros]: "phases_ok ph \<Longrightarrow> idle (arm_timer os wall ph)"
  unfolding arm_timer_def by (intro idle_intros) simp_all

lemma idle_wait_direct [idle_intros]: "phases_ok ph \<Longrightarrow> idle (wait_direct_target os pid wall c l ph)"
  unfolding wait_direct_target_def by (intro idle_intros) simp_all

lemma idle_init [idle_intros]:
  "phase_fork \<noteq> 0 \<Longrightarrow> phase_wait \<noteq> 0 \<Longrightarrow> phase_close \<noteq> 0 \<Longrightarrow>
    idle (become_pid_namespace_init_or_exit os phase_fork phase_wait phase_close)"
  unfolding become_pid_namespace_init_or_exit_def Let_def by (intro idle_intros) simp_all

lemma idle_publish_lifecycle [idle_intros]: "idle (publish_lifecycle f)"
proof (rule followsI)
  fix s s' r
  assume "publish_lifecycle f s = Some (s', r)"
  then have "r = Return ()" "grown s s' []" "no_error s s'"
    by (auto simp: publish_lifecycle_def grown_def no_error_def)
  then show "run_ok [] (\<lambda>_. True) s s' r" by (auto intro: run_ok_idle)
qed

lemma idle_export [idle_intros]: "phases_ok ph \<Longrightarrow> idle (export_cow_diff os ph control)"
  unfolding export_cow_diff_def by (intro idle_intros) simp_all

lemma idle_supervise_target [idle_intros]: "phases_ok ph \<Longrightarrow> idle (supervise_target os pid wall c l controls ph)"
  unfolding supervise_target_def finish_supervision_def publish_outcome_def case_prod_beta by (intro idle_intros) simp_all

lemma idle_close_control [idle_intros]: "phases_ok ph \<Longrightarrow> idle (close_control_fd os ph fd)"
  unfolding close_control_fd_def by (intro idle_intros) simp_all

lemma idle_direct_target [idle_intros]:
  "phases_ok ph \<Longrightarrow> idle (become_direct_target_or_reap os wall c l controls ph)"
  unfolding become_direct_target_or_reap_def by (intro idle_intros) simp_all

lemma supervision_phases_ok: "phases_ok supervision_phases"
  by (simp add: phases_ok_def supervision_phases_def phase_values)

section \<open>Mounts\<close>

lemma idle_close_setup [idle_intros]: "idle (close_setup_fd os fd)"
  unfolding close_setup_fd_def by (intro idle_intros) simp_all

lemma idle_fsconfig [idle_intros]: "phase \<noteq> 0 \<Longrightarrow> idle (fsconfig_string_or_fail os fsfd key v phase)"
  unfolding fsconfig_string_or_fail_def by (intro idle_intros) simp_all

lemma idle_revalidate [idle_intros]: "phase \<noteq> 0 \<Longrightarrow> idle (revalidate_fd_identity_or_fail os a b phase)"
  unfolding revalidate_fd_identity_or_fail_def by (intro idle_intros) simp_all

lemma idle_revalidate_root [idle_intros]: "idle (revalidate_root_identity_or_fail os a b)"
  unfolding revalidate_root_identity_or_fail_def by (intro idle_intros) (simp add: phase_values)

lemma idle_move_fd [idle_intros]: "phase \<noteq> 0 \<Longrightarrow> idle (move_fd_above_stdio_or_fail os fd phase)"
  unfolding move_fd_above_stdio_or_fail_def by (intro idle_intros) simp_all

lemma idle_write_proc_loop [idle_intros]: "phase \<noteq> 0 \<Longrightarrow> idle (write_proc_loop os fd phase data)"
proof (induction os fd phase data rule: write_proc_loop.induct)
  case (1 os fd phase data)
  show ?case by (subst write_proc_loop.simps) (intro idle_intros; use 1 in \<open>simp\<close>)
qed

lemma idle_write_proc [idle_intros]: "phase \<noteq> 0 \<Longrightarrow> idle (write_proc_file_or_fail os path data phase)"
  unfolding write_proc_file_or_fail_def by (intro idle_intros) simp_all

lemma idle_loopback [idle_intros]: "idle (enable_loopback_or_fail os)"
  unfolding enable_loopback_or_fail_def loopback_ioctl_def by (intro idle_intros) (simp_all add: phase_values)

lemma idle_tmpfs [idle_intros]: "p \<noteq> 0 \<Longrightarrow> q \<noteq> 0 \<Longrightarrow> idle (create_private_tmpfs os bound attrs p q)"
  unfolding create_private_tmpfs_def by (intro idle_intros) simp_all

lemma idle_upper_work [idle_intros]: "p \<noteq> 0 \<Longrightarrow> idle (open_upper_work os fd p)"
  unfolding open_upper_work_def by (intro idle_intros) simp_all

lemma idle_overlay [idle_intros]: "p \<noteq> 0 \<Longrightarrow> q \<noteq> 0 \<Longrightarrow> idle (create_overlay os lower upper work p q)"
  unfolding create_overlay_def by (intro idle_intros) simp_all

lemma idle_panic [idle_intros]: "idle panic"
  by (rule followsI) (auto simp: panic_def exit_ok_def intro: run_ok_exit [OF grown_refl])

lemma idle_cow_volume [idle_intros]: "idle (construct_cow_volume_overlay_or_fail os fd cow_size)"
  unfolding construct_cow_volume_overlay_or_fail_def by (intro idle_intros) (simp_all add: phase_values)

lemma idle_volume [idle_intros]: "idle (install_volume_or_fail os volume root retain)"
  unfolding install_volume_or_fail_def Let_def by (intro idle_intros) (simp_all add: phase_values)

lemma idle_pread [idle_intros]: "idle (pread_retry os fd wanted offset)"
proof (rule idleI)
  show "pread_retry os fd wanted offset s = Some y \<Longrightarrow> run_good s y" for s y
    by (rule pread_retry.raw_induct [where P = "\<lambda>os fd wanted offset s y. run_good s y"])
      (erule idleD, intro idle_intros idleI, auto)
qed

lemma idle_write_image [idle_intros]:
  assumes "phase \<noteq> 0"
  shows "idle (write_image_loop os fd phase data)"
proof (rule idleI)
  have "write_image_loop os fd phase data s = Some y \<Longrightarrow> phase \<noteq> 0 \<longrightarrow> run_good s y" for s y
    by (rule write_image_loop.raw_induct [where P = "\<lambda>os fd phase data s y. phase \<noteq> 0 \<longrightarrow> run_good s y"])
      (intro impI, rule idleD [where m = "\<lambda>s. if d = [] then ret () s else n s" for d n], assumption,
        intro idle_intros idleI, auto)
  then show "write_image_loop os fd phase data s = Some y \<Longrightarrow> run_good s y" for s y using assms by blast
qed

lemma idle_copy_image [idle_intros]: "phase \<noteq> 0 \<Longrightarrow> idle (copy_image_loop os a b phase n offset)"
proof (induction os a b phase n offset rule: copy_image_loop.induct)
  case (1 os a b phase n offset)
  show ?case by (subst copy_image_loop.simps) (intro idle_intros; use 1 in \<open>simp\<close>)
qed

definition sealed_phases_ok :: "sealed_mount_phases \<Rightarrow> bool" where
  "sealed_phases_ok ph \<longleftrightarrow> 0 \<notin> {smp_tmpfs_create ph, smp_tmpfs_mount ph, smp_copy ph, smp_clone ph,
     smp_target_pin ph, smp_readonly ph, smp_attach ph}"

lemma idle_sealed_image [idle_intros]: "sealed_phases_ok ph \<Longrightarrow> idle (install_sealed_image_or_fail os sealed ph root)"
  unfolding install_sealed_image_or_fail_def copy_sealed_image_or_fail_def
  by (intro idle_intros) (simp_all add: sealed_phases_ok_def)

lemma mount_phases_ok: "sealed_phases_ok INTERPRETER_MOUNT_PHASES" "sealed_phases_ok NEEDED_MOUNT_PHASES"
  by (simp_all add: sealed_phases_ok_def INTERPRETER_MOUNT_PHASES_def NEEDED_MOUNT_PHASES_def phase_values)

lemma idle_redirect [idle_intros]: "idle (open_stdout_redirect_or_fail os root path)"
  unfolding open_stdout_redirect_or_fail_def by (intro idle_intros) (simp_all add: phase_values)

section \<open>Landlock rules, streams and handles\<close>

lemma idle_path_rule [idle_intros]: "idle (add_path_rule os fd access path_fd)"
  unfolding add_path_rule_def by (intro idle_intros) (simp_all add: phase_values)

lemma idle_rules [idle_intros]:
  "idle (add_read_execute_rule os ll root fd path)" "idle (add_file_mutate_rule os ll root fd path)"
  "idle (add_device_ioctl_rule os root fd path)" "idle (add_bind_rule os ll fd port)" "idle (add_connect_rule os ll fd port)"
  unfolding add_read_execute_rule_def add_file_mutate_rule_def add_device_ioctl_rule_def add_bind_rule_def
    add_connect_rule_def add_port_rule_def Let_def
  by (intro idle_intros; simp add: phase_values)+

lemma idle_stdio_mode: "idle (apply_stdio_mode os redirect capture x)"
proof (cases x)
  case (Pair fd mode)
  show ?thesis
    unfolding Pair apply_stdio_mode_def case_prod_conv
    by (cases mode; simp only: stdio_mode.case; intro idle_intros) (simp_all add: phase_values)
qed

lemma idle_stdio [idle_intros]: "idle (apply_stdio_policy_or_fail os io redirect capture)"
  unfolding apply_stdio_policy_or_fail_def by (intro idle_intros idle_stdio_mode) (simp_all add: phase_values)

lemma idle_handles [idle_intros]: "idle (install_selected_handles_or_fail os hs)"
  unfolding install_selected_handles_or_fail_def by (intro idle_intros) (simp_all add: phase_values)

lemma idle_drop_bounding [idle_intros]: "idle (drop_bounding os caps)"
  by (induction caps) (simp add: idle_ret, simp only: drop_bounding.simps, intro idle_intros, simp_all add: phase_values)

section \<open>Stages without milestones\<close>

lemma idle_volumes [idle_intros]: "idle (install_volumes os control root volumes uppers)"
proof (induction volumes arbitrary: uppers)
  case Nil
  show ?case by (simp add: idle_ret)
next
  case (Cons volume volumes)
  have "idle (retains_upper control volume)"
    unfolding retains_upper_def by (intro idle_intros)
  then show ?case
    unfolding install_volumes.simps case_prod_conv by (intro idle_intros Cons)
qed

lemma idle_stages [idle_intros]:
  "idle (mount_scratch os prepared)" "idle (install_images os prepared root)" "idle (open_redirect os prepared root)"
  "idle (check_upper os fd)"
  unfolding mount_scratch_def install_images_def open_redirect_def check_upper_def
  by (intro idle_intros mount_phases_ok; simp add: phase_values)+

lemma idle_volume_controls [idle_intros]: "idle (volume_controls os pairs)"
proof (induction pairs)
  case Nil
  show ?case by (simp add: idle_ret)
next
  case (Cons p pairs)
  obtain state upper where "p = (state, upper)" by (cases p)
  then show ?case by (simp only: volume_controls.simps) (intro idle_intros Cons)
qed

lemma idle_controls [idle_intros]: "idle (cow_diff_controls os control upper uppers)"
  unfolding cow_diff_controls_def by (intro idle_intros)

end
