(* ===== verification/Launch_Plan.thy ===== *)
theory Launch_Plan
  imports Launch_Idle
begin

unbundle bit_operations_syntax

text \<open>
  The plan of a launch, read off the policy's preparation, and the proof that \<open>child_exec\<close>
  follows it whatever the kernel answers.
\<close>

section \<open>The plan\<close>

abbreviation did :: "call \<Rightarrow> milestone" where
  "did c \<equiv> Did (\<lambda>d. d = c)"

definition namespace_plan :: "prepared_launch \<Rightarrow> milestone list" where
  "namespace_plan prepared =
     [did (Unshare (namespace_flags prepared)), Marked ENFORCEMENT_BASE_NAMESPACES]"

definition time_plan :: "prepared_launch \<Rightarrow> milestone list" where
  "time_plan prepared =
     (if pl_time_monotonic_offset prepared \<noteq> None \<and> pl_time_boottime_offset prepared \<noteq> None
      then [Marked ENFORCEMENT_TIME_NAMESPACE] else [])"

definition host_plan :: "prepared_launch \<Rightarrow> milestone list" where
  "host_plan prepared =
     [did (Sethostname (pl_hostname prepared)), Marked ENFORCEMENT_HOSTNAME,
      did (Mount '''' ''/'' '''' [''MS_REC'', ''MS_PRIVATE''] ''''), Marked ENFORCEMENT_PRIVATE_MOUNTS]"

definition is_readonly_tree :: "call \<Rightarrow> bool" where
  "is_readonly_tree c \<longleftrightarrow> (\<exists>fd. c = Mount_setattr fd [''AT_EMPTY_PATH'', ''AT_RECURSIVE''] MOUNT_ATTR_RDONLY)"

definition is_move_mount :: "call \<Rightarrow> bool" where
  "is_move_mount c \<longleftrightarrow> (\<exists>from to. c = Move_mount from to)"

definition is_restrict_self :: "call \<Rightarrow> bool" where
  "is_restrict_self c \<longleftrightarrow> (\<exists>fd. c = Landlock_restrict_self fd)"

definition root_plan :: "prepared_launch \<Rightarrow> milestone list" where
  "root_plan prepared =
     [Did is_readonly_tree, Did is_move_mount,
      Marked (if pl_cow_root_size prepared = None then ENFORCEMENT_READONLY_ROOT else ENFORCEMENT_COW_ROOT)]"

definition chroot_plan :: "milestone list" where
  "chroot_plan =
     [did (Chroot ''.''), Marked ENFORCEMENT_CHROOT,
      did (Close_range 3 (2 ^ 32 - 1) 4), Marked ENFORCEMENT_FD_SANITIZATION]"

definition procfs_plan :: "prepared_launch \<Rightarrow> milestone list" where
  "procfs_plan prepared =
     (if pl_procfs_enabled prepared
      then [did (Mount ''proc'' ''/proc'' ''proc'' [''MS_NOSUID'', ''MS_NODEV'', ''MS_NOEXEC''] ''''),
            did (Prctl [''PR_SET_DUMPABLE'', ''0'']), Marked ENFORCEMENT_PRIVATE_PROCFS]
      else [])"

definition ruleset_plan :: "prepared_launch \<Rightarrow> milestone list" where
  "ruleset_plan prepared =
     (let ruleset = landlock_ruleset (pl_landlock prepared) in
      if landlock_requested (pl_landlock prepared)
      then [did (Landlock_create_ruleset ruleset (ruleset_size ruleset))] else [])"

definition limits_plan :: "resource_limits \<Rightarrow> milestone list" where
  "limits_plan lims =
     [did (Setrlimit ''RLIMIT_CPU'' (cpu_seconds lims)), did (Setrlimit ''RLIMIT_AS'' (address_space_bytes lims)),
      did (Setrlimit ''RLIMIT_FSIZE'' (file_size_bytes lims)), did (Setrlimit ''RLIMIT_NOFILE'' (open_files lims)),
      Marked ENFORCEMENT_RLIMITS]"

definition privilege_plan :: "milestone list" where
  "privilege_plan =
     [did (Prctl [''PR_CAP_AMBIENT'', ''PR_CAP_AMBIENT_CLEAR_ALL'']),
      did (Capset LINUX_CAPABILITY_VERSION_3 [(0, 0, 0), (0, 0, 0)]), Marked ENFORCEMENT_CAPABILITIES,
      did (Prctl [''PR_SET_NO_NEW_PRIVS'', ''1'']), Marked ENFORCEMENT_NO_NEW_PRIVS]"

definition landlock_plan :: "prepared_launch \<Rightarrow> milestone list" where
  "landlock_plan prepared =
     (if landlock_requested (pl_landlock prepared)
      then [Did is_restrict_self, Marked ENFORCEMENT_LANDLOCK] else [])"

definition seccomp_plan :: "sock_filter list \<Rightarrow> milestone list" where
  "seccomp_plan filters = [did (Set_seccomp filters), Marked ENFORCEMENT_SECCOMP]"

definition launch_plan :: "prepared_launch \<Rightarrow> resource_limits \<Rightarrow> sock_filter list \<Rightarrow> milestone list" where
  "launch_plan prepared lims filters =
     namespace_plan prepared @ time_plan prepared @ host_plan prepared @ root_plan prepared @ chroot_plan @
     procfs_plan prepared @ ruleset_plan prepared @ limits_plan lims @ privilege_plan @ landlock_plan prepared @
     seccomp_plan filters"

section \<open>The stages follow it\<close>

lemma follows_enter_namespaces: "follows (namespace_plan prepared) (enter_namespaces os prepared) (\<lambda>_. True)"
  unfolding namespace_plan_def enter_namespaces_def
  by (intro follows_did follows_marked idle_intros) (simp_all add: phase_values)

lemma follows_time_offsets: "follows (time_plan prepared) (set_time_offsets os prepared) (\<lambda>_. True)"
  by (auto simp: time_plan_def set_time_offsets_def phase_values split: option.splits
      intro!: follows_idle [OF idle_write_proc] follows_mark idle_ret)

lemma follows_isolate_host: "follows (host_plan prepared) (isolate_host os prepared) (\<lambda>_. True)"
  unfolding host_plan_def isolate_host_def
  by (intro follows_did follows_marked follows_idle [OF idle_only_if [OF idle_loopback]] follows_mark)
    (simp_all add: phase_values)

lemma follows_marked_last: "Q x \<Longrightarrow> follows [Marked b] (seq (mark_enforcement b) (ret x)) Q"
  by (intro follows_marked follows_ret)

lemma follows_prod: "(\<And>x y. follows plan (f x y) Q) \<Longrightarrow> follows plan (case p of (x, y) \<Rightarrow> f x y) Q"
  by (cases p) simp

lemmas follows_mounts =
  follows_idle [OF idle_open] follows_idle [OF idle_tmpfs] follows_idle [OF idle_upper_work]
  follows_idle [OF idle_overlay] follows_idle [OF idle_close_setup]
  follows_idle [OF idle_only_if [OF idle_close_setup]] follows_prod follows_did follows_marked_last

lemma follows_final_root:
  "follows (root_plan prepared)
     (construct_final_root_or_fail os (pl_cow_root_size prepared) diff current_root_fd) (\<lambda>_. True)"
  unfolding root_plan_def construct_final_root_or_fail_def
  by (cases "pl_cow_root_size prepared"; simp; intro follows_mounts)
    (simp_all add: phase_values is_readonly_tree_def is_move_mount_def)

lemma follows_enter_final_root: "follows (root_plan prepared) (enter_final_root os prepared) (\<lambda>_. True)"
proof -
  have "follows (root_plan prepared @ []) (bind (construct_final_root_or_fail os (pl_cow_root_size prepared)
      (pl_cow_diff_requested prepared) fd) (\<lambda>(root_tree_fd, cow_upper_fd).
        seq (do_call os PHASE_ROOT_FCHDIR (Fchdir root_tree_fd)) (ret (root_tree_fd, cow_upper_fd)))) (\<lambda>_. True)" for fd
    by (intro follows_then [OF follows_final_root] idle_intros) (simp_all add: phase_values)
  then show ?thesis
    unfolding enter_final_root_def
    by (intro follows_idle [OF idle_open] follows_idle [OF idle_revalidate_root]) (simp_all add: phase_values)
qed

lemma follows_chroot:
  "follows (take 2 chroot_plan) (enter_chroot os prepared root) (\<lambda>_. True)"
  "follows (drop 2 chroot_plan) (sanitize_fds os) (\<lambda>_. True)"
  unfolding enter_chroot_def sanitize_fds_def
  by (simp add: chroot_plan_def; intro follows_idle [OF idle_open] follows_did follows_marked follows_mark idle_intros;
      simp add: phase_values)+

lemma follows_procfs:
  "follows (procfs_plan prepared) (only_if (pl_procfs_enabled prepared) (mount_private_procfs_or_fail os)) (\<lambda>_. True)"
  by (auto simp: procfs_plan_def only_if_def mount_private_procfs_or_fail_def phase_values
      intro!: follows_did follows_mark idle_ret)

lemma follows_create_ruleset:
  assumes "landlock_requested (pl_landlock prepared)"
  shows "follows (ruleset_plan prepared) (create_ruleset_or_fail os (pl_landlock prepared) floor_fd) (\<lambda>fd. fd \<ge> 0)"
proof -
  let ?ruleset = "landlock_ruleset (pl_landlock prepared)"
  have "follows ([did (Landlock_create_ruleset ?ruleset (ruleset_size ?ruleset))] @ [])
      (create_ruleset_or_fail os (pl_landlock prepared) floor_fd) (\<lambda>fd. fd \<ge> 0)"
    unfolding create_ruleset_or_fail_def Let_def
  proof (rule follows_bind [OF follows_open])
    fix fd :: fd
    assume "0 \<le> fd"
    then show "follows [] (if fd < floor_fd
        then bind (open_fd os PHASE_LANDLOCK_RULESET (Dupfd_cloexec fd floor_fd))
          (\<lambda>moved. seq (do_call os PHASE_LANDLOCK_RULESET (Close fd)) (ret moved))
        else ret fd) (\<lambda>fd. 0 \<le> fd)"
      by (auto simp: phase_values intro!: follows_idle_with [OF nonneg_open] follows_idle [OF idle_call] follows_ret)
  qed (simp_all add: phase_values)
  then show ?thesis using assms by (simp add: ruleset_plan_def Let_def)
qed

lemma follows_prepare_landlock:
  "follows (ruleset_plan prepared) (prepare_landlock_ruleset_or_fail os (pl_landlock prepared) root floor_fd)
     (\<lambda>fd. fd \<ge> 0 \<longleftrightarrow> landlock_requested (pl_landlock prepared))"
proof (cases "landlock_requested (pl_landlock prepared)")
  case True
  have rules: "follows [] (seq (each (add_read_execute_rule os (pl_landlock prepared) root fd) (ll_read_execute (pl_landlock prepared)))
      (seq (each (add_file_mutate_rule os (pl_landlock prepared) root fd) (ll_file_mutate (pl_landlock prepared)))
      (seq (each (add_device_ioctl_rule os root fd) (ll_device_ioctl (pl_landlock prepared)))
      (seq (each (add_bind_rule os (pl_landlock prepared) fd) (ll_tcp_bind_ports (pl_landlock prepared)))
      (seq (each (add_connect_rule os (pl_landlock prepared) fd) (ll_tcp_connect_ports (pl_landlock prepared)))
      (ret fd)))))) (\<lambda>fd. 0 \<le> fd)" if "0 \<le> fd" for fd
    by (intro follows_idle [OF idle_each] idle_rules follows_ret that)
  have "follows (ruleset_plan prepared @ []) (prepare_landlock_ruleset_or_fail os (pl_landlock prepared) root floor_fd)
      (\<lambda>fd. fd \<ge> 0)"
    unfolding prepare_landlock_ruleset_or_fail_def using True
    by (simp del: append_Nil2) (intro follows_bind [OF follows_create_ruleset] rules)
  then show ?thesis using True by simp
next
  case False
  then show ?thesis
    by (simp add: prepare_landlock_ruleset_or_fail_def ruleset_plan_def follows_ret)
qed

lemma follows_limits: "follows (limits_plan lims) (set_limits os lims) (\<lambda>_. True)"
  unfolding limits_plan_def set_limits_def set_limit_or_fail_def
  by (intro follows_did follows_mark) (simp_all add: phase_values)

lemma follows_capabilities:
  "follows (take 2 privilege_plan) (drop_capabilities_or_fail os) (\<lambda>_. True)"
  unfolding drop_capabilities_or_fail_def privilege_plan_def
  by (simp, intro follows_idle [OF idle_drop_bounding] follows_did follows_call) (simp_all add: phase_values)

lemma follows_restrict:
  assumes "fd \<ge> 0 \<longleftrightarrow> landlock_requested (pl_landlock prepared)"
  shows "follows (take 1 (landlock_plan prepared)) (restrict_landlock_or_fail os fd) (\<lambda>_. True)"
    and "follows (drop 1 (landlock_plan prepared)) (only_if (fd \<ge> 0) (mark_enforcement ENFORCEMENT_LANDLOCK)) (\<lambda>_. True)"
  unfolding restrict_landlock_or_fail_def only_if_def
  using assms
  by (auto simp: landlock_plan_def is_restrict_self_def phase_values intro!: follows_did follows_mark idle_intros)

lemma follows_drop_privileges:
  assumes "fd \<ge> 0 \<longleftrightarrow> landlock_requested (pl_landlock prepared)"
  shows "follows (privilege_plan @ landlock_plan prepared @ seccomp_plan filters)
    (drop_privileges os fd filters) (\<lambda>_. True)"
proof -
  have seccomp: "follows (seccomp_plan filters)
      (seq (do_call os PHASE_SECCOMP (Set_seccomp filters)) (mark_enforcement ENFORCEMENT_SECCOMP)) (\<lambda>_. True)"
    unfolding seccomp_plan_def by (intro follows_did follows_mark) (simp_all add: phase_values)
  note landlock = follows_then [OF follows_restrict(1) [OF assms] follows_then [OF follows_restrict(2) [OF assms] seccomp]]
  have "follows (take 2 privilege_plan @ Marked ENFORCEMENT_CAPABILITIES # did (Prctl [''PR_SET_NO_NEW_PRIVS'', ''1'']) #
      Marked ENFORCEMENT_NO_NEW_PRIVS # take 1 (landlock_plan prepared) @ drop 1 (landlock_plan prepared) @ seccomp_plan filters)
      (drop_privileges os fd filters) (\<lambda>_. True)"
    unfolding drop_privileges_def
    by (intro follows_then [OF follows_capabilities] follows_marked follows_did landlock) (simp_all add: phase_values)
  moreover have "take 1 (landlock_plan prepared) @ drop 1 (landlock_plan prepared) @ rest = landlock_plan prepared @ rest"
    for rest
    by (metis append.assoc append_take_drop_id)
  ultimately have "follows (take 2 privilege_plan @ Marked ENFORCEMENT_CAPABILITIES #
      did (Prctl [''PR_SET_NO_NEW_PRIVS'', ''1'']) # Marked ENFORCEMENT_NO_NEW_PRIVS # landlock_plan prepared @ seccomp_plan filters)
      (drop_privileges os fd filters) (\<lambda>_. True)" by metis
  then show ?thesis by (simp add: privilege_plan_def)
qed

lemma follows_target_setup:
  "follows (ruleset_plan prepared @ limits_plan lims @ privilege_plan @ landlock_plan prepared @ seccomp_plan filters)
     (target_setup os prepared io lims filters control root redirect) (\<lambda>_. True)"
  unfolding target_setup_def
  by (intro follows_bind [OF follows_prepare_landlock] follows_idle [OF idle_stdio] follows_idle [OF idle_handles]
      follows_then [OF follows_limits] follows_drop_privileges)

lemma before_exec_follows_plan:
  "follows (launch_plan prepared lims filters) (before_exec os prepared io lims filters control) (\<lambda>_. True)"
proof -
  have split: "launch_plan prepared lims filters =
      namespace_plan prepared @ time_plan prepared @ host_plan prepared @ root_plan prepared @ take 2 chroot_plan @
      drop 2 chroot_plan @ procfs_plan prepared @ ruleset_plan prepared @ limits_plan lims @ privilege_plan @
      landlock_plan prepared @ seccomp_plan filters"
    by (simp add: launch_plan_def chroot_plan_def)
  show ?thesis
    unfolding split before_exec_def
    by (intro follows_idle [OF idle_only_if [OF idle_call]] follows_then [OF follows_enter_namespaces]
        follows_then [OF follows_time_offsets] follows_then [OF follows_isolate_host]
        follows_then [OF follows_enter_final_root] follows_prod follows_idle [OF idle_volumes]
        follows_idle [OF idle_stages(1)] follows_idle [OF idle_stages(2)] follows_idle [OF idle_stages(3)]
        follows_then [OF follows_chroot(1)] follows_then [OF follows_chroot(2)] follows_idle [OF idle_init]
        follows_then [OF follows_procfs] follows_idle [OF idle_controls]
        follows_idle [OF idle_direct_target [OF supervision_phases_ok]] follows_target_setup)
      (simp_all add: phase_values)
qed

end
