(* ===== verification/Launch_Receipt.thy ===== *)
theory Launch_Receipt
  imports Launch_Mounts
begin

unbundle bit_operations_syntax

text \<open>
  The host's side of \<open>platform/linux.rs\<close> after the child has run: the enforcement receipt, launch
  errors, the lifecycle outcome, the bounded capture and the verdict of \<open>run_report\<close>. The macros of the C library that read a
  wait status and its error texts are fields of a record.
\<close>

section \<open>The enforcement receipt\<close>

record enforcement_receipt =
  er_base_namespaces :: bool
  er_time_namespace_offsets :: bool
  er_hostname :: bool
  er_private_mount_propagation :: bool
  er_readonly_root :: bool
  er_copy_on_write_root :: bool
  er_chroot :: bool
  er_fd_sanitization :: bool
  er_private_procfs :: bool
  er_rlimits :: bool
  er_capabilities_reduced :: bool
  er_no_new_privs :: bool
  er_landlock :: bool
  er_seccomp :: bool

definition policy_requests_landlock :: "sandbox_policy \<Rightarrow> bool" where
  "policy_requests_landlock p \<longleftrightarrow>
     landlock_read_execute p \<noteq> [] \<or> landlock_file_mutate p \<noteq> [] \<or> landlock_path_topology_mutate p \<noteq> [] \<or>
     landlock_device_ioctl p \<noteq> [] \<or> landlock_tcp_bind_ports p \<noteq> [] \<or> landlock_tcp_connect_ports p \<noteq> [] \<or>
     landlock_scope_abstract_unix_socket p \<or> landlock_scope_signal p"

definition observed :: "u64 \<Rightarrow> u64 \<Rightarrow> bool" where
  "observed bits b \<longleftrightarrow> bits AND b \<noteq> 0"

definition require_predecessor :: "u64 \<Rightarrow> u64 \<Rightarrow> u64 \<Rightarrow> string \<Rightarrow> (unit, sandbox_error) result" where
  "require_predecessor bits later earlier label =
     reject (observed bits later \<and> \<not> observed bits earlier)
       (SetupFailed ''runtime enforcement receipt published {label} without its required predecessor'' [FStr label])"

definition receipt_problem :: "string \<Rightarrow> sandbox_error" where
  "receipt_problem text = SetupFailed text []"

definition check_receipt_bits :: "u64 \<Rightarrow> bool \<Rightarrow> bool \<Rightarrow> bool \<Rightarrow> bool \<Rightarrow> (unit, sandbox_error) result" where
  "check_receipt_bits bits time_namespace_requested landlock_requested procfs_requested cow_root_requested =
     (let readonly_root = observed bits ENFORCEMENT_READONLY_ROOT;
          copy_on_write_root = observed bits ENFORCEMENT_COW_ROOT;
          time_namespace_offsets = observed bits ENFORCEMENT_TIME_NAMESPACE;
          private_procfs = observed bits ENFORCEMENT_PRIVATE_PROCFS;
          landlock = observed bits ENFORCEMENT_LANDLOCK
      in checks [
        reject (bits AND NOT ENFORCEMENT_KNOWN \<noteq> 0)
          (SetupFailed ''runtime enforcement receipt published unknown layer bits 0x{unknown:x}''
            [FNat (unat (bits AND NOT ENFORCEMENT_KNOWN))]),
        require_predecessor bits ENFORCEMENT_HOSTNAME ENFORCEMENT_BASE_NAMESPACES ''hostname'',
        require_predecessor bits ENFORCEMENT_PRIVATE_MOUNTS ENFORCEMENT_HOSTNAME ''private mount propagation'',
        require_predecessor bits ENFORCEMENT_READONLY_ROOT ENFORCEMENT_PRIVATE_MOUNTS ''read-only root'',
        require_predecessor bits ENFORCEMENT_COW_ROOT ENFORCEMENT_PRIVATE_MOUNTS ''copy-on-write root'',
        reject (readonly_root \<and> copy_on_write_root)
          (receipt_problem ''runtime enforcement receipt observed both read-only and copy-on-write final roots''),
        reject (copy_on_write_root \<and> \<not> cow_root_requested)
          (receipt_problem ''runtime enforcement receipt observed unrequested copy-on-write root''),
        reject (readonly_root \<and> cow_root_requested)
          (receipt_problem ''runtime enforcement receipt observed read-only final root for requested copy-on-write policy''),
        reject (observed bits ENFORCEMENT_CHROOT \<and> \<not> (if cow_root_requested then copy_on_write_root else readonly_root))
          (receipt_problem ''runtime enforcement receipt reached chroot without the requested final-root boundary''),
        require_predecessor bits ENFORCEMENT_FD_SANITIZATION ENFORCEMENT_CHROOT ''FD sanitization'',
        require_predecessor bits ENFORCEMENT_PRIVATE_PROCFS ENFORCEMENT_FD_SANITIZATION ''private procfs'',
        require_predecessor bits ENFORCEMENT_RLIMITS ENFORCEMENT_FD_SANITIZATION ''rlimits'',
        require_predecessor bits ENFORCEMENT_CAPABILITIES ENFORCEMENT_RLIMITS ''capability reduction'',
        require_predecessor bits ENFORCEMENT_NO_NEW_PRIVS ENFORCEMENT_CAPABILITIES ''no_new_privs'',
        require_predecessor bits ENFORCEMENT_LANDLOCK ENFORCEMENT_NO_NEW_PRIVS ''Landlock'',
        require_predecessor bits ENFORCEMENT_SECCOMP ENFORCEMENT_NO_NEW_PRIVS ''seccomp'',
        reject (time_namespace_offsets \<and> \<not> time_namespace_requested)
          (receipt_problem ''runtime enforcement receipt observed unrequested time-namespace offsets''),
        reject (time_namespace_requested \<and> observed bits ENFORCEMENT_HOSTNAME \<and> \<not> time_namespace_offsets)
          (receipt_problem ''runtime enforcement receipt reached hostname without requested time-namespace offsets''),
        reject (private_procfs \<and> \<not> procfs_requested)
          (receipt_problem ''runtime enforcement receipt observed unrequested private procfs''),
        reject (procfs_requested \<and> observed bits ENFORCEMENT_RLIMITS \<and> \<not> private_procfs)
          (receipt_problem ''runtime enforcement receipt reached target rlimits without requested private procfs''),
        reject (landlock \<and> \<not> landlock_requested)
          (receipt_problem ''runtime enforcement receipt observed unrequested Landlock restriction''),
        reject (landlock_requested \<and> observed bits ENFORCEMENT_SECCOMP \<and> \<not> landlock)
          (receipt_problem ''runtime enforcement receipt reached seccomp without requested Landlock restriction'')])"

definition receipt_of_bits :: "u64 \<Rightarrow> enforcement_receipt" where
  "receipt_of_bits bits =
     \<lparr>er_base_namespaces = observed bits ENFORCEMENT_BASE_NAMESPACES,
      er_time_namespace_offsets = observed bits ENFORCEMENT_TIME_NAMESPACE,
      er_hostname = observed bits ENFORCEMENT_HOSTNAME,
      er_private_mount_propagation = observed bits ENFORCEMENT_PRIVATE_MOUNTS,
      er_readonly_root = observed bits ENFORCEMENT_READONLY_ROOT,
      er_copy_on_write_root = observed bits ENFORCEMENT_COW_ROOT,
      er_chroot = observed bits ENFORCEMENT_CHROOT,
      er_fd_sanitization = observed bits ENFORCEMENT_FD_SANITIZATION,
      er_private_procfs = observed bits ENFORCEMENT_PRIVATE_PROCFS,
      er_rlimits = observed bits ENFORCEMENT_RLIMITS,
      er_capabilities_reduced = observed bits ENFORCEMENT_CAPABILITIES,
      er_no_new_privs = observed bits ENFORCEMENT_NO_NEW_PRIVS,
      er_landlock = observed bits ENFORCEMENT_LANDLOCK,
      er_seccomp = observed bits ENFORCEMENT_SECCOMP\<rparr>"

definition enforcement_receipt_from_bits_for_policy ::
  "u64 \<Rightarrow> bool \<Rightarrow> bool \<Rightarrow> bool \<Rightarrow> bool \<Rightarrow> (enforcement_receipt, sandbox_error) result" where
  "enforcement_receipt_from_bits_for_policy bits time_namespace_requested landlock_requested procfs_requested
      cow_root_requested =
     and_then (check_receipt_bits bits time_namespace_requested landlock_requested procfs_requested cow_root_requested)
       (\<lambda>_. Ok (receipt_of_bits bits))"

definition decode_enforcement_receipt :: "u64 \<Rightarrow> sandbox_policy \<Rightarrow> (enforcement_receipt, sandbox_error) result" where
  "decode_enforcement_receipt bits p =
     enforcement_receipt_from_bits_for_policy bits (time_monotonic_offset_seconds p \<noteq> None) (policy_requests_landlock p)
       (procfs_enabled p) (cow_root_bytes p \<noteq> None)"

section \<open>Launch errors\<close>

record wait_api =
  WIFEXITED :: "int \<Rightarrow> bool"
  WEXITSTATUS :: "int \<Rightarrow> int"
  WIFSIGNALED :: "int \<Rightarrow> bool"
  WTERMSIG :: "int \<Rightarrow> int"
  os_error_text :: "sys_errno \<Rightarrow> string"

definition phase_labels :: "(u32 \<times> string) list" where
  "phase_labels =
     [(PHASE_NAMESPACE, ''user/mount/PID/network/IPC/UTS namespace creation''),
      (PHASE_SETGROUPS, ''setgroups deny''),
      (PHASE_UID_MAP, ''uid_map''),
      (PHASE_GID_MAP, ''gid_map''),
      (PHASE_MOUNT_PRIVATE, ''mount propagation isolation''),
      (PHASE_STDIO, ''explicit stdio disposition''),
      (PHASE_ROOT_CLONE, ''detached root mount clone''),
      (PHASE_ROOT_READONLY, ''recursive read-only root attributes''),
      (PHASE_ROOT_ATTACH, ''read-only root mount attachment''),
      (PHASE_ROOT_FCHDIR, ''read-only root selection''),
      (PHASE_SCRATCH_MOUNT, ''writable scratch tmpfs mount''),
      (PHASE_CWD_PIN, ''working-directory pin inside read-only root''),
      (PHASE_CHROOT, ''chroot''),
      (PHASE_CWD_FCHDIR, ''working-directory selection''),
      (PHASE_FD_SANITIZE, ''inherited-FD sanitization''),
      (PHASE_RLIMIT_CPU, ''RLIMIT_CPU''),
      (PHASE_RLIMIT_AS, ''RLIMIT_AS''),
      (PHASE_RLIMIT_FSIZE, ''RLIMIT_FSIZE''),
      (PHASE_RLIMIT_NOFILE, ''RLIMIT_NOFILE''),
      (PHASE_CAP_BOUNDING, ''capability bounding-set drop''),
      (PHASE_CAP_AMBIENT, ''ambient capability clear''),
      (PHASE_CAP_CURRENT, ''effective/permitted/inheritable capability clear''),
      (PHASE_NO_NEW_PRIVS, ''PR_SET_NO_NEW_PRIVS''),
      (PHASE_SECCOMP, ''seccomp installation''),
      (PHASE_EXECVEAT, ''execveat''),
      (PHASE_ROOT_REVALIDATE, ''filesystem root revalidation in mount namespace''),
      (PHASE_STDIO_REDIRECT, ''owned stdout redirection''),
      (PHASE_STDOUT_CAPTURE, ''bounded stdout capture''),
      (PHASE_PID_INIT_FORK, ''PID namespace init fork''),
      (PHASE_TARGET_FORK, ''direct target fork''),
      (PHASE_PROCESS_TREE_KILL, ''process-tree termination''),
      (PHASE_PROCESS_TREE_REAP, ''process-tree reaping''),
      (PHASE_PID_INIT_WAIT, ''PID namespace init wait''),
      (PHASE_DEADLINE_PIDFD, ''wall-clock deadline pidfd supervision''),
      (PHASE_DEADLINE_TIMERFD, ''wall-clock deadline timer creation''),
      (PHASE_DEADLINE_TIMER_ARM, ''wall-clock deadline timer arming''),
      (PHASE_DEADLINE_POLL, ''wall-clock deadline supervision poll''),
      (PHASE_HOSTNAME, ''UTS hostname installation''),
      (PHASE_SELECTED_HANDLES, ''selected non-stdio handle installation''),
      (PHASE_CANCELLATION_PIDFD, ''external cancellation pidfd supervision''),
      (PHASE_CANCELLATION_POLL, ''external cancellation supervision poll''),
      (PHASE_VOLUME_SOURCE_REVALIDATE, ''persistent volume source revalidation''),
      (PHASE_VOLUME_CLONE, ''detached persistent volume mount clone''),
      (PHASE_VOLUME_READONLY, ''recursive read-only volume attributes''),
      (PHASE_VOLUME_TARGET_PIN, ''persistent volume target pin''),
      (PHASE_VOLUME_ATTACH, ''persistent volume mount attachment''),
      (PHASE_NETWORK_LOOPBACK, ''policy-owned loopback activation''),
      (PHASE_LANDLOCK_RULESET, ''Landlock ruleset creation''),
      (PHASE_LANDLOCK_PATH, ''Landlock path pin''),
      (PHASE_LANDLOCK_RULE, ''Landlock path-beneath rule installation''),
      (PHASE_LANDLOCK_RESTRICT, ''Landlock self restriction''),
      (PHASE_LANDLOCK_NET_RULE, ''Landlock TCP port rule installation''),
      (PHASE_PROCESS_TREE_USAGE, ''process-tree resource usage collection''),
      (PHASE_OUTPUT_LIMIT_PIDFD, ''stdout output-limit pidfd supervision''),
      (PHASE_OUTPUT_LIMIT_POLL, ''stdout output-limit supervision poll''),
      (PHASE_TIME_OFFSETS, ''time namespace offset installation''),
      (PHASE_PROCFS_MOUNT, ''private procfs mount in PID namespace''),
      (PHASE_PROCFS_PID1_HARDEN, ''private procfs PID1 descriptor-access hardening''),
      (PHASE_COW_TMPFS_CREATE, ''copy-on-write root tmpfs state creation''),
      (PHASE_COW_TMPFS_MOUNT, ''copy-on-write root tmpfs state mount''),
      (PHASE_COW_UPPER_WORK, ''copy-on-write root upper/work preparation''),
      (PHASE_COW_OVERLAY_CREATE, ''copy-on-write root OverlayFS creation''),
      (PHASE_COW_OVERLAY_MOUNT, ''copy-on-write root OverlayFS mount''),
      (PHASE_COW_ROOT_ATTACH, ''copy-on-write final root attachment''),
      (PHASE_COW_DIFF_EXPORT, ''bounded copy-on-write diff export''),
      (PHASE_INTERPRETER_TMPFS_CREATE, ''sealed ELF interpreter tmpfs creation''),
      (PHASE_INTERPRETER_TMPFS_MOUNT, ''sealed ELF interpreter tmpfs mount''),
      (PHASE_INTERPRETER_COPY, ''sealed ELF interpreter private copy''),
      (PHASE_INTERPRETER_CLONE, ''sealed ELF interpreter detached file clone''),
      (PHASE_INTERPRETER_TARGET_PIN, ''sealed ELF interpreter target pin''),
      (PHASE_INTERPRETER_READONLY, ''sealed ELF interpreter mount hardening''),
      (PHASE_INTERPRETER_ATTACH, ''sealed ELF interpreter mount attachment''),
      (PHASE_NEEDED_TMPFS_CREATE, ''sealed ELF DT_NEEDED tmpfs creation''),
      (PHASE_NEEDED_TMPFS_MOUNT, ''sealed ELF DT_NEEDED tmpfs mount''),
      (PHASE_NEEDED_COPY, ''sealed ELF DT_NEEDED private copy''),
      (PHASE_NEEDED_CLONE, ''sealed ELF DT_NEEDED detached file clone''),
      (PHASE_NEEDED_TARGET_PIN, ''sealed ELF DT_NEEDED target pin''),
      (PHASE_NEEDED_READONLY, ''sealed ELF DT_NEEDED mount hardening''),
      (PHASE_NEEDED_ATTACH, ''sealed ELF DT_NEEDED mount attachment''),
      (PHASE_COW_VOLUME_TMPFS_CREATE, ''copy-on-write volume tmpfs state creation''),
      (PHASE_COW_VOLUME_TMPFS_MOUNT, ''copy-on-write volume tmpfs state mount''),
      (PHASE_COW_VOLUME_UPPER_WORK, ''copy-on-write volume upper/work preparation''),
      (PHASE_COW_VOLUME_OVERLAY_CREATE, ''copy-on-write volume OverlayFS creation''),
      (PHASE_COW_VOLUME_OVERLAY_MOUNT, ''copy-on-write volume OverlayFS mount''),
      (PHASE_COW_VOLUME_ATTACH, ''copy-on-write volume mount attachment'')]"

definition format_launch_error :: "wait_api \<Rightarrow> launch_error_record \<Rightarrow> string" where
  "format_launch_error api record =
     ''launch failed closed during '' @
     (case map_of phase_labels (le_phase record) of None \<Rightarrow> ''unknown launch phase'' | Some label \<Rightarrow> label) @
     '': '' @ os_error_text api (le_errno record)"

definition mount_boundary_phases :: "u32 list" where
  "mount_boundary_phases =
     [PHASE_ROOT_CLONE, PHASE_ROOT_READONLY, PHASE_ROOT_ATTACH, PHASE_SCRATCH_MOUNT, PHASE_VOLUME_CLONE,
      PHASE_VOLUME_READONLY, PHASE_VOLUME_ATTACH, PHASE_COW_TMPFS_CREATE, PHASE_COW_TMPFS_MOUNT,
      PHASE_COW_UPPER_WORK, PHASE_COW_OVERLAY_CREATE, PHASE_COW_OVERLAY_MOUNT, PHASE_COW_ROOT_ATTACH,
      PHASE_INTERPRETER_TMPFS_CREATE, PHASE_INTERPRETER_TMPFS_MOUNT, PHASE_INTERPRETER_CLONE,
      PHASE_INTERPRETER_READONLY, PHASE_INTERPRETER_ATTACH, PHASE_NEEDED_TMPFS_CREATE,
      PHASE_NEEDED_TMPFS_MOUNT, PHASE_NEEDED_CLONE, PHASE_NEEDED_READONLY, PHASE_NEEDED_ATTACH]"

definition decode_launch_error :: "wait_api \<Rightarrow> launch_error_record \<Rightarrow> ('a, sandbox_error) result" where
  "decode_launch_error api record =
     (let msg = format_launch_error api record;
          errno = le_errno record;
          namespace_unavailable = le_phase record = PHASE_NAMESPACE \<and> errno \<in> {EPERM, EACCES, ENOSYS};
          mount_boundary_unavailable =
            le_phase record \<in> set mount_boundary_phases \<and> errno \<in> {EPERM, EACCES, ENOSYS, ENODEV};
          loopback_unavailable =
            le_phase record = PHASE_NETWORK_LOOPBACK \<and> errno \<in> {EPERM, EACCES, ENOSYS, ENODEV, EOPNOTSUPP}
      in if namespace_unavailable \<or> mount_boundary_unavailable
         then Err (UnsupportedPlatform ''required namespace/mount isolation is unavailable: {message}'' [FStr msg])
         else if loopback_unavailable
         then Err (UnsupportedPlatform ''policy-owned loopback networking is unavailable: {message}'' [FStr msg])
         else Err (SetupFailed ''{message}'' [FStr msg]))"

section \<open>The outcome of the target\<close>

datatype child_outcome = Exited int | Signaled int | TimedOut | Cancelled | OutputLimitExceeded

definition decode_wait_status :: "wait_api \<Rightarrow> int \<Rightarrow> (child_outcome, sandbox_error) result" where
  "decode_wait_status api status =
     (if WIFEXITED api status then Ok (Exited (WEXITSTATUS api status))
      else if WIFSIGNALED api status then Ok (Signaled (WTERMSIG api status))
      else Err (SetupFailed ''child returned unsupported wait status 0x{status:x}'' [FNat (nat (status mod 2 ^ 32))]))"

definition flag_args :: "target_lifecycle_record \<Rightarrow> fmt_arg list" where
  "flag_args rec = [FNat (unat (timed_out rec)), FNat (unat (cancelled rec)), FNat (unat (output_limit_exceeded rec))]"

definition resolve_lifecycle_outcome ::
  "wait_api \<Rightarrow> target_lifecycle_record \<Rightarrow> bool \<Rightarrow> (child_outcome, sandbox_error) result" where
  "resolve_lifecycle_outcome api rec output_limit_observed =
     (if timed_out rec + cancelled rec + output_limit_exceeded rec > 1
      then Err (SetupFailed ''PID namespace lifecycle published conflicting termination flags timed_out={} cancelled={} output_limit_exceeded={}'' (flag_args rec))
      else if (timed_out rec, cancelled rec, output_limit_exceeded rec) = (0, 0, 1) then Ok OutputLimitExceeded
      else if (timed_out rec, cancelled rec, output_limit_exceeded rec) = (1, 0, 0) then Ok TimedOut
      else if (timed_out rec, cancelled rec, output_limit_exceeded rec) = (0, 1, 0) then Ok Cancelled
      else if (timed_out rec, cancelled rec, output_limit_exceeded rec) = (0, 0, 0)
      then if output_limit_observed then Ok OutputLimitExceeded else decode_wait_status api (lc_status rec)
      else Err (SetupFailed ''PID namespace lifecycle published invalid termination flags timed_out={timed_out} cancelled={cancelled} output_limit_exceeded={output_limit_exceeded}'' (flag_args rec)))"

section \<open>The bounded capture\<close>

record captured_output =
  co_bytes :: bytes
  co_truncated :: bool

text \<open>
  The answers of \<open>read\<close> in order; an exhausted list stands for the end of the pipe. \<open>signal\<close> is
  the result of \<open>signal_output_limit\<close>.
\<close>

fun capture_loop ::
  "(sys_errno \<Rightarrow> sandbox_error) \<Rightarrow> (unit, sandbox_error) result \<Rightarrow> nat \<Rightarrow> nat option \<Rightarrow> (bytes, sys_errno) result list
    \<Rightarrow> bytes \<Rightarrow> bool \<Rightarrow> nat \<Rightarrow> (captured_output \<times> bool, sandbox_error) result" where
  "capture_loop io signal retain_limit total_limit [] bs truncated seen =
     Ok (\<lparr>co_bytes = bs, co_truncated = truncated\<rparr>, False)"
| "capture_loop io signal retain_limit total_limit (Inl e # rest) bs truncated seen =
     (if e = EINTR then capture_loop io signal retain_limit total_limit rest bs truncated seen else Err (io e))"
| "capture_loop io signal retain_limit total_limit (Inr chunk # rest) bs truncated seen =
     (if chunk = [] then Ok (\<lparr>co_bytes = bs, co_truncated = truncated\<rparr>, False)
      else let seen = min (seen + length chunk) (2 ^ 64 - 1);
               retained = min (retain_limit - length bs) (length chunk);
               bs = bs @ take retained chunk;
               truncated = (truncated \<or> retained < length chunk)
        in if (case total_limit of None \<Rightarrow> False | Some limit \<Rightarrow> seen > limit)
           then and_then signal (\<lambda>_. Ok (\<lparr>co_bytes = bs, co_truncated = truncated\<rparr>, True))
           else capture_loop io signal retain_limit total_limit rest bs truncated seen)"

definition read_capture ::
  "wait_api \<Rightarrow> (unit, sandbox_error) result \<Rightarrow> nat \<Rightarrow> nat option \<Rightarrow> (bytes, sys_errno) result list
    \<Rightarrow> (captured_output \<times> bool, sandbox_error) result" where
  "read_capture api signal retain_limit total_limit reads =
     capture_loop (\<lambda>e. SetupFailed ''stdout capture read failed: {err}'' [FStr (os_error_text api e)])
       signal retain_limit total_limit reads [] False 0"

section \<open>The verdict\<close>

record run_verdict =
  rv_outcome :: child_outcome
  rv_stdout :: "captured_output option"
  rv_reaped_descendants :: u32
  rv_usage :: "u64 \<times> u64 \<times> u64"
  rv_enforcement :: enforcement_receipt

definition judge_run ::
  "wait_api \<Rightarrow> sandbox_policy \<Rightarrow> int \<Rightarrow> launch_error_record \<Rightarrow> target_lifecycle_record
    \<Rightarrow> (captured_output \<times> bool, sandbox_error) result option \<Rightarrow> (run_verdict, sandbox_error) result" where
  "judge_run api p bootstrap_status launch lifecycle_record capture_result =
     (if le_phase launch \<noteq> 0 then decode_launch_error api launch
      else if ready lifecycle_record \<noteq> 1
      then Err (SetupFailed ''PID namespace lifecycle did not publish target status; bootstrap wait status 0x{bootstrap_status:x}''
             [FNat (nat (bootstrap_status mod 2 ^ 32))])
      else and_then (decode_enforcement_receipt (enforcement_bits launch) p) (\<lambda>enforcement.
        and_then (case capture_result of
            None \<Rightarrow> Ok (None, False)
          | Some r \<Rightarrow> and_then r (\<lambda>(captured, exceeded). Ok (Some captured, exceeded)))
          (\<lambda>(captured, output_limit_observed).
        and_then (resolve_lifecycle_outcome api lifecycle_record output_limit_observed) (\<lambda>outcome.
        Ok \<lparr>rv_outcome = outcome, rv_stdout = captured,
           rv_reaped_descendants = reaped_descendants lifecycle_record,
           rv_usage = (user_cpu_micros lifecycle_record, system_cpu_micros lifecycle_record,
                       max_child_rss_kib lifecycle_record),
           rv_enforcement = enforcement\<rparr>))))"

end
