(* ===== verification/Launch_Properties.thy ===== *)
theory Launch_Properties
  imports Launch_Plan Launch_Receipt
begin

unbundle bit_operations_syntax

text \<open>
  What a run of \<open>child_exec\<close> guarantees: the target program starts only after the whole plan, the
  published enforcement bits tell the truth and are always accepted by the host, and a launch
  that fails is reported as a failure.
\<close>

section \<open>Runs of \<open>child_exec\<close>\<close>

lemma do_call_Some:
  assumes "do_call os phase c s = Some (s', r)"
  shows "\<exists>a. (\<not> failed a \<and> r = Return () \<and> trace s' = trace s @ [Call c a] \<and> launch_error s' = launch_error s \<and>
        lifecycle s' = lifecycle s) \<or>
    (failed a \<and> r = Exit 127 \<and> bits_of s' = bits_of s \<and> phase_of s' = phase \<and> lifecycle s' = lifecycle s \<and>
      (\<exists>b. trace s' = trace s @ [Call c a, Call (Exit_call (exit_syscall os) 127) b]))"
proof -
  let ?a = "answers os (trace s) c"
  show ?thesis
    using assms
    by (intro exI [of _ ?a], cases "failed ?a")
      (auto simp: do_call_def call_or_fail_def bind_def sys_def ret_def Let_def child_fail_def child_fail_errno_def
        last_errno_def publish_error_def exit_with_def)
qed

text \<open>A run is a prefix of the plan, or the whole plan followed by the call of \<open>execveat\<close>.\<close>

lemma child_exec_cases:
  assumes "child_exec os prepared io lims filters control s = Some (s', r)"
  obtains (stopped) c where "r = Exit c" "run_ok (launch_plan prepared lims filters) (\<lambda>_ :: unit. True) s s' (Exit c)"
  | (reached) s1 a rest where
      "run_ok (launch_plan prepared lims filters) (\<lambda>_ :: unit. True) s s1 (Return ())"
      "trace s' = trace s1 @ Call (Execveat (pl_executable_fd prepared) (pl_argv prepared) (pl_envp prepared) 0x1000) a # rest"
      "\<forall>e\<in>set rest. \<not> is_exec e" "marks rest = []" "bits_of s' = bits_of s1"
      "r = Return () \<and> \<not> failed a \<and> launch_error s' = launch_error s1 \<or> r = Exit 127 \<and> failed a \<and> phase_of s' = PHASE_EXECVEAT"
proof -
  note run = assms [unfolded child_exec_def]
  from bind_Some [OF run] show thesis
  proof (elim disjE exE conjE)
    fix c
    assume "before_exec os prepared io lims filters control s = Some (s', Exit c)" "r = Exit c"
    then show thesis using followsD [OF before_exec_follows_plan] stopped by blast
  next
    fix s1 and x :: unit
    assume one: "before_exec os prepared io lims filters control s = Some (s1, Return x)"
      and two: "do_call os PHASE_EXECVEAT
        (Execveat (pl_executable_fd prepared) (pl_argv prepared) (pl_envp prepared) 0x1000) s1 = Some (s', r)"
    have ok: "run_ok (launch_plan prepared lims filters) (\<lambda>_ :: unit. True) s s1 (Return ())"
      using followsD [OF before_exec_follows_plan one] by simp
    from do_call_Some [OF two] show thesis
      by (elim exE disjE conjE) (rule reached [OF ok], auto)+
  qed
qed

text \<open>
  C4: The target program is started only under the full sandbox: in every run of the child and
  whatever the kernel answers, a call of \<open>execveat\<close> comes after the whole launch plan (namespaces, host
  name, private mounts, final root, chroot, descriptor sanitization, private procfs, resource limits, dropped
  capabilities, no_new_privs, Landlock and the seccomp filter, each in this order and each
  answered with success by the kernel), and no other \<open>execveat\<close> is made.
\<close>

theorem exec_only_under_full_plan:
  assumes "child_exec os prepared io lims filters control s = Some (s', r)" and "trace s = []"
    and "Call (Execveat f argv envp flags) a \<in> set (trace s')"
  shows "\<exists>earlier later. trace s' = earlier @ Call (Execveat f argv envp flags) a # later \<and>
    passes (launch_plan prepared lims filters) earlier \<and> f = pl_executable_fd prepared \<and>
    (\<forall>e\<in>set earlier \<union> set later. \<not> is_exec e)"
  using assms(1)
proof (cases rule: child_exec_cases)
  case (stopped c)
  then show ?thesis using assms(2,3) by (auto simp: run_ok.simps grown_def)
next
  case (reached s1 b rest)
  then obtain es where es: "grown s s1 es" "passes (launch_plan prepared lims filters) es"
    by (auto simp: run_ok.simps)
  then have no: "\<forall>e\<in>set (trace s1). \<not> is_exec e" and "passes (launch_plan prepared lims filters) (trace s1)"
    using assms(2) by (auto simp: grown_def)
  moreover have "Call (Execveat f argv envp flags) a =
      Call (Execveat (pl_executable_fd prepared) (pl_argv prepared) (pl_envp prepared) 0x1000) b"
    using assms(3) reached(2,3) no by auto
  ultimately show ?thesis using reached(2,3) by blast
qed

section \<open>The published bits\<close>

definition enforcement_layers :: "u64 list" where
  "enforcement_layers =
     [ENFORCEMENT_BASE_NAMESPACES, ENFORCEMENT_TIME_NAMESPACE, ENFORCEMENT_HOSTNAME, ENFORCEMENT_PRIVATE_MOUNTS,
      ENFORCEMENT_READONLY_ROOT, ENFORCEMENT_COW_ROOT, ENFORCEMENT_CHROOT, ENFORCEMENT_FD_SANITIZATION,
      ENFORCEMENT_PRIVATE_PROCFS, ENFORCEMENT_RLIMITS, ENFORCEMENT_CAPABILITIES, ENFORCEMENT_NO_NEW_PRIVS,
      ENFORCEMENT_LANDLOCK, ENFORCEMENT_SECCOMP]"

definition plan_layers :: "bool \<Rightarrow> bool \<Rightarrow> bool \<Rightarrow> bool \<Rightarrow> u64 list" where
  "plan_layers time landlock procfs cow =
     [ENFORCEMENT_BASE_NAMESPACES] @ (if time then [ENFORCEMENT_TIME_NAMESPACE] else []) @
     [ENFORCEMENT_HOSTNAME, ENFORCEMENT_PRIVATE_MOUNTS, if cow then ENFORCEMENT_COW_ROOT else ENFORCEMENT_READONLY_ROOT,
      ENFORCEMENT_CHROOT, ENFORCEMENT_FD_SANITIZATION] @ (if procfs then [ENFORCEMENT_PRIVATE_PROCFS] else []) @
     [ENFORCEMENT_RLIMITS, ENFORCEMENT_CAPABILITIES, ENFORCEMENT_NO_NEW_PRIVS] @
     (if landlock then [ENFORCEMENT_LANDLOCK] else []) @ [ENFORCEMENT_SECCOMP]"

lemma observed_or: "observed (v OR w) b \<longleftrightarrow> observed v b \<or> observed w b"
  by (simp add: observed_def bit.conj_disj_distrib2 or_eq_0_iff)

lemma observed_layers:
  "list_all (\<lambda>b. list_all (\<lambda>c. observed b c \<longleftrightarrow> b = c) enforcement_layers) enforcement_layers"
  by (simp add: enforcement_layers_def observed_def enforcement_values)

lemma observed_layer: "b \<in> set enforcement_layers \<Longrightarrow> c \<in> set enforcement_layers \<Longrightarrow> observed b c \<longleftrightarrow> b = c"
  using observed_layers by (auto simp: list_all_iff)

lemma observed_marks:
  assumes "set bs \<subseteq> set enforcement_layers" and "c \<in> set enforcement_layers"
  shows "observed (set_marks bs w) c \<longleftrightarrow> c \<in> set bs \<or> observed w c"
  using assms by (induction bs arbitrary: w) (auto simp: set_marks_def observed_or observed_layer)

lemma known_layer: "b \<in> set enforcement_layers \<Longrightarrow> b AND NOT ENFORCEMENT_KNOWN = 0"
  by (auto simp: enforcement_layers_def enforcement_values)

lemma known_marks:
  assumes "set bs \<subseteq> set enforcement_layers" and "w AND NOT ENFORCEMENT_KNOWN = 0"
  shows "set_marks bs w AND NOT ENFORCEMENT_KNOWN = 0"
  using assms
  by (induction bs arbitrary: w) (auto simp: set_marks_def bit.conj_disj_distrib2 known_layer)

lemma plan_layers_known: "set (plan_layers t l p c) \<subseteq> set enforcement_layers"
  by (auto simp: plan_layers_def enforcement_layers_def)

definition layers_ok :: "bool \<Rightarrow> bool \<Rightarrow> bool \<Rightarrow> bool \<Rightarrow> (u64 \<Rightarrow> bool) \<Rightarrow> bool" where
  "layers_ok t l p c on \<longleftrightarrow>
     (on ENFORCEMENT_HOSTNAME \<longrightarrow> on ENFORCEMENT_BASE_NAMESPACES \<and> (t \<longrightarrow> on ENFORCEMENT_TIME_NAMESPACE)) \<and>
     (on ENFORCEMENT_PRIVATE_MOUNTS \<longrightarrow> on ENFORCEMENT_HOSTNAME) \<and>
     (on ENFORCEMENT_READONLY_ROOT \<longrightarrow> on ENFORCEMENT_PRIVATE_MOUNTS \<and> \<not> c) \<and>
     (on ENFORCEMENT_COW_ROOT \<longrightarrow> on ENFORCEMENT_PRIVATE_MOUNTS \<and> c) \<and>
     (on ENFORCEMENT_CHROOT \<longrightarrow> on (if c then ENFORCEMENT_COW_ROOT else ENFORCEMENT_READONLY_ROOT)) \<and>
     (on ENFORCEMENT_FD_SANITIZATION \<longrightarrow> on ENFORCEMENT_CHROOT) \<and>
     (on ENFORCEMENT_PRIVATE_PROCFS \<longrightarrow> on ENFORCEMENT_FD_SANITIZATION \<and> p) \<and>
     (on ENFORCEMENT_RLIMITS \<longrightarrow> on ENFORCEMENT_FD_SANITIZATION \<and> (p \<longrightarrow> on ENFORCEMENT_PRIVATE_PROCFS)) \<and>
     (on ENFORCEMENT_CAPABILITIES \<longrightarrow> on ENFORCEMENT_RLIMITS) \<and>
     (on ENFORCEMENT_NO_NEW_PRIVS \<longrightarrow> on ENFORCEMENT_CAPABILITIES) \<and>
     (on ENFORCEMENT_LANDLOCK \<longrightarrow> on ENFORCEMENT_NO_NEW_PRIVS \<and> l) \<and>
     (on ENFORCEMENT_SECCOMP \<longrightarrow> on ENFORCEMENT_NO_NEW_PRIVS \<and> (l \<longrightarrow> on ENFORCEMENT_LANDLOCK)) \<and>
     (on ENFORCEMENT_TIME_NAMESPACE \<longrightarrow> t)"

lemma check_receipt_bits_iff:
  "check_receipt_bits bits t l p c = Inr () \<longleftrightarrow> bits AND NOT ENFORCEMENT_KNOWN = 0 \<and> layers_ok t l p c (observed bits)"
  unfolding check_receipt_bits_def Let_def layers_ok_def
  by (simp add: ok_simps require_predecessor_def) blast

lemma prefix_earlier:
  assumes "prefix bs L" and "b \<in> set bs"
  shows "b \<in> set L \<and> set (takeWhile (\<lambda>a. a \<noteq> b) L) \<subseteq> set bs"
proof -
  from assms(1) obtain cs where "L = bs @ cs" by (auto simp: prefix_def)
  then show ?thesis using assms(2) set_takeWhileD by (fastforce simp: takeWhile_append1)
qed

lemma distinct_layers: "distinct enforcement_layers"
  by (simp add: enforcement_layers_def enforcement_values)

lemmas layer_ineqs = distinct_layers [unfolded enforcement_layers_def, simplified]
  distinct_rev [THEN iffD2, OF distinct_layers, unfolded enforcement_layers_def, simplified]

lemma layers_prefix: "prefix bs (plan_layers t l p c) \<Longrightarrow> layers_ok t l p c (\<lambda>b. b \<in> set bs)"
proof -
  assume "prefix bs (plan_layers t l p c)"
  note earlier = prefix_earlier [OF this, unfolded plan_layers_def]
  show ?thesis
    unfolding layers_ok_def
    by (intro conjI impI; drule earlier; cases t; cases l; cases p; cases c; simp add: layer_ineqs)
qed


section \<open>The receipt of a run\<close>

definition prepared_for :: "sandbox_policy \<Rightarrow> prepared_launch \<Rightarrow> bool" where
  "prepared_for p prepared \<longleftrightarrow>
     (pl_time_monotonic_offset prepared \<noteq> None \<longleftrightarrow> time_monotonic_offset_seconds p \<noteq> None) \<and>
     (pl_time_boottime_offset prepared \<noteq> None \<longleftrightarrow> time_monotonic_offset_seconds p \<noteq> None) \<and>
     (landlock_requested (pl_landlock prepared) \<longleftrightarrow> policy_requests_landlock p) \<and>
     (pl_procfs_enabled prepared \<longleftrightarrow> procfs_enabled p) \<and>
     (pl_cow_root_size prepared \<noteq> None \<longleftrightarrow> cow_root_bytes p \<noteq> None)"

lemma plan_marks_launch_plan:
  "prepared_for p prepared \<Longrightarrow> plan_marks (launch_plan prepared lims filters) =
     plan_layers (time_monotonic_offset_seconds p \<noteq> None) (policy_requests_landlock p) (procfs_enabled p)
       (cow_root_bytes p \<noteq> None)"
  by (auto simp: prepared_for_def launch_plan_def plan_layers_def namespace_plan_def time_plan_def host_plan_def
      root_plan_def chroot_plan_def procfs_plan_def ruleset_plan_def Let_def limits_plan_def privilege_plan_def
      landlock_plan_def seccomp_plan_def)

lemma plan_marks_prefix: "prefix q plan \<Longrightarrow> prefix (plan_marks q) (plan_marks plan)"
  by (auto simp: prefix_def)

lemma set_plan_marks: "b \<in> set (plan_marks plan) \<longleftrightarrow> Marked b \<in> set plan"
  by (induction plan rule: plan_marks.induct) simp_all

text \<open>Every run, finished or not, has passed an initial part of the plan, and the bits are its marks.\<close>

lemma child_exec_passes:
  assumes "child_exec os prepared io lims filters control s = Some (s', r)" and "trace s = []" and "bits_of s = 0"
  obtains q where "prefix q (launch_plan prepared lims filters)" "passes q (trace s')"
    "bits_of s' = set_marks (plan_marks q) 0" "r = Return () \<longrightarrow> q = launch_plan prepared lims filters"
  using assms(1)
proof (cases rule: child_exec_cases)
  case (stopped c)
  then show thesis using assms(2,3) that by (auto simp: run_ok.simps grown_def)
next
  case (reached s1 a rest)
  let ?plan = "launch_plan prepared lims filters"
  from reached(1) have "passes ?plan (trace s1)" and bits: "bits_of s1 = set_marks (plan_marks ?plan) 0"
    using assms(2,3) by (auto simp: run_ok.simps grown_def)
  moreover have "subseq (trace s1) (trace s')"
    unfolding reached(2) using list_emb_append_mono [OF subseq_order.refl list_emb_Nil] by simp
  ultimately have "passes ?plan (trace s')" using passes_subseq by blast
  with bits show thesis using reached(5) by (intro that [of ?plan]) simp_all
qed

lemma receipt_of_prefix:
  assumes "prepared_for p prepared" and "prefix q (launch_plan prepared lims filters)" and "w = set_marks (plan_marks q) 0"
  shows "decode_enforcement_receipt w p = Ok (receipt_of_bits w)"
    and "b \<in> set enforcement_layers \<Longrightarrow> observed w b \<longleftrightarrow> Marked b \<in> set q"
proof -
  let ?layers = "plan_layers (time_monotonic_offset_seconds p \<noteq> None) (policy_requests_landlock p) (procfs_enabled p)
       (cow_root_bytes p \<noteq> None)"
  have pre: "prefix (plan_marks q) ?layers"
    using plan_marks_prefix [OF assms(2)] plan_marks_launch_plan [OF assms(1)] by simp
  then have sub: "set (plan_marks q) \<subseteq> set enforcement_layers"
    using plan_layers_known by (meson order_trans set_mono_prefix)
  have on: "observed w b \<longleftrightarrow> b \<in> set (plan_marks q)" if "b \<in> set enforcement_layers" for b
    using observed_marks [OF sub that] assms(3) by (simp add: observed_def)
  then show "b \<in> set enforcement_layers \<Longrightarrow> observed w b \<longleftrightarrow> Marked b \<in> set q"
    by (simp add: set_plan_marks)
  have "layers_ok (time_monotonic_offset_seconds p \<noteq> None) (policy_requests_landlock p) (procfs_enabled p)
      (cow_root_bytes p \<noteq> None) (observed w)"
    using layers_prefix [OF pre] unfolding layers_ok_def by (simp add: on enforcement_layers_def)
  moreover have "w AND NOT ENFORCEMENT_KNOWN = 0"
    using known_marks [OF sub, of 0] assms(3) by simp
  ultimately show "decode_enforcement_receipt w p = Ok (receipt_of_bits w)"
    unfolding decode_enforcement_receipt_def enforcement_receipt_from_bits_for_policy_def
    by (simp add: check_receipt_bits_iff [THEN iffD2] ok_simps)
qed

text \<open>
  C5: The enforcement receipt tells the truth. Whatever the kernel answers and wherever the
  child stops, the bits it has published are those of an initial part of the launch plan that the
  run has passed, and the host accepts them: the receipt it decodes reports a layer
  exactly when that part of the plan contains it. When the target program has been started the
  receipt reports the whole plan.
\<close>

theorem receipt_truthful:
  assumes "child_exec os prepared io lims filters control s = Some (s', r)" and "trace s = []" and "bits_of s = 0"
    and "prepared_for p prepared"
  shows "\<exists>part. prefix part (launch_plan prepared lims filters) \<and> passes part (trace s') \<and>
    decode_enforcement_receipt (bits_of s') p = Ok (receipt_of_bits (bits_of s')) \<and>
    (\<forall>b\<in>set enforcement_layers. observed (bits_of s') b \<longleftrightarrow> Marked b \<in> set part) \<and>
    (r = Return () \<longrightarrow> part = launch_plan prepared lims filters)"
proof -
  from child_exec_passes [OF assms(1-3)] obtain q where q: "prefix q (launch_plan prepared lims filters)"
      "passes q (trace s')" "bits_of s' = set_marks (plan_marks q) 0" "r = Return () \<longrightarrow> q = launch_plan prepared lims filters"
    by blast
  show ?thesis
    using q receipt_of_prefix [OF assms(4) q(1,3)] by blast
qed

text \<open>
  C9: A launch that fails is never reported as a run: whenever the child exits with 127,
  the host's verdict is an error, whatever the lifecycle record and the capture say.
\<close>

theorem failed_launch_is_error:
  assumes "child_exec os prepared io lims filters control s = Some (s', Exit 127)"
  shows "\<exists>e. judge_run api p status (launch_error s') record capture = Err e"
proof -
  from assms have "phase_of s' \<noteq> 0"
    by (cases rule: child_exec_cases) (auto simp: run_ok.simps exit_ok_def phase_values)
  then show ?thesis
    by (simp add: judge_run_def decode_launch_error_def Let_def)
qed

end
