(* ===== verification/Launch_Supervision.thy ===== *)
theory Launch_Supervision
  imports Launch_Idle Launch_Receipt
begin

text \<open>
  The supervision of the target: what PID 1 has done when it exits successfully, and that
  its loops end when the kernel eventually answers. Programs are described by triples, as in
  Hoare logic; an exit other than 127 has to be accounted for.
\<close>

section \<open>Triples\<close>

definition hoare :: "(machine \<Rightarrow> bool) \<Rightarrow> 'a prog \<Rightarrow> ('a \<Rightarrow> machine \<Rightarrow> bool) \<Rightarrow> bool" where
  "hoare P m Q \<longleftrightarrow> (\<forall>s s' r. P s \<longrightarrow> m s = Some (s', r) \<longrightarrow> (case r of Return x \<Rightarrow> Q x s' | Exit c \<Rightarrow> c = 127))"

named_theorems hoare_rules "rules for triples"

abbreviation anything :: "machine \<Rightarrow> bool" where
  "anything \<equiv> \<lambda>_. True"

abbreviation proper :: "'a prog \<Rightarrow> bool" where
  "proper m \<equiv> hoare anything m (\<lambda>_. anything)"

lemma hoareD: "hoare P m Q \<Longrightarrow> P s \<Longrightarrow> m s = Some (s', r) \<Longrightarrow> (case r of Return x \<Rightarrow> Q x s' | Exit c \<Rightarrow> c = 127)"
  unfolding hoare_def by blast

lemma hoare_ret [hoare_rules]: "(\<And>s. P s \<Longrightarrow> Q x s) \<Longrightarrow> hoare P (ret x) Q"
  by (auto simp: hoare_def ret_def)

lemma hoare_bind:
  assumes "hoare P m R" and "\<And>x. hoare (R x) (f x) Q"
  shows "hoare P (bind m f) Q"
  unfolding hoare_def
proof (intro allI impI)
  fix s s' r
  assume "P s" and "bind m f s = Some (s', r)"
  with bind_Some [OF this(2)] show "case r of Return x \<Rightarrow> Q x s' | Exit c \<Rightarrow> c = 127"
    using hoareD [OF assms(1)] hoareD [OF assms(2)] by fastforce
qed

lemma proper_bind [hoare_rules]: "proper m \<Longrightarrow> (\<And>x. hoare anything (f x) Q) \<Longrightarrow> hoare anything (bind m f) Q"
  by (rule hoare_bind)

lemma hoare_sys: "(\<And>s. P s \<Longrightarrow> Q (answers os (trace s) c)
    (s\<lparr>trace := trace s @ [Call c (answers os (trace s) c)],
       errno_location := (case answers os (trace s) c of Failed e \<Rightarrow> e | _ \<Rightarrow> errno_location s)\<rparr>)) \<Longrightarrow>
    hoare P (sys os c) Q"
  by (auto simp: hoare_def sys_def Let_def)

lemma proper_sys [hoare_rules]: "proper (sys os c)"
  by (rule hoare_sys) simp

definition answered :: "os \<Rightarrow> call \<Rightarrow> machine \<Rightarrow> machine" where
  "answered os c s = s\<lparr>trace := trace s @ [Call c (answers os (trace s) c)],
     errno_location := (case answers os (trace s) c of Failed e \<Rightarrow> e | _ \<Rightarrow> errno_location s)\<rparr>"

definition reply :: "answer \<Rightarrow> (answer, sys_errno) result" where
  "reply a = (case a of Failed e \<Rightarrow> Err e | _ \<Rightarrow> Ok a)"

lemma answered_simps [simp]: "trace (answered os c s) = trace s @ [Call c (answers os (trace s) c)]"
  "lifecycle (answered os c s) = lifecycle s" "launch_error (answered os c s) = launch_error s"
  by (simp_all add: answered_def)

lemma reply_cases: "reply a = Inl e \<longleftrightarrow> a = Failed e" "reply a = Inr b \<longleftrightarrow> \<not> failed a \<and> b = a"
  by (cases a; auto simp: reply_def failed_def)+

lemma try_call_run: "try_call os c s = Some (answered os c s, Return (reply (answers os (trace s) c)))"
  by (simp add: try_call_def answered_def reply_def bind_def sys_def ret_def Let_def)

lemma proper_try [hoare_rules]: "proper (try_call os c)"
  by (simp add: hoare_def try_call_run)

lemma hoare_fail [hoare_rules]: "hoare P (fail_errno os phase e) Q" "hoare P (fail os phase) Q"
  by (auto simp: hoare_def fail_errno_def fail_def raw_exit_def exit_with_def bind_def sys_def publish_error_def
      last_errno_def Let_def)

lemma hoare_if [hoare_rules]: "(b \<Longrightarrow> hoare P m Q) \<Longrightarrow> (\<not> b \<Longrightarrow> hoare P n Q) \<Longrightarrow> hoare P (if b then m else n) Q"
  by simp

lemma hoare_sum [hoare_rules]:
  "(\<And>e. hoare P (f e) Q) \<Longrightarrow> (\<And>x. hoare P (g x) Q) \<Longrightarrow> hoare P (case r of Inl e \<Rightarrow> f e | Inr x \<Rightarrow> g x) Q"
  by (cases r) simp_all

lemma hoare_option [hoare_rules]:
  "hoare P m Q \<Longrightarrow> (\<And>x. hoare P (g x) Q) \<Longrightarrow> hoare P (case r of None \<Rightarrow> m | Some x \<Rightarrow> g x) Q"
  by (cases r) simp_all

lemma hoare_prod [hoare_rules]: "(\<And>x y. hoare P (f x y) Q) \<Longrightarrow> hoare P (case p of (x, y) \<Rightarrow> f x y) Q"
  by (cases p) simp

lemma hoare_each [hoare_rules]: "(\<And>x. proper (f x)) \<Longrightarrow> proper (each f xs)"
  by (induction xs) (auto intro: hoare_rules)

text \<open>The same for programs that name their state.\<close>

lemma hoare_state [hoare_rules]:
  "(\<And>e. hoare P (\<lambda>s. f e s) Q) \<Longrightarrow> (\<And>x. hoare P (\<lambda>s. g x s) Q) \<Longrightarrow>
    hoare P (\<lambda>s. case r of Inl e \<Rightarrow> f e s | Inr x \<Rightarrow> g x s) Q"
  "hoare P (\<lambda>s. m s) Q \<Longrightarrow> (\<And>x. hoare P (\<lambda>s. h x s) Q) \<Longrightarrow>
    hoare P (\<lambda>s. case q of None \<Rightarrow> m s | Some x \<Rightarrow> h x s) Q"
  "(b \<Longrightarrow> hoare P (\<lambda>s. m s) Q) \<Longrightarrow> (\<not> b \<Longrightarrow> hoare P (\<lambda>s. n s) Q) \<Longrightarrow> hoare P (\<lambda>s. if b then m s else n s) Q"
  subgoal by (cases r) simp_all
  subgoal by (cases q) simp_all
  subgoal by (cases b) simp_all
  done

abbreviation good_end :: "('a \<Rightarrow> machine \<Rightarrow> bool) \<Rightarrow> machine \<times> 'a flow \<Rightarrow> bool" where
  "good_end Q y \<equiv> (case snd y of Return x \<Rightarrow> Q x (fst y) | Exit c \<Rightarrow> c = 127)"

lemma hoare_run: "m s = Some y \<Longrightarrow> hoare anything m Q \<Longrightarrow> good_end Q y"
  using hoareD [of anything m Q s "fst y" "snd y"] by simp

lemma hoareI: "(\<And>s y. m s = Some y \<Longrightarrow> good_end Q y) \<Longrightarrow> hoare anything m Q"
  unfolding hoare_def by (metis fst_conv snd_conv)

section \<open>The loops\<close>

text \<open>The kernel has reported the status of the process.\<close>

definition waited :: "int \<Rightarrow> int \<Rightarrow> machine \<Rightarrow> bool" where
  "waited pid status s \<longleftrightarrow>
     (\<exists>hang a. Call (Wait4 pid hang) a \<in> set (trace s) \<and> \<not> failed a \<and> waited_of a = pid \<and> status_of_wait a = status)"

lemma hoare_try_wait:
  "hoare anything (try_call os (Wait4 pid hang))
     (\<lambda>r s. \<forall>a. r = Inr a \<longrightarrow> waited_of a = pid \<longrightarrow> waited pid (status_of_wait a) s)"
  by (fastforce simp: hoare_def try_call_run waited_def reply_cases)

lemma hoare_wait_specific:
  "hoare anything (wait_specific os pid) (\<lambda>r s. \<forall>status. r = Inr status \<longrightarrow> waited pid status s)"
proof (rule hoareI)
  let ?Q = "\<lambda>pid r s. \<forall>status. r = Inr status \<longrightarrow> waited pid status s"
  have step: "good_end (?Q pid) y"
    if ih: "\<And>s y. loop s = Some y \<Longrightarrow> good_end (?Q pid) y"
      and run: "bind (try_call os (Wait4 pid False)) (\<lambda>r s. case r of
          Inl e \<Rightarrow> if e = EINTR then loop s else ret (Err e) s
        | Inr a \<Rightarrow> if waited_of a = pid then ret (Ok (status_of_wait a)) s else loop s) s = Some y"
    for os pid loop s and y :: "machine \<times> (int, sys_errno) result flow"
    using run
  proof (rule hoare_run, intro hoare_bind [OF hoare_try_wait])
    have "hoare P loop (?Q pid)" for P
      using hoareI [of loop "?Q pid", OF ih] by (auto simp: hoare_def)
    then show "hoare (\<lambda>s. \<forall>a. r = Inr a \<longrightarrow> waited_of a = pid \<longrightarrow> waited pid (status_of_wait a) s) (\<lambda>s. case r of
          Inl e \<Rightarrow> if e = EINTR then loop s else ret (Err e) s
        | Inr a \<Rightarrow> if waited_of a = pid then ret (Ok (status_of_wait a)) s else loop s) (?Q pid)" for r
      by (cases r) (auto simp: hoare_def ret_def)
  qed
  show "wait_specific os pid s = Some y \<Longrightarrow> good_end (?Q pid) y" for s y
    by (rule wait_specific.raw_induct [where P = "\<lambda>os pid s y. good_end (?Q pid) y"]) (rule step)
qed

lemma hoare_wait_nohang:
  "hoare anything (wait_specific_nohang os pid) (\<lambda>r s. \<forall>status. r = Inr (Some status) \<longrightarrow> waited pid status s)"
proof (rule hoareI)
  let ?Q = "\<lambda>pid r s. \<forall>status. r = Inr (Some status) \<longrightarrow> waited pid status s"
  have step: "good_end (?Q pid) y"
    if ih: "\<And>s y. loop s = Some y \<Longrightarrow> good_end (?Q pid) y"
      and run: "bind (try_call os (Wait4 pid True)) (\<lambda>r s. case r of
          Inl e \<Rightarrow> if e = EINTR then loop s else ret (Err e) s
        | Inr a \<Rightarrow> if waited_of a = pid then ret (Ok (Some (status_of_wait a))) s
            else if waited_of a = 0 then ret (Ok None) s else loop s) s = Some y"
    for os pid loop s and y :: "machine \<times> (int option, sys_errno) result flow"
    using run
  proof (rule hoare_run, intro hoare_bind [OF hoare_try_wait])
    have "hoare P loop (?Q pid)" for P
      using hoareI [of loop "?Q pid", OF ih] by (auto simp: hoare_def)
    then show "hoare (\<lambda>s. \<forall>a. r = Inr a \<longrightarrow> waited_of a = pid \<longrightarrow> waited pid (status_of_wait a) s) (\<lambda>s. case r of
          Inl e \<Rightarrow> if e = EINTR then loop s else ret (Err e) s
        | Inr a \<Rightarrow> if waited_of a = pid then ret (Ok (Some (status_of_wait a))) s
            else if waited_of a = 0 then ret (Ok None) s else loop s) (?Q pid)" for r
      by (cases r) (auto simp: hoare_def ret_def)
  qed
  show "wait_specific_nohang os pid s = Some y \<Longrightarrow> good_end (?Q pid) y" for s y
    by (rule wait_specific_nohang.raw_induct [where P = "\<lambda>os pid s y. good_end (?Q pid) y"]) (rule step)
qed

lemma hoare_weaken: "hoare P m Q \<Longrightarrow> (\<And>x s. Q x s \<Longrightarrow> R x s) \<Longrightarrow> hoare P m R"
  unfolding hoare_def by (fastforce split: flow.splits)

lemma hoare_weaken_pre: "hoare anything m Q \<Longrightarrow> hoare P m Q"
  unfolding hoare_def by blast

lemma proper_wait_specific [hoare_rules]: "proper (wait_specific os pid)"
  by (rule hoare_weaken [OF hoare_wait_specific]) simp

lemma hoare_case_wait:
  "hoare (\<lambda>s. \<forall>status. r = Inr status \<longrightarrow> waited pid status s)
     (case r of Inr status \<Rightarrow> ret (f status) | Inl e \<Rightarrow> fail_errno os phase e)
     (\<lambda>x s. \<exists>status. x = f status \<and> waited pid status s)"
  using hoare_fail(1) by (cases r) (auto intro: hoare_ret)

lemma hoare_terminate: "hoare anything (terminate_direct_target os pid ph) (\<lambda>status s. waited pid status s)"
proof -
  have "hoare anything (bind (wait_specific os pid) (\<lambda>r. case r of Inr status \<Rightarrow> ret status
      | Inl e \<Rightarrow> fail_errno os (ph_reap ph) e)) (waited pid)"
    by (rule hoare_weaken [OF hoare_bind [OF hoare_wait_specific hoare_case_wait]]) simp
  moreover have "proper (bind (try_call os (Kill pid ''SIGKILL'')) (\<lambda>r.
      case r of Inl e \<Rightarrow> if e \<noteq> ESRCH then fail_errno os (ph_kill ph) e else ret () | Inr _ \<Rightarrow> ret ()))"
    by (intro hoare_rules) simp_all
  ultimately show ?thesis
    unfolding terminate_direct_target_def by (intro proper_bind [of "bind (try_call _ _) _"]) simp_all
qed

definition one_flag :: "int \<times> bool \<times> bool \<times> bool \<Rightarrow> bool" where
  "one_flag x \<longleftrightarrow> (case x of (status, timed, cancel, exceeded) \<Rightarrow>
     \<not> (timed \<and> cancel) \<and> \<not> (timed \<and> exceeded) \<and> \<not> (cancel \<and> exceeded))"

lemma one_flag_simp [simp]: "one_flag (status, timed, cancel, exceeded) \<longleftrightarrow>
    \<not> (timed \<and> cancel) \<and> \<not> (timed \<and> exceeded) \<and> \<not> (cancel \<and> exceeded)"
  by (simp add: one_flag_def)

definition ended :: "int \<Rightarrow> int \<times> bool \<times> bool \<times> bool \<Rightarrow> machine \<Rightarrow> bool" where
  "ended pid x s \<longleftrightarrow> one_flag x \<and> waited pid (fst x) s"

definition round_ended :: "int \<Rightarrow> (int \<times> bool \<times> bool \<times> bool) option \<Rightarrow> machine \<Rightarrow> bool" where
  "round_ended pid r s \<longleftrightarrow> (\<forall>x. r = Some x \<longrightarrow> ended pid x s)"

lemma hoare_terminated:
  "one_flag (0, flags) \<Longrightarrow>
    hoare anything (bind (terminate_direct_target os pid ph) (\<lambda>status. ret (Some (status, flags))))
      (round_ended pid)"
  by (cases flags, rule hoare_bind [OF hoare_terminate], rule hoare_ret) (simp add: ended_def round_ended_def)

lemma hoare_supervise_round:
  "hoare anything (supervise_round os pid fds phase ph) (round_ended pid)"
proof -
  have found: "hoare (\<lambda>s. \<forall>status. r = Inr (Some status) \<longrightarrow> waited pid status s)
      (case r of Inl e \<Rightarrow> fail_errno os (ph_reap ph) e
        | Inr (Some status) \<Rightarrow> ret (Some (status, False, False, False))
        | Inr None \<Rightarrow>
            if invalid_events fds a then fail_errno os phase EIO
            else if POLLIN (revents_of a 2)
            then bind (terminate_direct_target os pid ph) (\<lambda>status. ret (Some (status, False, True, False)))
            else if POLLIN (revents_of a 1)
            then bind (terminate_direct_target os pid ph) (\<lambda>status. ret (Some (status, True, False, False)))
            else ret None) (round_ended pid)" for r a
    by (auto intro!: hoare_fail hoare_ret hoare_weaken_pre [OF hoare_terminated]
        simp: ended_def round_ended_def
        split: sum.split option.split)
  have "hoare anything (supervise_events os pid fds phase ph a) (round_ended pid)" for a
    unfolding supervise_events_def
    by (intro hoare_if hoare_terminated hoare_bind [OF hoare_wait_nohang found]) simp
  then show ?thesis
    unfolding supervise_round_def by (intro hoare_rules) (simp_all add: round_ended_def)
qed

lemma hoare_supervise_loop: "hoare anything (supervise_loop os pid fds phase ph) (ended pid)"
proof (rule hoareI)
  have step: "good_end (ended pid) y"
    if "\<And>s y. loop s = Some y \<Longrightarrow> good_end (ended pid) y"
      and "bind (supervise_round os pid fds phase ph) (\<lambda>r s. case r of None \<Rightarrow> loop s | Some result \<Rightarrow> ret result s) s = Some y"
    for os pid fds phase ph loop s y
    using that(2)
  proof (rule hoare_run, intro hoare_bind [OF hoare_supervise_round])
    show "hoare (round_ended pid r) (\<lambda>s. case r of None \<Rightarrow> loop s | Some result \<Rightarrow> ret result s)
        (ended pid)" for r
      using hoareI [of loop "ended pid", OF that(1)] by (cases r) (auto simp: hoare_def ret_def round_ended_def)
  qed
  show "supervise_loop os pid fds phase ph s = Some y \<Longrightarrow> good_end (ended pid) y" for s y
    by (rule supervise_loop.raw_induct [where P = "\<lambda>os pid fds phase ph s y. good_end (ended pid) y"])
      (rule step)
qed

lemma hoare_wait_direct:
  "hoare anything (wait_direct_target os pid wall c l ph) (ended pid)"
proof -
  have "hoare anything (bind (wait_specific os pid) (\<lambda>r. case r of
      Inr status \<Rightarrow> ret (status, False, False, False) | Inl e \<Rightarrow> fail_errno os (ph_reap ph) e)) (ended pid)"
    by (rule hoare_weaken [OF hoare_bind [OF hoare_wait_specific hoare_case_wait]]) (auto simp: ended_def)
  moreover have "hoare anything (bind (try_call os (Pidfd_open pid)) (\<lambda>r.
      case r of Inl e \<Rightarrow> fail os (f e) | Inr pidfd \<Rightarrow> bind (arm_timer os wall ph) (\<lambda>timerfd.
        supervise_loop os pid (g pidfd timerfd) phase ph))) (ended pid)" for f g phase
    unfolding arm_timer_def by (intro hoare_rules hoare_supervise_loop) simp_all
  ultimately show ?thesis
    unfolding wait_direct_target_def by (intro hoare_if)
qed

section \<open>Reaping everything\<close>

definition all_reaped :: "machine \<Rightarrow> bool" where
  "all_reaped s \<longleftrightarrow> Call (Wait4 (-1) False) (Failed ECHILD) \<in> set (trace s)"

lemma hoare_kill_sweep: "proper (kill_sweep os phase)"
  unfolding kill_sweep_def by (intro hoare_rules)

lemma hoare_sweep:
  "hoare anything (sweep_and_wait os phase) (\<lambda>r s. r = Inl ECHILD \<longrightarrow> all_reaped s)"
  unfolding sweep_and_wait_def
proof (rule hoare_bind [OF hoare_kill_sweep])
  show "hoare anything (try_call os (Wait4 (- 1) False)) (\<lambda>r s. r = Inl ECHILD \<longrightarrow> all_reaped s)"
    by (auto simp: hoare_def try_call_run all_reaped_def reply_cases)
qed

lemma hoare_reap_loop: "hoare anything (kill_and_reap_loop os pk pr n) (\<lambda>_. all_reaped)"
proof (rule hoareI)
  have step: "good_end (\<lambda>_. all_reaped) y"
    if ih: "\<And>n s y. loop n s = Some y \<Longrightarrow> good_end (\<lambda>_. all_reaped) y"
      and run: "bind (sweep_and_wait os pk) (\<lambda>r s. case r of
          Inr a \<Rightarrow> loop (if waited_of a > 0 then u32_saturating_succ n else n) s
        | Inl e \<Rightarrow> if e = EINTR then loop n s else if e = ECHILD then ret n s else fail_errno os pr e s) s = Some y"
    for os pk pr n loop s y
    using run
  proof (rule hoare_run, intro hoare_bind [OF hoare_sweep])
    have "hoare P (loop k) (\<lambda>_. all_reaped)" for k P
      using hoareI [of "loop k" "\<lambda>_. all_reaped", OF ih] by (auto simp: hoare_def)
    then show "hoare (\<lambda>s. r = Inl ECHILD \<longrightarrow> all_reaped s) (\<lambda>s. case r of
          Inr a \<Rightarrow> loop (if waited_of a > 0 then u32_saturating_succ n else n) s
        | Inl e \<Rightarrow> if e = EINTR then loop n s else if e = ECHILD then ret n s else fail_errno os pr e s)
        (\<lambda>_. all_reaped)" for r
      using hoare_fail(1) by (cases r) (auto intro!: hoare_state(3) hoare_ret [of _ _ n])
  qed
  show "kill_and_reap_loop os pk pr n s = Some y \<Longrightarrow> good_end (\<lambda>_. all_reaped) y" for s y
    by (rule kill_and_reap_loop.raw_induct [where P = "\<lambda>os pk pr n s y. good_end (\<lambda>_. all_reaped) y"])
      (rule step)
qed

lemma hoare_reap: "hoare anything (kill_and_reap_remaining os pk pr) (\<lambda>_. all_reaped)"
  unfolding kill_and_reap_remaining_def by (rule hoare_reap_loop)

lemma proper_reap [hoare_rules]: "proper (kill_and_reap_remaining os pk pr)"
  using hoare_reap by (fastforce simp: hoare_def split: flow.splits)

text \<open>What holds of the trace is kept by every idle program.\<close>

lemma all_reaped_mono: "grown s s' es \<Longrightarrow> all_reaped s \<Longrightarrow> all_reaped s'"
  by (auto simp: grown_def all_reaped_def)

lemma keeps_reaped:
  assumes "idle m" and "proper m"
  shows "hoare all_reaped m (\<lambda>_. all_reaped)"
  unfolding hoare_def
proof (intro allI impI)
  fix s s' r
  assume "all_reaped s" and run: "m s = Some (s', r)"
  then show "case r of Return x \<Rightarrow> all_reaped s' | Exit c \<Rightarrow> c = 127"
    using followsD [OF assms(1) run] hoareD [OF assms(2) _ run] all_reaped_mono
    by (cases r) (auto simp: run_ok.simps)
qed

lemma proper_usage [hoare_rules]: "proper (collect_process_tree_usage os)"
proof -
  have "proper (case a of Failed e \<Rightarrow> ret (Err e)
      | Usage utime_sec utime_usec stime_sec stime_usec maxrss \<Rightarrow>
          ret (Ok (timeval_to_micros utime_sec utime_usec, timeval_to_micros stime_sec stime_usec,
                   if maxrss > 0 then of_int maxrss else 0))
      | _ \<Rightarrow> ret (Ok (0, 0, 0)))" for a
    by (cases a) (simp_all add: hoare_ret)
  then show ?thesis unfolding collect_process_tree_usage_def by (intro hoare_rules)
qed

lemma proper_export [hoare_rules]: "proper (export_cow_diff os ph control)"
  unfolding export_cow_diff_def by (intro hoare_rules) simp_all

lemma proper_close_around [hoare_rules]: "proper (close_around os keep cursor)"
proof (induction os keep cursor rule: close_around.induct)
  case (1 os keep cursor)
  show ?case
    by (subst close_around.simps, cases "next_keep cursor keep"; simp only: option.case; intro hoare_rules)
      (use 1 in \<open>auto\<close>)
qed

section \<open>A successful supervision\<close>

definition stable :: "(machine \<Rightarrow> bool) \<Rightarrow> bool" where
  "stable Q \<longleftrightarrow> (\<forall>s s' es. grown s s' es \<longrightarrow> Q s \<longrightarrow> Q s')"

lemma stable_trace: "stable (waited pid status)" "stable all_reaped" "stable P \<Longrightarrow> stable Q \<Longrightarrow> stable (\<lambda>s. P s \<and> Q s)"
  by (auto simp: stable_def grown_def waited_def all_reaped_def) 

lemma hoare_keeps:
  assumes "idle m" and "hoare anything m R" and "stable Q"
  shows "hoare Q m (\<lambda>x s. R x s \<and> Q s)"
  unfolding hoare_def
proof (intro allI impI)
  fix s s' r
  assume "Q s" and run: "m s = Some (s', r)"
  then show "case r of Return x \<Rightarrow> R x s' \<and> Q s' | Exit c \<Rightarrow> c = 127"
    using followsD [OF assms(1) run] hoareD [OF assms(2) _ run] assms(3)
    by (cases r) (auto simp: run_ok.simps stable_def)
qed

text \<open>Programs that never return: they exit with 127, or with 0 in a state that satisfies \<open>F\<close>.\<close>

definition finishes :: "(machine \<Rightarrow> bool) \<Rightarrow> 'a prog \<Rightarrow> (machine \<Rightarrow> bool) \<Rightarrow> bool" where
  "finishes P m F \<longleftrightarrow> (\<forall>s s' r. P s \<longrightarrow> m s = Some (s', r) \<longrightarrow> r = Exit 127 \<or> r = Exit 0 \<and> F s')"

lemma finishes_bind:
  assumes "hoare P m R" and "\<And>x. finishes (R x) (f x) F"
  shows "finishes P (bind m f) F"
  unfolding finishes_def
proof (intro allI impI)
  fix s s' r
  assume "P s" and "bind m f s = Some (s', r)"
  with bind_Some [OF this(2)] show "r = Exit 127 \<or> r = Exit 0 \<and> F s'"
    using hoareD [OF assms(1)] assms(2) unfolding finishes_def by fastforce
qed

lemma finishes_fail: "finishes P (fail_errno os phase e) F"
  by (auto simp: finishes_def fail_errno_def raw_exit_def exit_with_def bind_def sys_def publish_error_def Let_def)

definition supervised :: "int \<Rightarrow> machine \<Rightarrow> bool" where
  "supervised pid s \<longleftrightarrow> all_reaped s \<and> ready (lifecycle s) = 1 \<and> waited pid (lc_status (lifecycle s)) s \<and>
     (\<exists>timed cancel exceeded. one_flag (lc_status (lifecycle s), timed, cancel, exceeded) \<and>
        timed_out (lifecycle s) = u32_from timed \<and> cancelled (lifecycle s) = u32_from cancel \<and>
        output_limit_exceeded (lifecycle s) = u32_from exceeded)"

lemma trace_mono:
  "waited pid status s \<Longrightarrow> set (trace s) \<subseteq> set (trace s') \<Longrightarrow> waited pid status s'"
  "all_reaped s \<Longrightarrow> set (trace s) \<subseteq> set (trace s') \<Longrightarrow> all_reaped s'"
  unfolding waited_def all_reaped_def by blast+

lemma finishes_publish:
  assumes "one_flag outcome"
  shows "finishes (\<lambda>s. all_reaped s \<and> waited pid (fst outcome) s) (publish_outcome os outcome reaped used) (supervised pid)"
proof -
  obtain status timed cancel exceeded where o: "outcome = (status, timed, cancel, exceeded)" by (cases outcome)
  obtain user_cpu system_cpu max_rss where u: "used = (user_cpu, system_cpu, max_rss)" by (cases used)
  have "\<exists>t c x. one_flag (status, t, c, x) \<and> u32_from timed = u32_from t \<and> u32_from cancel = u32_from c \<and>
      u32_from exceeded = u32_from x"
    using assms o by blast
  then show ?thesis
    by (auto simp: o u finishes_def publish_outcome_def publish_lifecycle_def raw_exit_def exit_with_def bind_def sys_def
        Let_def supervised_def simp del: one_flag_simp intro: trace_mono)
qed

lemma finishes_assuming: "(b \<Longrightarrow> finishes P m F) \<Longrightarrow> finishes (\<lambda>s. b \<and> P s) m F"
  by (auto simp: finishes_def)

lemma finishes_supervision:
  assumes "phases_ok ph"
  shows "finishes (ended pid outcome) (finish_supervision os diffs ph outcome) (supervised pid)"
proof -
  note stable = stable_trace(3) [OF stable_trace(2,1)]
  have reap: "idle (kill_and_reap_remaining os (ph_kill ph) (ph_reap ph))"
    and export: "idle (each (export_cow_diff os ph) diffs)"
    using assms by (intro idle_intros; simp)+
  have "finishes (\<lambda>s. all_reaped s \<and> waited pid (fst outcome) s)
      (seq (each (export_cow_diff os ph) diffs) (publish_outcome os outcome reaped used)) (supervised pid)"
    if "one_flag outcome" for reaped used
    by (rule finishes_bind [OF hoare_keeps [OF export hoare_each [OF proper_export] stable]])
      (simp add: finishes_publish [OF that])
  then show ?thesis
    unfolding ended_def finish_supervision_def
    by (intro finishes_assuming finishes_bind [OF hoare_keeps [OF reap hoare_reap stable_trace(1)]]
        finishes_bind [OF hoare_keeps [OF idle_usage proper_usage stable]])
      (auto intro: finishes_fail split: sum.split)
qed

lemma supervise_target_finishes:
  assumes "phases_ok ph"
  shows "finishes anything (supervise_target os pid wall c l diffs ph) (supervised pid)"
proof -
  have close: "proper (close_nonstdio_except os c l (map upper_fd diffs))"
    unfolding close_nonstdio_except_def by (intro hoare_rules)
  have "finishes anything (bind (sys os (Kill pid ''SIGKILL'')) (\<lambda>_. bind (wait_specific os pid) (\<lambda>_.
      bind (kill_and_reap_remaining os (ph_kill ph) (ph_reap ph)) (\<lambda>_. fail_errno os (ph_close ph) e)))) F" for e F
    by (intro finishes_bind [OF proper_sys] finishes_bind [OF proper_wait_specific] finishes_bind [OF proper_reap]
        finishes_fail)
  then show ?thesis
    unfolding supervise_target_def
    by (intro finishes_bind [OF close])
      (auto intro: finishes_bind [OF hoare_wait_direct finishes_supervision [OF assms]] split: sum.split)
qed

text \<open>
  C7: When namespace PID 1 exits successfully after the fork of the target, the kernel has
  reported that no process of the sandbox is left to reap, the lifecycle record is published as
  ready with the status the kernel reported for the direct target, and at most one of its
  termination flags is set: the host resolves the record to a termination reason or to the target's own
  status and never finds it inconsistent.
\<close>

theorem supervision_success:
  assumes "supervise_target os pid wall c l diffs supervision_phases s = Some (s', Exit 0)"
  shows "all_reaped s' \<and> ready (lifecycle s') = 1 \<and> waited pid (lc_status (lifecycle s')) s' \<and>
    resolve_lifecycle_outcome api (lifecycle s') seen \<in>
      {Ok TimedOut, Ok Cancelled, Ok OutputLimitExceeded, decode_wait_status api (lc_status (lifecycle s'))}"
proof -
  have "supervised pid s'"
    using supervise_target_finishes [OF supervision_phases_ok, of os pid wall c l diffs] assms
    by (fastforce simp: finishes_def)
  then obtain timed cancel exceeded where flags: "one_flag (lc_status (lifecycle s'), timed, cancel, exceeded)"
      "timed_out (lifecycle s') = u32_from timed" "cancelled (lifecycle s') = u32_from cancel"
      "output_limit_exceeded (lifecycle s') = u32_from exceeded"
    by (auto simp: supervised_def)
  then have "resolve_lifecycle_outcome api (lifecycle s') seen \<in>
      {Ok TimedOut, Ok Cancelled, Ok OutputLimitExceeded, decode_wait_status api (lc_status (lifecycle s'))}"
    unfolding resolve_lifecycle_outcome_def flags(2-4) u32_from_def
    by (cases timed; cases cancel; cases exceeded; simp)
  then show ?thesis using \<open>supervised pid s'\<close> by (simp add: supervised_def)
qed

section \<open>The loops end\<close>

fun reaps :: "event \<Rightarrow> bool" where
  "reaps (Call (Wait4 pid False) a) \<longleftrightarrow> pid = -1 \<and> \<not> failed a \<and> waited_of a > 0"
| "reaps _ \<longleftrightarrow> False"

lemma unat_saturating_succ: "unat (u32_saturating_succ n) = min (unat n + 1) (2 ^ 32 - 1)"
proof (cases "n = - 1")
  case True
  then show ?thesis by (simp add: u32_saturating_succ_def unsigned_minus_1_eq_mask mask_eq_exp_minus_1)
next
  case False
  then have succ: "unat (n + 1) = unat n + 1"
    by (metis Suc_eq_plus1 add.commute add_eq_0_iff unatSuc)
  then have "unat n + 1 < 2 ^ 32" using unsigned_less [of "n + 1", where ?'a = nat] by simp
  then show ?thesis using False succ by (simp add: u32_saturating_succ_def)
qed

abbreviation kill_all :: call where
  "kill_all \<equiv> Kill (-1) ''SIGKILL''"

abbreviation wait_any :: call where
  "wait_any \<equiv> Wait4 (-1) False"

lemma sweep_run:
  assumes "\<And>tr e. answers os tr kill_all = Failed e \<Longrightarrow> e = ESRCH"
  shows "sweep_and_wait os pk s = Some (answered os wait_any (answered os kill_all s),
    Return (reply (answers os (trace s @ [Call kill_all (answers os (trace s) kill_all)]) wait_any)))"
proof -
  have "kill_sweep os pk s = Some (answered os kill_all s, Return ())"
    using assms [of "trace s"]
    by (cases "answers os (trace s) kill_all") (auto simp: kill_sweep_def bind_def try_call_run reply_def ret_def)
  then show ?thesis by (simp add: sweep_and_wait_def bind_def try_call_run)
qed

lemma reap_loop_ends:
  assumes kill: "\<And>tr e. answers os tr kill_all = Failed e \<Longrightarrow> e = ESRCH"
    and wait: "\<And>tr e. answers os tr wait_any = Failed e \<Longrightarrow> e \<in> {EINTR, ECHILD}"
    and finite: "\<And>tr. N \<le> length tr \<Longrightarrow> answers os tr wait_any = Failed ECHILD"
  shows "\<exists>s' m es. kill_and_reap_loop os pk pr n s = Some (s', Return m) \<and> trace s' = trace s @ es \<and>
    unat m = min (unat n + length (filter reaps es)) (2 ^ 32 - 1)"
proof (induction "N - length (trace s)" arbitrary: n s rule: less_induct)
  case less
  let ?tr = "trace s @ [Call kill_all (answers os (trace s) kill_all)]"
  let ?a = "answers os ?tr wait_any" and ?s = "answered os wait_any (answered os kill_all s)"
  let ?new = "[Call kill_all (answers os (trace s) kill_all), Call wait_any ?a]"
  have loop: "kill_and_reap_loop os pk pr n s = (case reply ?a of
      Inr a \<Rightarrow> kill_and_reap_loop os pk pr (if waited_of a > 0 then u32_saturating_succ n else n) ?s
    | Inl e \<Rightarrow> if e = EINTR then kill_and_reap_loop os pk pr n ?s
        else if e = ECHILD then ret n ?s else fail_errno os pr e ?s)"
    by (subst kill_and_reap_loop.simps) (simp add: bind_def sweep_run [OF kill])
  show ?case
  proof (cases "?a = Failed ECHILD")
    case True
    have "unat n \<le> 2 ^ 32 - 1" using unsigned_less [of n, where ?'a = nat] by simp
    then show ?thesis
      unfolding loop True by (intro exI [of _ ?s] exI [of _ n] exI [of _ ?new]) (simp add: True reply_def ret_def failed_def)
  next
    case False
    then have "N - length (trace ?s) < N - length (trace s)" using finite [of ?tr] by fastforce
    note ih = less [OF this]
    let ?k = "if failed ?a then n else if waited_of ?a > 0 then u32_saturating_succ n else n"
    from ih [of ?k] obtain s' m es where *: "kill_and_reap_loop os pk pr ?k ?s = Some (s', Return m)"
        "trace s' = trace ?s @ es" "unat m = min (unat ?k + length (filter reaps es)) (2 ^ 32 - 1)"
      by blast
    moreover have "kill_and_reap_loop os pk pr n s = kill_and_reap_loop os pk pr ?k ?s"
      unfolding loop using wait [of ?tr] False by (cases ?a) (auto simp: reply_def failed_def)
    moreover have "trace s' = trace s @ ?new @ es" using *(2) by simp
    moreover have "unat m = min (unat n + length (filter reaps (?new @ es))) (2 ^ 32 - 1)"
      using *(3) by (auto simp: unat_saturating_succ)
    ultimately show ?thesis by (metis (no_types))
  qed
qed


text \<open>
  C8: The teardown ends. If the kernel lets PID 1 signal its namespace (\<open>kill\<close> fails at
  most with ESRCH), if waiting for any child fails only with EINTR or ECHILD, and if from some
  point on no child is left, then \<open>kill_and_reap_remaining\<close> returns, and the count it
  returns is the number of successful waits, saturated at the largest value of 32 bits.
\<close>

theorem reap_remaining_returns:
  assumes "\<And>tr e. answers os tr kill_all = Failed e \<Longrightarrow> e = ESRCH"
    and "\<And>tr e. answers os tr wait_any = Failed e \<Longrightarrow> e \<in> {EINTR, ECHILD}"
    and "\<And>tr. N \<le> length tr \<Longrightarrow> answers os tr wait_any = Failed ECHILD"
  shows "\<exists>s' m es. kill_and_reap_remaining os pk pr s = Some (s', Return m) \<and> trace s' = trace s @ es \<and>
    unat m = min (length (filter reaps es)) (2 ^ 32 - 1)"
  using reap_loop_ends [of os N pk pr 0 s] assms by (simp add: kill_and_reap_remaining_def)

subsection \<open>The deadline\<close>




definition ends :: "'a prog \<Rightarrow> bool" where
  "ends m \<longleftrightarrow> (\<forall>s. m s \<noteq> None)"

named_theorems ends_intros "programs that always end"

lemma ends_basic [ends_intros]: "ends (fail_errno os phase e)" "ends (fail os phase)" "ends (try_call os c)" "ends (ret x)"
  by (simp_all add: ends_def fail_errno_def fail_def raw_exit_def exit_with_def bind_def sys_def publish_error_def
      last_errno_def Let_def try_call_run ret_def)

lemma ends_bind [ends_intros]:
  assumes "ends m" and "\<And>x. ends (f x)"
  shows "ends (bind m f)"
  unfolding ends_def
proof
  fix s
  obtain s' r where "m s = Some (s', r)" using assms(1) by (fastforce simp: ends_def)
  then show "bind m f s \<noteq> None"
    using assms(2) [unfolded ends_def, rule_format, of _ s'] by (cases r) (simp_all add: bind_def)
qed










end
