(* ===== verification/Launch_Io.thy ===== *)
theory Launch_Io
  imports Launch_Supervision
begin

text \<open>
  Two routines of the launcher that work on ranges: the descriptors that PID 1 closes before it
  supervises the target, and the bounded capture of the target's output.
\<close>

section \<open>Closing all descriptors but the kept ones\<close>

lemma next_keep_fold_None:
  "fold (\<lambda>fd acc. if fd < 3 then acc else if nat fd < cursor then acc
      else Some (case acc of None \<Rightarrow> nat fd | Some current \<Rightarrow> min current (nat fd))) keep acc = None \<longleftrightarrow>
    acc = None \<and> (\<forall>fd\<in>set keep. 3 \<le> fd \<longrightarrow> nat fd < cursor)"
  by (induction keep arbitrary: acc) (auto split: option.splits)

lemma next_keep_fold_le:
  "fold (\<lambda>fd acc. if fd < 3 then acc else if nat fd < cursor then acc
      else Some (case acc of None \<Rightarrow> nat fd | Some current \<Rightarrow> min current (nat fd))) keep acc = Some m \<Longrightarrow>
    (\<forall>j. acc = Some j \<longrightarrow> m \<le> j) \<and> (\<forall>fd\<in>set keep. 3 \<le> fd \<longrightarrow> cursor \<le> nat fd \<longrightarrow> m \<le> nat fd)"
  by (induction keep arbitrary: acc) (fastforce simp: min_def split: if_splits option.splits)+

lemma next_keep_None: "next_keep cursor keep = None \<Longrightarrow> fd \<in> set keep \<Longrightarrow> 3 \<le> fd \<Longrightarrow> nat fd < cursor"
  unfolding next_keep_def next_keep_fold_None by blast

lemma next_keep_least: "next_keep cursor keep = Some m \<Longrightarrow> fd \<in> set keep \<Longrightarrow> 3 \<le> fd \<Longrightarrow> cursor \<le> nat fd \<Longrightarrow> m \<le> nat fd"
  unfolding next_keep_def using next_keep_fold_le by blast

fun closes :: "event \<Rightarrow> nat set" where
  "closes (Call (Close_range lo hi flags) a) = (if flags = 0 \<and> \<not> failed a then {lo..hi} else {})"
| "closes _ = {}"

abbreviation kept :: "fd list \<Rightarrow> nat set" where
  "kept keep \<equiv> nat ` {fd \<in> set keep. 3 \<le> fd}"

lemma close_range_run:
  assumes "bind (try_call os (Close_range lo hi 0)) (\<lambda>r. case r of Inl e \<Rightarrow> ret (Err e) | Inr _ \<Rightarrow> m) s
    = Some (s', Return (Ok ()))"
  obtains a where "\<not> failed a" "m (answered os (Close_range lo hi 0) s) = Some (s', Return (Ok ()))"
    "trace (answered os (Close_range lo hi 0) s) = trace s @ [Call (Close_range lo hi 0) a]"
  using assms that [of "answers os (trace s) (Close_range lo hi 0)"]
  by (auto simp: bind_def try_call_run ret_def reply_cases split: sum.splits)

lemma close_around_exact:
  assumes "close_around os keep cursor s = Some (s', Return (Ok ()))" and "3 \<le> cursor" and "\<forall>fd\<in>set keep. fd < 2 ^ 31"
  shows "\<exists>es. trace s' = trace s @ es \<and> \<Union> (closes ` set es) = {cursor..2 ^ 32 - 1} - kept keep"
  using assms
proof (induction os keep cursor arbitrary: s rule: close_around.induct)
  case (1 os keep cursor)
  note run = 1(3) [unfolded close_around.simps [of os keep cursor]]
  show ?case
  proof (cases "next_keep cursor keep")
    case None
    have none: "kept keep \<inter> {cursor..} = {}" using next_keep_None [OF None] by fastforce
    show ?thesis
    proof (cases "cursor \<le> 2 ^ 32 - 1")
      case True
      from run have "bind (try_call os (Close_range cursor (2 ^ 32 - 1) 0))
          (\<lambda>r. case r of Inl e \<Rightarrow> ret (Err e) | Inr _ \<Rightarrow> ret (Ok ())) s = Some (s', Return (Ok ()))"
        unfolding None option.case if_P [OF True] .
      then show ?thesis
        by (rule close_range_run) (use none in \<open>auto simp: ret_def\<close>)
    next
      case False
      from run have "s' = s" unfolding None option.case if_not_P [OF False] by (simp add: ret_def)
      then show ?thesis using False by (intro exI [of _ "[]"]) auto
    qed
  next
    case (Some m)
    then have m: "cursor \<le> m" "3 \<le> m" "int m \<in> set keep" using next_keep_ge by blast+
    have "int m < 2 ^ 31" using 1(5) m(3) by blast
    then have small: "m < 2 ^ 32 - 1" by simp
    have least: "kept keep \<inter> {cursor..<m} = {}" using next_keep_least [OF Some] by fastforce
    have here: "m \<in> kept keep" using m(2,3) by (intro image_eqI [of _ _ "int m"]) auto
    have parts: "{cursor..2 ^ 32 - 1} - kept keep = {cursor..<m} \<union> ({m + 1..2 ^ 32 - 1} - kept keep)"
      using least here m(1) small by (auto simp: not_less_eq_eq)
    show ?thesis
    proof (cases "cursor < m")
      case True
      from run have "bind (try_call os (Close_range cursor (m - 1) 0))
          (\<lambda>r. case r of Inl e \<Rightarrow> ret (Err e) | Inr _ \<Rightarrow> close_around os keep (m + 1)) s = Some (s', Return (Ok ()))"
        unfolding Some option.case if_P [OF True] .
      then show ?thesis
      proof (rule close_range_run)
        fix a
        let ?s = "answered os (Close_range cursor (m - 1) 0) s"
        assume "\<not> failed a" and tr: "trace ?s = trace s @ [Call (Close_range cursor (m - 1) 0) a]"
          and "close_around os keep (m + 1) ?s = Some (s', Return (Ok ()))"
        from 1(1) [OF Some True refl this(3)] obtain es where "trace s' = trace ?s @ es"
            "\<Union> (closes ` set es) = {m + 1..2 ^ 32 - 1} - kept keep"
          using 1(5) m(2) by auto
        then show ?thesis
          unfolding parts using tr \<open>\<not> failed a\<close> True
          by (intro exI [of _ "Call (Close_range cursor (m - 1) 0) a # es"]) auto
      qed
    next
      case False
      from run have "close_around os keep (m + 1) s = Some (s', Return (Ok ()))"
        unfolding Some option.case if_not_P [OF False] .
      from 1(2) [OF Some False this] show ?thesis
        unfolding parts using False 1(5) m(2) by auto
    qed
  qed
qed

text \<open>
  C37: Before PID 1 supervises the target it closes every descriptor from 3 up to the largest
  value of 32 bits except exactly the ones it keeps (cancellation, output limit and the
  retained upper layers), whatever their order and whether they repeat.
\<close>

theorem close_nonstdio_exact:
  assumes "close_nonstdio_except os keep_a keep_b uppers s = Some (s', Return (Ok ()))"
    and "\<forall>fd\<in>set (keep_a # keep_b # uppers). fd < 2 ^ 31"
  shows "\<exists>es. trace s' = trace s @ es \<and>
    \<Union> (closes ` set es) = {3..2 ^ 32 - 1} - nat ` {fd \<in> set (keep_a # keep_b # uppers). 3 \<le> fd}"
  using close_around_exact [of os "keep_a # keep_b # uppers" 3 s s'] assms by (simp add: close_nonstdio_except_def)

section \<open>The bounded capture\<close>

text \<open>The chunks a sequence of reads delivers before the end of the pipe.\<close>

fun delivered :: "(bytes, sys_errno) result list \<Rightarrow> bytes list" where
  "delivered [] = []"
| "delivered (Inl e # reads) = delivered reads"
| "delivered (Inr chunk # reads) = (if chunk = [] then [] else chunk # delivered reads)"

definition over :: "nat option \<Rightarrow> nat \<Rightarrow> bool" where
  "over limit n \<longleftrightarrow> (case limit of None \<Rightarrow> False | Some l \<Rightarrow> n > l)"

lemma capture_loop_spec:
  assumes "\<forall>e. Inl e \<in> set reads \<longrightarrow> e = EINTR"
    and "length (before @ concat (delivered reads)) < 2 ^ 64"
  shows "\<exists>chunks. prefix chunks (delivered reads) \<and>
    (let stopped = over total_limit (length (before @ concat chunks)) \<and> chunks \<noteq> [] in
     capture_loop io (Ok ()) retain total_limit reads (take retain before) (retain < length before) (length before) =
       Ok (\<lparr>co_bytes = take retain (before @ concat chunks), co_truncated = (retain < length (before @ concat chunks))\<rparr>,
           stopped) \<and> (\<not> stopped \<longrightarrow> chunks = delivered reads))"
  using assms
proof (induction reads arbitrary: before rule: delivered.induct)
  case 1
  then show ?case by (intro exI [of _ "[]"]) simp
next
  case (2 e reads)
  then show ?case by simp
next
  case (3 chunk reads)
  show ?case
  proof (cases "chunk = []")
    case True
    then show ?thesis by (intro exI [of _ "[]"]) simp
  next
    case False
    let ?before = "before @ chunk"
    have take: "take retain before @ take (min (retain - length (take retain before)) (length chunk)) chunk
        = take retain ?before"
      by (auto simp: min_def)
    have cut: "(retain < length before \<or> min (retain - length (take retain before)) (length chunk) < length chunk)
        \<longleftrightarrow> retain < length ?before"
      by (auto simp: min_def)
    have "length ?before < 2 ^ 64" using 3(3) False by simp
    then have seen: "min (length before + length chunk) (2 ^ 64 - 1) = length ?before" by simp
    have step: "capture_loop io (Ok ()) retain total_limit (Inr chunk # reads) (take retain before) (retain < length before)
        (length before) =
      (if over total_limit (length ?before)
       then Ok (\<lparr>co_bytes = take retain ?before, co_truncated = (retain < length ?before)\<rparr>, True)
       else capture_loop io (Ok ()) retain total_limit reads (take retain ?before) (retain < length ?before) (length ?before))"
      unfolding capture_loop.simps Let_def take cut seen over_def using False by (simp add: ok_simps)
    show ?thesis
    proof (cases "over total_limit (length ?before)")
      case True
      then show ?thesis
        unfolding step using False by (intro exI [of _ "[chunk]"]) (simp add: Let_def)
    next
      case over: False
      from 3(1) [OF False, of ?before] 3(2-3) False obtain chunks where "prefix chunks (delivered reads)"
        "let stopped = over total_limit (length (?before @ concat chunks)) \<and> chunks \<noteq> [] in
          capture_loop io (Ok ()) retain total_limit reads (take retain ?before) (retain < length ?before) (length ?before) =
          Ok (\<lparr>co_bytes = take retain (?before @ concat chunks), co_truncated = (retain < length (?before @ concat chunks))\<rparr>,
           stopped) \<and> (\<not> stopped \<longrightarrow> chunks = delivered reads)"
        by auto
      then show ?thesis
        unfolding step using False over by (intro exI [of _ "chunk # chunks"]) (auto simp: Let_def)
    qed
  qed
qed

text \<open>
  The capture of the target's output is exact and bounded: it consumes an initial
  part of the delivered chunks, keeps the first bytes up to the retention limit, reports truncation
  exactly when bytes were dropped, and either consumes everything or stops at the first chunk
  with which the total limit is exceeded and says so.
\<close>

theorem read_capture_exact:
  assumes "\<forall>e. Inl e \<in> set reads \<longrightarrow> e = EINTR"
    and "length (concat (delivered reads)) < 2 ^ 64"
  shows "\<exists>chunks exceeded. prefix chunks (delivered reads) \<and>
    read_capture api (Ok ()) retain_limit total_limit reads =
      Ok (\<lparr>co_bytes = take retain_limit (concat chunks),
           co_truncated = (retain_limit < length (concat chunks))\<rparr>, exceeded) \<and>
    (exceeded \<longleftrightarrow> over total_limit (length (concat chunks))) \<and> (\<not> exceeded \<longrightarrow> chunks = delivered reads)"
proof -
  let ?io = "\<lambda>e. SetupFailed ''stdout capture read failed: {err}'' [FStr (os_error_text api e)]"
  from capture_loop_spec [of reads "[]" total_limit ?io retain_limit] assms obtain chunks where
    *: "prefix chunks (delivered reads)" "let stopped = over total_limit (length (concat chunks)) \<and> chunks \<noteq> [] in
      read_capture api (Ok ()) retain_limit total_limit reads =
      Ok (\<lparr>co_bytes = take retain_limit (concat chunks), co_truncated = (retain_limit < length (concat chunks))\<rparr>, stopped) \<and>
      (\<not> stopped \<longrightarrow> chunks = delivered reads)"
    by (auto simp: read_capture_def)
  have "chunks = [] \<Longrightarrow> \<not> over total_limit (length (concat chunks))"
    by (simp add: over_def split: option.split)
  then show ?thesis
    using * by (intro exI [of _ chunks] exI [of _ "over total_limit (length (concat chunks))"]) (auto simp: Let_def)
qed

end
