(* ===== verification/Launch_Examples.thy ===== *)
theory Launch_Examples
  imports Launch_Properties Launch_Io Policy_Example
begin

text \<open>
  A concrete launch: a kernel that grants every call, a minimal preparation and the run of the
  child up to the target program.
\<close>

definition granting_os :: os where
  "granting_os = \<lparr>answers = (\<lambda>tr c. case c of
       Capbset_drop n \<Rightarrow> Failed EINVAL
     | Fork \<Rightarrow> Returned 0
     | Fstat fd \<Rightarrow> Stat \<lparr>st_dev = 1, st_ino = 2, st_kind = S_IFDIR, st_exec_bits = 0, st_size = 0\<rparr>
     | Write fd bs \<Rightarrow> Returned (length bs)
     | _ \<Rightarrow> Returned 7), exit_syscall = 60, SYS_exit = 60, AT_FDCWD = -100\<rparr>"

definition small_launch :: prepared_launch where
  "small_launch = \<lparr>pl_root_fd = 4, pl_root_path = ''/srv'', pl_cow_root_size = None, pl_cow_diff_requested = False,
     pl_executable_fd = 64, pl_interpreter = None, pl_dependencies = [], pl_selected_handles = [],
     pl_selected_storage_floor = 3,
     pl_landlock = \<lparr>ll_read_execute = [], ll_file_mutate = [], ll_path_topology_mutate = [], ll_device_ioctl = [],
       ll_tcp_bind_ports = [], ll_tcp_connect_ports = [], ll_scope_abstract_unix_socket = False, ll_scope_signal = True\<rparr>,
     pl_cancellation_fd = None, pl_volumes = [], pl_cwd_relative = ''.'', pl_scratch_relative = None,
     pl_scratch_options = None, pl_stdout_redirect_relative = None, pl_argv = [''/bin/a''], pl_envp = [],
     pl_uid_map = [], pl_gid_map = [], pl_hostname = [], pl_time_monotonic_offset = None, pl_time_boottime_offset = None,
     pl_loopback_enabled = False, pl_procfs_enabled = True\<rparr>"

definition closed_io :: stdio_policy where
  "closed_io = \<lparr>stdin = Closed, stdout = Closed, stderr = Closed\<rparr>"

definition small_control :: child_control where
  "small_control = \<lparr>cc_capture_read_fd = -1, cc_capture_write_fd = -1, cc_output_limit_fd = -1, cc_cow_diff_state = False,
     cc_cow_volume_diff_states = replicate MAX_PERSISTENT_VOLUME_BINDINGS False, cc_wall_clock = 0\<rparr>"

definition fresh_machine :: machine where
  "fresh_machine = \<lparr>trace = [], errno_location = Errno 0,
     launch_error = \<lparr>le_errno = Errno 0, le_phase = 0, enforcement_bits = 0\<rparr>,
     lifecycle = \<lparr>lc_status = 0, reaped_descendants = 0, timed_out = 0, cancelled = 0, output_limit_exceeded = 0,
       user_cpu_micros = 0, system_cpu_micros = 0, max_child_rss_kib = 0, ready = 0\<rparr>\<rparr>"


definition small_limits :: resource_limits where
  "small_limits = \<lparr>cpu_seconds = 1, address_space_bytes = 2, file_size_bytes = 3, open_files = 64\<rparr>"

section \<open>Programs with one result\<close>

definition runs :: "'a prog \<Rightarrow> 'a \<Rightarrow> bool" where
  "runs m x \<longleftrightarrow> (\<forall>s. \<exists>s'. m s = Some (s', Return x))"

lemma runs_ret: "runs (ret x) x"
  by (simp add: runs_def ret_def)

lemma runs_bind: "runs m x \<Longrightarrow> runs (f x) y \<Longrightarrow> runs (bind m f) y"
  unfolding runs_def
proof
  fix s
  assume m: "\<forall>s. \<exists>s'. m s = Some (s', Return x)" and f: "\<forall>s. \<exists>s'. f x s = Some (s', Return y)"
  from m obtain s1 where "m s = Some (s1, Return x)" by blast
  moreover from f obtain s2 where "f x s1 = Some (s2, Return y)" by blast
  ultimately show "\<exists>s'. bind m f s = Some (s', Return y)" by (simp add: bind_def)
qed

lemma runs_mark: "runs (mark_enforcement b) ()"
  by (simp add: runs_def mark_enforcement_def)

definition grant :: "call \<Rightarrow> answer" where
  "grant c = answers granting_os [] c"

lemma answers_grant: "answers granting_os tr c = grant c"
  by (simp add: grant_def granting_os_def)

lemma runs_sys: "runs (sys granting_os c) (grant c)"
  by (simp add: runs_def sys_def Let_def answers_grant)

lemma runs_try: "runs (try_call granting_os c) (reply (grant c))"
  by (simp add: runs_def try_call_run answers_grant)

lemma runs_call:
  assumes "\<not> failed (grant c)"
  shows "runs (do_call granting_os phase c) ()" "runs (open_fd granting_os phase c) (int (ret_of (grant c)))"
    "runs (call_or_fail granting_os phase c) (grant c)"
proof -
  show *: "runs (call_or_fail granting_os phase c) (grant c)"
    unfolding call_or_fail_def using assms by (intro runs_bind [OF runs_sys]) (simp add: runs_ret)
  show "runs (do_call granting_os phase c) ()" "runs (open_fd granting_os phase c) (int (ret_of (grant c)))"
    unfolding do_call_def open_fd_def by (intro runs_bind [OF *] runs_ret)+
qed

lemma runs_seq: "runs m () \<Longrightarrow> runs n y \<Longrightarrow> runs (seq m n) y"
  by (rule runs_bind)

lemma runs_bind_ret: "runs m () \<Longrightarrow> runs (bind m ret) ()"
  by (erule runs_bind) (rule runs_ret)

lemma runs_open: "\<not> failed (grant c) \<Longrightarrow> runs (f (int (ret_of (grant c)))) y \<Longrightarrow> runs (bind (open_fd granting_os phase c) f) y"
  by (rule runs_bind [OF runs_call(2)])

lemma runs_answer: "\<not> failed (grant c) \<Longrightarrow> runs (f (grant c)) y \<Longrightarrow> runs (bind (call_or_fail granting_os phase c) f) y"
  by (rule runs_bind [OF runs_call(3)])

lemma runs_tried: "runs (f (reply (grant c))) y \<Longrightarrow> runs (bind (try_call granting_os c) f) y"
  by (rule runs_bind [OF runs_try])

lemma runs_cases:
  "(b \<Longrightarrow> runs m y) \<Longrightarrow> (\<not> b \<Longrightarrow> runs n y) \<Longrightarrow> runs (if b then m else n) y"
  by simp

lemma grant_simps [simp]:
  "grant (Capbset_drop n) = Failed EINVAL" "grant Fork = Returned 0"
  "grant (Fstat fd) = Stat \<lparr>st_dev = 1, st_ino = 2, st_kind = S_IFDIR, st_exec_bits = 0, st_size = 0\<rparr>"
  "grant (Write fd bs) = Returned (length bs)"
  by (simp_all add: grant_def granting_os_def)

lemma runs_only_if: "(b \<Longrightarrow> runs m ()) \<Longrightarrow> runs (only_if b m) ()"
  by (cases b) (simp_all add: only_if_def runs_ret)

lemma failed_simps [simp]: "\<not> failed (Returned n)" "\<not> failed (Stat st)"
  by (simp_all add: failed_def)

lemma ret_of_grant [simp]:
  "(case c of Capbset_drop n \<Rightarrow> False | Fork \<Rightarrow> False | Fstat fd \<Rightarrow> False | Write fd bs \<Rightarrow> False | _ \<Rightarrow> True) \<Longrightarrow>
    grant c = Returned 7"
  by (cases c) (simp_all add: grant_def granting_os_def)

lemma runs_write: "runs (write_proc_loop granting_os fd phase data) ()"
proof (cases "data = []")
  case True
  then show ?thesis by (subst write_proc_loop.simps) (simp add: runs_ret)
next
  case False
  have "runs (write_proc_loop granting_os fd phase []) ()" by (subst write_proc_loop.simps) (simp add: runs_ret)
  then show ?thesis
    using False by (subst write_proc_loop.simps, simp) (rule runs_bind [OF runs_try], simp add: reply_def)
qed

lemmas runs_intros = runs_seq runs_ret runs_mark runs_call(1) runs_only_if runs_open runs_answer runs_tried

lemma runs_proc_file: "runs (write_proc_file_or_fail granting_os path data phase) ()"
  unfolding write_proc_file_or_fail_def by (intro runs_intros runs_write) simp_all

lemma runs_namespaces: "runs (enter_namespaces granting_os prepared) ()"
  unfolding enter_namespaces_def by (intro runs_intros runs_proc_file) simp_all

lemma runs_host: "\<not> pl_loopback_enabled prepared \<Longrightarrow> runs (isolate_host granting_os prepared) ()"
  unfolding isolate_host_def by (intro runs_intros) simp_all

lemma runs_same_file: "runs (revalidate_root_identity_or_fail granting_os a b) ()"
  unfolding revalidate_root_identity_or_fail_def revalidate_fd_identity_or_fail_def
  by (intro runs_intros) (simp_all add: runs_ret)

lemma runs_root: "pl_cow_root_size prepared = None \<Longrightarrow> runs (enter_final_root granting_os prepared) (7, -1)"
proof -
  assume none: "pl_cow_root_size prepared = None"
  have "runs (ret (int (ret_of (grant (Open_tree fd ''.'' open_tree_recursive))), -1)) (7, -1)" for fd
    using runs_ret [of "(7, -1)"] by simp
  then have construct: "runs (construct_final_root_or_fail granting_os None d fd) (7, -1)" for d fd
    unfolding construct_final_root_or_fail_def option.case by (intro runs_intros) simp_all
  have "runs (case (7, -1) of (root_tree_fd, cow_upper_fd) \<Rightarrow>
      seq (do_call granting_os PHASE_ROOT_FCHDIR (Fchdir root_tree_fd)) (ret (root_tree_fd, cow_upper_fd))) (7, -1)"
    unfolding prod.case by (intro runs_intros) simp
  then have rest: "runs (bind (construct_final_root_or_fail granting_os None d fd) (\<lambda>(root_tree_fd, cow_upper_fd).
      seq (do_call granting_os PHASE_ROOT_FCHDIR (Fchdir root_tree_fd)) (ret (root_tree_fd, cow_upper_fd)))) (7, -1)" for d fd
    by (rule runs_bind [OF construct])
  show ?thesis
    unfolding enter_final_root_def none by (intro runs_intros runs_same_file rest) simp_all
qed

lemma runs_chroot: "runs (enter_chroot granting_os prepared root) ()" "runs (sanitize_fds granting_os) ()"
  unfolding enter_chroot_def sanitize_fds_def by (intro runs_intros; simp)+

lemma runs_forks:
  "runs (become_pid_namespace_init_or_exit granting_os a b c) ()"
  "runs (become_direct_target_or_reap granting_os wall (-1) (-1) [] ph) ()"
  unfolding become_pid_namespace_init_or_exit_def become_direct_target_or_reap_def close_control_fd_def
  subgoal by (rule runs_tried) (simp add: reply_def runs_ret)
  subgoal by (rule runs_tried) (auto simp: reply_def only_if_def intro!: runs_seq runs_bind_ret runs_ret)
  done

lemma runs_procfs: "runs (mount_private_procfs_or_fail granting_os) ()"
  unfolding mount_private_procfs_or_fail_def by (intro runs_intros) simp_all

lemma runs_ruleset:
  "runs (prepare_landlock_ruleset_or_fail granting_os (pl_landlock small_launch) root 3) 7"
proof -
  have "runs (create_ruleset_or_fail granting_os ll 3) 7" for ll
    unfolding create_ruleset_or_fail_def Let_def by (rule runs_open) (use runs_ret [of 7] in simp_all)
  then show ?thesis
    unfolding prepare_landlock_ruleset_or_fail_def
    by (auto simp: small_launch_def landlock_requested_def intro!: runs_bind runs_ret)
qed

lemma runs_stdio: "runs (apply_stdio_policy_or_fail granting_os closed_io (-1) (-1)) ()"
  unfolding apply_stdio_policy_or_fail_def apply_stdio_mode_def closed_io_def
  by (auto simp: reply_def FIRST_NON_STDIO_FD_def only_if_def intro!: runs_seq runs_bind_ret runs_tried runs_ret)

lemma runs_limits: "runs (set_limits granting_os lims) ()"
  unfolding set_limits_def set_limit_or_fail_def by (intro runs_intros) simp_all

lemma runs_privileges: "runs (drop_privileges granting_os fd filters) ()"
proof -
  have "[0..<65] = 0 # [1..<65]" by (simp add: upt_conv_Cons)
  then have "runs (drop_bounding granting_os [0..<65]) ()"
    by (simp only: drop_bounding.simps) (rule runs_tried, simp add: reply_def runs_ret)
  then show ?thesis
    unfolding drop_privileges_def drop_capabilities_or_fail_def restrict_landlock_or_fail_def
    by (intro runs_intros runs_cases) simp_all
qed


lemma runs_before_exec: "runs (before_exec granting_os small_launch closed_io lims filters small_control) ()"
proof -
  have target: "runs (target_setup granting_os small_launch closed_io lims filters small_control 7 (-1)) ()"
    unfolding target_setup_def
    using runs_stdio runs_limits runs_privileges
    by (auto simp: small_launch_def small_control_def install_selected_handles_or_fail_def
        intro!: runs_bind [OF runs_ruleset [unfolded small_launch_def, simplified]] runs_seq runs_ret runs_bind_ret)
  have controls: "runs (cow_diff_controls granting_os small_control (-1) uppers) []" for uppers
  proof -
    have "runs (volume_controls granting_os (zip (replicate n False) us)) []" for n us
      by (induction us arbitrary: n) (auto simp: runs_ret, case_tac n, auto simp: runs_ret)
    then show ?thesis
      unfolding cow_diff_controls_def small_control_def
      by (auto intro!: runs_bind [OF runs_ret] runs_bind runs_ret)
  qed
  have quiet: "runs (set_time_offsets granting_os small_launch) ()" "runs (mount_scratch granting_os small_launch) ()"
      "runs (install_images granting_os small_launch root) ()" "runs (open_redirect granting_os small_launch root) (-1)"
      "runs (install_volumes granting_os control root (pl_volumes small_launch) uppers) uppers" for root control uppers
    by (auto simp: set_time_offsets_def mount_scratch_def install_images_def open_redirect_def small_launch_def
        intro!: runs_ret runs_bind_ret)
  have none: "pl_cow_root_size small_launch = None" "\<not> pl_loopback_enabled small_launch"
      "pl_cancellation_fd small_launch = None" "cc_output_limit_fd small_control = -1" "cc_capture_read_fd small_control = -1"
    by (simp_all add: small_launch_def small_control_def)
  show ?thesis
    unfolding before_exec_def
    by (rule runs_seq, rule runs_only_if, simp add: none FIRST_NON_STDIO_FD_def,
        rule runs_seq [OF runs_namespaces], rule runs_seq [OF quiet(1)], rule runs_seq [OF runs_host [OF none(2)]],
        rule runs_bind [OF runs_root [OF none(1)]], unfold prod.case none(3,4) option.case,
        rule runs_bind [OF quiet(5)], rule runs_seq [OF quiet(2)], rule runs_seq [OF quiet(3)], rule runs_bind [OF quiet(4)],
        rule runs_seq [OF runs_chroot(1)], rule runs_seq [OF runs_chroot(2)], rule runs_seq [OF runs_forks(1)],
        rule runs_seq [OF runs_only_if [OF runs_procfs]], rule runs_bind [OF controls], rule runs_seq [OF runs_forks(2)],
        rule target)
qed

lemma small_run:
  obtains s where "child_exec granting_os small_launch closed_io small_limits [] small_control fresh_machine = Some (s, Return ())"
    "Call (Execveat 64 [''/bin/a''] [] 0x1000) (Returned 7) \<in> set (trace s)"
proof -
  let ?exec = "Execveat 64 [''/bin/a''] [] 0x1000"
  from runs_before_exec obtain s1 where
    "before_exec granting_os small_launch closed_io small_limits [] small_control fresh_machine = Some (s1, Return ())"
    unfolding runs_def by blast
  moreover have "do_call granting_os PHASE_EXECVEAT ?exec s1 = Some (answered granting_os ?exec s1, Return ())"
    by (simp add: do_call_def call_or_fail_def bind_def sys_def ret_def Let_def answers_grant answered_def)
  ultimately show thesis
    by (intro that [of "answered granting_os ?exec s1"])
      (simp_all add: child_exec_def bind_def small_launch_def answers_grant)
qed

section \<open>Witnesses\<close>

theorem exec_only_under_full_plan_witness:
  "\<exists>s'. child_exec granting_os small_launch closed_io small_limits [] small_control fresh_machine = Some (s', Return ()) \<and>
     (\<exists>earlier later. trace s' = earlier @ Call (Execveat 64 [''/bin/a''] [] 0x1000) (Returned 7) # later \<and>
       passes (launch_plan small_launch small_limits []) earlier)"
proof (rule small_run)
  fix s
  assume run: "child_exec granting_os small_launch closed_io small_limits [] small_control fresh_machine = Some (s, Return ())"
    and "Call (Execveat 64 [''/bin/a''] [] 0x1000) (Returned 7) \<in> set (trace s)"
  with exec_only_under_full_plan [OF run _ this(2)] show ?thesis
    by (fastforce simp: fresh_machine_def)
qed

text \<open>A kernel that refuses everything.\<close>

definition refusing_os :: os where
  "refusing_os = granting_os\<lparr>answers := (\<lambda>tr c. Failed EPERM)\<rparr>"

lemma bind_Exit: "m s = Some (s', Exit c) \<Longrightarrow> bind m f s = Some (s', Exit c)"
  by (simp add: bind_def)

lemma refused_run:
  "\<exists>s'. child_exec refusing_os small_launch closed_io small_limits [] small_control fresh_machine = Some (s', Exit 127)"
proof -
  have "\<exists>s'. do_call refusing_os phase c s = Some (s', Exit 127)" for phase c s
    by (simp add: do_call_def call_or_fail_def bind_def sys_def ret_def Let_def refusing_os_def child_fail_def
        child_fail_errno_def last_errno_def publish_error_def exit_with_def failed_def)
  then have "\<exists>s'. enter_namespaces refusing_os small_launch s = Some (s', Exit 127)" for s
    unfolding enter_namespaces_def using bind_Exit by fast
  then have "\<exists>s'. before_exec refusing_os small_launch closed_io small_limits [] small_control s = Some (s', Exit 127)" for s
    unfolding before_exec_def using bind_Exit
    by (simp add: small_control_def only_if_def FIRST_NON_STDIO_FD_def bind_def ret_def) fast
  then show ?thesis unfolding child_exec_def using bind_Exit by fast
qed

text \<open>The encoding of a wait status on Linux.\<close>

definition linux_wait :: wait_api where
  "linux_wait = \<lparr>WIFEXITED = (\<lambda>status. status mod 128 = 0), WEXITSTATUS = (\<lambda>status. (status div 256) mod 256),
     WIFSIGNALED = (\<lambda>status. 0 < status mod 128 \<and> status mod 128 < 127), WTERMSIG = (\<lambda>status. status mod 128),
     os_error_text = (\<lambda>e. ''error'')\<rparr>"

theorem failed_launch_is_error_witness:
  "\<exists>s' e. child_exec refusing_os small_launch closed_io small_limits [] small_control fresh_machine = Some (s', Exit 127) \<and>
     judge_run linux_wait example_policy 0 (launch_error s') (lifecycle s') None = Err e"
  using refused_run failed_launch_is_error by blast

definition small_policy :: sandbox_policy where
  "small_policy = example_policy\<lparr>time_monotonic_offset_seconds := None, procfs_enabled := True, cow_root_bytes := None,
     landlock_scope_signal := True\<rparr>"

lemma small_prepared: "prepared_for small_policy small_launch"
  by (simp add: prepared_for_def small_policy_def small_launch_def landlock_requested_def policy_requests_landlock_def)

theorem receipt_truthful_witness:
  "\<exists>s'. child_exec granting_os small_launch closed_io small_limits [] small_control fresh_machine = Some (s', Return ()) \<and>
     decode_enforcement_receipt (bits_of s') small_policy = Ok (receipt_of_bits (bits_of s')) \<and>
     er_seccomp (receipt_of_bits (bits_of s')) \<and> \<not> er_copy_on_write_root (receipt_of_bits (bits_of s'))"
proof (rule small_run)
  fix s
  assume run: "child_exec granting_os small_launch closed_io small_limits [] small_control fresh_machine = Some (s, Return ())"
  have "trace fresh_machine = []" "bits_of fresh_machine = 0" by (simp_all add: fresh_machine_def)
  from receipt_truthful [OF run this small_prepared]
  have ok: "decode_enforcement_receipt (bits_of s) small_policy = Ok (receipt_of_bits (bits_of s))"
    and seen: "\<forall>b\<in>set enforcement_layers. observed (bits_of s) b \<longleftrightarrow> Marked b \<in> set (launch_plan small_launch small_limits [])"
    by auto
  have "ENFORCEMENT_SECCOMP \<in> set enforcement_layers" "ENFORCEMENT_COW_ROOT \<in> set enforcement_layers"
    by (simp_all add: enforcement_layers_def)
  then have "observed (bits_of s) ENFORCEMENT_SECCOMP" "\<not> observed (bits_of s) ENFORCEMENT_COW_ROOT"
    using seen plan_marks_launch_plan [OF small_prepared, of small_limits "[]"]
    by (simp_all add: set_plan_marks [symmetric] plan_layers_def small_policy_def enforcement_values)
  then show ?thesis using run ok by (intro exI [of _ s]) (simp add: receipt_of_bits_def)
qed

text \<open>A kernel on which the target has ended and nothing is left to reap, after two orphans.\<close>

definition ending_os :: os where
  "ending_os = granting_os\<lparr>answers := (\<lambda>tr c. case c of
       Kill pid sig \<Rightarrow> Failed ESRCH
     | Wait4 pid nohang \<Rightarrow>
         if pid = -1 then (if length tr < 6 then Waited 12 0 else Failed ECHILD)
         else if nohang then Waited 0 0 else Waited pid 256
     | Poll fds \<Rightarrow> Polled [no_events, \<lparr>POLLIN = True, POLLERR = False, POLLNVAL = False\<rparr>, no_events, no_events]
     | Getrusage_children \<Rightarrow> Usage 1 500 0 20 4096
     | _ \<Rightarrow> Returned 5)\<rparr>"

lemma ending_kernel:
  "answers ending_os tr kill_all = Failed e \<Longrightarrow> e = ESRCH"
  "answers ending_os tr wait_any = Failed e \<Longrightarrow> e \<in> {EINTR, ECHILD}"
  "6 \<le> length tr \<Longrightarrow> answers ending_os tr wait_any = Failed ECHILD"
  by (simp_all add: ending_os_def split: if_splits)

theorem reap_remaining_returns_witness:
  "\<exists>s' m es. kill_and_reap_remaining ending_os 31 32 fresh_machine = Some (s', Return m) \<and> trace s' = es \<and>
     unat m = min (length (filter reaps es)) (2 ^ 32 - 1)"
  using reap_remaining_returns [of ending_os 6 31 32 fresh_machine, OF ending_kernel] by (simp add: fresh_machine_def)




lemma bind_run: "m s = Some (s1, Return x) \<Longrightarrow> bind m f s = f x s1"
  by (simp add: bind_def)

lemma ending_try: "\<not> failed (answers ending_os (trace s) c) \<Longrightarrow>
    bind (try_call ending_os c) f s = f (Inr (answers ending_os (trace s) c)) (answered ending_os c s)"
  by (rule bind_run) (simp add: try_call_run reply_cases(2) [THEN iffD2])

lemma close_run:
  "\<exists>s'. close_nonstdio_except ending_os (-1) (-1) [] s = Some (s', Return (Ok ()))"
proof -
  have none: "next_keep 3 ([-1, -1] @ []) = None" by (simp add: next_keep_def)
  have "\<not> failed (answers ending_os (trace s) (Close_range 3 (2 ^ 32 - 1) 0))"
    by (simp add: ending_os_def)
  moreover have "(3 :: nat) \<le> 2 ^ 32 - 1" by simp
  ultimately show ?thesis
    unfolding close_nonstdio_except_def close_around.simps [of ending_os "[-1, -1] @ []" 3] none option.case
    by (simp add: ending_try) (simp add: ret_def)
qed

lemma waited_run: "\<exists>s'. wait_direct_target ending_os 7 0 (-1) (-1) ph s = Some (s', Return (256, False, False, False))"
proof -
  have "\<exists>s'. wait_specific ending_os 7 s = Some (s', Return (Ok 256))"
    by (subst wait_specific.simps, subst ending_try) (simp_all add: ending_os_def failed_def ret_def)
  then show ?thesis
    unfolding wait_direct_target_def by (auto simp: bind_def ret_def)
qed

lemma supervised_run:
  "\<exists>s'. supervise_target ending_os 7 0 (-1) (-1) [] supervision_phases fresh_machine = Some (s', Exit 0)"
proof -
  let ?ph = supervision_phases
  obtain s1 where 1: "close_nonstdio_except ending_os (-1) (-1) (map upper_fd []) fresh_machine = Some (s1, Return (Ok ()))"
    using close_run by auto
  obtain s2 where 2: "wait_direct_target ending_os 7 0 (-1) (-1) ?ph s1 = Some (s2, Return (256, False, False, False))"
    using waited_run by blast
  obtain s3 m where 3: "kill_and_reap_remaining ending_os (ph_kill ?ph) (ph_reap ?ph) s2 = Some (s3, Return m)"
    using reap_loop_ends [of ending_os 6 "ph_kill ?ph" "ph_reap ?ph" 0 s2] ending_kernel
    unfolding kill_and_reap_remaining_def by blast
  obtain s4 u where 4: "collect_process_tree_usage ending_os s3 = Some (s4, Return (Ok u))"
    by (simp add: collect_process_tree_usage_def bind_def sys_def Let_def ending_os_def ret_def)
  show ?thesis
    using 1 2 3 4
    by (cases u) (simp add: supervise_target_def finish_supervision_def bind_def ret_def publish_outcome_def
        publish_lifecycle_def raw_exit_def exit_with_def sys_def Let_def)
qed

theorem supervision_success_witness:
  "\<exists>s'. supervise_target ending_os 7 0 (-1) (-1) [] supervision_phases fresh_machine = Some (s', Exit 0) \<and>
     all_reaped s' \<and> ready (lifecycle s') = 1"
  using supervised_run supervision_success [of ending_os 7 0 "-1" "-1" "[]" fresh_machine] by blast

theorem close_nonstdio_exact_witness:
  "\<exists>s' es. close_nonstdio_except ending_os (-1) (-1) [] fresh_machine = Some (s', Return (Ok ())) \<and>
     trace s' = es \<and> \<Union> (closes ` set es) = {3..2 ^ 32 - 1}"
proof -
  obtain s' where run: "close_nonstdio_except ending_os (-1) (-1) [] fresh_machine = Some (s', Return (Ok ()))"
    using close_run by blast
  have keep: "nat ` {fd \<in> set [-1, -1]. 3 \<le> fd} = {}" by auto
  from close_nonstdio_exact [OF run] show ?thesis
    unfolding keep using run by (auto simp: fresh_machine_def)
qed

theorem read_capture_exact_witness:
  "\<exists>chunks exceeded. prefix chunks [[1, 2], [3 :: u8]] \<and>
     read_capture linux_wait (Ok ()) 2 (Some 10) [Inr [1, 2], Inl EINTR, Inr [3], Inr []] =
       Ok (\<lparr>co_bytes = take 2 (concat chunks), co_truncated = (2 < length (concat chunks))\<rparr>, exceeded) \<and>
     (\<not> exceeded \<longrightarrow> chunks = [[1, 2], [3]])"
  using read_capture_exact [of "[Inr [1, 2], Inl EINTR, Inr [3], Inr []]" linux_wait 2 "Some 10"]
  by auto

end
