(* ===== verification/Elf_Graph.thy ===== *)
theory Elf_Graph
  imports Bytes
begin

text \<open>
  The dependency graph of \<open>elf_needed.rs\<close>: the checks on the names of DT_NEEDED entries and the
  breadth-first search that decides whether the declared sealed dependencies are exactly the
  closure of the executable's needs. An error carries its text and the names shown in it.
\<close>

section \<open>Names and roots\<close>

datatype elf_error = Elf_Error string "bytes list" | Elf_Panic string

definition main_executable :: bytes where
  "main_executable = b_lit ''<main executable>''"

definition validate_path_qualified_needed_name :: "bytes option \<Rightarrow> bytes \<Rightarrow> (unit, elf_error) result" where
  "validate_path_qualified_needed_name parent name =
     reject ((case name of [] \<Rightarrow> True | first # _ \<Rightarrow> first \<noteq> 47) \<or> name = [47] \<or> 36 \<in> set name)
       (Elf_Error ''{parent} has non-literal path-qualified DT_NEEDED entry {:?}''
         [case parent of None \<Rightarrow> main_executable | Some p \<Rightarrow> p, name])"

definition validate_dependency_graph_roots :: "bytes list \<Rightarrow> bytes list \<Rightarrow> (unit, elf_error) result" where
  "validate_dependency_graph_roots root_needed declared =
     for_each_unique (\<lambda>edge. edge) (validate_path_qualified_needed_name None)
       (\<lambda>edge. Elf_Error ''main executable contains duplicate DT_NEEDED edge {}'' [edge])
       (\<lambda>edge. reject (edge \<notin> set declared)
         (Elf_Error ''main executable DT_NEEDED edge {} is not present in the declared sealed dependency graph'' [edge]))
       [] root_needed"

section \<open>The search\<close>

type_synonym dependency_graph = "(bytes, bytes list) btreemap"

definition check_children :: "dependency_graph \<Rightarrow> bytes \<Rightarrow> bytes list \<Rightarrow> (unit, elf_error) result" where
  "check_children graph node children =
     for_each_unique (\<lambda>edge. edge) (validate_path_qualified_needed_name (Some node))
       (\<lambda>edge. Elf_Error ''sealed dependency {} contains duplicate DT_NEEDED edge {}'' [node, edge])
       (\<lambda>edge. reject (btree_get graph edge = None)
         (Elf_Error ''sealed dependency {} requires undeclared DT_NEEDED edge {}'' [node, edge]))
       [] children"

text \<open>The queue and the set of reached nodes; the result is the set when the queue is empty.\<close>

function explore :: "dependency_graph \<Rightarrow> bytes list \<Rightarrow> bytes list \<Rightarrow> (bytes list, elf_error) result" where
  "explore graph [] reachable = Ok reachable"
| "explore graph (node # queue) reachable =
     (if node \<in> set reachable then explore graph queue reachable
      else case btree_get graph node of
        None \<Rightarrow> Err (Elf_Panic ''queued dependency graph node is declared'')
      | Some children \<Rightarrow>
          (case check_children graph node children of
             Inl e \<Rightarrow> Err e
           | Inr _ \<Rightarrow> explore graph (queue @ children) (node # reachable)))"
  by pat_completeness auto

definition unreached :: "dependency_graph \<Rightarrow> bytes list \<Rightarrow> bytes set" where
  "unreached graph reachable = fst ` set graph - set reachable"

lemma unreached_less:
  assumes "btree_get graph node = Some children" and "node \<notin> set reachable"
  shows "card (unreached graph (node # reachable)) < card (unreached graph reachable)"
proof (rule psubset_card_mono)
  have "node \<in> fst ` set graph"
    using assms(1) by (force simp: btree_get_def dest: map_of_SomeD)
  then show "unreached graph (node # reachable) \<subset> unreached graph reachable"
    using assms(2) by (auto simp: unreached_def)
qed (simp add: unreached_def)

termination explore
  by (relation "measures [\<lambda>(graph, queue, reachable). card (unreached graph reachable),
      \<lambda>(graph, queue, reachable). length queue]")
    (auto intro: unreached_less)

definition check_reached :: "dependency_graph \<Rightarrow> bytes list \<Rightarrow> (unit, elf_error) result" where
  "check_reached graph reachable =
     (if length reachable \<noteq> length graph
      then (case find (\<lambda>path. path \<notin> set reachable) (map fst graph) of
          None \<Rightarrow> Err (Elf_Panic ''graph cardinality mismatch has an unreachable node'')
        | Some node \<Rightarrow>
            Err (Elf_Error ''declared sealed dependency {} is unreachable from the main executable'' [node]))
      else Ok ())"

definition validate_exact_dependency_graph :: "bytes list \<Rightarrow> dependency_graph \<Rightarrow> (unit, elf_error) result" where
  "validate_exact_dependency_graph root_needed graph =
     and_then (validate_dependency_graph_roots root_needed (map fst graph)) (\<lambda>_.
     and_then (explore graph root_needed []) (check_reached graph))"

section \<open>What the search decides\<close>

text \<open>The reference: a literal absolute path, an edge of the graph, the nodes below the roots.\<close>

definition literal_path :: "bytes \<Rightarrow> bool" where
  "literal_path name \<longleftrightarrow> (\<exists>rest. name = 47 # rest \<and> rest \<noteq> []) \<and> 36 \<notin> set name"

definition needs :: "dependency_graph \<Rightarrow> (bytes \<times> bytes) set" where
  "needs graph = {(node, edge). \<exists>children. btree_get graph node = Some children \<and> edge \<in> set children}"

definition closure :: "dependency_graph \<Rightarrow> bytes list \<Rightarrow> bytes set" where
  "closure graph roots = (needs graph)\<^sup>* `` set roots"

definition children_ok :: "dependency_graph \<Rightarrow> bytes \<Rightarrow> bool" where
  "children_ok graph node \<longleftrightarrow> (\<exists>children. btree_get graph node = Some children \<and> distinct children \<and>
     (\<forall>edge\<in>set children. literal_path edge \<and> edge \<in> fst ` set graph))"

lemma name_Ok: "validate_path_qualified_needed_name parent name = Inr () \<longleftrightarrow> literal_path name"
  by (cases name) (auto simp: validate_path_qualified_needed_name_def literal_path_def ok_simps)

lemma roots_Ok:
  "validate_dependency_graph_roots roots declared = Inr () \<longleftrightarrow>
     distinct roots \<and> (\<forall>edge\<in>set roots. literal_path edge \<and> edge \<in> set declared)"
  by (auto simp: validate_dependency_graph_roots_def ok_simps name_Ok)

lemma get_None: "btree_get graph node = None \<longleftrightarrow> node \<notin> fst ` set graph"
  by (simp add: btree_get_def map_of_eq_None_iff)

lemma check_children_Ok:
  assumes "btree_get graph node = Some children"
  shows "check_children graph node children = Inr () \<longleftrightarrow> children_ok graph node"
  using assms by (auto simp: check_children_def children_ok_def ok_simps name_Ok get_None)

definition below :: "dependency_graph \<Rightarrow> bytes list \<Rightarrow> bytes list \<Rightarrow> bytes set" where
  "below graph queue reachable = (needs graph)\<^sup>* `` (set queue \<union> set reachable)"

lemma below_step:
  assumes "btree_get graph node = Some children"
  shows "below graph (queue @ children) (node # reachable) = below graph (node # queue) reachable"
proof -
  let ?S = "insert node (set queue \<union> set reachable)"
  have "set children = needs graph `` {node}" using assms by (auto simp: needs_def)
  then have new: "set (queue @ children) \<union> set (node # reachable) = ?S \<union> needs graph `` {node}" by auto
  have "(needs graph)\<^sup>* `` (?S \<union> needs graph `` {node}) = (needs graph)\<^sup>* `` ?S"
  proof
    show "(needs graph)\<^sup>* `` (?S \<union> needs graph `` {node}) \<subseteq> (needs graph)\<^sup>* `` ?S"
      by (auto intro: converse_rtrancl_into_rtrancl)
  qed auto
  then show ?thesis unfolding below_def new by auto
qed

lemma closed_rtrancl: "r `` S \<subseteq> S \<Longrightarrow> r\<^sup>* `` S = S"
proof
  assume closed: "r `` S \<subseteq> S"
  have "x \<in> S \<longrightarrow> y \<in> S" if "(x, y) \<in> r\<^sup>*" for x y
    using that by (induction rule: rtrancl_induct) (use closed in auto)
  then show "r\<^sup>* `` S \<subseteq> S" by auto
qed auto

text \<open>The invariant of the search: all known nodes are declared, the reached ones are closed up to the queue.\<close>

definition exploring :: "dependency_graph \<Rightarrow> bytes list \<Rightarrow> bytes list \<Rightarrow> bool" where
  "exploring graph queue reachable \<longleftrightarrow>
     set queue \<union> set reachable \<subseteq> fst ` set graph \<and> distinct reachable \<and>
     (\<forall>node\<in>set reachable. children_ok graph node) \<and> needs graph `` set reachable \<subseteq> set reachable \<union> set queue"

lemma exploring_skip: "exploring graph (node # queue) reachable \<Longrightarrow> node \<in> set reachable \<Longrightarrow> exploring graph queue reachable"
  by (auto simp: exploring_def)

lemma exploring_step:
  assumes "exploring graph (node # queue) reachable" and "node \<notin> set reachable"
    and "btree_get graph node = Some children" and "children_ok graph node"
  shows "exploring graph (queue @ children) (node # reachable)"
proof -
  have "(node, x) \<in> needs graph \<longleftrightarrow> x \<in> set children" for x
    using assms(3) by (simp add: needs_def)
  moreover have "set children \<subseteq> fst ` set graph"
    using assms(3,4) by (auto simp: children_ok_def)
  ultimately show ?thesis using assms unfolding exploring_def by auto
qed

text \<open>The panics of the search are unreachable.\<close>

definition no_panic :: "('a, elf_error) result \<Rightarrow> bool" where
  "no_panic r \<longleftrightarrow> (\<forall>msg. r \<noteq> Inl (Elf_Panic msg))"

lemma no_panic_Err: "no_panic r \<Longrightarrow> (\<And>x. r \<noteq> Inr x) \<Longrightarrow> \<exists>msg names. r = Inl (Elf_Error msg names)"
  by (metis elf_error.exhaust no_panic_def sum.exhaust)

lemma no_panic_checks: "(\<And>r. r \<in> set rs \<Longrightarrow> no_panic r) \<Longrightarrow> no_panic (checks rs)"
  by (induction rs rule: checks.induct) (auto simp: no_panic_def checks.simps(2) split: sum.splits)

lemma no_panic_unique:
  assumes "\<And>x. no_panic (before x)" and "\<And>x. no_panic (after x)" and "\<And>x msg. dup x \<noteq> Elf_Panic msg"
  shows "no_panic (for_each_unique key before dup after seen xs)"
proof (induction xs arbitrary: seen)
  case (Cons x xs)
  have "no_panic (reject b (dup x))" for b using assms(3) by (simp add: no_panic_def reject_def)
  then show ?case using assms(1,2) Cons by (auto intro!: no_panic_checks)
qed (simp add: no_panic_def)

lemma no_panic_children: "no_panic (check_children graph node children)"
  unfolding check_children_def
  by (rule no_panic_unique) (auto simp: no_panic_def reject_def validate_path_qualified_needed_name_def)

lemma explore_spec:
  assumes "exploring graph queue reachable"
  shows "if \<forall>node\<in>below graph queue reachable. children_ok graph node
    then \<exists>r. explore graph queue reachable = Inr r \<and> distinct r \<and> set r = below graph queue reachable
    else \<exists>msg names. explore graph queue reachable = Inl (Elf_Error msg names)"
  using assms
proof (induction graph queue reachable rule: explore.induct)
  case (1 graph reachable)
  then have "below graph [] reachable = set reachable"
    using closed_rtrancl [of "needs graph" "set reachable"] by (simp add: below_def exploring_def)
  then show ?case using 1 by (simp add: exploring_def)
next
  case (2 graph node queue reachable)
  show ?case
  proof (cases "node \<in> set reachable")
    case True
    then have "below graph (node # queue) reachable = below graph queue reachable" by (auto simp: below_def)
    then show ?thesis using 2(1) [OF True exploring_skip [OF 2(3) True]] True by simp
  next
    case False
    from 2(3) have "node \<in> fst ` set graph" by (simp add: exploring_def)
    then obtain children where get: "btree_get graph node = Some children"
      using get_None [of graph node] by (cases "btree_get graph node") auto
    have here: "node \<in> below graph (node # queue) reachable" by (auto simp: below_def)
    show ?thesis
    proof (cases "children_ok graph node")
      case True
      then have ok: "check_children graph node children = Inr ()" using check_children_Ok [OF get] by simp
      then show ?thesis
        using 2(2) [OF False get ok exploring_step [OF 2(3) False get True]] False get
        unfolding below_step [OF get] by simp
    next
      case bad: False
      have "\<exists>msg names. check_children graph node children = Inl (Elf_Error msg names)"
        using bad check_children_Ok [OF get] by (intro no_panic_Err no_panic_children) auto
      then show ?thesis using bad here False get by auto
    qed
  qed
qed

lemma explore_roots:
  assumes "set roots \<subseteq> fst ` set graph"
  shows "if \<forall>node\<in>closure graph roots. children_ok graph node
    then \<exists>r. explore graph roots [] = Inr r \<and> distinct r \<and> set r = closure graph roots
    else \<exists>msg names. explore graph roots [] = Inl (Elf_Error msg names)"
proof -
  have "exploring graph roots []" using assms by (simp add: exploring_def)
  moreover have "below graph roots [] = closure graph roots" by (simp add: below_def closure_def)
  ultimately show ?thesis using explore_spec [of graph roots "[]"] by metis
qed

lemma children_ok_declared: "children_ok graph node \<Longrightarrow> node \<in> fst ` set graph"
  using get_None [of graph node] by (auto simp: children_ok_def)

lemma full_set_length:
  assumes "distinct xs" and "distinct ys" and "set xs \<subseteq> set ys"
  shows "length xs = length ys \<longleftrightarrow> set xs = set ys"
  by (metis assms card_subset_eq distinct_card finite_set)

lemma check_reached_cases:
  assumes "btree_ok graph" and "distinct reached" and "set reached \<subseteq> fst ` set graph"
  shows "no_panic (check_reached graph reached)" and "check_reached graph reached = Ok () \<longleftrightarrow> set reached = fst ` set graph"
proof -
  have same: "length reached = length graph \<longleftrightarrow> set reached = fst ` set graph"
    using full_set_length [OF assms(2) btree_ok_distinct [OF assms(1)]] assms(3) by simp
  have none: "find (\<lambda>path. path \<notin> set reached) (map fst graph) = None \<Longrightarrow> set reached = fst ` set graph"
    using assms(3) by (auto simp: find_None_iff)
  show "no_panic (check_reached graph reached)" "check_reached graph reached = Ok () \<longleftrightarrow> set reached = fst ` set graph"
    using same none by (auto simp: check_reached_def no_panic_def split: option.splits)
qed

lemma search_cases:
  assumes "btree_ok graph" and "set roots \<subseteq> fst ` set graph"
  shows "no_panic (and_then (explore graph roots []) (check_reached graph))"
    and "and_then (explore graph roots []) (check_reached graph) = Ok () \<longleftrightarrow>
      (\<forall>node\<in>closure graph roots. children_ok graph node) \<and> closure graph roots = fst ` set graph"
proof -
  have "no_panic (and_then (explore graph roots []) (check_reached graph)) \<and>
    (and_then (explore graph roots []) (check_reached graph) = Ok () \<longleftrightarrow>
      (\<forall>node\<in>closure graph roots. children_ok graph node) \<and> closure graph roots = fst ` set graph)"
  proof (cases "\<forall>node\<in>closure graph roots. children_ok graph node")
    case True
    obtain reached where run: "explore graph roots [] = Inr reached" "distinct reached" "set reached = closure graph roots"
      using explore_roots [OF assms(2)] unfolding if_P [OF True] by blast
    have "set reached \<subseteq> fst ` set graph" using True run(3) children_ok_declared by auto
    note check_reached_cases [OF assms(1) run(2) this]
    then show ?thesis using run(1,3) True by (simp add: and_then_def)
  next
    case False
    obtain msg names where "explore graph roots [] = Inl (Elf_Error msg names)"
      using explore_roots [OF assms(2)] unfolding if_not_P [OF False] by blast
    then show ?thesis using False by (auto simp: and_then_def no_panic_def)
  qed
  then show "no_panic (and_then (explore graph roots []) (check_reached graph))"
    "and_then (explore graph roots []) (check_reached graph) = Ok () \<longleftrightarrow>
      (\<forall>node\<in>closure graph roots. children_ok graph node) \<and> closure graph roots = fst ` set graph"
    by blast+
qed

text \<open>
  C38: The dependency check decides exact closure. On a map of declared dependencies it always
  ends without reaching a panic, and it accepts exactly when the executable's needs are
  distinct literal absolute paths, every dependency below them declares such needs within the map,
  and the declared dependencies are precisely the nodes reachable from the executable.
\<close>

theorem dependency_graph_exact:
  assumes "btree_ok graph"
  shows "(validate_exact_dependency_graph roots graph = Ok () \<longleftrightarrow>
      distinct roots \<and> (\<forall>edge\<in>set roots. literal_path edge) \<and>
      (\<forall>node\<in>closure graph roots. children_ok graph node) \<and> closure graph roots = fst ` set graph) \<and>
    (\<forall>msg. validate_exact_dependency_graph roots graph \<noteq> Err (Elf_Panic msg))"
proof (cases "validate_dependency_graph_roots roots (map fst graph) = Inr ()")
  case True
  then have roots: "distinct roots" "\<forall>edge\<in>set roots. literal_path edge" "set roots \<subseteq> fst ` set graph"
    by (auto simp: roots_Ok)
  from search_cases [OF assms roots(3)] True roots(1,2) show ?thesis
    by (simp add: validate_exact_dependency_graph_def and_then_def no_panic_def)
next
  case False
  have "no_panic (validate_dependency_graph_roots roots (map fst graph))"
    unfolding validate_dependency_graph_roots_def
    by (rule no_panic_unique) (auto simp: no_panic_def reject_def validate_path_qualified_needed_name_def)
  then obtain msg names where err: "validate_dependency_graph_roots roots (map fst graph) = Inl (Elf_Error msg names)"
    using no_panic_Err False by (metis (full_types) unit.exhaust)
  have "set roots \<subseteq> closure graph roots" by (auto simp: closure_def)
  then have "\<not> (distinct roots \<and> (\<forall>edge\<in>set roots. literal_path edge) \<and> closure graph roots = fst ` set graph)"
    using False by (auto simp: roots_Ok)
  then show ?thesis using err by (auto simp: validate_exact_dependency_graph_def and_then_def)
qed

text \<open>A graph with a cycle is accepted, one with an unused dependency is not.\<close>

definition example_graph :: dependency_graph where
  "example_graph = [(b_lit ''/a'', [b_lit ''/b'']), (b_lit ''/b'', [b_lit ''/a''])]"

theorem dependency_graph_exact_witness:
  "btree_ok example_graph \<and> validate_exact_dependency_graph [b_lit ''/a''] example_graph = Ok () \<and>
     closure example_graph [b_lit ''/a''] = {b_lit ''/a'', b_lit ''/b''}"
proof -
  have ok: "btree_ok example_graph" by code_simp
  have "validate_exact_dependency_graph [b_lit ''/a''] example_graph = Ok ()" by code_simp
  with dependency_graph_exact [OF ok, of "[b_lit ''/a'']"] ok show ?thesis
    by (simp add: example_graph_def)
qed

end
