(* ===== verification/Elf_Image.thy ===== *)
theory Elf_Image
  imports Elf_Graph
begin

text \<open>
  The two readers of ELF64 images, \<open>elf_interpreter.rs\<close> (PT_INTERP) and \<open>elf_needed.rs\<close>
  (DT_NEEDED). An image is what \<open>fstat\<close> and \<open>pread_exact\<close> answer on its descriptor. Integers
  of the file are natural numbers below the bound of their width; checked additions say so.
\<close>

record elf_image =
  img_size :: "(int, elf_error) result"
  img_read :: "nat \<Rightarrow> nat \<Rightarrow> (bytes, elf_error) result"

definition elf_err :: "string \<Rightarrow> ('a, elf_error) result" where
  "elf_err msg = Err (Elf_Error msg [])"

definition ELF_HEADER_BYTES :: nat where "ELF_HEADER_BYTES = 64"
definition ELF64_PROGRAM_HEADER_BYTES :: nat where "ELF64_PROGRAM_HEADER_BYTES = 56"
definition ELF64_DYNAMIC_BYTES :: nat where "ELF64_DYNAMIC_BYTES = 16"
definition PT_LOAD :: nat where "PT_LOAD = 1"
definition PT_DYNAMIC :: nat where "PT_DYNAMIC = 2"
definition PT_INTERP :: nat where "PT_INTERP = 3"
definition DT_NULL :: nat where "DT_NULL = 0"
definition DT_NEEDED :: nat where "DT_NEEDED = 1"
definition DT_STRTAB :: nat where "DT_STRTAB = 5"
definition DT_STRSZ :: nat where "DT_STRSZ = 10"
definition PN_XNUM :: nat where "PN_XNUM = 0xffff"
definition MAX_INTERPRETER_BYTES :: nat where "MAX_INTERPRETER_BYTES = 4096"
definition MAX_DYNAMIC_BYTES :: nat where "MAX_DYNAMIC_BYTES = 1024 * 1024"
definition MAX_STRING_TABLE_BYTES :: nat where "MAX_STRING_TABLE_BYTES = 1024 * 1024"
definition MAX_NEEDED_ENTRIES :: nat where "MAX_NEEDED_ENTRIES = 128"

lemmas elf_constants = ELF_HEADER_BYTES_def ELF64_PROGRAM_HEADER_BYTES_def ELF64_DYNAMIC_BYTES_def PT_LOAD_def
  PT_DYNAMIC_def PT_INTERP_def DT_NULL_def DT_NEEDED_def DT_STRTAB_def DT_STRSZ_def PN_XNUM_def
  MAX_INTERPRETER_BYTES_def MAX_DYNAMIC_BYTES_def MAX_STRING_TABLE_BYTES_def MAX_NEEDED_ENTRIES_def

text \<open>\<open>read_u16\<close>, \<open>read_u32\<close>, \<open>read_u64\<close> and \<open>read_i64\<close> of a slice; the tags compared with are not negative.\<close>

definition le_field :: "bytes \<Rightarrow> nat \<Rightarrow> nat \<Rightarrow> nat" where
  "le_field bs first after = from_le (take (after - first) (drop first bs))"

definition validate_range :: "nat \<Rightarrow> nat \<Rightarrow> nat \<Rightarrow> string \<Rightarrow> (unit, elf_error) result" where
  "validate_range offset sz file_size label =
     (if offset + sz \<ge> 2 ^ 64 then elf_err (label @ '' range overflow'')
      else if offset + sz > file_size then elf_err (label @ '' extends beyond the ELF image'')
      else Ok ())"

section \<open>The header\<close>

definition elf_header_ok :: "bytes \<Rightarrow> bool" where
  "elf_header_ok header \<longleftrightarrow>
     take 4 header = [0x7f, 69, 76, 70] \<and> header ! 4 = 2 \<and> header ! 5 = 1 \<and> header ! 6 = 1 \<and>
     le_field header 18 20 = 62 \<and> le_field header 20 24 = 1"

record elf_table =
  tb_file_size :: nat
  tb_phoff :: nat
  tb_phentsize :: nat
  tb_phnum :: nat

definition read_header :: "elf_image \<Rightarrow> string \<Rightarrow> (elf_table, elf_error) result" where
  "read_header img wrong_image =
     and_then (img_size img) (\<lambda>st_size.
     if st_size < int ELF_HEADER_BYTES then elf_err ''ELF image is smaller than its header''
     else and_then (img_read img 0 ELF_HEADER_BYTES) (\<lambda>header.
     if \<not> elf_header_ok header then elf_err wrong_image
     else if le_field header 56 58 = PN_XNUM then elf_err ''extended ELF program-header counts are not supported''
     else Ok \<lparr>tb_file_size = nat st_size, tb_phoff = le_field header 32 40, tb_phentsize = le_field header 54 56,
              tb_phnum = le_field header 56 58\<rparr>))"

definition program_header :: "elf_image \<Rightarrow> elf_table \<Rightarrow> nat \<Rightarrow> (bytes, elf_error) result" where
  "program_header img tb index =
     img_read img (tb_phoff tb + index * ELF64_PROGRAM_HEADER_BYTES) ELF64_PROGRAM_HEADER_BYTES"

section \<open>PT\_INTERP\<close>

definition interp_segment :: "elf_image \<Rightarrow> elf_table \<Rightarrow> bytes \<Rightarrow> (bytes, elf_error) result" where
  "interp_segment img tb ph =
     (let interp_offset = le_field ph 8 16; interp_size = le_field ph 32 40 in
      if interp_size < 2 \<or> interp_size > MAX_INTERPRETER_BYTES
      then elf_err ''PT_INTERP size {interp_size} is outside 2..={MAX_INTERPRETER_BYTES}''
      else if interp_offset + interp_size \<ge> 2 ^ 64 then elf_err ''PT_INTERP range overflow''
      else if interp_offset + interp_size > tb_file_size tb then elf_err ''PT_INTERP extends beyond the ELF image''
      else and_then (img_read img interp_offset interp_size) (\<lambda>bs.
        if bs = [] \<or> last bs \<noteq> 0 then elf_err ''PT_INTERP is not NUL terminated''
        else let path = butlast bs in
          if path = [] \<or> hd path \<noteq> 47 \<or> 0 \<in> set path then elf_err ''PT_INTERP must be one absolute NUL-free path''
          else Ok path))"

definition interp_step :: "elf_image \<Rightarrow> elf_table \<Rightarrow> bytes option \<Rightarrow> nat \<Rightarrow> (bytes option, elf_error) result" where
  "interp_step img tb found index =
     and_then (program_header img tb index) (\<lambda>ph.
     if le_field ph 0 4 \<noteq> PT_INTERP then Ok found
     else if found \<noteq> None then elf_err ''ELF image contains more than one PT_INTERP segment''
     else and_then (interp_segment img tb ph) (\<lambda>path. Ok (Some path)))"

definition read_elf64_x86_64_pt_interp :: "elf_image \<Rightarrow> (bytes option, elf_error) result" where
  "read_elf64_x86_64_pt_interp img =
     and_then (read_header img ''expected little-endian ELF64 x86_64 executable image'') (\<lambda>tb.
     if tb_phnum tb = 0 then Ok None
     else if tb_phentsize tb \<noteq> ELF64_PROGRAM_HEADER_BYTES then elf_err ''unexpected ELF64 program-header size {phentsize}''
     else if tb_phoff tb + tb_phnum tb * ELF64_PROGRAM_HEADER_BYTES \<ge> 2 ^ 64 then elf_err ''ELF program-header table overflow''
     else if tb_phoff tb + tb_phnum tb * ELF64_PROGRAM_HEADER_BYTES > tb_file_size tb
     then elf_err ''ELF program-header table extends beyond the file''
     else fold_result (interp_step img tb) None [0..<tb_phnum tb])"

section \<open>DT\_NEEDED\<close>

record load_segment =
  ls_offset :: nat
  ls_vaddr :: nat
  ls_filesz :: nat

definition segment_step ::
  "elf_image \<Rightarrow> elf_table \<Rightarrow> load_segment list \<times> (nat \<times> nat) option \<Rightarrow> nat
    \<Rightarrow> (load_segment list \<times> (nat \<times> nat) option, elf_error) result" where
  "segment_step img tb = (\<lambda>(loads, dynamic) index.
     and_then (program_header img tb index) (\<lambda>ph.
     let kind = le_field ph 0 4; file_offset = le_field ph 8 16; vaddr = le_field ph 16 24; filesz = le_field ph 32 40 in
     if kind = PT_LOAD
     then and_then (validate_range file_offset filesz (tb_file_size tb) ''PT_LOAD'') (\<lambda>_.
       Ok (loads @ [\<lparr>ls_offset = file_offset, ls_vaddr = vaddr, ls_filesz = filesz\<rparr>], dynamic))
     else if kind = PT_DYNAMIC
     then if dynamic \<noteq> None then elf_err ''ELF image contains more than one PT_DYNAMIC segment''
       else if filesz = 0 \<or> filesz > MAX_DYNAMIC_BYTES \<or> filesz mod ELF64_DYNAMIC_BYTES \<noteq> 0
       then elf_err ''PT_DYNAMIC has an invalid bounded size''
       else and_then (validate_range file_offset filesz (tb_file_size tb) ''PT_DYNAMIC'') (\<lambda>_.
         Ok (loads, Some (file_offset, filesz)))
     else Ok (loads, dynamic)))"

record dynamic_state =
  dy_needed :: "nat list"
  dy_strtab :: "nat option"
  dy_strsz :: "nat option"

definition dynamic_entry :: "nat \<Rightarrow> nat \<Rightarrow> dynamic_state \<Rightarrow> (dynamic_state, elf_error) result" where
  "dynamic_entry tag v st =
     (if tag = DT_NEEDED
      then if length (dy_needed st) \<ge> MAX_NEEDED_ENTRIES then elf_err ''too many DT_NEEDED entries''
        else Ok (st\<lparr>dy_needed := dy_needed st @ [v]\<rparr>)
      else if tag = DT_STRTAB
      then if dy_strtab st \<noteq> None then elf_err ''ELF image contains multiple DT_STRTAB entries''
        else Ok (st\<lparr>dy_strtab := Some v\<rparr>)
      else if tag = DT_STRSZ
      then if dy_strsz st \<noteq> None then elf_err ''ELF image contains multiple DT_STRSZ entries''
        else Ok (st\<lparr>dy_strsz := Some v\<rparr>)
      else Ok st)"

text \<open>The loop over the dynamic section; the flag says whether DT_NULL was found.\<close>

fun dynamic_loop ::
  "elf_image \<Rightarrow> nat \<Rightarrow> nat list \<Rightarrow> dynamic_state \<Rightarrow> (dynamic_state \<times> bool, elf_error) result" where
  "dynamic_loop img offset [] st = Ok (st, False)"
| "dynamic_loop img offset (index # rest) st =
     and_then (img_read img (offset + index * ELF64_DYNAMIC_BYTES) ELF64_DYNAMIC_BYTES) (\<lambda>entry.
     if le_field entry 0 8 = DT_NULL then Ok (st, True)
     else and_then (dynamic_entry (le_field entry 0 8) (le_field entry 8 16) st) (dynamic_loop img offset rest))"

fun strtab_file_offset :: "nat \<Rightarrow> nat \<Rightarrow> load_segment list \<Rightarrow> (nat option, elf_error) result" where
  "strtab_file_offset vaddr sz [] = Ok None"
| "strtab_file_offset vaddr sz (load # loads) =
     (if vaddr < ls_vaddr load then strtab_file_offset vaddr sz loads
      else let delta = vaddr - ls_vaddr load in
        if delta \<le> ls_filesz load \<and> sz \<le> ls_filesz load - delta
        then if ls_offset load + delta \<ge> 2 ^ 64 then elf_err ''DT_STRTAB file offset overflow''
          else Ok (Some (ls_offset load + delta))
        else strtab_file_offset vaddr sz loads)"

definition needed_name :: "bytes \<Rightarrow> nat \<Rightarrow> nat \<Rightarrow> (bytes, elf_error) result" where
  "needed_name strings strtab_size needed =
     (if needed \<ge> strtab_size then elf_err ''DT_NEEDED string offset is outside DT_STRTAB''
      else let rest = drop needed strings; name = takeWhile (\<lambda>b. b \<noteq> 0) rest in
        if 0 \<notin> set rest then elf_err ''DT_NEEDED string is not NUL terminated''
        else if name = [] then elf_err ''DT_NEEDED string is empty''
        else Ok name)"

definition read_names ::
  "elf_image \<Rightarrow> elf_table \<Rightarrow> load_segment list \<Rightarrow> dynamic_state \<Rightarrow> (bytes list, elf_error) result" where
  "read_names img tb loads st =
     and_then (ok_or (Elf_Error ''DT_NEEDED requires DT_STRTAB'' []) (dy_strtab st)) (\<lambda>strtab_vaddr.
     and_then (ok_or (Elf_Error ''DT_NEEDED requires DT_STRSZ'' []) (dy_strsz st)) (\<lambda>strtab_size.
     if strtab_size = 0 \<or> strtab_size > MAX_STRING_TABLE_BYTES
     then elf_err ''DT_STRTAB size is outside the bounded range''
     else and_then (strtab_file_offset strtab_vaddr strtab_size loads) (\<lambda>found.
     and_then (ok_or (Elf_Error ''DT_STRTAB is not backed by one PT_LOAD'' []) found) (\<lambda>strtab_offset.
     and_then (validate_range strtab_offset strtab_size (tb_file_size tb) ''DT_STRTAB'') (\<lambda>_.
     and_then (img_read img strtab_offset strtab_size) (\<lambda>strings.
     fold_result (\<lambda>names needed. and_then (needed_name strings strtab_size needed) (\<lambda>name. Ok (names @ [name])))
       [] (dy_needed st)))))))"

definition read_elf64_x86_64_dt_needed :: "elf_image \<Rightarrow> (bytes list, elf_error) result" where
  "read_elf64_x86_64_dt_needed img =
     and_then (read_header img ''expected little-endian ELF64 x86_64 image'') (\<lambda>tb.
     if tb_phnum tb = 0 then Ok []
     else if tb_phentsize tb \<noteq> ELF64_PROGRAM_HEADER_BYTES then elf_err ''unexpected ELF64 program-header size {phentsize}''
     else and_then (validate_range (tb_phoff tb) (tb_phnum tb * ELF64_PROGRAM_HEADER_BYTES) (tb_file_size tb)
         ''ELF program-header table'') (\<lambda>_.
     and_then (fold_result (segment_step img tb) ([], None) [0..<tb_phnum tb]) (\<lambda>(loads, dynamic).
     case dynamic of
       None \<Rightarrow> Ok []
     | Some (dynamic_offset, dynamic_size) \<Rightarrow>
         and_then (dynamic_loop img dynamic_offset [0..<dynamic_size div ELF64_DYNAMIC_BYTES]
           \<lparr>dy_needed = [], dy_strtab = None, dy_strsz = None\<rparr>) (\<lambda>(st, terminated).
         if \<not> terminated then elf_err ''PT_DYNAMIC has no DT_NULL terminator''
         else if dy_needed st = [] then Ok []
         else read_names img tb loads st))))"

end
