(* ===== verification/Elf_Read.thy ===== *)
theory Elf_Read
  imports Elf_Image Launch_Mounts
begin

text \<open>
  \<open>pread_exact\<close> as a program on the launch machine, and what the two readers guarantee on an
  image whose reads return its content: every byte they return lies in the file, every read
  they make has been checked to be inside it.
\<close>

section \<open>Reading a slice\<close>

partial_function (option) pread_exact ::
  "os \<Rightarrow> fd \<Rightarrow> nat \<Rightarrow> nat \<Rightarrow> bytes \<Rightarrow> machine \<Rightarrow> (machine \<times> (bytes, elf_error) result flow) option" where
  "pread_exact os fd offset wanted buffer s =
     (if length buffer \<ge> wanted then ret (Ok buffer) s
      else if offset + length buffer \<ge> 2 ^ 64 then ret (elf_err ''ELF read offset overflow'') s
      else if offset + length buffer > 2 ^ 63 - 1 then ret (elf_err ''ELF read offset exceeds off_t'') s
      else bind (try_call os (Pread fd (wanted - length buffer) (offset + length buffer))) (\<lambda>r s.
        case r of
          Inl e \<Rightarrow>
            if e = EINTR then pread_exact os fd offset wanted buffer s
            else ret (elf_err ''ELF pread failed: {error}'') s
        | Inr a \<Rightarrow>
            if ret_of a = 0 then ret (elf_err ''ELF file ended unexpectedly'') s
            else pread_exact os fd offset wanted (buffer @ data_of a) s) s)"

definition image_of :: "bytes \<Rightarrow> elf_image" where
  "image_of content =
     \<lparr>img_size = Ok (int (length content)),
      img_read = (\<lambda>offset n. if n = 0 \<or> offset + n \<le> length content then Ok (take n (drop offset content))
        else elf_err ''ELF file ended unexpectedly'')\<rparr>"

text \<open>The kernel's contract for reads on a file that does not change: short reads are allowed.\<close>

definition serves :: "os \<Rightarrow> fd \<Rightarrow> bytes \<Rightarrow> bool" where
  "serves os fd content \<longleftrightarrow> (\<forall>tr n offset. 0 < n \<longrightarrow>
     (\<exists>bs. answers os tr (Pread fd n offset) = Data bs \<and> prefix bs (take n (drop offset content)) \<and>
       (offset < length content \<longrightarrow> bs \<noteq> [])))"

lemma pread_exact_from:
  assumes "serves os fd content" and "offset + wanted < 2 ^ 63"
    and "buffer = take (length buffer) (drop offset content)" and "length buffer \<le> wanted"
  shows "\<exists>s'. pread_exact os fd offset wanted buffer s =
    Some (s', Return (if wanted = length buffer \<or> offset + wanted \<le> length content then Ok (take wanted (drop offset content))
      else elf_err ''ELF file ended unexpectedly''))"
  using assms(3,4)
proof (induction "wanted - length buffer" arbitrary: buffer s rule: less_induct)
  case less
  show ?case
  proof (cases "length buffer = wanted")
    case True
    then show ?thesis using less.prems by (subst pread_exact.simps) (simp add: ret_def)
  next
    case False
    let ?n = "wanted - length buffer" and ?at = "offset + length buffer"
    let ?s = "s\<lparr>trace := trace s @ [Call (Pread fd ?n ?at) (answers os (trace s) (Pread fd ?n ?at))],
      errno_location := (case answers os (trace s) (Pread fd ?n ?at) of Failed e \<Rightarrow> e | _ \<Rightarrow> errno_location s)\<rparr>"
    obtain bs where bs: "answers os (trace s) (Pread fd ?n ?at) = Data bs" "prefix bs (take ?n (drop ?at content))"
        "?at < length content \<Longrightarrow> bs \<noteq> []"
      using assms(1) False less.prems(2) unfolding serves_def by (metis le_neq_implies_less zero_less_diff)
    have step: "pread_exact os fd offset wanted buffer s =
        (if bs = [] then Some (?s, Return (elf_err ''ELF file ended unexpectedly''))
         else pread_exact os fd offset wanted (buffer @ bs) ?s)"
      using False less.prems(2) assms(2) bs(1)
      by (subst pread_exact.simps) (simp add: bind_def try_call_def sys_def Let_def ret_def)
    show ?thesis
    proof (cases "bs = []")
      case True
      then have "\<not> offset + wanted \<le> length content" using bs(3) False less.prems(2) by fastforce
      then show ?thesis using True False step by simp
    next
      case nonempty: False
      from bs(2) have len: "length bs \<le> ?n" by (auto dest: prefix_length_le)
      from bs(2) have "bs = take (length bs) (drop ?at content)"
        by (metis len min.absorb1 prefix_def append_eq_conv_conj take_take)
      then have buffer: "buffer @ bs = take (length (buffer @ bs)) (drop offset content)"
        using less.prems(1) by (metis add.commute drop_drop length_append take_add)
      have "wanted - length (buffer @ bs) < wanted - length buffer" using nonempty False less.prems(2) by (cases bs) auto
      moreover have "length (buffer @ bs) \<le> wanted" using len less.prems(2) by simp
      moreover have "wanted = length (buffer @ bs) \<Longrightarrow> offset + wanted \<le> length content"
        using arg_cong [OF buffer, of length] nonempty by (cases bs) auto
      ultimately show ?thesis
        using less.hyps [OF _ buffer, of ?s] step nonempty False by auto
    qed
  qed
qed

text \<open>
  C39: Reading a slice is exact. On a descriptor whose kernel serves a fixed content, with short reads
  of any length, \<open>pread_exact\<close> always returns, and it returns exactly the requested slice or, when the
  slice is not inside the file, the error for an unexpected end.
\<close>

theorem pread_exact_refines_image:
  assumes "serves os fd content" and "offset + wanted < 2 ^ 63"
  shows "\<exists>s'. pread_exact os fd offset wanted [] s = Some (s', Return (img_read (image_of content) offset wanted))"
  using pread_exact_from [OF assms, of "[]" s] by (auto simp: image_of_def)

section \<open>PT\_INTERP\<close>

definition inside :: "bytes \<Rightarrow> bytes \<Rightarrow> bool" where
  "inside content bs \<longleftrightarrow> (\<exists>offset. offset + length bs \<le> length content \<and> take (length bs) (drop offset content) = bs)"

lemma image_read_Ok:
  "img_read (image_of content) offset n = Inr bs \<longleftrightarrow>
     (n = 0 \<or> offset + n \<le> length content) \<and> bs = take n (drop offset content)"
  by (auto simp: image_of_def elf_err_def)

definition interp_path_ok :: "bytes \<Rightarrow> bytes \<Rightarrow> bool" where
  "interp_path_ok content path \<longleftrightarrow>
     inside content (path @ [0]) \<and> 0 \<notin> set path \<and> path \<noteq> [] \<and> hd path = 47 \<and> length path < MAX_INTERPRETER_BYTES"

lemma interp_segment_Ok:
  assumes "interp_segment (image_of content) tb ph = Inr path"
  shows "interp_path_ok content path"
proof -
  let ?n = "le_field ph 32 40" and ?off = "le_field ph 8 16"
  from assms obtain bs where bs: "img_read (image_of content) ?off ?n = Inr bs" "2 \<le> ?n" "?n \<le> MAX_INTERPRETER_BYTES"
      "bs \<noteq> []" "last bs = 0" "path = butlast bs" "path \<noteq> []" "hd path = 47" "0 \<notin> set path"
    by (auto simp: interp_segment_def Let_def elf_err_def ok_simps split: if_splits)
  from bs(1,2) have slice: "?off + ?n \<le> length content" "bs = take ?n (drop ?off content)"
    by (auto simp: image_read_Ok)
  then have "length bs = ?n" by simp
  moreover have "path @ [0] = bs" using bs(4-6) by (metis append_butlast_last_id)
  ultimately show ?thesis
    using slice bs unfolding interp_path_ok_def inside_def by (metis length_append_singleton less_eq_Suc_le)
qed

text \<open>
  The interpreter path that the reader returns is taken from the file itself: it is an
  absolute path without NUL of at most 4095 bytes, and it stands NUL-terminated inside the image.
\<close>

theorem pt_interp_sound:
  assumes "read_elf64_x86_64_pt_interp (image_of content) = Ok (Some path)"
  shows "inside content (path @ [0]) \<and> 0 \<notin> set path \<and> path \<noteq> [] \<and> hd path = 47 \<and> length path < MAX_INTERPRETER_BYTES"
proof -
  have step: "interp_step (image_of content) tb found index = Inr found' \<Longrightarrow>
      (\<forall>path. found = Some path \<longrightarrow> interp_path_ok content path) \<Longrightarrow>
      (\<forall>path. found' = Some path \<longrightarrow> interp_path_ok content path)" for tb found index found'
    by (auto simp: interp_step_def elf_err_def ok_simps interp_segment_Ok split: if_splits)
  from assms obtain tb where "fold_result (interp_step (image_of content) tb) None [0..<tb_phnum tb] = Inr (Some path)"
    by (auto simp: read_elf64_x86_64_pt_interp_def elf_err_def ok_simps split: if_splits)
  from fold_result_invariant [OF this, of "\<lambda>found. \<forall>path. found = Some path \<longrightarrow> interp_path_ok content path"] step
  have "interp_path_ok content path" by blast
  then show ?thesis by (simp add: interp_path_ok_def)
qed

section \<open>DT\_NEEDED\<close>

definition needed_name_ok :: "bytes \<Rightarrow> bytes \<Rightarrow> bool" where
  "needed_name_ok content name \<longleftrightarrow> inside content (name @ [0]) \<and> 0 \<notin> set name \<and> name \<noteq> []"

lemma takeWhile_terminated:
  assumes "0 \<in> set bs"
  shows "\<exists>rest. bs = takeWhile (\<lambda>b. b \<noteq> (0 :: u8)) bs @ 0 # rest"
  using assms by (induction bs) auto

lemma needed_name_Ok:
  assumes "needed_name strings sz needed = Inr name" and "strings = take sz (drop offset content)"
    and "offset + sz \<le> length content"
  shows "needed_name_ok content name"
proof -
  from assms(1) have name: "needed < sz" "0 \<in> set (drop needed strings)" "name = takeWhile (\<lambda>b. b \<noteq> 0) (drop needed strings)"
      "name \<noteq> []"
    by (auto simp: needed_name_def Let_def elf_err_def split: if_splits)
  from takeWhile_terminated [OF name(2)] name(3) obtain rest where rest: "drop needed strings = (name @ [0]) @ rest" by auto
  have "drop needed strings = take (sz - needed) (drop (offset + needed) content)"
    using assms(2) name(1) by (simp add: drop_take add.commute)
  with rest have "drop (offset + needed) content = (name @ [0]) @ rest @ drop (sz - needed) (drop (offset + needed) content)"
    by (metis append.assoc append_take_drop_id)
  then obtain more where more: "drop (offset + needed) content = (name @ [0]) @ more" by blast
  have "length (name @ [0]) \<le> length (drop (offset + needed) content)" unfolding more by simp
  then have "offset + needed + length (name @ [0]) \<le> length content" using name(1) assms(3) by simp
  moreover have "take (length (name @ [0])) (drop (offset + needed) content) = name @ [0]" unfolding more by simp
  moreover have "0 \<notin> set name" using name(3) set_takeWhileD by fastforce
  ultimately show ?thesis using name(4) unfolding needed_name_ok_def inside_def by blast
qed

lemma read_names_Ok:
  assumes "read_names (image_of content) tb loads st = Inr names"
  shows "(\<forall>name\<in>set names. needed_name_ok content name) \<and> length names = length (dy_needed st)"
proof -
  from assms obtain sz offset strings where
    strings: "sz \<noteq> 0" "img_read (image_of content) offset sz = Inr strings" and
    names: "fold_result (\<lambda>names needed. and_then (needed_name strings sz needed) (\<lambda>name. Ok (names @ [name])))
       [] (dy_needed st) = Inr names"
    by (auto simp: read_names_def elf_err_def ok_simps split: if_splits)
  from strings have slice: "strings = take sz (drop offset content)" "offset + sz \<le> length content"
    by (auto simp: image_read_Ok)
  have "(\<forall>name\<in>set names. needed_name_ok content name) \<and> length names = length (acc @ map (\<lambda>_. []) needed)"
    if "fold_result (\<lambda>names needed. and_then (needed_name strings sz needed) (\<lambda>name. Ok (names @ [name]))) acc needed
      = Inr names" and "\<forall>name\<in>set acc. needed_name_ok content name" for acc needed
    using that
  proof (induction needed arbitrary: acc)
    case (Cons n needed)
    from Cons.prems(1) obtain name where name: "needed_name strings sz n = Inr name"
      and rest: "fold_result (\<lambda>names needed. and_then (needed_name strings sz needed) (\<lambda>name. Ok (names @ [name])))
        (acc @ [name]) needed = Inr names"
      by (auto simp: and_then_def split: sum.splits)
    show ?case using Cons.IH [OF rest] Cons.prems(2) needed_name_Ok [OF name slice] by simp
  qed auto
  from this [OF names] show ?thesis by simp
qed

lemma dynamic_loop_bound:
  assumes "dynamic_loop img offset ixs st = Inr (st', terminated)" and "length (dy_needed st) \<le> MAX_NEEDED_ENTRIES"
  shows "length (dy_needed st') \<le> MAX_NEEDED_ENTRIES"
  using assms
proof (induction img offset ixs st rule: dynamic_loop.induct)
  case (2 img offset index rest st)
  have "dynamic_entry tag v st = Inr st1 \<Longrightarrow> length (dy_needed st1) \<le> MAX_NEEDED_ENTRIES" for tag v st1
    using 2(3) by (auto simp: dynamic_entry_def elf_err_def split: if_splits)
  then show ?case using 2 by (auto simp: ok_simps split: if_splits)
qed simp

text \<open>
  C40: The names of needed objects that the reader returns are taken from the file: each is
  nonempty, free of NUL and stands NUL-terminated inside the image, and there are at most 128.
\<close>

theorem dt_needed_sound:
  assumes "read_elf64_x86_64_dt_needed (image_of content) = Ok names"
  shows "(\<forall>name\<in>set names. inside content (name @ [0]) \<and> 0 \<notin> set name \<and> name \<noteq> []) \<and> length names \<le> MAX_NEEDED_ENTRIES"
proof (cases "names = []")
  case False
  with assms obtain tb loads offset ixs st where
    "dynamic_loop (image_of content) offset ixs \<lparr>dy_needed = [], dy_strtab = None, dy_strsz = None\<rparr> = Inr (st, True)"
    "read_names (image_of content) tb loads st = Inr names"
    by (auto simp: read_elf64_x86_64_dt_needed_def elf_err_def ok_simps split: if_splits option.splits prod.splits)
  then show ?thesis
    using dynamic_loop_bound read_names_Ok by (fastforce simp: needed_name_ok_def)
qed simp

end
