(* ===== verification/Elf_Examples.thy ===== *)
theory Elf_Examples
  imports Elf_Read "HOL-Library.Code_Target_Nat"
begin

text \<open>Two small images, read by the kernel's rules of evaluation.\<close>

definition elf_header :: "nat \<Rightarrow> bytes" where
  "elf_header phnum =
     [0x7f, 69, 76, 70, 2, 1, 1] @ replicate 9 0 @ [2, 0, 62, 0, 1, 0, 0, 0] @ replicate 8 0 @
     [64, 0, 0, 0, 0, 0, 0, 0] @ replicate 12 0 @ [64, 0, 56, 0, of_nat phnum, 0] @ replicate 6 0"

definition elf_segment :: "u8 \<Rightarrow> u8 \<Rightarrow> u8 \<Rightarrow> bytes" where
  "elf_segment kind offset filesz =
     [kind, 0, 0, 0, 0, 0, 0, 0, offset, 0, 0, 0, 0, 0, 0, 0, offset] @ replicate 15 0 @ [filesz] @ replicate 23 0"

definition elf_dynamic :: "u8 \<Rightarrow> u8 \<Rightarrow> bytes" where
  "elf_dynamic tag v = [tag, 0, 0, 0, 0, 0, 0, 0, v, 0, 0, 0, 0, 0, 0, 0]"

definition interp_example :: bytes where
  "interp_example = elf_header 1 @ elf_segment 3 120 4 @ b_lit ''/ld'' @ [0]"

definition needed_example :: bytes where
  "needed_example = elf_header 2 @ elf_segment 1 176 68 @ elf_segment 2 176 64 @
     elf_dynamic 1 1 @ elf_dynamic 5 240 @ elf_dynamic 10 4 @ elf_dynamic 0 0 @ [0] @ b_lit ''/a'' @ [0]"

lemma interp_example_read: "read_elf64_x86_64_pt_interp (image_of interp_example) = Ok (Some (b_lit ''/ld''))"
  by code_simp

lemma needed_example_read: "read_elf64_x86_64_dt_needed (image_of needed_example) = Ok [b_lit ''/a'']"
  by code_simp

theorem pt_interp_sound_witness:
  "read_elf64_x86_64_pt_interp (image_of interp_example) = Ok (Some (b_lit ''/ld'')) \<and>
   inside interp_example (b_lit ''/ld'' @ [0])"
  using pt_interp_sound [OF interp_example_read] interp_example_read by blast

theorem dt_needed_sound_witness:
  "read_elf64_x86_64_dt_needed (image_of needed_example) = Ok [b_lit ''/a''] \<and>
   inside needed_example (b_lit ''/a'' @ [0])"
  using dt_needed_sound [OF needed_example_read] needed_example_read by auto

text \<open>A kernel that returns one byte of a file at a time.\<close>

definition slow_os :: "bytes \<Rightarrow> os" where
  "slow_os content = \<lparr>answers = (\<lambda>tr c. case c of
       Pread fd n offset \<Rightarrow> Data (take (min n 1) (drop offset content))
     | _ \<Rightarrow> Failed EINVAL), exit_syscall = 60, SYS_exit = 60, AT_FDCWD = -100\<rparr>"

lemma slow_os_serves: "serves (slow_os content) fd content"
  unfolding serves_def
proof (intro allI impI)
  fix tr and n offset :: nat
  assume "0 < n"
  then show "\<exists>bs. answers (slow_os content) tr (Pread fd n offset) = Data bs \<and>
      prefix bs (take n (drop offset content)) \<and> (offset < length content \<longrightarrow> bs \<noteq> [])"
    by (cases "drop offset content") (auto simp: slow_os_def take_Cons' prefix_def min_def)
qed

theorem pread_exact_refines_image_witness:
  "\<forall>s. \<exists>s'. pread_exact (slow_os [1, 2, 3]) 5 1 2 [] s = Some (s', Return (Ok [2, 3]))"
  using pread_exact_refines_image [OF slow_os_serves, of 1 2 "[1, 2, 3]" 5] by (simp add: image_of_def)

end
