(* ===== verification/Broker_Machine.thy ===== *)
theory Broker_Machine
  imports Bytes Policy_Validate
begin

unbundle bit_operations_syntax

text \<open>
  The host side of \<open>runtime_fd_broker.rs\<close>: the system calls it makes, the answers of the kernel, its
  error type, and a small monad of programs over the history of calls. A program may fail to
  return (\<open>None\<close>), as a loop whose call is interrupted for ever. Rust's \<open>loop\<close> is \<open>loop_io\<close>: a body
  that continues with new local variables or returns. Integers of the code that its guards keep
  small are natural numbers.
\<close>

section \<open>Calls and answers\<close>

type_synonym raw_fd = int

datatype errno_code = EINTR | EAGAIN | ENOSYS | EINVAL | EPERM | EACCES | Errno_code int

record identity_stat =
  ino_dev :: nat
  ino_ino :: nat
  ino_regular :: bool
  ino_socket :: bool

record status_flags =
  O_PATH_set :: bool
  O_WRONLY_mode :: bool
  O_RDONLY_mode :: bool

record poll_events =
  ready_in :: bool
  ready_any :: bool

datatype broker_call =
    Recvmsg raw_fd nat
  | Send raw_fd bytes "string list"
  | Sendmsg_rights raw_fd u8 "raw_fd list" nat
  | Poll_two raw_fd string raw_fd
  | Timerfd_new
  | Timerfd_arm raw_fd nat nat
  | Close_fd raw_fd
  | Shutdown raw_fd string
  | Socketpair string
  | Getrandom nat
  | Listener_bind pathbuf
  | Listener_accept raw_fd
  | Symlink_metadata pathbuf
  | Remove_file pathbuf
  | Getpid
  | Geteuid
  | Getegid
  | Read_exact raw_fd nat
  | Stream_connect pathbuf
  | Socket_new string
  | Connect_unix raw_fd pathbuf
  | Peer_cred raw_fd
  | Fstat_fd raw_fd
  | Fcntl_getfl raw_fd
  | Open_procfd raw_fd
  | Memfd_new string
  | Read_fd raw_fd nat
  | Write_fd raw_fd bytes
  | Fchmod_fd raw_fd string
  | Fcntl_add_seals raw_fd "string list"
  | Fcntl_get_seals raw_fd

datatype broker_answer =
    Refused errno_code
  | Value int
  | Packet bytes bool
  | Events poll_events poll_events
  | Two_fds raw_fd raw_fd
  | Creds "(int \<times> u32 \<times> u32) option"
  | Inode identity_stat
  | Modes status_flags
  | Seal_set "string list"
  | Bytes_read bytes

type_synonym broker_event = "broker_call \<times> broker_answer"
type_synonym broker_os = "broker_event list \<Rightarrow> broker_call \<Rightarrow> broker_answer"

text \<open>The part of an answer that the code reads; an answer of another shape reads as zeroes.\<close>

fun value_of :: "broker_answer \<Rightarrow> int" where
  "value_of (Value n) = n"
| "value_of _ = 0"

fun packet_of :: "broker_answer \<Rightarrow> bytes" where
  "packet_of (Packet bs truncated) = bs"
| "packet_of _ = []"

fun truncated_of :: "broker_answer \<Rightarrow> bool" where
  "truncated_of (Packet bs truncated) = truncated"
| "truncated_of _ = False"

fun pair_of :: "broker_answer \<Rightarrow> raw_fd \<times> raw_fd" where
  "pair_of (Two_fds a b) = (a, b)"
| "pair_of _ = (-1, -1)"

definition quiet :: poll_events where
  "quiet = \<lparr>ready_in = False, ready_any = False\<rparr>"

fun events_of :: "broker_answer \<Rightarrow> poll_events \<times> poll_events" where
  "events_of (Events a b) = (a, b)"
| "events_of _ = (quiet, quiet)"

fun inode_of :: "broker_answer \<Rightarrow> identity_stat" where
  "inode_of (Inode st) = st"
| "inode_of _ = \<lparr>ino_dev = 0, ino_ino = 0, ino_regular = False, ino_socket = False\<rparr>"

fun modes_of :: "broker_answer \<Rightarrow> status_flags" where
  "modes_of (Modes f) = f"
| "modes_of _ = \<lparr>O_PATH_set = False, O_WRONLY_mode = False, O_RDONLY_mode = False\<rparr>"

fun seals_of :: "broker_answer \<Rightarrow> string list" where
  "seals_of (Seal_set s) = s"
| "seals_of _ = []"

fun bytes_of :: "broker_answer \<Rightarrow> bytes" where
  "bytes_of (Bytes_read bs) = bs"
| "bytes_of _ = []"

section \<open>Errors\<close>

datatype runtime_fd_broker_error =
    UnsupportedPlatform string
  | InvalidConfiguration string
  | Policy policy_error
  | SourceNotRegular
  | SourceNotReadable
  | SourcePathOnly
  | SourceSnapshotTooLarge nat
  | SnapshotBundleTooLarge nat
  | RuntimeStreamBudgetExceeded nat
  | RuntimeRequestTooLarge nat
  | RuntimeResponseTooLarge nat
  | RuntimeRequestTimedOut nat
  | RuntimeResponseTimedOut nat
  | RuntimeSessionTimedOut nat
  | RuntimeDuplicateRequestId nat
  | RuntimeUnknownRequestId nat
  | RuntimeAuthenticationFailed
  | RuntimeAcknowledgmentMismatch nat
  | HostUnixPeerCredentialMismatch u32 u32 int u32 u32
  | UnexpectedPeer int u32 u32 int u32 u32
  | Protocol string
  | Io string errno_code

type_synonym 'a broker_result = "('a, runtime_fd_broker_error) result"

section \<open>Programs\<close>

type_synonym 'a io = "broker_event list \<Rightarrow> ('a \<times> broker_event list) option"

definition io_ret :: "'a \<Rightarrow> 'a io" where
  "io_ret x = (\<lambda>tr. Some (x, tr))"

definition io_bind :: "'a io \<Rightarrow> ('a \<Rightarrow> 'b io) \<Rightarrow> 'b io" where
  "io_bind m f = (\<lambda>tr. Option.bind (m tr) (\<lambda>(x, tr). f x tr))"

definition io_call :: "broker_os \<Rightarrow> broker_call \<Rightarrow> broker_answer io" where
  "io_call os c = (\<lambda>tr. let a = os tr c in Some (a, tr @ [(c, a)]))"

text \<open>\<open>m?\<close> in a function that returns a \<open>Result\<close>.\<close>

definition io_try :: "'a broker_result io \<Rightarrow> ('a \<Rightarrow> 'b broker_result io) \<Rightarrow> 'b broker_result io" where
  "io_try m f = io_bind m (\<lambda>r. case r of Inl e \<Rightarrow> io_ret (Err e) | Inr x \<Rightarrow> f x)"

text \<open>\<open>if call == -1 { return Err(error) }\<close>.\<close>

definition io_answer :: "broker_os \<Rightarrow> broker_call \<Rightarrow> (errno_code \<Rightarrow> runtime_fd_broker_error) \<Rightarrow> broker_answer broker_result io" where
  "io_answer os c wrap = io_bind (io_call os c) (\<lambda>a. io_ret (case a of Refused e \<Rightarrow> Err (wrap e) | _ \<Rightarrow> Ok a))"

datatype ('s, 'a) control = Continue 's | Break 'a

partial_function (option) loop_io :: "('s \<Rightarrow> ('s, 'a) control io) \<Rightarrow> 's \<Rightarrow> broker_event list \<Rightarrow> ('a \<times> broker_event list) option" where
  "loop_io body s tr =
     Option.bind (body s tr) (\<lambda>(r, tr). case r of Continue s \<Rightarrow> loop_io body s tr | Break x \<Rightarrow> Some (x, tr))"

text \<open>A loop that repeats a call as long as it is interrupted.\<close>

definition retry :: "broker_os \<Rightarrow> broker_call \<Rightarrow> broker_answer io" where
  "retry os c = loop_io (\<lambda>_. io_bind (io_call os c) (\<lambda>a.
     io_ret (if a = Refused EINTR then Continue () else Break a))) ()"

section \<open>Reasoning about programs\<close>

text \<open>
  \<open>triple P m Q\<close>: started in a history with \<open>P\<close>, a run of \<open>m\<close> that returns ends with \<open>Q\<close>.
\<close>

definition io_triple :: "(broker_event list \<Rightarrow> bool) \<Rightarrow> 'a io \<Rightarrow> ('a \<Rightarrow> broker_event list \<Rightarrow> bool) \<Rightarrow> bool" where
  "io_triple P m Q \<longleftrightarrow> (\<forall>tr x tr'. P tr \<longrightarrow> m tr = Some (x, tr') \<longrightarrow> Q x tr')"

lemma io_tripleD: "io_triple P m Q \<Longrightarrow> P tr \<Longrightarrow> m tr = Some (x, tr') \<Longrightarrow> Q x tr'"
  by (auto simp: io_triple_def)

lemma io_triple_weaken:
  "io_triple P m Q \<Longrightarrow> (\<And>tr. P' tr \<Longrightarrow> P tr) \<Longrightarrow> (\<And>x tr. Q x tr \<Longrightarrow> Q' x tr) \<Longrightarrow> io_triple P' m Q'"
  unfolding io_triple_def by blast

lemma io_triple_ret: "(\<And>tr. P tr \<Longrightarrow> Q x tr) \<Longrightarrow> io_triple P (io_ret x) Q"
  by (simp add: io_triple_def io_ret_def)

lemma io_triple_bind: "io_triple P m R \<Longrightarrow> (\<And>x. io_triple (R x) (f x) Q) \<Longrightarrow> io_triple P (io_bind m f) Q"
  unfolding io_triple_def io_bind_def by (auto simp: Option.bind_eq_Some_conv)

lemma io_triple_call: "(\<And>tr. P tr \<Longrightarrow> Q (os tr c) (tr @ [(c, os tr c)])) \<Longrightarrow> io_triple P (io_call os c) Q"
  by (simp add: io_triple_def io_call_def Let_def)

lemma io_triple_loop:
  assumes body: "\<And>s. io_triple (I s) (body s) (\<lambda>r tr. case r of Continue s' \<Rightarrow> I s' tr | Break x \<Rightarrow> Q x tr)"
  shows "io_triple (I s) (loop_io body s) Q"
proof -
  let ?P = "\<lambda>body' s tr r. body' = body \<longrightarrow> I s tr \<longrightarrow> Q (fst r) (snd r)"
  have step: "?P body' s tr r"
    if IH: "\<And>body' s tr r. F body' s tr = Some r \<Longrightarrow> ?P body' s tr r"
      and run: "Option.bind (body' s tr) (\<lambda>(r, tr). case r of Continue s \<Rightarrow> F body' s tr | Break x \<Rightarrow> Some (x, tr)) = Some r"
    for F body' s tr r
  proof (intro impI)
    assume same: "body' = body" and "I s tr"
    from run same obtain c tr' where c: "body s tr = Some (c, tr')"
      and rest: "(case c of Continue s \<Rightarrow> F body s tr' | Break x \<Rightarrow> Some (x, tr')) = Some r"
      by (auto simp: Option.bind_eq_Some_conv)
    from io_tripleD [OF body \<open>I s tr\<close> c] rest IH show "Q (fst r) (snd r)"
      by (cases c) auto
  qed
  have "loop_io body s tr = Some r \<Longrightarrow> ?P body s tr r" for s tr r
    by (rule loop_io.raw_induct [where P = ?P, OF step])
  then show ?thesis unfolding io_triple_def by fastforce
qed

lemma io_triple_try:
  assumes "io_triple P m R" and "\<And>e tr. R (Inl e) tr \<Longrightarrow> Q (Inl e) tr" and "\<And>x. io_triple (R (Inr x)) (f x) Q"
  shows "io_triple P (io_try m f) Q"
  unfolding io_try_def
proof (rule io_triple_bind [OF assms(1)])
  show "io_triple (R r) (case r of Inl e \<Rightarrow> io_ret (Inl e) | Inr x \<Rightarrow> f x) Q" for r
    using assms(2,3) by (cases r) (auto intro: io_triple_ret)
qed

lemma io_triple_retry:
  assumes "\<And>tr. P tr \<Longrightarrow> P (tr @ [(c, Refused EINTR)])"
    and "\<And>tr a. P tr \<Longrightarrow> a \<noteq> Refused EINTR \<Longrightarrow> Q a (tr @ [(c, a)])"
  shows "io_triple P (retry os c) Q"
  unfolding retry_def
proof (rule io_triple_loop [where I = "\<lambda>_. P"])
  show "io_triple P (io_bind (io_call os c) (\<lambda>a. io_ret (if a = Refused EINTR then Continue () else Break a)))
      (\<lambda>r tr. case r of Continue s' \<Rightarrow> P tr | Break x \<Rightarrow> Q x tr)" for s :: unit
    using assms by (auto simp: io_triple_def io_bind_def io_call_def io_ret_def Let_def)
qed

lemma io_ret_Some: "io_ret x tr = Some (y, tr') \<longleftrightarrow> y = x \<and> tr' = tr"
  by (auto simp: io_ret_def)

lemma io_try_Ok:
  "io_try m f tr = Some (Inr y, tr'') \<longleftrightarrow> (\<exists>x tr'. m tr = Some (Inr x, tr') \<and> f x tr' = Some (Inr y, tr''))"
proof (cases "m tr")
  case (Some p)
  then show ?thesis by (cases p; cases "fst p") (simp_all add: io_try_def io_bind_def io_ret_Some)
qed (simp add: io_try_def io_bind_def)

lemma retry_cases:
  assumes "retry os c tr = Some (a, tr')"
  obtains n where "a \<noteq> Refused EINTR" and "tr' = tr @ replicate n (c, Refused EINTR) @ [(c, a)]"
proof -
  let ?P = "\<lambda>tr'. \<exists>n. tr' = tr @ replicate n (c, Refused EINTR)"
  let ?Q = "\<lambda>a tr'. a \<noteq> Refused EINTR \<and> (\<exists>n. tr' = tr @ replicate n (c, Refused EINTR) @ [(c, a)])"
  have triple: "io_triple ?P (retry os c) ?Q"
  proof (rule io_triple_retry)
    show "?P (tr' @ [(c, Refused EINTR)])" if "?P tr'" for tr'
      using that by (auto simp: replicate_append_same intro: exI [of _ "Suc _"])
  qed auto
  have "?P tr" by (auto intro: exI [of _ 0])
  with triple assms have "?Q a tr'" unfolding io_triple_def by blast
  then show thesis using that by blast
qed

lemma retry_then:
  assumes "io_bind (retry os c) (\<lambda>a. io_ret (f a)) tr = Some (x, tr')"
  obtains a n where "x = f a" and "a \<noteq> Refused EINTR" and "tr' = tr @ replicate n (c, Refused EINTR) @ [(c, a)]"
  using assms by (auto simp: io_bind_def io_ret_def Option.bind_eq_Some_conv elim!: retry_cases)

lemma io_triple_if: "(b \<Longrightarrow> io_triple P m Q) \<Longrightarrow> (\<not> b \<Longrightarrow> io_triple P n Q) \<Longrightarrow> io_triple P (if b then m else n) Q"
  by simp

lemma io_triple_const: "io_triple (\<lambda>tr. b \<and> P tr) m Q \<longleftrightarrow> (b \<longrightarrow> io_triple P m Q)"
  by (auto simp: io_triple_def)

section \<open>Programs that return\<close>

text \<open>An interrupted call that is answered otherwise in the end returns that answer.\<close>

definition returns :: "'a io \<Rightarrow> bool" where
  "returns m \<longleftrightarrow> (\<forall>tr. m tr \<noteq> None)"

lemma returns_ret: "returns (io_ret x)"
  by (simp add: returns_def io_ret_def)

lemma returns_bind: "returns m \<Longrightarrow> (\<And>x. returns (f x)) \<Longrightarrow> returns (io_bind m f)"
  unfolding returns_def io_bind_def by (metis (no_types, lifting) bind.bind_lunit case_prod_beta not_Some_eq)

lemma returns_call: "returns (io_call os c)"
  by (simp add: returns_def io_call_def Let_def)

lemma returns_try: "returns m \<Longrightarrow> (\<And>x. returns (f x)) \<Longrightarrow> returns (io_try m f)"
  unfolding io_try_def by (rule returns_bind) (auto intro: returns_ret split: sum.splits)

end
