(* ===== verification/Broker_Exchange.thy ===== *)
theory Broker_Exchange
  imports Broker_Machine
begin

text \<open>
  The request and response channels of \<open>runtime_fd_broker.rs\<close>: deadline timers,
  \<open>RuntimeMessageExchangeController\<close> (one round) and \<open>RuntimeMultiMessageExchangeController\<close>
  (a bounded number of rounds, optionally under one session deadline). Every operation takes the
  controller and returns it updated with the result.
\<close>

definition MAX_RUNTIME_MESSAGE_BYTES :: nat where "MAX_RUNTIME_MESSAGE_BYTES = 64 * 1024"
definition MAX_RUNTIME_MESSAGE_REQUEST_WAIT_MILLISECONDS :: nat where
  "MAX_RUNTIME_MESSAGE_REQUEST_WAIT_MILLISECONDS = 86400000"
definition MAX_RUNTIME_MESSAGE_RESPONSE_WAIT_MILLISECONDS :: nat where
  "MAX_RUNTIME_MESSAGE_RESPONSE_WAIT_MILLISECONDS = 86400000"
definition MAX_RUNTIME_MULTI_MESSAGE_SESSION_MILLISECONDS :: nat where
  "MAX_RUNTIME_MULTI_MESSAGE_SESSION_MILLISECONDS = 86400000"
definition MIN_RUNTIME_MULTI_MESSAGE_ROUNDS :: nat where "MIN_RUNTIME_MULTI_MESSAGE_ROUNDS = 2"
definition MAX_RUNTIME_MULTI_MESSAGE_ROUNDS :: nat where "MAX_RUNTIME_MULTI_MESSAGE_ROUNDS = 32"

section \<open>Deadline timers\<close>

definition deadline_timer :: "string \<Rightarrow> string \<Rightarrow> string \<Rightarrow> broker_os \<Rightarrow> nat \<Rightarrow> raw_fd broker_result io" where
  "deadline_timer unsupported create arm os milliseconds =
     io_try (io_answer os Timerfd_new (\<lambda>e. if e = ENOSYS then UnsupportedPlatform unsupported else Io create e)) (\<lambda>a.
     let fd = value_of a in
     io_bind (io_call os (Timerfd_arm fd (milliseconds div 1000) ((milliseconds mod 1000) * 1000000))) (\<lambda>b.
     case b of
       Refused e \<Rightarrow> io_bind (io_call os (Close_fd fd)) (\<lambda>_. io_ret (Err (Io arm e)))
     | _ \<Rightarrow> io_ret (Ok fd)))"

definition request_deadline_timer :: "broker_os \<Rightarrow> nat \<Rightarrow> raw_fd broker_result io" where
  "request_deadline_timer = deadline_timer ''runtime message request deadlines require timerfd''
     ''cannot create runtime message request deadline timer'' ''cannot arm runtime message request deadline timer''"

definition response_deadline_timer :: "broker_os \<Rightarrow> nat \<Rightarrow> raw_fd broker_result io" where
  "response_deadline_timer = deadline_timer ''runtime message response publication deadlines require timerfd''
     ''cannot create runtime message response publication deadline timer''
     ''cannot arm runtime message response publication deadline timer''"

definition session_deadline_timer :: "broker_os \<Rightarrow> nat \<Rightarrow> raw_fd broker_result io" where
  "session_deadline_timer = deadline_timer ''runtime multi-message session deadlines require timerfd''
     ''cannot create runtime multi-message session deadline timer''
     ''cannot arm runtime multi-message session deadline timer''"

section \<open>One round\<close>

datatype runtime_message_exchange_state = AwaitingRequest | RequestReceived | Complete | Exchange_Failed

record runtime_message_exchange_controller =
  mx_fd :: raw_fd
  mx_max_request_bytes :: nat
  mx_max_response_bytes :: nat
  mx_state :: runtime_message_exchange_state

type_synonym 'a exchange_io = "(runtime_message_exchange_controller \<times> 'a broker_result) io"

abbreviation exchange_failed ::
  "runtime_message_exchange_controller \<Rightarrow> runtime_fd_broker_error
    \<Rightarrow> runtime_message_exchange_controller \<times> 'a broker_result" where
  "exchange_failed c e \<equiv> (c\<lparr>mx_state := Exchange_Failed\<rparr>, Err e)"

definition is_complete :: "runtime_message_exchange_controller \<Rightarrow> bool" where
  "is_complete c \<longleftrightarrow> mx_state c = Complete"

definition request_poll :: "broker_os \<Rightarrow> runtime_message_exchange_controller \<Rightarrow> raw_fd \<Rightarrow> nat
    \<Rightarrow> (unit, runtime_message_exchange_controller \<times> unit broker_result) control io" where
  "request_poll os c timer wait_milliseconds =
     io_bind (io_call os (Poll_two (mx_fd c) ''POLLIN'' timer)) (\<lambda>a. io_ret (case a of
       Refused e \<Rightarrow> if e = EINTR then Continue ()
         else Break (exchange_failed c (Io ''cannot poll runtime message request deadline'' e))
     | _ \<Rightarrow> let (channel, deadline) = events_of a in
         if ready_any channel then Break (c, Ok ())
         else if ready_in deadline then Break (exchange_failed c (RuntimeRequestTimedOut wait_milliseconds))
         else if ready_any deadline
         then Break (exchange_failed c (Protocol ''runtime message request deadline timer became unusable''))
         else Continue ()))"

definition wait_for_request_ready :: "broker_os \<Rightarrow> runtime_message_exchange_controller \<Rightarrow> nat \<Rightarrow> unit exchange_io" where
  "wait_for_request_ready os c wait_milliseconds =
     io_bind (request_deadline_timer os wait_milliseconds) (\<lambda>r. case r of
       Inl e \<Rightarrow> io_ret (exchange_failed c e)
     | Inr timer \<Rightarrow>
         io_bind (loop_io (\<lambda>_. request_poll os c timer wait_milliseconds) ()) (\<lambda>r.
         io_bind (io_call os (Close_fd timer)) (\<lambda>_. io_ret r)))"

definition receive_packet :: "broker_os \<Rightarrow> runtime_message_exchange_controller \<Rightarrow> bytes exchange_io" where
  "receive_packet os c =
     io_bind (retry os (Recvmsg (mx_fd c) (mx_max_request_bytes c + 1))) (\<lambda>a. io_ret (case a of
       Refused e \<Rightarrow> exchange_failed c (Io ''cannot receive runtime message request'' e)
     | _ \<Rightarrow>
         if packet_of a = []
         then exchange_failed c
           (Protocol ''runtime message request must be non-empty and arrive before peer shutdown'')
         else if truncated_of a \<or> length (packet_of a) > mx_max_request_bytes c
         then exchange_failed c (RuntimeRequestTooLarge (mx_max_request_bytes c))
         else (c\<lparr>mx_state := RequestReceived\<rparr>, Ok (packet_of a))))"

fun request_order_error :: "runtime_message_exchange_state \<Rightarrow> string" where
  "request_order_error RequestReceived = ''runtime message exchange already received its one request''"
| "request_order_error Complete = ''runtime message exchange permits exactly one completed round''"
| "request_order_error _ = ''runtime message exchange is closed after a protocol or I/O failure''"

definition receive_request_inner ::
  "broker_os \<Rightarrow> runtime_message_exchange_controller \<Rightarrow> nat option \<Rightarrow> bytes exchange_io" where
  "receive_request_inner os c wait_milliseconds =
     (if mx_state c \<noteq> AwaitingRequest then io_ret (c, Err (Protocol (request_order_error (mx_state c))))
      else case wait_milliseconds of
        None \<Rightarrow> receive_packet os c
      | Some ms \<Rightarrow>
          io_bind (wait_for_request_ready os c ms) (\<lambda>(c, r). case r of
            Inl e \<Rightarrow> io_ret (c, Err e)
          | Inr _ \<Rightarrow> receive_packet os c))"

definition receive_request :: "broker_os \<Rightarrow> runtime_message_exchange_controller \<Rightarrow> bytes exchange_io" where
  "receive_request os c = receive_request_inner os c None"

definition receive_request_with_deadline ::
  "broker_os \<Rightarrow> runtime_message_exchange_controller \<Rightarrow> nat \<Rightarrow> bytes exchange_io" where
  "receive_request_with_deadline os c wait_milliseconds =
     (if \<not> in_range 1 MAX_RUNTIME_MESSAGE_REQUEST_WAIT_MILLISECONDS wait_milliseconds
      then io_ret (c, Err (InvalidConfiguration ''runtime message request wait must be between 1 and {} milliseconds''))
      else receive_request_inner os c (Some wait_milliseconds))"

definition session_request_poll :: "broker_os \<Rightarrow> runtime_message_exchange_controller \<Rightarrow> raw_fd \<Rightarrow> nat
    \<Rightarrow> (unit, runtime_message_exchange_controller \<times> unit broker_result) control io" where
  "session_request_poll os c timer limit_milliseconds =
     io_bind (io_call os (Poll_two (mx_fd c) ''POLLIN'' timer)) (\<lambda>a. io_ret (case a of
       Refused e \<Rightarrow> if e = EINTR then Continue ()
         else Break (exchange_failed c (Io ''cannot poll runtime multi-message session request deadline'' e))
     | _ \<Rightarrow> let (channel, deadline) = events_of a in
         if ready_in deadline then Break (exchange_failed c (RuntimeSessionTimedOut limit_milliseconds))
         else if ready_any deadline
         then Break (exchange_failed c (Protocol ''runtime multi-message session deadline timer became unusable''))
         else if ready_any channel then Break (c, Ok ())
         else Continue ()))"

definition receive_request_with_session_deadline ::
  "broker_os \<Rightarrow> runtime_message_exchange_controller \<Rightarrow> raw_fd \<Rightarrow> nat \<Rightarrow> bytes exchange_io" where
  "receive_request_with_session_deadline os c timer limit_milliseconds =
     (if mx_state c \<noteq> AwaitingRequest then receive_request os c
      else io_bind (loop_io (\<lambda>_. session_request_poll os c timer limit_milliseconds) ()) (\<lambda>(c, r). case r of
        Inl e \<Rightarrow> io_ret (c, Err e)
      | Inr _ \<Rightarrow> receive_request os c))"

fun response_order_error :: "runtime_message_exchange_state \<Rightarrow> string" where
  "response_order_error AwaitingRequest = ''runtime message response requires a request first''"
| "response_order_error Complete = ''runtime message exchange permits exactly one completed round''"
| "response_order_error _ = ''runtime message exchange is closed after a protocol or I/O failure''"

text \<open>The checks of a response before it is sent.\<close>

definition response_error :: "runtime_message_exchange_controller \<Rightarrow> bytes \<Rightarrow> runtime_fd_broker_error option" where
  "response_error c response =
     (if response = [] then Some (Protocol ''runtime message response must be non-empty'')
      else if length response > mx_max_response_bytes c then Some (RuntimeResponseTooLarge (mx_max_response_bytes c))
      else None)"

definition unexpected_length :: runtime_fd_broker_error where
  "unexpected_length = Protocol ''runtime message response sent unexpected packet length {sent}''"

definition send_packet :: "broker_os \<Rightarrow> runtime_message_exchange_controller \<Rightarrow> bytes \<Rightarrow> unit exchange_io" where
  "send_packet os c response =
     io_bind (retry os (Send (mx_fd c) response [''MSG_NOSIGNAL''])) (\<lambda>a. io_ret (case a of
       Refused e \<Rightarrow> exchange_failed c (Io ''cannot send runtime message response'' e)
     | _ \<Rightarrow>
         if value_of a \<noteq> int (length response) then exchange_failed c unexpected_length
         else (c\<lparr>mx_state := Complete\<rparr>, Ok ())))"

text \<open>
  One attempt with \<open>MSG_DONTWAIT\<close>; \<open>again\<close> says whether an errno continues the loop, and what a
  full socket does is given by the caller.
\<close>

definition try_send_packet :: "broker_os \<Rightarrow> runtime_message_exchange_controller \<Rightarrow> bytes
    \<Rightarrow> (unit, runtime_message_exchange_controller \<times> unit broker_result) control
    \<Rightarrow> (unit, runtime_message_exchange_controller \<times> unit broker_result) control io" where
  "try_send_packet os c response blocked =
     io_bind (io_call os (Send (mx_fd c) response [''MSG_NOSIGNAL'', ''MSG_DONTWAIT''])) (\<lambda>a. io_ret (case a of
       Refused e \<Rightarrow>
         if e = EINTR then Continue ()
         else if e = EAGAIN then blocked
         else Break (exchange_failed c (Io ''cannot send runtime message response'' e))
     | _ \<Rightarrow>
         if value_of a = int (length response) then Break (c\<lparr>mx_state := Complete\<rparr>, Ok ())
         else Break (exchange_failed c unexpected_length)))"

definition response_poll :: "broker_os \<Rightarrow> runtime_message_exchange_controller \<Rightarrow> bytes \<Rightarrow> raw_fd \<Rightarrow> nat
    \<Rightarrow> (unit, runtime_message_exchange_controller \<times> unit broker_result) control io" where
  "response_poll os c response timer wait_milliseconds =
     io_bind (io_call os (Poll_two (mx_fd c) ''POLLOUT'' timer)) (\<lambda>a. case a of
       Refused e \<Rightarrow> io_ret (if e = EINTR then Continue ()
         else Break (exchange_failed c (Io ''cannot poll runtime message response publication deadline'' e)))
     | _ \<Rightarrow> let (channel, deadline) = events_of a;
           expired =
             (if ready_in deadline then Break (exchange_failed c (RuntimeResponseTimedOut wait_milliseconds))
              else if ready_any deadline
              then Break (exchange_failed c (Protocol ''runtime message response deadline timer became unusable''))
              else Continue ()) in
         if ready_any channel then try_send_packet os c response expired
         else io_ret expired)"

definition send_response_with_timer ::
  "broker_os \<Rightarrow> runtime_message_exchange_controller \<Rightarrow> bytes \<Rightarrow> nat \<Rightarrow> unit exchange_io" where
  "send_response_with_timer os c response wait_milliseconds =
     io_bind (response_deadline_timer os wait_milliseconds) (\<lambda>r. case r of
       Inl e \<Rightarrow> io_ret (exchange_failed c e)
     | Inr timer \<Rightarrow>
         io_bind (loop_io (\<lambda>_. response_poll os c response timer wait_milliseconds) ()) (\<lambda>r.
         io_bind (io_call os (Close_fd timer)) (\<lambda>_. io_ret r)))"

definition send_response_inner ::
  "broker_os \<Rightarrow> runtime_message_exchange_controller \<Rightarrow> bytes \<Rightarrow> nat option \<Rightarrow> unit exchange_io" where
  "send_response_inner os c response wait_milliseconds =
     (if mx_state c \<noteq> RequestReceived then io_ret (c, Err (Protocol (response_order_error (mx_state c))))
      else case response_error c response of
        Some e \<Rightarrow> io_ret (exchange_failed c e)
      | None \<Rightarrow>
          (case wait_milliseconds of
             Some ms \<Rightarrow> send_response_with_timer os c response ms
           | None \<Rightarrow> send_packet os c response))"

definition send_response :: "broker_os \<Rightarrow> runtime_message_exchange_controller \<Rightarrow> bytes \<Rightarrow> unit exchange_io" where
  "send_response os c response = send_response_inner os c response None"

definition send_response_with_deadline ::
  "broker_os \<Rightarrow> runtime_message_exchange_controller \<Rightarrow> bytes \<Rightarrow> nat \<Rightarrow> unit exchange_io" where
  "send_response_with_deadline os c response wait_milliseconds =
     (if \<not> in_range 1 MAX_RUNTIME_MESSAGE_RESPONSE_WAIT_MILLISECONDS wait_milliseconds
      then io_ret (c, Err (InvalidConfiguration
        ''runtime message response publication wait must be between 1 and {} milliseconds''))
      else send_response_inner os c response (Some wait_milliseconds))"

definition session_response_poll :: "broker_os \<Rightarrow> runtime_message_exchange_controller \<Rightarrow> bytes \<Rightarrow> raw_fd \<Rightarrow> nat
    \<Rightarrow> (unit, runtime_message_exchange_controller \<times> unit broker_result) control io" where
  "session_response_poll os c response timer limit_milliseconds =
     io_bind (io_call os (Poll_two (mx_fd c) ''POLLOUT'' timer)) (\<lambda>a. case a of
       Refused e \<Rightarrow> io_ret (if e = EINTR then Continue ()
         else Break (exchange_failed c (Io ''cannot poll runtime multi-message session response deadline'' e)))
     | _ \<Rightarrow> let (channel, deadline) = events_of a in
         if ready_in deadline then io_ret (Break (exchange_failed c (RuntimeSessionTimedOut limit_milliseconds)))
         else if ready_any deadline
         then io_ret (Break (exchange_failed c (Protocol ''runtime multi-message session deadline timer became unusable'')))
         else if ready_any channel then try_send_packet os c response (Continue ())
         else io_ret (Continue ()))"

definition send_response_with_session_deadline ::
  "broker_os \<Rightarrow> runtime_message_exchange_controller \<Rightarrow> bytes \<Rightarrow> raw_fd \<Rightarrow> nat \<Rightarrow> unit exchange_io" where
  "send_response_with_session_deadline os c response timer limit_milliseconds =
     (if mx_state c \<noteq> RequestReceived then send_response os c response
      else case response_error c response of
        Some e \<Rightarrow> io_ret (exchange_failed c e)
      | None \<Rightarrow> loop_io (\<lambda>_. session_response_poll os c response timer limit_milliseconds) ())"

definition message_bounds_error :: "string \<Rightarrow> string \<Rightarrow> nat \<Rightarrow> nat \<Rightarrow> runtime_fd_broker_error option" where
  "message_bounds_error request_text response_text max_request_bytes max_response_bytes =
     (if max_request_bytes = 0 \<or> max_request_bytes > MAX_RUNTIME_MESSAGE_BYTES
      then Some (InvalidConfiguration request_text)
      else if max_response_bytes = 0 \<or> max_response_bytes > MAX_RUNTIME_MESSAGE_BYTES
      then Some (InvalidConfiguration response_text)
      else None)"

definition prepare_runtime_message_exchange ::
  "broker_os \<Rightarrow> nat \<Rightarrow> nat \<Rightarrow> (raw_fd \<times> runtime_message_exchange_controller) broker_result io" where
  "prepare_runtime_message_exchange os max_request_bytes max_response_bytes =
     (case message_bounds_error ''runtime message max_request_bytes must be between 1 and {}''
         ''runtime message max_response_bytes must be between 1 and {}'' max_request_bytes max_response_bytes of
        Some e \<Rightarrow> io_ret (Err e)
      | None \<Rightarrow>
          io_try (io_answer os (Socketpair ''SOCK_SEQPACKET|SOCK_CLOEXEC'')
            (Io ''cannot create runtime message exchange socketpair'')) (\<lambda>a.
          let (target, own) = pair_of a in
          io_ret (Ok (target, \<lparr>mx_fd = own, mx_max_request_bytes = max_request_bytes,
            mx_max_response_bytes = max_response_bytes, mx_state = AwaitingRequest\<rparr>))))"

section \<open>Several rounds\<close>

record runtime_multi_message_exchange_controller =
  mm_controller :: runtime_message_exchange_controller
  mm_max_rounds :: nat
  mm_completed_rounds :: nat
  mm_session_deadline :: "(raw_fd \<times> nat) option"

type_synonym 'a multi_io = "(runtime_multi_message_exchange_controller \<times> 'a broker_result) io"

definition multi_is_complete :: "runtime_multi_message_exchange_controller \<Rightarrow> bool" where
  "multi_is_complete m \<longleftrightarrow> mm_completed_rounds m = mm_max_rounds m \<and> is_complete (mm_controller m)"

definition start_session_deadline ::
  "broker_os \<Rightarrow> runtime_multi_message_exchange_controller \<Rightarrow> nat \<Rightarrow> unit multi_io" where
  "start_session_deadline os m limit_milliseconds =
     (if \<not> in_range 1 MAX_RUNTIME_MULTI_MESSAGE_SESSION_MILLISECONDS limit_milliseconds
      then io_ret (m, Err (InvalidConfiguration
        ''runtime multi-message session lifetime must be between 1 and {} milliseconds''))
      else if mm_session_deadline m \<noteq> None
      then io_ret (m, Err (InvalidConfiguration ''runtime multi-message session deadline cannot be reset''))
      else if mm_completed_rounds m \<noteq> 0 \<or> mx_state (mm_controller m) \<noteq> AwaitingRequest
      then io_ret (m, Err (InvalidConfiguration
        ''runtime multi-message session deadline must be armed before the first request''))
      else io_bind (session_deadline_timer os limit_milliseconds) (\<lambda>r. io_ret (case r of
        Inr timer \<Rightarrow> (m\<lparr>mm_session_deadline := Some (timer, limit_milliseconds)\<rparr>, Ok ())
      | Inl e \<Rightarrow> (m\<lparr>mm_controller := (mm_controller m)\<lparr>mx_state := Exchange_Failed\<rparr>\<rparr>, Err e))))"

definition reject_after_round_limit :: "runtime_multi_message_exchange_controller \<Rightarrow> unit broker_result" where
  "reject_after_round_limit m =
     reject (multi_is_complete m)
       (Protocol ''runtime multi-message exchange reached its configured round limit'')"

text \<open>An operation of the inner controller, and the early return before it.\<close>

definition on_controller ::
  "runtime_multi_message_exchange_controller \<Rightarrow> 'a exchange_io \<Rightarrow> 'a multi_io" where
  "on_controller m op = io_bind op (\<lambda>(c, r). io_ret (m\<lparr>mm_controller := c\<rparr>, r))"

definition multi_guard ::
  "runtime_multi_message_exchange_controller \<Rightarrow> unit broker_result \<Rightarrow> 'a multi_io \<Rightarrow> 'a multi_io" where
  "multi_guard m check op = (case check of Inl e \<Rightarrow> io_ret (m, Err e) | Inr _ \<Rightarrow> op)"

definition multi_receive_request :: "broker_os \<Rightarrow> runtime_multi_message_exchange_controller \<Rightarrow> bytes multi_io" where
  "multi_receive_request os m =
     multi_guard m (reject_after_round_limit m)
       (on_controller m (case mm_session_deadline m of
          Some (timer, limit_milliseconds) \<Rightarrow>
            receive_request_with_session_deadline os (mm_controller m) timer limit_milliseconds
        | None \<Rightarrow> receive_request os (mm_controller m)))"

definition per_operation_checks :: "runtime_multi_message_exchange_controller \<Rightarrow> string \<Rightarrow> unit broker_result" where
  "per_operation_checks m combined = checks [
     reject_after_round_limit m,
     reject (mx_state (mm_controller m) = Exchange_Failed)
       (Protocol ''runtime message exchange is closed after a protocol or I/O failure''),
     reject (mm_session_deadline m \<noteq> None) (InvalidConfiguration combined)]"

definition multi_receive_request_with_deadline ::
  "broker_os \<Rightarrow> runtime_multi_message_exchange_controller \<Rightarrow> nat \<Rightarrow> bytes multi_io" where
  "multi_receive_request_with_deadline os m wait_milliseconds =
     multi_guard m (per_operation_checks m
         ''per-operation request deadlines cannot be combined with an active runtime multi-message session deadline'')
       (on_controller m (receive_request_with_deadline os (mm_controller m) wait_milliseconds))"

definition complete_response_round ::
  "runtime_multi_message_exchange_controller \<Rightarrow> runtime_multi_message_exchange_controller" where
  "complete_response_round m =
     (let m = m\<lparr>mm_completed_rounds := mm_completed_rounds m + 1\<rparr> in
      if mm_completed_rounds m < mm_max_rounds m
      then m\<lparr>mm_controller := (mm_controller m)\<lparr>mx_state := AwaitingRequest\<rparr>\<rparr>
      else m)"

definition finish_response ::
  "runtime_multi_message_exchange_controller \<Rightarrow> unit exchange_io \<Rightarrow> unit multi_io" where
  "finish_response m op =
     io_bind (on_controller m op) (\<lambda>(m, r). io_ret (case r of
       Inl e \<Rightarrow> (m, Err e)
     | Inr _ \<Rightarrow> (complete_response_round m, Ok ())))"

definition multi_send_response :: "broker_os \<Rightarrow> runtime_multi_message_exchange_controller \<Rightarrow> bytes \<Rightarrow> unit multi_io" where
  "multi_send_response os m response =
     multi_guard m (reject_after_round_limit m)
       (finish_response m (case mm_session_deadline m of
          Some (timer, limit_milliseconds) \<Rightarrow>
            send_response_with_session_deadline os (mm_controller m) response timer limit_milliseconds
        | None \<Rightarrow> send_response os (mm_controller m) response))"

definition multi_send_response_with_deadline ::
  "broker_os \<Rightarrow> runtime_multi_message_exchange_controller \<Rightarrow> bytes \<Rightarrow> nat \<Rightarrow> unit multi_io" where
  "multi_send_response_with_deadline os m response wait_milliseconds =
     multi_guard m (per_operation_checks m
         ''per-operation response deadlines cannot be combined with an active runtime multi-message session deadline'')
       (finish_response m (send_response_with_deadline os (mm_controller m) response wait_milliseconds))"

definition prepare_runtime_multi_message_exchange ::
  "broker_os \<Rightarrow> nat \<Rightarrow> nat \<Rightarrow> nat \<Rightarrow> (raw_fd \<times> runtime_multi_message_exchange_controller) broker_result io" where
  "prepare_runtime_multi_message_exchange os max_request_bytes max_response_bytes max_rounds =
     (if \<not> in_range MIN_RUNTIME_MULTI_MESSAGE_ROUNDS MAX_RUNTIME_MULTI_MESSAGE_ROUNDS max_rounds
      then io_ret (Err (InvalidConfiguration ''runtime multi-message max_rounds must be between {} and {}''))
      else io_try (prepare_runtime_message_exchange os max_request_bytes max_response_bytes) (\<lambda>(grant, controller).
        io_ret (Ok (grant, \<lparr>mm_controller = controller, mm_max_rounds = max_rounds, mm_completed_rounds = 0,
          mm_session_deadline = None\<rparr>))))"

end
