(* ===== verification/Broker_Correlated.thy ===== *)
theory Broker_Correlated
  imports Broker_Exchange
begin

text \<open>
  The correlated exchanges of \<open>runtime_fd_broker.rs\<close>: requests that carry an id, several of them in
  flight, responses in any order (\<open>RuntimeCorrelatedMessageExchangeController\<close>), the same with
  HMAC-SHA256 frames under a fresh challenge
  (\<open>RuntimeAuthenticatedCorrelatedMessageExchangeController\<close>), and with an acknowledgment
  barrier for every response (\<open>RuntimeAcknowledgedCorrelatedMessageExchangeController\<close>). The
  libraries \<open>hmac\<close> and \<open>sha2\<close> are parameters. A \<open>BTreeSet\<close> of request ids is a sorted list; an id
  is a natural number below \<open>2 ^ 64\<close>.
\<close>

definition MIN_RUNTIME_CORRELATED_REQUESTS :: nat where "MIN_RUNTIME_CORRELATED_REQUESTS = 2"
definition MAX_RUNTIME_CORRELATED_REQUESTS :: nat where "MAX_RUNTIME_CORRELATED_REQUESTS = 32"
definition MIN_RUNTIME_CORRELATED_IN_FLIGHT :: nat where "MIN_RUNTIME_CORRELATED_IN_FLIGHT = 2"
definition MAX_RUNTIME_CORRELATED_IN_FLIGHT :: nat where "MAX_RUNTIME_CORRELATED_IN_FLIGHT = 8"
definition RUNTIME_AUTH_CHALLENGE_BYTES :: nat where "RUNTIME_AUTH_CHALLENGE_BYTES = 32"
definition RUNTIME_AUTH_TAG_BYTES :: nat where "RUNTIME_AUTH_TAG_BYTES = 32"

record runtime_correlated_request =
  request_id :: nat
  payload :: bytes

section \<open>Correlated exchange\<close>

record runtime_correlated_message_exchange_controller =
  cx_fd :: raw_fd
  cx_max_request_bytes :: nat
  cx_max_response_bytes :: nat
  cx_max_requests :: nat
  cx_max_in_flight :: nat
  cx_received_requests :: nat
  cx_completed_responses :: nat
  cx_seen_request_ids :: "nat btreeset"
  cx_pending_request_ids :: "nat btreeset"
  cx_failed :: bool

type_synonym 'a correlated_io = "(runtime_correlated_message_exchange_controller \<times> 'a broker_result) io"

abbreviation correlated_failed ::
  "runtime_correlated_message_exchange_controller \<Rightarrow> runtime_fd_broker_error
    \<Rightarrow> runtime_correlated_message_exchange_controller \<times> 'a broker_result" where
  "correlated_failed c e \<equiv> (c\<lparr>cx_failed := True\<rparr>, Err e)"

definition correlated_is_complete :: "runtime_correlated_message_exchange_controller \<Rightarrow> bool" where
  "correlated_is_complete c \<longleftrightarrow>
     \<not> cx_failed c \<and> cx_received_requests c = cx_max_requests c \<and>
     cx_completed_responses c = cx_max_requests c \<and> cx_pending_request_ids c = []"

definition correlated_closed :: runtime_fd_broker_error where
  "correlated_closed = Protocol ''runtime correlated exchange is closed after a protocol or I/O failure''"

text \<open>The bookkeeping of a decoded request: both sets, the counter and the result.\<close>

definition accept_correlated :: "runtime_correlated_message_exchange_controller \<Rightarrow> nat \<Rightarrow> bytes
    \<Rightarrow> runtime_correlated_message_exchange_controller \<times> runtime_correlated_request broker_result" where
  "accept_correlated c rid body =
     (if rid \<in> set (cx_seen_request_ids c) then correlated_failed c (RuntimeDuplicateRequestId rid)
      else let c = c\<lparr>cx_seen_request_ids := btreeset_insert rid (cx_seen_request_ids c)\<rparr> in
        if rid \<in> set (cx_pending_request_ids c)
        then correlated_failed c (Protocol ''runtime correlated request pending-set insertion was inconsistent'')
        else (c\<lparr>cx_pending_request_ids := btreeset_insert rid (cx_pending_request_ids c),
                cx_received_requests := cx_received_requests c + 1\<rparr>,
              Ok \<lparr>request_id = rid, payload = body\<rparr>))"

definition decode_correlated :: "runtime_correlated_message_exchange_controller \<Rightarrow> broker_answer
    \<Rightarrow> runtime_correlated_message_exchange_controller \<times> runtime_correlated_request broker_result" where
  "decode_correlated c a = (case a of
       Refused e \<Rightarrow> correlated_failed c (Io ''cannot receive runtime correlated request'' e)
     | _ \<Rightarrow>
         if packet_of a = []
         then correlated_failed c (Protocol ''runtime correlated request must arrive before peer shutdown'')
         else if truncated_of a \<or> length (packet_of a) > cx_max_request_bytes c + 8
         then correlated_failed c (RuntimeRequestTooLarge (cx_max_request_bytes c))
         else if length (packet_of a) < 9
         then correlated_failed c
           (Protocol ''runtime correlated request requires an 8-byte request id and a non-empty payload'')
         else accept_correlated c (from_le (take 8 (packet_of a))) (drop 8 (packet_of a)))"

definition correlated_receive_request ::
  "broker_os \<Rightarrow> runtime_correlated_message_exchange_controller \<Rightarrow> runtime_correlated_request correlated_io" where
  "correlated_receive_request os c =
     (if cx_failed c then io_ret (c, Err correlated_closed)
      else if cx_received_requests c = cx_max_requests c
      then io_ret (c, Err (Protocol ''runtime correlated exchange reached its configured request limit''))
      else if length (cx_pending_request_ids c) = cx_max_in_flight c
      then io_ret (c, Err (InvalidConfiguration ''runtime correlated exchange reached its in-flight request limit; publish a response before receiving another request''))
      else io_bind (retry os (Recvmsg (cx_fd c) (cx_max_request_bytes c + 9))) (\<lambda>a. io_ret (decode_correlated c a)))"

definition correlated_frame :: "nat \<Rightarrow> bytes \<Rightarrow> bytes" where
  "correlated_frame rid response = le_bytes 8 rid @ response"

definition correlated_sent :: "runtime_correlated_message_exchange_controller \<Rightarrow> nat \<Rightarrow> bytes \<Rightarrow> broker_answer
    \<Rightarrow> runtime_correlated_message_exchange_controller \<times> unit broker_result" where
  "correlated_sent c rid frame a = (case a of
       Refused e \<Rightarrow> correlated_failed c
         (if e = EAGAIN
          then Protocol ''runtime correlated response publication would block; the controller does not buffer responses''
          else Io ''cannot send runtime correlated response'' e)
     | _ \<Rightarrow>
         if value_of a = int (length frame)
         then (c\<lparr>cx_pending_request_ids := removeAll rid (cx_pending_request_ids c),
                 cx_completed_responses := cx_completed_responses c + 1\<rparr>, Ok ())
         else correlated_failed c (Protocol ''runtime correlated response sent unexpected packet length {sent}''))"

definition correlated_send_response ::
  "broker_os \<Rightarrow> runtime_correlated_message_exchange_controller \<Rightarrow> nat \<Rightarrow> bytes \<Rightarrow> unit correlated_io" where
  "correlated_send_response os c rid response =
     (if cx_failed c then io_ret (c, Err correlated_closed)
      else if rid \<notin> set (cx_pending_request_ids c) then io_ret (correlated_failed c (RuntimeUnknownRequestId rid))
      else if response = []
      then io_ret (correlated_failed c (Protocol ''runtime correlated response must be non-empty''))
      else if length response > cx_max_response_bytes c
      then io_ret (correlated_failed c (RuntimeResponseTooLarge (cx_max_response_bytes c)))
      else
        let frame = correlated_frame rid response in
        io_bind (retry os (Send (cx_fd c) frame [''MSG_NOSIGNAL'', ''MSG_DONTWAIT'']))
          (\<lambda>a. io_ret (correlated_sent c rid frame a)))"

text \<open>The bounds shared by the correlated exchanges.\<close>

definition correlated_bounds_error ::
  "string \<Rightarrow> string \<Rightarrow> string \<Rightarrow> string \<Rightarrow> nat \<Rightarrow> nat \<Rightarrow> nat \<Rightarrow> nat \<Rightarrow> runtime_fd_broker_error option" where
  "correlated_bounds_error request_text response_text requests_text in_flight_text
     max_request_bytes max_response_bytes max_requests max_in_flight =
     (case message_bounds_error request_text response_text max_request_bytes max_response_bytes of
        Some e \<Rightarrow> Some e
      | None \<Rightarrow>
          if \<not> in_range MIN_RUNTIME_CORRELATED_REQUESTS MAX_RUNTIME_CORRELATED_REQUESTS max_requests
          then Some (InvalidConfiguration requests_text)
          else if \<not> in_range MIN_RUNTIME_CORRELATED_IN_FLIGHT MAX_RUNTIME_CORRELATED_IN_FLIGHT max_in_flight \<or>
            max_in_flight > max_requests
          then Some (InvalidConfiguration in_flight_text)
          else None)"

definition prepare_runtime_correlated_exchange :: "broker_os \<Rightarrow> nat \<Rightarrow> nat \<Rightarrow> nat \<Rightarrow> nat
    \<Rightarrow> (raw_fd \<times> runtime_correlated_message_exchange_controller) broker_result io" where
  "prepare_runtime_correlated_exchange os max_request_bytes max_response_bytes max_requests max_in_flight =
     (case correlated_bounds_error ''runtime correlated max_request_bytes must be between 1 and {}''
         ''runtime correlated max_response_bytes must be between 1 and {}''
         ''runtime correlated max_requests must be between {} and {}''
         ''runtime correlated max_in_flight must be between {} and {}, and may not exceed max_requests''
         max_request_bytes max_response_bytes max_requests max_in_flight of
        Some e \<Rightarrow> io_ret (Err e)
      | None \<Rightarrow>
          io_try (io_answer os (Socketpair ''SOCK_SEQPACKET|SOCK_CLOEXEC'')
            (Io ''cannot create runtime correlated exchange socketpair'')) (\<lambda>a.
          let (target, own) = pair_of a in
          io_ret (Ok (target, \<lparr>cx_fd = own, cx_max_request_bytes = max_request_bytes,
            cx_max_response_bytes = max_response_bytes, cx_max_requests = max_requests,
            cx_max_in_flight = max_in_flight, cx_received_requests = 0, cx_completed_responses = 0,
            cx_seen_request_ids = [], cx_pending_request_ids = [], cx_failed = False\<rparr>))))"

section \<open>Authentication\<close>

record runtime_crypto =
  rt_hmac_sha256 :: "bytes \<Rightarrow> bytes \<Rightarrow> bytes"
  rt_sha256 :: "bytes \<Rightarrow> bytes"

definition RUNTIME_AUTH_PROTOCOL_VERSION :: u8 where "RUNTIME_AUTH_PROTOCOL_VERSION = 1"
definition RUNTIME_AUTH_CHALLENGE_KIND :: u8 where "RUNTIME_AUTH_CHALLENGE_KIND = 67"
definition RUNTIME_AUTH_REQUEST_KIND :: u8 where "RUNTIME_AUTH_REQUEST_KIND = 81"
definition RUNTIME_AUTH_RESPONSE_KIND :: u8 where "RUNTIME_AUTH_RESPONSE_KIND = 83"
definition RUNTIME_AUTH_ACKNOWLEDGMENT_KIND :: u8 where "RUNTIME_AUTH_ACKNOWLEDGMENT_KIND = 65"
definition RUNTIME_AUTH_DOMAIN :: bytes where
  "RUNTIME_AUTH_DOMAIN = b_lit ''security-lab-runtime-correlated-hmac-sha256-v1'' @ [0]"

text \<open>The bytes that are fed to the MAC, in order.\<close>

definition runtime_auth_input :: "bytes \<Rightarrow> u8 \<Rightarrow> nat \<Rightarrow> bytes \<Rightarrow> bytes" where
  "runtime_auth_input challenge kind rid body =
     RUNTIME_AUTH_DOMAIN @ challenge @ [kind, RUNTIME_AUTH_PROTOCOL_VERSION] @ le_bytes 8 rid @
     le_bytes 8 (length body) @ body"

definition runtime_auth_mac :: "runtime_crypto \<Rightarrow> bytes \<Rightarrow> bytes \<Rightarrow> u8 \<Rightarrow> nat \<Rightarrow> bytes \<Rightarrow> bytes" where
  "runtime_auth_mac cr key challenge kind rid body = rt_hmac_sha256 cr key (runtime_auth_input challenge kind rid body)"

definition runtime_auth_tag :: "runtime_crypto \<Rightarrow> bytes \<Rightarrow> bytes \<Rightarrow> u8 \<Rightarrow> nat \<Rightarrow> bytes \<Rightarrow> bytes" where
  "runtime_auth_tag cr key challenge kind rid body = runtime_auth_mac cr key challenge kind rid body"

definition runtime_response_sha256 :: "runtime_crypto \<Rightarrow> bytes \<Rightarrow> bytes" where
  "runtime_response_sha256 cr body = rt_sha256 cr body"

definition runtime_auth_verify :: "runtime_crypto \<Rightarrow> bytes \<Rightarrow> bytes \<Rightarrow> u8 \<Rightarrow> nat \<Rightarrow> bytes \<Rightarrow> bytes \<Rightarrow> bool" where
  "runtime_auth_verify cr key challenge kind rid body tag \<longleftrightarrow> runtime_auth_mac cr key challenge kind rid body = tag"

text \<open>The loop over \<open>getrandom\<close>; its variable is the part of the challenge already filled.\<close>

definition challenge_step :: "broker_os \<Rightarrow> bytes \<Rightarrow> (bytes, bytes broker_result) control io" where
  "challenge_step os filled =
     (if length filled \<ge> RUNTIME_AUTH_CHALLENGE_BYTES then io_ret (Break (Ok filled))
      else io_bind (io_call os (Getrandom (RUNTIME_AUTH_CHALLENGE_BYTES - length filled))) (\<lambda>a. io_ret (case a of
        Refused e \<Rightarrow>
          if e = EINTR then Continue filled
          else if e = ENOSYS
          then Break (Err (UnsupportedPlatform ''authenticated runtime exchanges require Linux getrandom''))
          else Break (Err (Io ''cannot generate authenticated runtime session challenge'' e))
      | _ \<Rightarrow>
          if bytes_of a = []
          then Break (Err (Protocol ''authenticated runtime session challenge generation made no progress''))
          else Continue (filled @ bytes_of a))))"

definition random_runtime_auth_challenge :: "broker_os \<Rightarrow> bytes broker_result io" where
  "random_runtime_auth_challenge os = loop_io (challenge_step os) []"

record runtime_authenticated_correlated_message_exchange_controller =
  ax_fd :: raw_fd
  ax_max_request_bytes :: nat
  ax_max_response_bytes :: nat
  ax_max_requests :: nat
  ax_max_in_flight :: nat
  ax_received_requests :: nat
  ax_completed_responses :: nat
  ax_seen_request_ids :: "nat btreeset"
  ax_pending_request_ids :: "nat btreeset"
  ax_key :: bytes
  ax_challenge :: bytes
  ax_challenge_published :: bool
  ax_failed :: bool

type_synonym 'a authenticated_io =
  "(runtime_authenticated_correlated_message_exchange_controller \<times> 'a broker_result) io"

abbreviation authenticated_failed ::
  "runtime_authenticated_correlated_message_exchange_controller \<Rightarrow> runtime_fd_broker_error
    \<Rightarrow> runtime_authenticated_correlated_message_exchange_controller \<times> 'a broker_result" where
  "authenticated_failed c e \<equiv> (c\<lparr>ax_failed := True\<rparr>, Err e)"

definition authenticated_is_complete :: "runtime_authenticated_correlated_message_exchange_controller \<Rightarrow> bool" where
  "authenticated_is_complete c \<longleftrightarrow>
     \<not> ax_failed c \<and> ax_challenge_published c \<and> ax_received_requests c = ax_max_requests c \<and>
     ax_completed_responses c = ax_max_requests c \<and> ax_pending_request_ids c = []"

definition authenticated_closed :: runtime_fd_broker_error where
  "authenticated_closed = Protocol ''authenticated runtime correlated exchange is closed after a protocol, authentication, or I/O failure''"

definition challenge_frame :: "runtime_authenticated_correlated_message_exchange_controller \<Rightarrow> bytes" where
  "challenge_frame c = [RUNTIME_AUTH_CHALLENGE_KIND, RUNTIME_AUTH_PROTOCOL_VERSION] @ ax_challenge c"

definition publish_challenge ::
  "broker_os \<Rightarrow> runtime_authenticated_correlated_message_exchange_controller \<Rightarrow> unit authenticated_io" where
  "publish_challenge os c =
     (if ax_failed c then io_ret (c, Err authenticated_closed)
      else if ax_challenge_published c
      then io_ret (c, Err (InvalidConfiguration ''authenticated runtime session challenge may be published exactly once''))
      else
        let frame = challenge_frame c in
        io_bind (retry os (Send (ax_fd c) frame [''MSG_NOSIGNAL''])) (\<lambda>a. io_ret (case a of
          Refused e \<Rightarrow> authenticated_failed c (Io ''cannot publish authenticated runtime session challenge'' e)
        | _ \<Rightarrow>
            if value_of a = int (length frame) then (c\<lparr>ax_challenge_published := True\<rparr>, Ok ())
            else authenticated_failed c
              (Protocol ''authenticated runtime challenge sent unexpected packet length {sent}''))))"

definition accept_authenticated :: "runtime_authenticated_correlated_message_exchange_controller \<Rightarrow> nat \<Rightarrow> bytes
    \<Rightarrow> runtime_authenticated_correlated_message_exchange_controller \<times> runtime_correlated_request broker_result" where
  "accept_authenticated c rid body =
     (if rid \<in> set (ax_seen_request_ids c) then authenticated_failed c (RuntimeDuplicateRequestId rid)
      else let c = c\<lparr>ax_seen_request_ids := btreeset_insert rid (ax_seen_request_ids c)\<rparr> in
        if rid \<in> set (ax_pending_request_ids c)
        then authenticated_failed c (Protocol ''authenticated runtime request pending-set insertion was inconsistent'')
        else (c\<lparr>ax_pending_request_ids := btreeset_insert rid (ax_pending_request_ids c),
                ax_received_requests := ax_received_requests c + 1\<rparr>,
              Ok \<lparr>request_id = rid, payload = body\<rparr>))"

definition framing_bytes :: nat where
  "framing_bytes = 2 + 8 + RUNTIME_AUTH_TAG_BYTES"

definition decode_authenticated :: "runtime_crypto \<Rightarrow> runtime_authenticated_correlated_message_exchange_controller
    \<Rightarrow> broker_answer
    \<Rightarrow> runtime_authenticated_correlated_message_exchange_controller \<times> runtime_correlated_request broker_result" where
  "decode_authenticated cr c a = (case a of
       Refused e \<Rightarrow> authenticated_failed c (Io ''cannot receive authenticated runtime correlated request'' e)
     | _ \<Rightarrow>
         let frame = packet_of a; rid = from_le (take 8 (drop 2 frame));
             payload_end = length frame - RUNTIME_AUTH_TAG_BYTES;
             body = drop 10 (take payload_end frame); tag = drop payload_end frame in
         if frame = []
         then authenticated_failed c (Protocol ''authenticated runtime request must arrive before peer shutdown'')
         else if truncated_of a \<or> length frame > ax_max_request_bytes c + framing_bytes
         then authenticated_failed c (RuntimeRequestTooLarge (ax_max_request_bytes c))
         else if length frame \<le> framing_bytes
         then authenticated_failed c (Protocol ''authenticated runtime request requires type/version, an 8-byte request id, a non-empty payload, and a 32-byte tag'')
         else if frame ! 0 \<noteq> RUNTIME_AUTH_REQUEST_KIND \<or> frame ! 1 \<noteq> RUNTIME_AUTH_PROTOCOL_VERSION
         then authenticated_failed c
           (Protocol ''authenticated runtime request has an unsupported frame type or version'')
         else if \<not> runtime_auth_verify cr (ax_key c) (ax_challenge c) RUNTIME_AUTH_REQUEST_KIND rid body tag
         then authenticated_failed c RuntimeAuthenticationFailed
         else accept_authenticated c rid body)"

definition authenticated_receive_request :: "runtime_crypto \<Rightarrow> broker_os
    \<Rightarrow> runtime_authenticated_correlated_message_exchange_controller \<Rightarrow> runtime_correlated_request authenticated_io" where
  "authenticated_receive_request cr os c =
     (if ax_failed c then io_ret (c, Err authenticated_closed)
      else if \<not> ax_challenge_published c
      then io_ret (c, Err (InvalidConfiguration ''authenticated runtime session challenge must be published before receiving requests''))
      else if ax_received_requests c = ax_max_requests c
      then io_ret (c, Err (Protocol ''authenticated runtime correlated exchange reached its configured request limit''))
      else if length (ax_pending_request_ids c) = ax_max_in_flight c
      then io_ret (c, Err (InvalidConfiguration ''authenticated runtime correlated exchange reached its in-flight request limit; publish a response before receiving another request''))
      else io_bind (retry os (Recvmsg (ax_fd c) (ax_max_request_bytes c + framing_bytes)))
        (\<lambda>a. io_ret (decode_authenticated cr c a)))"

definition authenticated_frame ::
  "runtime_crypto \<Rightarrow> runtime_authenticated_correlated_message_exchange_controller \<Rightarrow> nat \<Rightarrow> bytes \<Rightarrow> bytes" where
  "authenticated_frame cr c rid response =
     [RUNTIME_AUTH_RESPONSE_KIND, RUNTIME_AUTH_PROTOCOL_VERSION] @ le_bytes 8 rid @ response @
     runtime_auth_tag cr (ax_key c) (ax_challenge c) RUNTIME_AUTH_RESPONSE_KIND rid response"

definition authenticated_sent :: "runtime_authenticated_correlated_message_exchange_controller \<Rightarrow> nat \<Rightarrow> bytes \<Rightarrow> broker_answer
    \<Rightarrow> runtime_authenticated_correlated_message_exchange_controller \<times> unit broker_result" where
  "authenticated_sent c rid frame a = (case a of
       Refused e \<Rightarrow> authenticated_failed c
         (if e = EAGAIN
          then Protocol ''authenticated runtime correlated response publication would block; the controller does not buffer responses''
          else Io ''cannot send authenticated runtime correlated response'' e)
     | _ \<Rightarrow>
         if value_of a = int (length frame)
         then (c\<lparr>ax_pending_request_ids := removeAll rid (ax_pending_request_ids c),
                 ax_completed_responses := ax_completed_responses c + 1\<rparr>, Ok ())
         else authenticated_failed c (Protocol ''authenticated runtime correlated response sent unexpected packet length {sent}''))"

definition authenticated_send_response :: "runtime_crypto \<Rightarrow> broker_os
    \<Rightarrow> runtime_authenticated_correlated_message_exchange_controller \<Rightarrow> nat \<Rightarrow> bytes \<Rightarrow> unit authenticated_io" where
  "authenticated_send_response cr os c rid response =
     (if ax_failed c then io_ret (c, Err authenticated_closed)
      else if \<not> ax_challenge_published c
      then io_ret (c, Err (InvalidConfiguration ''authenticated runtime session challenge must be published before sending responses''))
      else if rid \<notin> set (ax_pending_request_ids c) then io_ret (authenticated_failed c (RuntimeUnknownRequestId rid))
      else if response = []
      then io_ret (authenticated_failed c (Protocol ''authenticated runtime correlated response must be non-empty''))
      else if length response > ax_max_response_bytes c
      then io_ret (authenticated_failed c (RuntimeResponseTooLarge (ax_max_response_bytes c)))
      else
        let frame = authenticated_frame cr c rid response in
        io_bind (retry os (Send (ax_fd c) frame [''MSG_NOSIGNAL'', ''MSG_DONTWAIT'']))
          (\<lambda>a. io_ret (authenticated_sent c rid frame a)))"

definition prepare_runtime_authenticated_correlated_exchange :: "broker_os \<Rightarrow> nat \<Rightarrow> nat \<Rightarrow> nat \<Rightarrow> nat \<Rightarrow> bytes
    \<Rightarrow> (raw_fd \<times> runtime_authenticated_correlated_message_exchange_controller) broker_result io" where
  "prepare_runtime_authenticated_correlated_exchange os max_request_bytes max_response_bytes max_requests max_in_flight key =
     (case correlated_bounds_error ''authenticated runtime correlated max_request_bytes must be between 1 and {}''
         ''authenticated runtime correlated max_response_bytes must be between 1 and {}''
         ''authenticated runtime correlated max_requests must be between {} and {}''
         ''authenticated runtime correlated max_in_flight must be between {} and {}, and may not exceed max_requests''
         max_request_bytes max_response_bytes max_requests max_in_flight of
        Some e \<Rightarrow> io_ret (Err e)
      | None \<Rightarrow>
          io_try (random_runtime_auth_challenge os) (\<lambda>challenge.
          io_try (io_answer os (Socketpair ''SOCK_SEQPACKET|SOCK_CLOEXEC'')
            (Io ''cannot create authenticated runtime correlated exchange socketpair'')) (\<lambda>a.
          let (target, own) = pair_of a in
          io_ret (Ok (target, \<lparr>ax_fd = own, ax_max_request_bytes = max_request_bytes,
            ax_max_response_bytes = max_response_bytes, ax_max_requests = max_requests,
            ax_max_in_flight = max_in_flight, ax_received_requests = 0, ax_completed_responses = 0,
            ax_seen_request_ids = [], ax_pending_request_ids = [], ax_key = key, ax_challenge = challenge,
            ax_challenge_published = False, ax_failed = False\<rparr>)))))"

section \<open>Acknowledgments\<close>

record runtime_response_acknowledgment_expectation =
  expected_request_id :: nat
  expected_response_sha256 :: bytes

record runtime_acknowledged_correlated_message_exchange_controller =
  kx_controller :: runtime_authenticated_correlated_message_exchange_controller
  kx_awaiting_acknowledgment :: "runtime_response_acknowledgment_expectation option"
  kx_acknowledged_responses :: nat

type_synonym 'a acknowledged_io =
  "(runtime_acknowledged_correlated_message_exchange_controller \<times> 'a broker_result) io"

definition acknowledged_is_complete :: "runtime_acknowledged_correlated_message_exchange_controller \<Rightarrow> bool" where
  "acknowledged_is_complete k \<longleftrightarrow>
     authenticated_is_complete (kx_controller k) \<and>
     kx_acknowledged_responses k = ax_max_requests (kx_controller k) \<and> kx_awaiting_acknowledgment k = None"

definition on_authenticated :: "runtime_acknowledged_correlated_message_exchange_controller
    \<Rightarrow> 'a authenticated_io \<Rightarrow> 'a acknowledged_io" where
  "on_authenticated k op = io_bind op (\<lambda>(c, r). io_ret (k\<lparr>kx_controller := c\<rparr>, r))"

definition acknowledged_publish_challenge ::
  "broker_os \<Rightarrow> runtime_acknowledged_correlated_message_exchange_controller \<Rightarrow> unit acknowledged_io" where
  "acknowledged_publish_challenge os k = on_authenticated k (publish_challenge os (kx_controller k))"

definition acknowledged_receive_request :: "runtime_crypto \<Rightarrow> broker_os
    \<Rightarrow> runtime_acknowledged_correlated_message_exchange_controller \<Rightarrow> runtime_correlated_request acknowledged_io" where
  "acknowledged_receive_request cr os k =
     (if ax_failed (kx_controller k) then io_ret (k, Err authenticated_closed)
      else if kx_awaiting_acknowledgment k \<noteq> None
      then io_ret (k, Err (InvalidConfiguration ''acknowledged runtime exchange must consume the outstanding response acknowledgment before receiving another request''))
      else on_authenticated k (authenticated_receive_request cr os (kx_controller k)))"

definition acknowledged_send_response :: "runtime_crypto \<Rightarrow> broker_os
    \<Rightarrow> runtime_acknowledged_correlated_message_exchange_controller \<Rightarrow> nat \<Rightarrow> bytes \<Rightarrow> unit acknowledged_io" where
  "acknowledged_send_response cr os k rid response =
     (if ax_failed (kx_controller k) then io_ret (k, Err authenticated_closed)
      else if kx_awaiting_acknowledgment k \<noteq> None
      then io_ret (k, Err (InvalidConfiguration ''acknowledged runtime exchange permits only one published response awaiting acknowledgment''))
      else
        let response_sha256 = runtime_response_sha256 cr response in
        io_bind (on_authenticated k (authenticated_send_response cr os (kx_controller k) rid response)) (\<lambda>(k, r).
        io_ret (case r of
          Inl e \<Rightarrow> (k, Err e)
        | Inr _ \<Rightarrow> (k\<lparr>kx_awaiting_acknowledgment := Some \<lparr>expected_request_id = rid,
            expected_response_sha256 = response_sha256\<rparr>\<rparr>, Ok ()))))"

definition ACK_FRAME_BYTES :: nat where
  "ACK_FRAME_BYTES = 2 + 8 + 32 + RUNTIME_AUTH_TAG_BYTES"

abbreviation acknowledged_failed ::
  "runtime_acknowledged_correlated_message_exchange_controller \<Rightarrow> runtime_fd_broker_error
    \<Rightarrow> runtime_acknowledged_correlated_message_exchange_controller \<times> 'a broker_result" where
  "acknowledged_failed k e \<equiv> (k\<lparr>kx_controller := (kx_controller k)\<lparr>ax_failed := True\<rparr>\<rparr>, Err e)"

definition decode_acknowledgment :: "runtime_crypto \<Rightarrow> runtime_acknowledged_correlated_message_exchange_controller
    \<Rightarrow> runtime_response_acknowledgment_expectation \<Rightarrow> broker_answer
    \<Rightarrow> runtime_acknowledged_correlated_message_exchange_controller \<times> nat broker_result" where
  "decode_acknowledgment cr k expectation a = (case a of
       Refused e \<Rightarrow> acknowledged_failed k (Io ''cannot receive authenticated runtime response acknowledgment'' e)
     | _ \<Rightarrow>
         let frame = packet_of a; rid = from_le (take 8 (drop 2 frame)); digest = take 32 (drop 10 frame);
             tag = drop 42 frame in
         if frame = []
         then acknowledged_failed k
           (Protocol ''authenticated runtime response acknowledgment must arrive before peer shutdown'')
         else if length frame \<ge> 2 \<and>
           (frame ! 0 \<noteq> RUNTIME_AUTH_ACKNOWLEDGMENT_KIND \<or> frame ! 1 \<noteq> RUNTIME_AUTH_PROTOCOL_VERSION)
         then acknowledged_failed k
           (Protocol ''authenticated runtime response acknowledgment must be the peer's next packet'')
         else if truncated_of a \<or> length frame \<noteq> ACK_FRAME_BYTES
         then acknowledged_failed k
           (Protocol ''authenticated runtime response acknowledgment has invalid packet length'')
         else if \<not> runtime_auth_verify cr (ax_key (kx_controller k)) (ax_challenge (kx_controller k))
           RUNTIME_AUTH_ACKNOWLEDGMENT_KIND rid digest tag
         then acknowledged_failed k RuntimeAuthenticationFailed
         else if rid \<noteq> expected_request_id expectation \<or> digest \<noteq> expected_response_sha256 expectation
         then acknowledged_failed k (RuntimeAcknowledgmentMismatch (expected_request_id expectation))
         else (k\<lparr>kx_awaiting_acknowledgment := None,
                 kx_acknowledged_responses := kx_acknowledged_responses k + 1\<rparr>, Ok rid))"

definition receive_acknowledgment :: "runtime_crypto \<Rightarrow> broker_os
    \<Rightarrow> runtime_acknowledged_correlated_message_exchange_controller \<Rightarrow> nat acknowledged_io" where
  "receive_acknowledgment cr os k =
     (if ax_failed (kx_controller k) then io_ret (k, Err authenticated_closed)
      else case kx_awaiting_acknowledgment k of
        None \<Rightarrow> io_ret (k, Err (InvalidConfiguration
          ''acknowledged runtime exchange has no published response awaiting acknowledgment''))
      | Some expectation \<Rightarrow>
          io_bind (retry os (Recvmsg (ax_fd (kx_controller k)) ACK_FRAME_BYTES))
            (\<lambda>a. io_ret (decode_acknowledgment cr k expectation a)))"

definition prepare_runtime_acknowledged_correlated_exchange :: "broker_os \<Rightarrow> nat \<Rightarrow> nat \<Rightarrow> nat \<Rightarrow> nat \<Rightarrow> bytes
    \<Rightarrow> (raw_fd \<times> runtime_acknowledged_correlated_message_exchange_controller) broker_result io" where
  "prepare_runtime_acknowledged_correlated_exchange os max_request_bytes max_response_bytes max_requests max_in_flight key =
     io_try (prepare_runtime_authenticated_correlated_exchange os max_request_bytes max_response_bytes
       max_requests max_in_flight key) (\<lambda>(grant, controller).
     io_ret (Ok (grant, \<lparr>kx_controller = controller, kx_awaiting_acknowledgment = None,
       kx_acknowledged_responses = 0\<rparr>)))"

end
