(* ===== verification/Broker_Session.thy ===== *)
theory Broker_Session
  imports Broker_Correlated
begin

text \<open>
  The abstract contract of a correlated session: which requests have been accepted and answered,
  and whether the session is closed. The controllers of \<open>runtime_fd_broker.rs\<close> are shown to
  simulate it; what the contract guarantees for every run is proved once, in the locale.
\<close>

section \<open>The contract\<close>

datatype session_event = Accepted nat bytes | Answered nat bytes | Acknowledged nat | Closed | Stayed

record session =
  max_accepted :: nat
  max_unanswered :: nat
  accepted_ids :: "nat list"
  answered_ids :: "nat list"
  session_closed :: bool

definition fresh_session :: "nat \<Rightarrow> nat \<Rightarrow> session" where
  "fresh_session n m = \<lparr>max_accepted = n, max_unanswered = m, accepted_ids = [], answered_ids = [], session_closed = False\<rparr>"

inductive session_step :: "session \<Rightarrow> session_event \<Rightarrow> session \<Rightarrow> bool" where
  accept: "\<not> session_closed s \<Longrightarrow> rid \<notin> set (accepted_ids s) \<Longrightarrow> length (accepted_ids s) < max_accepted s \<Longrightarrow>
    length (accepted_ids s) < length (answered_ids s) + max_unanswered s \<Longrightarrow>
    session_step s (Accepted rid body) (s\<lparr>accepted_ids := accepted_ids s @ [rid]\<rparr>)"
| answer: "\<not> session_closed s \<Longrightarrow> rid \<in> set (accepted_ids s) \<Longrightarrow> rid \<notin> set (answered_ids s) \<Longrightarrow>
    session_step s (Answered rid body) (s\<lparr>answered_ids := answered_ids s @ [rid]\<rparr>)"
| acknowledge: "\<not> session_closed s \<Longrightarrow> rid \<in> set (answered_ids s) \<Longrightarrow> session_step s (Acknowledged rid) s"
| close: "\<not> session_closed s \<Longrightarrow> session_step s Closed (s\<lparr>session_closed := True\<rparr>)"
| stay: "session_step s Stayed s"

inductive_cases session_stepE: "session_step s e s'"

fun accepted_of :: "session_event list \<Rightarrow> (nat \<times> bytes) list" where
  "accepted_of [] = []"
| "accepted_of (Accepted rid body # es) = (rid, body) # accepted_of es"
| "accepted_of (_ # es) = accepted_of es"

fun answered_of :: "session_event list \<Rightarrow> (nat \<times> bytes) list" where
  "answered_of [] = []"
| "answered_of (Answered rid body # es) = (rid, body) # answered_of es"
| "answered_of (_ # es) = answered_of es"

lemma accepted_of_append [simp]: "accepted_of (es @ fs) = accepted_of es @ accepted_of fs"
  by (induction es rule: accepted_of.induct) simp_all

lemma answered_of_append [simp]: "answered_of (es @ fs) = answered_of es @ answered_of fs"
  by (induction es rule: answered_of.induct) simp_all

section \<open>Runs\<close>

inductive runs_to :: "('c \<Rightarrow> 'e \<Rightarrow> 'c \<Rightarrow> bool) \<Rightarrow> 'c \<Rightarrow> 'e list \<Rightarrow> 'c \<Rightarrow> bool"
  for step c where
  runs_Nil: "runs_to step c [] c"
| runs_snoc: "runs_to step c es c' \<Longrightarrow> step c' e c'' \<Longrightarrow> runs_to step c (es @ [e]) c''"

lemma runs_to_snoc: "runs_to step c (es @ [e]) c'' \<longleftrightarrow> (\<exists>c'. runs_to step c es c' \<and> step c' e c'')"
  by (auto intro: runs_snoc elim: runs_to.cases)

lemma runs_to_append: "runs_to step c (es @ fs) c'' \<longleftrightarrow> (\<exists>c'. runs_to step c es c' \<and> runs_to step c' fs c'')"
proof (induction fs arbitrary: c'' rule: rev_induct)
  case Nil
  show ?case
    by (auto intro: runs_Nil elim: runs_to.cases)
next
  case (snoc f fs)
  show ?case
    using snoc runs_to_snoc [of step c "es @ fs" f c''] by (auto simp: runs_to_snoc)
qed

lemma runs_to_invariant:
  assumes "runs_to step c es c'" and "I c" and "\<And>c e c'. I c \<Longrightarrow> step c e c' \<Longrightarrow> I c'"
  shows "I c'"
  using assms by (induction rule: runs_to.induct) blast+

section \<open>What the contract guarantees\<close>

definition session_ok :: "session \<Rightarrow> bool" where
  "session_ok s \<longleftrightarrow>
     distinct (accepted_ids s) \<and> distinct (answered_ids s) \<and> set (answered_ids s) \<subseteq> set (accepted_ids s) \<and>
     length (accepted_ids s) \<le> max_accepted s \<and> length (accepted_ids s) \<le> length (answered_ids s) + max_unanswered s"

lemma fresh_session_ok: "session_ok (fresh_session n m)"
  by (simp add: session_ok_def fresh_session_def)

lemma session_step_ok: "session_step s e s' \<Longrightarrow> session_ok s \<Longrightarrow> session_ok s'"
  by (induction rule: session_step.induct) (auto simp: session_ok_def)

lemma session_step_bounds:
  "session_step s e s' \<Longrightarrow> max_accepted s' = max_accepted s \<and> max_unanswered s' = max_unanswered s"
  by (induction rule: session_step.induct) simp_all

lemma session_step_history:
  assumes "session_step s e s'"
  shows "accepted_ids s' = accepted_ids s @ map fst (accepted_of [e])"
    and "answered_ids s' = answered_ids s @ map fst (answered_of [e])"
  using assms by (induction rule: session_step.induct) simp_all

lemma session_run_history:
  assumes "runs_to session_step s es s'"
  shows "accepted_ids s' = accepted_ids s @ map fst (accepted_of es) \<and>
    answered_ids s' = answered_ids s @ map fst (answered_of es)"
  using assms by (induction rule: runs_to.induct) (auto simp: session_step_history)

lemma session_run_bounds:
  assumes "runs_to session_step s es s'"
  shows "max_accepted s' = max_accepted s \<and> max_unanswered s' = max_unanswered s"
  using assms by (induction rule: runs_to.induct) (auto simp: session_step_bounds)

lemma closed_run:
  assumes "runs_to session_step s es s'" and "session_closed s"
  shows "set es \<subseteq> {Stayed} \<and> session_closed s'"
  using assms by (induction rule: runs_to.induct) (auto elim!: session_stepE)

text \<open>What every run from a fresh session satisfies.\<close>

definition run_safe :: "nat \<Rightarrow> nat \<Rightarrow> session_event list \<Rightarrow> bool" where
  "run_safe n m es \<longleftrightarrow>
     (let accepted = map fst (accepted_of es); answered = map fst (answered_of es) in
      distinct accepted \<and> distinct answered \<and> set answered \<subseteq> set accepted \<and>
      length accepted \<le> n \<and> length accepted \<le> length answered + m \<and>
      (\<forall>before after. es = before @ Closed # after \<longrightarrow> set after \<subseteq> {Stayed}))"

lemma session_run_safe:
  assumes "runs_to session_step (fresh_session n m) es s"
  shows "run_safe n m es"
proof -
  have "session_ok s"
    by (rule runs_to_invariant [where I = session_ok, OF assms fresh_session_ok session_step_ok])
  moreover have "set after \<subseteq> {Stayed}" if "es = before @ Closed # after" for before after
  proof -
    from that assms have "runs_to session_step (fresh_session n m) ((before @ [Closed]) @ after) s" by simp
    then obtain s' where s': "runs_to session_step (fresh_session n m) (before @ [Closed]) s'"
      and after: "runs_to session_step s' after s"
      unfolding runs_to_append [of _ _ "before @ [Closed]"] by blast
    from s' have "session_closed s'"
      by (auto simp: runs_to_snoc elim!: session_stepE)
    with closed_run [OF after] show ?thesis by blast
  qed
  ultimately show ?thesis
    using session_run_history [OF assms] session_run_bounds [OF assms]
    by (auto simp: run_safe_def session_ok_def fresh_session_def Let_def)
qed

section \<open>Simulation\<close>

text \<open>
  A controller with its moves simulates the contract when every move from a matching state is a
  step of the contract to a matching state.
\<close>

locale session_controller =
  fixes matches :: "'c \<Rightarrow> session \<Rightarrow> bool"
    and move :: "'c \<Rightarrow> session_event \<Rightarrow> 'c \<Rightarrow> bool"
  assumes simulated: "matches c s \<Longrightarrow> session_ok s \<Longrightarrow> move c e c' \<Longrightarrow> \<exists>s'. session_step s e s' \<and> matches c' s'"
begin

lemma run_simulated:
  assumes "runs_to move c es c'" and "matches c s" and "session_ok s"
  shows "\<exists>s'. runs_to session_step s es s' \<and> matches c' s' \<and> session_ok s'"
  using assms
proof (induction rule: runs_to.induct)
  case runs_Nil
  then show ?case using runs_to.runs_Nil [of session_step s] by (intro exI [of _ s]) simp
next
  case (runs_snoc es c' e c'')
  then obtain s' where s': "runs_to session_step s es s'" "matches c' s'" "session_ok s'" by blast
  from simulated [OF s'(2,3) runs_snoc.hyps(2)] obtain s''
    where "session_step s' e s''" "matches c'' s''" by blast
  then show ?case
    using runs_to.runs_snoc [OF s'(1)] session_step_ok [OF _ s'(3)] by blast
qed

lemma run_from_fresh:
  assumes "runs_to move c es c'" and "matches c (fresh_session n m)"
  shows "run_safe n m es"
    and "\<exists>s. runs_to session_step (fresh_session n m) es s \<and> matches c' s \<and> session_ok s"
  using run_simulated [OF assms fresh_session_ok] session_run_safe by blast+

end

end
