(* ===== verification/Broker_Simulation.thy ===== *)
theory Broker_Simulation
  imports Broker_Session
begin

text \<open>
  The correlated and the authenticated controllers simulate the session contract. The second
  is seen through \<open>core\<close>, its part that a correlated controller has.
\<close>

section \<open>The wire\<close>

text \<open>Packets that were sent whole on a descriptor, and packets that were received on it.\<close>

fun published :: "raw_fd \<Rightarrow> broker_event list \<Rightarrow> bytes list" where
  "published fd [] = []"
| "published fd ((Send f frame flags, Value n) # tr) =
     (if f = fd \<and> n = int (length frame) then frame # published fd tr else published fd tr)"
| "published fd (_ # tr) = published fd tr"

fun packets :: "raw_fd \<Rightarrow> broker_event list \<Rightarrow> bytes list" where
  "packets fd [] = []"
| "packets fd ((Recvmsg f capacity, Packet bs truncated) # tr) =
     (if f = fd then bs # packets fd tr else packets fd tr)"
| "packets fd (_ # tr) = packets fd tr"

lemma published_append [simp]: "published fd (tr @ tr') = published fd tr @ published fd tr'"
  by (induction fd tr rule: published.induct) simp_all

lemma packets_append [simp]: "packets fd (tr @ tr') = packets fd tr @ packets fd tr'"
  by (induction fd tr rule: packets.induct) simp_all

lemma published_refused [simp]: "published fd (replicate n (c, Refused e)) = []"
  by (induction n) (cases c; simp)+

lemma packets_refused [simp]: "packets fd (replicate n (c, Refused e)) = []"
  by (induction n) (cases c; simp)+

lemma published_receive [simp]: "published fd [(Recvmsg f n, a)] = []"
  by (cases a) simp_all

lemma packets_send [simp]: "packets fd [(Send f frame flags, a)] = []"
  by (cases a) simp_all

lemma packets_receive: "packet_of a \<noteq> [] \<Longrightarrow> packets fd [(Recvmsg fd n, a)] = [packet_of a]"
  by (cases a) simp_all

text \<open>A send that is repeated while interrupted, and a receive.\<close>

lemma send_wire:
  assumes "io_bind (retry os (Send fd frame flags)) (\<lambda>a. io_ret (f a)) tr = Some (x, tr')" and "frame \<noteq> []"
  obtains a where "x = f a" and "packets fd tr' = packets fd tr"
    and "published fd tr' = published fd tr @ (if value_of a = int (length frame) then [frame] else [])"
proof -
  from assms(1) obtain a n where a: "x = f a"
    and tr': "tr' = tr @ replicate n (Send fd frame flags, Refused EINTR) @ [(Send fd frame flags, a)]"
    by (rule retry_then)
  have "published fd [(Send fd frame flags, a)] = (if value_of a = int (length frame) then [frame] else [])"
    using assms(2) by (cases a) auto
  then show thesis using a tr' that by auto
qed

lemma receive_wire:
  assumes "io_bind (retry os (Recvmsg fd capacity)) (\<lambda>a. io_ret (f a)) tr = Some (x, tr')"
  obtains a new where "x = f a" and "published fd tr' = published fd tr" and "packets fd tr' = packets fd tr @ new"
    and "packet_of a \<noteq> [] \<longrightarrow> new = [packet_of a]"
proof -
  from assms obtain a n where "x = f a"
    and "tr' = tr @ replicate n (Recvmsg fd capacity, Refused EINTR) @ [(Recvmsg fd capacity, a)]"
    by (rule retry_then)
  then show thesis using that packets_receive by auto
qed

section \<open>Correlated controllers\<close>

definition correlated_matches :: "runtime_correlated_message_exchange_controller \<Rightarrow> session \<Rightarrow> bool" where
  "correlated_matches c s \<longleftrightarrow>
     cx_max_requests c = max_accepted s \<and> cx_max_in_flight c = max_unanswered s \<and>
     set (cx_seen_request_ids c) = set (accepted_ids s) \<and> distinct (cx_pending_request_ids c) \<and>
     set (cx_pending_request_ids c) = set (accepted_ids s) - set (answered_ids s) \<and>
     cx_received_requests c = length (accepted_ids s) \<and> cx_completed_responses c = length (answered_ids s) \<and>
     cx_failed c = session_closed s"

lemma distinct_btreeset_insert: "distinct s \<Longrightarrow> k \<notin> set s \<Longrightarrow> distinct (btreeset_insert k s)"
  by (induction s) (auto simp: set_btreeset_insert)

lemma pending_length:
  assumes "correlated_matches c s" and "session_ok s"
  shows "length (cx_pending_request_ids c) + length (answered_ids s) = length (accepted_ids s)"
proof -
  have "length (cx_pending_request_ids c) = card (set (accepted_ids s) - set (answered_ids s))"
    using assms(1) by (metis correlated_matches_def distinct_card)
  also have "\<dots> = length (accepted_ids s) - length (answered_ids s)"
    using assms(2) by (simp add: session_ok_def card_Diff_subset distinct_card)
  finally show ?thesis
    using assms(2) by (metis add.commute card_mono distinct_card finite_set le_add_diff_inverse session_ok_def)
qed

text \<open>What an outcome is for the contract.\<close>

definition outcome_label :: "bool \<Rightarrow> bool \<Rightarrow> ('a \<Rightarrow> session_event) \<Rightarrow> 'a broker_result \<Rightarrow> session_event" where
  "outcome_label was_failed now_failed success r =
     (case r of Inr x \<Rightarrow> success x | Inl _ \<Rightarrow> if now_failed \<and> \<not> was_failed then Closed else Stayed)"

definition request_label :: "runtime_correlated_request \<Rightarrow> session_event" where
  "request_label q = Accepted (request_id q) (payload q)"

lemma outcome_label_simps [simp]:
  "outcome_label was now success (Inr x) = success x"
  "outcome_label was was success (Inl e) = Stayed"
  "outcome_label False True success (Inl e) = Closed"
  by (simp_all add: outcome_label_def)

lemma close_simulated:
  assumes "correlated_matches c s" and "\<not> cx_failed c"
  shows "\<exists>s'. session_step s Closed s' \<and> correlated_matches (c\<lparr>cx_failed := True\<rparr>) s'"
  using assms by (intro exI [of _ "s\<lparr>session_closed := True\<rparr>"]) (auto simp: correlated_matches_def intro: session_step.close)

lemma stay_simulated: "correlated_matches c s \<Longrightarrow> \<exists>s'. session_step s Stayed s' \<and> correlated_matches c s'"
  using session_step.stay by blast

lemma accept_simulated:
  assumes "correlated_matches c s" and "session_ok s" and "\<not> cx_failed c"
    and "cx_received_requests c \<noteq> cx_max_requests c" and "length (cx_pending_request_ids c) \<noteq> cx_max_in_flight c"
    and "accept_correlated c rid body = (c', r)"
  shows "\<exists>s'. session_step s (outcome_label (cx_failed c) (cx_failed c') request_label r) s' \<and> correlated_matches c' s'"
proof (cases "rid \<in> set (cx_seen_request_ids c)")
  case True
  then show ?thesis
    using assms close_simulated [OF assms(1,3)] by (auto simp: accept_correlated_def)
next
  case False
  then have new: "rid \<notin> set (accepted_ids s)" "rid \<notin> set (cx_pending_request_ids c)"
    using assms(1) by (auto simp: correlated_matches_def)
  have room: "length (accepted_ids s) < max_accepted s" "length (accepted_ids s) < length (answered_ids s) + max_unanswered s"
    using assms(1,2,4,5) pending_length [OF assms(1,2)] by (auto simp: correlated_matches_def session_ok_def)
  let ?s' = "s\<lparr>accepted_ids := accepted_ids s @ [rid]\<rparr>"
  have "session_step s (Accepted rid body) ?s'"
    using assms(1,3) new(1) room by (intro session_step.accept) (auto simp: correlated_matches_def)
  moreover have "rid \<notin> set (answered_ids s)"
    using assms(2) new(1) by (auto simp: session_ok_def)
  moreover have c': "c' = c\<lparr>cx_seen_request_ids := btreeset_insert rid (cx_seen_request_ids c),
      cx_pending_request_ids := btreeset_insert rid (cx_pending_request_ids c),
      cx_received_requests := cx_received_requests c + 1\<rparr>" and r: "r = Inr \<lparr>request_id = rid, payload = body\<rparr>"
    using assms(6) False new(2) by (simp_all add: accept_correlated_def Let_def)
  ultimately have "correlated_matches c' ?s'"
    using assms(1) new by (auto simp: correlated_matches_def set_btreeset_insert distinct_btreeset_insert)
  then show ?thesis using \<open>session_step s _ ?s'\<close> r by (auto simp: request_label_def)
qed

lemma answer_simulated:
  assumes "correlated_matches c s" and "\<not> cx_failed c" and "rid \<in> set (cx_pending_request_ids c)"
  shows "\<exists>s'. session_step s (Answered rid response) s' \<and>
    correlated_matches (c\<lparr>cx_pending_request_ids := removeAll rid (cx_pending_request_ids c),
      cx_completed_responses := cx_completed_responses c + 1\<rparr>) s'"
  using assms
  by (intro exI [of _ "s\<lparr>answered_ids := answered_ids s @ [rid]\<rparr>"])
    (auto simp: correlated_matches_def distinct_removeAll intro!: session_step.answer)

text \<open>A controller under any sequence of calls, whatever the kernel answers.\<close>

inductive correlated_move :: "broker_os \<Rightarrow> runtime_correlated_message_exchange_controller \<times> broker_event list
    \<Rightarrow> session_event \<Rightarrow> runtime_correlated_message_exchange_controller \<times> broker_event list \<Rightarrow> bool"
  for os where
  receive: "correlated_receive_request os c tr = Some ((c', r), tr') \<Longrightarrow>
    correlated_move os (c, tr) (outcome_label (cx_failed c) (cx_failed c') request_label r) (c', tr')"
| send: "correlated_send_response os c rid response tr = Some ((c', r), tr') \<Longrightarrow>
    correlated_move os (c, tr) (outcome_label (cx_failed c) (cx_failed c') (\<lambda>_. Answered rid response) r) (c', tr')"

lemma receive_simulated:
  assumes "correlated_matches c s" and "session_ok s" and "correlated_receive_request os c tr = Some ((c', r), tr')"
  shows "\<exists>s'. session_step s (outcome_label (cx_failed c) (cx_failed c') request_label r) s' \<and> correlated_matches c' s'"
proof (cases "c' = c \<and> (\<exists>e. r = Inl e)")
  case True
  then show ?thesis using stay_simulated [OF assms(1)] by auto
next
  case False
  with assms(3) obtain a where active: "\<not> cx_failed c" "cx_received_requests c \<noteq> cx_max_requests c"
      "length (cx_pending_request_ids c) \<noteq> cx_max_in_flight c" and a: "(c', r) = decode_correlated c a"
    unfolding correlated_receive_request_def by (auto simp: io_ret_Some split: if_splits elim!: retry_then)
  show ?thesis
  proof (cases "\<exists>rid body. accept_correlated c rid body = (c', r)")
    case True
    then show ?thesis using accept_simulated [OF assms(1,2) active] by blast
  next
    case False
    with a have "c' = c\<lparr>cx_failed := True\<rparr> \<and> (\<exists>e. r = Inl e)"
      by (auto simp: decode_correlated_def split: broker_answer.splits if_splits)
    then show ?thesis using close_simulated [OF assms(1) active(1)] active(1) by auto
  qed
qed

lemma correlated_send_cases:
  assumes "correlated_send_response os c rid response tr = Some ((c', r), tr')" and "\<not> cx_failed c"
  obtains (stayed) e where "c' = c" and "r = Inl e" and "tr' = tr"
  | (closed) e where "c' = c\<lparr>cx_failed := True\<rparr>" and "r = Inl e" and "published (cx_fd c) tr' = published (cx_fd c) tr"
      and "packets (cx_fd c) tr' = packets (cx_fd c) tr"
  | (answered) "rid \<in> set (cx_pending_request_ids c)"
      and "c' = c\<lparr>cx_pending_request_ids := removeAll rid (cx_pending_request_ids c),
        cx_completed_responses := cx_completed_responses c + 1\<rparr>" and "r = Inr ()"
      and "published (cx_fd c) tr' = published (cx_fd c) tr @ [correlated_frame rid response]"
      and "packets (cx_fd c) tr' = packets (cx_fd c) tr"
proof (cases "rid \<in> set (cx_pending_request_ids c) \<and> response \<noteq> [] \<and> length response \<le> cx_max_response_bytes c")
  case False
  with assms have "c' = c \<and> tr' = tr \<or> c' = c\<lparr>cx_failed := True\<rparr> \<and> tr' = tr" "\<exists>e. r = Inl e"
    by (auto simp: correlated_send_response_def io_ret_Some split: if_splits)
  then show thesis using stayed closed by blast
next
  case True
  let ?frame = "correlated_frame rid response"
  have nonempty: "?frame \<noteq> []" using True by (simp add: correlated_frame_def)
  have "io_bind (retry os (Send (cx_fd c) ?frame [''MSG_NOSIGNAL'', ''MSG_DONTWAIT'']))
      (\<lambda>a. io_ret (correlated_sent c rid ?frame a)) tr = Some ((c', r), tr')"
    using True assms by (simp add: correlated_send_response_def Let_def)
  from this nonempty obtain a where sent: "(c', r) = correlated_sent c rid ?frame a"
    and wire: "packets (cx_fd c) tr' = packets (cx_fd c) tr" "published (cx_fd c) tr' = published (cx_fd c) tr @
      (if value_of a = int (length ?frame) then [?frame] else [])"
    by (rule send_wire)
  have nonzero: "0 < length ?frame" using nonempty by simp
  show thesis
  proof (cases "value_of a = int (length ?frame)")
    case whole: True
    then have "c' = c\<lparr>cx_pending_request_ids := removeAll rid (cx_pending_request_ids c),
        cx_completed_responses := cx_completed_responses c + 1\<rparr>" "r = Inr ()"
      using sent nonzero by (auto simp: correlated_sent_def split: broker_answer.splits)
    then show thesis using True whole wire by (intro answered) simp_all
  next
    case False
    then have "c' = c\<lparr>cx_failed := True\<rparr>" "\<exists>e. r = Inl e"
      using sent by (auto simp: correlated_sent_def split: broker_answer.splits)
    then show thesis using wire False closed by auto
  qed
qed

lemma send_simulated:
  assumes "correlated_matches c s" and "correlated_send_response os c rid response tr = Some ((c', r), tr')"
  shows "\<exists>s'. session_step s (outcome_label (cx_failed c) (cx_failed c') (\<lambda>_. Answered rid response) r) s' \<and>
    correlated_matches c' s'"
proof (cases "cx_failed c")
  case True
  then show ?thesis
    using assms stay_simulated [OF assms(1)] by (auto simp: correlated_send_response_def io_ret_Some)
next
  case False
  from assms(2) False show ?thesis
  proof (cases rule: correlated_send_cases)
    case stayed
    then show ?thesis using stay_simulated [OF assms(1)] by simp
  next
    case closed
    then show ?thesis using close_simulated [OF assms(1) False] False by simp
  next
    case answered
    then show ?thesis using answer_simulated [OF assms(1) False, of rid response] by simp
  qed
qed

interpretation correlated: session_controller "\<lambda>(c, tr). correlated_matches c" "correlated_move os" for os
proof
  show "\<exists>s'. session_step s e s' \<and> (case c' of (c, tr) \<Rightarrow> correlated_matches c) s'"
    if "(case c of (c, tr) \<Rightarrow> correlated_matches c) s" and "session_ok s" and "correlated_move os c e c'" for c s e c'
    using that(3,1,2) by (cases rule: correlated_move.cases) (auto dest: receive_simulated send_simulated)
qed

section \<open>Authenticated controllers\<close>

definition core :: "runtime_authenticated_correlated_message_exchange_controller
    \<Rightarrow> runtime_correlated_message_exchange_controller" where
  "core c = \<lparr>cx_fd = ax_fd c, cx_max_request_bytes = ax_max_request_bytes c,
     cx_max_response_bytes = ax_max_response_bytes c, cx_max_requests = ax_max_requests c,
     cx_max_in_flight = ax_max_in_flight c, cx_received_requests = ax_received_requests c,
     cx_completed_responses = ax_completed_responses c, cx_seen_request_ids = ax_seen_request_ids c,
     cx_pending_request_ids = ax_pending_request_ids c, cx_failed = ax_failed c\<rparr>"

lemma core_simps [simp]:
  "cx_failed (core c) = ax_failed c" "cx_max_requests (core c) = ax_max_requests c"
  "cx_max_in_flight (core c) = ax_max_in_flight c" "cx_received_requests (core c) = ax_received_requests c"
  "cx_completed_responses (core c) = ax_completed_responses c"
  "cx_pending_request_ids (core c) = ax_pending_request_ids c" "cx_seen_request_ids (core c) = ax_seen_request_ids c"
  "core (c\<lparr>ax_failed := b\<rparr>) = (core c)\<lparr>cx_failed := b\<rparr>" "core (c\<lparr>ax_challenge_published := b\<rparr>) = core c"
  "core (c\<lparr>ax_pending_request_ids := p, ax_completed_responses := n\<rparr>) =
    (core c)\<lparr>cx_pending_request_ids := p, cx_completed_responses := n\<rparr>"
  by (simp_all add: core_def)

lemma outcome_label_cong:
  "\<forall>x. r = Inr x \<longleftrightarrow> r' = Inr x \<Longrightarrow> outcome_label a b f r = outcome_label a b f r'"
  by (cases r; cases r') (simp_all add: outcome_label_def, metis)

inductive authenticated_move :: "runtime_crypto \<Rightarrow> broker_os
    \<Rightarrow> runtime_authenticated_correlated_message_exchange_controller \<times> broker_event list \<Rightarrow> session_event
    \<Rightarrow> runtime_authenticated_correlated_message_exchange_controller \<times> broker_event list \<Rightarrow> bool"
  for cr os where
  challenge: "publish_challenge os c tr = Some ((c', r), tr') \<Longrightarrow>
    authenticated_move cr os (c, tr) (outcome_label (ax_failed c) (ax_failed c') (\<lambda>_. Stayed) r) (c', tr')"
| receive: "authenticated_receive_request cr os c tr = Some ((c', r), tr') \<Longrightarrow>
    authenticated_move cr os (c, tr) (outcome_label (ax_failed c) (ax_failed c') request_label r) (c', tr')"
| send: "authenticated_send_response cr os c rid response tr = Some ((c', r), tr') \<Longrightarrow>
    authenticated_move cr os (c, tr) (outcome_label (ax_failed c) (ax_failed c') (\<lambda>_. Answered rid response) r) (c', tr')"

lemma accept_core:
  assumes "accept_authenticated c rid body = (c', r)"
  shows "\<exists>r0. accept_correlated (core c) rid body = (core c', r0) \<and> (\<forall>x. r = Inr x \<longleftrightarrow> r0 = Inr x)"
  using assms by (auto simp: accept_authenticated_def accept_correlated_def core_def Let_def split: if_splits)

lemma challenge_simulated:
  assumes "correlated_matches (core c) s" and "publish_challenge os c tr = Some ((c', r), tr')"
  shows "\<exists>s'. session_step s (outcome_label (ax_failed c) (ax_failed c') (\<lambda>_. Stayed) r) s' \<and>
    correlated_matches (core c') s'"
proof (cases "ax_failed c' = ax_failed c")
  case True
  with assms(2) have "core c' = core c"
    unfolding publish_challenge_def Let_def
    by (auto simp: io_ret_Some split: if_splits broker_answer.splits elim!: retry_then)
  moreover have "outcome_label (ax_failed c) (ax_failed c') (\<lambda>_. Stayed) r = Stayed"
    using True by (cases r) simp_all
  ultimately show ?thesis using stay_simulated [OF assms(1)] by simp
next
  case False
  with assms(2) have "\<not> ax_failed c" "core c' = (core c)\<lparr>cx_failed := True\<rparr>" "ax_failed c'" "\<exists>e. r = Inl e"
    unfolding publish_challenge_def Let_def
    by (auto simp: io_ret_Some split: if_splits broker_answer.splits elim!: retry_then)
  then show ?thesis using close_simulated [OF assms(1)] by auto
qed

lemma authenticated_receive_simulated:
  assumes "correlated_matches (core c) s" and "session_ok s"
    and "authenticated_receive_request cr os c tr = Some ((c', r), tr')"
  shows "\<exists>s'. session_step s (outcome_label (ax_failed c) (ax_failed c') request_label r) s' \<and>
    correlated_matches (core c') s'"
proof (cases "c' = c \<and> (\<exists>e. r = Inl e)")
  case True
  then show ?thesis using stay_simulated [OF assms(1)] by auto
next
  case False
  with assms(3) obtain a where active: "\<not> cx_failed (core c)"
      "cx_received_requests (core c) \<noteq> cx_max_requests (core c)"
      "length (cx_pending_request_ids (core c)) \<noteq> cx_max_in_flight (core c)" and a: "(c', r) = decode_authenticated cr c a"
    unfolding authenticated_receive_request_def by (auto simp: io_ret_Some split: if_splits elim!: retry_then)
  show ?thesis
  proof (cases "\<exists>rid body. accept_authenticated c rid body = (c', r)")
    case True
    then obtain rid body r0 where "accept_correlated (core c) rid body = (core c', r0)" "\<forall>x. r = Inr x \<longleftrightarrow> r0 = Inr x"
      using accept_core by blast
    then show ?thesis
      using accept_simulated [OF assms(1,2) active] outcome_label_cong [of r r0] by fastforce
  next
    case False
    with a have "c' = c\<lparr>ax_failed := True\<rparr> \<and> (\<exists>e. r = Inl e)"
      by (auto simp: decode_authenticated_def Let_def split: broker_answer.splits if_splits)
    then show ?thesis using close_simulated [OF assms(1) active(1)] active(1) by auto
  qed
qed

lemma authenticated_send_cases:
  assumes "authenticated_send_response cr os c rid response tr = Some ((c', r), tr')" and "\<not> ax_failed c"
  obtains (stayed) e where "c' = c" and "r = Inl e" and "tr' = tr"
  | (closed) e where "c' = c\<lparr>ax_failed := True\<rparr>" and "r = Inl e" and "published (ax_fd c) tr' = published (ax_fd c) tr"
      and "packets (ax_fd c) tr' = packets (ax_fd c) tr"
  | (answered) "rid \<in> set (ax_pending_request_ids c)"
      and "c' = c\<lparr>ax_pending_request_ids := removeAll rid (ax_pending_request_ids c),
        ax_completed_responses := ax_completed_responses c + 1\<rparr>" and "r = Inr ()"
      and "published (ax_fd c) tr' = published (ax_fd c) tr @ [authenticated_frame cr c rid response]"
      and "packets (ax_fd c) tr' = packets (ax_fd c) tr" and "ax_challenge_published c"
proof (cases "ax_challenge_published c \<and> rid \<in> set (ax_pending_request_ids c) \<and> response \<noteq> [] \<and> length response \<le> ax_max_response_bytes c")
  case False
  with assms have "c' = c \<and> tr' = tr \<or> c' = c\<lparr>ax_failed := True\<rparr> \<and> tr' = tr" "\<exists>e. r = Inl e"
    by (auto simp: authenticated_send_response_def io_ret_Some split: if_splits)
  then show thesis using stayed closed by blast
next
  case True
  let ?frame = "authenticated_frame cr c rid response"
  have nonempty: "?frame \<noteq> []" using True by (simp add: authenticated_frame_def)
  have "io_bind (retry os (Send (ax_fd c) ?frame [''MSG_NOSIGNAL'', ''MSG_DONTWAIT'']))
      (\<lambda>a. io_ret (authenticated_sent c rid ?frame a)) tr = Some ((c', r), tr')"
    using True assms by (simp add: authenticated_send_response_def Let_def)
  from this nonempty obtain a where sent: "(c', r) = authenticated_sent c rid ?frame a"
    and wire: "packets (ax_fd c) tr' = packets (ax_fd c) tr" "published (ax_fd c) tr' = published (ax_fd c) tr @
      (if value_of a = int (length ?frame) then [?frame] else [])"
    by (rule send_wire)
  have nonzero: "0 < length ?frame" using nonempty by simp
  show thesis
  proof (cases "value_of a = int (length ?frame)")
    case whole: True
    then have "c' = c\<lparr>ax_pending_request_ids := removeAll rid (ax_pending_request_ids c),
        ax_completed_responses := ax_completed_responses c + 1\<rparr>" "r = Inr ()"
      using sent nonzero by (auto simp: authenticated_sent_def split: broker_answer.splits)
    then show thesis using True whole wire by (intro answered) simp_all
  next
    case False
    then have "c' = c\<lparr>ax_failed := True\<rparr>" "\<exists>e. r = Inl e"
      using sent by (auto simp: authenticated_sent_def split: broker_answer.splits)
    then show thesis using wire False closed by auto
  qed
qed

lemma authenticated_send_simulated:
  assumes "correlated_matches (core c) s" and "authenticated_send_response cr os c rid response tr = Some ((c', r), tr')"
  shows "\<exists>s'. session_step s (outcome_label (ax_failed c) (ax_failed c') (\<lambda>_. Answered rid response) r) s' \<and>
    correlated_matches (core c') s'"
proof (cases "ax_failed c")
  case True
  then show ?thesis
    using assms stay_simulated [OF assms(1)] by (auto simp: authenticated_send_response_def io_ret_Some)
next
  case False
  then have active: "\<not> cx_failed (core c)" by simp
  from assms(2) False show ?thesis
  proof (cases rule: authenticated_send_cases)
    case stayed
    then show ?thesis using stay_simulated [OF assms(1)] by simp
  next
    case closed
    then show ?thesis using close_simulated [OF assms(1) active] False by simp
  next
    case answered
    then show ?thesis using answer_simulated [OF assms(1) active, of rid response] by simp
  qed
qed

interpretation authenticated: session_controller "\<lambda>(c, tr). correlated_matches (core c)" "authenticated_move cr os" for cr os
proof
  show "\<exists>s'. session_step s e s' \<and> (case c' of (c, tr) \<Rightarrow> correlated_matches (core c)) s'"
    if "(case c of (c, tr) \<Rightarrow> correlated_matches (core c)) s" and "session_ok s" and "authenticated_move cr os c e c'"
    for c s e c'
    using that(3,1,2)
    by (cases rule: authenticated_move.cases)
      (auto dest: challenge_simulated authenticated_receive_simulated authenticated_send_simulated)
qed

end
