(* ===== verification/Broker_Properties.thy ===== *)
theory Broker_Properties
  imports Broker_Simulation
begin

text \<open>
  What holds of every session of the correlated and of the authenticated controller, whatever
  the peer and the kernel do: the guarantees of the contract, and what went over the wire.
\<close>

section \<open>Correlated sessions\<close>

lemma decode_correlated_fd: "decode_correlated c a = (c', r) \<Longrightarrow> cx_fd c' = cx_fd c"
  by (auto simp: decode_correlated_def accept_correlated_def Let_def split: broker_answer.splits if_splits)

lemma decode_correlated_Ok:
  assumes "decode_correlated c a = (c', Inr q)"
  shows "packet_of a = correlated_frame (request_id q) (payload q) \<and> packet_of a \<noteq> []"
proof -
  have frame: "le_bytes 8 (from_le (take 8 bs)) = take 8 bs" if "\<not> length bs < 9" for bs
    using le_bytes_from_le [of "take 8 bs"] that by simp
  then show ?thesis
    using assms
    by (auto simp: decode_correlated_def accept_correlated_def correlated_frame_def Let_def
        split: broker_answer.splits if_splits)
qed

text \<open>What one move puts on the wire and takes from it.\<close>

definition wire_step :: "raw_fd \<Rightarrow> (nat \<Rightarrow> bytes \<Rightarrow> bytes) \<Rightarrow> (nat \<Rightarrow> bytes \<Rightarrow> bytes) \<Rightarrow> session_event list
    \<Rightarrow> broker_event list \<Rightarrow> broker_event list \<Rightarrow> bool" where
  "wire_step fd request response es tr tr' \<longleftrightarrow>
     published fd tr' = published fd tr @ map (\<lambda>(rid, body). response rid body) (answered_of es) \<and>
     (\<exists>new. packets fd tr' = packets fd tr @ new \<and> subseq (map (\<lambda>(rid, body). request rid body) (accepted_of es)) new)"

lemma wire_step_refl: "wire_step fd request response [] tr tr"
  by (simp add: wire_step_def)

lemma wire_step_trans:
  "wire_step fd request response es tr tr' \<Longrightarrow> wire_step fd request response fs tr' tr'' \<Longrightarrow>
    wire_step fd request response (es @ fs) tr tr''"
  by (auto simp: wire_step_def intro: list_emb_append_mono)

lemma wire_step_quiet:
  "published fd tr' = published fd tr \<Longrightarrow> packets fd tr' = packets fd tr @ new \<Longrightarrow>
    accepted_of [e] = [] \<Longrightarrow> answered_of [e] = [] \<Longrightarrow> wire_step fd request response [e] tr tr'"
  by (simp add: wire_step_def)

lemma failure_label:
  "accepted_of [outcome_label was now success (Inl e)] = []" "answered_of [outcome_label was now success (Inl e)] = []"
  by (auto simp: outcome_label_def)

lemma correlated_receive_wire:
  assumes "correlated_receive_request os c tr = Some ((c', r), tr')"
  shows "cx_fd c' = cx_fd c \<and> wire_step (cx_fd c) correlated_frame correlated_frame
    [outcome_label (cx_failed c) (cx_failed c') request_label r] tr tr'"
proof (cases "c' = c \<and> tr' = tr \<and> (\<exists>e. r = Inl e)")
  case True
  then show ?thesis by (auto intro: wire_step_quiet [where new = "[]"])
next
  case False
  with assms have "io_bind (retry os (Recvmsg (cx_fd c) (cx_max_request_bytes c + 9)))
      (\<lambda>a. io_ret (decode_correlated c a)) tr = Some ((c', r), tr')"
    unfolding correlated_receive_request_def by (auto simp: io_ret_Some split: if_splits)
  then obtain a new where a: "decode_correlated c a = (c', r)" and
    wire: "published (cx_fd c) tr' = published (cx_fd c) tr" "packets (cx_fd c) tr' = packets (cx_fd c) tr @ new"
      "packet_of a \<noteq> [] \<longrightarrow> new = [packet_of a]"
    by (rule receive_wire) simp
  show ?thesis
  proof (cases r)
    case (Inl e)
    then show ?thesis using wire decode_correlated_fd [OF a] by (auto intro!: wire_step_quiet simp: failure_label)
  next
    case (Inr q)
    then show ?thesis
      using wire decode_correlated_fd [OF a] decode_correlated_Ok [OF a [unfolded Inr]]
      by (auto simp: wire_step_def request_label_def)
  qed
qed

lemma correlated_send_wire:
  assumes "correlated_send_response os c rid response tr = Some ((c', r), tr')"
  shows "cx_fd c' = cx_fd c \<and> wire_step (cx_fd c) correlated_frame correlated_frame
    [outcome_label (cx_failed c) (cx_failed c') (\<lambda>_. Answered rid response) r] tr tr'"
proof (cases "cx_failed c")
  case True
  then show ?thesis
    using assms by (auto simp: correlated_send_response_def io_ret_Some intro: wire_step_quiet [where new = "[]"])
next
  case False
  from assms False show ?thesis
    by (cases rule: correlated_send_cases)
      (auto simp: failure_label wire_step_def outcome_label_def)
qed

lemma correlated_move_wire:
  assumes "correlated_move os ct e ct'"
  shows "cx_fd (fst ct') = cx_fd (fst ct) \<and> wire_step (cx_fd (fst ct)) correlated_frame correlated_frame [e] (snd ct) (snd ct')"
  using assms by (cases rule: correlated_move.cases) (auto dest: correlated_receive_wire correlated_send_wire)

lemma correlated_run_wire:
  assumes "runs_to (correlated_move os) ct es ct'"
  shows "cx_fd (fst ct') = cx_fd (fst ct) \<and> wire_step (cx_fd (fst ct)) correlated_frame correlated_frame es (snd ct) (snd ct')"
  using assms
proof (induction rule: runs_to.induct)
  case runs_Nil
  then show ?case by (simp add: wire_step_refl)
next
  case (runs_snoc es c' e c'')
  then show ?case using correlated_move_wire [OF runs_snoc.hyps(2)] by (auto intro: wire_step_trans)
qed

lemma bounds_error_None:
  assumes "correlated_bounds_error a b c d max_request max_response n m = None"
  shows "2 \<le> m \<and> m \<le> 8 \<and> m \<le> n \<and> n \<le> 32 \<and> 0 < max_request \<and> max_request \<le> 65536 \<and>
    0 < max_response \<and> max_response \<le> 65536"
  using assms
  by (auto simp: correlated_bounds_error_def message_bounds_error_def in_range_def MIN_RUNTIME_CORRELATED_IN_FLIGHT_def
      MAX_RUNTIME_CORRELATED_IN_FLIGHT_def MAX_RUNTIME_CORRELATED_REQUESTS_def MAX_RUNTIME_MESSAGE_BYTES_def
      split: option.splits if_splits)

lemma prepared_correlated:
  assumes "prepare_runtime_correlated_exchange os max_request max_response n m tr0 = Some (Inr (target, c), tr)"
  shows "correlated_matches c (fresh_session n m)"
  using assms
  by (auto simp: prepare_runtime_correlated_exchange_def io_try_Ok io_ret_Some correlated_matches_def fresh_session_def
      Let_def case_prod_beta split: option.splits)

lemma matched_complete:
  assumes "correlated_matches c s" and "session_ok s" and "correlated_is_complete c"
  shows "set (answered_ids s) = set (accepted_ids s) \<and> length (accepted_ids s) = max_accepted s"
  using assms by (auto simp: correlated_matches_def session_ok_def correlated_is_complete_def)

text \<open>
  C12: In every session of a correlated controller, whatever the peer and the kernel do and in whatever order
  the host calls the operations: request ids are accepted at most once and never more than the
  configured number of requests, at most the configured number of requests is unanswered at any
  time, only accepted requests are answered and each at most once, after a failure nothing is
  accepted or answered any more. The packets published on the channel are exactly the frames of
  the answers, in order, and every accepted request is a packet of the peer. A session that
  reports completion has answered all of its requests.
\<close>

theorem correlated_session_safe:
  assumes "prepare_runtime_correlated_exchange os max_request max_response n m tr0 = Some (Ok (target, c0), tr1)"
    and "runs_to (correlated_move os) (c0, tr1) es (c, tr)"
  shows "run_safe n m es \<and>
    published (cx_fd c0) tr = published (cx_fd c0) tr1 @ map (\<lambda>(rid, body). correlated_frame rid body) (answered_of es) \<and>
    (\<exists>new. packets (cx_fd c0) tr = packets (cx_fd c0) tr1 @ new \<and>
      subseq (map (\<lambda>(rid, body). correlated_frame rid body) (accepted_of es)) new) \<and>
    (correlated_is_complete c \<longrightarrow>
      set (map fst (answered_of es)) = set (map fst (accepted_of es)) \<and> length (accepted_of es) = n)"
proof -
  have matches: "(case (c0, tr1) of (c, tr) \<Rightarrow> correlated_matches c) (fresh_session n m)"
    using prepared_correlated [OF assms(1)] by simp
  note run = correlated.run_from_fresh [OF assms(2) matches]
  from run(2) obtain s where s: "runs_to session_step (fresh_session n m) es s" "correlated_matches c s" "session_ok s"
    by auto
  have "correlated_is_complete c \<longrightarrow>
      set (map fst (answered_of es)) = set (map fst (accepted_of es)) \<and> length (accepted_of es) = n"
    using session_run_history [OF s(1)] session_run_bounds [OF s(1)] matched_complete [OF s(2,3)]
    by (simp add: fresh_session_def)
  then show ?thesis
    using run(1) correlated_run_wire [OF assms(2)] by (simp add: wire_step_def)
qed

section \<open>Authenticated sessions\<close>

text \<open>The frame of a request under the key and the challenge of a session.\<close>

definition request_frame ::
  "runtime_crypto \<Rightarrow> runtime_authenticated_correlated_message_exchange_controller \<Rightarrow> nat \<Rightarrow> bytes \<Rightarrow> bytes" where
  "request_frame cr c rid body =
     [RUNTIME_AUTH_REQUEST_KIND, RUNTIME_AUTH_PROTOCOL_VERSION] @ le_bytes 8 rid @ body @
     runtime_auth_tag cr (ax_key c) (ax_challenge c) RUNTIME_AUTH_REQUEST_KIND rid body"

text \<open>The part of a controller that no operation changes.\<close>

definition same_session :: "runtime_authenticated_correlated_message_exchange_controller
    \<Rightarrow> runtime_authenticated_correlated_message_exchange_controller \<Rightarrow> bool" where
  "same_session c c' \<longleftrightarrow> ax_fd c' = ax_fd c \<and> ax_key c' = ax_key c \<and> ax_challenge c' = ax_challenge c"

lemma split_frame:
  assumes "42 < length frame" and "frame ! 0 = k" and "frame ! 1 = v"
  shows "frame = [k, v] @ take 8 (drop 2 frame) @ drop 10 (take (length frame - 32) frame) @ drop (length frame - 32) frame"
proof -
  obtain x y rest where frame: "frame = x # y # rest" using assms(1) by (cases frame rule: remdups_adj.cases) auto
  define n where "n = length rest - 32"
  have n: "8 \<le> n" "length frame - 32 = Suc (Suc n)" using assms(1) frame by (simp_all add: n_def)
  have "take n rest = take 8 (take n rest) @ drop 8 (take n rest)" by (simp only: append_take_drop_id)
  moreover have "take 8 (take n rest) = take 8 rest" using n(1) by (simp add: min_def)
  moreover have "rest = take n rest @ drop n rest" by simp
  ultimately have "rest = take 8 rest @ drop 8 (take n rest) @ drop n rest" by (metis append.assoc)
  then show ?thesis unfolding n(2) using assms(2,3) frame by simp
qed

lemma decode_authenticated_Ok:
  assumes "decode_authenticated cr c a = (c', Inr q)"
  shows "packet_of a = request_frame cr c (request_id q) (payload q)"
proof -
  let ?frame = "packet_of a"
  from assms have "42 < length ?frame" "?frame ! 0 = RUNTIME_AUTH_REQUEST_KIND" "?frame ! 1 = RUNTIME_AUTH_PROTOCOL_VERSION"
    "request_id q = from_le (take 8 (drop 2 ?frame))" "payload q = drop 10 (take (length ?frame - 32) ?frame)"
    "runtime_auth_mac cr (ax_key c) (ax_challenge c) RUNTIME_AUTH_REQUEST_KIND (request_id q) (payload q) =
      drop (length ?frame - 32) ?frame"
    by (auto simp: decode_authenticated_def accept_authenticated_def runtime_auth_verify_def framing_bytes_def
        RUNTIME_AUTH_TAG_BYTES_def Let_def split: broker_answer.splits if_splits)
  then show ?thesis
    using split_frame [of ?frame] le_bytes_from_le [of "take 8 (drop 2 ?frame)"]
    by (simp add: request_frame_def runtime_auth_tag_def)
qed

lemma decode_authenticated_same:
  "decode_authenticated cr c a = (c', r) \<Longrightarrow> same_session c c' \<and> ax_challenge_published c' = ax_challenge_published c"
  by (auto simp: decode_authenticated_def accept_authenticated_def same_session_def Let_def
      split: broker_answer.splits if_splits)

lemma authenticated_receive_wire:
  assumes "authenticated_receive_request cr os c tr = Some ((c', r), tr')"
  shows "same_session c c' \<and> ax_challenge_published c' = ax_challenge_published c \<and>
    (ax_challenge_published c \<or> (\<exists>e. r = Inl e)) \<and>
    wire_step (ax_fd c) (request_frame cr c) (authenticated_frame cr c)
      [outcome_label (ax_failed c) (ax_failed c') request_label r] tr tr'"
proof (cases "c' = c \<and> tr' = tr \<and> (\<exists>e. r = Inl e)")
  case True
  then show ?thesis by (auto simp: same_session_def intro: wire_step_quiet [where new = "[]"])
next
  case False
  with assms have published: "ax_challenge_published c"
    and run: "io_bind (retry os (Recvmsg (ax_fd c) (ax_max_request_bytes c + framing_bytes)))
      (\<lambda>a. io_ret (decode_authenticated cr c a)) tr = Some ((c', r), tr')"
    unfolding authenticated_receive_request_def by (auto simp: io_ret_Some split: if_splits)
  from run obtain a new where a: "decode_authenticated cr c a = (c', r)" and
    wire: "published (ax_fd c) tr' = published (ax_fd c) tr" "packets (ax_fd c) tr' = packets (ax_fd c) tr @ new"
      "packet_of a \<noteq> [] \<longrightarrow> new = [packet_of a]"
    by (rule receive_wire) simp
  show ?thesis
  proof (cases r)
    case (Inl e)
    then show ?thesis
      using published wire decode_authenticated_same [OF a] by (auto intro!: wire_step_quiet simp: failure_label)
  next
    case (Inr q)
    moreover have "packet_of a = request_frame cr c (request_id q) (payload q)" "packet_of a \<noteq> []"
      using decode_authenticated_Ok [OF a [unfolded Inr]] by (simp_all add: request_frame_def)
    ultimately show ?thesis
      using published wire decode_authenticated_same [OF a] by (auto simp: wire_step_def request_label_def)
  qed
qed

lemma authenticated_send_wire:
  assumes "authenticated_send_response cr os c rid response tr = Some ((c', r), tr')"
  shows "same_session c c' \<and> ax_challenge_published c' = ax_challenge_published c \<and>
    (ax_challenge_published c \<or> (\<exists>e. r = Inl e)) \<and>
    wire_step (ax_fd c) (request_frame cr c) (authenticated_frame cr c)
      [outcome_label (ax_failed c) (ax_failed c') (\<lambda>_. Answered rid response) r] tr tr'"
proof (cases "ax_failed c")
  case True
  then show ?thesis
    using assms
    by (auto simp: authenticated_send_response_def io_ret_Some same_session_def intro: wire_step_quiet [where new = "[]"])
next
  case False
  from assms False show ?thesis
    by (cases rule: authenticated_send_cases)
      (auto simp: failure_label wire_step_def outcome_label_def same_session_def)
qed

lemma challenge_wire:
  assumes "publish_challenge os c tr = Some ((c', r), tr')"
  shows "same_session c c' \<and> packets (ax_fd c) tr' = packets (ax_fd c) tr \<and>
    (c' = c\<lparr>ax_challenge_published := True\<rparr> \<and> \<not> ax_challenge_published c \<and> r = Inr () \<and>
      published (ax_fd c) tr' = published (ax_fd c) tr @ [challenge_frame c] \<or>
     ax_challenge_published c' = ax_challenge_published c \<and> (\<exists>e. r = Inl e) \<and>
      published (ax_fd c) tr' = published (ax_fd c) tr)"
proof (cases "ax_failed c \<or> ax_challenge_published c")
  case True
  then show ?thesis using assms by (auto simp: publish_challenge_def io_ret_Some same_session_def split: if_splits)
next
  case False
  let ?f = "\<lambda>a. case a of Refused e \<Rightarrow> authenticated_failed c (Io ''cannot publish authenticated runtime session challenge'' e)
    | _ \<Rightarrow> if value_of a = int (length (challenge_frame c)) then (c\<lparr>ax_challenge_published := True\<rparr>, Ok ())
      else authenticated_failed c (Protocol ''authenticated runtime challenge sent unexpected packet length {sent}'')"
  have nonempty: "challenge_frame c \<noteq> []" by (simp add: challenge_frame_def)
  have "io_bind (retry os (Send (ax_fd c) (challenge_frame c) [''MSG_NOSIGNAL''])) (\<lambda>a. io_ret (?f a)) tr = Some ((c', r), tr')"
    using assms False by (simp add: publish_challenge_def Let_def)
  from this nonempty obtain a where a: "(c', r) = ?f a" and wire: "packets (ax_fd c) tr' = packets (ax_fd c) tr"
    "published (ax_fd c) tr' = published (ax_fd c) tr @ (if value_of a = int (length (challenge_frame c)) then [challenge_frame c] else [])"
    by (rule send_wire)
  then show ?thesis
    using False nonempty by (auto simp: same_session_def split: broker_answer.splits if_splits)
qed

lemma same_session_frames:
  "same_session c c' \<Longrightarrow> request_frame cr c' = request_frame cr c \<and> authenticated_frame cr c' = authenticated_frame cr c \<and>
    challenge_frame c' = challenge_frame c"
  by (auto simp: same_session_def request_frame_def authenticated_frame_def challenge_frame_def fun_eq_iff)

text \<open>The wire of a session so far.\<close>

definition authenticated_wire :: "runtime_crypto \<Rightarrow> runtime_authenticated_correlated_message_exchange_controller
    \<Rightarrow> broker_event list \<Rightarrow> session_event list
    \<Rightarrow> runtime_authenticated_correlated_message_exchange_controller \<times> broker_event list \<Rightarrow> bool" where
  "authenticated_wire cr c0 tr0 es = (\<lambda>(c, tr).
     same_session c0 c \<and>
     published (ax_fd c0) tr = published (ax_fd c0) tr0 @ (if ax_challenge_published c then [challenge_frame c0] else []) @
       map (\<lambda>(rid, body). authenticated_frame cr c0 rid body) (answered_of es) \<and>
     (ax_challenge_published c \<or> accepted_of es = [] \<and> answered_of es = []) \<and>
     (\<exists>new. packets (ax_fd c0) tr = packets (ax_fd c0) tr0 @ new \<and>
       subseq (map (\<lambda>(rid, body). request_frame cr c0 rid body) (accepted_of es)) new))"

lemma authenticated_wire_step:
  assumes "authenticated_wire cr c0 tr0 es (c, tr)" and "same_session c c'"
    and "ax_challenge_published c' = ax_challenge_published c"
    and "ax_challenge_published c \<or> accepted_of [e] = [] \<and> answered_of [e] = []"
    and "wire_step (ax_fd c) (request_frame cr c) (authenticated_frame cr c) [e] tr tr'"
  shows "authenticated_wire cr c0 tr0 (es @ [e]) (c', tr')"
proof -
  have same: "same_session c0 c" using assms(1) by (simp add: authenticated_wire_def)
  then have "ax_fd c = ax_fd c0" "same_session c0 c'" using assms(2) by (simp_all add: same_session_def)
  then show ?thesis
    using assms same_session_frames [OF same, of cr]
    by (auto simp: authenticated_wire_def wire_step_def intro: list_emb_append_mono)
qed

lemma authenticated_move_wire:
  assumes "authenticated_wire cr c0 tr0 es ct" and "authenticated_move cr os ct e ct'"
  shows "authenticated_wire cr c0 tr0 (es @ [e]) ct'"
  using assms(2,1)
proof (cases rule: authenticated_move.cases)
  case (challenge c tr c' r tr')
  have quiet: "accepted_of [e] = []" "answered_of [e] = []"
    using challenge(2) by (cases r; auto simp: outcome_label_def)+
  show ?thesis
    using challenge_wire [OF challenge(4)] assms(1) quiet same_session_frames [of c0 c cr] unfolding challenge(1,3)
    by (auto simp: authenticated_wire_def same_session_def)
next
  case (receive c tr c' r tr')
  then show ?thesis
    using assms(1) authenticated_receive_wire [OF receive(4)] authenticated_wire_step [of cr c0 tr0 es c tr c' e tr']
    by (auto simp: failure_label)
next
  case (send c rid response tr c' r tr')
  then show ?thesis
    using assms(1) authenticated_send_wire [OF send(4)] authenticated_wire_step [of cr c0 tr0 es c tr c' e tr']
    by (auto simp: failure_label)
qed

lemma authenticated_run_wire:
  assumes "runs_to (authenticated_move cr os) (c0, tr0) es ct"
  shows "\<not> ax_challenge_published c0 \<longrightarrow> authenticated_wire cr c0 tr0 es ct"
  using assms
proof (induction rule: runs_to.induct)
  case runs_Nil
  then show ?case by (simp add: authenticated_wire_def same_session_def)
next
  case (runs_snoc es ct e ct')
  then show ?case using authenticated_move_wire by blast
qed

lemma prepared_authenticated:
  assumes "prepare_runtime_authenticated_correlated_exchange os max_request max_response n m key tr0 = Some (Inr (target, c), tr)"
  shows "correlated_matches (core c) (fresh_session n m) \<and> \<not> ax_challenge_published c \<and> ax_key c = key"
  using assms
  by (auto simp: prepare_runtime_authenticated_correlated_exchange_def io_try_Ok io_ret_Some core_def
      correlated_matches_def fresh_session_def Let_def case_prod_beta split: option.splits)

text \<open>
  C11: In every session of an authenticated controller the guarantees of the contract hold; in
  particular no request id is accepted twice, so a recorded frame cannot be replayed. Nothing is
  accepted or answered before the challenge has been published. Every accepted request is a packet
  of the peer that carries the HMAC of its id and payload under the session's key and challenge,
  and the packets published are the challenge, once, and the authenticated frames of the answers
  in order.
\<close>

theorem authenticated_session_safe:
  assumes "prepare_runtime_authenticated_correlated_exchange os max_request max_response n m key tr0 =
      Some (Ok (target, c0), tr1)"
    and "runs_to (authenticated_move cr os) (c0, tr1) es (c, tr)"
  shows "run_safe n m es \<and> (ax_challenge_published c \<or> accepted_of es = [] \<and> answered_of es = []) \<and>
    published (ax_fd c0) tr = published (ax_fd c0) tr1 @ (if ax_challenge_published c then [challenge_frame c0] else []) @
      map (\<lambda>(rid, body). authenticated_frame cr c0 rid body) (answered_of es) \<and>
    (\<exists>new. packets (ax_fd c0) tr = packets (ax_fd c0) tr1 @ new \<and>
      subseq (map (\<lambda>(rid, body). [RUNTIME_AUTH_REQUEST_KIND, RUNTIME_AUTH_PROTOCOL_VERSION] @ le_bytes 8 rid @ body @
        runtime_auth_tag cr key (ax_challenge c0) RUNTIME_AUTH_REQUEST_KIND rid body) (accepted_of es)) new)"
proof -
  have fresh: "(case (c0, tr1) of (c, tr) \<Rightarrow> correlated_matches (core c)) (fresh_session n m)"
    "\<not> ax_challenge_published c0" "ax_key c0 = key"
    using prepared_authenticated [OF assms(1)] by simp_all
  have "run_safe n m es" by (rule authenticated.run_from_fresh(1) [OF assms(2) fresh(1)])
  moreover have "authenticated_wire cr c0 tr1 es (c, tr)"
    using authenticated_run_wire [OF assms(2)] fresh(2) by blast
  ultimately show ?thesis
    using fresh(3) by (simp add: authenticated_wire_def request_frame_def)
qed

section \<open>What a tag binds\<close>

lemma runtime_auth_input_inject:
  assumes "runtime_auth_input ch k i b = runtime_auth_input ch' k' i' b'" and "length ch = length ch'"
    and "i < 2 ^ 64" and "i' < 2 ^ 64"
  shows "ch = ch' \<and> k = k' \<and> i = i' \<and> b = b'"
  using assms le_bytes_inject [of i 8 i'] by (auto simp: runtime_auth_input_def)

text \<open>
  A tag that verifies binds the challenge of the session, the kind of the frame, the request id
  and the payload. A tag made for one of them verifies for another only if two distinct MAC inputs
  collide: a response cannot be reflected as a request, an acknowledgment cannot be moved to
  another request, a frame cannot be carried to a session with another challenge.
\<close>

theorem runtime_auth_binds:
  assumes "runtime_auth_verify cr key challenge kind rid body (runtime_auth_tag cr key challenge' kind' rid' body')"
    and "length challenge = length challenge'" and "rid < 2 ^ 64" and "rid' < 2 ^ 64"
    and "(challenge, kind, rid, body) \<noteq> (challenge', kind', rid', body')"
  shows "\<exists>x y. x \<noteq> y \<and> rt_hmac_sha256 cr key x = rt_hmac_sha256 cr key y"
  using assms runtime_auth_input_inject [of challenge kind rid body challenge' kind' rid' body']
  by (auto simp: runtime_auth_verify_def runtime_auth_tag_def runtime_auth_mac_def)

end
