(* ===== verification/Broker_Acknowledged.thy ===== *)
theory Broker_Acknowledged
  imports Broker_Properties
begin

text \<open>
  Acknowledged sessions: between an answer and the next request or answer stands the acknowledgment
  of exactly that answer.
\<close>

section \<open>Moves\<close>

inductive acknowledged_move :: "runtime_crypto \<Rightarrow> broker_os
    \<Rightarrow> runtime_acknowledged_correlated_message_exchange_controller \<times> broker_event list \<Rightarrow> session_event
    \<Rightarrow> runtime_acknowledged_correlated_message_exchange_controller \<times> broker_event list \<Rightarrow> bool"
  for cr os where
  challenge: "acknowledged_publish_challenge os k tr = Some ((k', r), tr') \<Longrightarrow>
    acknowledged_move cr os (k, tr)
      (outcome_label (ax_failed (kx_controller k)) (ax_failed (kx_controller k')) (\<lambda>_. Stayed) r) (k', tr')"
| receive: "acknowledged_receive_request cr os k tr = Some ((k', r), tr') \<Longrightarrow>
    acknowledged_move cr os (k, tr)
      (outcome_label (ax_failed (kx_controller k)) (ax_failed (kx_controller k')) request_label r) (k', tr')"
| send: "acknowledged_send_response cr os k rid response tr = Some ((k', r), tr') \<Longrightarrow>
    acknowledged_move cr os (k, tr)
      (outcome_label (ax_failed (kx_controller k)) (ax_failed (kx_controller k')) (\<lambda>_. Answered rid response) r) (k', tr')"
| acknowledge: "receive_acknowledgment cr os k tr = Some ((k', r), tr') \<Longrightarrow>
    acknowledged_move cr os (k, tr)
      (outcome_label (ax_failed (kx_controller k)) (ax_failed (kx_controller k')) Acknowledged r) (k', tr')"

text \<open>The answer that a history leaves unacknowledged.\<close>

fun awaiting_after :: "(nat \<times> bytes) option \<Rightarrow> session_event list \<Rightarrow> (nat \<times> bytes) option" where
  "awaiting_after w [] = w"
| "awaiting_after w (Answered rid body # es) = awaiting_after (Some (rid, body)) es"
| "awaiting_after w (Acknowledged rid # es) = awaiting_after None es"
| "awaiting_after w (_ # es) = awaiting_after w es"

lemma awaiting_after_append: "awaiting_after w (es @ fs) = awaiting_after (awaiting_after w es) fs"
  by (induction w es rule: awaiting_after.induct) simp_all

text \<open>The event that may follow a history: only the acknowledgment, a failure or nothing while one is due.\<close>

definition allowed_next :: "(nat \<times> bytes) option \<Rightarrow> session_event \<Rightarrow> bool" where
  "allowed_next w e \<longleftrightarrow> (case w of
       None \<Rightarrow> (\<forall>rid. e \<noteq> Acknowledged rid)
     | Some (rid, body) \<Rightarrow> e \<in> {Stayed, Closed, Acknowledged rid})"

definition expectation_of :: "runtime_crypto \<Rightarrow> nat \<times> bytes \<Rightarrow> runtime_response_acknowledgment_expectation" where
  "expectation_of cr w = \<lparr>expected_request_id = fst w, expected_response_sha256 = rt_sha256 cr (snd w)\<rparr>"

definition ack_frame :: "runtime_crypto \<Rightarrow> runtime_authenticated_correlated_message_exchange_controller
    \<Rightarrow> runtime_response_acknowledgment_expectation \<Rightarrow> bytes" where
  "ack_frame cr c x =
     [RUNTIME_AUTH_ACKNOWLEDGMENT_KIND, RUNTIME_AUTH_PROTOCOL_VERSION] @ le_bytes 8 (expected_request_id x) @
     expected_response_sha256 x @
     runtime_auth_tag cr (ax_key c) (ax_challenge c) RUNTIME_AUTH_ACKNOWLEDGMENT_KIND (expected_request_id x)
       (expected_response_sha256 x)"

section \<open>One acknowledgment\<close>

lemma split_ack:
  assumes "length frame = 74" and "frame ! 0 = k" and "frame ! 1 = v"
  shows "frame = [k, v] @ take 8 (drop 2 frame) @ take 32 (drop 10 frame) @ drop 42 frame"
proof -
  obtain x y rest where frame: "frame = x # y # rest" using assms(1) by (cases frame rule: remdups_adj.cases) auto
  have "rest = take 8 rest @ take 32 (drop 8 rest) @ drop 32 (drop 8 rest)" by (simp only: append_take_drop_id)
  then show ?thesis using assms(2,3) frame by simp
qed

lemma acknowledgment_cases:
  assumes "receive_acknowledgment cr os k tr = Some ((k', r), tr')"
  obtains (stayed) e where "k' = k" and "r = Inl e" and "tr' = tr"
  | (closed) e new where "k' = k\<lparr>kx_controller := (kx_controller k)\<lparr>ax_failed := True\<rparr>\<rparr>" and "r = Inl e"
      and "\<not> ax_failed (kx_controller k)"
      and "packets (ax_fd (kx_controller k)) tr' = packets (ax_fd (kx_controller k)) tr @ new"
  | (acknowledged) x where "kx_awaiting_acknowledgment k = Some x"
      and "k' = k\<lparr>kx_awaiting_acknowledgment := None, kx_acknowledged_responses := kx_acknowledged_responses k + 1\<rparr>"
      and "r = Inr (expected_request_id x)" and "\<not> ax_failed (kx_controller k)"
      and "packets (ax_fd (kx_controller k)) tr' =
        packets (ax_fd (kx_controller k)) tr @ [ack_frame cr (kx_controller k) x]"
proof (cases "ax_failed (kx_controller k) \<or> kx_awaiting_acknowledgment k = None")
  case True
  with assms have "k' = k" "\<exists>e. r = Inl e" "tr' = tr" by (auto simp: receive_acknowledgment_def io_ret_Some split: if_splits)
  then show thesis using stayed by blast
next
  case False
  then obtain x where x: "kx_awaiting_acknowledgment k = Some x" and active: "\<not> ax_failed (kx_controller k)" by auto
  let ?fd = "ax_fd (kx_controller k)"
  have "io_bind (retry os (Recvmsg ?fd ACK_FRAME_BYTES)) (\<lambda>a. io_ret (decode_acknowledgment cr k x a)) tr = Some ((k', r), tr')"
    using assms x active by (simp add: receive_acknowledgment_def)
  then obtain a new where a: "decode_acknowledgment cr k x a = (k', r)" and
    wire: "packets ?fd tr' = packets ?fd tr @ new" "packet_of a \<noteq> [] \<longrightarrow> new = [packet_of a]"
    by (rule receive_wire) simp
  show thesis
  proof (cases r)
    case (Inl e)
    with a have "k' = k\<lparr>kx_controller := (kx_controller k)\<lparr>ax_failed := True\<rparr>\<rparr>"
      by (auto simp: decode_acknowledgment_def Let_def split: broker_answer.splits if_splits)
    then show thesis using Inl active wire closed by blast
  next
    case (Inr rid)
    let ?frame = "packet_of a"
    from a Inr have decoded: "length ?frame = 74" "?frame ! 0 = RUNTIME_AUTH_ACKNOWLEDGMENT_KIND"
        "?frame ! 1 = RUNTIME_AUTH_PROTOCOL_VERSION" "expected_request_id x = from_le (take 8 (drop 2 ?frame))"
        "expected_response_sha256 x = take 32 (drop 10 ?frame)"
        "runtime_auth_mac cr (ax_key (kx_controller k)) (ax_challenge (kx_controller k)) RUNTIME_AUTH_ACKNOWLEDGMENT_KIND
          (expected_request_id x) (expected_response_sha256 x) = drop 42 ?frame"
        "k' = k\<lparr>kx_awaiting_acknowledgment := None, kx_acknowledged_responses := kx_acknowledged_responses k + 1\<rparr>"
        "rid = expected_request_id x"
      by (auto simp: decode_acknowledgment_def ACK_FRAME_BYTES_def RUNTIME_AUTH_TAG_BYTES_def runtime_auth_verify_def Let_def
          split: broker_answer.splits if_splits)
    have "?frame = ack_frame cr (kx_controller k) x"
      using split_ack [OF decoded(1-3)] decoded(1,4-6) le_bytes_from_le [of "take 8 (drop 2 ?frame)"]
      by (simp add: ack_frame_def runtime_auth_tag_def)
    moreover have "?frame \<noteq> []" using decoded(1) by auto
    ultimately show thesis using x active wire decoded(7,8) Inr by (intro acknowledged) auto
  qed
qed

section \<open>Simulation\<close>

definition acknowledged_matches :: "runtime_acknowledged_correlated_message_exchange_controller \<Rightarrow> session \<Rightarrow> bool" where
  "acknowledged_matches k s \<longleftrightarrow>
     correlated_matches (core (kx_controller k)) s \<and>
     (\<forall>x. kx_awaiting_acknowledgment k = Some x \<longrightarrow> expected_request_id x \<in> set (answered_ids s))"

lemma acknowledged_matchesD: "acknowledged_matches k s \<Longrightarrow> correlated_matches (core (kx_controller k)) s"
  by (simp add: acknowledged_matches_def)

lemma acknowledged_stay: "acknowledged_matches k s \<Longrightarrow> \<exists>s'. session_step s Stayed s' \<and> acknowledged_matches k s'"
  using session_step.stay by blast

lemma on_authenticated_Some:
  "on_authenticated k op tr = Some ((k', r), tr') \<longleftrightarrow>
    (\<exists>c'. op tr = Some ((c', r), tr') \<and> k' = k\<lparr>kx_controller := c'\<rparr>)"
  by (auto simp: on_authenticated_def io_bind_def io_ret_Some Option.bind_eq_Some_conv)

lemma acknowledged_send_Some:
  assumes "acknowledged_send_response cr os k rid response tr = Some ((k', r), tr')"
  obtains (stayed) e where "k' = k" and "r = Inl e" and "tr' = tr"
  | (failed) c' e where "authenticated_send_response cr os (kx_controller k) rid response tr = Some ((c', Inl e), tr')"
      and "kx_awaiting_acknowledgment k = None" and "k' = k\<lparr>kx_controller := c'\<rparr>" and "r = Inl e"
  | (answered) c' where "authenticated_send_response cr os (kx_controller k) rid response tr = Some ((c', Inr ()), tr')"
      and "kx_awaiting_acknowledgment k = None"
      and "k' = k\<lparr>kx_controller := c', kx_awaiting_acknowledgment := Some (expectation_of cr (rid, response))\<rparr>"
      and "r = Inr ()"
proof (cases "ax_failed (kx_controller k) \<or> kx_awaiting_acknowledgment k \<noteq> None")
  case True
  then have "k' = k" "\<exists>e. r = Inl e" "tr' = tr"
    using assms by (auto simp: acknowledged_send_response_def io_ret_Some split: if_splits)
  then show thesis using stayed by blast
next
  case False
  with assms obtain c' r0 where inner: "authenticated_send_response cr os (kx_controller k) rid response tr = Some ((c', r0), tr')"
    and outer: "(k', r) = (case r0 of Inl e \<Rightarrow> (k\<lparr>kx_controller := c'\<rparr>, Err e)
      | Inr _ \<Rightarrow> (k\<lparr>kx_controller := c', kx_awaiting_acknowledgment := Some (expectation_of cr (rid, response))\<rparr>, Ok ()))"
    unfolding expectation_of_def fst_conv snd_conv
    by (auto simp: acknowledged_send_response_def io_bind_def io_ret_Some Option.bind_eq_Some_conv on_authenticated_Some
        runtime_response_sha256_def Let_def)
  show thesis
    using False inner outer by (cases r0) (auto intro: failed answered)
qed

lemma acknowledged_challenge_simulated:
  assumes "acknowledged_matches k s" and "acknowledged_publish_challenge os k tr = Some ((k', r), tr')"
  shows "\<exists>s'. session_step s (outcome_label (ax_failed (kx_controller k)) (ax_failed (kx_controller k')) (\<lambda>_. Stayed) r) s' \<and>
    acknowledged_matches k' s'"
proof -
  from assms(2) obtain c' where c': "publish_challenge os (kx_controller k) tr = Some ((c', r), tr')" "k' = k\<lparr>kx_controller := c'\<rparr>"
    by (auto simp: acknowledged_publish_challenge_def on_authenticated_Some)
  from challenge_simulated [OF acknowledged_matchesD [OF assms(1)] c'(1)]
  obtain s' where s': "session_step s (outcome_label (ax_failed (kx_controller k)) (ax_failed c') (\<lambda>_. Stayed) r) s'"
    "correlated_matches (core c') s'" by blast
  then show ?thesis
    using assms(1) c'(2) session_step_history(2) [OF s'(1)]
    by (intro exI [of _ s']) (auto simp: acknowledged_matches_def)
qed

lemma acknowledged_receive_simulated:
  assumes "acknowledged_matches k s" and "session_ok s" and "acknowledged_receive_request cr os k tr = Some ((k', r), tr')"
  shows "\<exists>s'. session_step s (outcome_label (ax_failed (kx_controller k)) (ax_failed (kx_controller k')) request_label r) s' \<and>
    acknowledged_matches k' s'"
proof (cases "ax_failed (kx_controller k) \<or> kx_awaiting_acknowledgment k \<noteq> None")
  case True
  then have "k' = k" "\<exists>e. r = Inl e"
    using assms(3) by (auto simp: acknowledged_receive_request_def io_ret_Some split: if_splits)
  then show ?thesis using acknowledged_stay [OF assms(1)] by auto
next
  case False
  with assms(3) obtain c' where c': "authenticated_receive_request cr os (kx_controller k) tr = Some ((c', r), tr')"
      "k' = k\<lparr>kx_controller := c'\<rparr>"
    by (auto simp: acknowledged_receive_request_def on_authenticated_Some)
  then show ?thesis
    using assms(1,2) False authenticated_receive_simulated [OF acknowledged_matchesD [OF assms(1)] assms(2) c'(1)] by (auto simp: acknowledged_matches_def)
qed

lemma acknowledged_send_simulated:
  assumes "acknowledged_matches k s" and "acknowledged_send_response cr os k rid response tr = Some ((k', r), tr')"
  shows "\<exists>s'. session_step s (outcome_label (ax_failed (kx_controller k)) (ax_failed (kx_controller k'))
      (\<lambda>_. Answered rid response) r) s' \<and> acknowledged_matches k' s'"
  using assms(2)
proof (cases rule: acknowledged_send_Some)
  case stayed
  then show ?thesis using acknowledged_stay [OF assms(1)] by auto
next
  case (failed c' e)
  then show ?thesis
    using assms(1) authenticated_send_simulated [OF acknowledged_matchesD [OF assms(1)] failed(1)] by (auto simp: acknowledged_matches_def)
next
  case (answered c')
  then obtain s' where s': "session_step s (Answered rid response) s'" "correlated_matches (core c') s'"
    using authenticated_send_simulated [OF acknowledged_matchesD [OF assms(1)] answered(1)] by auto
  then show ?thesis
    using answered session_step_history(2) [OF s'(1)]
    by (intro exI [of _ s']) (auto simp: acknowledged_matches_def expectation_of_def)
qed

lemma acknowledge_simulated:
  assumes "acknowledged_matches k s" and "receive_acknowledgment cr os k tr = Some ((k', r), tr')"
  shows "\<exists>s'. session_step s (outcome_label (ax_failed (kx_controller k)) (ax_failed (kx_controller k')) Acknowledged r) s' \<and>
    acknowledged_matches k' s'"
  using assms(2)
proof (cases rule: acknowledgment_cases)
  case stayed
  then show ?thesis using acknowledged_stay [OF assms(1)] by auto
next
  case closed
  then obtain s' where s': "session_step s Closed s'"
      "correlated_matches ((core (kx_controller k))\<lparr>cx_failed := True\<rparr>) s'"
    using close_simulated [OF acknowledged_matchesD [OF assms(1)]] by auto
  then show ?thesis
    using closed assms(1) session_step_history(2) [OF s'(1)]
    by (intro exI [of _ s']) (auto simp: acknowledged_matches_def)
next
  case acknowledged
  then show ?thesis
    using assms(1) by (intro exI [of _ s]) (auto simp: acknowledged_matches_def correlated_matches_def intro: session_step.acknowledge)
qed

interpretation acknowledged: session_controller "\<lambda>(k, tr). acknowledged_matches k" "acknowledged_move cr os" for cr os
proof
  show "\<exists>s'. session_step s e s' \<and> (case c' of (k, tr) \<Rightarrow> acknowledged_matches k) s'"
    if "(case c of (k, tr) \<Rightarrow> acknowledged_matches k) s" and "session_ok s" and "acknowledged_move cr os c e c'" for c s e c'
    using that(3,1,2)
    by (cases rule: acknowledged_move.cases)
      (auto dest: acknowledged_challenge_simulated acknowledged_receive_simulated acknowledged_send_simulated acknowledge_simulated)
qed

section \<open>The barrier\<close>

fun acknowledged_of :: "session_event list \<Rightarrow> nat list" where
  "acknowledged_of [] = []"
| "acknowledged_of (Acknowledged rid # es) = rid # acknowledged_of es"
| "acknowledged_of (_ # es) = acknowledged_of es"

lemma acknowledged_of_append [simp]: "acknowledged_of (es @ fs) = acknowledged_of es @ acknowledged_of fs"
  by (induction es rule: acknowledged_of.induct) simp_all

text \<open>What one move does to the outstanding answer \<open>w\<close>.\<close>

definition barrier_step :: "runtime_crypto \<Rightarrow> (nat \<times> bytes) option
    \<Rightarrow> runtime_acknowledged_correlated_message_exchange_controller \<times> broker_event list \<Rightarrow> session_event
    \<Rightarrow> runtime_acknowledged_correlated_message_exchange_controller \<times> broker_event list \<Rightarrow> bool" where
  "barrier_step cr w = (\<lambda>(k, tr) e (k', tr').
     same_session (kx_controller k) (kx_controller k') \<and> allowed_next w e \<and>
     kx_awaiting_acknowledgment k' = map_option (expectation_of cr) (awaiting_after w [e]) \<and>
     kx_acknowledged_responses k' = kx_acknowledged_responses k + length (acknowledged_of [e]) \<and>
     (\<exists>new. packets (ax_fd (kx_controller k)) tr' = packets (ax_fd (kx_controller k)) tr @ new \<and>
       (\<forall>rid body. e = Acknowledged rid \<longrightarrow> w = Some (rid, body) \<longrightarrow>
         ack_frame cr (kx_controller k) (expectation_of cr (rid, body)) \<in> set new)))"

lemma same_session_refl: "same_session c c"
  by (simp add: same_session_def)

lemma quiet_label:
  "outcome_label was now (\<lambda>_. Stayed) r = Stayed \<or> outcome_label was now (\<lambda>_. Stayed) r = Closed"
  "outcome_label was now success (Inl e) = Stayed \<or> outcome_label was now success (Inl e) = Closed"
  by (auto simp: outcome_label_def split: sum.splits)

lemma barrier_quiet:
  assumes "e = Stayed \<or> e = Closed" and "kx_awaiting_acknowledgment k = map_option (expectation_of cr) w"
    and "kx_awaiting_acknowledgment k' = kx_awaiting_acknowledgment k" and "same_session (kx_controller k) (kx_controller k')"
    and "kx_acknowledged_responses k' = kx_acknowledged_responses k"
    and "packets (ax_fd (kx_controller k)) tr' = packets (ax_fd (kx_controller k)) tr @ new"
  shows "barrier_step cr w (k, tr) e (k', tr')"
  using assms by (auto simp: barrier_step_def allowed_next_def split: option.splits)

lemma barrier_challenge:
  assumes "acknowledged_publish_challenge os k tr = Some ((k', r), tr')"
    and "kx_awaiting_acknowledgment k = map_option (expectation_of cr) w"
  shows "barrier_step cr w (k, tr) (outcome_label was now (\<lambda>_. Stayed) r) (k', tr')"
proof -
  from assms(1) obtain c' where "publish_challenge os (kx_controller k) tr = Some ((c', r), tr')" "k' = k\<lparr>kx_controller := c'\<rparr>"
    by (auto simp: acknowledged_publish_challenge_def on_authenticated_Some)
  then show ?thesis
    using challenge_wire assms(2) by (intro barrier_quiet [where new = "[]", OF quiet_label(1)]) auto
qed

lemma barrier_receive:
  assumes "acknowledged_receive_request cr os k tr = Some ((k', r), tr')"
    and "kx_awaiting_acknowledgment k = map_option (expectation_of cr) w"
  shows "barrier_step cr w (k, tr) (outcome_label (ax_failed (kx_controller k)) (ax_failed (kx_controller k')) request_label r) (k', tr')"
proof (cases "ax_failed (kx_controller k) \<or> kx_awaiting_acknowledgment k \<noteq> None")
  case True
  then have same: "k' = k" "tr' = tr" and "\<exists>e. r = Inl e"
    using assms(1) by (auto simp: acknowledged_receive_request_def io_ret_Some split: if_splits)
  then obtain e where "r = Inl e" by blast
  then show ?thesis
    using assms(2) same by (auto intro!: barrier_quiet [where new = "[]"] quiet_label(2) simp: same_session_refl)
next
  case False
  with assms(1) obtain c' where c': "authenticated_receive_request cr os (kx_controller k) tr = Some ((c', r), tr')"
      "k' = k\<lparr>kx_controller := c'\<rparr>"
    by (auto simp: acknowledged_receive_request_def on_authenticated_Some)
  from authenticated_receive_wire [OF c'(1)] obtain new where
    wire: "same_session (kx_controller k) c'" "packets (ax_fd (kx_controller k)) tr' = packets (ax_fd (kx_controller k)) tr @ new"
    by (auto simp: wire_step_def)
  show ?thesis
  proof (cases r)
    case (Inl e)
    then show ?thesis using wire assms(2) c'(2) by (intro barrier_quiet [OF _ assms(2)]) (auto simp: quiet_label(2))
  next
    case (Inr q)
    then show ?thesis
      using wire assms(2) c'(2) False by (cases w) (auto simp: barrier_step_def allowed_next_def request_label_def)
  qed
qed

lemma barrier_send:
  assumes "acknowledged_send_response cr os k rid response tr = Some ((k', r), tr')"
    and "kx_awaiting_acknowledgment k = map_option (expectation_of cr) w"
  shows "barrier_step cr w (k, tr)
    (outcome_label (ax_failed (kx_controller k)) (ax_failed (kx_controller k')) (\<lambda>_. Answered rid response) r) (k', tr')"
  using assms(1)
proof (cases rule: acknowledged_send_Some)
  case (stayed e)
  then show ?thesis
    using assms(2) by (auto intro!: barrier_quiet [where new = "[]"] quiet_label(2) simp: same_session_refl)
next
  case (failed c' e)
  from authenticated_send_wire [OF failed(1)] obtain new where "same_session (kx_controller k) c'"
    "packets (ax_fd (kx_controller k)) tr' = packets (ax_fd (kx_controller k)) tr @ new"
    by (auto simp: wire_step_def)
  then show ?thesis
    using failed assms(2) by (intro barrier_quiet [OF _ assms(2)]) (auto simp: quiet_label(2))
next
  case (answered c')
  then show ?thesis
    using authenticated_send_wire [OF answered(1)] assms(2)
    by (cases w) (auto simp: barrier_step_def allowed_next_def wire_step_def)
qed

lemma barrier_acknowledge:
  assumes "receive_acknowledgment cr os k tr = Some ((k', r), tr')"
    and "kx_awaiting_acknowledgment k = map_option (expectation_of cr) w"
  shows "barrier_step cr w (k, tr) (outcome_label (ax_failed (kx_controller k)) (ax_failed (kx_controller k')) Acknowledged r) (k', tr')"
  using assms(1)
proof (cases rule: acknowledgment_cases)
  case (stayed e)
  then show ?thesis
    using assms(2) by (auto intro!: barrier_quiet [where new = "[]"] quiet_label(2) simp: same_session_refl)
next
  case (closed e new)
  then show ?thesis
    using assms(2) by (intro barrier_quiet [OF _ assms(2)]) (auto simp: quiet_label(2) same_session_def)
next
  case (acknowledged x)
  then obtain rid body where "w = Some (rid, body)" "x = expectation_of cr (rid, body)"
    using assms(2) by (cases w) auto
  then show ?thesis
    using acknowledged by (auto simp: barrier_step_def allowed_next_def same_session_def expectation_of_def)
qed

lemma acknowledged_move_barrier:
  assumes "acknowledged_move cr os kt e kt'"
    and "kx_awaiting_acknowledgment (fst kt) = map_option (expectation_of cr) w"
  shows "barrier_step cr w kt e kt'"
  using assms
  by (cases rule: acknowledged_move.cases) (auto intro: barrier_challenge barrier_receive barrier_send barrier_acknowledge)

definition barrier_run :: "runtime_crypto \<Rightarrow> runtime_acknowledged_correlated_message_exchange_controller
    \<Rightarrow> session_event list \<Rightarrow> runtime_acknowledged_correlated_message_exchange_controller \<times> broker_event list \<Rightarrow> bool" where
  "barrier_run cr k0 es = (\<lambda>(k, tr).
     same_session (kx_controller k0) (kx_controller k) \<and>
     kx_awaiting_acknowledgment k = map_option (expectation_of cr) (awaiting_after None es) \<and>
     kx_acknowledged_responses k = length (acknowledged_of es) \<and>
     (\<forall>before e after. es = before @ e # after \<longrightarrow> allowed_next (awaiting_after None before) e) \<and>
     (\<forall>before rid body after. es = before @ Acknowledged rid # after \<longrightarrow> awaiting_after None before = Some (rid, body) \<longrightarrow>
       ack_frame cr (kx_controller k0) (expectation_of cr (rid, body)) \<in> set (packets (ax_fd (kx_controller k0)) tr)))"

lemma snoc_split: "es @ [e] = before @ x # after \<longleftrightarrow>
    after = [] \<and> before = es \<and> x = e \<or> (\<exists>mid. after = mid @ [e] \<and> es = before @ x # mid)"
  by (cases after rule: rev_cases) auto

lemma barrier_run_step:
  assumes "barrier_run cr k0 es (k, tr)" and "acknowledged_move cr os (k, tr) e (k', tr')"
  shows "barrier_run cr k0 (es @ [e]) (k', tr')"
proof -
  from assms(1) have prev: "same_session (kx_controller k0) (kx_controller k)"
    and w: "kx_awaiting_acknowledgment (fst (k, tr)) = map_option (expectation_of cr) (awaiting_after None es)"
    by (simp_all add: barrier_run_def)
  then have same: "ax_fd (kx_controller k) = ax_fd (kx_controller k0)" "ack_frame cr (kx_controller k) = ack_frame cr (kx_controller k0)"
    by (auto simp: same_session_def ack_frame_def fun_eq_iff)
  from acknowledged_move_barrier [OF assms(2) w] obtain new where
    step: "same_session (kx_controller k) (kx_controller k')" "allowed_next (awaiting_after None es) e"
      "kx_awaiting_acknowledgment k' = map_option (expectation_of cr) (awaiting_after (awaiting_after None es) [e])"
      "kx_acknowledged_responses k' = kx_acknowledged_responses k + length (acknowledged_of [e])" and
    new: "packets (ax_fd (kx_controller k0)) tr' = packets (ax_fd (kx_controller k0)) tr @ new"
      "\<And>rid body. e = Acknowledged rid \<Longrightarrow> awaiting_after None es = Some (rid, body) \<Longrightarrow>
        ack_frame cr (kx_controller k0) (expectation_of cr (rid, body)) \<in> set new"
    unfolding barrier_step_def same(1) [symmetric] same(2) [symmetric] by auto
  have "same_session (kx_controller k0) (kx_controller k')"
    using prev step(1) by (simp add: same_session_def)
  then show ?thesis
    using assms(1) step(2-4) new unfolding barrier_run_def awaiting_after_append snoc_split by auto
qed

lemma acknowledged_run_barrier:
  assumes "runs_to (acknowledged_move cr os) (k0, tr0) es kt"
  shows "kx_awaiting_acknowledgment k0 = None \<and> kx_acknowledged_responses k0 = 0 \<longrightarrow> barrier_run cr k0 es kt"
  using assms
proof (induction rule: runs_to.induct)
  case runs_Nil
  then show ?case by (simp add: barrier_run_def same_session_refl)
next
  case (runs_snoc es kt e kt')
  then show ?case
    using barrier_run_step [of cr k0 es "fst kt" "snd kt" os e "fst kt'" "snd kt'"] by simp
qed

text \<open>
  C10: Every answer of an acknowledged session stands behind a barrier. While the acknowledgment of an
  answer is outstanding nothing is accepted and nothing else is answered; the only events are
  failures and the acknowledgment of that very request, and each acknowledgment is a packet of the
  peer with the HMAC of the request id and of the SHA-256 of exactly the answer's bytes. The
  guarantees of the contract hold too, and a session that reports completion has answered and
  acknowledged all its requests.
\<close>

theorem acknowledgment_barrier:
  assumes "prepare_runtime_acknowledged_correlated_exchange os max_request max_response n m key tr0 =
      Some (Ok (target, k0), tr1)"
    and "runs_to (acknowledged_move cr os) (k0, tr1) es (k, tr)"
  shows "run_safe n m es \<and>
    (\<forall>before e after rid body. es = before @ e # after \<and> awaiting_after None before = Some (rid, body) \<longrightarrow>
      e = Stayed \<or> e = Closed \<or> e = Acknowledged rid \<and>
        [RUNTIME_AUTH_ACKNOWLEDGMENT_KIND, RUNTIME_AUTH_PROTOCOL_VERSION] @ le_bytes 8 rid @ rt_sha256 cr body @
        runtime_auth_tag cr key (ax_challenge (kx_controller k0)) RUNTIME_AUTH_ACKNOWLEDGMENT_KIND rid (rt_sha256 cr body)
        \<in> set (packets (ax_fd (kx_controller k0)) tr)) \<and>
    (acknowledged_is_complete k \<longrightarrow>
      length (answered_of es) = n \<and> length (acknowledged_of es) = n \<and> awaiting_after None es = None)"
proof -
  from assms(1) obtain c0 where c0: "prepare_runtime_authenticated_correlated_exchange os max_request max_response n m key tr0 =
      Some (Inr (target, c0), tr1)"
    and k0: "k0 = \<lparr>kx_controller = c0, kx_awaiting_acknowledgment = None, kx_acknowledged_responses = 0\<rparr>"
    by (auto simp: prepare_runtime_acknowledged_correlated_exchange_def io_try_Ok io_ret_Some)
  have fresh: "(case (k0, tr1) of (k, tr) \<Rightarrow> acknowledged_matches k) (fresh_session n m)"
    using prepared_authenticated [OF c0] k0 by (simp add: acknowledged_matches_def)
  note run = acknowledged.run_from_fresh [OF assms(2) fresh]
  from run(2) obtain s where s: "runs_to session_step (fresh_session n m) es s" "acknowledged_matches k s" by auto
  have barrier: "barrier_run cr k0 es (k, tr)" using acknowledged_run_barrier [OF assms(2)] k0 by simp
  have "acknowledged_is_complete k \<longrightarrow>
      length (answered_of es) = n \<and> length (acknowledged_of es) = n \<and> awaiting_after None es = None"
    using barrier s(2) session_run_history [OF s(1)] session_run_bounds [OF s(1)]
    by (auto simp: barrier_run_def acknowledged_is_complete_def authenticated_is_complete_def acknowledged_matches_def
        correlated_matches_def fresh_session_def)
  moreover have "e = Stayed \<or> e = Closed \<or> e = Acknowledged rid \<and>
      ack_frame cr c0 (expectation_of cr (rid, body)) \<in> set (packets (ax_fd c0) tr)"
    if "es = before @ e # after" "awaiting_after None before = Some (rid, body)" for before e after rid body
    using barrier that k0 unfolding barrier_run_def allowed_next_def by force
  ultimately show ?thesis
    using run(1) k0 prepared_authenticated [OF c0] by (simp add: ack_frame_def expectation_of_def)
qed

end
