(* ===== verification/Broker_Rounds.thy ===== *)
theory Broker_Rounds
  imports Broker_Exchange Broker_Session
begin

text \<open>
  Sessions of several rounds. Each operation of the inner controller has one of three outcomes,
  stated as a triple; the multi-round controller alternates requests and responses.
\<close>

section \<open>Outcomes of the inner controller\<close>

definition receive_outcome :: "runtime_message_exchange_controller
    \<Rightarrow> runtime_message_exchange_controller \<times> bytes broker_result \<Rightarrow> bool" where
  "receive_outcome c = (\<lambda>(c', r).
     (c' = c \<and> (\<exists>e. r = Inl e)) \<or>
     (mx_state c = AwaitingRequest \<and> c' = c\<lparr>mx_state := Exchange_Failed\<rparr> \<and> (\<exists>e. r = Inl e)) \<or>
     (mx_state c = AwaitingRequest \<and> c' = c\<lparr>mx_state := RequestReceived\<rparr> \<and>
       (\<exists>bs. r = Inr bs \<and> bs \<noteq> [] \<and> length bs \<le> mx_max_request_bytes c)))"

definition send_outcome :: "runtime_message_exchange_controller \<Rightarrow> bytes
    \<Rightarrow> runtime_message_exchange_controller \<times> unit broker_result \<Rightarrow> bool" where
  "send_outcome c response = (\<lambda>(c', r).
     (c' = c \<and> (\<exists>e. r = Inl e)) \<or>
     (mx_state c = RequestReceived \<and> c' = c\<lparr>mx_state := Exchange_Failed\<rparr> \<and> (\<exists>e. r = Inl e)) \<or>
     (mx_state c = RequestReceived \<and> c' = c\<lparr>mx_state := Complete\<rparr> \<and> r = Inr () \<and>
       response \<noteq> [] \<and> length response \<le> mx_max_response_bytes c))"

abbreviation yields :: "'a io \<Rightarrow> ('a \<Rightarrow> bool) \<Rightarrow> bool" where
  "yields m Q \<equiv> io_triple (\<lambda>_. True) m (\<lambda>x _. Q x)"

lemma yields_bind: "yields m R \<Longrightarrow> (\<And>x. R x \<Longrightarrow> yields (f x) Q) \<Longrightarrow> yields (io_bind m f) Q"
  by (rule io_triple_bind, assumption) (auto simp: io_triple_def)

lemma yields_then: "(\<And>x. yields (f x) Q) \<Longrightarrow> yields (io_bind m f) Q"
  by (rule io_triple_bind [where R = "\<lambda>_ _. True"]) (auto simp: io_triple_def)

lemma yields_ret: "Q x \<Longrightarrow> yields (io_ret x) Q"
  by (simp add: io_triple_ret)

definition breaks_with :: "('a \<Rightarrow> bool) \<Rightarrow> ('s, 'a) control \<Rightarrow> bool" where
  "breaks_with Q r \<longleftrightarrow> (case r of Continue _ \<Rightarrow> True | Break x \<Rightarrow> Q x)"

lemma breaks_with_simps [simp]: "breaks_with Q (Continue s)" "breaks_with Q (Break x) \<longleftrightarrow> Q x"
  by (simp_all add: breaks_with_def)

lemma yields_loop:
  assumes "\<And>s. yields (body s) (breaks_with Q)"
  shows "yields (loop_io body s) Q"
proof (rule io_triple_loop [where I = "\<lambda>_ _. True"])
  show "io_triple (\<lambda>_. True) (body s) (\<lambda>r tr. case r of Continue s' \<Rightarrow> True | Break x \<Rightarrow> Q x)" for s
    using assms [of s] by (simp add: breaks_with_def)
qed

lemma yields_close: "yields m Q \<Longrightarrow> yields (io_bind m (\<lambda>r. io_bind (io_call os c) (\<lambda>_. io_ret r))) Q"
  by (rule yields_bind, assumption, rule yields_then, rule yields_ret)

lemma refused_outcome: "receive_outcome c (c, Inl e)" "send_outcome c response (c, Inl e)"
  by (simp_all add: receive_outcome_def send_outcome_def)

lemma receive_packet_outcome:
  "mx_state c = AwaitingRequest \<Longrightarrow> yields (receive_packet os c) (receive_outcome c)"
  unfolding receive_packet_def
  by (intro yields_then yields_ret) (auto simp: receive_outcome_def split: broker_answer.splits)

definition wait_outcome :: "runtime_message_exchange_controller
    \<Rightarrow> runtime_message_exchange_controller \<times> unit broker_result \<Rightarrow> bool" where
  "wait_outcome c = (\<lambda>(c', r). (c' = c \<and> r = Inr ()) \<or> (c' = c\<lparr>mx_state := Exchange_Failed\<rparr> \<and> (\<exists>e. r = Inl e)))"

lemma request_poll_outcome: "yields (request_poll os c timer ms) (breaks_with (wait_outcome c))"
  unfolding request_poll_def
  by (intro yields_then yields_ret)
    (auto simp: wait_outcome_def Let_def case_prod_beta split: broker_answer.splits if_splits)

lemma session_request_poll_outcome:
  "yields (session_request_poll os c timer ms) (breaks_with (wait_outcome c))"
  unfolding session_request_poll_def
  by (intro yields_then yields_ret)
    (auto simp: wait_outcome_def Let_def case_prod_beta split: broker_answer.splits if_splits)

lemma wait_for_request_ready_outcome: "yields (wait_for_request_ready os c ms) (wait_outcome c)"
  unfolding wait_for_request_ready_def
proof (rule yields_then)
  show "yields (case r of Inl e \<Rightarrow> io_ret (exchange_failed c e)
      | Inr timer \<Rightarrow> io_bind (loop_io (\<lambda>_. request_poll os c timer ms) ())
          (\<lambda>r. io_bind (io_call os (Close_fd timer)) (\<lambda>_. io_ret r))) (wait_outcome c)" for r
  proof (cases r)
    case (Inl e)
    then show ?thesis by (auto intro!: yields_ret simp: wait_outcome_def)
  next
    case (Inr timer)
    then show ?thesis
      using yields_close [OF yields_loop [OF request_poll_outcome]] by simp
  qed
qed

lemma after_wait:
  assumes "mx_state c = AwaitingRequest" and "wait_outcome c cr" and "\<And>c. mx_state c = AwaitingRequest \<Longrightarrow> yields (k c) (receive_outcome c)"
  shows "yields (case cr of (c, r) \<Rightarrow> (case r of Inl e \<Rightarrow> io_ret (c, Err e) | Inr _ \<Rightarrow> k c)) (receive_outcome c)"
proof (cases cr)
  case (Pair c' r)
  then show ?thesis
    using assms by (cases r) (auto intro!: yields_ret simp: wait_outcome_def receive_outcome_def)
qed

lemma receive_request_inner_outcome: "yields (receive_request_inner os c wait) (receive_outcome c)"
proof (cases "mx_state c = AwaitingRequest")
  case False
  then show ?thesis by (auto simp: receive_request_inner_def receive_outcome_def intro!: yields_ret)
next
  case True
  show ?thesis
  proof (cases wait)
    case None
    then show ?thesis using True receive_packet_outcome by (simp add: receive_request_inner_def)
  next
    case (Some ms)
    show ?thesis
      unfolding receive_request_inner_def Some using True
      by (simp, intro yields_bind [OF wait_for_request_ready_outcome] after_wait) (auto intro: receive_packet_outcome)
  qed
qed

lemma receive_request_outcome: "yields (receive_request os c) (receive_outcome c)"
  unfolding receive_request_def by (rule receive_request_inner_outcome)

lemma receive_request_with_deadline_outcome: "yields (receive_request_with_deadline os c ms) (receive_outcome c)"
  unfolding receive_request_with_deadline_def
  by (auto intro: receive_request_inner_outcome yields_ret refused_outcome)

lemma receive_request_with_session_deadline_outcome:
  "yields (receive_request_with_session_deadline os c timer ms) (receive_outcome c)"
proof (cases "mx_state c = AwaitingRequest")
  case True
  then show ?thesis
    unfolding receive_request_with_session_deadline_def
    by (simp, intro yields_bind [OF yields_loop [OF session_request_poll_outcome]] after_wait)
      (auto intro: receive_request_outcome)
qed (simp add: receive_request_with_session_deadline_def receive_request_outcome)

section \<open>Responses\<close>

lemma response_error_None:
  "response_error c response = None \<longleftrightarrow> response \<noteq> [] \<and> length response \<le> mx_max_response_bytes c"
  by (auto simp: response_error_def)

lemma send_packet_outcome:
  "mx_state c = RequestReceived \<Longrightarrow> response_error c response = None \<Longrightarrow> yields (send_packet os c response) (send_outcome c response)"
  unfolding send_packet_def response_error_None
  by (intro yields_then yields_ret) (auto simp: send_outcome_def split: broker_answer.splits)

lemma try_send_packet_outcome:
  "mx_state c = RequestReceived \<Longrightarrow> response_error c response = None \<Longrightarrow> breaks_with (send_outcome c response) blocked \<Longrightarrow>
    yields (try_send_packet os c response blocked) (breaks_with (send_outcome c response))"
  unfolding try_send_packet_def response_error_None
  by (intro yields_then yields_ret) (auto simp: send_outcome_def split: broker_answer.splits)

lemma failed_send_outcome: "mx_state c = RequestReceived \<Longrightarrow> send_outcome c response (c\<lparr>mx_state := Exchange_Failed\<rparr>, Inl e)"
  by (simp add: send_outcome_def)

lemma response_poll_outcome:
  assumes "mx_state c = RequestReceived" and "response_error c response = None"
  shows "yields (response_poll os c response timer ms) (breaks_with (send_outcome c response))"
  unfolding response_poll_def
  using failed_send_outcome [OF assms(1)]
  by (intro yields_then)
    (auto intro!: yields_ret try_send_packet_outcome [OF assms] simp: Let_def case_prod_beta split: broker_answer.splits)

lemma session_response_poll_outcome:
  assumes "mx_state c = RequestReceived" and "response_error c response = None"
  shows "yields (session_response_poll os c response timer ms) (breaks_with (send_outcome c response))"
  unfolding session_response_poll_def
  using failed_send_outcome [OF assms(1)]
  by (intro yields_then)
    (auto intro!: yields_ret try_send_packet_outcome [OF assms] simp: Let_def case_prod_beta split: broker_answer.splits)

lemma send_response_with_timer_outcome:
  assumes "mx_state c = RequestReceived" and "response_error c response = None"
  shows "yields (send_response_with_timer os c response ms) (send_outcome c response)"
  unfolding send_response_with_timer_def
proof (rule yields_then)
  show "yields (case r of Inl e \<Rightarrow> io_ret (exchange_failed c e)
      | Inr timer \<Rightarrow> io_bind (loop_io (\<lambda>_. response_poll os c response timer ms) ())
          (\<lambda>r. io_bind (io_call os (Close_fd timer)) (\<lambda>_. io_ret r))) (send_outcome c response)" for r
  proof (cases r)
    case (Inl e)
    then show ?thesis using failed_send_outcome [OF assms(1)] by (auto intro!: yields_ret)
  next
    case (Inr timer)
    then show ?thesis
      using yields_close [OF yields_loop [OF response_poll_outcome [OF assms]]] by simp
  qed
qed

lemma send_response_inner_outcome: "yields (send_response_inner os c response wait) (send_outcome c response)"
proof (cases "mx_state c = RequestReceived")
  case False
  then show ?thesis by (auto simp: send_response_inner_def send_outcome_def intro!: yields_ret)
next
  case True
  then show ?thesis
    using send_packet_outcome [OF True] send_response_with_timer_outcome [OF True] failed_send_outcome [OF True]
    by (auto simp: send_response_inner_def intro!: yields_ret split: option.splits)
qed

lemma send_response_outcome: "yields (send_response os c response) (send_outcome c response)"
  unfolding send_response_def by (rule send_response_inner_outcome)

lemma send_response_with_deadline_outcome: "yields (send_response_with_deadline os c response ms) (send_outcome c response)"
  unfolding send_response_with_deadline_def
  by (auto intro: send_response_inner_outcome yields_ret refused_outcome)

lemma send_response_with_session_deadline_outcome:
  "yields (send_response_with_session_deadline os c response timer ms) (send_outcome c response)"
proof (cases "mx_state c = RequestReceived")
  case True
  then show ?thesis
    using yields_loop [OF session_response_poll_outcome [OF True]] failed_send_outcome [OF True]
    by (auto simp: send_response_with_session_deadline_def intro!: yields_ret split: option.splits)
qed (simp add: send_response_with_session_deadline_def send_response_outcome)

section \<open>Rounds\<close>

datatype round_event = Request bytes | Response bytes | Ended | Nothing

definition round_label :: "runtime_multi_message_exchange_controller \<Rightarrow> runtime_multi_message_exchange_controller
    \<Rightarrow> ('a \<Rightarrow> round_event) \<Rightarrow> 'a broker_result \<Rightarrow> round_event" where
  "round_label m m' success r = (case r of
       Inr x \<Rightarrow> success x
     | Inl _ \<Rightarrow> if mx_state (mm_controller m') = Exchange_Failed \<and> mx_state (mm_controller m) \<noteq> Exchange_Failed
         then Ended else Nothing)"

inductive multi_move :: "broker_os \<Rightarrow> runtime_multi_message_exchange_controller \<times> broker_event list \<Rightarrow> round_event
    \<Rightarrow> runtime_multi_message_exchange_controller \<times> broker_event list \<Rightarrow> bool"
  for os where
  start: "start_session_deadline os m ms tr = Some ((m', r), tr') \<Longrightarrow>
    multi_move os (m, tr) (round_label m m' (\<lambda>_. Nothing) r) (m', tr')"
| receive: "multi_receive_request os m tr = Some ((m', r), tr') \<Longrightarrow>
    multi_move os (m, tr) (round_label m m' Request r) (m', tr')"
| receive_deadline: "multi_receive_request_with_deadline os m ms tr = Some ((m', r), tr') \<Longrightarrow>
    multi_move os (m, tr) (round_label m m' Request r) (m', tr')"
| send: "multi_send_response os m response tr = Some ((m', r), tr') \<Longrightarrow>
    multi_move os (m, tr) (round_label m m' (\<lambda>_. Response response) r) (m', tr')"
| send_deadline: "multi_send_response_with_deadline os m response ms tr = Some ((m', r), tr') \<Longrightarrow>
    multi_move os (m, tr) (round_label m m' (\<lambda>_. Response response) r) (m', tr')"

text \<open>One step of the abstract session: its state, how many rounds are completed and how many there may be.\<close>

inductive round_step :: "nat \<Rightarrow> nat \<Rightarrow> nat \<Rightarrow> runtime_message_exchange_state \<times> nat \<Rightarrow> round_event
    \<Rightarrow> runtime_message_exchange_state \<times> nat \<Rightarrow> bool"
  for max_rounds max_request max_response where
  request: "bs \<noteq> [] \<Longrightarrow> length bs \<le> max_request \<Longrightarrow>
    round_step max_rounds max_request max_response (AwaitingRequest, k) (Request bs) (RequestReceived, k)"
| response: "bs \<noteq> [] \<Longrightarrow> length bs \<le> max_response \<Longrightarrow>
    round_step max_rounds max_request max_response (RequestReceived, k) (Response bs)
      (if k + 1 < max_rounds then AwaitingRequest else Complete, k + 1)"
| ended: "st = AwaitingRequest \<or> st = RequestReceived \<Longrightarrow>
    round_step max_rounds max_request max_response (st, k) Ended (Exchange_Failed, k)"
| nothing: "round_step max_rounds max_request max_response (st, k) Nothing (st, k)"

inductive_cases round_stepE: "round_step max_rounds max_request max_response (st, k) e (st', k')"

abbreviation round_view :: "runtime_multi_message_exchange_controller \<times> broker_event list
    \<Rightarrow> runtime_message_exchange_state \<times> nat" where
  "round_view mt \<equiv> (mx_state (mm_controller (fst mt)), mm_completed_rounds (fst mt))"

definition same_bounds :: "runtime_multi_message_exchange_controller \<Rightarrow> runtime_multi_message_exchange_controller \<Rightarrow> bool" where
  "same_bounds m m' \<longleftrightarrow> mm_max_rounds m' = mm_max_rounds m \<and>
     mx_max_request_bytes (mm_controller m') = mx_max_request_bytes (mm_controller m) \<and>
     mx_max_response_bytes (mm_controller m') = mx_max_response_bytes (mm_controller m)"

definition multi_outcome :: "runtime_multi_message_exchange_controller \<Rightarrow> ('a \<Rightarrow> round_event)
    \<Rightarrow> runtime_multi_message_exchange_controller \<times> 'a broker_result \<Rightarrow> bool" where
  "multi_outcome m success = (\<lambda>(m', r). same_bounds m m' \<and>
     round_step (mm_max_rounds m) (mx_max_request_bytes (mm_controller m)) (mx_max_response_bytes (mm_controller m))
       (mx_state (mm_controller m), mm_completed_rounds m) (round_label m m' success r)
       (mx_state (mm_controller m'), mm_completed_rounds m'))"

lemma multi_refused: "multi_outcome m success (m, Inl e)"
  by (simp add: multi_outcome_def same_bounds_def round_label_def round_step.nothing)

lemma multi_receive_outcome:
  assumes "receive_outcome (mm_controller m) (c', r)"
  shows "multi_outcome m Request (m\<lparr>mm_controller := c'\<rparr>, r)"
  using assms
  by (auto simp: receive_outcome_def multi_outcome_def same_bounds_def round_label_def intro: round_step.intros)

lemma multi_send_outcome:
  assumes "send_outcome (mm_controller m) response (c', r)"
  shows "multi_outcome m (\<lambda>_. Response response) (case r of
      Inl e \<Rightarrow> (m\<lparr>mm_controller := c'\<rparr>, Inl e) | Inr _ \<Rightarrow> (complete_response_round (m\<lparr>mm_controller := c'\<rparr>), Inr ()))"
proof (cases r)
  case (Inl e)
  then show ?thesis
    using assms
    by (auto simp: send_outcome_def multi_outcome_def same_bounds_def round_label_def intro: round_step.intros)
next
  case (Inr u)
  then have c': "mx_state (mm_controller m) = RequestReceived" "c' = (mm_controller m)\<lparr>mx_state := Complete\<rparr>"
      "response \<noteq> []" "length response \<le> mx_max_response_bytes (mm_controller m)"
    using assms by (auto simp: send_outcome_def)
  show ?thesis
    using Inr c' round_step.response [OF c'(3,4), of "mm_max_rounds m" "mx_max_request_bytes (mm_controller m)" "mm_completed_rounds m"]
    by (auto simp: multi_outcome_def same_bounds_def round_label_def complete_response_round_def Let_def)
qed

lemma on_controller_outcome:
  "yields op (receive_outcome (mm_controller m)) \<Longrightarrow> yields (on_controller m op) (multi_outcome m Request)"
  unfolding on_controller_def by (erule yields_bind) (auto intro!: yields_ret multi_receive_outcome)

lemma finish_response_outcome:
  assumes "yields op (send_outcome (mm_controller m) response)"
  shows "yields (finish_response m op) (multi_outcome m (\<lambda>_. Response response))"
proof -
  have "yields (on_controller m op) (\<lambda>(m', r). m' = m\<lparr>mm_controller := mm_controller m'\<rparr> \<and>
      send_outcome (mm_controller m) response (mm_controller m', r))"
    unfolding on_controller_def by (rule yields_bind [OF assms]) (auto intro!: yields_ret)
  then show ?thesis
    unfolding finish_response_def
  proof (rule yields_bind)
    fix x :: "runtime_multi_message_exchange_controller \<times> unit broker_result"
    assume x: "case x of (m', r) \<Rightarrow> m' = m\<lparr>mm_controller := mm_controller m'\<rparr> \<and>
      send_outcome (mm_controller m) response (mm_controller m', r)"
    obtain m' r where pair: "x = (m', r)" by (cases x)
    with x have m': "m\<lparr>mm_controller := mm_controller m'\<rparr> = m'"
      and outcome: "send_outcome (mm_controller m) response (mm_controller m', r)" by simp_all
    have "multi_outcome m (\<lambda>_. Response response) (case r of Inl e \<Rightarrow> (m', Inl e) | Inr _ \<Rightarrow> (complete_response_round m', Inr ()))"
      using multi_send_outcome [of m response "mm_controller m'" r] outcome unfolding m' by simp
    then show "yields (case x of (m, r) \<Rightarrow> io_ret (case r of Inl e \<Rightarrow> (m, Err e) | Inr _ \<Rightarrow> (complete_response_round m, Ok ())))
        (multi_outcome m (\<lambda>_. Response response))"
      unfolding pair by (simp add: yields_ret)
  qed
qed

lemma multi_guard_outcome: "yields op (multi_outcome m success) \<Longrightarrow> yields (multi_guard m check op) (multi_outcome m success)"
  unfolding multi_guard_def by (auto intro: yields_ret multi_refused split: sum.splits)

lemma start_outcome: "yields (start_session_deadline os m ms) (multi_outcome m (\<lambda>_. Nothing))"
proof -
  have "multi_outcome m (\<lambda>_. Nothing) (m\<lparr>mm_session_deadline := d\<rparr>, Inr ())" for d
    by (simp add: multi_outcome_def same_bounds_def round_label_def round_step.nothing)
  moreover have "mx_state (mm_controller m) = AwaitingRequest \<Longrightarrow>
      multi_outcome m (\<lambda>_. Nothing) (m\<lparr>mm_controller := (mm_controller m)\<lparr>mx_state := Exchange_Failed\<rparr>\<rparr>, Inl e)" for e
    by (simp add: multi_outcome_def same_bounds_def round_label_def round_step.ended)
  ultimately show ?thesis
    unfolding start_session_deadline_def by (auto intro!: yields_ret yields_then multi_refused split: sum.splits)
qed

lemma multi_move_step:
  assumes "multi_move os mt e mt'"
  shows "same_bounds (fst mt) (fst mt') \<and>
    round_step (mm_max_rounds (fst mt)) (mx_max_request_bytes (mm_controller (fst mt)))
      (mx_max_response_bytes (mm_controller (fst mt))) (round_view mt) e (round_view mt')"
proof -
  have receive: "yields (multi_receive_request os m) (multi_outcome m Request)"
    "yields (multi_receive_request_with_deadline os m ms) (multi_outcome m Request)" for m ms
    unfolding multi_receive_request_def multi_receive_request_with_deadline_def
    by (auto intro!: multi_guard_outcome on_controller_outcome receive_request_outcome receive_request_with_deadline_outcome
        receive_request_with_session_deadline_outcome split: option.splits)
  have send: "yields (multi_send_response os m response) (multi_outcome m (\<lambda>_. Response response))"
    "yields (multi_send_response_with_deadline os m response ms) (multi_outcome m (\<lambda>_. Response response))" for m response ms
    unfolding multi_send_response_def multi_send_response_with_deadline_def
    by (auto intro!: multi_guard_outcome finish_response_outcome send_response_outcome send_response_with_deadline_outcome
        send_response_with_session_deadline_outcome split: option.splits)
  from assms show ?thesis
    by (cases rule: multi_move.cases)
      (auto simp: multi_outcome_def io_triple_def dest: start_outcome [unfolded io_triple_def, rule_format, OF TrueI]
        receive(1) [unfolded io_triple_def, rule_format, OF TrueI] receive(2) [unfolded io_triple_def, rule_format, OF TrueI]
        send(1) [unfolded io_triple_def, rule_format, OF TrueI] send(2) [unfolded io_triple_def, rule_format, OF TrueI])
qed

section \<open>Runs of rounds\<close>

fun requests_of :: "round_event list \<Rightarrow> bytes list" where
  "requests_of [] = []"
| "requests_of (Request bs # es) = bs # requests_of es"
| "requests_of (_ # es) = requests_of es"

fun responses_of :: "round_event list \<Rightarrow> bytes list" where
  "responses_of [] = []"
| "responses_of (Response bs # es) = bs # responses_of es"
| "responses_of (_ # es) = responses_of es"

text \<open>Requests and responses strictly alternate; \<open>turn\<close> says whether a request is next.\<close>

fun turn :: "bool \<Rightarrow> round_event list \<Rightarrow> bool" where
  "turn b [] = b"
| "turn b (Request _ # es) = turn False es"
| "turn b (Response _ # es) = turn True es"
| "turn b (_ # es) = turn b es"

fun alternating :: "bool \<Rightarrow> round_event list \<Rightarrow> bool" where
  "alternating b [] = True"
| "alternating b (Request _ # es) = (b \<and> alternating False es)"
| "alternating b (Response _ # es) = (\<not> b \<and> alternating True es)"
| "alternating b (_ # es) = alternating b es"

lemma round_lists_append [simp]:
  "requests_of (es @ fs) = requests_of es @ requests_of fs" "responses_of (es @ fs) = responses_of es @ responses_of fs"
  by (induction es rule: requests_of.induct; simp) (induction es rule: responses_of.induct; simp)

lemma turn_append [simp]: "turn b (es @ fs) = turn (turn b es) fs"
  by (induction b es rule: turn.induct) simp_all

lemma alternating_append [simp]: "alternating b (es @ fs) \<longleftrightarrow> alternating b es \<and> alternating (turn b es) fs"
  by (induction b es rule: alternating.induct) simp_all

definition rounds_ok :: "nat \<Rightarrow> nat \<Rightarrow> nat \<Rightarrow> round_event list \<Rightarrow> runtime_message_exchange_state \<times> nat \<Rightarrow> bool" where
  "rounds_ok n max_request max_response es = (\<lambda>(st, k).
     k = length (responses_of es) \<and> k \<le> n \<and> alternating True es \<and>
     (\<forall>bs\<in>set (requests_of es). bs \<noteq> [] \<and> length bs \<le> max_request) \<and>
     (\<forall>bs\<in>set (responses_of es). bs \<noteq> [] \<and> length bs \<le> max_response) \<and>
     (st = AwaitingRequest \<longrightarrow> k < n \<and> turn True es) \<and> (st = RequestReceived \<longrightarrow> k < n \<and> \<not> turn True es) \<and>
     (st = Complete \<longrightarrow> k = n \<and> turn True es))"

lemma rounds_ok_step:
  assumes "round_step n max_request max_response sk e sk'" and "rounds_ok n max_request max_response es sk"
  shows "rounds_ok n max_request max_response (es @ [e]) sk'"
  using assms by (cases rule: round_step.cases) (auto simp: rounds_ok_def)

lemma rounds_ok_run:
  assumes "runs_to (round_step n max_request max_response) (AwaitingRequest, 0) es sk"
  shows "0 < n \<longrightarrow> rounds_ok n max_request max_response es sk"
  using assms
proof (induction rule: runs_to.induct)
  case runs_Nil
  then show ?case by (simp add: rounds_ok_def)
next
  case (runs_snoc es sk e sk')
  then show ?case using rounds_ok_step by blast
qed

lemma ended_run:
  assumes "runs_to (round_step n max_request max_response) sk es sk'"
  shows "fst sk = Exchange_Failed \<longrightarrow> set es \<subseteq> {Nothing} \<and> fst sk' = Exchange_Failed"
  using assms
  by (induction rule: runs_to.induct) (auto elim: round_step.cases)

lemma multi_run_rounds:
  assumes "runs_to (multi_move os) mt0 es mt"
  shows "same_bounds (fst mt0) (fst mt) \<and>
    runs_to (round_step (mm_max_rounds (fst mt0)) (mx_max_request_bytes (mm_controller (fst mt0)))
      (mx_max_response_bytes (mm_controller (fst mt0)))) (round_view mt0) es (round_view mt)"
  using assms
proof (induction rule: runs_to.induct)
  case runs_Nil
  show ?case by (simp add: same_bounds_def runs_to.runs_Nil)
next
  case (runs_snoc es mt e mt')
  then show ?case
    using multi_move_step [OF runs_snoc.hyps(2)] by (auto simp: same_bounds_def intro: runs_to.runs_snoc)
qed

lemma prepared_multi:
  assumes "prepare_runtime_multi_message_exchange os a b n tr0 = Some (Inr (target, m), tr)"
  shows "mm_max_rounds m = n \<and> 2 \<le> n \<and> n \<le> 32 \<and> mx_max_request_bytes (mm_controller m) = a \<and>
    mx_max_response_bytes (mm_controller m) = b \<and> round_view (m, tr) = (AwaitingRequest, 0)"
  using assms
  by (auto simp: prepare_runtime_multi_message_exchange_def prepare_runtime_message_exchange_def io_try_Ok io_ret_Some
      in_range_def MIN_RUNTIME_MULTI_MESSAGE_ROUNDS_def MAX_RUNTIME_MULTI_MESSAGE_ROUNDS_def Let_def case_prod_beta
      split: if_splits option.splits)

text \<open>
  C13: A session of several rounds is a strict alternation of one request and one response. Whatever
  order the host calls its operations in, with or without deadlines, and whatever the peer and the
  kernel do: requests and responses alternate, there are at most the configured number of rounds,
  every message is nonempty and within its byte limit, after a failure nothing is received or sent
  any more, and a session that reports completion has had exactly the configured number of rounds.
\<close>

theorem rounds_alternate:
  assumes "prepare_runtime_multi_message_exchange os max_request max_response n tr0 = Some (Ok (target, m0), tr1)"
    and "runs_to (multi_move os) (m0, tr1) es (m, tr)"
  shows "alternating True es \<and> length (responses_of es) \<le> n \<and>
    (\<forall>bs\<in>set (requests_of es). bs \<noteq> [] \<and> length bs \<le> max_request) \<and>
    (\<forall>bs\<in>set (responses_of es). bs \<noteq> [] \<and> length bs \<le> max_response) \<and>
    (\<forall>before after. es = before @ Ended # after \<longrightarrow> set after \<subseteq> {Nothing}) \<and>
    (multi_is_complete m \<longrightarrow> length (responses_of es) = n \<and> turn True es)"
proof -
  note m0 = prepared_multi [OF assms(1)]
  let ?step = "round_step n max_request max_response"
  have run: "runs_to ?step (AwaitingRequest, 0) es (round_view (m, tr))" and bounds: "mm_max_rounds m = n"
    using multi_run_rounds [OF assms(2)] m0 by (auto simp: same_bounds_def)
  then have ok: "rounds_ok n max_request max_response es (round_view (m, tr))"
    using rounds_ok_run [OF run] m0 by simp
  moreover have "set after \<subseteq> {Nothing}" if es: "es = before @ Ended # after" for before after
  proof -
    from run have "runs_to ?step (AwaitingRequest, 0) ((before @ [Ended]) @ after) (round_view (m, tr))" using es by simp
    then obtain sk where "runs_to ?step (AwaitingRequest, 0) (before @ [Ended]) sk" and after: "runs_to ?step sk after (round_view (m, tr))"
      unfolding runs_to_append [of _ _ "before @ [Ended]"] by blast
    then have "fst sk = Exchange_Failed" by (auto simp: runs_to_snoc elim: round_step.cases)
    with ended_run [OF after] show ?thesis by blast
  qed
  ultimately show ?thesis
    using bounds by (auto simp: rounds_ok_def multi_is_complete_def is_complete_def)
qed

end
