(* ===== verification/Broker_Examples.thy ===== *)
theory Broker_Examples
  imports Broker_Acknowledged Broker_Rounds
begin

text \<open>
  Concrete sessions of the controllers. The kernel of the examples hands out two descriptors and a
  constant challenge, accepts every packet that is sent and delivers a given list of packets.
\<close>

section \<open>A kernel and a peer\<close>

fun is_recvmsg :: "broker_event \<Rightarrow> bool" where
  "is_recvmsg (Recvmsg fd capacity, a) = True"
| "is_recvmsg _ = False"

fun example_kernel :: "bytes list \<Rightarrow> broker_os" where
  "example_kernel incoming tr (Socketpair kind) = Two_fds 10 11"
| "example_kernel incoming tr (Getrandom n) = Bytes_read (replicate n 7)"
| "example_kernel incoming tr (Send fd frame flags) = Value (int (length frame))"
| "example_kernel incoming tr (Recvmsg fd capacity) =
     (case drop (length (filter is_recvmsg tr)) incoming of [] \<Rightarrow> Packet [] False | bs # _ \<Rightarrow> Packet bs False)"
| "example_kernel incoming tr _ = Refused EINVAL"

definition example_runtime_crypto :: runtime_crypto where
  "example_runtime_crypto = \<lparr>rt_hmac_sha256 = (\<lambda>key bs. replicate 32 9), rt_sha256 = (\<lambda>bs. replicate 32 5)\<rparr>"

definition example_request_packet :: bytes where
  "example_request_packet = [81, 1, 5, 0, 0, 0, 0, 0, 0, 0, 65] @ replicate 32 9"

definition example_acknowledgment_packet :: bytes where
  "example_acknowledgment_packet = [65, 1, 5, 0, 0, 0, 0, 0, 0, 0] @ replicate 32 5 @ replicate 32 9"

lemma retry_answered:
  "os tr c \<noteq> Refused EINTR \<Longrightarrow> retry os c tr = Some (os tr c, tr @ [(c, os tr c)])"
  by (simp add: retry_def loop_io.simps io_bind_def io_call_def io_ret_def Let_def)

lemma example_challenge:
  "random_runtime_auth_challenge (example_kernel incoming) tr =
    Some (Inr (replicate 32 7), tr @ [(Getrandom 32, Bytes_read (replicate 32 7))])"
  by (simp add: random_runtime_auth_challenge_def challenge_step_def loop_io.simps io_bind_def io_call_def io_ret_def
      Let_def RUNTIME_AUTH_CHALLENGE_BYTES_def)

lemma runs_to_Cons:
  assumes "step c e c'" and "runs_to step c' es c''"
  shows "runs_to step c (e # es) c''"
  using runs_to_append [of step c "[e]" es c''] runs_to.runs_snoc [of step c "[]" c e c'] runs_to.runs_Nil [of step c] assms
  by auto

lemma le_bytes_numeral: "le_bytes (numeral w) n = of_nat n # le_bytes (pred_numeral w) (n div 256)"
  using le_bytes.simps(2) [of "pred_numeral w" n] by (simp only: numeral_eq_Suc)

lemmas io_eval = io_try_def io_bind_def io_answer_def io_call_def io_ret_def Let_def retry_answered

lemmas correlated_eval = correlated_bounds_error_def message_bounds_error_def in_range_def
  MAX_RUNTIME_MESSAGE_BYTES_def MIN_RUNTIME_CORRELATED_REQUESTS_def MAX_RUNTIME_CORRELATED_REQUESTS_def
  MIN_RUNTIME_CORRELATED_IN_FLIGHT_def MAX_RUNTIME_CORRELATED_IN_FLIGHT_def

section \<open>A correlated session\<close>

definition example_correlated :: runtime_correlated_message_exchange_controller where
  "example_correlated = \<lparr>cx_fd = 11, cx_max_request_bytes = 16, cx_max_response_bytes = 16, cx_max_requests = 2,
     cx_max_in_flight = 2, cx_received_requests = 0, cx_completed_responses = 0, cx_seen_request_ids = [],
     cx_pending_request_ids = [], cx_failed = False\<rparr>"

abbreviation correlated_kernel :: broker_os where
  "correlated_kernel \<equiv> example_kernel [[5, 0, 0, 0, 0, 0, 0, 0, 65]]"

lemma example_correlated_prepared:
  "prepare_runtime_correlated_exchange correlated_kernel 16 16 2 2 [] =
    Some (Ok (10, example_correlated), [(Socketpair ''SOCK_SEQPACKET|SOCK_CLOEXEC'', Two_fds 10 11)])"
  by (simp add: prepare_runtime_correlated_exchange_def io_eval correlated_eval example_correlated_def)

lemma example_correlated_run:
  "\<exists>c tr. runs_to (correlated_move correlated_kernel)
     (example_correlated, [(Socketpair ''SOCK_SEQPACKET|SOCK_CLOEXEC'', Two_fds 10 11)])
     [Accepted 5 [65], Answered 5 [66]] (c, tr)"
proof -
  let ?tr = "[(Socketpair ''SOCK_SEQPACKET|SOCK_CLOEXEC'', Two_fds 10 11)]"
  let ?c1 = "example_correlated\<lparr>cx_seen_request_ids := [5], cx_pending_request_ids := [5], cx_received_requests := 1\<rparr>"
  let ?c2 = "?c1\<lparr>cx_pending_request_ids := [], cx_completed_responses := 1\<rparr>"
  obtain tr1 where r: "correlated_receive_request correlated_kernel example_correlated ?tr =
      Some ((?c1, Ok \<lparr>request_id = 5, payload = [65]\<rparr>), tr1)"
    by (simp add: correlated_receive_request_def io_eval decode_correlated_def accept_correlated_def example_correlated_def)
  obtain tr2 where s: "correlated_send_response correlated_kernel ?c1 5 [66] tr1 = Some ((?c2, Ok ()), tr2)"
    by (simp add: correlated_send_response_def io_eval correlated_sent_def correlated_frame_def example_correlated_def)
  have "correlated_move correlated_kernel (example_correlated, ?tr) (Accepted 5 [65]) (?c1, tr1)"
    using correlated_move.receive [OF r] by (simp add: request_label_def)
  moreover have "correlated_move correlated_kernel (?c1, tr1) (Answered 5 [66]) (?c2, tr2)"
    using correlated_move.send [OF s] by simp
  ultimately show ?thesis by (blast intro: runs_to_Cons runs_to.runs_Nil)
qed

lemma correlated_session_safe_witness:
  "\<exists>c tr. runs_to (correlated_move correlated_kernel)
     (example_correlated, [(Socketpair ''SOCK_SEQPACKET|SOCK_CLOEXEC'', Two_fds 10 11)])
     [Accepted 5 [65], Answered 5 [66]] (c, tr) \<and>
     published 11 tr = [[5, 0, 0, 0, 0, 0, 0, 0, 66]] \<and> run_safe 2 2 [Accepted 5 [65], Answered 5 [66]]"
proof -
  obtain c tr where run: "runs_to (correlated_move correlated_kernel)
     (example_correlated, [(Socketpair ''SOCK_SEQPACKET|SOCK_CLOEXEC'', Two_fds 10 11)])
     [Accepted 5 [65], Answered 5 [66]] (c, tr)"
    using example_correlated_run by blast
  have "cx_fd example_correlated = 11" by (simp add: example_correlated_def)
  with run correlated_session_safe [OF example_correlated_prepared run] show ?thesis
    by (auto simp: correlated_frame_def le_bytes_numeral)
qed

section \<open>An authenticated session\<close>

abbreviation example_start :: "broker_event list" where
  "example_start \<equiv> [(Getrandom 32, Bytes_read (replicate 32 7)), (Socketpair ''SOCK_SEQPACKET|SOCK_CLOEXEC'', Two_fds 10 11)]"

abbreviation authenticated_kernel :: broker_os where
  "authenticated_kernel \<equiv> example_kernel [example_request_packet, example_acknowledgment_packet]"

definition example_authenticated :: runtime_authenticated_correlated_message_exchange_controller where
  "example_authenticated = \<lparr>ax_fd = 11, ax_max_request_bytes = 16, ax_max_response_bytes = 16, ax_max_requests = 2,
     ax_max_in_flight = 2, ax_received_requests = 0, ax_completed_responses = 0, ax_seen_request_ids = [],
     ax_pending_request_ids = [], ax_key = replicate 32 1, ax_challenge = replicate 32 7,
     ax_challenge_published = False, ax_failed = False\<rparr>"

lemma example_authenticated_prepared:
  "prepare_runtime_authenticated_correlated_exchange authenticated_kernel 16 16 2 2 (replicate 32 1) [] =
    Some (Ok (10, example_authenticated), example_start)"
  by (simp add: prepare_runtime_authenticated_correlated_exchange_def io_eval correlated_eval example_challenge
      example_authenticated_def)

definition example_open :: runtime_authenticated_correlated_message_exchange_controller where
  "example_open = example_authenticated\<lparr>ax_challenge_published := True\<rparr>"

definition example_busy :: runtime_authenticated_correlated_message_exchange_controller where
  "example_busy = example_open\<lparr>ax_seen_request_ids := [5], ax_pending_request_ids := [5], ax_received_requests := 1\<rparr>"

definition example_idle :: runtime_authenticated_correlated_message_exchange_controller where
  "example_idle = example_busy\<lparr>ax_pending_request_ids := [], ax_completed_responses := 1\<rparr>"

definition example_opened :: "broker_event list" where
  "example_opened = example_start @ [(Send 11 (challenge_frame example_authenticated) [''MSG_NOSIGNAL''], Value 34)]"

definition example_received :: "broker_event list" where
  "example_received = example_opened @ [(Recvmsg 11 58, Packet example_request_packet False)]"

definition example_answered :: "broker_event list" where
  "example_answered = example_received @
     [(Send 11 (authenticated_frame example_runtime_crypto example_busy 5 [66]) [''MSG_NOSIGNAL'', ''MSG_DONTWAIT''], Value 43)]"

lemmas example_states = example_authenticated_def example_open_def example_busy_def example_idle_def

lemma example_publish:
  "publish_challenge authenticated_kernel example_authenticated example_start =
    Some ((example_open, Ok ()), example_opened)"
  by (simp add: publish_challenge_def io_eval challenge_frame_def example_states example_opened_def)

lemma example_decode:
  "decode_authenticated example_runtime_crypto example_open (Packet example_request_packet False) =
    (example_busy, Ok \<lparr>request_id = 5, payload = [65]\<rparr>)"
  by (simp add: decode_authenticated_def accept_authenticated_def runtime_auth_verify_def runtime_auth_mac_def
      example_request_packet_def example_runtime_crypto_def example_states Let_def framing_bytes_def RUNTIME_AUTH_TAG_BYTES_def
      RUNTIME_AUTH_REQUEST_KIND_def RUNTIME_AUTH_PROTOCOL_VERSION_def)

lemma example_receive:
  "authenticated_receive_request example_runtime_crypto authenticated_kernel example_open example_opened =
    Some ((example_busy, Ok \<lparr>request_id = 5, payload = [65]\<rparr>), example_received)"
proof -
  have "retry authenticated_kernel (Recvmsg 11 58) example_opened =
      Some (Packet example_request_packet False, example_received)"
    by (simp add: retry_answered example_opened_def example_received_def)
  moreover have "\<not> ax_failed example_open" "ax_challenge_published example_open" "ax_received_requests example_open = 0"
    "ax_max_requests example_open = 2" "ax_pending_request_ids example_open = []" "ax_max_in_flight example_open = 2"
    "ax_fd example_open = 11" "ax_max_request_bytes example_open = 16"
    by (simp_all add: example_states)
  ultimately show ?thesis
    by (simp add: authenticated_receive_request_def io_bind_def io_ret_def example_decode framing_bytes_def
        RUNTIME_AUTH_TAG_BYTES_def)
qed

lemma example_send:
  "authenticated_send_response example_runtime_crypto authenticated_kernel example_busy 5 [66] example_received =
    Some ((example_idle, Ok ()), example_answered)"
  by (simp add: authenticated_send_response_def io_eval authenticated_sent_def authenticated_frame_def example_states
      example_answered_def runtime_auth_tag_def runtime_auth_mac_def example_runtime_crypto_def)

lemma example_authenticated_run:
  "runs_to (authenticated_move example_runtime_crypto authenticated_kernel) (example_authenticated, example_start)
     [Stayed, Accepted 5 [65], Answered 5 [66]] (example_idle, example_answered)"
proof -
  let ?move = "authenticated_move example_runtime_crypto authenticated_kernel"
  have "?move (example_authenticated, example_start) Stayed (example_open, example_opened)"
    using authenticated_move.challenge [OF example_publish, of example_runtime_crypto] by simp
  moreover have "?move (example_open, example_opened) (Accepted 5 [65]) (example_busy, example_received)"
    using authenticated_move.receive [OF example_receive] by (simp add: request_label_def)
  moreover have "?move (example_busy, example_received) (Answered 5 [66]) (example_idle, example_answered)"
    using authenticated_move.send [OF example_send] by simp
  ultimately show ?thesis by (blast intro: runs_to_Cons runs_to.runs_Nil)
qed

lemma authenticated_session_safe_witness:
  "run_safe 2 2 [Stayed, Accepted 5 [65], Answered 5 [66]] \<and>
   published (ax_fd example_authenticated) example_answered =
     [challenge_frame example_authenticated, authenticated_frame example_runtime_crypto example_authenticated 5 [66]]"
  using authenticated_session_safe [OF example_authenticated_prepared example_authenticated_run]
  by (simp add: example_states)

lemma runtime_auth_binds_witness:
  "\<exists>x y. x \<noteq> y \<and> rt_hmac_sha256 example_runtime_crypto [1] x = rt_hmac_sha256 example_runtime_crypto [1] y"
  by (rule runtime_auth_binds [of example_runtime_crypto "[1]" "[7]" RUNTIME_AUTH_REQUEST_KIND 5 "[65]" "[7]"
        RUNTIME_AUTH_RESPONSE_KIND 5 "[65]"])
    (simp_all add: runtime_auth_verify_def runtime_auth_tag_def runtime_auth_mac_def example_runtime_crypto_def
      RUNTIME_AUTH_REQUEST_KIND_def RUNTIME_AUTH_RESPONSE_KIND_def)

section \<open>An acknowledged session\<close>

definition acknowledged_example :: "runtime_authenticated_correlated_message_exchange_controller
    \<Rightarrow> runtime_response_acknowledgment_expectation option \<Rightarrow> nat
    \<Rightarrow> runtime_acknowledged_correlated_message_exchange_controller" where
  "acknowledged_example c expectation n =
     \<lparr>kx_controller = c, kx_awaiting_acknowledgment = expectation, kx_acknowledged_responses = n\<rparr>"

definition example_expectation :: runtime_response_acknowledgment_expectation where
  "example_expectation = \<lparr>expected_request_id = 5, expected_response_sha256 = replicate 32 5\<rparr>"

definition example_acknowledged :: "broker_event list" where
  "example_acknowledged = example_answered @ [(Recvmsg 11 74, Packet example_acknowledgment_packet False)]"

lemma example_runtime_sha256: "rt_sha256 example_runtime_crypto bs = replicate 32 5"
  by (simp add: example_runtime_crypto_def)

lemma example_acknowledged_prepared:
  "prepare_runtime_acknowledged_correlated_exchange authenticated_kernel 16 16 2 2 (replicate 32 1) [] =
    Some (Ok (10, acknowledged_example example_authenticated None 0), example_start)"
  unfolding prepare_runtime_acknowledged_correlated_exchange_def io_try_def io_bind_def example_authenticated_prepared
  by (simp add: io_ret_def acknowledged_example_def)

lemma example_decode_acknowledgment:
  "decode_acknowledgment example_runtime_crypto (acknowledged_example example_idle (Some example_expectation) 0)
     example_expectation (Packet example_acknowledgment_packet False) = (acknowledged_example example_idle None 1, Ok 5)"
  by (simp add: decode_acknowledgment_def runtime_auth_verify_def runtime_auth_mac_def example_acknowledgment_packet_def
      example_runtime_crypto_def acknowledged_example_def example_expectation_def Let_def ACK_FRAME_BYTES_def
      RUNTIME_AUTH_TAG_BYTES_def RUNTIME_AUTH_ACKNOWLEDGMENT_KIND_def RUNTIME_AUTH_PROTOCOL_VERSION_def)

lemma example_acknowledge:
  "receive_acknowledgment example_runtime_crypto authenticated_kernel
     (acknowledged_example example_idle (Some example_expectation) 0) example_answered =
    Some ((acknowledged_example example_idle None 1, Ok 5), example_acknowledged)"
proof -
  let ?k = "acknowledged_example example_idle (Some example_expectation) 0"
  have "retry authenticated_kernel (Recvmsg 11 74) example_answered =
      Some (Packet example_acknowledgment_packet False, example_acknowledged)"
    by (simp add: retry_answered example_opened_def example_received_def example_answered_def example_acknowledged_def)
  moreover have "\<not> ax_failed (kx_controller ?k)" "kx_awaiting_acknowledgment ?k = Some example_expectation"
    "ax_fd (kx_controller ?k) = 11"
    by (simp_all add: example_states acknowledged_example_def)
  ultimately show ?thesis
    by (simp add: receive_acknowledgment_def io_bind_def io_ret_def example_decode_acknowledgment ACK_FRAME_BYTES_def
        RUNTIME_AUTH_TAG_BYTES_def)
qed

lemma example_acknowledged_run:
  "runs_to (acknowledged_move example_runtime_crypto authenticated_kernel)
     (acknowledged_example example_authenticated None 0, example_start)
     [Stayed, Accepted 5 [65], Answered 5 [66], Acknowledged 5]
     (acknowledged_example example_idle None 1, example_acknowledged)"
proof -
  let ?move = "acknowledged_move example_runtime_crypto authenticated_kernel"
  have active: "\<not> ax_failed example_open" "\<not> ax_failed example_busy" by (simp_all add: example_states)
  have "acknowledged_publish_challenge authenticated_kernel (acknowledged_example example_authenticated None 0)
      example_start = Some ((acknowledged_example example_open None 0, Ok ()), example_opened)"
    by (simp add: acknowledged_publish_challenge_def on_authenticated_def acknowledged_example_def io_bind_def io_ret_def
        example_publish)
  then have "?move (acknowledged_example example_authenticated None 0, example_start) Stayed
      (acknowledged_example example_open None 0, example_opened)"
    by (auto dest: acknowledged_move.challenge [where cr = example_runtime_crypto])
  moreover have "acknowledged_receive_request example_runtime_crypto authenticated_kernel (acknowledged_example example_open None 0)
      example_opened = Some ((acknowledged_example example_busy None 0, Ok \<lparr>request_id = 5, payload = [65]\<rparr>), example_received)"
    by (simp add: acknowledged_receive_request_def on_authenticated_def acknowledged_example_def io_bind_def io_ret_def
        example_receive active)
  then have "?move (acknowledged_example example_open None 0, example_opened) (Accepted 5 [65])
      (acknowledged_example example_busy None 0, example_received)"
    by (auto simp: request_label_def dest: acknowledged_move.receive)
  moreover have "acknowledged_send_response example_runtime_crypto authenticated_kernel (acknowledged_example example_busy None 0)
      5 [66] example_received =
    Some ((acknowledged_example example_idle (Some example_expectation) 0, Ok ()), example_answered)"
    by (simp add: acknowledged_send_response_def on_authenticated_def acknowledged_example_def io_bind_def io_ret_def
        example_send active Let_def runtime_response_sha256_def example_runtime_sha256 example_expectation_def)
  then have "?move (acknowledged_example example_busy None 0, example_received) (Answered 5 [66])
      (acknowledged_example example_idle (Some example_expectation) 0, example_answered)"
    by (auto dest: acknowledged_move.send)
  moreover have "?move (acknowledged_example example_idle (Some example_expectation) 0, example_answered) (Acknowledged 5)
      (acknowledged_example example_idle None 1, example_acknowledged)"
    using acknowledged_move.acknowledge [OF example_acknowledge] by simp
  ultimately show ?thesis by (blast intro: runs_to_Cons runs_to.runs_Nil)
qed

lemma acknowledgment_barrier_witness:
  "run_safe 2 2 [Stayed, Accepted 5 [65], Answered 5 [66], Acknowledged 5] \<and>
   [RUNTIME_AUTH_ACKNOWLEDGMENT_KIND, RUNTIME_AUTH_PROTOCOL_VERSION] @ le_bytes 8 5 @ rt_sha256 example_runtime_crypto [66] @
     runtime_auth_tag example_runtime_crypto (replicate 32 1) (ax_challenge example_authenticated)
       RUNTIME_AUTH_ACKNOWLEDGMENT_KIND 5 (rt_sha256 example_runtime_crypto [66])
     \<in> set (packets (ax_fd example_authenticated) example_acknowledged)"
proof -
  note barrier = acknowledgment_barrier [OF example_acknowledged_prepared example_acknowledged_run]
  have "[Stayed, Accepted 5 [65], Answered 5 [66], Acknowledged 5] =
      [Stayed, Accepted 5 [65], Answered 5 [66]] @ Acknowledged 5 # [] \<and>
      awaiting_after None [Stayed, Accepted 5 [65], Answered 5 [66]] = Some (5, [66])"
    by simp
  then show ?thesis
    using conjunct1 [OF barrier] spec [OF spec [OF spec [OF spec [OF spec [OF conjunct1 [OF conjunct2 [OF barrier]]]]]],
        of "[Stayed, Accepted 5 [65], Answered 5 [66]]" "Acknowledged 5" "[]" 5 "[66]"]
    by (simp add: acknowledged_example_def)
qed

section \<open>A session of two rounds\<close>

abbreviation rounds_kernel :: broker_os where
  "rounds_kernel \<equiv> example_kernel [[1], [2]]"

definition example_round :: "runtime_message_exchange_state \<Rightarrow> nat \<Rightarrow> runtime_multi_message_exchange_controller" where
  "example_round st n = \<lparr>mm_controller = \<lparr>mx_fd = 11, mx_max_request_bytes = 16, mx_max_response_bytes = 16, mx_state = st\<rparr>,
     mm_max_rounds = 2, mm_completed_rounds = n, mm_session_deadline = None\<rparr>"

abbreviation rounds_start :: "broker_event list" where
  "rounds_start \<equiv> [(Socketpair ''SOCK_SEQPACKET|SOCK_CLOEXEC'', Two_fds 10 11)]"

abbreviation rounds_received :: "broker_event list \<Rightarrow> u8 \<Rightarrow> broker_event list" where
  "rounds_received tr b \<equiv> tr @ [(Recvmsg 11 17, Packet [b] False)]"

abbreviation rounds_sent :: "broker_event list \<Rightarrow> u8 \<Rightarrow> broker_event list" where
  "rounds_sent tr b \<equiv> tr @ [(Send 11 [b] [''MSG_NOSIGNAL''], Value 1)]"

lemma example_rounds_prepared:
  "prepare_runtime_multi_message_exchange rounds_kernel 16 16 2 [] = Some (Ok (10, example_round AwaitingRequest 0), rounds_start)"
  by (simp add: prepare_runtime_multi_message_exchange_def prepare_runtime_message_exchange_def io_eval
      message_bounds_error_def in_range_def MAX_RUNTIME_MESSAGE_BYTES_def MIN_RUNTIME_MULTI_MESSAGE_ROUNDS_def
      MAX_RUNTIME_MULTI_MESSAGE_ROUNDS_def example_round_def)

lemma example_round_request:
  assumes "rounds_kernel tr (Recvmsg 11 17) = Packet [b] False" and "n < 2"
  shows "multi_move rounds_kernel (example_round AwaitingRequest n, tr) (Request [b])
    (example_round RequestReceived n, rounds_received tr b)"
proof -
  have "multi_receive_request rounds_kernel (example_round AwaitingRequest n) tr =
      Some ((example_round RequestReceived n, Ok [b]), rounds_received tr b)"
    using assms
    by (simp add: multi_receive_request_def multi_guard_def reject_after_round_limit_def reject_def multi_is_complete_def is_complete_def on_controller_def
        receive_request_def receive_request_inner_def receive_packet_def io_bind_def io_ret_def retry_answered example_round_def)
  from multi_move.receive [OF this] show ?thesis by (simp add: round_label_def)
qed

lemma example_round_response:
  assumes "n < 2"
  shows "multi_move rounds_kernel (example_round RequestReceived n, tr) (Response [b])
    (example_round (if n + 1 < 2 then AwaitingRequest else Complete) (n + 1), rounds_sent tr b)"
proof -
  have "multi_send_response rounds_kernel (example_round RequestReceived n) [b] tr =
      Some ((example_round (if n + 1 < 2 then AwaitingRequest else Complete) (n + 1), Ok ()), rounds_sent tr b)"
    using assms
    by (simp add: multi_send_response_def multi_guard_def reject_after_round_limit_def reject_def multi_is_complete_def is_complete_def on_controller_def finish_response_def
        complete_response_round_def send_response_def send_response_inner_def response_error_def send_packet_def io_bind_def io_ret_def
        retry_answered example_round_def Let_def)
  from multi_move.send [OF this] show ?thesis by (simp add: round_label_def)
qed

lemma rounds_alternate_witness:
  "\<exists>tr. runs_to (multi_move rounds_kernel) (example_round AwaitingRequest 0, rounds_start)
     [Request [1], Response [3], Request [2], Response [4]] (example_round Complete 2, tr) \<and>
     alternating True [Request [1], Response [3], Request [2], Response [4]] \<and> multi_is_complete (example_round Complete 2) \<and>
     length (responses_of [Request [1], Response [3], Request [2], Response [4]]) = 2"
proof -
  let ?move = "multi_move rounds_kernel"
  let ?tr2 = "rounds_sent (rounds_received rounds_start 1) 3"
  let ?tr4 = "rounds_sent (rounds_received ?tr2 2) 4"
  have "?move (example_round AwaitingRequest 0, rounds_start) (Request [1]) (example_round RequestReceived 0, rounds_received rounds_start 1)"
    by (rule example_round_request) simp_all
  moreover have "?move (example_round RequestReceived 0, rounds_received rounds_start 1) (Response [3])
      (example_round AwaitingRequest 1, ?tr2)"
    using example_round_response [of 0 "rounds_received rounds_start 1" 3] by simp
  moreover have "?move (example_round AwaitingRequest 1, ?tr2) (Request [2]) (example_round RequestReceived 1, rounds_received ?tr2 2)"
    by (rule example_round_request) simp_all
  moreover have "?move (example_round RequestReceived 1, rounds_received ?tr2 2) (Response [4]) (example_round Complete 2, ?tr4)"
    using example_round_response [of 1 "rounds_received ?tr2 2" 4] by (simp add: numeral_2_eq_2)
  ultimately have run: "runs_to ?move (example_round AwaitingRequest 0, rounds_start)
      [Request [1], Response [3], Request [2], Response [4]] (example_round Complete 2, ?tr4)"
    by (blast intro: runs_to_Cons runs_to.runs_Nil)
  have "multi_is_complete (example_round Complete 2)" by (simp add: multi_is_complete_def is_complete_def example_round_def)
  with run rounds_alternate [OF example_rounds_prepared run] show ?thesis by blast
qed

end
