(* ===== verification/Broker_Grants.thy ===== *)
theory Broker_Grants
  imports Broker_Exchange
begin

text \<open>
  The grants of \<open>runtime_fd_broker.rs\<close>: prepared descriptors (connected sockets, read-only files, sealed
  snapshots and bundles, revocable streams), the session that transfers one of them, the
  reconnect and router controllers, and the broker itself. A value that Rust drops closes its
  descriptor.
\<close>

definition MAX_RUNTIME_SEALED_SNAPSHOT_BYTES :: nat where "MAX_RUNTIME_SEALED_SNAPSHOT_BYTES = 64 * 1024 * 1024"
definition MIN_RUNTIME_SEALED_BUNDLE_ITEMS :: nat where "MIN_RUNTIME_SEALED_BUNDLE_ITEMS = 2"
definition MAX_RUNTIME_SEALED_BUNDLE_ITEMS :: nat where "MAX_RUNTIME_SEALED_BUNDLE_ITEMS = 8"
definition MAX_RUNTIME_SEALED_BUNDLE_BYTES :: nat where "MAX_RUNTIME_SEALED_BUNDLE_BYTES = 64 * 1024 * 1024"
definition MAX_RUNTIME_REVOCABLE_STREAM_BYTES :: nat where "MAX_RUNTIME_REVOCABLE_STREAM_BYTES = 64 * 1024 * 1024"
definition MIN_RUNTIME_HOST_UNIX_RECONNECT_CONNECTIONS :: nat where "MIN_RUNTIME_HOST_UNIX_RECONNECT_CONNECTIONS = 2"
definition MAX_RUNTIME_HOST_UNIX_RECONNECT_CONNECTIONS :: nat where "MAX_RUNTIME_HOST_UNIX_RECONNECT_CONNECTIONS = 8"
definition MIN_RUNTIME_HOST_UNIX_ROUTER_SERVICES :: nat where "MIN_RUNTIME_HOST_UNIX_ROUTER_SERVICES = 2"
definition MAX_RUNTIME_HOST_UNIX_ROUTER_SERVICES :: nat where "MAX_RUNTIME_HOST_UNIX_ROUTER_SERVICES = 4"
definition MIN_RUNTIME_HOST_UNIX_ROUTE_CONNECTIONS :: nat where "MIN_RUNTIME_HOST_UNIX_ROUTE_CONNECTIONS = 1"
definition MAX_RUNTIME_HOST_UNIX_ROUTE_CONNECTIONS :: nat where "MAX_RUNTIME_HOST_UNIX_ROUTE_CONNECTIONS = 8"
definition MAX_UNIX_PATH_BYTES :: nat where "MAX_UNIX_PATH_BYTES = 107"

text \<open>The drop of a value that owns a descriptor.\<close>

definition closing :: "broker_os \<Rightarrow> raw_fd \<Rightarrow> 'a io \<Rightarrow> 'a io" where
  "closing os fd m = io_bind m (\<lambda>r. io_bind (io_call os (Close_fd fd)) (\<lambda>_. io_ret r))"

text \<open>The drop on an early return only.\<close>

definition closing_on_error :: "broker_os \<Rightarrow> raw_fd \<Rightarrow> 'a broker_result io \<Rightarrow> 'a broker_result io" where
  "closing_on_error os fd m = io_bind m (\<lambda>r. case r of
     Inl e \<Rightarrow> io_bind (io_call os (Close_fd fd)) (\<lambda>_. io_ret (Err e)) | Inr x \<Rightarrow> io_ret (Ok x))"

section \<open>Host sockets\<close>

definition validate_socket_path :: "pathbuf \<Rightarrow> unit broker_result" where
  "validate_socket_path path = checks [
     reject (\<not> is_absolute path) (InvalidConfiguration ''broker socket path must be absolute''),
     reject (CHR 0x00 \<in> set path) (InvalidConfiguration ''broker socket path must not contain NUL''),
     reject (length path > MAX_UNIX_PATH_BYTES)
       (InvalidConfiguration ''broker socket path exceeds {MAX_UNIX_PATH_BYTES} bytes''),
     for_each (\<lambda>component. reject (component = ParentDir \<or> component = CurDir)
       (InvalidConfiguration ''broker socket path must not contain . or .. components'')) (components path)]"

fun credentials_of :: "broker_answer \<Rightarrow> (int \<times> u32 \<times> u32) option" where
  "credentials_of (Creds c) = c"
| "credentials_of _ = None"

definition peer_credentials :: "broker_os \<Rightarrow> raw_fd \<Rightarrow> (int \<times> u32 \<times> u32) broker_result io" where
  "peer_credentials os fd =
     io_try (io_answer os (Peer_cred fd) (Io ''cannot inspect runtime FD broker peer credentials'')) (\<lambda>a.
     io_ret (ok_or (Protocol ''SO_PEERCRED returned an unexpected structure length'') (credentials_of a)))"

record prepared_host_unix_socket =
  hs_fd :: raw_fd
  hs_peer_pid :: int
  hs_peer_uid :: u32
  hs_peer_gid :: u32

definition check_peer :: "(u32 \<times> u32) option \<Rightarrow> int \<Rightarrow> u32 \<Rightarrow> u32 \<Rightarrow> unit broker_result" where
  "check_peer expected_peer pid uid gid = (case expected_peer of
       None \<Rightarrow> Ok ()
     | Some (expected_uid, expected_gid) \<Rightarrow>
         reject (uid \<noteq> expected_uid \<or> gid \<noteq> expected_gid)
           (HostUnixPeerCredentialMismatch expected_uid expected_gid pid uid gid))"

text \<open>The credentials of a connected socket, and the pin on them.\<close>

definition pinned_socket :: "broker_os \<Rightarrow> (u32 \<times> u32) option \<Rightarrow> raw_fd \<Rightarrow> prepared_host_unix_socket broker_result io" where
  "pinned_socket os expected_peer fd = closing_on_error os fd
     (io_try (peer_credentials os fd) (\<lambda>(pid, uid, gid).
      io_try (io_ret (check_peer expected_peer pid uid gid)) (\<lambda>_.
      io_ret (Ok \<lparr>hs_fd = fd, hs_peer_pid = pid, hs_peer_uid = uid, hs_peer_gid = gid\<rparr>))))"

definition prepare_host_unix_stream ::
  "broker_os \<Rightarrow> pathbuf \<Rightarrow> (u32 \<times> u32) option \<Rightarrow> prepared_host_unix_socket broker_result io" where
  "prepare_host_unix_stream os path expected_peer =
     io_try (io_ret (validate_socket_path path)) (\<lambda>_.
     io_try (io_answer os (Stream_connect path) (Io ''cannot connect runtime host UNIX stream'')) (\<lambda>a.
     pinned_socket os expected_peer (value_of a)))"

definition prepare_host_unix_seqpacket ::
  "broker_os \<Rightarrow> pathbuf \<Rightarrow> (u32 \<times> u32) option \<Rightarrow> prepared_host_unix_socket broker_result io" where
  "prepare_host_unix_seqpacket os path expected_peer =
     io_try (io_ret (validate_socket_path path)) (\<lambda>_.
     io_try (io_answer os (Socket_new ''SOCK_SEQPACKET|SOCK_CLOEXEC'')
       (Io ''cannot create runtime host UNIX seqpacket socket'')) (\<lambda>a.
     io_try (closing_on_error os (value_of a)
       (io_answer os (Connect_unix (value_of a) path) (Io ''cannot connect runtime host UNIX seqpacket''))) (\<lambda>_.
     pinned_socket os expected_peer (value_of a))))"

section \<open>Revocable host streams\<close>

datatype host_unix_stream_revocation_state = Revocation_Active | Revocation_Revoked | Revocation_Failed

record host_unix_stream_revocation_controller =
  rv_socket :: prepared_host_unix_socket
  rv_state :: host_unix_stream_revocation_state

definition revoke_host_stream :: "broker_os \<Rightarrow> host_unix_stream_revocation_controller
    \<Rightarrow> (host_unix_stream_revocation_controller \<times> unit broker_result) io" where
  "revoke_host_stream os c = (case rv_state c of
       Revocation_Revoked \<Rightarrow> io_ret (c, Err (Protocol ''host UNIX stream capability may be revoked exactly once''))
     | Revocation_Failed \<Rightarrow>
         io_ret (c, Err (Protocol ''host UNIX stream revocation controller is closed after failure''))
     | Revocation_Active \<Rightarrow>
         io_bind (io_call os (Shutdown (hs_fd (rv_socket c)) ''Both'')) (\<lambda>a. io_ret (case a of
           Refused e \<Rightarrow> (c\<lparr>rv_state := Revocation_Failed\<rparr>, Err (Io ''cannot revoke transferred host UNIX stream'' e))
         | _ \<Rightarrow> (c\<lparr>rv_state := Revocation_Revoked\<rparr>, Ok ()))))"

definition drop_revocation_controller :: "broker_os \<Rightarrow> host_unix_stream_revocation_controller \<Rightarrow> unit io" where
  "drop_revocation_controller os c =
     io_bind (if rv_state c = Revocation_Active
       then io_bind (io_call os (Shutdown (hs_fd (rv_socket c)) ''Both'')) (\<lambda>_. io_ret ()) else io_ret ()) (\<lambda>_.
     io_bind (io_call os (Close_fd (hs_fd (rv_socket c)))) (\<lambda>_. io_ret ()))"

section \<open>Revocable byte streams\<close>

datatype revocable_byte_stream_state = Stream_Active | Stream_Revoked | Stream_Failed

record revocable_byte_stream_controller =
  bs_fd :: raw_fd
  bs_max_bytes :: nat
  bs_sent_bytes :: nat
  bs_state :: revocable_byte_stream_state

definition send_chunk :: "broker_os \<Rightarrow> revocable_byte_stream_controller \<times> bytes
    \<Rightarrow> (revocable_byte_stream_controller \<times> bytes, revocable_byte_stream_controller \<times> unit broker_result) control io" where
  "send_chunk os = (\<lambda>(c, rest).
     if rest = [] then io_ret (Break (c, Ok ()))
     else io_bind (io_call os (Send (bs_fd c) rest [''MSG_NOSIGNAL''])) (\<lambda>a. io_ret (case a of
       Refused e \<Rightarrow>
         if e = EINTR then Continue (c, rest)
         else Break (c\<lparr>bs_state := Stream_Failed\<rparr>, Err (Io ''cannot send revocable runtime stream bytes'' e))
     | _ \<Rightarrow>
         if value_of a = 0
         then Break (c\<lparr>bs_state := Stream_Failed\<rparr>, Err (Protocol ''revocable runtime stream made zero send progress''))
         else Continue (c\<lparr>bs_sent_bytes := bs_sent_bytes c + nat (value_of a)\<rparr>, drop (nat (value_of a)) rest))))"

definition send_all :: "broker_os \<Rightarrow> revocable_byte_stream_controller \<Rightarrow> bytes
    \<Rightarrow> (revocable_byte_stream_controller \<times> unit broker_result) io" where
  "send_all os c data = (case bs_state c of
       Stream_Revoked \<Rightarrow> io_ret (c, Err (Protocol ''revocable runtime stream is closed after revocation''))
     | Stream_Failed \<Rightarrow>
         io_ret (c, Err (Protocol ''revocable runtime stream is closed after an I/O or protocol failure''))
     | Stream_Active \<Rightarrow>
         if bs_sent_bytes c + length data \<ge> 2 ^ 64 \<or> bs_sent_bytes c + length data > bs_max_bytes c
         then io_ret (c, Err (RuntimeStreamBudgetExceeded (bs_max_bytes c)))
         else loop_io (send_chunk os) (c, data))"

definition revoke_byte_stream :: "broker_os \<Rightarrow> revocable_byte_stream_controller
    \<Rightarrow> (revocable_byte_stream_controller \<times> unit broker_result) io" where
  "revoke_byte_stream os c = (case bs_state c of
       Stream_Revoked \<Rightarrow> io_ret (c, Err (Protocol ''revocable runtime stream may be revoked exactly once''))
     | Stream_Failed \<Rightarrow>
         io_ret (c, Err (Protocol ''revocable runtime stream is closed after an I/O or protocol failure''))
     | Stream_Active \<Rightarrow>
         io_bind (io_call os (Shutdown (bs_fd c) ''SHUT_WR'')) (\<lambda>a. io_ret (case a of
           Refused e \<Rightarrow> (c\<lparr>bs_state := Stream_Failed\<rparr>, Err (Io ''cannot revoke future runtime stream bytes'' e))
         | _ \<Rightarrow> (c\<lparr>bs_state := Stream_Revoked\<rparr>, Ok ()))))"

definition shut_or_close_both :: "broker_os \<Rightarrow> raw_fd \<times> raw_fd \<Rightarrow> raw_fd \<Rightarrow> string \<Rightarrow> string \<Rightarrow> unit broker_result io" where
  "shut_or_close_both os fds fd how text =
     io_bind (io_call os (Shutdown fd how)) (\<lambda>a. case a of
       Refused e \<Rightarrow>
         io_bind (io_call os (Close_fd (fst fds))) (\<lambda>_.
         io_bind (io_call os (Close_fd (snd fds))) (\<lambda>_. io_ret (Err (Io text e))))
     | _ \<Rightarrow> io_ret (Ok ()))"

definition prepare_revocable_byte_stream ::
  "broker_os \<Rightarrow> nat \<Rightarrow> (raw_fd \<times> revocable_byte_stream_controller) broker_result io" where
  "prepare_revocable_byte_stream os max_bytes =
     (if max_bytes = 0 \<or> max_bytes > MAX_RUNTIME_REVOCABLE_STREAM_BYTES
      then io_ret (Err (InvalidConfiguration ''revocable runtime stream max_bytes must be between 1 and {}''))
      else io_try (io_answer os (Socketpair ''SOCK_STREAM|SOCK_CLOEXEC'')
        (Io ''cannot create revocable runtime stream socketpair'')) (\<lambda>a.
      let fds = pair_of a in
      io_try (shut_or_close_both os fds (fst fds) ''SHUT_WR'' ''cannot make runtime stream target endpoint receive-only'') (\<lambda>_.
      io_try (shut_or_close_both os fds (snd fds) ''SHUT_RD'' ''cannot make runtime stream controller send-only'') (\<lambda>_.
      io_ret (Ok (fst fds, \<lparr>bs_fd = snd fds, bs_max_bytes = max_bytes, bs_sent_bytes = 0, bs_state = Stream_Active\<rparr>))))))"

section \<open>Files\<close>

definition same_inode :: "identity_stat \<Rightarrow> identity_stat \<Rightarrow> bool" where
  "same_inode a b \<longleftrightarrow> ino_dev a = ino_dev b \<and> ino_ino a = ino_ino b"

definition prepare_readonly_regular_file :: "broker_os \<Rightarrow> raw_fd \<Rightarrow> raw_fd broker_result io" where
  "prepare_readonly_regular_file os source =
     io_try (io_answer os (Fstat_fd source) (Io ''cannot inspect runtime FD broker source'')) (\<lambda>original.
     if \<not> ino_regular (inode_of original) then io_ret (Err SourceNotRegular)
     else io_try (io_answer os (Fcntl_getfl source) (Io ''cannot inspect runtime FD broker source flags'')) (\<lambda>flags.
     if O_PATH_set (modes_of flags) then io_ret (Err SourcePathOnly)
     else if O_WRONLY_mode (modes_of flags) then io_ret (Err SourceNotReadable)
     else io_try (io_answer os (Open_procfd source)
       (Io ''cannot reopen runtime FD broker source read-only through procfd'')) (\<lambda>a.
     let fd = value_of a in
     closing_on_error os fd
       (io_try (io_answer os (Fstat_fd fd) (Io ''cannot revalidate runtime FD broker source identity'')) (\<lambda>reopened.
        if \<not> ino_regular (inode_of reopened) \<or> \<not> same_inode (inode_of reopened) (inode_of original)
        then io_ret (Err (Protocol ''procfd reopen changed runtime FD broker source identity''))
        else io_try (io_answer os (Fcntl_getfl fd)
          (Io ''cannot inspect attenuated runtime FD broker source flags'')) (\<lambda>flags.
        if O_PATH_set (modes_of flags) \<or> \<not> O_RDONLY_mode (modes_of flags)
        then io_ret (Err (Protocol ''runtime FD broker failed to attenuate source to O_RDONLY''))
        else io_ret (Ok fd)))))))"

record prepared_sealed_regular_file_snapshot =
  sn_fd :: raw_fd
  sn_len :: nat

definition required_seals :: "string list" where
  "required_seals = [''F_SEAL_WRITE'', ''F_SEAL_GROW'', ''F_SEAL_SHRINK'', ''F_SEAL_SEAL'']"

definition snapshot_write_step :: "broker_os \<Rightarrow> raw_fd \<Rightarrow> bytes \<Rightarrow> (bytes, unit broker_result) control io" where
  "snapshot_write_step os memfd rest =
     (if rest = [] then io_ret (Break (Ok ()))
      else io_bind (io_call os (Write_fd memfd rest)) (\<lambda>a. io_ret (case a of
        Refused e \<Rightarrow>
          if e = EINTR then Continue rest else Break (Err (Io ''cannot populate sealed runtime FD snapshot'' e))
      | _ \<Rightarrow>
          if value_of a = 0 then Break (Err (Protocol ''sealed runtime snapshot write made no progress''))
          else Continue (drop (nat (value_of a)) rest))))"

definition snapshot_copy_step ::
  "broker_os \<Rightarrow> raw_fd \<Rightarrow> raw_fd \<Rightarrow> nat \<Rightarrow> nat \<Rightarrow> (nat, nat broker_result) control io" where
  "snapshot_copy_step os readable memfd max_bytes len =
     io_bind (io_call os (Read_fd readable (64 * 1024))) (\<lambda>a. case a of
       Refused e \<Rightarrow> io_ret (if e = EINTR then Continue len
         else Break (Err (Io ''cannot read runtime FD source for sealed snapshot'' e)))
     | _ \<Rightarrow>
         if bytes_of a = [] then io_ret (Break (Ok len))
         else let new_len = len + length (bytes_of a) in
           if new_len \<ge> 2 ^ 64 then io_ret (Break (Err (Protocol ''sealed runtime snapshot byte count overflow'')))
           else if new_len > max_bytes then io_ret (Break (Err (SourceSnapshotTooLarge max_bytes)))
           else io_bind (loop_io (snapshot_write_step os memfd) (bytes_of a)) (\<lambda>r. io_ret (case r of
             Inl e \<Rightarrow> Break (Err e) | Inr _ \<Rightarrow> Continue new_len)))"

definition check_seals :: "broker_os \<Rightarrow> raw_fd \<Rightarrow> string \<Rightarrow> string \<Rightarrow> unit broker_result io" where
  "check_seals os fd inspect missing =
     io_try (io_answer os (Fcntl_get_seals fd) (Io inspect)) (\<lambda>a.
     io_ret (reject (\<not> set required_seals \<subseteq> set (seals_of a)) (Protocol missing)))"

definition seal_snapshot :: "broker_os \<Rightarrow> raw_fd \<Rightarrow> unit broker_result io" where
  "seal_snapshot os memfd =
     io_try (io_answer os (Fchmod_fd memfd ''0400'') (Io ''cannot set sealed runtime FD snapshot mode'')) (\<lambda>_.
     io_try (io_answer os (Fcntl_add_seals memfd required_seals) (Io ''cannot seal runtime FD snapshot'')) (\<lambda>_.
     check_seals os memfd ''cannot inspect runtime FD snapshot seals''
       ''sealed runtime FD snapshot is missing required immutable seals''))"

definition reopen_snapshot :: "broker_os \<Rightarrow> raw_fd \<Rightarrow> raw_fd broker_result io" where
  "reopen_snapshot os memfd =
     io_try (io_answer os (Open_procfd memfd) (Io ''cannot reopen sealed runtime FD snapshot read-only'')) (\<lambda>a.
     let fd = value_of a; identity = Io ''cannot revalidate sealed runtime FD snapshot identity'' in
     closing_on_error os fd
       (io_try (io_answer os (Fstat_fd memfd) identity) (\<lambda>original.
        io_try (io_answer os (Fstat_fd fd) identity) (\<lambda>readonly.
        if \<not> same_inode (inode_of original) (inode_of readonly)
        then io_ret (Err (Protocol ''read-only reopen changed sealed runtime FD snapshot identity''))
        else io_try (io_answer os (Fcntl_getfl fd) (Io ''cannot inspect sealed runtime FD snapshot access mode'')) (\<lambda>flags.
        if O_PATH_set (modes_of flags) \<or> \<not> O_RDONLY_mode (modes_of flags)
        then io_ret (Err (Protocol ''sealed runtime FD snapshot did not reopen as O_RDONLY''))
        else io_try (check_seals os fd ''cannot verify seals after runtime FD snapshot reopen''
          ''read-only runtime FD snapshot lost required seals'') (\<lambda>_.
        io_ret (Ok fd)))))))"

definition memfd_error :: "errno_code \<Rightarrow> runtime_fd_broker_error" where
  "memfd_error e =
     (if e \<in> {ENOSYS, EINVAL, EPERM, EACCES}
      then UnsupportedPlatform ''sealed runtime FD snapshots require memfd sealing support: {error}''
      else Io ''cannot create sealed runtime FD snapshot memfd'' e)"

definition prepare_sealed_regular_file_snapshot ::
  "broker_os \<Rightarrow> raw_fd \<Rightarrow> nat \<Rightarrow> prepared_sealed_regular_file_snapshot broker_result io" where
  "prepare_sealed_regular_file_snapshot os source max_bytes =
     (if max_bytes = 0 \<or> max_bytes > MAX_RUNTIME_SEALED_SNAPSHOT_BYTES
      then io_ret (Err (InvalidConfiguration ''sealed runtime snapshot max_bytes must be between 1 and {}''))
      else io_try (prepare_readonly_regular_file os source) (\<lambda>readable.
      closing os readable
        (io_try (io_answer os (Memfd_new ''security-lab-runtime-snapshot'') memfd_error) (\<lambda>a.
         let memfd = value_of a in
         closing os memfd
           (io_try (loop_io (snapshot_copy_step os readable memfd max_bytes) 0) (\<lambda>len.
            io_try (seal_snapshot os memfd) (\<lambda>_.
            io_try (reopen_snapshot os memfd) (\<lambda>fd.
            io_ret (Ok \<lparr>sn_fd = fd, sn_len = len\<rparr>)))))))))"

record prepared_sealed_snapshot_bundle =
  bundle_grants :: "prepared_sealed_regular_file_snapshot list"
  bundle_total_len :: nat

definition add_grant :: "nat \<Rightarrow> nat \<Rightarrow> prepared_sealed_regular_file_snapshot \<Rightarrow> nat broker_result" where
  "add_grant max_total_bytes total_len grant =
     (if total_len + sn_len grant \<ge> 2 ^ 64
      then Err (Protocol ''sealed runtime bundle aggregate byte count overflow'')
      else if total_len + sn_len grant > max_total_bytes then Err (SnapshotBundleTooLarge max_total_bytes)
      else Ok (total_len + sn_len grant))"

definition prepare_sealed_snapshot_bundle ::
  "prepared_sealed_regular_file_snapshot list \<Rightarrow> nat \<Rightarrow> prepared_sealed_snapshot_bundle broker_result" where
  "prepare_sealed_snapshot_bundle grants max_total_bytes =
     (if max_total_bytes = 0 \<or> max_total_bytes > MAX_RUNTIME_SEALED_BUNDLE_BYTES
      then Err (InvalidConfiguration ''sealed runtime bundle max_total_bytes must be between 1 and {}'')
      else if \<not> in_range MIN_RUNTIME_SEALED_BUNDLE_ITEMS MAX_RUNTIME_SEALED_BUNDLE_ITEMS (length grants)
      then Err (InvalidConfiguration ''sealed runtime bundle must contain between {} and {} snapshots'')
      else and_then (fold_result (add_grant max_total_bytes) 0 grants) (\<lambda>total_len.
        Ok \<lparr>bundle_grants = grants, bundle_total_len = total_len\<rparr>))"

section \<open>Transfer\<close>

definition cmsg_space_for_fd_count :: "nat \<Rightarrow> nat" where
  "cmsg_space_for_fd_count n = (16 + n * 4 + 7) div 8 * 8"

definition grant_payload :: "raw_fd list \<Rightarrow> u8" where
  "grant_payload source_fds = (if length source_fds = 1 then 70 else 66)"

definition send_fds :: "broker_os \<Rightarrow> raw_fd \<Rightarrow> raw_fd list \<Rightarrow> unit broker_result io" where
  "send_fds os socket_fd source_fds =
     (if source_fds = [] \<or> length source_fds > MAX_RUNTIME_SEALED_BUNDLE_ITEMS
      then io_ret (Err (Protocol ''SCM_RIGHTS grant descriptor count is outside the supported bound''))
      else io_bind (retry os (Sendmsg_rights socket_fd (grant_payload source_fds) source_fds
          (cmsg_space_for_fd_count (length source_fds)))) (\<lambda>a. io_ret (case a of
        Refused e \<Rightarrow> Err (Io ''cannot send runtime FD broker SCM_RIGHTS grant'' e)
      | _ \<Rightarrow>
          if value_of a = 1 then Ok ()
          else Err (Protocol ''SCM_RIGHTS send wrote unexpected payload length {sent}''))))"

datatype runtime_fd_session_state = Session_AwaitingReady | Session_Ready | Session_GrantSent | Session_Failed

record runtime_fd_session =
  fs_stream :: raw_fd
  fs_state :: runtime_fd_session_state

type_synonym 'a session_io = "(runtime_fd_session \<times> 'a broker_result) io"

definition wait_for_ready :: "broker_os \<Rightarrow> runtime_fd_session \<Rightarrow> u8 \<Rightarrow> unit session_io" where
  "wait_for_ready os s expected =
     (if fs_state s \<noteq> Session_AwaitingReady
      then io_ret (s, Err (Protocol ''runtime FD broker readiness may be consumed exactly once before the grant''))
      else io_bind (io_call os (Read_exact (fs_stream s) 1)) (\<lambda>a. io_ret (case a of
        Refused e \<Rightarrow> (s\<lparr>fs_state := Session_Failed\<rparr>, Err (Io ''cannot read runtime FD broker readiness'' e))
      | _ \<Rightarrow>
          if bytes_of a \<noteq> [expected]
          then (s\<lparr>fs_state := Session_Failed\<rparr>, Err (Protocol ''expected readiness byte 0x{expected:02x}, got 0x{:02x}''))
          else (s\<lparr>fs_state := Session_Ready\<rparr>, Ok ()))))"

fun grant_order_error :: "runtime_fd_session_state \<Rightarrow> string" where
  "grant_order_error Session_AwaitingReady = ''runtime FD broker grant requires the target readiness handshake first''"
| "grant_order_error Session_GrantSent = ''runtime FD broker session permits exactly one successful grant''"
| "grant_order_error _ = ''runtime FD broker session is closed after a protocol or I/O failure''"

definition send_prepared_fds :: "broker_os \<Rightarrow> runtime_fd_session \<Rightarrow> raw_fd list \<Rightarrow> unit session_io" where
  "send_prepared_fds os s fds =
     (if fs_state s \<noteq> Session_Ready then io_ret (s, Err (Protocol (grant_order_error (fs_state s))))
      else io_bind (send_fds os (fs_stream s) fds) (\<lambda>r. io_ret (case r of
        Inr _ \<Rightarrow> (s\<lparr>fs_state := Session_GrantSent\<rparr>, Ok ())
      | Inl e \<Rightarrow> (s\<lparr>fs_state := Session_Failed\<rparr>, Err e))))"

text \<open>
  \<open>send_host_unix_stream\<close>, \<open>send_host_unix_seqpacket\<close>, \<open>send_readonly_regular_file\<close>,
  \<open>send_sealed_regular_file_snapshot\<close>, \<open>send_revocable_byte_stream\<close> and
  \<open>send_runtime_message_channel\<close>: the grant is consumed, so its descriptor is closed afterwards.
\<close>

definition send_prepared_fd :: "broker_os \<Rightarrow> runtime_fd_session \<Rightarrow> raw_fd \<Rightarrow> unit session_io" where
  "send_prepared_fd os s fd = send_prepared_fds os s [fd]"

definition send_grant :: "broker_os \<Rightarrow> runtime_fd_session \<Rightarrow> raw_fd \<Rightarrow> unit session_io" where
  "send_grant os s fd = closing os fd (send_prepared_fd os s fd)"

definition send_revocable_host_unix_stream :: "broker_os \<Rightarrow> runtime_fd_session \<Rightarrow> prepared_host_unix_socket
    \<Rightarrow> host_unix_stream_revocation_controller session_io" where
  "send_revocable_host_unix_stream os s grant =
     io_bind (send_prepared_fd os s (hs_fd grant)) (\<lambda>(s, r). case r of
       Inl e \<Rightarrow> io_bind (io_call os (Close_fd (hs_fd grant))) (\<lambda>_. io_ret (s, Err e))
     | Inr _ \<Rightarrow> io_ret (s, Ok \<lparr>rv_socket = grant, rv_state = Revocation_Active\<rparr>))"

primrec close_grants :: "broker_os \<Rightarrow> prepared_sealed_regular_file_snapshot list \<Rightarrow> unit io" where
  "close_grants os [] = io_ret ()"
| "close_grants os (g # gs) = io_bind (io_call os (Close_fd (sn_fd g))) (\<lambda>_. close_grants os gs)"

definition send_sealed_snapshot_bundle ::
  "broker_os \<Rightarrow> runtime_fd_session \<Rightarrow> prepared_sealed_snapshot_bundle \<Rightarrow> unit session_io" where
  "send_sealed_snapshot_bundle os s bundle =
     io_bind (send_prepared_fds os s (map sn_fd (bundle_grants bundle))) (\<lambda>r.
     io_bind (close_grants os (bundle_grants bundle)) (\<lambda>_. io_ret r))"

section \<open>Repeated connections\<close>

record runtime_host_unix_route =
  service_path :: pathbuf
  expected_peer :: "(u32 \<times> u32) option"
  max_connections :: nat

text \<open>Connect, check the peer and transfer one fresh stream; the grant is dropped in every case.\<close>

definition grant_stream ::
  "broker_os \<Rightarrow> raw_fd \<Rightarrow> pathbuf \<Rightarrow> (u32 \<times> u32) option \<Rightarrow> prepared_host_unix_socket broker_result io" where
  "grant_stream os stream path peer =
     io_try (prepare_host_unix_stream os path peer) (\<lambda>grant.
     closing os (hs_fd grant) (io_try (send_fds os stream [hs_fd grant]) (\<lambda>_. io_ret (Ok grant))))"

record runtime_host_unix_reconnect_controller =
  rc_stream :: raw_fd
  rc_route :: runtime_host_unix_route
  rc_granted_connections :: nat
  rc_failed :: bool

definition reconnect_is_complete :: "runtime_host_unix_reconnect_controller \<Rightarrow> bool" where
  "reconnect_is_complete c \<longleftrightarrow> \<not> rc_failed c \<and> rc_granted_connections c = max_connections (rc_route c)"

definition reconnect_grant_next :: "broker_os \<Rightarrow> runtime_host_unix_reconnect_controller \<Rightarrow> u8
    \<Rightarrow> (runtime_host_unix_reconnect_controller \<times> prepared_host_unix_socket broker_result) io" where
  "reconnect_grant_next os c expected_ready =
     (if rc_failed c
      then io_ret (c, Err (Protocol ''runtime host UNIX reconnect controller is closed after a failed round''))
      else if rc_granted_connections c \<ge> max_connections (rc_route c)
      then io_ret (c, Err (Protocol ''runtime host UNIX reconnect controller exhausted its connection bound''))
      else io_bind (io_call os (Read_exact (rc_stream c) 1)) (\<lambda>a. case a of
        Refused e \<Rightarrow> io_ret (c\<lparr>rc_failed := True\<rparr>, Err (Io ''cannot read runtime host UNIX reconnect readiness'' e))
      | _ \<Rightarrow>
          if bytes_of a \<noteq> [expected_ready]
          then io_ret (c\<lparr>rc_failed := True\<rparr>,
            Err (Protocol ''expected reconnect readiness byte 0x{expected_ready:02x}, got 0x{:02x}''))
          else io_bind (grant_stream os (rc_stream c) (service_path (rc_route c)) (expected_peer (rc_route c))) (\<lambda>r.
            io_ret (case r of
              Inl e \<Rightarrow> (c\<lparr>rc_failed := True\<rparr>, Err e)
            | Inr grant \<Rightarrow> (c\<lparr>rc_granted_connections := rc_granted_connections c + 1\<rparr>, Ok grant)))))"

record runtime_host_unix_router_controller =
  rt_stream :: raw_fd
  rt_routes :: "runtime_host_unix_route list"
  rt_granted_connections :: "nat list"
  rt_total_granted_connections :: nat
  rt_failed :: bool

definition router_is_complete :: "runtime_host_unix_router_controller \<Rightarrow> bool" where
  "router_is_complete c \<longleftrightarrow>
     \<not> rt_failed c \<and> list_all (\<lambda>(route, granted). granted = max_connections route) (zip (rt_routes c) (rt_granted_connections c))"

definition router_failed :: "runtime_host_unix_router_controller \<Rightarrow> runtime_fd_broker_error
    \<Rightarrow> runtime_host_unix_router_controller \<times> 'a broker_result" where
  "router_failed c e = (c\<lparr>rt_failed := True\<rparr>, Err e)"

definition route_granted :: "runtime_host_unix_router_controller \<Rightarrow> nat \<Rightarrow> runtime_host_unix_router_controller" where
  "route_granted c i = c\<lparr>rt_granted_connections := (rt_granted_connections c)[i := rt_granted_connections c ! i + 1],
     rt_total_granted_connections := rt_total_granted_connections c + 1\<rparr>"

definition router_grant_next :: "broker_os \<Rightarrow> runtime_host_unix_router_controller \<Rightarrow> u8
    \<Rightarrow> (runtime_host_unix_router_controller \<times> (nat \<times> prepared_host_unix_socket) broker_result) io" where
  "router_grant_next os c expected_ready =
     (if rt_failed c
      then io_ret (c, Err (Protocol ''runtime host UNIX router controller is closed after a failed round''))
      else if router_is_complete c
      then io_ret (c, Err (Protocol ''runtime host UNIX router controller exhausted all route bounds''))
      else io_bind (io_call os (Read_exact (rt_stream c) 2)) (\<lambda>a. case a of
        Refused e \<Rightarrow> io_ret (router_failed c (Io ''cannot read runtime host UNIX route request'' e))
      | _ \<Rightarrow> (case bytes_of a of
          [ready, index] \<Rightarrow>
            let i = unat index in
            if ready \<noteq> expected_ready
            then io_ret (router_failed c (Protocol ''expected router readiness byte 0x{expected_ready:02x}, got 0x{:02x}''))
            else if i \<ge> length (rt_routes c)
            then io_ret (router_failed c (Protocol ''runtime host UNIX router selected unknown route index {route_index}''))
            else if rt_granted_connections c ! i \<ge> max_connections (rt_routes c ! i)
            then io_ret (router_failed c
              (Protocol ''runtime host UNIX router route {route_index} exhausted its connection bound''))
            else io_bind (grant_stream os (rt_stream c) (service_path (rt_routes c ! i)) (expected_peer (rt_routes c ! i)))
              (\<lambda>r. io_ret (case r of
                Inl e \<Rightarrow> router_failed c e
              | Inr grant \<Rightarrow> (route_granted c i, Ok (i, grant))))
        | _ \<Rightarrow> io_ret (router_failed c (Io ''cannot read runtime host UNIX route request'' (Errno_code 0))))))"

section \<open>The broker\<close>

record runtime_fd_broker =
  broker_path :: pathbuf
  broker_listener :: raw_fd
  owner_pid :: int
  owner_uid :: u32
  owner_gid :: u32
  socket_inode :: identity_stat

definition broker_bind :: "broker_os \<Rightarrow> pathbuf \<Rightarrow> runtime_fd_broker broker_result io" where
  "broker_bind os path =
     io_try (io_ret (validate_socket_path path)) (\<lambda>_.
     io_try (io_answer os (Listener_bind path) (Io ''cannot bind runtime FD broker'')) (\<lambda>listener.
     closing_on_error os (value_of listener)
       (io_try (io_answer os (Symlink_metadata path) (Io ''cannot inspect runtime FD broker socket'')) (\<lambda>metadata.
        if \<not> ino_socket (inode_of metadata)
        then io_ret (Err (InvalidConfiguration ''bound broker pathname is not a UNIX socket''))
        else
          io_bind (io_call os Getpid) (\<lambda>pid.
          io_bind (io_call os Geteuid) (\<lambda>uid.
          io_bind (io_call os Getegid) (\<lambda>gid.
          io_ret (Ok \<lparr>broker_path = path, broker_listener = value_of listener, owner_pid = value_of pid,
            owner_uid = of_int (value_of uid), owner_gid = of_int (value_of gid), socket_inode = inode_of metadata\<rparr>))))))))"

definition drop_broker :: "broker_os \<Rightarrow> runtime_fd_broker \<Rightarrow> unit io" where
  "drop_broker os b =
     io_bind (io_call os (Symlink_metadata (broker_path b))) (\<lambda>a.
     io_bind (case a of
         Refused e \<Rightarrow> io_ret ()
       | _ \<Rightarrow>
           if ino_socket (inode_of a) \<and> same_inode (inode_of a) (socket_inode b)
           then io_bind (io_call os (Remove_file (broker_path b))) (\<lambda>_. io_ret ())
           else io_ret ()) (\<lambda>_.
     io_bind (io_call os (Close_fd (broker_listener b))) (\<lambda>_. io_ret ())))"

definition configure_policy :: "runtime_fd_broker \<Rightarrow> sandbox_policy \<Rightarrow> u32 \<Rightarrow> sandbox_policy broker_result" where
  "configure_policy b p target_fd =
     (if ''recvmsg'' \<notin> set (allowed_syscalls (seccomp p))
      then Err (InvalidConfiguration ''target policy must explicitly allow recvmsg for runtime FD grants'')
      else if host_unix_stream_path p \<noteq> None \<or> host_unix_stream_target_fd p \<noteq> None \<or>
        host_unix_stream_peer_uid p \<noteq> None \<or> host_unix_stream_peer_gid p \<noteq> None
      then Err (InvalidConfiguration ''policy already declares a host UNIX stream broker'')
      else
        let candidate = p\<lparr>host_unix_stream_path := Some (broker_path b), host_unix_stream_target_fd := Some target_fd,
          host_unix_stream_peer_uid := Some (owner_uid b), host_unix_stream_peer_gid := Some (owner_gid b)\<rparr> in
        and_then (map_sum Policy id (validate candidate)) (\<lambda>_. Ok candidate))"

definition accept_trusted_stream :: "broker_os \<Rightarrow> runtime_fd_broker \<Rightarrow> raw_fd broker_result io" where
  "accept_trusted_stream os b =
     io_try (io_answer os (Listener_accept (broker_listener b)) (Io ''cannot accept runtime FD broker connection'')) (\<lambda>a.
     let stream = value_of a in
     closing_on_error os stream
       (io_try (peer_credentials os stream) (\<lambda>(pid, uid, gid).
        if pid \<noteq> owner_pid b \<or> uid \<noteq> owner_uid b \<or> gid \<noteq> owner_gid b
        then io_ret (Err (UnexpectedPeer (owner_pid b) (owner_uid b) (owner_gid b) pid uid gid))
        else io_ret (Ok stream))))"

definition broker_accept :: "broker_os \<Rightarrow> runtime_fd_broker \<Rightarrow> runtime_fd_session broker_result io" where
  "broker_accept os b =
     io_try (accept_trusted_stream os b) (\<lambda>stream.
     io_ret (Ok \<lparr>fs_stream = stream, fs_state = Session_AwaitingReady\<rparr>))"

definition validate_routes :: "runtime_host_unix_route list \<Rightarrow> unit broker_result" where
  "validate_routes routes = checks [
     reject (\<not> in_range MIN_RUNTIME_HOST_UNIX_ROUTER_SERVICES MAX_RUNTIME_HOST_UNIX_ROUTER_SERVICES (length routes))
       (InvalidConfiguration ''runtime host UNIX router service count must be between {} and {}''),
     for_each_unique (\<lambda>route. components (service_path route))
       (\<lambda>route. checks [validate_socket_path (service_path route),
          reject (\<not> in_range MIN_RUNTIME_HOST_UNIX_ROUTE_CONNECTIONS MAX_RUNTIME_HOST_UNIX_ROUTE_CONNECTIONS
              (max_connections route))
            (InvalidConfiguration ''runtime host UNIX router per-route connection bound must be between {} and {}'')])
       (\<lambda>_. InvalidConfiguration ''runtime host UNIX router service paths must be unique'')
       (\<lambda>_. Ok ()) [] routes]"

definition accept_host_unix_router_controller :: "broker_os \<Rightarrow> runtime_fd_broker \<Rightarrow> runtime_host_unix_route list
    \<Rightarrow> runtime_host_unix_router_controller broker_result io" where
  "accept_host_unix_router_controller os b routes =
     io_try (io_ret (validate_routes routes)) (\<lambda>_.
     io_try (accept_trusted_stream os b) (\<lambda>stream.
     io_ret (Ok \<lparr>rt_stream = stream, rt_routes = routes, rt_granted_connections = replicate (length routes) 0,
       rt_total_granted_connections = 0, rt_failed = False\<rparr>)))"

definition accept_host_unix_reconnect_controller :: "broker_os \<Rightarrow> runtime_fd_broker \<Rightarrow> runtime_host_unix_route
    \<Rightarrow> runtime_host_unix_reconnect_controller broker_result io" where
  "accept_host_unix_reconnect_controller os b route =
     io_try (io_ret (checks [
       reject (\<not> in_range MIN_RUNTIME_HOST_UNIX_RECONNECT_CONNECTIONS MAX_RUNTIME_HOST_UNIX_RECONNECT_CONNECTIONS
           (max_connections route))
         (InvalidConfiguration ''runtime host UNIX reconnect connection bound must be between {} and {}''),
       validate_socket_path (service_path route)])) (\<lambda>_.
     io_try (accept_trusted_stream os b) (\<lambda>stream.
     io_ret (Ok \<lparr>rc_stream = stream, rc_route = route, rc_granted_connections = 0, rc_failed = False\<rparr>)))"

end
