(* ===== verification/Broker_Routes.thy ===== *)
theory Broker_Routes
  imports Broker_Grants Broker_Session
begin

text \<open>
  What the router of \<open>runtime_fd_broker.rs\<close> and a grant session transfer: the descriptors that leave
  over a broker's stream are exactly those of the successful grants, within the bound of each route and
  only to peers with the pinned credentials; a session transfers once and only after readiness.
\<close>

section \<open>Programs that leave an observation unchanged\<close>

definition preserves :: "(broker_event list \<Rightarrow> 'b) \<Rightarrow> 'a io \<Rightarrow> bool" where
  "preserves f m \<longleftrightarrow> (\<forall>tr x tr'. m tr = Some (x, tr') \<longrightarrow> f tr' = f tr)"

lemma preservesD: "preserves f m \<Longrightarrow> m tr = Some (x, tr') \<Longrightarrow> f tr' = f tr"
  by (simp add: preserves_def)

named_theorems preserves_intros

lemma preserves_ret [preserves_intros]: "preserves f (io_ret x)"
  by (simp add: preserves_def io_ret_Some)

lemma preserves_bind [preserves_intros]: "preserves f m \<Longrightarrow> (\<And>x. preserves f (g x)) \<Longrightarrow> preserves f (io_bind m g)"
  unfolding preserves_def io_bind_def by (auto simp: Option.bind_eq_Some_conv)

lemma preserves_call: "(\<And>tr a. f (tr @ [(c, a)]) = f tr) \<Longrightarrow> preserves f (io_call os c)"
  by (simp add: preserves_def io_call_def Let_def)

lemma preserves_try [preserves_intros]: "preserves f m \<Longrightarrow> (\<And>x. preserves f (g x)) \<Longrightarrow> preserves f (io_try m g)"
  unfolding io_try_def by (auto intro!: preserves_bind preserves_ret split: sum.splits)

lemma preserves_answer: "(\<And>tr a. f (tr @ [(c, a)]) = f tr) \<Longrightarrow> preserves f (io_answer os c wrap)"
  unfolding io_answer_def by (intro preserves_bind preserves_call preserves_ret)

lemma preserves_closing [preserves_intros]:
  "preserves f m \<Longrightarrow> preserves f (io_call os (Close_fd fd)) \<Longrightarrow> preserves f (closing os fd m)"
  unfolding closing_def by (intro preserves_bind preserves_ret)

lemma preserves_closing_on_error [preserves_intros]:
  "preserves f m \<Longrightarrow> preserves f (io_call os (Close_fd fd)) \<Longrightarrow> preserves f (closing_on_error os fd m)"
  unfolding closing_on_error_def by (auto intro!: preserves_bind preserves_ret split: sum.splits)

lemma io_try_Some:
  "io_try m f tr = Some (r, tr') \<longleftrightarrow> (\<exists>q tr1. m tr = Some (q, tr1) \<and>
     (case q of Inl e \<Rightarrow> r = Inl e \<and> tr' = tr1 | Inr x \<Rightarrow> f x tr1 = Some (r, tr')))"
proof (cases "m tr")
  case (Some p)
  then show ?thesis by (cases p; cases "fst p") (auto simp: io_try_def io_bind_def io_ret_Some)
qed (simp add: io_try_def io_bind_def)

lemma closing_on_error_Ok: "closing_on_error os fd m tr = Some (Inr x, tr') \<longleftrightarrow> m tr = Some (Inr x, tr')"
proof (cases "m tr")
  case (Some p)
  then show ?thesis
    by (cases p; cases "fst p") (auto simp: closing_on_error_def io_bind_def io_call_def io_ret_Some Let_def)
qed (simp add: closing_on_error_def io_bind_def)

lemma closing_Some:
  "closing os fd m tr = Some (r, tr') \<longleftrightarrow> (\<exists>tr1. m tr = Some (r, tr1) \<and> tr' = tr1 @ [(Close_fd fd, os tr1 (Close_fd fd))])"
  by (auto simp: closing_def io_bind_def io_call_def io_ret_def Let_def Option.bind_eq_Some_conv)

section \<open>Descriptors that leave over a stream\<close>

fun rights_sent :: "raw_fd \<Rightarrow> broker_event list \<Rightarrow> raw_fd list list" where
  "rights_sent fd [] = []"
| "rights_sent fd ((Sendmsg_rights s tag fds space, Value n) # tr) =
     (if s = fd \<and> n = 1 then fds # rights_sent fd tr else rights_sent fd tr)"
| "rights_sent fd (_ # tr) = rights_sent fd tr"

lemma rights_sent_append [simp]: "rights_sent fd (tr @ tr') = rights_sent fd tr @ rights_sent fd tr'"
  by (induction fd tr rule: rights_sent.induct) simp_all

lemma rights_sent_refused [simp]: "rights_sent fd (replicate n (c, Refused e)) = []"
  by (induction n) (cases c; simp)+

lemma rights_kept:
  "(\<forall>s tag fds space. c \<noteq> Sendmsg_rights s tag fds space) \<Longrightarrow> rights_sent fd (tr @ [(c, a)]) = rights_sent fd tr"
  by (cases c) auto

lemma send_fds_cases:
  assumes "send_fds os s fds tr = Some (r, tr')"
  obtains (sent) "r = Inr ()" and "rights_sent s tr' = rights_sent s tr @ [fds]" and "fds \<noteq> []" and "length fds \<le> 8"
  | (unsent) e where "r = Inl e" and "rights_sent s tr' = rights_sent s tr"
proof (cases "fds = [] \<or> length fds > 8")
  case True
  then have "(\<exists>e. r = Inl e) \<and> tr' = tr"
    using assms by (auto simp: send_fds_def MAX_RUNTIME_SEALED_BUNDLE_ITEMS_def io_ret_Some)
  then show thesis using unsent by blast
next
  case False
  let ?call = "Sendmsg_rights s (grant_payload fds) fds (cmsg_space_for_fd_count (length fds))"
  from assms False obtain a n
    where r: "r = (case a of Refused e \<Rightarrow> Err (Io ''cannot send runtime FD broker SCM_RIGHTS grant'' e)
      | _ \<Rightarrow> if value_of a = 1 then Ok ()
          else Err (Protocol ''SCM_RIGHTS send wrote unexpected payload length {sent}''))"
      and tr': "tr' = tr @ replicate n (?call, Refused EINTR) @ [(?call, a)]"
    by (auto simp: send_fds_def MAX_RUNTIME_SEALED_BUNDLE_ITEMS_def elim!: retry_then)
  show thesis
  proof (cases "a = Value 1")
    case True
    then show thesis using r tr' False by (intro sent) simp_all
  next
    case other: False
    then have "\<exists>e. r = Inl e" "rights_sent s [(?call, a)] = []" using r by (cases a; simp)+
    then show thesis using unsent tr' by auto
  qed
qed

section \<open>Connections\<close>

definition peer_matches :: "(u32 \<times> u32) option \<Rightarrow> prepared_host_unix_socket \<Rightarrow> bool" where
  "peer_matches peer grant \<longleftrightarrow>
     (\<forall>uid gid. peer = Some (uid, gid) \<longrightarrow> hs_peer_uid grant = uid \<and> hs_peer_gid grant = gid)"

lemma prepare_host_unix_stream_keeps: "preserves (rights_sent fd) (prepare_host_unix_stream os path peer)"
  unfolding prepare_host_unix_stream_def pinned_socket_def peer_credentials_def
  by (intro preserves_intros preserves_answer preserves_call rights_kept | simp add: case_prod_beta)+

lemma prepared_peer_matches:
  assumes "prepare_host_unix_stream os path peer tr = Some (Inr grant, tr')"
  shows "peer_matches peer grant"
proof -
  from assms obtain pid uid gid where "check_peer peer pid uid gid = Inr ()"
    and "hs_peer_uid grant = uid" and "hs_peer_gid grant = gid"
    by (auto simp: prepare_host_unix_stream_def pinned_socket_def io_try_Ok io_ret_Some closing_on_error_Ok)
  then show ?thesis by (auto simp: check_peer_def peer_matches_def reject_def split: if_splits option.splits)
qed

lemma grant_stream_cases:
  assumes "grant_stream os s path peer tr = Some (r, tr')"
  obtains (granted) grant where "r = Inr grant" and "rights_sent s tr' = rights_sent s tr @ [[hs_fd grant]]"
      and "peer_matches peer grant"
  | (refused) e where "r = Inl e" and "rights_sent s tr' = rights_sent s tr"
proof -
  let ?send = "\<lambda>grant. closing os (hs_fd grant) (io_try (send_fds os s [hs_fd grant]) (\<lambda>_. io_ret (Ok grant)))"
  from assms obtain q tr1 where q: "prepare_host_unix_stream os path peer tr = Some (q, tr1)"
    and rest: "case q of Inl e \<Rightarrow> r = Inl e \<and> tr' = tr1 | Inr grant \<Rightarrow> ?send grant tr1 = Some (r, tr')"
    unfolding grant_stream_def io_try_Some [of "prepare_host_unix_stream os path peer"] by blast
  have kept: "rights_sent s tr1 = rights_sent s tr" by (rule preservesD [OF prepare_host_unix_stream_keeps q])
  show thesis
  proof (cases q)
    case (Inl e)
    then show thesis using rest kept refused by simp
  next
    case (Inr grant)
    with rest obtain r' tr2 tr3 where sent: "send_fds os s [hs_fd grant] tr1 = Some (r', tr2)"
      and r: "case r' of Inl e \<Rightarrow> r = Inl e \<and> tr3 = tr2 | Inr _ \<Rightarrow> io_ret (Inr grant) tr2 = Some (r, tr3)"
      and tr': "rights_sent s tr' = rights_sent s tr3"
      by (auto simp: closing_Some io_try_Some)
    have "peer_matches peer grant" using q Inr prepared_peer_matches by blast
    with sent r tr' kept show thesis
      by (cases rule: send_fds_cases [consumes 1]) (auto simp: io_ret_Some intro: granted refused)
  qed
qed

section \<open>The router\<close>

lemma router_grant_cases:
  assumes "router_grant_next os c ready tr = Some ((c', r), tr')"
  obtains (refused) e where "c' = c" and "r = Inl e" and "tr' = tr"
  | (failed) e where "\<not> rt_failed c" and "c' = c\<lparr>rt_failed := True\<rparr>" and "r = Inl e"
      and "rights_sent (rt_stream c) tr' = rights_sent (rt_stream c) tr"
  | (granted) i grant where "\<not> rt_failed c" and "i < length (rt_routes c)"
      and "rt_granted_connections c ! i < max_connections (rt_routes c ! i)" and "c' = route_granted c i"
      and "r = Inr (i, grant)" and "rights_sent (rt_stream c) tr' = rights_sent (rt_stream c) tr @ [[hs_fd grant]]"
      and "peer_matches (expected_peer (rt_routes c ! i)) grant"
proof (cases "rt_failed c \<or> router_is_complete c")
  case True
  then show thesis using assms refused by (auto simp: router_grant_next_def io_ret_Some split: if_splits)
next
  case False
  let ?call = "Read_exact (rt_stream c) 2"
  let ?tr = "tr @ [(?call, os tr ?call)]"
  show thesis
  proof (cases "\<exists>e. (c', r) = router_failed c e \<and> tr' = ?tr")
    case True
    then show thesis using False failed by (auto simp: router_failed_def)
  next
    case unfailed: False
    with assms False obtain i r' where i: "i < length (rt_routes c)"
        "rt_granted_connections c ! i < max_connections (rt_routes c ! i)"
      and grant: "grant_stream os (rt_stream c) (service_path (rt_routes c ! i)) (expected_peer (rt_routes c ! i)) ?tr = Some (r', tr')"
      and r: "(c', r) = (case r' of Inl e \<Rightarrow> router_failed c e | Inr grant \<Rightarrow> (route_granted c i, Inr (i, grant)))"
      by (auto simp: router_grant_next_def io_bind_def io_call_def io_ret_Some Let_def Option.bind_eq_Some_conv not_le
          split: broker_answer.splits list.splits if_splits)
    from grant show thesis
      using r i False by (cases rule: grant_stream_cases [consumes 1]) (auto simp: router_failed_def intro: granted failed)
  qed
qed

datatype route_event = Route_granted nat prepared_host_unix_socket | Route_failed | Route_refused

definition route_label :: "bool \<Rightarrow> bool \<Rightarrow> (nat \<times> prepared_host_unix_socket) broker_result \<Rightarrow> route_event" where
  "route_label was_failed now_failed r = (case r of
       Inr (i, grant) \<Rightarrow> Route_granted i grant
     | Inl _ \<Rightarrow> if now_failed \<and> \<not> was_failed then Route_failed else Route_refused)"

inductive router_move :: "broker_os \<Rightarrow> runtime_host_unix_router_controller \<times> broker_event list \<Rightarrow> route_event
    \<Rightarrow> runtime_host_unix_router_controller \<times> broker_event list \<Rightarrow> bool"
  for os where
  grant_next: "router_grant_next os c ready tr = Some ((c', r), tr') \<Longrightarrow>
    router_move os (c, tr) (route_label (rt_failed c) (rt_failed c') r) (c', tr')"

fun grants_of :: "route_event list \<Rightarrow> (nat \<times> prepared_host_unix_socket) list" where
  "grants_of [] = []"
| "grants_of (Route_granted i grant # es) = (i, grant) # grants_of es"
| "grants_of (_ # es) = grants_of es"

lemma grants_of_append [simp]: "grants_of (es @ fs) = grants_of es @ grants_of fs"
  by (induction es rule: grants_of.induct) simp_all

definition granted_to :: "nat \<Rightarrow> route_event list \<Rightarrow> nat" where
  "granted_to i es = length (filter (\<lambda>(j, grant). j = i) (grants_of es))"

text \<open>What a run of the router has established: its counters, the descriptors that left, their peers.\<close>

definition router_run_ok :: "runtime_host_unix_router_controller \<Rightarrow> broker_event list \<Rightarrow> route_event list
    \<Rightarrow> runtime_host_unix_router_controller \<times> broker_event list \<Rightarrow> bool" where
  "router_run_ok c0 tr0 es = (\<lambda>(c, tr).
     rt_stream c = rt_stream c0 \<and> rt_routes c = rt_routes c0 \<and>
     rt_granted_connections c = map (\<lambda>i. granted_to i es) [0..<length (rt_routes c0)] \<and>
     rt_total_granted_connections c = length (grants_of es) \<and>
     (\<forall>i<length (rt_routes c0). granted_to i es \<le> max_connections (rt_routes c0 ! i)) \<and>
     (\<forall>(i, grant)\<in>set (grants_of es). i < length (rt_routes c0) \<and> peer_matches (expected_peer (rt_routes c0 ! i)) grant) \<and>
     rights_sent (rt_stream c0) tr = rights_sent (rt_stream c0) tr0 @ map (\<lambda>(i, grant). [hs_fd grant]) (grants_of es))"

lemma granted_to_snoc [simp]:
  "granted_to i (es @ [Route_granted j grant]) = granted_to i es + (if i = j then 1 else 0)"
  "granted_to i (es @ [Route_failed]) = granted_to i es" "granted_to i (es @ [Route_refused]) = granted_to i es"
  by (auto simp: granted_to_def)

lemma router_move_ok:
  assumes "router_run_ok c0 tr0 es (c, tr)" and "router_grant_next os c ready tr = Some ((c', r), tr')"
  shows "router_run_ok c0 tr0 (es @ [route_label (rt_failed c) (rt_failed c') r]) (c', tr')"
  using assms(2)
proof (cases rule: router_grant_cases)
  case refused
  then show ?thesis using assms(1) by (simp add: router_run_ok_def route_label_def)
next
  case failed
  then show ?thesis using assms(1) by (auto simp: router_run_ok_def route_label_def)
next
  case (granted i grant)
  let ?n = "length (rt_routes c0)"
  have i: "i < ?n" and counts: "rt_granted_connections c = map (\<lambda>i. granted_to i es) [0..<?n]"
    using assms(1) granted by (simp_all add: router_run_ok_def)
  have "(map (\<lambda>i. granted_to i es) [0..<?n])[i := granted_to i es + 1] =
      map (\<lambda>j. granted_to j (es @ [Route_granted i grant])) [0..<?n]"
    using i by (intro nth_equalityI) (auto simp: nth_list_update)
  then show ?thesis
    using assms(1) granted i counts by (auto simp: router_run_ok_def route_label_def route_granted_def)
qed

lemma router_run_established:
  assumes "runs_to (router_move os) (c0, tr0) es ct" and "router_run_ok c0 tr0 [] (c0, tr0)"
  shows "router_run_ok c0 tr0 es ct"
  using assms
proof (induction rule: runs_to.induct)
  case (runs_snoc es ct e ct')
  from runs_snoc.hyps(2) show ?case
    using runs_snoc.IH [OF runs_snoc.prems] by (cases rule: router_move.cases) (auto intro: router_move_ok)
qed

lemma failed_router_run:
  assumes "runs_to (router_move os) ct es ct'" and "rt_failed (fst ct)"
  shows "set es \<subseteq> {Route_refused} \<and> rt_failed (fst ct')"
  using assms
proof (induction rule: runs_to.induct)
  case (runs_snoc es ct' e ct'')
  then have "rt_failed (fst ct')" "set es \<subseteq> {Route_refused}" by simp_all
  with runs_snoc.hyps(2) show ?case
    by (cases rule: router_move.cases) (auto simp: router_grant_next_def io_ret_Some route_label_def)
qed simp

lemma accepted_owner:
  assumes "accept_trusted_stream os b tr = Some (Inr stream, tr')"
  shows "(Peer_cred stream, Creds (Some (owner_pid b, owner_uid b, owner_gid b))) \<in> set tr'"
proof -
  from assms obtain a tr1
    where a: "io_answer os (Peer_cred stream) (Io ''cannot inspect runtime FD broker peer credentials'') tr1 = Some (Inr a, tr')"
      and "Inr (owner_pid b, owner_uid b, owner_gid b) =
        ok_or (Protocol ''SO_PEERCRED returned an unexpected structure length'') (credentials_of a)"
    by (auto simp: accept_trusted_stream_def closing_on_error_Ok io_try_Ok io_ret_Some peer_credentials_def Let_def
        split: if_splits)
  then have "a = Creds (Some (owner_pid b, owner_uid b, owner_gid b))"
    by (cases a) (auto simp: ok_or_def split: option.splits)
  with a show ?thesis
    by (auto simp: io_answer_def io_bind_def io_call_def io_ret_def Let_def split: broker_answer.splits)
qed

lemma validated_routes:
  assumes "validate_routes routes = Inr ()"
  shows "2 \<le> length routes \<and> length routes \<le> 4 \<and> (\<forall>route\<in>set routes. 1 \<le> max_connections route \<and> max_connections route \<le> 8)"
  using assms
  by (auto simp: validate_routes_def ok_simps in_range_def MIN_RUNTIME_HOST_UNIX_ROUTER_SERVICES_def
      MAX_RUNTIME_HOST_UNIX_ROUTER_SERVICES_def MIN_RUNTIME_HOST_UNIX_ROUTE_CONNECTIONS_def
      MAX_RUNTIME_HOST_UNIX_ROUTE_CONNECTIONS_def)

lemma length_by_key:
  fixes n :: nat
  shows "(\<And>i x. (i, x) \<in> set ys \<Longrightarrow> i < n) \<Longrightarrow> length ys = (\<Sum>i<n. length (filter (\<lambda>(j, x). j = i) ys))"
proof (induction ys)
  case (Cons y ys)
  obtain i x where y: "y = (i, x)" by (cases y)
  have "i < n" using Cons.prems y by auto
  have "length ys = (\<Sum>j<n. length (filter (\<lambda>(j', x). j' = j) ys))"
    by (rule Cons.IH) (meson Cons.prems list.set_intros(2))
  note rest = this [symmetric]
  have "(\<Sum>j<n. length (filter (\<lambda>(j', x). j' = j) (y # ys))) =
      (\<Sum>j<n. length (filter (\<lambda>(j', x). j' = j) ys) + (if j = i then 1 else 0))"
    by (rule sum.cong) (auto simp: y)
  also have "\<dots> = length ys + 1"
    using rest \<open>i < n\<close> by (simp add: sum.distrib)
  finally show ?case by simp
qed simp

text \<open>
  C14: A router transfers nothing but the streams it grants. The broker's peer is the process that
  owns the broker. The descriptors that leave over the broker's stream are exactly those of the
  granted connections, one each and in order; no route is granted more often than its bound, and
  there are at most 32 grants; a route with pinned credentials is granted only to a service
  with that user and group. After a failed round nothing is granted any more, and a router that
  reports completion has granted every route exactly its bound.
\<close>

theorem router_grants_bounded:
  assumes "accept_host_unix_router_controller os b routes tr0 = Some (Ok c0, tr1)"
    and "runs_to (router_move os) (c0, tr1) es (c, tr)"
  shows "(Peer_cred (rt_stream c0), Creds (Some (owner_pid b, owner_uid b, owner_gid b))) \<in> set tr1 \<and>
    rights_sent (rt_stream c0) tr = rights_sent (rt_stream c0) tr1 @ map (\<lambda>(i, grant). [hs_fd grant]) (grants_of es) \<and>
    (\<forall>i<length routes. granted_to i es \<le> max_connections (routes ! i)) \<and> length (grants_of es) \<le> 32 \<and>
    (\<forall>(i, grant)\<in>set (grants_of es). i < length routes \<and> peer_matches (expected_peer (routes ! i)) grant) \<and>
    (\<forall>before after. es = before @ Route_failed # after \<longrightarrow> set after \<subseteq> {Route_refused}) \<and>
    (router_is_complete c \<longrightarrow> (\<forall>i<length routes. granted_to i es = max_connections (routes ! i)))"
proof -
  from assms(1) have valid: "validate_routes routes = Inr ()"
    and c0: "rt_routes c0 = routes" "rt_granted_connections c0 = replicate (length routes) 0"
      "rt_total_granted_connections c0 = 0"
    and trusted: "\<exists>tr. accept_trusted_stream os b tr = Some (Inr (rt_stream c0), tr1)"
    by (auto simp: accept_host_unix_router_controller_def io_try_Ok io_ret_Some)
  have "router_run_ok c0 tr1 [] (c0, tr1)"
    using c0 by (auto simp: router_run_ok_def granted_to_def map_replicate_const)
  from router_run_established [OF assms(2) this] c0
  have ok: "router_run_ok c0 tr1 es (c, tr)" and counts: "rt_granted_connections c = map (\<lambda>i. granted_to i es) [0..<length routes]"
    and bounded: "\<forall>i<length routes. granted_to i es \<le> max_connections (routes ! i)"
    and keyed: "\<forall>(i, grant)\<in>set (grants_of es). i < length routes" and routes: "rt_routes c = routes"
    by (auto simp: router_run_ok_def)
  have "length (grants_of es) = (\<Sum>i<length routes. granted_to i es)"
    unfolding granted_to_def using keyed by (intro length_by_key) auto
  also have "\<dots> \<le> (\<Sum>i<length routes. 8)"
    using bounded validated_routes [OF valid] by (intro sum_mono) (meson le_trans lessThan_iff nth_mem)
  also have "\<dots> \<le> 32" using validated_routes [OF valid] by simp
  finally have few: "length (grants_of es) \<le> 32" .
  have stopped: "set after \<subseteq> {Route_refused}" if "es = before @ Route_failed # after" for before after
  proof -
    from that assms(2) have "runs_to (router_move os) (c0, tr1) ((before @ [Route_failed]) @ after) (c, tr)" by simp
    then obtain ct where "runs_to (router_move os) (c0, tr1) (before @ [Route_failed]) ct"
      and after: "runs_to (router_move os) ct after (c, tr)"
      unfolding runs_to_append [of _ _ "before @ [Route_failed]"] by blast
    then have "rt_failed (fst ct)"
      by (auto simp: runs_to_snoc route_label_def elim!: router_move.cases split: sum.splits if_splits)
    with failed_router_run [OF after] show ?thesis by blast
  qed
  have "granted_to i es = max_connections (routes ! i)" if "router_is_complete c" and "i < length routes" for i
    using that counts routes by (auto simp: router_is_complete_def list_all_length)
  then show ?thesis
    using ok c0(1) few stopped trusted accepted_owner by (auto simp: router_run_ok_def)
qed

end
