(* ===== verification/Broker_Transfer.thy ===== *)
theory Broker_Transfer
  imports Broker_Routes
begin

text \<open>
  What one grant session of \<open>runtime_fd_broker.rs\<close> transfers: its operations refine a state machine with
  one readiness byte and one message of descriptors.
\<close>

section \<open>One grant per session\<close>

datatype transfer_event = Handshake u8 | Transferred "raw_fd list" | Broken | Unchanged

definition transfer_label :: "runtime_fd_session \<Rightarrow> runtime_fd_session \<Rightarrow> transfer_event \<Rightarrow> 'a broker_result \<Rightarrow> transfer_event" where
  "transfer_label s s' success r = (case r of
       Inr _ \<Rightarrow> success
     | Inl _ \<Rightarrow> if fs_state s' = Session_Failed \<and> fs_state s \<noteq> Session_Failed then Broken else Unchanged)"

inductive transfer_move :: "broker_os \<Rightarrow> runtime_fd_session \<times> broker_event list \<Rightarrow> transfer_event
    \<Rightarrow> runtime_fd_session \<times> broker_event list \<Rightarrow> bool"
  for os where
  ready: "wait_for_ready os s expected tr = Some ((s', r), tr') \<Longrightarrow>
    transfer_move os (s, tr) (transfer_label s s' (Handshake expected) r) (s', tr')"
| single: "send_grant os s fd tr = Some ((s', r), tr') \<Longrightarrow>
    transfer_move os (s, tr) (transfer_label s s' (Transferred [fd]) r) (s', tr')"
| revocable: "send_revocable_host_unix_stream os s grant tr = Some ((s', r), tr') \<Longrightarrow>
    transfer_move os (s, tr) (transfer_label s s' (Transferred [hs_fd grant]) r) (s', tr')"
| several: "send_sealed_snapshot_bundle os s bundle tr = Some ((s', r), tr') \<Longrightarrow>
    transfer_move os (s, tr) (transfer_label s s' (Transferred (map sn_fd (bundle_grants bundle))) r) (s', tr')"

text \<open>One step of the session as a state machine with the descriptors it transfers.\<close>

inductive transfer_step :: "runtime_fd_session_state \<Rightarrow> transfer_event \<Rightarrow> runtime_fd_session_state \<Rightarrow> bool" where
  handshake: "transfer_step Session_AwaitingReady (Handshake b) Session_Ready"
| transferred: "fds \<noteq> [] \<Longrightarrow> length fds \<le> 8 \<Longrightarrow> transfer_step Session_Ready (Transferred fds) Session_GrantSent"
| broken: "st = Session_AwaitingReady \<or> st = Session_Ready \<Longrightarrow> transfer_step st Broken Session_Failed"
| unchanged: "transfer_step st Unchanged st"

fun transferred_of :: "transfer_event list \<Rightarrow> raw_fd list list" where
  "transferred_of [] = []"
| "transferred_of (Transferred fds # es) = fds # transferred_of es"
| "transferred_of (_ # es) = transferred_of es"

lemma transferred_of_append [simp]: "transferred_of (es @ fs) = transferred_of es @ transferred_of fs"
  by (induction es rule: transferred_of.induct) simp_all

definition transfer_outcome :: "runtime_fd_session \<Rightarrow> broker_event list \<Rightarrow> transfer_event \<Rightarrow> runtime_fd_session
    \<Rightarrow> broker_event list \<Rightarrow> bool" where
  "transfer_outcome s tr e s' tr' \<longleftrightarrow>
     fs_stream s' = fs_stream s \<and> transfer_step (fs_state s) e (fs_state s') \<and>
     rights_sent (fs_stream s) tr' = rights_sent (fs_stream s) tr @ transferred_of [e] \<and> set tr \<subseteq> set tr' \<and>
     (\<forall>b. e = Handshake b \<longrightarrow> (Read_exact (fs_stream s) 1, Bytes_read [b]) \<in> set tr')"

lemma preserves_history: "io_call os c tr = Some (a, tr') \<Longrightarrow> set tr \<subseteq> set tr'"
  by (auto simp: io_call_def Let_def)

lemma bytes_of_singleton: "bytes_of a = [b] \<longleftrightarrow> a = Bytes_read [b]"
  by (cases a) auto

lemma wait_for_ready_outcome:
  assumes "wait_for_ready os s expected tr = Some ((s', r), tr')"
  shows "transfer_outcome s tr (transfer_label s s' (Handshake expected) r) s' tr'"
proof (cases "fs_state s = Session_AwaitingReady")
  case True
  with assms show ?thesis
    by (auto simp: wait_for_ready_def transfer_outcome_def transfer_label_def io_bind_def io_call_def io_ret_Some Let_def
        bytes_of_singleton intro: transfer_step.intros split: broker_answer.splits if_splits)
next
  case False
  with assms show ?thesis
    by (auto simp: wait_for_ready_def transfer_outcome_def transfer_label_def io_ret_Some intro: transfer_step.unchanged)
qed

lemma send_fds_history:
  assumes "send_fds os s fds tr = Some (r, tr')"
  shows "set tr \<subseteq> set tr'"
  using assms by (auto simp: send_fds_def io_ret_Some split: if_splits elim!: retry_then)

lemma send_prepared_fds_outcome:
  assumes "send_prepared_fds os s fds tr = Some ((s', r), tr')"
  shows "transfer_outcome s tr (transfer_label s s' (Transferred fds) r) s' tr'"
proof (cases "fs_state s = Session_Ready")
  case True
  with assms obtain r' where sent: "send_fds os (fs_stream s) fds tr = Some (r', tr')"
    and r: "(s', r) = (case r' of Inr _ \<Rightarrow> (s\<lparr>fs_state := Session_GrantSent\<rparr>, Ok ()) | Inl e \<Rightarrow> (s\<lparr>fs_state := Session_Failed\<rparr>, Err e))"
    by (auto simp: send_prepared_fds_def io_bind_def io_ret_Some Option.bind_eq_Some_conv)
  from sent show ?thesis
    using r True send_fds_history [OF sent]
    by (cases rule: send_fds_cases [consumes 1])
      (auto simp: transfer_outcome_def transfer_label_def intro: transfer_step.intros)
next
  case False
  with assms show ?thesis
    by (auto simp: send_prepared_fds_def transfer_outcome_def transfer_label_def io_ret_Some intro: transfer_step.unchanged)
qed

text \<open>The calls that close the granted descriptors afterwards change nothing that is observed.\<close>

lemma transfer_outcome_closed:
  assumes "transfer_outcome s tr e s' tr1" and "rights_sent (fs_stream s) tr' = rights_sent (fs_stream s) tr1"
    and "set tr1 \<subseteq> set tr'"
  shows "transfer_outcome s tr e s' tr'"
  using assms by (auto simp: transfer_outcome_def)

lemma send_grant_outcome:
  assumes "send_grant os s fd tr = Some ((s', r), tr')"
  shows "transfer_outcome s tr (transfer_label s s' (Transferred [fd]) r) s' tr'"
proof -
  from assms obtain tr1 where "send_prepared_fds os s [fd] tr = Some ((s', r), tr1)"
    and "tr' = tr1 @ [(Close_fd fd, os tr1 (Close_fd fd))]"
    by (auto simp: send_grant_def send_prepared_fd_def closing_Some)
  then show ?thesis by (auto intro!: transfer_outcome_closed [OF send_prepared_fds_outcome])
qed

lemma close_grants_kept:
  "close_grants os gs tr = Some (x, tr') \<Longrightarrow> rights_sent fd tr' = rights_sent fd tr \<and> set tr \<subseteq> set tr'"
proof (induction gs arbitrary: tr)
  case (Cons g gs)
  then show ?case by (fastforce simp: io_bind_def io_call_def Let_def)
qed (simp add: io_ret_Some)

lemma send_sealed_snapshot_bundle_outcome:
  assumes "send_sealed_snapshot_bundle os s bundle tr = Some ((s', r), tr')"
  shows "transfer_outcome s tr (transfer_label s s' (Transferred (map sn_fd (bundle_grants bundle))) r) s' tr'"
proof -
  from assms obtain tr1 x where "send_prepared_fds os s (map sn_fd (bundle_grants bundle)) tr = Some ((s', r), tr1)"
    and "close_grants os (bundle_grants bundle) tr1 = Some (x, tr')"
    by (auto simp: send_sealed_snapshot_bundle_def io_bind_def io_ret_def Option.bind_eq_Some_conv)
  then show ?thesis
    using send_prepared_fds_outcome close_grants_kept by (blast intro: transfer_outcome_closed)
qed

lemma transfer_label_cong:
  "(\<exists>x. r = Inr x) = (\<exists>x. r' = Inr x) \<Longrightarrow> transfer_label s s' success r = transfer_label s s' success r'"
  by (cases r; cases r') (auto simp: transfer_label_def)

lemma send_revocable_outcome:
  assumes "send_revocable_host_unix_stream os s grant tr = Some ((s', r), tr')"
  shows "transfer_outcome s tr (transfer_label s s' (Transferred [hs_fd grant]) r) s' tr'"
proof -
  from assms obtain s1 r1 tr1 where sent1: "send_prepared_fds os s [hs_fd grant] tr = Some ((s1, r1), tr1)"
    and rest: "(case r1 of Inl e \<Rightarrow> io_bind (io_call os (Close_fd (hs_fd grant))) (\<lambda>_. io_ret (s1, Err e))
      | Inr _ \<Rightarrow> io_ret (s1, Ok \<lparr>rv_socket = grant, rv_state = Revocation_Active\<rparr>)) tr1 = Some ((s', r), tr')"
    by (auto simp: send_revocable_host_unix_stream_def send_prepared_fd_def io_bind_def [of "send_prepared_fds os s [hs_fd grant]"]
        Option.bind_eq_Some_conv)
  from rest have "s1 = s'" and same: "(\<exists>x. r = Inr x) = (\<exists>x. r1 = Inr x)"
    and kept: "rights_sent (fs_stream s) tr' = rights_sent (fs_stream s) tr1" "set tr1 \<subseteq> set tr'"
    by (cases r1; auto simp: io_bind_def io_call_def io_ret_def Let_def)+
  with sent1 have sent: "send_prepared_fds os s [hs_fd grant] tr = Some ((s', r1), tr1)" by simp
  from transfer_outcome_closed [OF send_prepared_fds_outcome [OF sent] kept] show ?thesis
    unfolding transfer_label_cong [OF same, of s s'] .
qed

lemma transfer_move_outcome: "transfer_move os (s, tr) e (s', tr') \<Longrightarrow> transfer_outcome s tr e s' tr'"
  by (erule transfer_move.cases)
    (auto intro: wait_for_ready_outcome send_grant_outcome send_revocable_outcome send_sealed_snapshot_bundle_outcome)

text \<open>The events that matter, and what they may be in each state.\<close>

definition significant :: "transfer_event list \<Rightarrow> transfer_event list" where
  "significant es = filter (\<lambda>e. e \<noteq> Unchanged) es"

fun transfer_history :: "runtime_fd_session_state \<Rightarrow> transfer_event list \<Rightarrow> bool" where
  "transfer_history Session_AwaitingReady es \<longleftrightarrow> es = []"
| "transfer_history Session_Ready es \<longleftrightarrow> (\<exists>b. es = [Handshake b])"
| "transfer_history Session_GrantSent es \<longleftrightarrow> (\<exists>b fds. es = [Handshake b, Transferred fds] \<and> fds \<noteq> [] \<and> length fds \<le> 8)"
| "transfer_history Session_Failed es \<longleftrightarrow> es = [Broken] \<or> (\<exists>b. es = [Handshake b, Broken])"

lemma transfer_step_history:
  "transfer_step st e st' \<Longrightarrow> transfer_history st (significant es) \<Longrightarrow> transfer_history st' (significant (es @ [e]))"
  by (induction rule: transfer_step.induct) (auto simp: significant_def)

lemma transfer_run:
  assumes "runs_to (transfer_move os) (s0, tr0) es (s, tr)" and "fs_state s0 = Session_AwaitingReady"
  shows "fs_stream s = fs_stream s0 \<and> transfer_history (fs_state s) (significant es) \<and>
    rights_sent (fs_stream s0) tr = rights_sent (fs_stream s0) tr0 @ transferred_of es \<and>
    (\<forall>b. Handshake b \<in> set es \<longrightarrow> (Read_exact (fs_stream s0) 1, Bytes_read [b]) \<in> set tr)"
  using assms
proof (induction "(s, tr)" arbitrary: s tr rule: runs_to.induct)
  case runs_Nil
  then show ?case by (simp add: significant_def)
next
  case (runs_snoc es c' e s'' tr'')
  obtain s' tr' where c': "c' = (s', tr')" by (cases c')
  from runs_snoc.hyps(3) have "transfer_outcome s' tr' e s'' tr''" unfolding c' by (rule transfer_move_outcome)
  with runs_snoc.hyps(2) [OF c' runs_snoc.prems] show ?case
    by (auto simp: transfer_outcome_def transfer_step_history)
qed

text \<open>
  C15: A session transfers at most one grant, and only after its target has signalled readiness. In
  whatever order the operations are called, what happens is a prefix of: the readiness byte is
  read, then one message with one to eight descriptors leaves; a failure before that ends the
  session for good. The descriptors that leave over the stream are exactly those of that
  grant, the readiness byte was read from the stream, and the peer is the process that owns the broker.
\<close>

theorem session_transfers_once:
  assumes "broker_accept os b tr0 = Some (Ok s0, tr1)" and "runs_to (transfer_move os) (s0, tr1) es (s, tr)"
  shows "(Peer_cred (fs_stream s0), Creds (Some (owner_pid b, owner_uid b, owner_gid b))) \<in> set tr1 \<and>
    rights_sent (fs_stream s0) tr = rights_sent (fs_stream s0) tr1 @ transferred_of es \<and>
    (\<exists>ready fds. fds \<noteq> [] \<and> length fds \<le> 8 \<and>
      filter (\<lambda>e. e \<noteq> Unchanged) es \<in>
        {[], [Broken], [Handshake ready], [Handshake ready, Broken], [Handshake ready, Transferred fds]} \<and>
      (Handshake ready \<in> set es \<longrightarrow> (Read_exact (fs_stream s0) 1, Bytes_read [ready]) \<in> set tr))"
proof -
  from assms(1) have s0: "fs_state s0 = Session_AwaitingReady"
    and trusted: "accept_trusted_stream os b tr0 = Some (Inr (fs_stream s0), tr1)"
    by (auto simp: broker_accept_def io_try_Ok io_ret_Some)
  note run = transfer_run [OF assms(2) s0]
  have "\<exists>ready fds. fds \<noteq> [] \<and> length fds \<le> 8 \<and> significant es \<in>
      {[], [Broken], [Handshake ready], [Handshake ready, Broken], [Handshake ready, Transferred fds]}"
    using run by (cases "fs_state s") (auto intro!: exI [of _ "[0 :: int]"])
  then show ?thesis
    using run accepted_owner [OF trusted] unfolding significant_def by blast
qed

end
