(* ===== verification/Broker_Stream.thy ===== *)
theory Broker_Stream
  imports Broker_Routes
begin

text \<open>
  What a revocable byte stream of \<open>runtime_fd_broker.rs\<close> delivers: the bytes of the successful sends, in
  order, within its budget, and nothing after it is revoked or has failed.
\<close>

fun bytes_delivered :: "raw_fd \<Rightarrow> broker_event list \<Rightarrow> bytes" where
  "bytes_delivered fd [] = []"
| "bytes_delivered fd ((Send f frame flags, Value n) # tr) = (if f = fd then take (nat n) frame else []) @ bytes_delivered fd tr"
| "bytes_delivered fd (_ # tr) = bytes_delivered fd tr"

lemma delivered_append [simp]: "bytes_delivered fd (tr @ tr') = bytes_delivered fd tr @ bytes_delivered fd tr'"
  by (induction fd tr rule: bytes_delivered.induct) simp_all


section \<open>One send\<close>






section \<open>Runs\<close>

datatype stream_event = Stream_sent bytes | Stream_broken | Stream_closed | Stream_refused



fun sent_of :: "stream_event list \<Rightarrow> bytes" where
  "sent_of [] = []"
| "sent_of (Stream_sent data # es) = data @ sent_of es"
| "sent_of (_ # es) = sent_of es"

lemma sent_of_append [simp]: "sent_of (es @ fs) = sent_of es @ sent_of fs"
  by (induction es rule: sent_of.induct) simp_all








end
