(* ===== verification/Broker_Sealed.thy ===== *)
theory Broker_Sealed
  imports Broker_Routes
begin

text \<open>
  The sealed snapshots of \<open>runtime_fd_broker.rs\<close>: the memory file holds exactly the bytes that were read from
  the source, it is sealed after the last write, and what is granted is a read-only reopening of it
  that still has the seals.
\<close>

fun written :: "raw_fd \<Rightarrow> broker_event list \<Rightarrow> bytes" where
  "written fd [] = []"
| "written fd ((Write_fd f bs, Value n) # tr) = (if f = fd then take (nat n) bs else []) @ written fd tr"
| "written fd (_ # tr) = written fd tr"

fun consumed :: "raw_fd \<Rightarrow> broker_event list \<Rightarrow> bytes" where
  "consumed fd [] = []"
| "consumed fd ((Read_fd f n, Bytes_read bs) # tr) = (if f = fd then bs else []) @ consumed fd tr"
| "consumed fd (_ # tr) = consumed fd tr"

lemma written_append [simp]: "written fd (tr @ tr') = written fd tr @ written fd tr'"
  by (induction fd tr rule: written.induct) simp_all

lemma consumed_append [simp]: "consumed fd (tr @ tr') = consumed fd tr @ consumed fd tr'"
  by (induction fd tr rule: consumed.induct) simp_all

text \<open>\<open>write(2)\<close> answers how many of the given bytes were written.\<close>

definition write_counts :: "broker_os \<Rightarrow> bool" where
  "write_counts os \<longleftrightarrow> (\<forall>tr fd bs n. os tr (Write_fd fd bs) = Value n \<longrightarrow> 0 \<le> n \<and> n \<le> int (length bs))"

lemma io_answer_Ok:
  "io_answer os c wrap tr = Some (Inr a, tr') \<longleftrightarrow> a = os tr c \<and> (\<forall>e. a \<noteq> Refused e) \<and> tr' = tr @ [(c, a)]"
  by (auto simp: io_answer_def io_bind_def io_call_def io_ret_def Let_def split: broker_answer.splits)

section \<open>The copy\<close>

lemma snapshot_write_step_invariant:
  assumes "write_counts os"
  shows "io_triple (\<lambda>tr. seen \<subseteq> set tr \<and> consumed src tr = eaten \<and> (\<exists>part. chunk = part @ rest \<and> written memfd tr = start @ part))
    (snapshot_write_step os memfd rest)
    (\<lambda>r tr. case r of
       Continue rest \<Rightarrow> seen \<subseteq> set tr \<and> consumed src tr = eaten \<and> (\<exists>part. chunk = part @ rest \<and> written memfd tr = start @ part)
     | Break r \<Rightarrow> r = Inr () \<longrightarrow> seen \<subseteq> set tr \<and> consumed src tr = eaten \<and> written memfd tr = start @ chunk)"
proof (cases "rest = []")
  case True
  then show ?thesis by (auto simp: io_triple_def snapshot_write_step_def io_ret_Some)
next
  case False
  show ?thesis unfolding io_triple_def
  proof (intro allI impI)
    fix tr r tr'
    assume start: "seen \<subseteq> set tr \<and> consumed src tr = eaten \<and> (\<exists>part. chunk = part @ rest \<and> written memfd tr = start @ part)"
      and run: "snapshot_write_step os memfd rest tr = Some (r, tr')"
    then obtain part where part: "chunk = part @ rest" "written memfd tr = start @ part" by blast
    show "case r of
       Continue rest \<Rightarrow> seen \<subseteq> set tr' \<and> consumed src tr' = eaten \<and> (\<exists>part. chunk = part @ rest \<and> written memfd tr' = start @ part)
     | Break r \<Rightarrow> r = Inr () \<longrightarrow> seen \<subseteq> set tr' \<and> consumed src tr' = eaten \<and> written memfd tr' = start @ chunk"
    proof (cases "os tr (Write_fd memfd rest)")
      case (Value n)
      then have n: "0 \<le> n" "n \<le> int (length rest)" using assms by (auto simp: write_counts_def)
      have tr': "tr' = tr @ [(Write_fd memfd rest, Value n)]"
        and r: "r = (if n = 0 then Break (Inl (Protocol ''sealed runtime snapshot write made no progress'')) else Continue (drop (nat n) rest))"
        using run False Value by (auto simp: snapshot_write_step_def io_bind_def io_call_def io_ret_Some Let_def)
      have "chunk = (part @ take (nat n) rest) @ drop (nat n) rest" using part by simp
      then show ?thesis using start part tr' r by (auto intro!: exI [of _ "part @ take (nat n) rest"])
    qed (use start run False in \<open>auto simp: snapshot_write_step_def io_bind_def io_call_def io_ret_Some Let_def split: if_splits\<close>)
  qed
qed

lemma snapshot_write_loop:
  assumes "write_counts os" and "loop_io (snapshot_write_step os memfd) chunk tr = Some (Inr x, tr')"
  shows "set tr \<subseteq> set tr' \<and> consumed src tr' = consumed src tr \<and> written memfd tr' = written memfd tr @ chunk"
proof -
  let ?I = "\<lambda>rest t. set tr \<subseteq> set t \<and> consumed src t = consumed src tr \<and> (\<exists>part. chunk = part @ rest \<and> written memfd t = written memfd tr @ part)"
  have "io_triple (?I chunk) (loop_io (snapshot_write_step os memfd) chunk)
      (\<lambda>r t. r = Inr () \<longrightarrow> set tr \<subseteq> set t \<and> consumed src t = consumed src tr \<and> written memfd t = written memfd tr @ chunk)"
    by (rule io_triple_loop [where I = ?I]) (rule snapshot_write_step_invariant [OF assms(1)])
  from io_tripleD [OF this _ assms(2)] show ?thesis by simp
qed

definition copied :: "raw_fd \<Rightarrow> raw_fd \<Rightarrow> broker_event list \<Rightarrow> nat \<Rightarrow> nat \<Rightarrow> broker_event list \<Rightarrow> bool" where
  "copied readable memfd tr0 max_bytes len tr \<longleftrightarrow> (\<exists>copy. length copy = len \<and> len \<le> max_bytes \<and> set tr0 \<subseteq> set tr \<and>
     consumed readable tr = consumed readable tr0 @ copy \<and> written memfd tr = written memfd tr0 @ copy)"

lemma snapshot_copy_step_invariant:
  assumes "write_counts os"
  shows "io_triple (copied readable memfd tr0 max_bytes len) (snapshot_copy_step os readable memfd max_bytes len)
    (\<lambda>r tr. case r of Continue len \<Rightarrow> copied readable memfd tr0 max_bytes len tr
     | Break r \<Rightarrow> \<forall>len. r = Inr len \<longrightarrow> copied readable memfd tr0 max_bytes len tr)"
  unfolding io_triple_def
proof (intro allI impI)
  fix tr r tr'
  let ?call = "Read_fd readable (64 * 1024)"
  let ?tr = "tr @ [(?call, os tr ?call)]"
  assume start: "copied readable memfd tr0 max_bytes len tr"
    and run: "snapshot_copy_step os readable memfd max_bytes len tr = Some (r, tr')"
  show "case r of Continue len \<Rightarrow> copied readable memfd tr0 max_bytes len tr'
     | Break r \<Rightarrow> \<forall>len. r = Inr len \<longrightarrow> copied readable memfd tr0 max_bytes len tr'"
  proof (cases "bytes_of (os tr ?call) = []")
    case True
    then have "copied readable memfd tr0 max_bytes len ?tr"
      using start by (cases "os tr ?call") (auto simp: copied_def)
    then show ?thesis
      using run True
      by (cases "os tr ?call") (auto simp: snapshot_copy_step_def io_bind_def io_call_def io_ret_Some Let_def split: if_splits)
  next
    case False
    then obtain bs where bs: "os tr ?call = Bytes_read bs" "bs \<noteq> []" by (cases "os tr ?call") auto
    show ?thesis
    proof (cases "\<exists>len'. r = Continue len'")
      case True
      with run bs obtain q where loop: "loop_io (snapshot_write_step os memfd) bs ?tr = Some (q, tr')"
        and fits: "len + length bs \<le> max_bytes" and r: "r = (case q of Inl e \<Rightarrow> Break (Err e) | Inr _ \<Rightarrow> Continue (len + length bs))"
        by (auto simp: snapshot_copy_step_def io_bind_def io_call_def io_ret_Some Let_def Option.bind_eq_Some_conv
            split: if_splits)
      with True have loop: "loop_io (snapshot_write_step os memfd) bs ?tr = Some (Inr (), tr')" and r: "r = Continue (len + length bs)"
        by (cases q; auto)+
      from start obtain copy where "set tr0 \<subseteq> set tr" "length copy = len" "consumed readable tr = consumed readable tr0 @ copy"
        "written memfd tr = written memfd tr0 @ copy"
        by (auto simp: copied_def)
      then show ?thesis
        using snapshot_write_loop [OF assms loop, of readable] fits r bs
        by (auto simp: copied_def intro!: exI [of _ "copy @ bs"])
    next
      case other: False
      have "(\<exists>e. r = Break (Inl e)) \<or> (\<exists>q. r = (case q of Inl e \<Rightarrow> Break (Inl e) | Inr (_ :: unit) \<Rightarrow> Continue (len + length bs)))"
        using run bs
        by (auto simp: snapshot_copy_step_def io_bind_def io_call_def io_ret_Some Let_def Option.bind_eq_Some_conv
            split: if_splits)
      then have "\<exists>e. r = Break (Inl e)"
      proof
        assume "\<exists>q. r = (case q of Inl e \<Rightarrow> Break (Inl e) | Inr (_ :: unit) \<Rightarrow> Continue (len + length bs))"
        then obtain q :: "unit broker_result" where "r = (case q of Inl e \<Rightarrow> Break (Inl e) | Inr _ \<Rightarrow> Continue (len + length bs))"
          by blast
        with other show ?thesis by (cases q) auto
      qed
      then show ?thesis by auto
    qed
  qed
qed

lemma snapshot_copy_loop:
  assumes "write_counts os" and "loop_io (snapshot_copy_step os readable memfd max_bytes) 0 tr = Some (Inr len, tr')"
  shows "copied readable memfd tr max_bytes len tr'"
proof -
  have "copied readable memfd tr max_bytes 0 tr" by (simp add: copied_def)
  with io_tripleD [OF io_triple_loop [where I = "copied readable memfd tr max_bytes", OF snapshot_copy_step_invariant [OF assms(1)]] _ assms(2)]
  show ?thesis by blast
qed

section \<open>The snapshot\<close>

lemma seal_snapshot_Ok:
  assumes "seal_snapshot os memfd tr = Some (Inr x, tr')"
  obtains a b s where "tr' = tr @ [(Fchmod_fd memfd ''0400'', b), (Fcntl_add_seals memfd required_seals, a),
      (Fcntl_get_seals memfd, s)]" and "\<forall>e. a \<noteq> Refused e"
  using assms by (auto simp: seal_snapshot_def check_seals_def io_try_Ok io_answer_Ok io_ret_Some)

lemma seals_answer: "set required_seals \<subseteq> set (seals_of a) \<longleftrightarrow> (\<exists>s. a = Seal_set s \<and> set required_seals \<subseteq> set s)"
  by (cases a) (auto simp: required_seals_def)

lemma reopen_snapshot_Ok:
  assumes "reopen_snapshot os memfd tr = Some (Inr fd, tr')"
  obtains a o1 o2 f s where "tr' = tr @ [(Open_procfd memfd, a), (Fstat_fd memfd, o1), (Fstat_fd fd, o2), (Fcntl_getfl fd, f),
      (Fcntl_get_seals fd, Seal_set s)]" and "same_inode (inode_of o1) (inode_of o2)" and "O_RDONLY_mode (modes_of f)"
    and "set required_seals \<subseteq> set s"
proof -
  from assms obtain a o1 o2 f q where "tr' = tr @ [(Open_procfd memfd, a), (Fstat_fd memfd, o1), (Fstat_fd fd, o2), (Fcntl_getfl fd, f),
      (Fcntl_get_seals fd, q)]" and "same_inode (inode_of o1) (inode_of o2)" and "O_RDONLY_mode (modes_of f)"
    and "set required_seals \<subseteq> set (seals_of q)"
    by (auto simp: reopen_snapshot_def check_seals_def io_try_Ok io_answer_Ok io_ret_Some closing_on_error_Ok reject_def Let_def
        split: if_splits)
  then show thesis using that unfolding seals_answer by blast
qed

lemma prepare_readonly_Ok:
  assumes "prepare_readonly_regular_file os source tr = Some (Inr fd, tr')"
  obtains o1 o2 f g a where "tr' = tr @ [(Fstat_fd source, o1), (Fcntl_getfl source, f), (Open_procfd source, a), (Fstat_fd fd, o2),
      (Fcntl_getfl fd, g)]" and "same_inode (inode_of o2) (inode_of o1)" and "ino_regular (inode_of o2)"
    and "O_RDONLY_mode (modes_of g)"
  using assms
  by (auto simp: prepare_readonly_regular_file_def io_try_Ok io_answer_Ok io_ret_Some closing_on_error_Ok Let_def split: if_splits)

text \<open>
  C17: A sealed snapshot that is granted is an exact, immutable copy. Over a kernel whose \<open>write\<close> answers
  how many bytes were written, the bytes in the memory file are exactly the bytes read from a read-only
  reopening of the source, which is the same regular file; their number is the recorded length and
  within the limit, at most 64 MiB. The seals are added after the last write, nothing is written
  afterwards, and the descriptor that is granted was opened on the same memory file, is read-only and
  has all the seals.
\<close>

theorem sealed_snapshot_exact:
  assumes "prepare_sealed_regular_file_snapshot os source max_bytes tr = Some (Ok snap, tr')" and "write_counts os"
  shows "\<exists>readable memfd copy before after a. tr' = before @ (Fcntl_add_seals memfd required_seals, a) # after \<and> (\<forall>e. a \<noteq> Refused e) \<and>
    (\<exists>x y. (Fstat_fd source, x) \<in> set before \<and> (Fstat_fd readable, y) \<in> set before \<and>
      ino_regular (inode_of y) \<and> same_inode (inode_of y) (inode_of x)) \<and>
    consumed readable before = consumed readable tr @ copy \<and> written memfd before = written memfd tr @ copy \<and>
    length copy = sn_len snap \<and> sn_len snap \<le> max_bytes \<and> max_bytes \<le> 64 * 1024 * 1024 \<and>
    (\<forall>fd bs b. (Write_fd fd bs, b) \<notin> set after) \<and>
    (\<exists>x y. (Fstat_fd memfd, x) \<in> set after \<and> (Fstat_fd (sn_fd snap), y) \<in> set after \<and> same_inode (inode_of x) (inode_of y)) \<and>
    (\<exists>f. (Fcntl_getfl (sn_fd snap), f) \<in> set after \<and> O_RDONLY_mode (modes_of f)) \<and>
    (\<exists>s. (Fcntl_get_seals (sn_fd snap), Seal_set s) \<in> set after \<and> set required_seals \<subseteq> set s)"
proof -
  from assms(1) have max: "max_bytes \<le> 64 * 1024 * 1024"
    by (auto simp: prepare_sealed_regular_file_snapshot_def io_ret_Some MAX_RUNTIME_SEALED_SNAPSHOT_BYTES_def split: if_splits)
  from assms(1) obtain readable memfd m len tr1 tr2 tr3 tr4 x c1 c2 fd
    where source: "prepare_readonly_regular_file os source tr = Some (Inr readable, tr1)"
      and new: "tr2 = tr1 @ [(Memfd_new ''security-lab-runtime-snapshot'', m)]"
      and copy: "loop_io (snapshot_copy_step os readable memfd max_bytes) 0 tr2 = Some (Inr len, tr3)"
      and seal: "seal_snapshot os memfd tr3 = Some (Inr x, tr4)"
      and reopen: "\<exists>tr5. reopen_snapshot os memfd tr4 = Some (Inr fd, tr5) \<and> tr' = tr5 @ [(Close_fd memfd, c1), (Close_fd readable, c2)]"
      and snap: "snap = \<lparr>sn_fd = fd, sn_len = len\<rparr>"
    by (auto simp: prepare_sealed_regular_file_snapshot_def io_try_Ok io_answer_Ok io_ret_Some closing_Some Let_def
        split: if_splits)
  obtain o1 o2 f g a where tr1: "tr1 = tr @ [(Fstat_fd source, o1), (Fcntl_getfl source, f), (Open_procfd source, a),
      (Fstat_fd readable, o2), (Fcntl_getfl readable, g)]" and same: "same_inode (inode_of o2) (inode_of o1)" "ino_regular (inode_of o2)"
    using prepare_readonly_Ok [OF source] by metis
  obtain b1 a1 s1 where tr4: "tr4 = tr3 @ [(Fchmod_fd memfd ''0400'', b1), (Fcntl_add_seals memfd required_seals, a1),
      (Fcntl_get_seals memfd, s1)]" and a1: "\<forall>e. a1 \<noteq> Refused e"
    using seal_snapshot_Ok [OF seal] by metis
  from reopen obtain tr5 where tr5: "reopen_snapshot os memfd tr4 = Some (Inr fd, tr5)"
    and tr': "tr' = tr5 @ [(Close_fd memfd, c1), (Close_fd readable, c2)]" by blast
  obtain a2 p1 p2 h s where tr5_eq: "tr5 = tr4 @ [(Open_procfd memfd, a2), (Fstat_fd memfd, p1), (Fstat_fd fd, p2), (Fcntl_getfl fd, h),
      (Fcntl_get_seals fd, Seal_set s)]" and reopened: "same_inode (inode_of p1) (inode_of p2)" "O_RDONLY_mode (modes_of h)"
      "set required_seals \<subseteq> set s"
    using reopen_snapshot_Ok [OF tr5] by metis
  let ?before = "tr3 @ [(Fchmod_fd memfd ''0400'', b1)]"
  let ?after = "[(Fcntl_get_seals memfd, s1), (Open_procfd memfd, a2), (Fstat_fd memfd, p1), (Fstat_fd fd, p2), (Fcntl_getfl fd, h),
      (Fcntl_get_seals fd, Seal_set s), (Close_fd memfd, c1), (Close_fd readable, c2)]"
  from snapshot_copy_loop [OF assms(2) copy] obtain bs where bs: "length bs = len" "len \<le> max_bytes" "set tr2 \<subseteq> set tr3"
    "consumed readable ?before = consumed readable tr @ bs" "written memfd ?before = written memfd tr @ bs"
    by (auto simp: copied_def new tr1)
  have "(Fstat_fd source, o1) \<in> set ?before" "(Fstat_fd readable, o2) \<in> set ?before" using bs(3) by (auto simp: new tr1)
  moreover have "tr' = ?before @ (Fcntl_add_seals memfd required_seals, a1) # ?after" by (simp add: tr' tr5_eq tr4)
  ultimately show ?thesis
    using bs max same reopened a1 unfolding snap
    by (intro exI [of _ readable] exI [of _ memfd] exI [of _ bs] exI [of _ ?before] exI [of _ ?after] exI [of _ a1])
      (auto simp del: consumed_append written_append)
qed

end
