(* ===== verification/Broker_Grant_Examples.thy ===== *)
theory Broker_Grant_Examples
  imports Broker_Examples Broker_Transfer Broker_Stream Broker_Sealed
begin

text \<open>
  Concrete runs of the router, of a grant session, of a revocable byte stream and of a sealed snapshot. The kernel accepts
  the broker's own process, connects to every service and sends at most two bytes at a time.
\<close>

fun grant_kernel :: "u8 list \<Rightarrow> broker_os" where
  "grant_kernel input tr (Listener_accept fd) = Value 20"
| "grant_kernel input tr (Peer_cred fd) = Creds (Some (1, 0, 0))"
| "grant_kernel input tr (Read_exact fd n) = Bytes_read (take n input)"
| "grant_kernel input tr (Stream_connect path) = Value 21"
| "grant_kernel input tr (Sendmsg_rights fd tag fds space) = Value 1"
| "grant_kernel input tr (Socketpair kind) = Two_fds 10 11"
| "grant_kernel input tr (Shutdown fd how) = Value 0"
| "grant_kernel input tr (Send fd frame flags) = Value (min 2 (int (length frame)))"
| "grant_kernel input tr (Close_fd fd) = Value 0"
| "grant_kernel input tr _ = Refused EINVAL"

definition example_broker :: runtime_fd_broker where
  "example_broker = \<lparr>broker_path = ''/run/b'', broker_listener = 19, owner_pid = 1, owner_uid = 0, owner_gid = 0,
     socket_inode = \<lparr>ino_dev = 0, ino_ino = 0, ino_regular = False, ino_socket = True\<rparr>\<rparr>"

definition example_accepted :: "broker_event list" where
  "example_accepted = [(Listener_accept 19, Value 20), (Peer_cred 20, Creds (Some (1, 0, 0)))]"

lemma example_accept:
  "accept_trusted_stream (grant_kernel input) example_broker [] = Some (Inr 20, example_accepted)"
  by (simp add: accept_trusted_stream_def peer_credentials_def closing_on_error_def io_eval example_broker_def ok_or_def
      example_accepted_def)

section \<open>The router\<close>

definition example_routes :: "runtime_host_unix_route list" where
  "example_routes = [\<lparr>service_path = ''/a'', expected_peer = None, max_connections = 1\<rparr>,
     \<lparr>service_path = ''/b'', expected_peer = Some (0, 0), max_connections = 1\<rparr>]"

lemma example_routes_valid: "validate_routes example_routes = Inr ()"
  by code_simp

lemma example_path_valid: "validate_socket_path ''/b'' = Inr ()"
  by code_simp

definition example_router :: runtime_host_unix_router_controller where
  "example_router = \<lparr>rt_stream = 20, rt_routes = example_routes, rt_granted_connections = [0, 0],
     rt_total_granted_connections = 0, rt_failed = False\<rparr>"

lemma example_router_accepted:
  "accept_host_unix_router_controller (grant_kernel [7, 1]) example_broker example_routes [] =
    Some (Ok example_router, example_accepted)"
  unfolding accept_host_unix_router_controller_def example_routes_valid
  by (simp add: io_try_def io_bind_def io_ret_def example_accept example_router_def example_routes_def)

definition example_grant :: prepared_host_unix_socket where
  "example_grant = \<lparr>hs_fd = 21, hs_peer_pid = 1, hs_peer_uid = 0, hs_peer_gid = 0\<rparr>"

lemma example_grant_stream:
  "\<exists>tr'. grant_stream (grant_kernel input) 20 ''/b'' (Some (0, 0)) tr = Some (Inr example_grant, tr')"
  unfolding grant_stream_def prepare_host_unix_stream_def example_path_valid
  by (simp add: pinned_socket_def peer_credentials_def check_peer_def reject_def closing_def closing_on_error_def
      send_fds_def MAX_RUNTIME_SEALED_BUNDLE_ITEMS_def io_eval ok_or_def example_grant_def)

lemma example_router_run:
  "\<exists>c tr. runs_to (router_move (grant_kernel [7, 1])) (example_router, example_accepted) [Route_granted 1 example_grant] (c, tr)"
proof -
  let ?os = "grant_kernel [7, 1]"
  let ?tr = "example_accepted @ [(Read_exact 20 2, Bytes_read [7, 1])]"
  obtain tr' where grant: "grant_stream ?os 20 ''/b'' (Some (0, 0)) ?tr = Some (Inr example_grant, tr')"
    using example_grant_stream by blast
  have "\<not> router_is_complete example_router"
    by (simp add: router_is_complete_def example_router_def example_routes_def)
  then have "router_grant_next ?os example_router 7 example_accepted =
      Some ((route_granted example_router 1, Ok (1, example_grant)), tr')"
    using grant by (simp add: router_grant_next_def io_bind_def io_call_def io_ret_def Let_def example_router_def example_routes_def)
  from router_move.grant_next [OF this]
  have "router_move ?os (example_router, example_accepted) (Route_granted 1 example_grant) (route_granted example_router 1, tr')"
    by (simp add: route_label_def)
  then show ?thesis by (blast intro: runs_to_Cons runs_to.runs_Nil)
qed

lemma router_grants_bounded_witness:
  "\<exists>c tr. runs_to (router_move (grant_kernel [7, 1])) (example_router, example_accepted) [Route_granted 1 example_grant] (c, tr) \<and>
     rights_sent 20 tr = [[21]] \<and> peer_matches (Some (0, 0)) example_grant"
proof -
  obtain c tr where run: "runs_to (router_move (grant_kernel [7, 1])) (example_router, example_accepted)
      [Route_granted 1 example_grant] (c, tr)"
    using example_router_run by blast
  have "rt_stream example_router = 20" "rights_sent 20 example_accepted = []" "hs_fd example_grant = 21"
    "expected_peer (example_routes ! 1) = Some (0, 0)"
    by (simp_all add: example_router_def example_accepted_def example_grant_def example_routes_def)
  with run router_grants_bounded [OF example_router_accepted run] show ?thesis by auto
qed

section \<open>A session\<close>

definition example_session :: "runtime_fd_session_state \<Rightarrow> runtime_fd_session" where
  "example_session st = \<lparr>fs_stream = 20, fs_state = st\<rparr>"

lemma example_session_run:
  "\<exists>tr. runs_to (transfer_move (grant_kernel [7])) (example_session Session_AwaitingReady, example_accepted)
     [Handshake 7, Transferred [5]] (example_session Session_GrantSent, tr)"
proof -
  let ?os = "grant_kernel [7]"
  let ?tr = "example_accepted @ [(Read_exact 20 1, Bytes_read [7])]"
  have "wait_for_ready ?os (example_session Session_AwaitingReady) 7 example_accepted =
      Some ((example_session Session_Ready, Ok ()), ?tr)"
    by (simp add: wait_for_ready_def io_bind_def io_call_def io_ret_def Let_def example_session_def)
  from transfer_move.ready [OF this]
  have "transfer_move ?os (example_session Session_AwaitingReady, example_accepted) (Handshake 7) (example_session Session_Ready, ?tr)"
    by (simp add: transfer_label_def)
  moreover obtain tr' where "send_grant ?os (example_session Session_Ready) 5 ?tr = Some ((example_session Session_GrantSent, Ok ()), tr')"
    by (simp add: send_grant_def send_prepared_fd_def send_prepared_fds_def send_fds_def closing_def
        MAX_RUNTIME_SEALED_BUNDLE_ITEMS_def io_eval example_session_def)
  from transfer_move.single [OF this]
  have "transfer_move ?os (example_session Session_Ready, ?tr) (Transferred [5]) (example_session Session_GrantSent, tr')"
    by (simp add: transfer_label_def)
  ultimately show ?thesis by (blast intro: runs_to_Cons runs_to.runs_Nil)
qed

lemma session_transfers_once_witness:
  "\<exists>tr. runs_to (transfer_move (grant_kernel [7])) (example_session Session_AwaitingReady, example_accepted)
     [Handshake 7, Transferred [5]] (example_session Session_GrantSent, tr) \<and> rights_sent 20 tr = [[5]] \<and>
     (Read_exact 20 1, Bytes_read [7]) \<in> set tr"
proof -
  obtain tr where run: "runs_to (transfer_move (grant_kernel [7])) (example_session Session_AwaitingReady, example_accepted)
      [Handshake 7, Transferred [5]] (example_session Session_GrantSent, tr)"
    using example_session_run by blast
  have accepted: "broker_accept (grant_kernel [7]) example_broker [] =
      Some (Ok (example_session Session_AwaitingReady), example_accepted)"
    by (simp add: broker_accept_def io_try_def io_bind_def io_ret_def example_accept example_session_def)
  have "fs_stream (example_session st) = 20" "rights_sent 20 example_accepted = []" for st
    by (simp_all add: example_session_def example_accepted_def)
  with run session_transfers_once [OF accepted run] show ?thesis by auto
qed

section \<open>A byte stream\<close>





section \<open>A sealed snapshot\<close>

fun is_read :: "broker_event \<Rightarrow> bool" where
  "is_read (Read_fd fd n, a) = True"
| "is_read _ = False"

text \<open>A source of three bytes; the reopened source, the memory file and the reopened memory file are 30, 31 and 32.\<close>

fun sealed_kernel :: broker_os where
  "sealed_kernel tr (Fstat_fd fd) = Inode \<lparr>ino_dev = 1, ino_ino = (if fd \<in> {31, 32} then 2 else 1), ino_regular = True, ino_socket = False\<rparr>"
| "sealed_kernel tr (Fcntl_getfl fd) = Modes \<lparr>O_PATH_set = False, O_WRONLY_mode = False, O_RDONLY_mode = True\<rparr>"
| "sealed_kernel tr (Open_procfd fd) = Value (if fd = 31 then 32 else 30)"
| "sealed_kernel tr (Memfd_new name) = Value 31"
| "sealed_kernel tr (Read_fd fd n) = Bytes_read (if filter is_read tr = [] then [1, 2, 3] else [])"
| "sealed_kernel tr (Write_fd fd bs) = Value (min 2 (int (length bs)))"
| "sealed_kernel tr (Fcntl_get_seals fd) = Seal_set required_seals"
| "sealed_kernel tr _ = Value 0"

lemma sealed_kernel_counts: "write_counts sealed_kernel"
  by (simp add: write_counts_def)

lemma example_sealed:
  "\<exists>tr'. prepare_sealed_regular_file_snapshot sealed_kernel 5 16 [] = Some (Ok \<lparr>sn_fd = 32, sn_len = 3\<rparr>, tr')"
proof -
  obtain tr1 where source: "prepare_readonly_regular_file sealed_kernel 5 [] = Some (Inr 30, tr1)" and quiet: "filter is_read tr1 = []"
    by (simp add: prepare_readonly_regular_file_def closing_on_error_def io_eval same_inode_def)
  let ?tr2 = "tr1 @ [(Memfd_new ''security-lab-runtime-snapshot'', Value 31)]"
  have memfd: "io_answer sealed_kernel (Memfd_new ''security-lab-runtime-snapshot'') memfd_error tr1 = Some (Inr (Value 31), ?tr2)"
    by (simp add: io_eval)
  obtain tr3 where copy: "loop_io (snapshot_copy_step sealed_kernel 30 31 16) 0 ?tr2 = Some (Inr 3, tr3)"
    using quiet
    by (simp add: snapshot_copy_step_def snapshot_write_step_def loop_io.simps io_bind_def io_call_def io_ret_def Let_def)
  obtain tr4 where seal: "seal_snapshot sealed_kernel 31 tr3 = Some (Inr (), tr4)"
    by (simp add: seal_snapshot_def check_seals_def io_eval reject_def)
  obtain tr5 where reopen: "reopen_snapshot sealed_kernel 31 tr4 = Some (Inr 32, tr5)"
    by (simp add: reopen_snapshot_def check_seals_def closing_on_error_def io_eval reject_def same_inode_def)
  show ?thesis
    by (simp add: prepare_sealed_regular_file_snapshot_def MAX_RUNTIME_SEALED_SNAPSHOT_BYTES_def io_try_def io_bind_def io_call_def
        io_ret_def closing_def Let_def source memfd copy seal reopen)
qed

lemma sealed_snapshot_exact_witness:
  "\<exists>tr' before after a memfd copy. prepare_sealed_regular_file_snapshot sealed_kernel 5 16 [] = Some (Ok \<lparr>sn_fd = 32, sn_len = 3\<rparr>, tr') \<and>
     tr' = before @ (Fcntl_add_seals memfd required_seals, a) # after \<and> written memfd before = copy \<and> length copy = 3"
proof -
  obtain tr' where prepared: "prepare_sealed_regular_file_snapshot sealed_kernel 5 16 [] = Some (Ok \<lparr>sn_fd = 32, sn_len = 3\<rparr>, tr')"
    using example_sealed by blast
  from prepared sealed_snapshot_exact [OF prepared sealed_kernel_counts] show ?thesis by fastforce
qed

end
