(* ===== verification/Spec2Isabelle.thy ===== *)
theory Spec2Isabelle
  imports Policy_Properties Delta_Properties Seccomp_Properties Parse_Properties Parse_Values Snapshot_Properties
    Launch_Examples Elf_Examples Broker_Grant_Examples
begin

text \<open>
  A verification development for security-lab, a sandbox launcher for Linux (the Rust crate under
  \<open>src/src\<close>).

  The program reads a text policy (\<open>policy.rs\<close>), validates it, compares it with a baseline
  (\<open>authority_delta.rs\<close>), compiles its system-call rules to classic BPF and sets up a child process
  under namespaces, mounts, Landlock, limits and the filter (\<open>platform/linux.rs\<close>), supervises it as PID 1
  (\<open>platform/linux_pid_lifecycle.rs\<close>), binds executables and libraries by content (\<open>elf_interpreter.rs\<close>,
  \<open>elf_needed.rs\<close>), archives, identifies and signs trees (\<open>snapshot_identity.rs\<close>, \<open>snapshot_archive.rs\<close>,
  \<open>snapshot_signature.rs\<close>, \<open>snapshot_auth.rs\<close>), and hands descriptors and messages to a running target
  (\<open>runtime_fd_broker.rs\<close>).

  Foundations. \<open>Prelude\<close> has \<open>Result\<close>, early returns (\<open>checks\<close>, \<open>reject\<close>), loops over lists that may fail and
  sorted association lists for \<open>BTreeMap\<close> and \<open>BTreeSet\<close>; \<open>Rust_Str\<close> the string and integer parsers of
  \<open>core\<close>; \<open>Paths\<close> the component view of \<open>std::path\<close>; \<open>Bytes\<close> byte strings and little-endian integers.
  \<open>u8\<close> to \<open>u64\<close> are words; integers that the code's guards keep small are naturals.

  Policy. \<open>Policy_Model\<close> is the struct with its component types and the normalisation of legacy fields,
  \<open>Policy_Validate\<close> is \<open>SandboxPolicy::validate\<close>, one definition per block in the order of the method,
  \<open>Policy_Parse\<close> is \<open>SandboxPolicy::from_str\<close> with the handler of every key. \<open>Policy_Guarantees\<close> and
  \<open>Policy_Properties\<close> show what acceptance means (isolated volumes, distinct descriptors, confined mutation,
  content-bound dependencies, bounds); \<open>Parse_Lemmas\<close>, \<open>Parse_Invariants\<close>, \<open>Parse_Example\<close> and
  \<open>Parse_Properties\<close> that only valid policies come out of the parser, that it is strict, and that texts
  are read back; \<open>Parse_Values\<close> the round trips with the printers of \<open>authority_manifest.rs\<close>.

  Authority delta. \<open>Authority_Delta\<close> has every comparator and \<open>compare\<close>; \<open>Delta_Algebra\<close>, \<open>Delta_Report\<close> and
  \<open>Delta_Laws\<close> derive the laws of a comparator for the whole report, \<open>Delta_Properties\<close> that exit status 0
  decides an explicit order on policies.

  Seccomp. \<open>Seccomp\<close> is the compiler, \<open>Seccomp_Machine\<close> the filter machine as a locale with an interpreter
  that implements it, \<open>Seccomp_Correct\<close> and \<open>Seccomp_Properties\<close> that a compiled program decides
  exactly the policy, loads, and is monotone under the authority gate.

  Launch. \<open>Launch_Machine\<close> is the machine of the child: system calls, the kernel's answers as a parameter, and
  a monad of programs that return, exit or never return. \<open>Launch_Constants\<close>, \<open>Launch_Mounts\<close>,
  \<open>Launch_Landlock\<close> and \<open>Launch_Exec\<close> are the child's setup up to \<open>child_exec\<close>; \<open>Launch_Receipt\<close> is the host's
  reading of the result; \<open>Pid_Lifecycle\<close> the two forks and the supervision. \<open>Launch_Logic\<close>, \<open>Launch_Idle\<close>,
  \<open>Launch_Plan\<close> and \<open>Launch_Properties\<close> show that the target starts only after the whole plan and that the
  receipt is truthful; \<open>Launch_Supervision\<close> and \<open>Launch_Io\<close> that supervision ends under a deadline, reaps
  everything, and that descriptors and captured output are exact; \<open>Launch_Examples\<close> runs them.

  ELF. \<open>Elf_Image\<close> and \<open>Elf_Graph\<close> are the two readers and the search over declared dependencies, \<open>Elf_Read\<close> is
  \<open>pread_exact\<close> on the launch machine with the soundness of the readers, \<open>Elf_Examples\<close> two images.

  Snapshots. \<open>Snapshot_Identity\<close>, \<open>Snapshot_Archive\<close>, \<open>Snapshot_Capture\<close> and \<open>Snapshot_Auth\<close> are the code;
  \<open>Dirents\<close> the layout of directory entries. \<open>Snapshot_Codec\<close> and \<open>Snapshot_Format\<close> prove the parser exact for
  the archive format, \<open>Snapshot_Mirror\<close> that capture and identity walk agree, \<open>Snapshot_Bounds\<close> the budgets,
  \<open>Snapshot_Properties\<close> and \<open>Snapshot_Examples\<close> concrete trees.

  Broker. \<open>Broker_Machine\<close> has the calls, the kernel's answers over the history of calls, the errors and
  a monad with its Hoare triples; \<open>Broker_Exchange\<close> the one-round and multi-round exchanges with deadlines;
  \<open>Broker_Correlated\<close> the correlated, authenticated and acknowledged controllers; \<open>Broker_Grants\<close> the
  prepared descriptors, the grant session, the revocable streams, the reconnect and router controllers and
  the broker. \<open>Broker_Session\<close> states the abstract contract of a session as a locale;
  \<open>Broker_Simulation\<close> and \<open>Broker_Acknowledged\<close> interpret it for the three controllers;
  \<open>Broker_Properties\<close>, \<open>Broker_Acknowledged\<close>, \<open>Broker_Rounds\<close>, \<open>Broker_Routes\<close>, \<open>Broker_Transfer\<close>,
  \<open>Broker_Stream\<close> and \<open>Broker_Sealed\<close> state what every run guarantees, for all peers and kernels;
  \<open>Broker_Examples\<close> and \<open>Broker_Grant_Examples\<close> run them.

  Loops. Loops that only the kernel can end are \<open>partial_function (option)\<close>: \<open>None\<close> is not returning, and that
  supervision, teardown and \<open>pread_exact\<close> return is proved under named assumptions on the kernel. Loops over
  the code's own data are total. No definition takes fuel: the recursion of the tree walks is measured by
  the node budget the code has, the search over dependencies by the number of declared ones.

  Parameters. SHA-256, HMAC-SHA256 and Ed25519 are functions the definitions take; so are the numbers and
  macros of the C library and the answers of the kernel. What a property needs of them is a hypothesis with
  a name, as \<open>send_counts\<close> and \<open>write_counts\<close> for the answers of \<open>send\<close> and \<open>write\<close>.

  Not modelled: the preparation of a launch on the host before the fork (opening and hashing of sources), the
  materialization of archives on disk, the content store with its transactions, audits, inventory and signed
  head state, the copy-on-write export, signature and application, trust files, and the preflight probes:
  their logic is bound to the state of a real filesystem or kernel, which would have to be invented. The
  command lines, JSON and human rendering, the \<open>Display\<close> texts of errors and the stubs for other platforms
  are input and output only. Error texts are literal where the code has a literal, and the format string
  otherwise.
\<close>

end
